(* ===== verification/Prelude.thy ===== *)
theory Prelude
  imports Complex_Main "HOL-Library.Sublist"
begin

text \<open>
  Shared vocabulary of the development: Rust's \<open>Result\<close> with an explicit panic, the
  effect type of the services' asynchronous functions (a state transformer that keeps the
  state on the error path too), the combinators that stand for the question-mark operator,
  \<open>map_err\<close> and \<open>for\<close> loops, a weakest-precondition calculus for them, and the pieces of
  Rust's string library that the services use.
\<close>

named_theorems wp_simps \<open>weakest preconditions of the combinators\<close>
named_theorems eff_defs \<open>definitions of the effect combinators\<close>
named_theorems run_simps \<open>execution of the combinators on a given state\<close>

section \<open>Results and effects\<close>

datatype ('a, 'e) result = Ok 'a | Err 'e | Panic string

type_synonym ('s, 'e, 'a) eff = "'s \<Rightarrow> ('a, 'e) result \<times> 's"

fun is_ok :: "('a, 'e) result \<Rightarrow> bool" where
  "is_ok (Ok a) = True"
| "is_ok (Err e) = False"
| "is_ok (Panic p) = False"

fun map_err_result :: "('e \<Rightarrow> 'f) \<Rightarrow> ('a, 'e) result \<Rightarrow> ('a, 'f) result" where
  "map_err_result f (Ok a) = Ok a"
| "map_err_result f (Err e) = Err (f e)"
| "map_err_result f (Panic p) = Panic p"

fun and_then :: "('a, 'e) result \<Rightarrow> ('a \<Rightarrow> ('b, 'e) result) \<Rightarrow> ('b, 'e) result" where
  "and_then (Ok a) f = f a"
| "and_then (Err e) f = Err e"
| "and_then (Panic p) f = Panic p"

definition ok_or :: "'e \<Rightarrow> 'a option \<Rightarrow> ('a, 'e) result" where
  "ok_or e v = (case v of None \<Rightarrow> Err e | Some a \<Rightarrow> Ok a)"

text \<open>An operation that panics where it has no value, such as checked arithmetic.\<close>

definition or_panic :: "string \<Rightarrow> 'a option \<Rightarrow> ('a, 'e) result" where
  "or_panic p v = (case v of Some a \<Rightarrow> Ok a | None \<Rightarrow> Panic p)"

fun collect_results :: "('b \<Rightarrow> ('a, 'e) result) \<Rightarrow> 'b list \<Rightarrow> ('a list, 'e) result" where
  "collect_results f [] = Ok []"
| "collect_results f (x # xs) =
     and_then (f x) (\<lambda>y. and_then (collect_results f xs) (\<lambda>ys. Ok (y # ys)))"

definition ret :: "'a \<Rightarrow> ('s, 'e, 'a) eff" where
  "ret a s = (Ok a, s)"

definition throw :: "'e \<Rightarrow> ('s, 'e, 'a) eff" where
  "throw e s = (Err e, s)"

definition panic :: "string \<Rightarrow> ('s, 'e, 'a) eff" where
  "panic p s = (Panic p, s)"

definition of_result :: "('a, 'e) result \<Rightarrow> ('s, 'e, 'a) eff" where
  "of_result r s = (r, s)"

definition bnd :: "('s, 'e, 'a) eff \<Rightarrow> ('a \<Rightarrow> ('s, 'e, 'b) eff) \<Rightarrow> ('s, 'e, 'b) eff" where
  "bnd m f s =
     (case m s of
        (Ok a, s') \<Rightarrow> f a s'
      | (Err e, s') \<Rightarrow> (Err e, s')
      | (Panic p, s') \<Rightarrow> (Panic p, s'))"

definition map_err :: "('e \<Rightarrow> 'f) \<Rightarrow> ('s, 'e, 'a) eff \<Rightarrow> ('s, 'f, 'a) eff" where
  "map_err f m s = (case m s of (r, s') \<Rightarrow> (map_err_result f r, s'))"

text \<open>
  \<open>attempt\<close> makes the result of a call a value that the caller inspects: the shape of
  \<open>match call().await\<close> and \<open>if let Err(e) = call().await\<close>. A panic is not caught.
\<close>

definition attempt :: "('s, 'e, 'a) eff \<Rightarrow> ('s, 'f, ('a, 'e) result) eff" where
  "attempt m s =
     (case m s of
        (Ok a, s') \<Rightarrow> (Ok (Ok a), s')
      | (Err e, s') \<Rightarrow> (Ok (Err e), s')
      | (Panic p, s') \<Rightarrow> (Panic p, s'))"

primrec for_each :: "('b \<Rightarrow> ('s, 'e, unit) eff) \<Rightarrow> 'b list \<Rightarrow> ('s, 'e, unit) eff" where
  "for_each f [] = ret ()"
| "for_each f (x # xs) = bnd (f x) (\<lambda>_. for_each f xs)"

text \<open>The effects of a component run on a pair: its own state and one it does not touch.\<close>

definition on_fst :: "('s, 'e, 'a) eff \<Rightarrow> ('s \<times> 'x, 'e, 'a) eff" where
  "on_fst m p = (case m (fst p) of (r, s') \<Rightarrow> (r, (s', snd p)))"

definition on_snd :: "('x, 'e, 'a) eff \<Rightarrow> ('s \<times> 'x, 'e, 'a) eff" where
  "on_snd m p = (case m (snd p) of (r, x') \<Rightarrow> (r, (fst p, x')))"

lemmas eff_defs' [eff_defs] =
  ret_def throw_def panic_def of_result_def bnd_def map_err_def attempt_def on_fst_def on_snd_def

lemma run_ret [run_simps]: "ret a s = (Ok a, s)"
  by (simp add: ret_def)

lemma run_throw [run_simps]: "throw e s = (Err e, s)"
  by (simp add: throw_def)

lemma run_panic [run_simps]: "panic p s = (Panic p, s)"
  by (simp add: panic_def)

lemma run_of_result [run_simps]: "of_result r s = (r, s)"
  by (simp add: of_result_def)

lemma run_bnd_Ok [run_simps]: "m s = (Ok a, s') \<Longrightarrow> bnd m f s = f a s'"
  by (simp add: bnd_def)

lemma run_bnd_Err [run_simps]: "m s = (Err e, s') \<Longrightarrow> bnd m f s = (Err e, s')"
  by (simp add: bnd_def)

lemma run_bnd_Panic [run_simps]: "m s = (Panic p, s') \<Longrightarrow> bnd m f s = (Panic p, s')"
  by (simp add: bnd_def)

lemma bnd_ret_left [simp]: "bnd (ret a) f = f a"
  by (simp add: bnd_def ret_def fun_eq_iff)

lemma bnd_throw_left [simp]: "bnd (throw e) f = throw e"
  by (simp add: bnd_def throw_def fun_eq_iff)

lemma bnd_assoc: "bnd (bnd m f) g = bnd m (\<lambda>a. bnd (f a) g)"
  by (simp add: bnd_def fun_eq_iff split: prod.splits result.splits)

lemma on_fst_map_err_run:
  assumes "on_fst (map_err f m) (s, y) = (r, (t, y'))"
  obtains q where "m s = (q, t)" "r = map_err_result f q" "y' = y"
  using assms by (cases "m s") (auto simp: on_fst_def map_err_def)

lemma snd_map_err [simp]: "snd (map_err f m s) = snd (m s)"
  by (simp add: map_err_def split: prod.split)

text \<open>A successful sequence: both parts succeeded.\<close>

lemma bnd_Ok_iff:
  "bnd m f s = (Ok b, t) \<longleftrightarrow> (\<exists>a s'. m s = (Ok a, s') \<and> f a s' = (Ok b, t))"
  by (simp add: bnd_def split: prod.splits result.splits)

lemma on_fst_Ok_iff: "on_fst m s = (Ok a, t) \<longleftrightarrow> (\<exists>u. m (fst s) = (Ok a, u) \<and> t = (u, snd s))"
  by (cases "m (fst s)") (auto simp: on_fst_def)

lemma on_snd_Ok_iff: "on_snd m s = (Ok a, t) \<longleftrightarrow> (\<exists>u. m (snd s) = (Ok a, u) \<and> t = (fst s, u))"
  by (cases "m (snd s)") (auto simp: on_snd_def)

lemma map_err_Ok_iff: "map_err f m s = (Ok a, t) \<longleftrightarrow> m s = (Ok a, t)"
proof (cases "m s")
  case (Pair r s')
  then show ?thesis by (cases r) (simp_all add: map_err_def)
qed

lemma of_result_Ok_iff: "of_result r s = (Ok a, t) \<longleftrightarrow> r = Ok a \<and> t = s"
  by (auto simp: of_result_def)

lemmas ok_iffs = bnd_Ok_iff map_err_Ok_iff of_result_Ok_iff

lemma and_then_Ok_iff: "and_then r f = Ok b \<longleftrightarrow> (\<exists>a. r = Ok a \<and> f a = Ok b)"
  by (cases r) auto

lemma map_err_result_Ok_iff [simp]: "map_err_result f r = Ok a \<longleftrightarrow> r = Ok a"
  by (cases r) auto

lemma ok_or_Ok_iff [simp]: "ok_or e v = Ok a \<longleftrightarrow> v = Some a"
  by (cases v) (auto simp: ok_or_def)

lemma or_panic_Ok_iff [simp]: "or_panic p v = Ok a \<longleftrightarrow> v = Some a"
  by (cases v) (auto simp: or_panic_def)

lemma collect_results_Ok_iff:
  "collect_results f xs = Ok ys \<longleftrightarrow> list_all2 (\<lambda>x y. f x = Ok y) xs ys"
  by (induction xs arbitrary: ys) (auto simp: and_then_Ok_iff list_all2_Cons1)

section \<open>Weakest preconditions\<close>

text \<open>
  \<open>wp m Q E s\<close>: running \<open>m\<close> from \<open>s\<close> ends in a state with \<open>Q\<close> of the value when it
  succeeds, and in a state with \<open>E\<close> when it returns an error or panics.
\<close>

definition wp :: "('s, 'e, 'a) eff \<Rightarrow> ('a \<Rightarrow> 's \<Rightarrow> bool) \<Rightarrow> ('s \<Rightarrow> bool) \<Rightarrow> 's \<Rightarrow> bool" where
  "wp m Q E s =
     (case m s of (Ok a, s') \<Rightarrow> Q a s' | (Err e, s') \<Rightarrow> E s' | (Panic p, s') \<Rightarrow> E s')"

lemma wp_ret [wp_simps]: "wp (ret a) Q E s = Q a s"
  by (simp add: wp_def ret_def)

lemma wp_throw [wp_simps]: "wp (throw e) Q E s = E s"
  by (simp add: wp_def throw_def)

lemma wp_panic [wp_simps]: "wp (panic p) Q E s = E s"
  by (simp add: wp_def panic_def)

lemma wp_of_result [wp_simps]:
  "wp (of_result r) Q E s = (case r of Ok a \<Rightarrow> Q a s | Err e \<Rightarrow> E s | Panic p \<Rightarrow> E s)"
  by (simp add: wp_def of_result_def split: result.splits)

lemma wp_bnd [wp_simps]: "wp (bnd m f) Q E s = wp m (\<lambda>a. wp (f a) Q E) E s"
  by (simp add: wp_def bnd_def split: prod.splits result.splits)

lemma wp_map_err [wp_simps]: "wp (map_err f m) Q E s = wp m Q E s"
  by (cases "m s"; cases "fst (m s)") (simp_all add: wp_def map_err_def)

lemma wp_attempt [wp_simps]:
  "wp (attempt m) Q E s =
     (case m s of
        (Ok a, s') \<Rightarrow> Q (Ok a) s' | (Err e, s') \<Rightarrow> Q (Err e) s' | (Panic p, s') \<Rightarrow> E s')"
  by (simp add: wp_def attempt_def split: prod.splits result.splits)

lemma wp_on_fst [wp_simps]:
  "wp (on_fst m) Q E p = wp m (\<lambda>a s'. Q a (s', snd p)) (\<lambda>s'. E (s', snd p)) (fst p)"
  by (simp add: wp_def on_fst_def split: prod.splits result.splits)

lemma wp_on_snd [wp_simps]:
  "wp (on_snd m) Q E p = wp m (\<lambda>a x'. Q a (fst p, x')) (\<lambda>x'. E (fst p, x')) (snd p)"
  by (simp add: wp_def on_snd_def split: prod.splits result.splits)

lemma wp_trivial [simp]: "wp m (\<lambda>_ _. True) (\<lambda>_. True) s"
  by (simp add: wp_def split: prod.splits result.splits)

lemma wp_throw_True [simp]: "wp (throw e) Q (\<lambda>_. True) = (\<lambda>_. True)"
  by (simp add: wp_throw fun_eq_iff)

lemma wp_mono:
  assumes "wp m Q E s"
    and "\<And>a t. Q a t \<Longrightarrow> Q' a t" and "\<And>t. E t \<Longrightarrow> E' t"
  shows "wp m Q' E' s"
  using assms by (auto simp: wp_def split: prod.splits result.splits)

lemma wp_Ok_D: "wp m Q E s \<Longrightarrow> m s = (Ok a, t) \<Longrightarrow> Q a t"
  by (simp add: wp_def)

lemma wp_total_D: "wp m (\<lambda>_. P) P s \<Longrightarrow> m s = (r, t) \<Longrightarrow> P t"
  by (simp add: wp_def split: result.splits)

lemma wp_conj:
  "wp m Q1 E1 s \<Longrightarrow> wp m Q2 E2 s \<Longrightarrow> wp m (\<lambda>a t. Q1 a t \<and> Q2 a t) (\<lambda>t. E1 t \<and> E2 t) s"
  by (simp add: wp_def split: prod.splits result.splits)

text \<open>A loop keeps what its body keeps.\<close>

lemma wp_for_each:
  assumes "\<And>x t. x \<in> set xs \<Longrightarrow> I t \<Longrightarrow> wp (f x) (\<lambda>_. I) E t" and "I s"
  shows "wp (for_each f xs) (\<lambda>_. I) E s"
  using assms
proof (induction xs arbitrary: s)
  case Nil
  then show ?case by (simp add: wp_ret)
next
  case (Cons x xs)
  have "wp (f x) (\<lambda>_. I) E s" using Cons.prems by simp
  then have "wp (f x) (\<lambda>_. wp (for_each f xs) (\<lambda>_. I) E) E s"
    by (rule wp_mono) (use Cons in auto)
  then show ?case by (simp add: wp_bnd)
qed

section \<open>Sequences of requests\<close>

definition serve_all :: "('u \<Rightarrow> 'q \<Rightarrow> ('s, 'e, 'a) eff) \<Rightarrow> ('u \<times> 'q) list \<Rightarrow> 's \<Rightarrow> 's" where
  "serve_all serve reqs s = fold (\<lambda>(u, q) t. snd (serve u q t)) reqs s"

text \<open>A service whose requests keep an invariant of its state, however they are interleaved.\<close>

locale invariant_service =
  fixes serve :: "'u \<Rightarrow> 'q \<Rightarrow> ('s, 'e, 'a) eff"
    and typed :: "'q \<Rightarrow> bool"
    and inv :: "'s \<Rightarrow> bool"
  assumes serve_inv: "typed q \<Longrightarrow> inv s \<Longrightarrow> inv (snd (serve u q s))"
begin

lemma serve_all_inv: "list_all (\<lambda>(u, q). typed q) reqs \<Longrightarrow> inv s \<Longrightarrow> inv (serve_all serve reqs s)"
  by (induction reqs arbitrary: s) (auto simp: serve_all_def serve_inv)

end

text \<open>One that also writes only where its user may: the part of the state that belongs to an owner
  changes only by requests of users with access to it.\<close>

locale request_service = invariant_service serve typed inv
  for serve :: "'u \<Rightarrow> 'q \<Rightarrow> ('s, 'e, 'a) eff" and typed :: "'q \<Rightarrow> bool" and inv :: "'s \<Rightarrow> bool" +
  fixes part :: "'o \<Rightarrow> 's \<Rightarrow> 'p"
    and may :: "'u \<Rightarrow> 'o \<Rightarrow> bool"
  assumes serve_frame: "typed q \<Longrightarrow> inv s \<Longrightarrow> \<not> may u v \<Longrightarrow> part v (snd (serve u q s)) = part v s"
begin

lemma serve_all_frame:
  "list_all (\<lambda>(u, q). typed q \<and> \<not> may u v) reqs \<Longrightarrow> inv s \<Longrightarrow> part v (serve_all serve reqs s) = part v s"
  by (induction reqs arbitrary: s) (auto simp: serve_all_def serve_frame serve_inv)

end

section \<open>Strings\<close>

text \<open>
  A Rust \<open>String\<close> is its UTF-8 bytes, so \<open>len\<close> is \<open>length\<close> of the model's string.
  \<open>str::trim\<close> removes leading and trailing code points with the Unicode property
  White\_Space; their UTF-8 encodings are listed here.
\<close>

definition white_space :: "string list" where
  "white_space =
     [[CHR 0x09], [CHR 0x0A], [CHR 0x0B], [CHR 0x0C], [CHR 0x0D], [CHR 0x20],
      [CHR 0xC2, CHR 0x85], [CHR 0xC2, CHR 0xA0], [CHR 0xE1, CHR 0x9A, CHR 0x80]]
     @ map (\<lambda>b. [CHR 0xE2, CHR 0x80, b])
         [CHR 0x80, CHR 0x81, CHR 0x82, CHR 0x83, CHR 0x84, CHR 0x85, CHR 0x86, CHR 0x87,
          CHR 0x88, CHR 0x89, CHR 0x8A, CHR 0xA8, CHR 0xA9, CHR 0xAF]
     @ [[CHR 0xE2, CHR 0x81, CHR 0x9F], [CHR 0xE3, CHR 0x80, CHR 0x80]]"

lemma white_space_nonempty: "w \<in> set white_space \<Longrightarrow> w \<noteq> []"
  by (auto simp: white_space_def)

function strip_prefixes :: "string list \<Rightarrow> string \<Rightarrow> string" where
  "strip_prefixes ws s =
     (case find (\<lambda>w. w \<noteq> [] \<and> prefix w s) ws of
        None \<Rightarrow> s
      | Some w \<Rightarrow> strip_prefixes ws (drop (length w) s))"
  by pat_completeness auto
termination
  by (relation "measure (\<lambda>(ws, s). length s)")
     (auto simp: find_Some_iff prefix_def)

declare strip_prefixes.simps [simp del]

definition trim :: "string \<Rightarrow> string" where
  "trim s = rev (strip_prefixes (map rev white_space) (rev (strip_prefixes white_space s)))"

lemma length_strip_prefixes: "length (strip_prefixes ws s) \<le> length s"
proof (induction ws s rule: strip_prefixes.induct)
  case (1 ws s)
  then show ?case
    by (subst strip_prefixes.simps) (fastforce split: option.splits)
qed

lemma length_trim: "length (trim s) \<le> length s"
  using length_strip_prefixes[of "map rev white_space" "rev (strip_prefixes white_space s)"]
    length_strip_prefixes[of white_space s]
  by (simp add: trim_def)

text \<open>Decimal rendering of machine integers, as \<open>format!\<close> does it.\<close>

definition digit :: "nat \<Rightarrow> char" where
  "digit n = char_of (48 + n)"

fun show_nat :: "nat \<Rightarrow> string" where
  "show_nat n = (if n < 10 then [digit n] else show_nat (n div 10) @ [digit (n mod 10)])"

declare show_nat.simps [simp del]

definition show_int :: "int \<Rightarrow> string" where
  "show_int i = (if i < 0 then ''-'' @ show_nat (nat (- i)) else show_nat (nat i))"

fun join_with :: "string \<Rightarrow> string list \<Rightarrow> string" where
  "join_with sep [] = []"
| "join_with sep [x] = x"
| "join_with sep (x # y # xs) = x @ sep @ join_with sep (y # xs)"

section \<open>Lists as tables\<close>

text \<open>
  A table is the list of its rows in insertion order. \<open>update_where\<close> is
  \<open>UPDATE ... SET ... WHERE\<close>; the number of rows affected is \<open>count_where\<close>.
\<close>

definition update_where :: "('r \<Rightarrow> bool) \<Rightarrow> ('r \<Rightarrow> 'r) \<Rightarrow> 'r list \<Rightarrow> 'r list" where
  "update_where P f rows = map (\<lambda>r. if P r then f r else r) rows"

definition count_where :: "('r \<Rightarrow> bool) \<Rightarrow> 'r list \<Rightarrow> nat" where
  "count_where P rows = length (filter P rows)"

lemma update_where_Nil [simp]: "update_where P f [] = []"
  by (simp add: update_where_def)

lemma update_where_Cons [simp]:
  "update_where P f (r # rows) = (if P r then f r else r) # update_where P f rows"
  by (simp add: update_where_def)

lemma update_where_append [simp]:
  "update_where P f (xs @ ys) = update_where P f xs @ update_where P f ys"
  by (simp add: update_where_def)

lemma length_update_where [simp]: "length (update_where P f rows) = length rows"
  by (simp add: update_where_def)

lemma set_update_where:
  "set (update_where P f rows) = (\<lambda>r. if P r then f r else r) ` set rows"
  by (simp add: update_where_def)

lemma map_update_where [simp]:
  "(\<And>r. k (f r) = k r) \<Longrightarrow> map k (update_where P f rows) = map k rows"
  by (simp add: update_where_def)

lemma image_update_where [simp]: "(\<And>r. k (f r) = k r) \<Longrightarrow> k ` set (update_where P f rows) = k ` set rows"
  by (metis map_update_where set_map)

lemma distinct_update_one:
  assumes "distinct (map k rows)" "distinct (map i rows)" "\<And>r. P r \<Longrightarrow> i r = a"
    and "\<And>r. r \<in> set rows \<Longrightarrow> P r \<Longrightarrow> k (f r) = k r \<or> (\<forall>q\<in>set rows. \<not> P q \<longrightarrow> k q \<noteq> k (f r))"
  shows "distinct (map k (update_where P f rows))"
  using assms
proof (induction rows)
  case (Cons r rows)
  have step: "distinct (map k (update_where P f rows))" by (rule Cons.IH) (use Cons.prems in auto)
  have single: "\<not> P q" if "q \<in> set rows" "P r" for q using Cons.prems(2,3) that by force
  have "(if P r then k (f r) else k r) \<noteq> k (if P q then f q else q)" if "q \<in> set rows" for q
    using Cons.prems(1) Cons.prems(4)[of r] Cons.prems(4)[of q] single[OF that] that by (auto simp: image_iff) metis+
  then have "(if P r then k (f r) else k r) \<notin> k ` set (update_where P f rows)"
    by (cases "P r") (force simp: set_update_where)+
  then show ?case using step by (simp split: if_splits)
qed simp

lemma list_all_update_where:
  "list_all Q (update_where P f xs) \<longleftrightarrow> (\<forall>a \<in> set xs. Q (if P a then f a else a))"
  by (auto simp: list_all_iff update_where_def)

lemma filter_update_where:
  "(\<And>r. r \<in> set rows \<Longrightarrow> P r \<Longrightarrow> \<not> Q r \<and> \<not> Q (f r)) \<Longrightarrow> filter Q (update_where P f rows) = filter Q rows"
  by (induction rows) auto

lemma update_where_id: "(\<And>r. r \<in> set rows \<Longrightarrow> \<not> P r) \<Longrightarrow> update_where P f rows = rows"
  by (induction rows) auto

lemma count_where_zero_iff: "count_where P rows = 0 \<longleftrightarrow> (\<forall>r\<in>set rows. \<not> P r)"
  by (simp add: count_where_def filter_empty_conv)

lemma count_where_le_one:
  assumes "distinct (map k rows)" shows "count_where (\<lambda>r. k r = v) rows \<le> 1"
  using assms unfolding count_where_def
  by (induction rows) (auto simp: filter_empty_conv image_iff)

lemma count_where_key:
  assumes "distinct (map k rows)" and "r \<in> set rows" and "k r = v"
  shows "count_where (\<lambda>r. k r = v) rows = 1"
proof -
  have "count_where (\<lambda>r. k r = v) rows \<noteq> 0"
    using assms(2,3) by (auto simp: count_where_zero_iff)
  with count_where_le_one[OF assms(1), of v] show ?thesis by simp
qed

lemma find_key_unique:
  "distinct (map k rows) \<Longrightarrow> r \<in> set rows \<Longrightarrow> k r = v \<Longrightarrow> find (\<lambda>r. k r = v) rows = Some r"
  by (induction rows) (auto simp: image_iff)

lemma filter_key_unique:
  "distinct (map k rows) \<Longrightarrow> r \<in> set rows \<Longrightarrow> k r = v \<Longrightarrow> filter (\<lambda>r. k r = v) rows = [r]"
  by (induction rows) (auto simp: filter_empty_conv image_iff)

lemma sum_list_update_where:
  assumes "\<And>r. r \<in> set rows \<Longrightarrow> P r \<Longrightarrow> g (f r) = g r"
  shows "sum_list (map g (update_where P f rows)) = sum_list (map g rows)"
  using assms by (induction rows) auto

end
