(* ===== verification/Environment.thy ===== *)
theory Environment
  imports Prelude
begin

text \<open>
  What the services share with the outside: identifiers, amounts, JSON values, the error
  type of \<open>shared/src/errors.rs\<close>, and the third-party functions they call. Those functions
  (UUID and decimal rendering and parsing, decimal arithmetic, JSON and timestamp
  rendering, Unicode case mapping and character classes, the text of a database error) are the fields of one
  record, an argument of every definition that calls them; the facts the code relies on
  are the predicates at the end.
\<close>

section \<open>Identifiers, amounts, JSON\<close>

text \<open>
  A UUID is a 128-bit identifier that the services only compare. A \<open>Decimal\<close> is the
  number it denotes: comparison and equality of \<open>rust_decimal\<close> are numeric.
\<close>

type_synonym uuid = nat
type_synonym decimal = rat
type_synonym timestamp = int \<comment> \<open>microseconds, the resolution of \<open>TIMESTAMPTZ\<close>\<close>

text \<open>The variants of \<open>serde_json::Value\<close>, with integers apart from other numbers.\<close>

datatype json =
    JNull
  | JBool bool
  | JInt int
  | JFloat rat
  | JString string
  | JArray "json list"
  | JObject "(string \<times> json) list"

text \<open>\<open>value["key"]\<close> is null for a missing key and for a value that is not an object.\<close>

fun jget :: "json \<Rightarrow> string \<Rightarrow> json" where
  "jget (JObject kvs) k = (case map_of kvs k of Some v \<Rightarrow> v | None \<Rightarrow> JNull)"
| "jget _ k = JNull"

fun as_str :: "json \<Rightarrow> string option" where
  "as_str (JString s) = Some s"
| "as_str _ = None"

fun as_array :: "json \<Rightarrow> json list option" where
  "as_array (JArray xs) = Some xs"
| "as_array _ = None"

fun as_i64 :: "json \<Rightarrow> int option" where
  "as_i64 (JInt i) = (if - (2 ^ 63) \<le> i \<and> i < 2 ^ 63 then Some i else None)"
| "as_i64 _ = None"

fun as_u64 :: "json \<Rightarrow> int option" where
  "as_u64 (JInt i) = (if 0 \<le> i \<and> i < 2 ^ 64 then Some i else None)"
| "as_u64 _ = None"

text \<open>The truncating casts \<open>as i32\<close> (two's complement) and \<open>as u32\<close>.\<close>

definition cast_i32 :: "int \<Rightarrow> int" where
  "cast_i32 i = (i + 2 ^ 31) mod 2 ^ 32 - 2 ^ 31"

definition cast_u32 :: "int \<Rightarrow> nat" where
  "cast_u32 i = nat (i mod 2 ^ 32)"

lemma cast_i32_id: "- (2 ^ 31) \<le> i \<Longrightarrow> i < 2 ^ 31 \<Longrightarrow> cast_i32 i = i"
  by (simp add: cast_i32_def)

lemma cast_i32_range: "- (2 ^ 31) \<le> cast_i32 i \<and> cast_i32 i < 2 ^ 31"
  using pos_mod_bound[of "2 ^ 32" "i + 2 ^ 31"] pos_mod_sign[of "2 ^ 32" "i + 2 ^ 31"]
  by (simp add: cast_i32_def)

lemma cast_u32_range: "cast_u32 i < 2 ^ 32"
  using pos_mod_bound[of "2 ^ 32" i] by (simp add: cast_u32_def nat_less_iff)

section \<open>Errors\<close>

datatype app_error =
    NotFound string
  | Forbidden string
  | Unauthorized string
  | AlreadyExists string
  | InternalServerError string
  | BadRequest string

fun app_error_str :: "app_error \<Rightarrow> string" where
  "app_error_str (NotFound m) = ''Not found: '' @ m"
| "app_error_str (Forbidden m) = ''Forbidden: '' @ m"
| "app_error_str (Unauthorized m) = ''Unauthorized: '' @ m"
| "app_error_str (AlreadyExists m) = ''Already exists: '' @ m"
| "app_error_str (InternalServerError m) = ''Internal server error: '' @ m"
| "app_error_str (BadRequest m) = ''Bad request: '' @ m"

text \<open>The HTTP status and body of an error response.\<close>

fun into_response :: "app_error \<Rightarrow> nat \<times> string" where
  "into_response (NotFound m) = (404, m)"
| "into_response (Unauthorized m) = (401, m)"
| "into_response (Forbidden m) = (403, m)"
| "into_response (InternalServerError m) = (500, m)"
| "into_response (BadRequest m) = (400, m)"
| "into_response (AlreadyExists m) = (409, m)"

text \<open>What a statement can report: a violated constraint by its name, an empty result
  where one row was wanted, a failed transaction, a lost connection.\<close>

datatype db_error =
    UniqueViolation string
  | CheckViolation string
  | ForeignKeyViolation string
  | NumericOutOfRange
  | StringTooLong
  | DatatypeMismatch
  | RowNotFound
  | TxAborted
  | ConnectionLost

section \<open>Column types\<close>

text \<open>
  \<open>NUMERIC(19, 4)\<close> rounds to four decimal places, ties away from zero, and rejects what
  then has more than fifteen digits before the point. \<open>VARCHAR(n)\<close> counts code points: the
  bytes that are not UTF-8 continuation bytes; excess spaces are cut, other excess is an
  error.
\<close>

definition round_places :: "nat \<Rightarrow> decimal \<Rightarrow> decimal" where
  "round_places k v = sgn v * of_int \<lfloor>\<bar>v\<bar> * 10 ^ k + 1 / 2\<rfloor> / 10 ^ k"

definition numeric_col :: "decimal \<Rightarrow> db_error + decimal" where
  "numeric_col v =
     (let r = round_places 4 v in if \<bar>r\<bar> \<ge> 10 ^ 15 then Inl NumericOutOfRange else Inr r)"

definition continuation :: "char \<Rightarrow> bool" where
  "continuation c \<longleftrightarrow> (128::nat) \<le> of_char c \<and> (of_char c :: nat) < 192"

definition char_count :: "string \<Rightarrow> nat" where
  "char_count s = length (filter (\<lambda>c. \<not> continuation c) s)"

fun take_chars :: "nat \<Rightarrow> string \<Rightarrow> string" where
  "take_chars n [] = []"
| "take_chars n (c # cs) =
     (if continuation c then c # take_chars n cs
      else case n of 0 \<Rightarrow> [] | Suc m \<Rightarrow> c # take_chars m cs)"

definition varchar_col :: "nat \<Rightarrow> string \<Rightarrow> db_error + string" where
  "varchar_col n s =
     (if char_count s \<le> n then Inr s
      else let kept = take_chars n s in
        if list_all (\<lambda>c. c = CHR '' '') (drop (length kept) s) then Inr kept else Inl StringTooLong)"

definition opt_varchar :: "nat \<Rightarrow> string option \<Rightarrow> db_error + string option" where
  "opt_varchar n v =
     (case v of
        None \<Rightarrow> Inr None
      | Some s \<Rightarrow> (case varchar_col n s of Inl e \<Rightarrow> Inl e | Inr s' \<Rightarrow> Inr (Some s')))"

text \<open>\<open>INTEGER\<close> columns.\<close>

definition int4 :: "int \<Rightarrow> bool" where
  "int4 v \<longleftrightarrow> - (2 ^ 31) \<le> v \<and> v < 2 ^ 31"

lemma char_count_le_length: "char_count s \<le> length s"
  by (simp add: char_count_def)

lemma varchar_col_short: "length s \<le> n \<Longrightarrow> varchar_col n s = Inr s"
  using char_count_le_length[of s] by (simp add: varchar_col_def)

text \<open>An amount with at most four decimals is stored as it is.\<close>

lemma round_places_exact: "v * 10 ^ k \<in> \<int> \<Longrightarrow> round_places k v = v"
proof -
  assume "v * 10 ^ k \<in> \<int>"
  then obtain m where m: "v * 10 ^ k = of_int m" by (elim Ints_cases)
  have v: "\<bar>v\<bar> * 10 ^ k = of_int \<bar>m\<bar>"
    using arg_cong[OF m, of abs] by (simp add: abs_mult)
  have "\<lfloor>\<bar>v\<bar> * 10 ^ k + 1 / 2\<rfloor> = \<bar>m\<bar>" unfolding v by (rule floor_unique) simp_all
  then have "round_places k v = sgn v * (\<bar>v\<bar> * 10 ^ k) / 10 ^ k"
    by (simp add: round_places_def v)
  also have "\<dots> = sgn v * \<bar>v\<bar>" by simp
  finally show ?thesis by (simp add: sgn_mult_abs)
qed

section \<open>Third-party functions\<close>

record externs =
  uuid_str :: "uuid \<Rightarrow> string"
  uuid_parse :: "string \<Rightarrow> uuid option"
  dec_str :: "decimal \<Rightarrow> string"
  dec_parse :: "string \<Rightarrow> decimal option"
  dec_mul :: "decimal \<Rightarrow> decimal \<Rightarrow> decimal option" \<comment> \<open>\<open>None\<close>: overflow panic\<close>
  dec_add :: "decimal \<Rightarrow> decimal \<Rightarrow> decimal option"
  dt_str :: "timestamp \<Rightarrow> string"
  dt_parse :: "string \<Rightarrow> timestamp option"
  dt_add :: "timestamp \<Rightarrow> nat \<Rightarrow> timestamp option" \<comment> \<open>\<open>None\<close>: overflow panic\<close>
  json_text :: "json \<Rightarrow> string"
  upper :: "string \<Rightarrow> string"
  lower :: "string \<Rightarrow> string"
  alnum :: "string \<Rightarrow> bool" \<comment> \<open>\<open>char::is_alphanumeric\<close> of one encoded character\<close>
  db_text :: "db_error \<Rightarrow> string"
  deser_text :: "json \<Rightarrow> string" \<comment> \<open>the message of a failed deserialisation\<close>
  json_parse :: "string \<Rightarrow> json option"
  parse_text :: "string \<Rightarrow> string" \<comment> \<open>the message of a failed parse of bytes\<close>

text \<open>Parsing what was rendered gives the value back.\<close>

definition uuid_codec :: "externs \<Rightarrow> bool" where
  "uuid_codec x \<longleftrightarrow> (\<forall>u. uuid_parse x (uuid_str x u) = Some u)"

definition dt_codec :: "externs \<Rightarrow> bool" where
  "dt_codec x \<longleftrightarrow> (\<forall>t. dt_parse x (dt_str x t) = Some t)"

text \<open>
  A \<open>Decimal\<close> holds a 96-bit integer and a power of ten up to 28. Its arithmetic is exact
  where the exact result is such a number.
\<close>

definition representable :: "decimal \<Rightarrow> bool" where
  "representable d \<longleftrightarrow> (\<exists>m k. k \<le> (28::nat) \<and> \<bar>m\<bar> < 2 ^ 96 \<and> d = of_int m / 10 ^ k)"

definition dec_codec :: "externs \<Rightarrow> bool" where
  "dec_codec x \<longleftrightarrow> (\<forall>d. representable d \<longrightarrow> dec_parse x (dec_str x d) = Some d)"

definition dec_exact :: "externs \<Rightarrow> bool" where
  "dec_exact x \<longleftrightarrow>
     (\<forall>a b. representable (a * b) \<longrightarrow> dec_mul x a b = Some (a * b)) \<and>
     (\<forall>a b. representable (a + b) \<longrightarrow> dec_add x a b = Some (a + b))"

lemma uuid_codecD [simp]: "uuid_codec x \<Longrightarrow> uuid_parse x (uuid_str x u) = Some u"
  by (simp add: uuid_codec_def)

lemma representable_int: "\<bar>m\<bar> < 2 ^ 96 \<Longrightarrow> representable (of_int m)"
  unfolding representable_def by (intro exI[of _ m] exI[of _ 0]) simp

lemma representable_numeral [simp]: "(numeral k :: int) < 2 ^ 96 \<Longrightarrow> representable (numeral k)"
  using representable_int[of "numeral k"] by simp

lemma dec_codecD [simp]: "dec_codec x \<Longrightarrow> representable d \<Longrightarrow> dec_parse x (dec_str x d) = Some d"
  by (simp add: dec_codec_def)

lemma dt_codecD [simp]: "dt_codec x \<Longrightarrow> dt_parse x (dt_str x t) = Some t"
  by (simp add: dt_codec_def)

lemma uuid_str_inj: "uuid_codec x \<Longrightarrow> uuid_str x u = uuid_str x v \<longleftrightarrow> u = v"
  by (metis uuid_codecD option.inject)

text \<open>
  A concrete instance for witnesses: unary numerals for identifiers and timestamps, and
  a prefix code for amounts given by numerator and denominator.
\<close>

definition unary :: "nat \<Rightarrow> string" where
  "unary n = replicate n CHR ''1''"

definition unary_parse :: "string \<Rightarrow> nat option" where
  "unary_parse s = (if list_all (\<lambda>c. c = CHR ''1'') s then Some (length s) else None)"

definition unary_int :: "int \<Rightarrow> string" where
  "unary_int i = (if i < 0 then CHR ''-'' # unary (nat (- i)) else unary (nat i))"

definition unary_int_parse :: "string \<Rightarrow> int option" where
  "unary_int_parse s =
     (case s of
        [] \<Rightarrow> Some 0
      | c # cs \<Rightarrow>
          if c = CHR ''-'' then map_option (\<lambda>n. - int n) (unary_parse cs)
          else map_option int (unary_parse s))"

definition unary_dec :: "decimal \<Rightarrow> string" where
  "unary_dec d = (case quotient_of d of (n, m) \<Rightarrow> unary_int n @ ''/'' @ unary_int m)"

definition unary_dec_parse :: "string \<Rightarrow> decimal option" where
  "unary_dec_parse s =
     (case (unary_int_parse (takeWhile (\<lambda>c. c \<noteq> CHR ''/'') s),
            unary_int_parse (tl (dropWhile (\<lambda>c. c \<noteq> CHR ''/'') s))) of
        (Some n, Some m) \<Rightarrow> Some (of_int n / of_int m)
      | _ \<Rightarrow> None)"

definition demo_externs :: externs where
  "demo_externs =
     \<lparr>uuid_str = unary, uuid_parse = unary_parse,
      dec_str = unary_dec, dec_parse = unary_dec_parse,
      dec_mul = (\<lambda>a b. Some (a * b)), dec_add = (\<lambda>a b. Some (a + b)),
      dt_str = unary_int, dt_parse = unary_int_parse, dt_add = (\<lambda>t d. Some (t + int d)),
      json_text = (\<lambda>j. ''''), upper = (\<lambda>s. s), lower = (\<lambda>s. s),
      alnum = (\<lambda>ch. ch \<noteq> [] \<and> list_all (\<lambda>c. (48::nat) \<le> of_char c \<and> (of_char c :: nat) \<le> 57 \<or>
        (65::nat) \<le> of_char c \<and> (of_char c :: nat) \<le> 90 \<or> (97::nat) \<le> of_char c \<and> (of_char c :: nat) \<le> 122) ch),
      db_text = (\<lambda>e. ''db error''),
      deser_text = (\<lambda>j. ''deserialisation error''),
      json_parse = (\<lambda>s. None), parse_text = (\<lambda>s. ''parse error'')\<rparr>"

lemma unary_parse_unary [simp]: "unary_parse (unary n) = Some n"
  by (simp add: unary_parse_def unary_def list_all_iff)

lemma unary_int_parse_unary_int [simp]: "unary_int_parse (unary_int i) = Some i"
  by (cases "nat i") (auto simp: unary_int_parse_def unary_int_def unary_def unary_parse_def
        list_all_iff split: list.splits)

lemma unary_int_no_slash: "CHR ''/'' \<notin> set (unary_int i)"
  by (auto simp: unary_int_def unary_def)

lemma unary_dec_parse_unary_dec [simp]: "unary_dec_parse (unary_dec d) = Some d"
proof -
  obtain n m where q: "quotient_of d = (n, m)" by fastforce
  have pre: "takeWhile (\<lambda>c. c \<noteq> CHR ''/'') (unary_int n @ CHR ''/'' # unary_int m) = unary_int n"
    using unary_int_no_slash[of n] by (subst takeWhile_append2) auto
  have post: "dropWhile (\<lambda>c. c \<noteq> CHR ''/'') (unary_int n @ CHR ''/'' # unary_int m)
      = CHR ''/'' # unary_int m"
    using unary_int_no_slash by (subst dropWhile_append2) auto
  from q have "d = of_int n / of_int m" by (rule quotient_of_div)
  then show ?thesis using q pre post by (simp add: unary_dec_def unary_dec_parse_def)
qed

lemma demo_codecs [simp]:
  "uuid_codec demo_externs" "dec_codec demo_externs" "dt_codec demo_externs" "dec_exact demo_externs"
  by (simp_all add: demo_externs_def uuid_codec_def dec_codec_def dt_codec_def dec_exact_def)

end
