(* ===== verification/Database.thy ===== *)
theory Database
  imports Environment
begin

text \<open>
  One service's connection to its Postgres database: the committed data, the view of the
  open transaction, and what the environment supplies (the transaction time, the clock,
  the identifiers that \<open>uuidv7()\<close> and \<open>Uuid::now_v7\<close> generate, and the statements that
  will fail with a lost connection). A statement runs on the pool, where it is its own
  transaction, or on the open transaction; an error in a transaction aborts it, and later
  statements of an aborted transaction fail. \<open>with_transaction\<close> is
  \<open>shared/src/db/transaction_support.rs\<close>.
\<close>

named_theorems frame_rules \<open>what an effect does not change\<close>

record 'd srv =
  committed :: 'd
  current :: 'd
  aborted :: bool
  db_now :: timestamp
  faults :: "bool list"
  uuids :: "nat \<Rightarrow> uuid"
  clock :: "nat \<Rightarrow> timestamp"
  ticks :: nat

datatype executor = Pool | Tx

type_synonym ('d, 'a) sql = "timestamp \<Rightarrow> 'd \<Rightarrow> db_error + 'a \<times> 'd"

section \<open>Statements\<close>

definition fault_now :: "'d srv \<Rightarrow> bool" where
  "fault_now s = (case faults s of [] \<Rightarrow> False | b # _ \<Rightarrow> b)"

definition pop_fault :: "'d srv \<Rightarrow> 'd srv" where
  "pop_fault s = s\<lparr>faults := tl (faults s)\<rparr>"

fun stmt :: "executor \<Rightarrow> ('d, 'a) sql \<Rightarrow> ('d srv, db_error, 'a) eff" where
  "stmt Pool f s =
     (if fault_now s then (Err ConnectionLost, pop_fault s)
      else case f (clock s (ticks s)) (committed s) of
             Inl e \<Rightarrow> (Err e, pop_fault s)
           | Inr (a, d) \<Rightarrow> (Ok a, (pop_fault s)\<lparr>committed := d\<rparr>))"
| "stmt Tx f s =
     (if fault_now s then (Err ConnectionLost, (pop_fault s)\<lparr>aborted := True\<rparr>)
      else if aborted s then (Err TxAborted, pop_fault s)
      else case f (db_now s) (current s) of
             Inl e \<Rightarrow> (Err e, (pop_fault s)\<lparr>aborted := True\<rparr>)
           | Inr (a, d) \<Rightarrow> (Ok a, (pop_fault s)\<lparr>current := d\<rparr>))"

text \<open>A query reads; \<open>fetch_one\<close> turns an empty answer into \<open>RowNotFound\<close> on the
  client, without an error of the transaction.\<close>

definition query :: "executor \<Rightarrow> ('d \<Rightarrow> 'r list) \<Rightarrow> ('d srv, db_error, 'r list) eff" where
  "query ex q = stmt ex (\<lambda>now d. Inr (q d, d))"

definition fetch_one :: "('d srv, db_error, 'r list) eff \<Rightarrow> ('d srv, db_error, 'r) eff" where
  "fetch_one m = bnd m (\<lambda>rows. case rows of [] \<Rightarrow> throw RowNotFound | r # _ \<Rightarrow> ret r)"

definition fetch_optional :: "('d srv, db_error, 'r list) eff \<Rightarrow> ('d srv, db_error, 'r option) eff" where
  "fetch_optional m = bnd m (\<lambda>rows. case rows of [] \<Rightarrow> ret None | r # _ \<Rightarrow> ret (Some r))"

text \<open>The next generated identifier, and the clock reading taken with it.\<close>

definition next_uuid :: "('d srv, 'e, uuid) eff" where
  "next_uuid s = (Ok (uuids s (ticks s)), s\<lparr>ticks := Suc (ticks s)\<rparr>)"

definition next_stamp :: "('d srv, 'e, uuid \<times> timestamp) eff" where
  "next_stamp s = (Ok (uuids s (ticks s), clock s (ticks s)), s\<lparr>ticks := Suc (ticks s)\<rparr>)"

section \<open>Transactions\<close>

datatype tx_error = TxDatabase db_error | TxAlreadyConsumed | TxOther string

fun tx_error_str :: "externs \<Rightarrow> tx_error \<Rightarrow> string" where
  "tx_error_str x (TxDatabase e) = ''Database error: '' @ db_text x e"
| "tx_error_str x TxAlreadyConsumed = ''Transaction has already been consumed''"
| "tx_error_str x (TxOther m) = m"

definition tx_other :: "app_error \<Rightarrow> tx_error" where
  "tx_other e = TxOther (app_error_str e)"

text \<open>\<open>NOW()\<close> is the time at which the transaction began; a statement on the pool is a
  transaction of its own and has the time of its own.\<close>

definition tx_start :: "'d srv \<Rightarrow> 'd srv" where
  "tx_start s =
     (pop_fault s)\<lparr>current := committed s, aborted := False, db_now := clock s (ticks s), ticks := Suc (ticks s)\<rparr>"

definition begin_tx :: "('d srv, db_error, unit) eff" where
  "begin_tx s = (if fault_now s then (Err ConnectionLost, pop_fault s) else (Ok (), tx_start s))"

text \<open>\<open>COMMIT\<close> of an aborted transaction is answered with a rollback, not with an error.\<close>

definition commit_tx :: "('d srv, db_error, unit) eff" where
  "commit_tx s =
     (if fault_now s then (Err ConnectionLost, pop_fault s)
      else (Ok (), (pop_fault s)\<lparr>committed := (if aborted s then committed s else current s)\<rparr>))"

definition rollback_tx :: "('d srv, db_error, unit) eff" where
  "rollback_tx s = (if fault_now s then (Err ConnectionLost, pop_fault s) else (Ok (), pop_fault s))"

definition resume_tx :: "'d srv \<Rightarrow> 'd srv \<Rightarrow> 'd srv" where
  "resume_tx outer s = s\<lparr>current := current outer, aborted := aborted outer, db_now := db_now outer\<rparr>"

definition with_transaction :: "('d srv, tx_error, 'a) eff \<Rightarrow> ('d srv, tx_error, 'a) eff" where
  "with_transaction f s =
     (case begin_tx s of
        (Err e, s1) \<Rightarrow> (Err (TxDatabase e), s1)
      | (Panic p, s1) \<Rightarrow> (Panic p, s1)
      | (Ok _, s1) \<Rightarrow>
          (case f s1 of
             (Ok a, s2) \<Rightarrow>
               (case commit_tx s2 of
                  (Ok _, s3) \<Rightarrow> (Ok a, resume_tx s s3)
                | (Err e, s3) \<Rightarrow> (Err (TxDatabase e), resume_tx s s3)
                | (Panic p, s3) \<Rightarrow> (Panic p, resume_tx s s3))
           | (Err e, s2) \<Rightarrow> (Err e, resume_tx s (snd (rollback_tx s2)))
           | (Panic p, s2) \<Rightarrow> (Panic p, resume_tx s s2)))"

section \<open>Facts about sessions\<close>

lemma fault_now_faults [simp]: "faults s = [] \<Longrightarrow> \<not> fault_now s"
  by (simp add: fault_now_def)

lemma fault_now_cong [simp]:
  "fault_now (s\<lparr>committed := c\<rparr>) = fault_now s"
  "fault_now (s\<lparr>current := d\<rparr>) = fault_now s"
  "fault_now (s\<lparr>aborted := b\<rparr>) = fault_now s"
  "fault_now (s\<lparr>ticks := n\<rparr>) = fault_now s"
  "fault_now (s\<lparr>db_now := t\<rparr>) = fault_now s"
  by (simp_all add: fault_now_def)

lemma pop_fault_simps [simp]:
  "committed (pop_fault s) = committed s" "current (pop_fault s) = current s"
  "aborted (pop_fault s) = aborted s" "db_now (pop_fault s) = db_now s"
  "uuids (pop_fault s) = uuids s" "clock (pop_fault s) = clock s" "ticks (pop_fault s) = ticks s"
  "faults (pop_fault s) = tl (faults s)"
  by (simp_all add: pop_fault_def)

lemma pop_fault_unchanged [simp]:
  "(pop_fault s)\<lparr>current := current s\<rparr> = pop_fault s"
  "(pop_fault s)\<lparr>committed := committed s\<rparr> = pop_fault s"
  by (simp_all add: pop_fault_def)

text \<open>A session that will not lose its connection, in an open healthy transaction.\<close>

definition healthy :: "'d srv \<Rightarrow> bool" where
  "healthy s \<longleftrightarrow> faults s = [] \<and> \<not> aborted s"

lemma healthy_simps [simp]:
  "healthy s \<Longrightarrow> \<not> fault_now s" "healthy s \<Longrightarrow> \<not> aborted s"
  by (simp_all add: healthy_def)

lemma pop_fault_healthy [simp]: "healthy s \<Longrightarrow> pop_fault s = s"
  by (cases s) (simp add: healthy_def pop_fault_def)

lemma pop_fault_no_faults [simp]: "faults s = [] \<Longrightarrow> pop_fault s = s"
  by (cases s) (simp add: pop_fault_def)

lemma healthy_not_aborted [simp]: "healthy s \<Longrightarrow> s\<lparr>aborted := False\<rparr> = s"
  by (cases s) (simp add: healthy_def)

lemma healthy_update [simp]:
  "healthy s \<Longrightarrow> healthy (s\<lparr>current := d\<rparr>)"
  "healthy s \<Longrightarrow> healthy (s\<lparr>committed := d\<rparr>)"
  "healthy s \<Longrightarrow> healthy (s\<lparr>ticks := n\<rparr>)"
  "healthy s \<Longrightarrow> healthy (s\<lparr>db_now := t\<rparr>)"
  by (simp_all add: healthy_def)

lemma tx_start_simps [simp]:
  "committed (tx_start s) = committed s" "current (tx_start s) = committed s" "\<not> aborted (tx_start s)"
  "db_now (tx_start s) = clock s (ticks s)" "ticks (tx_start s) = Suc (ticks s)"
  "uuids (tx_start s) = uuids s" "clock (tx_start s) = clock s" "faults (tx_start s) = tl (faults s)"
  by (simp_all add: tx_start_def)

lemma healthy_tx_start [simp]: "healthy s \<Longrightarrow> healthy (tx_start s)"
  by (simp add: healthy_def)

lemma stmt_Tx_healthy:
  "healthy s \<Longrightarrow>
   stmt Tx f s =
     (case f (db_now s) (current s) of
        Inl e \<Rightarrow> (Err e, s\<lparr>aborted := True\<rparr>)
      | Inr (a, d) \<Rightarrow> (Ok a, s\<lparr>current := d\<rparr>))"
  by (simp split: sum.split)

lemma stmt_Pool_healthy:
  "healthy s \<Longrightarrow>
   stmt Pool f s =
     (case f (clock s (ticks s)) (committed s) of
        Inl e \<Rightarrow> (Err e, s) | Inr (a, d) \<Rightarrow> (Ok a, s\<lparr>committed := d\<rparr>))"
  by (simp split: sum.split)

lemma run_query_healthy:
  "healthy s \<Longrightarrow> query Tx q s = (Ok (q (current s)), s)"
  "healthy s \<Longrightarrow> query Pool q s = (Ok (q (committed s)), s)"
  by (simp_all add: query_def)

lemma run_fetch_one_healthy:
  "healthy s \<Longrightarrow> q (current s) = r # rs \<Longrightarrow> fetch_one (query Tx q) s = (Ok r, s)"
  "healthy s \<Longrightarrow> q (committed s) = r # rs \<Longrightarrow> fetch_one (query Pool q) s = (Ok r, s)"
  "healthy s \<Longrightarrow> q (current s) = [] \<Longrightarrow> fetch_one (query Tx q) s = (Err RowNotFound, s)"
  "healthy s \<Longrightarrow> q (committed s) = [] \<Longrightarrow> fetch_one (query Pool q) s = (Err RowNotFound, s)"
  by (simp_all add: fetch_one_def bnd_def run_query_healthy run_ret run_throw)

lemma run_fetch_optional_healthy:
  "healthy s \<Longrightarrow> fetch_optional (query Tx q) s =
     (Ok (case q (current s) of [] \<Rightarrow> None | r # _ \<Rightarrow> Some r), s)"
  "healthy s \<Longrightarrow> fetch_optional (query Pool q) s =
     (Ok (case q (committed s) of [] \<Rightarrow> None | r # _ \<Rightarrow> Some r), s)"
  by (simp_all add: fetch_optional_def bnd_def run_query_healthy run_ret split: list.split)

lemma query_Pool_Ok: "query Pool q s = (Ok rows, t) \<Longrightarrow> rows = q (committed s) \<and> t = pop_fault s"
  by (simp add: query_def split: if_splits)

lemma fetch_one_Pool_Ok: "fetch_one (query Pool q) s = (Ok r, t) \<Longrightarrow> (\<exists>rs. q (committed s) = r # rs) \<and> t = pop_fault s"
proof -
  assume "fetch_one (query Pool q) s = (Ok r, t)"
  then obtain rows u where q: "query Pool q s = (Ok rows, u)"
    and rest: "(case rows of [] \<Rightarrow> throw RowNotFound | r # _ \<Rightarrow> ret r) u = (Ok r, t)"
    by (auto simp: fetch_one_def bnd_Ok_iff)
  have "rows = q (committed s)" "u = pop_fault s" using query_Pool_Ok[OF q] by simp_all
  then show ?thesis using rest by (cases "q (committed s)") (simp_all add: throw_def ret_def)
qed

subsection \<open>Weakest preconditions of statements\<close>

text \<open>
  On the transaction: a successful statement leaves what the SQL function computed, an
  error leaves the view as it was and the transaction aborted.
\<close>

lemma wp_stmt_Tx:
  assumes "\<And>a d. f (db_now s) (current s) = Inr (a, d) \<Longrightarrow>
      \<not> aborted s \<Longrightarrow> Q a ((pop_fault s)\<lparr>current := d\<rparr>)"
    and "aborted s \<Longrightarrow> E (pop_fault s)" and "E ((pop_fault s)\<lparr>aborted := True\<rparr>)"
  shows "wp (stmt Tx f) Q E s"
  using assms by (auto simp: wp_def split: sum.splits prod.splits)

lemma wp_stmt_Pool:
  assumes "\<And>a d. f (clock s (ticks s)) (committed s) = Inr (a, d) \<Longrightarrow> Q a ((pop_fault s)\<lparr>committed := d\<rparr>)"
    and "E (pop_fault s)"
  shows "wp (stmt Pool f) Q E s"
  using assms by (auto simp: wp_def split: sum.splits prod.splits)

lemma wp_next_uuid [wp_simps]: "wp next_uuid Q E s = Q (uuids s (ticks s)) (s\<lparr>ticks := Suc (ticks s)\<rparr>)"
  by (simp add: wp_def next_uuid_def)

lemma wp_next_stamp [wp_simps]:
  "wp next_stamp Q E s = Q (uuids s (ticks s), clock s (ticks s)) (s\<lparr>ticks := Suc (ticks s)\<rparr>)"
  by (simp add: wp_def next_stamp_def)

lemma run_next_uuid [run_simps]:
  "next_uuid s = (Ok (uuids s (ticks s)), s\<lparr>ticks := Suc (ticks s)\<rparr>)"
  by (simp add: next_uuid_def)

lemma run_next_stamp [run_simps]:
  "next_stamp s = (Ok (uuids s (ticks s), clock s (ticks s)), s\<lparr>ticks := Suc (ticks s)\<rparr>)"
  by (simp add: next_stamp_def)

subsection \<open>What an effect leaves alone\<close>

text \<open>
  \<open>keeps g m\<close>: whatever the outcome, \<open>m\<close> does not change the part \<open>g\<close> of the state. The
  rules follow the structure of an operation, so that a frame property is proved by
  applying them and splitting the cases of its body.
\<close>

definition keeps :: "('s \<Rightarrow> 'b) \<Rightarrow> ('s, 'e, 'a) eff \<Rightarrow> bool" where
  "keeps g m \<longleftrightarrow> (\<forall>s. g (snd (m s)) = g s)"

lemma keepsD: "keeps g m \<Longrightarrow> m s = (r, t) \<Longrightarrow> g t = g s"
  by (metis keeps_def snd_conv)

lemma keeps_ret [frame_rules]: "keeps g (ret a)"
  by (simp add: keeps_def ret_def)

lemma keeps_throw [frame_rules]: "keeps g (throw e)"
  by (simp add: keeps_def throw_def)

lemma keeps_panic [frame_rules]: "keeps g (panic e)"
  by (simp add: keeps_def panic_def)

lemma keeps_of_result [frame_rules]: "keeps g (of_result r)"
  by (simp add: keeps_def of_result_def)

lemma keeps_bnd [frame_rules]:
  "keeps g m \<Longrightarrow> (\<And>a. keeps g (f a)) \<Longrightarrow> keeps g (bnd m f)"
  by (simp add: keeps_def bnd_def split: prod.splits result.splits) (metis snd_conv)

lemma keeps_map_err [frame_rules]: "keeps g m \<Longrightarrow> keeps g (map_err f m)"
  by (simp add: keeps_def map_err_def split: prod.splits) (metis snd_conv)

lemma keeps_attempt [frame_rules]: "keeps g m \<Longrightarrow> keeps g (attempt m)"
  by (simp add: keeps_def attempt_def split: prod.splits result.splits) (metis snd_conv)

lemma keeps_for_each [frame_rules]: "(\<And>y. keeps g (f y)) \<Longrightarrow> keeps g (for_each f ys)"
  by (induction ys) (auto intro: frame_rules)

lemma keeps_if [frame_rules]: "(b \<Longrightarrow> keeps g m) \<Longrightarrow> (\<not> b \<Longrightarrow> keeps g n) \<Longrightarrow> keeps g (if b then m else n)"
  by simp

lemma keeps_stmt_Tx [frame_rules]:
  "keeps committed (stmt Tx f)" "keeps db_now (stmt ex f)" "keeps uuids (stmt ex f)"
  "keeps clock (stmt ex f)" "keeps ticks (stmt ex f)"
  by (cases ex; auto simp: keeps_def split: sum.splits)+

lemma keeps_stmt_Pool [frame_rules]: "keeps current (stmt Pool f)" "keeps aborted (stmt Pool f)"
  by (auto simp: keeps_def split: sum.splits)

lemma keeps_query [frame_rules]:
  "keeps committed (query ex q)" "keeps current (query ex q)"
  "keeps db_now (query ex q)" "keeps uuids (query ex q)" "keeps clock (query ex q)" "keeps ticks (query ex q)"
  by (cases ex; auto simp: keeps_def query_def)+

lemma keeps_fetch_one [frame_rules]: "keeps g m \<Longrightarrow> keeps g (fetch_one m)"
  by (auto simp: fetch_one_def intro!: frame_rules split: list.split)

lemma keeps_fetch_optional [frame_rules]: "keeps g m \<Longrightarrow> keeps g (fetch_optional m)"
  by (auto simp: fetch_optional_def intro!: frame_rules split: list.split)

lemma keeps_next [frame_rules]:
  "keeps committed next_uuid" "keeps current next_uuid" "keeps aborted next_uuid"
  "keeps committed next_stamp" "keeps current next_stamp" "keeps aborted next_stamp"
  "keeps db_now next_uuid" "keeps db_now next_stamp" "keeps uuids next_uuid" "keeps uuids next_stamp"
  "keeps clock next_uuid" "keeps clock next_stamp"
  by (simp_all add: keeps_def next_uuid_def next_stamp_def)

lemma keeps_on_fst [frame_rules]: "keeps g m \<Longrightarrow> keeps (\<lambda>p. g (fst p)) (on_fst m)"
  by (simp add: keeps_def on_fst_def split: prod.splits) (metis snd_conv)

lemma keeps_on_snd [frame_rules]: "keeps (\<lambda>p. g (fst p)) (on_snd m)"
  by (simp add: keeps_def on_snd_def split: prod.splits)

text \<open>A frame property may be added to any postcondition.\<close>

lemma wp_keeps:
  "keeps g m \<Longrightarrow> wp m (\<lambda>a t. g t = g s \<longrightarrow> Q a t) (\<lambda>t. g t = g s \<longrightarrow> E t) s \<Longrightarrow> wp m Q E s"
  by (auto simp: wp_def keeps_def split: prod.splits result.splits) (metis snd_conv)+

subsection \<open>Atomicity of \<open>with_transaction\<close>\<close>

text \<open>
  Whatever the closure did and whatever failed, the committed data is either what it was
  or the whole view of a closure that succeeded.
\<close>

lemma with_transaction_atomic:
  assumes keeps: "keeps committed f"
    and run: "with_transaction f s = (r, s')"
  shows "committed s' = committed s \<or>
    (\<exists>a t. r = Ok a \<and> f (tx_start s) = (Ok a, t) \<and>
       \<not> aborted t \<and> committed s' = current t)"
proof (cases "fault_now s")
  case True
  with run show ?thesis by (auto simp: with_transaction_def begin_tx_def)
next
  case False
  obtain q t where f: "f (tx_start s) = (q, t)" by fastforce
  have "committed t = committed s" using keepsD[OF keeps f] by simp
  with False run f show ?thesis
    by (cases q) (auto simp: with_transaction_def begin_tx_def commit_tx_def rollback_tx_def
        resume_tx_def split: if_splits)
qed

lemma with_transaction_Ok:
  assumes "with_transaction f s = (Ok a, s')"
  obtains t where "f (tx_start s) = (Ok a, t)"
    "committed s' = (if aborted t then committed t else current t)"
  using assms
  by (auto simp: with_transaction_def begin_tx_def commit_tx_def resume_tx_def
      split: if_splits result.splits prod.splits)

lemma with_transaction_healthy_Ok:
  assumes "healthy s" and "f (tx_start s) = (Ok a, t)" and "healthy t"
  shows "with_transaction f s =
    (Ok a, t\<lparr>committed := current t, current := current s, aborted := aborted s, db_now := db_now s\<rparr>)"
  using assms by (simp add: with_transaction_def begin_tx_def commit_tx_def resume_tx_def)

lemma with_transaction_healthy_Err:
  assumes "healthy s" and "f (tx_start s) = (Err e, t)" and "faults t = []"
  shows "with_transaction f s = (Err e, t\<lparr>current := current s, aborted := aborted s, db_now := db_now s\<rparr>)"
proof -
  have "snd (rollback_tx t) = t"
    using assms(3) by (cases t) (simp add: rollback_tx_def pop_fault_def)
  then show ?thesis using assms(1,2) by (simp add: with_transaction_def begin_tx_def resume_tx_def)
qed

lemma with_transaction_invariant:
  assumes "keeps committed m" "\<And>t. current t = committed s \<Longrightarrow> wp m (\<lambda>_ u. I (current u)) (\<lambda>_. True) t" "I (committed s)"
  shows "I (committed (snd (with_transaction m s)))"
proof -
  obtain r t where w: "with_transaction m s = (r, t)" by fastforce
  from with_transaction_atomic[OF assms(1) w] show ?thesis
  proof (elim disjE exE conjE)
    fix a u assume "m (tx_start s) = (Ok a, u)" "committed t = current u"
    then show ?thesis using wp_Ok_D[OF assms(2), of "tx_start s" a u] w by simp
  qed (use w assms(3) in simp)
qed

subsection \<open>Invariants of the stored data\<close>

text \<open>
  \<open>preserves P m\<close>: whatever the outcome, a state with \<open>P\<close> stays one. A transaction preserves
  what its body preserves of the open view.
\<close>

named_theorems inv_rules \<open>what keeps an invariant\<close>

definition preserves :: "('s \<Rightarrow> bool) \<Rightarrow> ('s, 'e, 'a) eff \<Rightarrow> bool" where
  "preserves P m \<longleftrightarrow> (\<forall>s. P s \<longrightarrow> P (snd (m s)))"

lemma preservesD: "preserves P m \<Longrightarrow> m s = (r, t) \<Longrightarrow> P s \<Longrightarrow> P t"
  by (metis preserves_def snd_conv)

lemma preserves_basic [inv_rules]:
  "preserves P (ret a)" "preserves P (throw e)" "preserves P (panic m)" "preserves P (of_result q)"
  by (simp_all add: preserves_def eff_defs)

lemma preserves_bnd [inv_rules]: "preserves P m \<Longrightarrow> (\<And>a. preserves P (f a)) \<Longrightarrow> preserves P (bnd m f)"
  unfolding preserves_def[of P "bnd m f"]
proof (intro allI impI)
  fix s assume a: "preserves P m" "\<And>a. preserves P (f a)" "P s"
  obtain r t where m: "m s = (r, t)" by fastforce
  have "P t" using preservesD[OF a(1) m a(3)] .
  then show "P (snd (bnd m f s))" using a(2) by (cases r) (simp_all add: bnd_def m preserves_def)
qed

lemma preserves_of_result: "(\<And>v. r = Ok v \<Longrightarrow> preserves P (k v)) \<Longrightarrow> preserves P (bnd (of_result r) k)"
  by (cases r) (simp_all add: preserves_def bnd_def of_result_def)

lemma preserves_map_err [inv_rules]: "preserves P m \<Longrightarrow> preserves P (map_err f m)"
  by (simp add: preserves_def)

lemma preserves_attempt [inv_rules]: "preserves P m \<Longrightarrow> preserves P (attempt m)"
  unfolding preserves_def[of P "attempt m"]
proof (intro allI impI)
  fix s assume a: "preserves P m" "P s"
  obtain r t where m: "m s = (r, t)" by fastforce
  have "P t" using preservesD[OF a(1) m a(2)] .
  then show "P (snd (attempt m s))" by (cases r) (simp_all add: attempt_def m)
qed

lemma preserves_if [inv_rules]: "(b \<Longrightarrow> preserves P m) \<Longrightarrow> (\<not> b \<Longrightarrow> preserves P n) \<Longrightarrow> preserves P (if b then m else n)"
  by simp

lemma preserves_wp: "(\<And>s. P s \<Longrightarrow> wp m (\<lambda>_. P) P s) \<Longrightarrow> preserves P m"
  unfolding preserves_def by (metis wp_total_D prod.collapse)

lemma wp_preserves: "preserves P m \<Longrightarrow> P s \<Longrightarrow> wp m (\<lambda>_. P) P s"
  by (auto simp: wp_def dest: preservesD split: prod.splits result.splits)

lemma wp_then_preserves:
  "P (snd (m s)) \<Longrightarrow> (\<And>a. preserves P (k a)) \<Longrightarrow> wp m (\<lambda>a. wp (k a) (\<lambda>_. P) P) P s"
  by (cases "m s"; cases "fst (m s)") (simp_all add: wp_def[of m] wp_preserves)

lemma preserves_keeps: "keeps g m \<Longrightarrow> preserves (\<lambda>s. I (g s)) m"
  by (simp add: preserves_def keeps_def)

lemma preserves_query [inv_rules]:
  "preserves (\<lambda>s. I (committed s)) (query ex q)" "preserves (\<lambda>s. I (current s)) (query ex q)"
  by (intro preserves_keeps frame_rules)+

lemma preserves_fetch_one [inv_rules]: "preserves P m \<Longrightarrow> preserves P (fetch_one m)"
  unfolding fetch_one_def by (intro inv_rules) (auto intro: inv_rules split: list.split)

lemma preserves_next_uuid [inv_rules]:
  "preserves (\<lambda>s. I (committed s)) next_uuid" "preserves (\<lambda>s. I (current s)) next_uuid"
  by (simp_all add: preserves_def next_uuid_def)

lemma preserves_stmt_Tx:
  "(\<And>now d a d'. f now d = Inr (a, d') \<Longrightarrow> I d \<Longrightarrow> I d') \<Longrightarrow> preserves (\<lambda>s. I (current s)) (stmt Tx f)"
  by (auto simp: preserves_def split: sum.splits)

lemma preserves_with_transaction [inv_rules]:
  fixes m :: "('d srv, tx_error, 'a) eff"
  assumes "keeps committed m" "preserves (\<lambda>s. I (current s)) m"
  shows "preserves (\<lambda>s. I (committed s)) (with_transaction m)"
  unfolding preserves_def
proof (intro allI impI)
  fix s :: "'d srv" assume i: "I (committed s)"
  show "I (committed (snd (with_transaction m s)))"
  proof (rule with_transaction_invariant[where I = I, OF assms(1) _ i])
    fix t :: "'d srv" assume "current t = committed s"
    then show "wp m (\<lambda>_ u. I (current u)) (\<lambda>_. True) t"
      using i preservesD[OF assms(2), of t] by (cases "m t"; cases "fst (m t)") (auto simp: wp_def)
  qed
qed

section \<open>Properties\<close>

text \<open>C11: \<open>with_transaction\<close> is all or nothing: whatever the closure did on the transaction
  and whatever statement, commit or rollback failed, the committed data is what it was before,
  or it is the whole view of a closure that returned \<open>Ok\<close>.\<close>

theorem transaction_all_or_nothing:
  assumes "keeps committed f"
  shows "committed (snd (with_transaction f s)) = committed s \<or>
    (\<exists>a t. fst (with_transaction f s) = Ok a \<and> f (tx_start s) = (Ok a, t) \<and>
       \<not> aborted t \<and> committed (snd (with_transaction f s)) = current t)"
proof -
  obtain r s' where "with_transaction f s = (r, s')" by fastforce
  from with_transaction_atomic[OF assms this] this show ?thesis by auto
qed

definition demo_srv :: "'d \<Rightarrow> 'd srv" where
  "demo_srv d =
     \<lparr>committed = d, current = d, aborted = False, db_now = 0, faults = [], uuids = (\<lambda>n. 100 + n),
      clock = (\<lambda>n. int n), ticks = 0\<rparr>"

lemma demo_srv_simps [simp]:
  "committed (demo_srv d) = d" "current (demo_srv d) = d" "aborted (demo_srv d) = False"
  "faults (demo_srv d) = []" "ticks (demo_srv d) = 0" "uuids (demo_srv d) = (\<lambda>n. 100 + n)"
  "clock (demo_srv d) = (\<lambda>n. int n)" "db_now (demo_srv d) = 0" "healthy (demo_srv d)"
  by (simp_all add: demo_srv_def healthy_def)

definition demo_closure :: "(nat srv, tx_error, unit) eff" where
  "demo_closure =
     bnd (map_err TxDatabase (stmt Tx (\<lambda>now d. Inr ((), d + 1)))) (\<lambda>_. throw TxAlreadyConsumed)"

theorem transaction_all_or_nothing_witness:
  "committed (snd (with_transaction demo_closure (demo_srv 4))) = 4"
proof -
  have "keeps committed demo_closure" unfolding demo_closure_def by (intro frame_rules)
  moreover have "\<not> is_ok (fst (demo_closure s))" for s
    by (simp add: demo_closure_def bnd_def throw_def split: prod.split result.split)
  ultimately show ?thesis using transaction_all_or_nothing[of demo_closure "demo_srv 4"]
    by (metis demo_srv_simps(1) fst_conv is_ok.simps(1))
qed

end
