(* ===== verification/Events.thy ===== *)
theory Events
  imports Database
begin

text \<open>
  Domain events, \<open>shared/src/events/types.rs\<close>: the enumerations, metadata and envelope,
  their construction, the payload accessor of the consumers, and the JSON form of an
  envelope that the derived serialisation writes and reads.
\<close>

section \<open>Enumerations\<close>

datatype source_service =
  SIdentity | SCatalog | SCart | SOrder | SPayment | SShipping | SNotification

datatype aggregate_type = AggOrder | AggPayment | AggInventory

datatype event_type =
    OrderCreated | OrderConfirmed | OrderCancelled
  | InventoryReserved | InventoryReservationFailed | InventoryReleased
  | PaymentAuthorized | PaymentFailed | PaymentCaptured | PaymentVoided
  | PaymentTimedOut | PaymentCaptureRetryRequested

fun event_type_str :: "event_type \<Rightarrow> string" where
  "event_type_str OrderCreated = ''OrderCreated''"
| "event_type_str OrderConfirmed = ''OrderConfirmed''"
| "event_type_str OrderCancelled = ''OrderCancelled''"
| "event_type_str InventoryReserved = ''InventoryReserved''"
| "event_type_str InventoryReservationFailed = ''InventoryReservationFailed''"
| "event_type_str InventoryReleased = ''InventoryReleased''"
| "event_type_str PaymentAuthorized = ''PaymentAuthorized''"
| "event_type_str PaymentFailed = ''PaymentFailed''"
| "event_type_str PaymentCaptured = ''PaymentCaptured''"
| "event_type_str PaymentVoided = ''PaymentVoided''"
| "event_type_str PaymentTimedOut = ''PaymentTimedOut''"
| "event_type_str PaymentCaptureRetryRequested = ''PaymentCaptureRetryRequested''"

fun aggregate_type_str :: "aggregate_type \<Rightarrow> string" where
  "aggregate_type_str AggOrder = ''Order''"
| "aggregate_type_str AggPayment = ''Payment''"
| "aggregate_type_str AggInventory = ''Inventory''"

fun source_service_str :: "source_service \<Rightarrow> string" where
  "source_service_str SIdentity = ''identity''"
| "source_service_str SCatalog = ''catalog''"
| "source_service_str SCart = ''cart''"
| "source_service_str SOrder = ''order''"
| "source_service_str SPayment = ''payment''"
| "source_service_str SShipping = ''shipping''"
| "source_service_str SNotification = ''notification''"

definition event_types :: "event_type list" where
  "event_types =
     [OrderCreated, OrderConfirmed, OrderCancelled,
      InventoryReserved, InventoryReservationFailed, InventoryReleased,
      PaymentAuthorized, PaymentFailed, PaymentCaptured, PaymentVoided,
      PaymentTimedOut, PaymentCaptureRetryRequested]"

definition aggregate_types :: "aggregate_type list" where
  "aggregate_types = [AggOrder, AggPayment, AggInventory]"

definition source_services :: "source_service list" where
  "source_services =
     [SIdentity, SCatalog, SCart, SOrder, SPayment, SShipping, SNotification]"

text \<open>A derived deserialiser accepts exactly the rendered names.\<close>

definition of_name :: "('a \<Rightarrow> string) \<Rightarrow> 'a list \<Rightarrow> string \<Rightarrow> 'a option" where
  "of_name show_name vs s = find (\<lambda>v. show_name v = s) vs"

section \<open>Metadata and envelope\<close>

record event_metadata =
  event_id :: uuid
  event_type :: event_type
  aggregate_type :: aggregate_type
  aggregate_id :: uuid
  event_time :: timestamp
  source_service :: source_service
  correlation_id :: "string option"
  causation_id :: "uuid option"

record event_envelope =
  metadata :: event_metadata
  payload :: json

definition event_metadata_new ::
  "event_type \<Rightarrow> aggregate_type \<Rightarrow> uuid \<Rightarrow> source_service \<Rightarrow> ('d srv, 'e, event_metadata) eff" where
  "event_metadata_new et agt aid src =
     bnd next_stamp (\<lambda>(eid, ts).
       ret \<lparr>event_id = eid, event_type = et, aggregate_type = agt, aggregate_id = aid,
            event_time = ts, source_service = src, correlation_id = None, causation_id = None\<rparr>)"

definition with_correlation_id :: "string \<Rightarrow> event_metadata \<Rightarrow> event_metadata" where
  "with_correlation_id c m = m\<lparr>correlation_id := Some c\<rparr>"

definition with_causation_id :: "uuid \<Rightarrow> event_metadata \<Rightarrow> event_metadata" where
  "with_causation_id c m = m\<lparr>causation_id := Some c\<rparr>"

definition event_envelope_new :: "event_metadata \<Rightarrow> json \<Rightarrow> event_envelope" where
  "event_envelope_new m p = \<lparr>metadata = m, payload = p\<rparr>"

definition partition_key :: "externs \<Rightarrow> event_envelope \<Rightarrow> string" where
  "partition_key x env = uuid_str x (aggregate_id (metadata env))"

definition payload_uuid :: "externs \<Rightarrow> event_envelope \<Rightarrow> string \<Rightarrow> (uuid, app_error) result" where
  "payload_uuid x env field =
     ok_or (BadRequest (''Missing or invalid '' @ field @ '' in '' @
              event_type_str (event_type (metadata env)) @ '' payload''))
       (Option.bind (as_str (jget (payload env) field)) (uuid_parse x))"

section \<open>The JSON form\<close>

definition opt_json :: "('a \<Rightarrow> json) \<Rightarrow> 'a option \<Rightarrow> json" where
  "opt_json f v = (case v of None \<Rightarrow> JNull | Some a \<Rightarrow> f a)"

definition metadata_to_json :: "externs \<Rightarrow> event_metadata \<Rightarrow> json" where
  "metadata_to_json x m =
     JObject
       [(''event_id'', JString (uuid_str x (event_id m))),
        (''event_type'', JString (event_type_str (event_type m))),
        (''aggregate_type'', JString (aggregate_type_str (aggregate_type m))),
        (''aggregate_id'', JString (uuid_str x (aggregate_id m))),
        (''timestamp'', JString (dt_str x (event_time m))),
        (''source_service'', JString (source_service_str (source_service m))),
        (''correlation_id'', opt_json JString (correlation_id m)),
        (''causation_id'', opt_json (\<lambda>u. JString (uuid_str x u)) (causation_id m))]"

definition envelope_to_json :: "externs \<Rightarrow> event_envelope \<Rightarrow> json" where
  "envelope_to_json x e =
     JObject [(''metadata'', metadata_to_json x (metadata e)), (''payload'', payload e)]"

fun jfield :: "json \<Rightarrow> string \<Rightarrow> json option" where
  "jfield (JObject kvs) k = map_of kvs k"
| "jfield _ k = None"

definition str_field :: "json \<Rightarrow> string \<Rightarrow> (string \<Rightarrow> 'a option) \<Rightarrow> 'a option" where
  "str_field j k parse = Option.bind (Option.bind (jfield j k) as_str) parse"

text \<open>An optional field may be absent or null.\<close>

definition opt_str_field :: "json \<Rightarrow> string \<Rightarrow> (string \<Rightarrow> 'a option) \<Rightarrow> 'a option option" where
  "opt_str_field j k parse =
     (case jfield j k of
        None \<Rightarrow> Some None
      | Some JNull \<Rightarrow> Some None
      | Some v \<Rightarrow> map_option Some (Option.bind (as_str v) parse))"

definition metadata_of_json :: "externs \<Rightarrow> json \<Rightarrow> event_metadata option" where
  "metadata_of_json x j =
     Option.bind (str_field j ''event_id'' (uuid_parse x)) (\<lambda>eid.
     Option.bind (str_field j ''event_type'' (of_name event_type_str event_types)) (\<lambda>et.
     Option.bind (str_field j ''aggregate_type'' (of_name aggregate_type_str aggregate_types)) (\<lambda>agt.
     Option.bind (str_field j ''aggregate_id'' (uuid_parse x)) (\<lambda>aid.
     Option.bind (str_field j ''timestamp'' (dt_parse x)) (\<lambda>ts.
     Option.bind (str_field j ''source_service'' (of_name source_service_str source_services)) (\<lambda>src.
     Option.bind (opt_str_field j ''correlation_id'' Some) (\<lambda>cor.
     Option.bind (opt_str_field j ''causation_id'' (uuid_parse x)) (\<lambda>cau.
       Some \<lparr>event_id = eid, event_type = et, aggregate_type = agt, aggregate_id = aid,
             event_time = ts, source_service = src, correlation_id = cor, causation_id = cau\<rparr>))))))))"

definition envelope_of_json :: "externs \<Rightarrow> json \<Rightarrow> event_envelope option" where
  "envelope_of_json x j =
     Option.bind (Option.bind (jfield j ''metadata'') (metadata_of_json x)) (\<lambda>m.
     Option.bind (jfield j ''payload'') (\<lambda>p. Some \<lparr>metadata = m, payload = p\<rparr>))"

section \<open>Round trip\<close>

lemma event_type_of_name [simp]: "of_name event_type_str event_types (event_type_str e) = Some e"
  by (cases e) (simp_all add: of_name_def event_types_def)

lemma aggregate_type_of_name [simp]:
  "of_name aggregate_type_str aggregate_types (aggregate_type_str a) = Some a"
  by (cases a) (simp_all add: of_name_def aggregate_types_def)

lemma source_service_of_name [simp]:
  "of_name source_service_str source_services (source_service_str a) = Some a"
  by (cases a) (simp_all add: of_name_def source_services_def)

lemma metadata_json_roundtrip:
  assumes "uuid_codec x" and "dt_codec x"
  shows "metadata_of_json x (metadata_to_json x m) = Some m"
proof -
  have cor: "opt_str_field (metadata_to_json x m) ''correlation_id'' Some = Some (correlation_id m)"
    by (cases "correlation_id m") (simp_all add: opt_str_field_def metadata_to_json_def opt_json_def)
  have cau: "opt_str_field (metadata_to_json x m) ''causation_id'' (uuid_parse x) = Some (causation_id m)"
    using assms(1)
    by (cases "causation_id m") (simp_all add: opt_str_field_def metadata_to_json_def opt_json_def)
  have rest: "str_field (metadata_to_json x m) ''event_id'' (uuid_parse x) = Some (event_id m)"
    "str_field (metadata_to_json x m) ''event_type'' (of_name event_type_str event_types)
       = Some (event_type m)"
    "str_field (metadata_to_json x m) ''aggregate_type'' (of_name aggregate_type_str aggregate_types)
       = Some (aggregate_type m)"
    "str_field (metadata_to_json x m) ''aggregate_id'' (uuid_parse x) = Some (aggregate_id m)"
    "str_field (metadata_to_json x m) ''timestamp'' (dt_parse x) = Some (event_time m)"
    "str_field (metadata_to_json x m) ''source_service'' (of_name source_service_str source_services)
       = Some (source_service m)"
    using assms by (simp_all add: str_field_def metadata_to_json_def)
  show ?thesis unfolding metadata_of_json_def by (simp add: cor cau rest)
qed

lemma envelope_json_roundtrip:
  "uuid_codec x \<Longrightarrow> dt_codec x \<Longrightarrow> envelope_of_json x (envelope_to_json x e) = Some e"
  by (simp add: envelope_of_json_def envelope_to_json_def metadata_json_roundtrip)

lemma payload_uuid_Ok_iff:
  "payload_uuid x env f = Ok u \<longleftrightarrow>
     (\<exists>s. as_str (jget (payload env) f) = Some s \<and> uuid_parse x s = Some u)"
  by (auto simp: payload_uuid_def bind_eq_Some_conv)

lemma run_event_metadata_new [run_simps]:
  "event_metadata_new et agt aid src s =
     (Ok \<lparr>event_id = uuids s (ticks s), event_type = et, aggregate_type = agt, aggregate_id = aid,
          event_time = clock s (ticks s), source_service = src, correlation_id = None,
          causation_id = None\<rparr>,
      s\<lparr>ticks := Suc (ticks s)\<rparr>)"
  by (simp add: event_metadata_new_def bnd_def next_stamp_def ret_def)

lemma wp_event_metadata_new [wp_simps]:
  "wp (event_metadata_new et agt aid src) Q E s =
     Q \<lparr>event_id = uuids s (ticks s), event_type = et, aggregate_type = agt, aggregate_id = aid,
         event_time = clock s (ticks s), source_service = src, correlation_id = None,
         causation_id = None\<rparr> (s\<lparr>ticks := Suc (ticks s)\<rparr>)"
  by (simp add: wp_def run_event_metadata_new)

section \<open>Properties\<close>

text \<open>An envelope survives its JSON form: whatever a service publishes is what a
  consumer reads back, all optional fields included.\<close>

theorem envelope_roundtrip:
  assumes "uuid_codec x" "dt_codec x"
  shows "envelope_of_json x (envelope_to_json x env) = Some env"
  using assms by (rule envelope_json_roundtrip)

definition demo_envelope :: "event_type \<Rightarrow> json \<Rightarrow> event_envelope" where
  "demo_envelope et pl =
     \<lparr>metadata = \<lparr>event_id = 3, event_type = et, aggregate_type = AggOrder, aggregate_id = 2, event_time = 5,
        source_service = SOrder, correlation_id = None, causation_id = Some 1\<rparr>, payload = pl\<rparr>"

theorem envelope_roundtrip_witness:
  "envelope_of_json demo_externs (envelope_to_json demo_externs (demo_envelope OrderCreated JNull)) =
     Some (demo_envelope OrderCreated JNull)"
  by (rule envelope_roundtrip) simp_all

end
