(* ===== verification/Outbox.thy ===== *)
theory Outbox
  imports Events
begin

text \<open>
  The transactional outbox of the shared crate: the row types of \<open>outbox/types.rs\<close>, the
  statements of \<open>outbox/repository.rs\<close>, the consumers' idempotency table of
  \<open>outbox/processed.rs\<close>, and the relay's heartbeat. Every service's database extends the
  record \<open>svc_db\<close> that holds the two tables.
\<close>

section \<open>Rows\<close>

datatype outbox_status = ObPending | ObPublished | ObFailed

fun outbox_status_str :: "outbox_status \<Rightarrow> string" where
  "outbox_status_str ObPending = ''pending''"
| "outbox_status_str ObPublished = ''published''"
| "outbox_status_str ObFailed = ''failed''"

record outbox_event =
  ob_id :: uuid
  ob_created_at :: timestamp
  ob_aggregate_type :: string
  ob_aggregate_id :: uuid
  ob_event_type :: string
  ob_event_id :: uuid
  ob_topic :: string
  ob_partition_key :: string
  ob_payload :: json
  ob_metadata :: "json option"
  ob_status :: outbox_status
  ob_published_at :: "timestamp option"
  ob_locked_by :: "string option"
  ob_locked_at :: "timestamp option"
  ob_retry_count :: int
  ob_max_retries :: int
  ob_last_error :: "string option"
  ob_next_retry_at :: timestamp

record outbox_insert =
  oi_aggregate_type :: string
  oi_aggregate_id :: uuid
  oi_event_type :: string
  oi_event_id :: uuid
  oi_topic :: string
  oi_partition_key :: string
  oi_payload :: json
  oi_metadata :: "json option"

definition from_envelope :: "externs \<Rightarrow> string \<Rightarrow> event_envelope \<Rightarrow> outbox_insert" where
  "from_envelope x topic env =
     \<lparr>oi_aggregate_type = aggregate_type_str (aggregate_type (metadata env)),
      oi_aggregate_id = aggregate_id (metadata env),
      oi_event_type = event_type_str (event_type (metadata env)),
      oi_event_id = event_id (metadata env),
      oi_topic = topic,
      oi_partition_key = partition_key x env,
      oi_payload = envelope_to_json x env,
      oi_metadata = None\<rparr>"

definition with_metadata :: "json option \<Rightarrow> outbox_insert \<Rightarrow> outbox_insert" where
  "with_metadata m i = i\<lparr>oi_metadata := m\<rparr>"

record processed_event =
  pe_event_id :: uuid
  pe_event_type :: string
  pe_source_service :: string
  pe_consumer_group :: string
  pe_processed_at :: timestamp

record svc_db =
  outbox_events :: "outbox_event list"
  processed_events :: "processed_event list"

section \<open>Outbox statements\<close>

definition max_payload_bytes :: nat where
  "max_payload_bytes = 900000"

definition outbox_row :: "outbox_insert \<Rightarrow> uuid \<Rightarrow> timestamp \<Rightarrow> outbox_event" where
  "outbox_row i rid now =
     \<lparr>ob_id = rid, ob_created_at = now, ob_aggregate_type = oi_aggregate_type i,
      ob_aggregate_id = oi_aggregate_id i, ob_event_type = oi_event_type i,
      ob_event_id = oi_event_id i, ob_topic = oi_topic i, ob_partition_key = oi_partition_key i,
      ob_payload = oi_payload i, ob_metadata = oi_metadata i, ob_status = ObPending,
      ob_published_at = None, ob_locked_by = None, ob_locked_at = None, ob_retry_count = 0,
      ob_max_retries = 10, ob_last_error = None, ob_next_retry_at = now\<rparr>"

definition insert_outbox_sql :: "outbox_insert \<Rightarrow> uuid \<Rightarrow> ('z svc_db_scheme, outbox_event) sql" where
  "insert_outbox_sql i rid now d =
     (if rid \<in> ob_id ` set (outbox_events d) then Inl (UniqueViolation ''outbox_events_pkey'')
      else if oi_event_id i \<in> ob_event_id ` set (outbox_events d)
      then Inl (UniqueViolation ''outbox_events_event_id_key'')
      else Inr (outbox_row i rid now,
                d\<lparr>outbox_events := outbox_events d @ [outbox_row i rid now]\<rparr>))"

definition internal :: "externs \<Rightarrow> db_error \<Rightarrow> app_error" where
  "internal x e = InternalServerError (db_text x e)"

definition insert_outbox_event ::
  "externs \<Rightarrow> executor \<Rightarrow> outbox_insert \<Rightarrow> ('z svc_db_scheme srv, app_error, outbox_event) eff" where
  "insert_outbox_event x ex i =
     (let payload_bytes = length (json_text x (oi_payload i)) in
      if payload_bytes > max_payload_bytes
      then throw (BadRequest (''Outbox payload too large: '' @ show_nat payload_bytes @
             '' bytes exceeds '' @ show_nat max_payload_bytes @ '' byte limit''))
      else bnd next_uuid (\<lambda>rid. map_err (internal x) (stmt ex (insert_outbox_sql i rid))))"

text \<open>
  \<open>claim_batch\<close>: the oldest due pending row per aggregate (\<open>DISTINCT ON\<close> after sorting by
  creation time), of these the unlocked ones that no other transaction holds (\<open>busy\<close>,
  \<open>SKIP LOCKED\<close>), at most \<open>batch_size\<close>.
\<close>

fun distinct_on :: "('r \<Rightarrow> 'k) \<Rightarrow> 'k list \<Rightarrow> 'r list \<Rightarrow> 'r list" where
  "distinct_on k seen [] = []"
| "distinct_on k seen (r # rs) =
     (if k r \<in> set seen then distinct_on k seen rs else r # distinct_on k (k r # seen) rs)"

definition due :: "timestamp \<Rightarrow> outbox_event \<Rightarrow> bool" where
  "due now r \<longleftrightarrow> ob_status r = ObPending \<and> ob_next_retry_at r \<le> now"

definition oldest_per_aggregate :: "timestamp \<Rightarrow> outbox_event list \<Rightarrow> outbox_event list" where
  "oldest_per_aggregate now rows =
     distinct_on ob_aggregate_id [] (sort_key ob_created_at (filter (due now) rows))"

definition claimable :: "(uuid \<Rightarrow> bool) \<Rightarrow> nat \<Rightarrow> timestamp \<Rightarrow> outbox_event list \<Rightarrow> outbox_event list" where
  "claimable busy batch_size now rows =
     take batch_size
       (filter (\<lambda>r. ob_locked_by r = None \<and> \<not> busy (ob_id r)) (oldest_per_aggregate now rows))"

definition lock_row :: "string \<Rightarrow> timestamp \<Rightarrow> outbox_event \<Rightarrow> outbox_event" where
  "lock_row inst now r = r\<lparr>ob_locked_by := Some inst, ob_locked_at := Some now\<rparr>"

definition claim_batch_sql ::
  "(uuid \<Rightarrow> bool) \<Rightarrow> nat \<Rightarrow> string \<Rightarrow> ('z svc_db_scheme, outbox_event list) sql" where
  "claim_batch_sql busy batch_size inst now d =
     (let ids = map ob_id (claimable busy batch_size now (outbox_events d));
          rows' = update_where (\<lambda>r. ob_id r \<in> set ids) (lock_row inst now) (outbox_events d)
      in Inr (filter (\<lambda>r. ob_id r \<in> set ids) rows', d\<lparr>outbox_events := rows'\<rparr>))"

definition claim_batch ::
  "externs \<Rightarrow> executor \<Rightarrow> (uuid \<Rightarrow> bool) \<Rightarrow> nat \<Rightarrow> string \<Rightarrow>
   ('z svc_db_scheme srv, app_error, outbox_event list) eff" where
  "claim_batch x ex busy batch_size inst =
     map_err (internal x) (stmt ex (claim_batch_sql busy batch_size inst))"

text \<open>The trigger \<open>enforce_outbox_status_transition\<close> of the migrations guards every
  update that names the status column.\<close>

fun outbox_transition_ok :: "outbox_status \<Rightarrow> outbox_status \<Rightarrow> bool" where
  "outbox_transition_ok ObPending _ = True"
| "outbox_transition_ok old new = (old = new)"

definition update_status_sql ::
  "(outbox_event \<Rightarrow> bool) \<Rightarrow> (timestamp \<Rightarrow> outbox_event \<Rightarrow> outbox_event) \<Rightarrow> ('z svc_db_scheme, unit) sql" where
  "update_status_sql P f now d =
     (if list_all (\<lambda>r. P r \<longrightarrow> outbox_transition_ok (ob_status r) (ob_status (f now r))) (outbox_events d)
      then Inr ((), d\<lparr>outbox_events := update_where P (f now) (outbox_events d)\<rparr>)
      else Inl (CheckViolation ''invalid outbox status transition''))"

definition published_row :: "timestamp \<Rightarrow> outbox_event \<Rightarrow> outbox_event" where
  "published_row now r =
     r\<lparr>ob_status := ObPublished, ob_published_at := Some now, ob_locked_by := None, ob_locked_at := None\<rparr>"

definition mark_published ::
  "externs \<Rightarrow> executor \<Rightarrow> uuid \<Rightarrow> ('z svc_db_scheme srv, app_error, unit) eff" where
  "mark_published x ex rid =
     map_err (internal x) (stmt ex (update_status_sql (\<lambda>r. ob_id r = rid) published_row))"

definition delete_published ::
  "externs \<Rightarrow> executor \<Rightarrow> uuid \<Rightarrow> ('z svc_db_scheme srv, app_error, unit) eff" where
  "delete_published x ex rid =
     map_err (internal x) (stmt ex (\<lambda>now d.
       Inr ((), d\<lparr>outbox_events := filter (\<lambda>r. ob_id r \<noteq> rid) (outbox_events d)\<rparr>)))"

definition backoff_secs :: "int \<Rightarrow> int" where
  "backoff_secs n = 2 ^ nat (min n 10)"

definition retry_row :: "string \<Rightarrow> timestamp \<Rightarrow> outbox_event \<Rightarrow> outbox_event" where
  "retry_row err now r =
     (let exhausted = ob_retry_count r + 1 \<ge> ob_max_retries r in
      r\<lparr>ob_status := (if exhausted then ObFailed else ObPending),
        ob_retry_count := ob_retry_count r + 1,
        ob_next_retry_at :=
          (if exhausted then ob_next_retry_at r
           else now + 1000000 * backoff_secs (ob_retry_count r + 1)),
        ob_last_error := Some err, ob_locked_by := None, ob_locked_at := None\<rparr>)"

definition mark_retry_or_failed ::
  "externs \<Rightarrow> executor \<Rightarrow> uuid \<Rightarrow> string \<Rightarrow> ('z svc_db_scheme srv, app_error, unit) eff" where
  "mark_retry_or_failed x ex rid err =
     map_err (internal x) (stmt ex (update_status_sql (\<lambda>r. ob_id r = rid) (retry_row err)))"

definition stale_lock :: "int \<Rightarrow> timestamp \<Rightarrow> outbox_event \<Rightarrow> bool" where
  "stale_lock timeout now r \<longleftrightarrow>
     ob_locked_by r \<noteq> None \<and>
     (case ob_locked_at r of None \<Rightarrow> False | Some t \<Rightarrow> t < now - 1000000 * timeout) \<and>
     ob_status r = ObPending"

definition unlock_row :: "outbox_event \<Rightarrow> outbox_event" where
  "unlock_row r = r\<lparr>ob_locked_by := None, ob_locked_at := None\<rparr>"

definition release_stale_locks ::
  "externs \<Rightarrow> executor \<Rightarrow> int \<Rightarrow> ('z svc_db_scheme srv, app_error, nat) eff" where
  "release_stale_locks x ex timeout =
     map_err (internal x) (stmt ex (\<lambda>now d.
       Inr (count_where (stale_lock timeout now) (outbox_events d),
            d\<lparr>outbox_events := update_where (stale_lock timeout now) unlock_row (outbox_events d)\<rparr>)))"

text \<open>Deletion in batches: the first thousand rows that qualify.\<close>

fun delete_first :: "nat \<Rightarrow> ('r \<Rightarrow> bool) \<Rightarrow> 'r list \<Rightarrow> nat \<times> 'r list" where
  "delete_first n P [] = (0, [])"
| "delete_first n P (r # rs) =
     (if n > 0 \<and> P r then (case delete_first (n - 1) P rs of (k, rs') \<Rightarrow> (Suc k, rs'))
      else (case delete_first n P rs of (k, rs') \<Rightarrow> (k, r # rs')))"

definition old_published :: "int \<Rightarrow> timestamp \<Rightarrow> outbox_event \<Rightarrow> bool" where
  "old_published max_age now r \<longleftrightarrow>
     ob_status r = ObPublished \<and>
     (case ob_published_at r of None \<Rightarrow> False | Some t \<Rightarrow> t < now - 1000000 * max_age)"

definition cleanup_published ::
  "externs \<Rightarrow> executor \<Rightarrow> int \<Rightarrow> ('z svc_db_scheme srv, app_error, nat) eff" where
  "cleanup_published x ex max_age =
     map_err (internal x) (stmt ex (\<lambda>now d.
       case delete_first 1000 (old_published max_age now) (outbox_events d) of
         (k, rows) \<Rightarrow> Inr (k, d\<lparr>outbox_events := rows\<rparr>)))"

definition outbox_lag :: "externs \<Rightarrow> executor \<Rightarrow> ('z svc_db_scheme srv, app_error, nat) eff" where
  "outbox_lag x ex =
     map_err (internal x) (stmt ex (\<lambda>now d.
       Inr (count_where (\<lambda>r. ob_status r = ObPending) (outbox_events d), d)))"

definition oldest_unpublished_age ::
  "externs \<Rightarrow> executor \<Rightarrow> ('z svc_db_scheme srv, app_error, int option) eff" where
  "oldest_unpublished_age x ex =
     map_err (internal x) (stmt ex (\<lambda>now d.
       case map ob_created_at (filter (\<lambda>r. ob_status r = ObPending) (outbox_events d)) of
         [] \<Rightarrow> Inr (None, d)
       | t # ts \<Rightarrow> Inr (Some (now - fold min ts t), d)))"

section \<open>Processed events\<close>

definition processed :: "uuid \<Rightarrow> string \<Rightarrow> 'z svc_db_scheme \<Rightarrow> bool" where
  "processed eid grp d \<longleftrightarrow>
     list_ex (\<lambda>p. pe_event_id p = eid \<and> pe_consumer_group p = grp) (processed_events d)"

definition is_event_processed ::
  "externs \<Rightarrow> executor \<Rightarrow> uuid \<Rightarrow> string \<Rightarrow> ('z svc_db_scheme srv, app_error, bool) eff" where
  "is_event_processed x ex eid grp =
     map_err (internal x) (fetch_one (query ex (\<lambda>d. [processed eid grp d])))"

text \<open>\<open>INSERT ... ON CONFLICT (event_id, consumer_group) DO NOTHING\<close>.\<close>

definition mark_processed ::
  "uuid \<Rightarrow> string \<Rightarrow> string \<Rightarrow> string \<Rightarrow> timestamp \<Rightarrow> 'z svc_db_scheme \<Rightarrow> 'z svc_db_scheme" where
  "mark_processed eid et src grp now d =
     (if processed eid grp d then d
      else d\<lparr>processed_events := processed_events d @
             [\<lparr>pe_event_id = eid, pe_event_type = et, pe_source_service = src,
               pe_consumer_group = grp, pe_processed_at = now\<rparr>]\<rparr>)"

definition mark_event_processed ::
  "externs \<Rightarrow> executor \<Rightarrow> uuid \<Rightarrow> string \<Rightarrow> string \<Rightarrow> string \<Rightarrow>
   ('z svc_db_scheme srv, app_error, unit) eff" where
  "mark_event_processed x ex eid et src grp =
     map_err (internal x) (stmt ex (\<lambda>now d. Inr ((), mark_processed eid et src grp now d)))"

definition cleanup_processed_events ::
  "externs \<Rightarrow> executor \<Rightarrow> int \<Rightarrow> ('z svc_db_scheme srv, app_error, nat) eff" where
  "cleanup_processed_events x ex max_age =
     map_err (internal x) (stmt ex (\<lambda>now d.
       case delete_first 1000 (\<lambda>p. pe_processed_at p < now - 1000000 * max_age) (processed_events d) of
         (k, rows) \<Rightarrow> Inr (k, d\<lparr>processed_events := rows\<rparr>)))"

section \<open>Heartbeat\<close>

text \<open>The heartbeat is the Unix second of the last relay iteration; 0 before the first.\<close>

definition heartbeat_new :: int where
  "heartbeat_new = 0"

definition heartbeat_beat :: "int \<Rightarrow> int \<Rightarrow> int" where
  "heartbeat_beat now_secs hb = now_secs"

definition seconds_since_last_beat :: "int \<Rightarrow> int \<Rightarrow> int option" where
  "seconds_since_last_beat now_secs hb = (if hb = 0 then None else Some (now_secs - hb))"

definition relay_is_alive :: "int \<Rightarrow> int \<Rightarrow> int \<Rightarrow> bool" where
  "relay_is_alive max_age_secs now_secs hb =
     (case seconds_since_last_beat now_secs hb of Some age \<Rightarrow> age \<le> max_age_secs | None \<Rightarrow> False)"

section \<open>Facts: inserting\<close>

lemma keeps_insert_outbox [frame_rules]:
  "keeps committed (insert_outbox_event x Tx i)" "keeps db_now (insert_outbox_event x ex i)"
  "keeps uuids (insert_outbox_event x ex i)" "keeps clock (insert_outbox_event x ex i)"
  by (auto simp: insert_outbox_event_def Let_def intro!: frame_rules)

lemma keeps_mark_event_processed [frame_rules]:
  "keeps committed (mark_event_processed x Tx eid et src grp)"
  by (auto simp: mark_event_processed_def intro!: frame_rules)

lemma keeps_is_event_processed [frame_rules]:
  "keeps committed (is_event_processed x ex eid grp)" "keeps current (is_event_processed x ex eid grp)"
  by (auto simp: is_event_processed_def intro!: frame_rules)

lemma keeps_event_metadata_new [frame_rules]:
  "keeps committed (event_metadata_new et agt aid src)" "keeps current (event_metadata_new et agt aid src)"
  "keeps aborted (event_metadata_new et agt aid src)"
  "keeps db_now (event_metadata_new et agt aid src)" "keeps uuids (event_metadata_new et agt aid src)"
  "keeps clock (event_metadata_new et agt aid src)"
  by (simp_all add: keeps_def run_event_metadata_new)

text \<open>A successful insert appends one pending row for the event and changes nothing else.\<close>

lemma wp_insert_outbox_Tx:
  assumes "\<And>rid t. \<lbrakk>current t = (current s)\<lparr>outbox_events := outbox_events (current s) @ [outbox_row i rid (db_now s)]\<rparr>;
      committed t = committed s; db_now t = db_now s; \<not> aborted s; \<not> aborted t\<rbrakk> \<Longrightarrow>
      Q (outbox_row i rid (db_now s)) t"
    and "\<And>t. committed t = committed s \<Longrightarrow> current t = current s \<Longrightarrow> E t"
  shows "wp (insert_outbox_event x Tx i) Q E s"
proof -
  let ?s = "s\<lparr>ticks := Suc (ticks s)\<rparr>"
  have "wp (stmt Tx (insert_outbox_sql i (uuids s (ticks s)))) Q E ?s"
    by (rule wp_stmt_Tx) (auto simp: insert_outbox_sql_def split: if_splits intro!: assms)
  then show ?thesis
    by (auto simp: insert_outbox_event_def Let_def wp_simps intro!: assms)
qed

text \<open>In a healthy transaction an event that fits and whose identifiers are new is stored.\<close>

definition outbox_room :: "externs \<Rightarrow> outbox_insert \<Rightarrow> 'z svc_db_scheme srv \<Rightarrow> bool" where
  "outbox_room x i s \<longleftrightarrow>
     length (json_text x (oi_payload i)) \<le> max_payload_bytes \<and>
     uuids s (ticks s) \<notin> ob_id ` set (outbox_events (current s)) \<and>
     oi_event_id i \<notin> ob_event_id ` set (outbox_events (current s))"

lemma run_insert_outbox_Tx:
  assumes "healthy s" and "outbox_room x i s"
  shows "insert_outbox_event x Tx i s =
    (Ok (outbox_row i (uuids s (ticks s)) (db_now s)),
     s\<lparr>ticks := Suc (ticks s),
       current := (current s)\<lparr>outbox_events := outbox_events (current s) @
         [outbox_row i (uuids s (ticks s)) (db_now s)]\<rparr>\<rparr>)"
proof -
  have "stmt Tx (insert_outbox_sql i (uuids s (ticks s))) (s\<lparr>ticks := Suc (ticks s)\<rparr>) =
    (Ok (outbox_row i (uuids s (ticks s)) (db_now s)),
     s\<lparr>ticks := Suc (ticks s),
       current := (current s)\<lparr>outbox_events := outbox_events (current s) @
         [outbox_row i (uuids s (ticks s)) (db_now s)]\<rparr>\<rparr>)"
    using assms by (subst stmt_Tx_healthy) (simp_all add: insert_outbox_sql_def outbox_room_def)
  then show ?thesis using assms(2)
    by (simp add: insert_outbox_event_def outbox_room_def Let_def bnd_def next_uuid_def map_err_def)
qed

section \<open>Facts: processed events\<close>

lemma processed_mark_processed [simp]: "processed eid grp (mark_processed eid et src grp now d)"
  by (simp add: mark_processed_def processed_def)

lemma processed_mono: "set (processed_events d) \<subseteq> set (processed_events d') \<Longrightarrow>
    processed eid grp d \<Longrightarrow> processed eid grp d'"
  by (auto simp: processed_def list_ex_iff)

lemma mark_processed_extends:
  "set (processed_events d) \<subseteq> set (processed_events (mark_processed eid et src grp now d))"
  by (auto simp: mark_processed_def)

lemma is_event_processed_Tx_Ok:
  "is_event_processed x Tx eid grp s = (Ok b, t) \<longleftrightarrow>
     \<not> fault_now s \<and> \<not> aborted s \<and> b = processed eid grp (current s) \<and> t = pop_fault s"
  by (auto simp: is_event_processed_def map_err_Ok_iff fetch_one_def bnd_Ok_iff query_def ret_def
      split: if_splits)

lemma is_event_processed_frame:
  "is_event_processed x Tx eid grp s = (r, t) \<Longrightarrow> committed t = committed s"
  by (rule keepsD[OF keeps_is_event_processed(1)])

lemma mark_event_processed_Tx_Ok:
  "mark_event_processed x Tx eid et src grp s = (Ok u, t) \<longleftrightarrow>
     \<not> fault_now s \<and> \<not> aborted s \<and>
     t = (pop_fault s)\<lparr>current := mark_processed eid et src grp (db_now s) (current s)\<rparr>"
  by (auto simp: mark_event_processed_def map_err_Ok_iff split: if_splits)

section \<open>Facts: claiming\<close>

lemma distinct_on_subset: "set (distinct_on k seen xs) \<subseteq> set xs"
  by (induction k seen xs rule: distinct_on.induct) auto

lemma distinct_on_not_seen: "r \<in> set (distinct_on k seen xs) \<Longrightarrow> k r \<notin> set seen"
  by (induction k seen xs rule: distinct_on.induct) (auto split: if_splits)

lemma distinct_on_distinct: "distinct (map k (distinct_on k seen xs))"
  by (induction k seen xs rule: distinct_on.induct) (auto dest: distinct_on_not_seen)

lemma distinct_on_first:
  assumes "sorted_wrt (\<lambda>a b. m a \<le> (m b :: timestamp)) xs" and "r \<in> set (distinct_on k seen xs)"
    and "r' \<in> set xs" and "k r' = k r"
  shows "m r \<le> m r'"
  using assms
proof (induction k seen xs rule: distinct_on.induct)
  case (2 k seen a rs)
  show ?case
  proof (cases "k a \<in> set seen")
    case True
    then have "r' \<noteq> a" using "2.prems"(2,4) distinct_on_not_seen[of r k seen rs] by auto
    then show ?thesis using 2 True by simp
  next
    case False
    show ?thesis
    proof (cases "r = a")
      case True
      then show ?thesis using "2.prems"(1,3) by auto
    next
      case rne: False
      then have r: "r \<in> set (distinct_on k (k a # seen) rs)" using "2.prems"(2) False by simp
      then have "r' \<noteq> a" using "2.prems"(4) distinct_on_not_seen[OF r] by auto
      then show ?thesis using 2 False r by simp
    qed
  qed
qed simp

lemma oldest_per_aggregate_member:
  "r \<in> set (oldest_per_aggregate now rows) \<Longrightarrow> r \<in> set rows \<and> due now r"
  using distinct_on_subset by (fastforce simp: oldest_per_aggregate_def)

lemma oldest_per_aggregate_oldest:
  assumes "r \<in> set (oldest_per_aggregate now rows)" "r' \<in> set rows" "due now r'"
    "ob_aggregate_id r' = ob_aggregate_id r"
  shows "ob_created_at r \<le> ob_created_at r'"
proof -
  have "sorted_wrt (\<lambda>a b. ob_created_at a \<le> ob_created_at b)
      (sort_key ob_created_at (filter (due now) rows))"
    using sorted_sort_key[of ob_created_at "filter (due now) rows"] by (simp add: sorted_map)
  then show ?thesis using assms distinct_on_first
    unfolding oldest_per_aggregate_def by fastforce
qed

lemma claimable_member:
  assumes "r \<in> set (claimable busy n now rows)"
  shows "r \<in> set (oldest_per_aggregate now rows)" "ob_locked_by r = None" "\<not> busy (ob_id r)"
  using assms by (auto simp: claimable_def dest!: in_set_takeD)

lemma claimable_distinct: "distinct (map ob_aggregate_id (claimable busy n now rows))"
  using distinct_on_distinct[of ob_aggregate_id "[]" "sort_key ob_created_at (filter (due now) rows)"]
  by (simp add: claimable_def oldest_per_aggregate_def take_map[symmetric] distinct_take distinct_map_filter)

lemma length_claimable: "length (claimable busy n now rows) \<le> n"
  by (simp add: claimable_def)

section \<open>Facts: retry and deletion\<close>

lemma backoff_secs_bounds: "0 \<le> n \<Longrightarrow> 1 \<le> backoff_secs n \<and> backoff_secs n \<le> 1024"
proof
  assume "0 \<le> n"
  have "nat (min n 10) \<le> 10" by simp
  then have "(2::int) ^ nat (min n 10) \<le> 2 ^ 10" by (rule power_increasing) simp
  then show "backoff_secs n \<le> 1024" by (simp add: backoff_secs_def)
  show "1 \<le> backoff_secs n" by (simp add: backoff_secs_def)
qed

lemma delete_first_count:
  "delete_first n P rows = (k, rows') \<Longrightarrow>
     k = min n (count_where P rows) \<and> length rows = k + length rows' \<and>
     filter (\<lambda>r. \<not> P r) rows' = filter (\<lambda>r. \<not> P r) rows"
  by (induction n P rows arbitrary: k rows' rule: delete_first.induct)
     (auto simp: count_where_def split: if_splits prod.splits)

lemma delete_first_members:
  "delete_first n P rows = (k, rows') \<Longrightarrow>
     set rows' \<subseteq> set rows \<and> (\<forall>r \<in> set rows. r \<notin> set rows' \<longrightarrow> P r)"
proof (induction n P rows arbitrary: k rows' rule: delete_first.induct)
  case (2 n P r rs)
  show ?case
  proof (cases "n > 0 \<and> P r")
    case True
    then obtain k' where "delete_first (n - 1) P rs = (k', rows')" using "2.prems" by (auto split: prod.splits)
    then show ?thesis using "2.IH"(1)[OF True] True by auto
  next
    case False
    then obtain k' qs where d: "delete_first n P rs = (k', qs)" "rows' = r # qs"
      using "2.prems" by (auto split: prod.splits if_splits)
    then show ?thesis using "2.IH"(2)[OF False d(1)] by auto
  qed
qed simp

section \<open>Properties\<close>

text \<open>A claim takes at most the batch size, no two events of one aggregate, only due events
  that nobody has locked, and of each aggregate the earliest due one.\<close>

theorem claim_one_per_aggregate:
  "length (claimable busy n now rows) \<le> n \<and> distinct (map ob_aggregate_id (claimable busy n now rows)) \<and>
   list_all (\<lambda>r. due now r \<and> ob_locked_by r = None \<and> \<not> busy (ob_id r) \<and>
      list_all (\<lambda>r'. if due now r' \<and> ob_aggregate_id r' = ob_aggregate_id r
         then ob_created_at r \<le> ob_created_at r' else True) rows) (claimable busy n now rows)"
proof -
  have "due now r \<and> ob_locked_by r = None \<and> \<not> busy (ob_id r) \<and>
      list_all (\<lambda>r'. if due now r' \<and> ob_aggregate_id r' = ob_aggregate_id r
         then ob_created_at r \<le> ob_created_at r' else True) rows"
    if r: "r \<in> set (claimable busy n now rows)" for r
  proof -
    note m = claimable_member[OF r]
    show ?thesis
      using m oldest_per_aggregate_member[OF m(1)] oldest_per_aggregate_oldest[OF m(1)]
      by (auto simp: list_all_iff)
  qed
  then show ?thesis by (simp add: length_claimable claimable_distinct list_all_iff)
qed

definition demo_insert :: "uuid \<Rightarrow> outbox_insert" where
  "demo_insert eid =
     \<lparr>oi_aggregate_type = ''Order'', oi_aggregate_id = 7, oi_event_type = ''OrderCreated'', oi_event_id = eid,
      oi_topic = ''orders.events'', oi_partition_key = ''7'', oi_payload = JNull, oi_metadata = None\<rparr>"

text \<open>Ordering within an aggregate is not kept across a retry: while the first of two events
  of one order waits for its back-off, the second one is claimed and can be published first.\<close>

theorem backoff_reorders_aggregate:
  "claimable (\<lambda>_. False) 50 5
     [(retry_row ''Kafka send: timeout'' 3 (outbox_row (demo_insert 1) 11 1)), outbox_row (demo_insert 2) 12 2] =
     [outbox_row (demo_insert 2) 12 2]"
  by (simp add: claimable_def oldest_per_aggregate_def due_def retry_row_def outbox_row_def demo_insert_def
      backoff_secs_def Let_def)

end
