(* ===== verification/Consumer.thy ===== *)
theory Consumer
  imports Outbox
begin

text \<open>
  The Kafka consumer of \<open>shared/src/events/consumer.rs\<close> with its counters of
  \<open>shared/src/events/metrics.rs\<close>: one attempt (begin, idempotency check, handler, mark,
  commit), the retry loop, the dead-letter queue and the offset commit. Kafka, the
  shutdown token and the event handler are parameters: the handler is an argument, and the
  outcomes of sends and the observations of the token are lists in the consumer's world.
\<close>

section \<open>Types\<close>

datatype handler_error = Transient string | Permanent string

fun is_transient :: "handler_error \<Rightarrow> bool" where
  "is_transient (Transient m) = True"
| "is_transient (Permanent m) = False"

fun handler_error_str :: "handler_error \<Rightarrow> string" where
  "handler_error_str (Transient m) = ''transient: '' @ m"
| "handler_error_str (Permanent m) = ''permanent: '' @ m"

definition transient_of :: "app_error \<Rightarrow> handler_error" where
  "transient_of e = Transient (app_error_str e)"

definition permanent_of :: "app_error \<Rightarrow> handler_error" where
  "permanent_of e = Permanent (app_error_str e)"

type_synonym ('d, 'x) handler = "event_envelope \<Rightarrow> ('d srv \<times> 'x, handler_error, unit) eff"

record consumer_config =
  cc_group_id :: string
  cc_topics :: "string list"
  cc_max_retries :: nat
  cc_retry_base_delay :: nat \<comment> \<open>milliseconds\<close>
  cc_retry_max_delay :: nat
  cc_dlq_topic_override :: "string option"
  cc_session_timeout :: nat
  cc_auto_create_dlq_topics :: bool
  cc_cleanup_interval :: nat \<comment> \<open>seconds\<close>
  cc_max_age :: nat

definition consumer_config_new :: "string \<Rightarrow> string list \<Rightarrow> consumer_config" where
  "consumer_config_new g ts =
     \<lparr>cc_group_id = g, cc_topics = ts, cc_max_retries = 3, cc_retry_base_delay = 1000,
      cc_retry_max_delay = 30000, cc_dlq_topic_override = None, cc_session_timeout = 30000,
      cc_auto_create_dlq_topics = True, cc_cleanup_interval = 3600, cc_max_age = 7 * 24 * 3600\<rparr>"

datatype process_result = PSuccess | PSkipped | PSentToDlq | PDlqFailed | PDbError

datatype attempt_result =
    ACommitted
  | AAlreadyProcessed
  | ADbError
  | APermanentFailure string
  | ATransientFailure string

record consumer_metrics =
  mt_processed :: nat
  mt_skipped :: nat
  mt_sent_to_dlq :: nat
  mt_dlq_failed :: nat
  mt_db_error :: nat
  mt_deser_failed :: nat
  mt_retried :: nat

definition metrics_new :: consumer_metrics where
  "metrics_new = \<lparr>mt_processed = 0, mt_skipped = 0, mt_sent_to_dlq = 0, mt_dlq_failed = 0,
     mt_db_error = 0, mt_deser_failed = 0, mt_retried = 0\<rparr>"

definition record_success :: "consumer_metrics \<Rightarrow> consumer_metrics" where
  "record_success m = m\<lparr>mt_processed := mt_processed m + 1\<rparr>"

definition record_skipped :: "consumer_metrics \<Rightarrow> consumer_metrics" where
  "record_skipped m = m\<lparr>mt_skipped := mt_skipped m + 1\<rparr>"

definition record_dlq :: "consumer_metrics \<Rightarrow> consumer_metrics" where
  "record_dlq m = m\<lparr>mt_sent_to_dlq := mt_sent_to_dlq m + 1\<rparr>"

definition record_dlq_failed :: "consumer_metrics \<Rightarrow> consumer_metrics" where
  "record_dlq_failed m = m\<lparr>mt_dlq_failed := mt_dlq_failed m + 1\<rparr>"

definition record_db_error :: "consumer_metrics \<Rightarrow> consumer_metrics" where
  "record_db_error m = m\<lparr>mt_db_error := mt_db_error m + 1\<rparr>"

definition record_deser_failed :: "consumer_metrics \<Rightarrow> consumer_metrics" where
  "record_deser_failed m = m\<lparr>mt_deser_failed := mt_deser_failed m + 1\<rparr>"

definition record_retry :: "consumer_metrics \<Rightarrow> consumer_metrics" where
  "record_retry m = m\<lparr>mt_retried := mt_retried m + 1\<rparr>"

definition total_events :: "consumer_metrics \<Rightarrow> nat" where
  "total_events m = mt_processed m + mt_skipped m + mt_sent_to_dlq m + mt_dlq_failed m +
     mt_db_error m + mt_deser_failed m"

lemmas metric_defs = record_success_def record_skipped_def record_dlq_def record_dlq_failed_def
  record_db_error_def record_deser_failed_def record_retry_def

record dlq_record =
  dq_topic :: string
  dq_key :: "string option"
  dq_payload :: string
  dq_headers :: "(string \<times> string) list"

record kafka_message =
  km_topic :: string
  km_payload :: "string option"
  km_offset :: nat

record ('d, 'x) consumer_world =
  cw_srv :: "'d srv"
  cw_self :: 'x \<comment> \<open>what the handler object holds besides the pool\<close>
  cw_send_ok :: "bool list" \<comment> \<open>outcomes of the next sends; success when exhausted\<close>
  cw_shutdown :: "bool list" \<comment> \<open>is shutdown seen during the next back-offs\<close>
  cw_dlq :: "dlq_record list"
  cw_offsets :: "nat list"
  cw_metrics :: consumer_metrics

section \<open>Helpers\<close>

definition dlq_topic_for :: "consumer_config \<Rightarrow> string \<Rightarrow> string" where
  "dlq_topic_for cfg topic =
     (case cc_dlq_topic_override cfg of Some t \<Rightarrow> t | None \<Rightarrow> topic @ ''.dlq'')"

definition u64_max :: nat where
  "u64_max = 2 ^ 64 - 1"

definition saturating_mul :: "nat \<Rightarrow> nat \<Rightarrow> nat" where
  "saturating_mul a b = min (a * b) u64_max"

definition calculate_backoff :: "consumer_config \<Rightarrow> nat \<Rightarrow> nat" where
  "calculate_backoff cfg k =
     (let base_ms = cc_retry_base_delay cfg mod 2 ^ 64;
          delay_ms = saturating_mul base_ms (2 ^ min k 10);
          max_ms = cc_retry_max_delay cfg mod 2 ^ 64
      in min delay_ms max_ms)"

definition commit_offset :: "kafka_message \<Rightarrow> ('d, 'x) consumer_world \<Rightarrow> ('d, 'x) consumer_world" where
  "commit_offset msg w = w\<lparr>cw_offsets := cw_offsets w @ [km_offset msg]\<rparr>"

definition dlq_headers :: "externs \<Rightarrow> consumer_config \<Rightarrow> string \<Rightarrow> string \<Rightarrow> nat \<Rightarrow> timestamp \<Rightarrow> (string \<times> string) list" where
  "dlq_headers x cfg topic err retries now =
     [(''dlq_reason'', err), (''dlq_retry_count'', show_nat retries),
      (''dlq_original_topic'', topic), (''dlq_timestamp'', dt_str x now),
      (''dlq_consumer_group'', cc_group_id cfg)]"

definition send :: "dlq_record \<Rightarrow> ('d, 'x) consumer_world \<Rightarrow> bool \<times> ('d, 'x) consumer_world" where
  "send r w =
     (case cw_send_ok w of
        False # oks \<Rightarrow> (False, w\<lparr>cw_send_ok := oks\<rparr>)
      | oks \<Rightarrow> (True, w\<lparr>cw_send_ok := tl oks, cw_dlq := cw_dlq w @ [r]\<rparr>))"

definition publish_envelope_to_dlq ::
  "externs \<Rightarrow> consumer_config \<Rightarrow> string \<Rightarrow> event_envelope \<Rightarrow> string \<Rightarrow> nat \<Rightarrow>
   ('d, 'x) consumer_world \<Rightarrow> process_result \<times> ('d, 'x) consumer_world" where
  "publish_envelope_to_dlq x cfg topic env err retries w =
     (case send \<lparr>dq_topic = dlq_topic_for cfg topic, dq_key = Some (partition_key x env),
                 dq_payload = json_text x (envelope_to_json x env),
                 dq_headers = dlq_headers x cfg topic err retries
                   (clock (cw_srv w) (ticks (cw_srv w)))\<rparr> w of
        (True, w') \<Rightarrow> (PSentToDlq, w')
      | (False, w') \<Rightarrow> (PDlqFailed, w'))"

definition publish_raw_to_dlq ::
  "externs \<Rightarrow> consumer_config \<Rightarrow> string \<Rightarrow> string \<Rightarrow> string \<Rightarrow>
   ('d, 'x) consumer_world \<Rightarrow> bool \<times> ('d, 'x) consumer_world" where
  "publish_raw_to_dlq x cfg topic raw err w =
     send \<lparr>dq_topic = dlq_topic_for cfg topic, dq_key = None, dq_payload = raw,
           dq_headers = dlq_headers x cfg topic err 0 (clock (cw_srv w) (ticks (cw_srv w)))\<rparr> w"

definition send_to_dlq_with_metrics ::
  "externs \<Rightarrow> consumer_config \<Rightarrow> string \<Rightarrow> event_envelope \<Rightarrow> string \<Rightarrow> nat \<Rightarrow>
   ('d, 'x) consumer_world \<Rightarrow> process_result \<times> ('d, 'x) consumer_world" where
  "send_to_dlq_with_metrics x cfg topic env err retries w =
     (case publish_envelope_to_dlq x cfg topic env err retries w of
        (PSentToDlq, w') \<Rightarrow> (PSentToDlq, w'\<lparr>cw_metrics := record_dlq (cw_metrics w')\<rparr>)
      | (r, w') \<Rightarrow> (r, w'\<lparr>cw_metrics := record_dlq_failed (cw_metrics w')\<rparr>))"

definition backoff_or_shutdown :: "('d, 'x) consumer_world \<Rightarrow> bool \<times> ('d, 'x) consumer_world" where
  "backoff_or_shutdown w =
     (case cw_shutdown w of
        [] \<Rightarrow> (False, w)
      | b # bs \<Rightarrow> (b, w\<lparr>cw_shutdown := bs\<rparr>))"

section \<open>One attempt\<close>

definition try_process_once ::
  "externs \<Rightarrow> consumer_config \<Rightarrow> ('z svc_db_scheme, 'x) handler \<Rightarrow> event_envelope \<Rightarrow>
   (('z svc_db_scheme, 'x) consumer_world, unit, attempt_result) eff" where
  "try_process_once x cfg handle env w =
     (let eid = event_id (metadata env); grp = cc_group_id cfg in
      case begin_tx (cw_srv w) of
        (Ok _, s1) \<Rightarrow>
          (case is_event_processed x Tx eid grp s1 of
             (Ok True, s2) \<Rightarrow>
               (case commit_tx s2 of
                  (Ok _, s3) \<Rightarrow> (Ok AAlreadyProcessed, w\<lparr>cw_srv := s3\<rparr>)
                | (_, s3) \<Rightarrow> (Ok ADbError, w\<lparr>cw_srv := s3\<rparr>))
           | (Ok False, s2) \<Rightarrow>
               (case handle env (s2, cw_self w) of
                  (Ok _, (s3, self')) \<Rightarrow>
                    (case mark_event_processed x Tx eid (event_type_str (event_type (metadata env)))
                            (source_service_str (source_service (metadata env))) grp s3 of
                       (Ok _, s4) \<Rightarrow>
                         (case commit_tx s4 of
                            (Ok _, s5) \<Rightarrow> (Ok ACommitted, w\<lparr>cw_srv := s5, cw_self := self'\<rparr>)
                          | (_, s5) \<Rightarrow> (Ok ADbError, w\<lparr>cw_srv := s5, cw_self := self'\<rparr>))
                     | (_, s4) \<Rightarrow> (Ok ADbError, w\<lparr>cw_srv := s4, cw_self := self'\<rparr>))
                | (Err (Permanent e), (s3, self')) \<Rightarrow>
                    (Ok (APermanentFailure e), w\<lparr>cw_srv := s3, cw_self := self'\<rparr>)
                | (Err (Transient e), (s3, self')) \<Rightarrow>
                    (Ok (ATransientFailure e), w\<lparr>cw_srv := s3, cw_self := self'\<rparr>)
                | (Panic p, (s3, self')) \<Rightarrow> (Panic p, w\<lparr>cw_srv := s3, cw_self := self'\<rparr>))
           | (_, s2) \<Rightarrow> (Ok ADbError, w\<lparr>cw_srv := s2\<rparr>))
      | (_, s1) \<Rightarrow> (Ok ADbError, w\<lparr>cw_srv := s1\<rparr>))"

section \<open>The retry loop\<close>

text \<open>
  \<open>for attempt in 0..=max_retries\<close>: the argument is the number of attempts left after the
  current one, so the current attempt is \<open>max_retries\<close> minus it.
\<close>

primrec process_with_retry ::
  "nat \<Rightarrow> externs \<Rightarrow> consumer_config \<Rightarrow> ('z svc_db_scheme, 'x) handler \<Rightarrow> event_envelope \<Rightarrow> string \<Rightarrow>
   (('z svc_db_scheme, 'x) consumer_world, unit, process_result) eff" where
  "process_with_retry 0 x cfg handle env topic w =
     (case try_process_once x cfg handle env w of
        (Ok ACommitted, w') \<Rightarrow> (Ok PSuccess, w'\<lparr>cw_metrics := record_success (cw_metrics w')\<rparr>)
      | (Ok AAlreadyProcessed, w') \<Rightarrow> (Ok PSkipped, w'\<lparr>cw_metrics := record_skipped (cw_metrics w')\<rparr>)
      | (Ok ADbError, w') \<Rightarrow> (Ok PDbError, w'\<lparr>cw_metrics := record_db_error (cw_metrics w')\<rparr>)
      | (Ok (APermanentFailure err), w') \<Rightarrow>
          (case send_to_dlq_with_metrics x cfg topic env err 0 w' of (r, w'') \<Rightarrow> (Ok r, w''))
      | (Ok (ATransientFailure err), w') \<Rightarrow>
          (case send_to_dlq_with_metrics x cfg topic env err (cc_max_retries cfg) w' of
             (r, w'') \<Rightarrow> (Ok r, w''))
      | (Err e, w') \<Rightarrow> (Err e, w')
      | (Panic p, w') \<Rightarrow> (Panic p, w'))"
| "process_with_retry (Suc left) x cfg handle env topic w =
     (case try_process_once x cfg handle env w of
        (Ok ACommitted, w') \<Rightarrow> (Ok PSuccess, w'\<lparr>cw_metrics := record_success (cw_metrics w')\<rparr>)
      | (Ok AAlreadyProcessed, w') \<Rightarrow> (Ok PSkipped, w'\<lparr>cw_metrics := record_skipped (cw_metrics w')\<rparr>)
      | (Ok ADbError, w') \<Rightarrow> (Ok PDbError, w'\<lparr>cw_metrics := record_db_error (cw_metrics w')\<rparr>)
      | (Ok (APermanentFailure err), w') \<Rightarrow>
          (case send_to_dlq_with_metrics x cfg topic env err 0 w' of (r, w'') \<Rightarrow> (Ok r, w''))
      | (Ok (ATransientFailure err), w') \<Rightarrow>
          (case backoff_or_shutdown (w'\<lparr>cw_metrics := record_retry (cw_metrics w')\<rparr>) of
             (True, w'') \<Rightarrow>
               (case send_to_dlq_with_metrics x cfg topic env (''shutdown during backoff: '' @ err)
                       (cc_max_retries cfg - Suc left + 1) w'' of
                  (r, w3) \<Rightarrow> (Ok r, w3))
           | (False, w'') \<Rightarrow> process_with_retry left x cfg handle env topic w'')
      | (Err e, w') \<Rightarrow> (Err e, w')
      | (Panic p, w') \<Rightarrow> (Panic p, w'))"

definition process_message ::
  "externs \<Rightarrow> consumer_config \<Rightarrow> ('z svc_db_scheme, 'x) handler \<Rightarrow> kafka_message \<Rightarrow>
   (('z svc_db_scheme, 'x) consumer_world, unit, unit) eff" where
  "process_message x cfg handle msg w =
     (let raw = (case km_payload msg of None \<Rightarrow> [] | Some b \<Rightarrow> b) in
      case Option.bind (json_parse x raw) (envelope_of_json x) of
        None \<Rightarrow>
          (case publish_raw_to_dlq x cfg (km_topic msg) raw (parse_text x raw) w of
             (True, w') \<Rightarrow>
               (Ok (), commit_offset msg (w'\<lparr>cw_metrics := record_deser_failed (cw_metrics w')\<rparr>))
           | (False, w') \<Rightarrow> (Ok (), w'\<lparr>cw_metrics := record_dlq_failed (cw_metrics w')\<rparr>))
      | Some env \<Rightarrow>
          (case process_with_retry (cc_max_retries cfg) x cfg handle env (km_topic msg) w of
             (Ok r, w') \<Rightarrow>
               (if r \<in> {PSuccess, PSkipped, PSentToDlq} then (Ok (), commit_offset msg w')
                else (Ok (), w'))
           | (Err e, w') \<Rightarrow> (Err e, w')
           | (Panic p, w') \<Rightarrow> (Panic p, w')))"

text \<open>The messages that \<open>recv\<close> delivers until shutdown; a receive error is skipped.\<close>

definition message_loop ::
  "externs \<Rightarrow> consumer_config \<Rightarrow> ('z svc_db_scheme, 'x) handler \<Rightarrow> kafka_message option list \<Rightarrow>
   (('z svc_db_scheme, 'x) consumer_world, unit, unit) eff" where
  "message_loop x cfg handle msgs =
     for_each (\<lambda>m. case m of None \<Rightarrow> ret () | Some msg \<Rightarrow> process_message x cfg handle msg) msgs"

definition consumer_cleanup ::
  "externs \<Rightarrow> consumer_config \<Rightarrow> ('z svc_db_scheme srv, app_error, nat) eff" where
  "consumer_cleanup x cfg = cleanup_processed_events x Pool (int (cc_max_age cfg))"

section \<open>Back-off\<close>

lemma saturating_mul_mono: "b \<le> c \<Longrightarrow> saturating_mul a b \<le> saturating_mul a c"
  by (simp add: saturating_mul_def min.coboundedI1)

lemma calculate_backoff_bound:
  "calculate_backoff cfg n \<le> cc_retry_max_delay cfg mod 2 ^ 64"
  by (simp add: calculate_backoff_def Let_def)

lemma calculate_backoff_mono: "m \<le> n \<Longrightarrow> calculate_backoff cfg m \<le> calculate_backoff cfg n"
proof -
  assume "m \<le> n"
  then have "(2::nat) ^ min m 10 \<le> 2 ^ min n 10" by (intro power_increasing) auto
  then show ?thesis
    unfolding calculate_backoff_def Let_def
    by (intro min.mono saturating_mul_mono order_refl)
qed

section \<open>Sending\<close>

lemma send_cases:
  "send r w = (b, w') \<Longrightarrow>
     cw_srv w' = cw_srv w \<and> cw_self w' = cw_self w \<and> cw_offsets w' = cw_offsets w \<and>
     cw_metrics w' = cw_metrics w \<and> cw_dlq w' = (if b then cw_dlq w @ [r] else cw_dlq w)"
  by (auto simp: send_def split: list.splits bool.splits)

lemma send_to_dlq_cases:
  assumes "send_to_dlq_with_metrics x cfg topic env err n w = (r, w')"
  shows "cw_srv w' = cw_srv w" "cw_self w' = cw_self w" "cw_offsets w' = cw_offsets w"
    "r = PSentToDlq \<and> json_text x (envelope_to_json x env) \<in> dq_payload ` set (cw_dlq w') \<or> r = PDlqFailed"
    "total_events (cw_metrics w') = Suc (total_events (cw_metrics w))"
proof -
  obtain b w1 where s: "send \<lparr>dq_topic = dlq_topic_for cfg topic, dq_key = Some (partition_key x env),
      dq_payload = json_text x (envelope_to_json x env),
      dq_headers = dlq_headers x cfg topic err n (clock (cw_srv w) (ticks (cw_srv w)))\<rparr> w = (b, w1)"
    by fastforce
  note c = send_cases[OF s]
  show "cw_srv w' = cw_srv w" "cw_self w' = cw_self w" "cw_offsets w' = cw_offsets w"
    "r = PSentToDlq \<and> json_text x (envelope_to_json x env) \<in> dq_payload ` set (cw_dlq w') \<or> r = PDlqFailed"
    "total_events (cw_metrics w') = Suc (total_events (cw_metrics w))"
    using assms s c
    by (auto simp: send_to_dlq_with_metrics_def publish_envelope_to_dlq_def total_events_def
        metric_defs split: bool.splits)
qed

lemma backoff_or_shutdown_cases:
  "backoff_or_shutdown w = (b, w') \<Longrightarrow>
     cw_srv w' = cw_srv w \<and> cw_self w' = cw_self w \<and> cw_offsets w' = cw_offsets w \<and>
     cw_metrics w' = cw_metrics w \<and> cw_dlq w' = cw_dlq w"
  by (auto simp: backoff_or_shutdown_def split: list.splits)

section \<open>One attempt, case by case\<close>

lemma begin_tx_cases:
  "begin_tx s = (r, t) \<Longrightarrow> committed t = committed s \<and>
     (is_ok r \<longrightarrow> current t = committed s \<and> \<not> aborted t)"
  by (auto simp: begin_tx_def split: if_splits)

lemma commit_tx_cases:
  "commit_tx s = (r, t) \<Longrightarrow>
     (is_ok r \<longrightarrow> committed t = (if aborted s then committed s else current s)) \<and>
     (\<not> is_ok r \<longrightarrow> committed t = committed s)"
  by (auto simp: commit_tx_def split: if_splits)

text \<open>
  The outcomes of an attempt: the handler did not run and nothing changed; it ran and its
  transaction was dropped; or it ran, and its transaction was committed with the mark.
\<close>

definition dropped ::
  "('z svc_db_scheme, 'x) handler \<Rightarrow> event_envelope \<Rightarrow> ('z svc_db_scheme, 'x) consumer_world \<Rightarrow>
   ('z svc_db_scheme, 'x) consumer_world \<Rightarrow> bool" where
  "dropped handle env w w' \<longleftrightarrow>
     (\<exists>s q t y. handle env (s, cw_self w) = (q, (t, y)) \<and> committed s = committed (cw_srv w) \<and>
        committed (cw_srv w') = committed t)"

definition applied ::
  "consumer_config \<Rightarrow> ('z svc_db_scheme, 'x) handler \<Rightarrow> event_envelope \<Rightarrow> ('z svc_db_scheme, 'x) consumer_world \<Rightarrow>
   ('z svc_db_scheme, 'x) consumer_world \<Rightarrow> bool" where
  "applied cfg handle env w w' \<longleftrightarrow>
     (\<exists>s t y now. handle env (s, cw_self w) = (Ok (), (t, y)) \<and>
        committed s = committed (cw_srv w) \<and> current s = committed (cw_srv w) \<and> \<not> aborted s \<and> \<not> aborted t \<and>
        \<not> processed (event_id (metadata env)) (cc_group_id cfg) (committed (cw_srv w)) \<and>
        committed (cw_srv w') = mark_processed (event_id (metadata env))
          (event_type_str (event_type (metadata env))) (source_service_str (source_service (metadata env)))
          (cc_group_id cfg) now (current t))"

lemma try_process_once_cases:
  assumes "try_process_once x cfg handle env w = (r, w')"
  shows "(r = Ok AAlreadyProcessed \<or> r = Ok ADbError) \<and> committed (cw_srv w') = committed (cw_srv w) \<or>
    \<not> processed (event_id (metadata env)) (cc_group_id cfg) (committed (cw_srv w)) \<and>
      r \<noteq> Ok ACommitted \<and> r \<noteq> Ok AAlreadyProcessed \<and> dropped handle env w w' \<or>
    r = Ok ACommitted \<and> applied cfg handle env w w'"
proof -
  let ?eid = "event_id (metadata env)" and ?grp = "cc_group_id cfg"
  obtain r1 s1 where b: "begin_tx (cw_srv w) = (r1, s1)" by fastforce
  obtain r2 s2 where p: "is_event_processed x Tx ?eid ?grp s1 = (r2, s2)" by fastforce
  note bc = begin_tx_cases[OF b] and pc = is_event_processed_frame[OF p]
  show ?thesis
  proof (cases "is_ok r1 \<and> r2 = Ok False")
    case False
    then show ?thesis using assms b p bc pc
      by (cases r1; cases r2)
         (auto simp: try_process_once_def Let_def dest!: commit_tx_cases is_event_processed_Tx_Ok[THEN iffD1]
           split: prod.splits result.splits bool.splits)
  next
    case True
    then have r1: "r1 = Ok ()" by (cases r1) auto
    have s1: "committed s1 = committed (cw_srv w)" "current s1 = committed (cw_srv w)" "\<not> aborted s1"
      using bc True by auto
    have s2: "s2 = pop_fault s1" "\<not> processed ?eid ?grp (committed (cw_srv w))"
      using p True s1 by (auto simp: is_event_processed_Tx_Ok)
    obtain q t y where h: "handle env (s2, cw_self w) = (q, (t, y))" by (metis prod.exhaust)
    show ?thesis
    proof (cases q)
      case (Ok u)
      obtain r4 s4 where m: "mark_event_processed x Tx ?eid (event_type_str (event_type (metadata env)))
          (source_service_str (source_service (metadata env))) ?grp t = (r4, s4)" by fastforce
      obtain r5 s5 where c: "commit_tx s4 = (r5, s5)" by fastforce
      have m4: "committed s4 = committed t" using keepsD[OF keeps_mark_event_processed m] .
      show ?thesis
      proof (cases "is_ok r4 \<and> is_ok r5")
        case True
        then have ok: "r4 = Ok ()" "r5 = Ok ()" by (cases r4; cases r5; simp)+
        from m ok have t: "\<not> aborted t"
          "s4 = (pop_fault t)\<lparr>current := mark_processed ?eid (event_type_str (event_type (metadata env)))
             (source_service_str (source_service (metadata env))) ?grp (db_now t) (current t)\<rparr>"
          by (auto simp: mark_event_processed_Tx_Ok)
        have "applied cfg handle env w w'" unfolding applied_def
          using assms b p h m c ok r1 \<open>is_ok r1 \<and> r2 = Ok False\<close> Ok s1 s2 t commit_tx_cases[OF c]
          by (intro exI[of _ s2] exI[of _ t] exI[of _ y] exI[of _ "db_now t"])
             (auto simp: try_process_once_def Let_def)
        moreover have "r = Ok ACommitted"
          using assms b p h m c ok r1 \<open>is_ok r1 \<and> r2 = Ok False\<close> Ok
          by (auto simp: try_process_once_def Let_def)
        ultimately show ?thesis by simp
      next
        case False
        have "committed (cw_srv w') = committed t \<and> r = Ok ADbError"
          using assms b p h m c r1 \<open>is_ok r1 \<and> r2 = Ok False\<close> Ok False m4 commit_tx_cases[OF c]
          by (cases r4; cases r5) (auto simp: try_process_once_def Let_def)
        moreover have "committed s2 = committed (cw_srv w)" using s1 s2 by simp
        ultimately show ?thesis using h s2 unfolding dropped_def by blast
      qed
    next
      case (Err e)
      have "committed (cw_srv w') = committed t \<and> r \<noteq> Ok ACommitted \<and> r \<noteq> Ok AAlreadyProcessed"
        using assms b p h r1 True Err
        by (cases e) (auto simp: try_process_once_def Let_def)
      moreover have "committed s2 = committed (cw_srv w)" using s1 s2 by simp
      ultimately show ?thesis using h s2 unfolding dropped_def by blast
    next
      case (Panic e)
      have "committed (cw_srv w') = committed t \<and> r \<noteq> Ok ACommitted \<and> r \<noteq> Ok AAlreadyProcessed"
        using assms b p h r1 True Panic by (auto simp: try_process_once_def Let_def)
      moreover have "committed s2 = committed (cw_srv w)" using s1 s2 by simp
      ultimately show ?thesis using h s2 unfolding dropped_def by blast
    qed
  qed
qed

lemma try_process_once_world:
  assumes "try_process_once x cfg handle env w = (r, w')"
  shows "cw_dlq w' = cw_dlq w" "cw_offsets w' = cw_offsets w" "cw_metrics w' = cw_metrics w"
  using assms
  by (auto simp: try_process_once_def Let_def
      split: prod.splits result.splits bool.splits handler_error.splits)

section \<open>The consumer's promises\<close>

text \<open>
  What a run of the retry loop may report. A result that lets the offset be committed
  means that the event is marked as processed or that its envelope is in the dead-letter
  queue.
\<close>

definition accounted ::
  "externs \<Rightarrow> consumer_config \<Rightarrow> event_envelope \<Rightarrow> ('z svc_db_scheme, 'x) consumer_world \<Rightarrow> bool" where
  "accounted x cfg env w \<longleftrightarrow>
     processed (event_id (metadata env)) (cc_group_id cfg) (committed (cw_srv w)) \<or>
     json_text x (envelope_to_json x env) \<in> dq_payload ` set (cw_dlq w)"

definition retry_post ::
  "externs \<Rightarrow> consumer_config \<Rightarrow> event_envelope \<Rightarrow> ('z svc_db_scheme, 'x) consumer_world \<Rightarrow>
   (process_result, unit) result \<Rightarrow> ('z svc_db_scheme, 'x) consumer_world \<Rightarrow> bool" where
  "retry_post x cfg env w r w' \<longleftrightarrow>
     cw_offsets w' = cw_offsets w \<and>
     (\<forall>q. r = Ok q \<longrightarrow> total_events (cw_metrics w') = Suc (total_events (cw_metrics w))) \<and>
     (\<forall>q. r = Ok q \<longrightarrow> q \<in> {PSuccess, PSkipped, PSentToDlq} \<longrightarrow> accounted x cfg env w')"

lemma try_once_already_processed:
  assumes "try_process_once x cfg handle env w = (Ok AAlreadyProcessed, w')"
  shows "processed (event_id (metadata env)) (cc_group_id cfg) (committed (cw_srv w'))"
proof -
  obtain r1 s1 where b: "begin_tx (cw_srv w) = (r1, s1)" by fastforce
  obtain r2 s2 where p: "is_event_processed x Tx (event_id (metadata env)) (cc_group_id cfg) s1 = (r2, s2)"
    by fastforce
  have "r1 = Ok ()" "r2 = Ok True"
    using assms b p by (auto simp: try_process_once_def Let_def
        split: prod.splits result.splits bool.splits handler_error.splits)
  then have "processed (event_id (metadata env)) (cc_group_id cfg) (committed (cw_srv w))"
    using p begin_tx_cases[OF b] by (auto simp: is_event_processed_Tx_Ok)
  then show ?thesis using try_process_once_cases[OF assms] by auto
qed

lemma try_once_committed:
  assumes "try_process_once x cfg handle env w = (Ok ACommitted, w')"
  shows "processed (event_id (metadata env)) (cc_group_id cfg) (committed (cw_srv w'))"
  using try_process_once_cases[OF assms] by (auto simp: applied_def)

lemma send_accounted:
  assumes "send_to_dlq_with_metrics x cfg topic env err n w1 = (q, w')"
    and "cw_offsets w1 = cw_offsets w" "total_events (cw_metrics w1) = total_events (cw_metrics w)"
  shows "retry_post x cfg env w (Ok q) w'"
  using send_to_dlq_cases[OF assms(1)] assms(2,3) by (auto simp: retry_post_def accounted_def)

lemma process_with_retry_post:
  "process_with_retry n x cfg handle env topic w = (r, w') \<Longrightarrow> retry_post x cfg env w r w'"
proof (induction n arbitrary: w)
  case 0
  obtain q w1 where t: "try_process_once x cfg handle env w = (q, w1)" by fastforce
  note world = try_process_once_world[OF t]
  show ?case
  proof (cases q)
    case (Ok a)
    show ?thesis
      using 0 t Ok world send_accounted[of x cfg topic env _ _ w1 _ w' w]
        try_once_committed[of x cfg handle env w w1] try_once_already_processed[of x cfg handle env w w1]
      by (cases a)
         (auto simp: retry_post_def accounted_def total_events_def metric_defs split: prod.splits)
  qed (use 0 t world in \<open>auto simp: retry_post_def\<close>)
next
  case (Suc n)
  obtain q w1 where t: "try_process_once x cfg handle env w = (q, w1)" by fastforce
  note world = try_process_once_world[OF t]
  let ?w1 = "w1\<lparr>cw_metrics := record_retry (cw_metrics w1)\<rparr>"
  obtain b w2 where sh: "backoff_or_shutdown ?w1 = (b, w2)" by fastforce
  have w2: "cw_offsets w2 = cw_offsets w" "total_events (cw_metrics w2) = total_events (cw_metrics w)"
    using backoff_or_shutdown_cases[OF sh] world by (auto simp: metric_defs total_events_def)
  show ?case
  proof (cases "\<exists>err. q = Ok (ATransientFailure err)")
    case True
    then obtain err where q: "q = Ok (ATransientFailure err)" by blast
    show ?thesis
    proof (cases b)
      case True
      then show ?thesis using Suc.prems t q sh send_accounted[of x cfg topic env _ _ w2 _ w' w] w2
        by (auto split: prod.splits)
    next
      case False
      then have "retry_post x cfg env w2 r w'" using Suc t q sh by (auto split: prod.splits)
      then show ?thesis using w2 by (auto simp: retry_post_def)
    qed
  next
    case False
    show ?thesis
    proof (cases q)
      case (Ok a)
      show ?thesis
        using Suc.prems t Ok False world send_accounted[of x cfg topic env _ _ w1 _ w' w]
          try_once_committed[of x cfg handle env w w1] try_once_already_processed[of x cfg handle env w w1]
        by (cases a)
           (auto simp: retry_post_def accounted_def total_events_def metric_defs split: prod.splits)
    qed (use Suc.prems t world in \<open>auto simp: retry_post_def\<close>)
  qed
qed

text \<open>What a handler has to promise so that the consumer keeps a relation between the
  committed databases before and after: a preorder \<open>R\<close> that does not look at the marks,
  kept by a handler's transaction when it is committed and by whatever the handler writes
  outside it.\<close>

locale event_handler =
  fixes handle :: "('z svc_db_scheme, 'x) handler"
    and R :: "'z svc_db_scheme \<Rightarrow> 'z svc_db_scheme \<Rightarrow> bool"
  assumes R_refl: "R d d"
    and R_trans: "R d d' \<Longrightarrow> R d' d'' \<Longrightarrow> R d d''"
    and R_marks: "R d (d\<lparr>processed_events := ps\<rparr>)"
    and handle_Ok: "handle env (s, y) = (Ok u, (t, y')) \<Longrightarrow> \<not> aborted s \<Longrightarrow> \<not> aborted t \<Longrightarrow>
      current s = committed s \<Longrightarrow>
      R (current s) (current t) \<and> set (processed_events (current s)) \<subseteq> set (processed_events (current t))"
    and handle_any: "handle env (s, y) = (r, (t, y')) \<Longrightarrow>
      R (committed s) (committed t) \<and>
      set (processed_events (committed s)) \<subseteq> set (processed_events (committed t))"
begin

definition advances where
  "advances d d' \<longleftrightarrow> R d d' \<and> set (processed_events d) \<subseteq> set (processed_events d')"

lemma advances_refl: "advances d d"
  by (simp add: advances_def R_refl)

lemma advances_trans: "advances d d' \<Longrightarrow> advances d' d'' \<Longrightarrow> advances d d''"
  by (auto simp: advances_def intro: R_trans)

lemma advances_mark: "advances d (mark_processed eid et src grp now d)"
  using mark_processed_extends[of d eid et src grp now]
  by (auto simp: advances_def mark_processed_def R_refl R_marks)

lemma try_once_advances:
  assumes "try_process_once x cfg handle env w = (r, w')"
  shows "advances (committed (cw_srv w)) (committed (cw_srv w'))"
  using try_process_once_cases[OF assms]
proof (elim disjE conjE)
  assume "applied cfg handle env w w'"
  then obtain s t y now where h: "handle env (s, cw_self w) = (Ok (), (t, y))"
    "committed s = committed (cw_srv w)" "current s = committed (cw_srv w)" "\<not> aborted s" "\<not> aborted t"
    and c: "committed (cw_srv w') = mark_processed (event_id (metadata env))
      (event_type_str (event_type (metadata env))) (source_service_str (source_service (metadata env)))
      (cc_group_id cfg) now (current t)"
    unfolding applied_def by blast
  have "advances (committed (cw_srv w)) (current t)"
    using handle_Ok[OF h(1)] h by (simp add: advances_def)
  then show ?thesis using c advances_mark advances_trans by metis
next
  assume "dropped handle env w w'"
  then show ?thesis unfolding dropped_def using handle_any by (metis advances_def)
qed (simp_all add: advances_refl)

lemma process_with_retry_advances:
  "process_with_retry n x cfg handle env topic w = (r, w') \<Longrightarrow>
     advances (committed (cw_srv w)) (committed (cw_srv w'))"
proof (induction n arbitrary: w)
  case 0
  obtain q w1 where t: "try_process_once x cfg handle env w = (q, w1)" by fastforce
  have "cw_srv w' = cw_srv w1" using 0 t
    by (auto split: result.splits attempt_result.splits prod.splits dest!: send_to_dlq_cases(1))
  then show ?case using try_once_advances[OF t] by simp
next
  case (Suc n)
  obtain q w1 where t: "try_process_once x cfg handle env w = (q, w1)" by fastforce
  note adv = try_once_advances[OF t]
  obtain b w2 where sh: "backoff_or_shutdown (w1\<lparr>cw_metrics := record_retry (cw_metrics w1)\<rparr>) = (b, w2)"
    by fastforce
  have w2: "cw_srv w2 = cw_srv w1" using backoff_or_shutdown_cases[OF sh] by simp
  consider "process_with_retry n x cfg handle env topic w2 = (r, w')" | "cw_srv w' = cw_srv w1"
    using Suc.prems t sh w2
    by (auto split: result.splits attempt_result.splits prod.splits bool.splits
        dest!: send_to_dlq_cases(1))
  then show ?case
    by cases (use Suc.IH adv w2 advances_trans in force)+
qed

lemma process_message_advances:
  assumes "process_message x cfg handle msg w = (r, w')"
  shows "advances (committed (cw_srv w)) (committed (cw_srv w'))"
proof (cases "Option.bind (json_parse x (case km_payload msg of None \<Rightarrow> [] | Some b \<Rightarrow> b)) (envelope_of_json x)")
  case None
  then have "cw_srv w' = cw_srv w" using assms
    by (auto simp: process_message_def Let_def publish_raw_to_dlq_def commit_offset_def
        split: prod.splits bool.splits dest!: send_cases)
  then show ?thesis by (simp add: advances_refl)
next
  case (Some env)
  obtain q w1 where p: "process_with_retry (cc_max_retries cfg) x cfg handle env (km_topic msg) w = (q, w1)"
    by fastforce
  have "cw_srv w' = cw_srv w1" using assms Some p
    by (auto simp: process_message_def Let_def commit_offset_def split: result.splits if_splits)
  then show ?thesis using process_with_retry_advances[OF p] by simp
qed

lemma message_loop_advances:
  assumes "message_loop x cfg handle msgs w = (r, w')"
  shows "advances (committed (cw_srv w)) (committed (cw_srv w'))"
proof -
  let ?I = "\<lambda>w' :: ('z svc_db_scheme, 'x) consumer_world. advances (committed (cw_srv w)) (committed (cw_srv w'))"
  have "wp (message_loop x cfg handle msgs) (\<lambda>_. ?I) ?I w"
    unfolding message_loop_def
  proof (rule wp_for_each)
    fix m and t :: "('z svc_db_scheme, 'x) consumer_world" assume I: "?I t"
    show "wp (case m of None \<Rightarrow> ret () | Some msg \<Rightarrow> process_message x cfg handle msg) (\<lambda>_. ?I) ?I t"
    proof (cases m)
      case (Some msg)
      obtain q t' where p: "process_message x cfg handle msg t = (q, t')" by fastforce
      have "?I t'" using I process_message_advances[OF p] by (rule advances_trans)
      then show ?thesis using Some p by (cases q) (simp_all add: wp_def)
    qed (use I in \<open>simp add: wp_ret\<close>)
  qed (rule advances_refl)
  then show ?thesis using assms by (rule wp_total_D)
qed

end

text \<open>A redelivered event that is already marked changes nothing, whatever the handler.\<close>

lemma process_message_redelivery:
  assumes "process_message x cfg handle msg w = (r, w')"
    and "Option.bind (json_parse x (case km_payload msg of None \<Rightarrow> [] | Some b \<Rightarrow> b)) (envelope_of_json x) = Some env"
    and "processed (event_id (metadata env)) (cc_group_id cfg) (committed (cw_srv w))"
  shows "committed (cw_srv w') = committed (cw_srv w)"
proof -
  obtain q w1 where t: "try_process_once x cfg handle env w = (q, w1)" by fastforce
  have one: "(q = Ok AAlreadyProcessed \<or> q = Ok ADbError) \<and> committed (cw_srv w1) = committed (cw_srv w)"
    using try_process_once_cases[OF t] assms(3) by (auto simp: applied_def)
  have "\<exists>p w2. process_with_retry (cc_max_retries cfg) x cfg handle env (km_topic msg) w = (Ok p, w2) \<and>
      cw_srv w2 = cw_srv w1"
    using t one by (cases "cc_max_retries cfg") auto
  then show ?thesis using assms(1,2) one
    by (auto simp: process_message_def Let_def commit_offset_def split: if_splits)
qed

lemma process_message_post:
  assumes "process_message x cfg handle msg w = (Ok (), w')"
    and "Option.bind (json_parse x (case km_payload msg of None \<Rightarrow> [] | Some b \<Rightarrow> b)) (envelope_of_json x) = Some env"
  shows "total_events (cw_metrics w') = Suc (total_events (cw_metrics w))"
    and "cw_offsets w' = cw_offsets w \<or>
      cw_offsets w' = cw_offsets w @ [km_offset msg] \<and> accounted x cfg env w'"
proof -
  obtain q w1 where p: "process_with_retry (cc_max_retries cfg) x cfg handle env (km_topic msg) w = (q, w1)"
    by fastforce
  note post = process_with_retry_post[OF p]
  show "total_events (cw_metrics w') = Suc (total_events (cw_metrics w))"
    and "cw_offsets w' = cw_offsets w \<or>
      cw_offsets w' = cw_offsets w @ [km_offset msg] \<and> accounted x cfg env w'"
    using assms p post
    by (cases q; auto simp: process_message_def Let_def retry_post_def commit_offset_def accounted_def
        split: if_splits)+
qed

section \<open>Properties\<close>

text \<open>The envelope that a message carries, if it can be read.\<close>

definition message_envelope :: "externs \<Rightarrow> kafka_message \<Rightarrow> event_envelope option" where
  "message_envelope x msg =
     Option.bind (json_parse x (case km_payload msg of None \<Rightarrow> [] | Some b \<Rightarrow> b)) (envelope_of_json x)"

text \<open>An environment whose parser reads one given envelope off every message.\<close>

definition reading :: "event_envelope \<Rightarrow> externs" where
  "reading env = demo_externs\<lparr>json_parse := (\<lambda>_. Some (envelope_to_json demo_externs env))\<rparr>"

lemma message_envelope_reading [simp]: "message_envelope (reading env) msg = Some env"
proof -
  have "envelope_of_json (reading env) j = envelope_of_json demo_externs j" for j
    by (simp add: reading_def envelope_of_json_def metadata_of_json_def)
  then show ?thesis by (simp add: message_envelope_def reading_def envelope_json_roundtrip)
qed

definition demo_world :: "'d \<Rightarrow> 'x \<Rightarrow> ('d, 'x) consumer_world" where
  "demo_world d y =
     \<lparr>cw_srv = demo_srv d, cw_self = y, cw_send_ok = [], cw_shutdown = [], cw_dlq = [], cw_offsets = [],
      cw_metrics = metrics_new\<rparr>"

definition demo_message :: kafka_message where
  "demo_message = \<lparr>km_topic = ''orders.events'', km_payload = None, km_offset = 0\<rparr>"

text \<open>C5: Deduplication: a message whose event is already marked as processed for the consumer's
  group changes nothing in the database, whatever the handler would do, however often it is
  delivered and whatever fails meanwhile.\<close>

theorem redelivery_changes_nothing:
  assumes "message_envelope x msg = Some env"
    and "processed (event_id (metadata env)) (cc_group_id cfg) (committed (cw_srv w))"
  shows "committed (cw_srv (snd (process_message x cfg handle msg w))) = committed (cw_srv w)"
proof -
  obtain r w' where "process_message x cfg handle msg w = (r, w')" by fastforce
  from process_message_redelivery[OF this assms[unfolded message_envelope_def]] this show ?thesis by simp
qed

definition demo_mark :: processed_event where
  "demo_mark = \<lparr>pe_event_id = 3, pe_event_type = ''OrderCreated'', pe_source_service = ''order'',
     pe_consumer_group = ''g'', pe_processed_at = 0\<rparr>"

theorem redelivery_changes_nothing_witness:
  "committed (cw_srv (snd (process_message (reading (demo_envelope OrderCreated JNull)) (consumer_config_new ''g'' [])
     (\<lambda>env p. (Ok (), ((fst p)\<lparr>current := \<lparr>outbox_events = [], processed_events = []\<rparr>\<rparr>, snd p))) demo_message
     (demo_world \<lparr>outbox_events = [], processed_events = [demo_mark]\<rparr> ())))) =
   \<lparr>outbox_events = [], processed_events = [demo_mark]\<rparr>"
proof -
  let ?w = "demo_world \<lparr>outbox_events = [], processed_events = [demo_mark]\<rparr> ()"
  have "processed (event_id (metadata (demo_envelope OrderCreated JNull)))
      (cc_group_id (consumer_config_new ''g'' [])) (committed (cw_srv ?w))"
    by (simp add: processed_def demo_envelope_def demo_world_def demo_mark_def consumer_config_new_def)
  from redelivery_changes_nothing[OF message_envelope_reading this]
  show ?thesis by (simp add: demo_world_def)
qed



text \<open>The delay between attempts grows with the attempt, never exceeds the configured maximum
  and never wraps around, for every configuration that fits the milliseconds of the code.\<close>

theorem backoff_bounded_and_monotone:
  "calculate_backoff cfg k \<le> calculate_backoff cfg (Suc k) \<and>
   calculate_backoff cfg k \<le> cc_retry_max_delay cfg mod 2 ^ 64 \<and> calculate_backoff cfg k \<le> u64_max"
proof -
  have "cc_retry_max_delay cfg mod 2 ^ 64 \<le> u64_max"
    by (simp add: u64_max_def)
  then show ?thesis
    using calculate_backoff_mono[of k "Suc k" cfg] calculate_backoff_bound[of cfg k] by linarith
qed

end
