(* ===== verification/Inventory.thy ===== *)
theory Inventory
  imports Consumer
begin

text \<open>
  Stock reservation in the catalog service: the tables \<open>skus\<close> and \<open>inventory_reservations\<close>
  with their constraints, the statements of \<open>catalog/src/inventory/repository.rs\<close>, the
  operations of \<open>service.rs\<close> and the event handlers of \<open>catalog/src/consumers\<close>.
\<close>

section \<open>Tables\<close>

datatype reservation_status = RvReserved | RvReleased | RvConfirmed

fun reservation_status_str :: "reservation_status \<Rightarrow> string" where
  "reservation_status_str RvReserved = ''reserved''"
| "reservation_status_str RvReleased = ''released''"
| "reservation_status_str RvConfirmed = ''confirmed''"

record reservation =
  rv_id :: uuid
  rv_created_at :: timestamp
  rv_order_id :: uuid
  rv_sku_id :: uuid
  rv_quantity :: int
  rv_status :: reservation_status
  rv_released_at :: "timestamp option"
  rv_confirmed_at :: "timestamp option"

datatype sku_status = SkuActive | SkuInactive | SkuOutOfStock

record sku =
  sk_id :: uuid
  sk_created_at :: timestamp
  sk_updated_at :: "timestamp option"
  sk_deleted_at :: "timestamp option"
  sk_product_id :: uuid
  sk_sku_code :: string
  sk_price :: decimal
  sk_stock :: int
  sk_reserved :: int
  sk_attributes :: json
  sk_status :: sku_status

record sku_availability =
  av_sku_id :: uuid
  av_product_id :: uuid
  av_sku_code :: string
  av_stock :: int
  av_reserved :: int
  av_available :: int

record catalog_db = svc_db +
  skus :: "sku list"
  reservations :: "reservation list"

section \<open>Statements\<close>

text \<open>An update of \<open>skus\<close>: the new rows are checked in the order in which Postgres checks
  constraints, by name; the answer is the number of rows affected.\<close>

definition update_skus :: "(sku \<Rightarrow> bool) \<Rightarrow> (timestamp \<Rightarrow> sku \<Rightarrow> sku) \<Rightarrow> (catalog_db, nat) sql" where
  "update_skus P f now d =
     (let new = map (f now) (filter P (skus d)) in
      if list_ex (\<lambda>k. \<not> int4 (sk_stock k) \<or> \<not> int4 (sk_reserved k)) new then Inl NumericOutOfRange
      else if list_ex (\<lambda>k. sk_reserved k < 0) new then Inl (CheckViolation ''chk_reserved_quantity'')
      else if list_ex (\<lambda>k. sk_stock k < 0) new then Inl (CheckViolation ''chk_skus_stock'')
      else Inr (count_where P (skus d), d\<lparr>skus := update_where P (f now) (skus d)\<rparr>))"

definition reservable :: "uuid \<Rightarrow> int \<Rightarrow> sku \<Rightarrow> bool" where
  "reservable sid q k \<longleftrightarrow> sk_id k = sid \<and> sk_deleted_at k = None \<and> sk_stock k - sk_reserved k \<ge> q"

definition reserve_sku :: "int \<Rightarrow> timestamp \<Rightarrow> sku \<Rightarrow> sku" where
  "reserve_sku q now k = k\<lparr>sk_reserved := sk_reserved k + q, sk_updated_at := Some now\<rparr>"

definition reservation_row :: "uuid \<Rightarrow> timestamp \<Rightarrow> uuid \<Rightarrow> uuid \<Rightarrow> int \<Rightarrow> reservation" where
  "reservation_row rid now oid sid q =
     \<lparr>rv_id = rid, rv_created_at = now, rv_order_id = oid, rv_sku_id = sid, rv_quantity = q,
      rv_status = RvReserved, rv_released_at = None, rv_confirmed_at = None\<rparr>"

definition insert_reservation_sql :: "uuid \<Rightarrow> uuid \<Rightarrow> int \<Rightarrow> uuid \<Rightarrow> (catalog_db, unit) sql" where
  "insert_reservation_sql oid sid q rid now d =
     (if q \<le> 0 then Inl (CheckViolation ''chk_reservation_quantity'')
      else if rid \<in> rv_id ` set (reservations d) then Inl (UniqueViolation ''inventory_reservations_pkey'')
      else if list_ex (\<lambda>r. rv_order_id r = oid \<and> rv_sku_id r = sid) (reservations d)
      then Inl (UniqueViolation ''uq_reservation_order_sku'')
      else if sid \<notin> sk_id ` set (skus d)
      then Inl (ForeignKeyViolation ''inventory_reservations_sku_id_fkey'')
      else Inr ((), d\<lparr>reservations := reservations d @ [reservation_row rid now oid sid q]\<rparr>))"

definition reserve_inventory ::
  "externs \<Rightarrow> uuid \<Rightarrow> uuid \<Rightarrow> int \<Rightarrow> (catalog_db srv, app_error, unit) eff" where
  "reserve_inventory x oid sid q =
     bnd (map_err (\<lambda>e. InternalServerError (''Failed to reserve inventory: '' @ db_text x e))
            (stmt Tx (update_skus (reservable sid q) (reserve_sku q)))) (\<lambda>rows.
       if rows = 0 then throw (BadRequest (''Insufficient stock for SKU '' @ uuid_str x sid))
       else bnd next_uuid (\<lambda>rid.
         map_err (\<lambda>e. InternalServerError (''Failed to insert reservation: '' @ db_text x e))
           (stmt Tx (insert_reservation_sql oid sid q rid))))"

definition open_reservation :: "uuid \<Rightarrow> uuid \<Rightarrow> reservation \<Rightarrow> bool" where
  "open_reservation oid sid r \<longleftrightarrow> rv_order_id r = oid \<and> rv_sku_id r = sid \<and> rv_status r = RvReserved"

definition fetch_reserved ::
  "externs \<Rightarrow> uuid \<Rightarrow> uuid \<Rightarrow> (catalog_db srv, app_error, reservation) eff" where
  "fetch_reserved x oid sid =
     map_err (\<lambda>e. NotFound (''Reservation not found: '' @ db_text x e))
       (fetch_one (query Tx (\<lambda>d. filter (open_reservation oid sid) (reservations d))))"

definition live_sku :: "uuid \<Rightarrow> sku \<Rightarrow> bool" where
  "live_sku sid k \<longleftrightarrow> sk_id k = sid \<and> sk_deleted_at k = None"

definition release_sku :: "int \<Rightarrow> timestamp \<Rightarrow> sku \<Rightarrow> sku" where
  "release_sku q now k = k\<lparr>sk_reserved := sk_reserved k - q, sk_updated_at := Some now\<rparr>"

definition set_released :: "timestamp \<Rightarrow> reservation \<Rightarrow> reservation" where
  "set_released now r = r\<lparr>rv_status := RvReleased, rv_released_at := Some now\<rparr>"

definition release_reservation :: "externs \<Rightarrow> uuid \<Rightarrow> uuid \<Rightarrow> (catalog_db srv, app_error, unit) eff" where
  "release_reservation x oid sid =
     bnd (fetch_reserved x oid sid) (\<lambda>r.
     bnd (map_err (\<lambda>e. InternalServerError (''Failed to release reserved stock: '' @ db_text x e))
            (stmt Tx (update_skus (live_sku sid) (release_sku (rv_quantity r))))) (\<lambda>_.
       map_err (\<lambda>e. InternalServerError (''Failed to release reservation: '' @ db_text x e))
         (stmt Tx (\<lambda>now d. Inr ((), d\<lparr>reservations :=
            update_where (\<lambda>q. rv_id q = rv_id r) (set_released now) (reservations d)\<rparr>)))))"

definition confirm_sku :: "int \<Rightarrow> timestamp \<Rightarrow> sku \<Rightarrow> sku" where
  "confirm_sku q now k =
     k\<lparr>sk_stock := sk_stock k - q, sk_reserved := sk_reserved k - q, sk_updated_at := Some now\<rparr>"

definition set_confirmed :: "timestamp \<Rightarrow> reservation \<Rightarrow> reservation" where
  "set_confirmed now r = r\<lparr>rv_status := RvConfirmed, rv_confirmed_at := Some now\<rparr>"

definition confirm_error :: "externs \<Rightarrow> uuid \<Rightarrow> db_error \<Rightarrow> app_error" where
  "confirm_error x sid e =
     (if e = CheckViolation ''chk_skus_stock''
      then BadRequest (''Cannot confirm reservation for SKU '' @ uuid_str x sid @
             '': stock was reduced below reserved quantity'')
      else InternalServerError (''Failed to confirm stock: '' @ db_text x e))"

definition confirm_reservation :: "externs \<Rightarrow> uuid \<Rightarrow> uuid \<Rightarrow> (catalog_db srv, app_error, unit) eff" where
  "confirm_reservation x oid sid =
     bnd (fetch_reserved x oid sid) (\<lambda>r.
     bnd (map_err (confirm_error x sid)
            (stmt Tx (update_skus (live_sku sid) (confirm_sku (rv_quantity r))))) (\<lambda>_.
       map_err (\<lambda>e. InternalServerError (''Failed to confirm reservation: '' @ db_text x e))
         (stmt Tx (\<lambda>now d. Inr ((), d\<lparr>reservations :=
            update_where (\<lambda>q. rv_id q = rv_id r) (set_confirmed now) (reservations d)\<rparr>)))))"

definition release_all_reservations :: "externs \<Rightarrow> uuid \<Rightarrow> (catalog_db srv, app_error, unit) eff" where
  "release_all_reservations x oid =
     bnd (map_err (\<lambda>e. InternalServerError (''Failed to find reservations: '' @ db_text x e))
            (query Tx (\<lambda>d. filter (\<lambda>r. rv_order_id r = oid \<and> rv_status r = RvReserved) (reservations d))))
       (\<lambda>rs. for_each (\<lambda>r. release_reservation x oid (rv_sku_id r)) rs)"

definition get_sku_availability :: "externs \<Rightarrow> uuid \<Rightarrow> (catalog_db srv, app_error, sku_availability) eff" where
  "get_sku_availability x sid =
     map_err (\<lambda>e. NotFound (''SKU availability not found: '' @ db_text x e))
       (fetch_one (query Tx (\<lambda>d. map (\<lambda>k.
          \<lparr>av_sku_id = sk_id k, av_product_id = sk_product_id k, av_sku_code = sk_sku_code k,
           av_stock = sk_stock k, av_reserved = sk_reserved k, av_available = sk_stock k - sk_reserved k\<rparr>)
          (filter (live_sku sid) (skus d)))))"

definition get_reservation :: "externs \<Rightarrow> uuid \<Rightarrow> uuid \<Rightarrow> (catalog_db srv, app_error, reservation option) eff" where
  "get_reservation x oid sid =
     map_err (\<lambda>e. InternalServerError (''Failed to get reservation: '' @ db_text x e))
       (fetch_optional (query Tx (\<lambda>d.
          filter (\<lambda>r. rv_order_id r = oid \<and> rv_sku_id r = sid) (reservations d))))"

section \<open>Service\<close>

definition write_catalog_event ::
  "externs \<Rightarrow> event_type \<Rightarrow> uuid \<Rightarrow> json \<Rightarrow> (catalog_db srv, app_error, unit) eff" where
  "write_catalog_event x et oid pl =
     bnd (event_metadata_new et AggInventory oid SCatalog) (\<lambda>m.
     bnd (insert_outbox_event x Tx (from_envelope x ''catalog.events'' (event_envelope_new m pl))) (\<lambda>_. ret ()))"

definition reserved_payload :: "externs \<Rightarrow> uuid \<Rightarrow> uuid \<Rightarrow> string \<Rightarrow> string \<Rightarrow> (uuid \<times> int) list \<Rightarrow> json" where
  "reserved_payload x oid buyer amount cur items =
     JObject
       [(''order_id'', JString (uuid_str x oid)), (''buyer_id'', JString (uuid_str x buyer)),
        (''total_amount'', JString amount), (''currency'', JString cur),
        (''items'', JArray (map (\<lambda>(sid, q).
           JObject [(''sku_id'', JString (uuid_str x sid)), (''quantity'', JInt q)]) items))]"

definition do_reserve_and_write_event ::
  "externs \<Rightarrow> uuid \<Rightarrow> uuid \<Rightarrow> string \<Rightarrow> string \<Rightarrow> (uuid \<times> int) list \<Rightarrow> (catalog_db srv, app_error, unit) eff" where
  "do_reserve_and_write_event x oid buyer amount cur items =
     bnd (for_each (\<lambda>(sid, q). reserve_inventory x oid sid q) items) (\<lambda>_.
       write_catalog_event x InventoryReserved oid (reserved_payload x oid buyer amount cur items))"

definition failed_payload :: "externs \<Rightarrow> uuid \<Rightarrow> string \<Rightarrow> json" where
  "failed_payload x oid reason =
     JObject [(''order_id'', JString (uuid_str x oid)), (''reason'', JString reason)]"

definition write_reservation_failed_on_pool ::
  "externs \<Rightarrow> uuid \<Rightarrow> string \<Rightarrow> (catalog_db srv, app_error, unit) eff" where
  "write_reservation_failed_on_pool x oid reason =
     map_err (\<lambda>e. InternalServerError (''Failed to write event: '' @ tx_error_str x e))
       (with_transaction (map_err tx_other
          (write_catalog_event x InventoryReservationFailed oid (failed_payload x oid reason))))"

definition reserve_for_order_on_tx ::
  "externs \<Rightarrow> uuid \<Rightarrow> uuid \<Rightarrow> string \<Rightarrow> string \<Rightarrow> (uuid \<times> int) list \<Rightarrow> (catalog_db srv, app_error, unit) eff" where
  "reserve_for_order_on_tx x oid buyer amount cur items =
     bnd (attempt (do_reserve_and_write_event x oid buyer amount cur items)) (\<lambda>res.
       case res of
         Ok _ \<Rightarrow> ret ()
       | Err e \<Rightarrow> bnd (write_reservation_failed_on_pool x oid (app_error_str e)) (\<lambda>_. throw e)
       | Panic p \<Rightarrow> panic p)"

definition reserve_for_order ::
  "externs \<Rightarrow> uuid \<Rightarrow> uuid \<Rightarrow> string \<Rightarrow> string \<Rightarrow> (uuid \<times> int) list \<Rightarrow> (catalog_db srv, app_error, unit) eff" where
  "reserve_for_order x oid buyer amount cur items =
     bnd (attempt (with_transaction (map_err tx_other (do_reserve_and_write_event x oid buyer amount cur items)))) (\<lambda>res.
       case res of
         Ok _ \<Rightarrow> ret ()
       | Err e \<Rightarrow> bnd (write_reservation_failed_on_pool x oid (tx_error_str x e))
                    (\<lambda>_. throw (BadRequest (tx_error_str x e)))
       | Panic p \<Rightarrow> panic p)"

definition release_for_order_on_tx :: "externs \<Rightarrow> uuid \<Rightarrow> (catalog_db srv, app_error, unit) eff" where
  "release_for_order_on_tx x oid = release_all_reservations x oid"

definition release_for_order :: "externs \<Rightarrow> uuid \<Rightarrow> (catalog_db srv, app_error, unit) eff" where
  "release_for_order x oid =
     map_err (\<lambda>e. InternalServerError (''Failed to release inventory: '' @ tx_error_str x e))
       (with_transaction (map_err tx_other (release_all_reservations x oid)))"

definition confirm_for_order :: "externs \<Rightarrow> uuid \<Rightarrow> (uuid \<times> int) list \<Rightarrow> (catalog_db srv, app_error, unit) eff" where
  "confirm_for_order x oid items =
     map_err (\<lambda>e. InternalServerError (''Failed to confirm inventory: '' @ tx_error_str x e))
       (with_transaction
          (for_each (\<lambda>(sid, _). map_err tx_other (confirm_reservation x oid sid)) items))"

section \<open>Event handlers\<close>

definition parse_item :: "externs \<Rightarrow> json \<Rightarrow> (uuid \<times> int, handler_error) result" where
  "parse_item x item =
     and_then (ok_or (Permanent ''Invalid sku_id in item'')
       (Option.bind (as_str (jget item ''sku_id'')) (uuid_parse x))) (\<lambda>sid.
     and_then (ok_or (Permanent ''Missing quantity in item'') (as_i64 (jget item ''quantity''))) (\<lambda>q.
       Ok (sid, cast_i32 q)))"

definition parse_items :: "externs \<Rightarrow> json \<Rightarrow> ((uuid \<times> int) list, handler_error) result" where
  "parse_items x pl =
     and_then (ok_or (Permanent ''Missing items array in OrderCreated payload'')
       (as_array (jget pl ''items''))) (collect_results (parse_item x))"

definition str_or :: "json \<Rightarrow> string \<Rightarrow> string" where
  "str_or j dflt = (case as_str j of Some s \<Rightarrow> s | None \<Rightarrow> dflt)"

definition handle_order_created ::
  "externs \<Rightarrow> event_envelope \<Rightarrow> (catalog_db srv, handler_error, unit) eff" where
  "handle_order_created x env =
     bnd (of_result (map_err_result permanent_of (payload_uuid x env ''order_id''))) (\<lambda>oid.
     bnd (of_result (map_err_result permanent_of (payload_uuid x env ''buyer_id''))) (\<lambda>buyer.
       let amount = str_or (jget (payload env) ''total_amount'') ''0'';
           cur = str_or (jget (payload env) ''currency'') ''USD'' in
       bnd (of_result (parse_items x (payload env))) (\<lambda>items.
         map_err (\<lambda>e. Permanent (''Inventory reservation failed: '' @ app_error_str e))
           (reserve_for_order_on_tx x oid buyer amount cur items))))"

definition handle_order_cancelled ::
  "externs \<Rightarrow> event_envelope \<Rightarrow> (catalog_db srv, app_error, unit) eff" where
  "handle_order_cancelled x env =
     bnd (of_result (payload_uuid x env ''order_id'')) (\<lambda>oid.
     bnd (attempt (release_for_order_on_tx x oid)) (\<lambda>_. ret ()))"

definition catalog_handle :: "externs \<Rightarrow> (catalog_db, 'x) handler" where
  "catalog_handle x env =
     (case event_type (metadata env) of
        OrderCreated \<Rightarrow> on_fst (handle_order_created x env)
      | OrderCancelled \<Rightarrow> on_fst (map_err transient_of (handle_order_cancelled x env))
      | _ \<Rightarrow> ret ())"

end
