(* ===== verification/Inventory_Proofs.thy ===== *)
theory Inventory_Proofs
  imports Inventory
begin

text \<open>
  Stock is never oversold: a live SKU's reserved quantity is the sum of its open
  reservations and at most its stock, under every operation of the inventory component and
  under every run of the catalog's consumer.
\<close>

section \<open>The invariant\<close>

definition held :: "uuid \<Rightarrow> reservation list \<Rightarrow> int" where
  "held sid rs = sum_list (map rv_quantity (filter (\<lambda>r. rv_sku_id r = sid \<and> rv_status r = RvReserved) rs))"

definition sku_ok :: "reservation list \<Rightarrow> sku \<Rightarrow> bool" where
  "sku_ok rs k \<longleftrightarrow>
     (sk_deleted_at k = None \<longrightarrow> sk_reserved k = held (sk_id k) rs \<and> sk_reserved k \<le> sk_stock k)"

definition stock_ok :: "catalog_db \<Rightarrow> bool" where
  "stock_ok d \<longleftrightarrow>
     distinct (map sk_id (skus d)) \<and> distinct (map rv_id (reservations d)) \<and>
     list_all (\<lambda>r. 0 < rv_quantity r) (reservations d) \<and> list_all (sku_ok (reservations d)) (skus d)"

lemma held_Nil [simp]: "held sid [] = 0"
  by (simp add: held_def)

lemma held_Cons [simp]:
  "held sid (r # rs) = (if rv_sku_id r = sid \<and> rv_status r = RvReserved then rv_quantity r else 0) + held sid rs"
  by (simp add: held_def)

lemma held_append [simp]: "held sid (rs @ qs) = held sid rs + held sid qs"
  by (simp add: held_def)

lemma held_update_other:
  assumes "rid \<notin> rv_id ` set rs" shows "held sid (update_where (\<lambda>q. rv_id q = rid) f rs) = held sid rs"
proof -
  have "update_where (\<lambda>q. rv_id q = rid) f rs = rs" by (rule update_where_id) (use assms in auto)
  then show ?thesis by simp
qed

text \<open>Closing an open reservation gives its quantity back to its SKU and to no other.\<close>

lemma held_close:
  assumes "distinct (map rv_id rs)" and "r \<in> set rs" and "rv_status r = RvReserved"
    and "\<And>q. rv_status (f q) \<noteq> RvReserved"
  shows "held sid (update_where (\<lambda>q. rv_id q = rv_id r) f rs) =
    held sid rs - (if rv_sku_id r = sid then rv_quantity r else 0)"
  using assms(1,2)
proof (induction rs)
  case (Cons a rs)
  show ?case
  proof (cases "a = r")
    case True
    then have "rv_id r \<notin> rv_id ` set rs" using Cons.prems(1) by auto
    then show ?thesis using True assms(3,4) held_update_other by simp
  next
    case False
    then have "r \<in> set rs" "rv_id a \<noteq> rv_id r" using Cons.prems by auto
    then show ?thesis using Cons by simp
  qed
qed simp

lemma held_nonneg: "list_all (\<lambda>r. 0 < rv_quantity r) rs \<Longrightarrow> 0 \<le> held sid rs"
  by (induction rs) auto

lemma held_ge_member:
  "list_all (\<lambda>r. 0 < rv_quantity r) rs \<Longrightarrow> r \<in> set rs \<Longrightarrow> rv_status r = RvReserved \<Longrightarrow>
     rv_quantity r \<le> held (rv_sku_id r) rs"
  using held_nonneg by (induction rs) fastforce+

lemma distinct_key_eq: "distinct (map k xs) \<Longrightarrow> a \<in> set xs \<Longrightarrow> b \<in> set xs \<Longrightarrow> k a = k b \<Longrightarrow> a = b"
  by (meson distinct_map inj_onD)

section \<open>The operations keep the invariant\<close>

lemma stock_ok_reserve:
  assumes ok: "stock_ok d" and q: "0 < q" and fresh: "rid \<notin> rv_id ` set (reservations d)"
    and found: "count_where (reservable sid q) (skus d) \<noteq> 0"
  shows "stock_ok (d\<lparr>skus := update_where (reservable sid q) (reserve_sku q now) (skus d),
    reservations := reservations d @ [reservation_row rid now' oid sid q]\<rparr>)"
proof -
  let ?rs = "reservations d @ [reservation_row rid now' oid sid q]"
  obtain k0 where k0: "k0 \<in> set (skus d)" "reservable sid q k0"
    using found by (auto simp: count_where_zero_iff)
  have "sku_ok ?rs (if reservable sid q k then reserve_sku q now k else k)" if k: "k \<in> set (skus d)" for k
  proof (cases "sk_id k = sid")
    case True
    then have "k = k0" using distinct_key_eq[of sk_id] ok k k0 by (auto simp: stock_ok_def reservable_def)
    then show ?thesis using k0 ok k
      by (auto simp: sku_ok_def stock_ok_def list_all_iff reservable_def reserve_sku_def reservation_row_def)
  next
    case False
    then show ?thesis using ok k
      by (auto simp: sku_ok_def stock_ok_def list_all_iff reservable_def reservation_row_def)
  qed
  then show ?thesis using ok q fresh
    by (auto simp: stock_ok_def list_all_update_where reservation_row_def reserve_sku_def)
qed

text \<open>Releasing and confirming share their argument: the reservation is closed and its
  quantity leaves the reserved count of its SKU.\<close>

lemma stock_ok_close:
  assumes ok: "stock_ok d" and r: "r \<in> set (reservations d)" "rv_sku_id r = sid" "rv_status r = RvReserved"
    and f: "\<And>k. sk_id (f k) = sk_id k" "\<And>k. sk_deleted_at (f k) = sk_deleted_at k"
      "\<And>k. sk_reserved (f k) = sk_reserved k - rv_quantity r"
      "\<And>k. sk_stock k - rv_quantity r \<le> sk_stock (f k)"
    and g: "\<And>q. rv_status (g q) \<noteq> RvReserved" "\<And>q. rv_id (g q) = rv_id q" "\<And>q. rv_quantity (g q) = rv_quantity q"
  shows "stock_ok (d\<lparr>skus := update_where (live_sku sid) f (skus d),
    reservations := update_where (\<lambda>q. rv_id q = rv_id r) g (reservations d)\<rparr>)"
proof -
  let ?rs = "update_where (\<lambda>q. rv_id q = rv_id r) g (reservations d)"
  have held: "held s ?rs = held s (reservations d) - (if sid = s then rv_quantity r else 0)" for s
    using held_close[of "reservations d" r g s] ok r g(1) by (auto simp: stock_ok_def)
  have "sku_ok ?rs (if live_sku sid k then f k else k)" if k: "k \<in> set (skus d)" for k
  proof -
    have kok: "sku_ok (reservations d) k" using ok k by (simp add: stock_ok_def list_all_iff)
    have "sk_reserved k - rv_quantity r \<le> sk_stock (f k)" if "sk_reserved k \<le> sk_stock k"
      using that f(4)[of k] by linarith
    with kok show ?thesis using held f by (auto simp: sku_ok_def live_sku_def)
  qed
  then have "list_all (sku_ok ?rs) (update_where (live_sku sid) f (skus d))"
    by (simp add: list_all_update_where)
  moreover have "list_all (\<lambda>r. 0 < rv_quantity r) ?rs"
    using ok g(3) by (auto simp: stock_ok_def list_all_iff set_update_where)
  ultimately show ?thesis using ok f(1) g(2) by (simp add: stock_ok_def)
qed

definition catalog_evolves :: "catalog_db \<Rightarrow> catalog_db \<Rightarrow> bool" where
  "catalog_evolves d d' \<longleftrightarrow>
     (stock_ok d \<longrightarrow> stock_ok d') \<and>
     map (\<lambda>k. (sk_id k, sk_stock k, sk_deleted_at k)) (skus d') = map (\<lambda>k. (sk_id k, sk_stock k, sk_deleted_at k)) (skus d) \<and>
     prefix (outbox_events d) (outbox_events d')"

lemma catalog_evolves_refl: "catalog_evolves d d"
  by (simp add: catalog_evolves_def)

lemma catalog_evolves_trans: "catalog_evolves d d' \<Longrightarrow> catalog_evolves d' d'' \<Longrightarrow> catalog_evolves d d''"
  by (auto simp: catalog_evolves_def)

lemma catalog_evolves_marks: "catalog_evolves d (d\<lparr>processed_events := ps\<rparr>)"
  by (simp add: catalog_evolves_def stock_ok_def)

lemma catalog_evolves_outbox:
  "skus d' = skus d \<Longrightarrow> reservations d' = reservations d \<Longrightarrow> prefix (outbox_events d) (outbox_events d') \<Longrightarrow>
     catalog_evolves d d'"
  by (simp add: catalog_evolves_def stock_ok_def)

section \<open>Transactions keep the evolution\<close>

definition tx_evolves :: "catalog_db \<Rightarrow> catalog_db srv \<Rightarrow> bool" where
  "tx_evolves d t \<longleftrightarrow> catalog_evolves d (current t) \<and> processed_events (current t) = processed_events d"

lemma update_skus_Inr:
  "update_skus P f now d = Inr (n, d') \<Longrightarrow>
     n = count_where P (skus d) \<and> d' = d\<lparr>skus := update_where P (f now) (skus d)\<rparr>"
  by (auto simp: update_skus_def Let_def split: if_splits)

lemma wp_update_skus:
  assumes "\<And>t. \<not> aborted s \<Longrightarrow>
      current t = (current s)\<lparr>skus := update_where P (f (db_now s)) (skus (current s))\<rparr> \<Longrightarrow>
      \<not> aborted t \<Longrightarrow> Q (count_where P (skus (current s))) t"
    and "\<And>t. aborted t \<Longrightarrow> E t"
  shows "wp (stmt Tx (update_skus P f)) Q E s"
  using assms by (auto dest!: update_skus_Inr intro!: wp_stmt_Tx)

lemma wp_reserve_inventory:
  "wp (reserve_inventory x oid sid q) (\<lambda>_ t. tx_evolves (current s) t) (\<lambda>_. True) s"
  unfolding reserve_inventory_def wp_simps
proof (rule wp_update_skus)
  fix t :: "catalog_db srv"
  assume t: "current t = (current s)\<lparr>skus := update_where (reservable sid q) (reserve_sku q (db_now s)) (skus (current s))\<rparr>"
  have "wp (stmt Tx (insert_reservation_sql oid sid q (uuids t (ticks t)))) (\<lambda>_ u. tx_evolves (current s) u) (\<lambda>_. True)
      (t\<lparr>ticks := Suc (ticks t)\<rparr>)" if "count_where (reservable sid q) (skus (current s)) \<noteq> 0"
  proof (rule wp_stmt_Tx)
    fix u d assume "insert_reservation_sql oid sid q (uuids t (ticks t)) (db_now (t\<lparr>ticks := Suc (ticks t)\<rparr>))
        (current (t\<lparr>ticks := Suc (ticks t)\<rparr>)) = Inr (u, d)"
    then have d: "0 < q" "uuids t (ticks t) \<notin> rv_id ` set (reservations (current s))"
      "d = (current s)\<lparr>skus := update_where (reservable sid q) (reserve_sku q (db_now s)) (skus (current s)),
        reservations := reservations (current s) @ [reservation_row (uuids t (ticks t)) (db_now t) oid sid q]\<rparr>"
      by (auto simp: insert_reservation_sql_def t split: if_splits)
    have "catalog_evolves (current s) d"
      using stock_ok_reserve[OF _ d(1,2) that] by (simp add: catalog_evolves_def d(3) reserve_sku_def)
    then show "tx_evolves (current s) ((pop_fault (t\<lparr>ticks := Suc (ticks t)\<rparr>))\<lparr>current := d\<rparr>)"
      by (simp add: tx_evolves_def d(3))
  qed simp_all
  then show "wp (if count_where (reservable sid q) (skus (current s)) = 0
      then throw (BadRequest (''Insufficient stock for SKU '' @ uuid_str x sid))
      else bnd next_uuid (\<lambda>rid. map_err (\<lambda>e. InternalServerError (''Failed to insert reservation: '' @ db_text x e))
         (stmt Tx (insert_reservation_sql oid sid q rid)))) (\<lambda>_. tx_evolves (current s)) (\<lambda>_. True) t"
    by (simp add: wp_simps)
qed simp

text \<open>
  An operation that stops half way leaves the transaction either aborted or, when the
  client found no row, in a state that evolved from the one before.
\<close>

definition unless_aborted :: "catalog_db \<Rightarrow> catalog_db srv \<Rightarrow> bool" where
  "unless_aborted d t \<longleftrightarrow> aborted t \<or> tx_evolves d t"

lemma unless_aborted_aborted [simp]: "aborted t \<Longrightarrow> unless_aborted d t"
  by (simp add: unless_aborted_def)

lemma wp_fetch_reserved:
  assumes "\<And>r. r \<in> set (reservations (current s)) \<Longrightarrow> open_reservation oid sid r \<Longrightarrow> Q r (pop_fault s)"
    and "\<And>t. aborted t \<or> t = pop_fault s \<Longrightarrow> E t"
  shows "wp (fetch_reserved x oid sid) Q E s"
proof -
  have "Q r (pop_fault s)" if "filter (open_reservation oid sid) (reservations (current s)) = r # rs" for r rs
  proof -
    have "r \<in> set (filter (open_reservation oid sid) (reservations (current s)))" using that by simp
    then show ?thesis using assms by simp
  qed
  then show ?thesis using assms(2)
    by (auto simp: fetch_reserved_def fetch_one_def query_def wp_simps wp_throw wp_ret
        intro!: wp_stmt_Tx split: list.split)
qed

lemma wp_release_reservation:
  "wp (release_reservation x oid sid) (\<lambda>_ t. tx_evolves (current s) t) (unless_aborted (current s)) s"
  unfolding release_reservation_def wp_simps
proof (rule wp_fetch_reserved, rule wp_update_skus, rule wp_stmt_Tx)
  fix r u d and t :: "catalog_db srv"
  assume r: "r \<in> set (reservations (current s))" "open_reservation oid sid r"
    and t: "current t = (current (pop_fault s))\<lparr>skus := update_where (live_sku sid)
      (release_sku (rv_quantity r) (db_now (pop_fault s))) (skus (current (pop_fault s)))\<rparr>"
    and d: "Inr ((), (current t)\<lparr>reservations := update_where (\<lambda>q. rv_id q = rv_id r) (set_released (db_now t))
      (reservations (current t))\<rparr>) = (Inr (u, d) :: db_error + unit \<times> catalog_db)"
  have "stock_ok (current s) \<Longrightarrow> 0 < rv_quantity r" using r(1) by (simp add: stock_ok_def list_all_iff)
  then have "stock_ok (current s) \<Longrightarrow> stock_ok d"
    using stock_ok_close[of "current s" r sid "release_sku (rv_quantity r) (db_now s)" "set_released (db_now t)"] r t d
    by (auto simp: open_reservation_def release_sku_def set_released_def)
  then show "tx_evolves (current s) ((pop_fault t)\<lparr>current := d\<rparr>)"
    using t d by (auto simp: tx_evolves_def catalog_evolves_def release_sku_def)
qed (auto simp: unless_aborted_def tx_evolves_def catalog_evolves_refl)

lemma tx_evolves_trans: "tx_evolves d t \<Longrightarrow> tx_evolves (current t) u \<Longrightarrow> tx_evolves d u"
  by (auto simp: tx_evolves_def intro: catalog_evolves_trans)

lemma unless_aborted_trans: "tx_evolves d t \<Longrightarrow> unless_aborted (current t) u \<Longrightarrow> unless_aborted d u"
  by (auto simp: unless_aborted_def intro: tx_evolves_trans)

lemma tx_evolves_refl: "tx_evolves (current t) t"
  by (simp add: tx_evolves_def catalog_evolves_refl)

lemma wp_tx_loop:
  assumes "\<And>y t. wp (f y) (\<lambda>_ u. tx_evolves (current t) u) (unless_aborted (current t)) t"
  shows "wp (for_each f ys) (\<lambda>_ u. tx_evolves (current s) u) (unless_aborted (current s)) s"
  by (rule wp_for_each)
     (auto intro: wp_mono[OF assms] tx_evolves_trans tx_evolves_refl unless_aborted_trans)

lemma wp_release_all:
  "wp (release_all_reservations x oid) (\<lambda>_ t. tx_evolves (current s) t) (unless_aborted (current s)) s"
  unfolding release_all_reservations_def query_def wp_simps
proof (rule wp_stmt_Tx)
  fix a d assume "Inr (filter (\<lambda>r. rv_order_id r = oid \<and> rv_status r = RvReserved) (reservations (current s)), current s)
      = (Inr (a, d) :: db_error + _)"
  then show "wp (for_each (\<lambda>r. release_reservation x oid (rv_sku_id r)) a) (\<lambda>_. tx_evolves (current s))
      (unless_aborted (current s)) ((pop_fault s)\<lparr>current := d\<rparr>)"
    using wp_tx_loop[where f = "\<lambda>r. release_reservation x oid (rv_sku_id r)" and s = "pop_fault s",
        OF wp_release_reservation] by auto
qed simp_all

lemma wp_write_catalog_event:
  assumes "\<And>t r. \<not> aborted t \<Longrightarrow> current t = (current s)\<lparr>outbox_events := outbox_events (current s) @ [r]\<rparr> \<Longrightarrow>
      ob_event_type r = event_type_str et \<Longrightarrow> ob_aggregate_id r = oid \<Longrightarrow> ob_topic r = ''catalog.events'' \<Longrightarrow> Q () t"
  shows "wp (write_catalog_event x et oid pl) Q (\<lambda>_. True) s"
  by (auto simp: write_catalog_event_def wp_simps wp_ret event_envelope_new_def from_envelope_def outbox_row_def
      intro!: wp_insert_outbox_Tx assms)

lemma wp_do_reserve:
  "wp (do_reserve_and_write_event x oid buyer amount cur items) (\<lambda>_ t. tx_evolves (current s) t) (\<lambda>_. True) s"
  unfolding do_reserve_and_write_event_def wp_simps
proof (rule wp_mono[OF wp_for_each[where I = "tx_evolves (current s)" and E = "\<lambda>_. True"]])
  fix y t assume t: "tx_evolves (current s) t"
  show "wp (case y of (sid, q) \<Rightarrow> reserve_inventory x oid sid q) (\<lambda>_. tx_evolves (current s)) (\<lambda>_. True) t"
    by (cases y) (auto intro: wp_mono[OF wp_reserve_inventory] tx_evolves_trans[OF t])
next
  fix t assume t: "tx_evolves (current s) t"
  have "wp (write_catalog_event x InventoryReserved oid (reserved_payload x oid buyer amount cur items))
      (\<lambda>_. tx_evolves (current t)) (\<lambda>_. True) t"
    by (rule wp_write_catalog_event) (simp add: tx_evolves_def catalog_evolves_outbox)
  then show "wp (write_catalog_event x InventoryReserved oid (reserved_payload x oid buyer amount cur items))
      (\<lambda>_. tx_evolves (current s)) (\<lambda>_. True) t"
    by (rule wp_mono) (auto intro: tx_evolves_trans[OF t])
qed (simp_all add: tx_evolves_refl)

section \<open>What the handlers write outside the transaction\<close>

lemma keeps_inventory_ops [frame_rules]:
  "keeps committed (reserve_inventory x oid sid q)" "keeps committed (release_reservation x oid sid)"
  "keeps committed (confirm_reservation x oid sid)" "keeps committed (release_all_reservations x oid)"
  "keeps committed (write_catalog_event x et oid pl)"
  "keeps committed (do_reserve_and_write_event x oid buyer amount cur items)"
  by (auto simp: reserve_inventory_def release_reservation_def confirm_reservation_def fetch_reserved_def
      release_all_reservations_def write_catalog_event_def do_reserve_and_write_event_def Let_def
      intro!: frame_rules split: prod.split)

text \<open>The failure event, if it is written at all, is appended to the committed outbox.\<close>

definition catalog_announced :: "catalog_db \<Rightarrow> event_type \<Rightarrow> uuid \<Rightarrow> bool" where
  "catalog_announced d et oid \<longleftrightarrow>
     (\<exists>r \<in> set (outbox_events d). ob_event_type r = event_type_str et \<and> ob_aggregate_id r = oid \<and>
        ob_topic r = ''catalog.events'')"

lemma write_failed_on_pool:
  assumes "write_reservation_failed_on_pool x oid reason s = (r, t)"
  shows "committed t = committed s \<or>
    (\<exists>row. committed t = (committed s)\<lparr>outbox_events := outbox_events (committed s) @ [row]\<rparr>)"
    and "r = Ok u \<Longrightarrow> catalog_announced (committed t) InventoryReservationFailed oid"
proof -
  let ?m = "map_err tx_other (write_catalog_event x InventoryReservationFailed oid (failed_payload x oid reason))"
  let ?s = "tx_start s"
  obtain q t' where w: "with_transaction ?m s = (q, t')" by fastforce
  then have t: "t = t'" "r = Ok u \<Longrightarrow> q = Ok u"
    using assms by (auto simp: write_reservation_failed_on_pool_def map_err_def)
  have k: "keeps committed ?m" by (auto intro!: frame_rules)
  have post: "wp ?m (\<lambda>_ v. \<not> aborted v \<and> catalog_announced (current v) InventoryReservationFailed oid \<and>
      (\<exists>row. current v = (committed s)\<lparr>outbox_events := outbox_events (committed s) @ [row]\<rparr>)) (\<lambda>_. True) ?s"
    by (auto simp: wp_simps catalog_announced_def intro!: wp_write_catalog_event)
  show "committed t = committed s \<or>
    (\<exists>row. committed t = (committed s)\<lparr>outbox_events := outbox_events (committed s) @ [row]\<rparr>)"
    using with_transaction_atomic[OF k w] t(1) by (auto dest!: wp_Ok_D[OF post])
  show "catalog_announced (committed t) InventoryReservationFailed oid" if r: "r = Ok u"
  proof -
    obtain v where "?m ?s = (Ok u, v)" "committed t' = (if aborted v then committed v else current v)"
      using w t(2)[OF r] by (auto elim: with_transaction_Ok)
    then show ?thesis using wp_Ok_D[OF post] t(1) by auto
  qed
qed

section \<open>The handlers\<close>

lemma reserve_on_tx_cases:
  assumes "reserve_for_order_on_tx x oid buyer amount cur items s = (r, t)"
  shows "catalog_evolves (committed s) (committed t)"
    and "processed_events (committed t) = processed_events (committed s)"
    and "r = Ok () \<Longrightarrow> tx_evolves (current s) t"
proof -
  let ?m = "do_reserve_and_write_event x oid buyer amount cur items"
  obtain q u where m: "?m s = (q, u)" by fastforce
  have k: "committed u = committed s" using keepsD[OF keeps_inventory_ops(6) m] .
  have "catalog_evolves (committed s) (committed t) \<and> processed_events (committed t) = processed_events (committed s) \<and>
      (r = Ok () \<longrightarrow> tx_evolves (current s) t)"
  proof (cases q)
    case (Ok v)
    then show ?thesis using assms m k wp_Ok_D[OF wp_do_reserve, of x oid buyer amount cur items s v u]
      by (auto simp: reserve_for_order_on_tx_def bnd_def attempt_def ret_def catalog_evolves_refl)
  next
    case (Err e)
    obtain p w where pw: "write_reservation_failed_on_pool x oid (app_error_str e) u = (p, w)" by fastforce
    have "t = w \<and> r \<noteq> Ok ()" using assms m Err pw
      by (cases p) (auto simp: reserve_for_order_on_tx_def bnd_def attempt_def throw_def)
    then show ?thesis using write_failed_on_pool(1)[OF pw] k
      by (auto simp: catalog_evolves_refl intro: catalog_evolves_outbox)
  next
    case (Panic e)
    then show ?thesis using assms m k
      by (auto simp: reserve_for_order_on_tx_def bnd_def attempt_def catalog_evolves_refl)
  qed
  then show "catalog_evolves (committed s) (committed t)"
    "processed_events (committed t) = processed_events (committed s)"
    "r = Ok () \<Longrightarrow> tx_evolves (current s) t" by blast+
qed

lemma handle_order_created_cases:
  assumes "handle_order_created x env s = (r, t)"
  shows "catalog_evolves (committed s) (committed t) \<and>
    processed_events (committed t) = processed_events (committed s) \<and> (r = Ok () \<longrightarrow> tx_evolves (current s) t)"
proof -
  consider "t = s" "r \<noteq> Ok ()"
    | oid buyer items q where "reserve_for_order_on_tx x oid buyer (str_or (jget (payload env) ''total_amount'') ''0'')
        (str_or (jget (payload env) ''currency'') ''USD'') items s = (q, t)" "r = Ok () \<longrightarrow> q = Ok ()"
    using assms
    by (cases "payload_uuid x env ''order_id''"; cases "payload_uuid x env ''buyer_id''";
        cases "parse_items x (payload env)")
       (auto simp: handle_order_created_def bnd_def of_result_def Let_def map_err_def split: prod.splits)
  then show ?thesis
    by cases (auto simp: catalog_evolves_refl dest: reserve_on_tx_cases)
qed

lemma handle_order_cancelled_cases:
  assumes "handle_order_cancelled x env s = (r, t)"
  shows "committed t = committed s \<and> (r = Ok () \<longrightarrow> \<not> aborted s \<longrightarrow> \<not> aborted t \<longrightarrow> tx_evolves (current s) t)"
proof (cases "payload_uuid x env ''order_id''")
  case (Ok oid)
  obtain q u where m: "release_all_reservations x oid s = (q, u)" by fastforce
  have k: "committed u = committed s" using keepsD[OF keeps_inventory_ops(4) m] .
  have "unless_aborted (current s) u"
    using wp_release_all[of x oid s] m by (cases q) (auto simp: wp_def unless_aborted_def)
  moreover have "t = u" using assms Ok m
    by (cases q) (auto simp: handle_order_cancelled_def release_for_order_on_tx_def bnd_def of_result_def
        attempt_def ret_def)
  ultimately show ?thesis using k by (auto simp: unless_aborted_def)
qed (use assms in \<open>auto simp: handle_order_cancelled_def bnd_def of_result_def\<close>)

lemma catalog_handle_cases:
  assumes "catalog_handle x env (s, y) = (r, (t, y'))"
  shows "catalog_evolves (committed s) (committed t) \<and>
    processed_events (committed t) = processed_events (committed s) \<and>
    (r = Ok () \<longrightarrow> \<not> aborted s \<longrightarrow> \<not> aborted t \<longrightarrow> tx_evolves (current s) t)"
proof -
  consider "t = s" | "handle_order_created x env s = (r, t)"
    | q where "handle_order_cancelled x env s = (q, t)" "r = map_err_result transient_of q"
    using assms
    by (cases "event_type (metadata env)")
       (auto simp: catalog_handle_def run_ret on_fst_def map_err_def split: prod.splits)
  then show ?thesis
  proof cases
    case 3
    then show ?thesis using handle_order_cancelled_cases[OF 3(1)] by (auto simp: catalog_evolves_refl)
  qed (auto simp: catalog_evolves_refl tx_evolves_refl dest: handle_order_created_cases)
qed

interpretation catalog: event_handler "catalog_handle x" catalog_evolves
proof
  show "catalog_evolves d d" for d by (rule catalog_evolves_refl)
  show "catalog_evolves d d' \<Longrightarrow> catalog_evolves d' d'' \<Longrightarrow> catalog_evolves d d''" for d d' d''
    by (rule catalog_evolves_trans)
  show "catalog_evolves d (d\<lparr>processed_events := ps\<rparr>)" for d ps by (rule catalog_evolves_marks)
qed (auto dest!: catalog_handle_cases simp: tx_evolves_def)

section \<open>All or nothing\<close>

definition reserves :: "uuid \<Rightarrow> uuid \<times> int \<Rightarrow> reservation \<Rightarrow> bool" where
  "reserves oid i r \<longleftrightarrow>
     rv_order_id r = oid \<and> rv_sku_id r = fst i \<and> rv_quantity r = snd i \<and> 0 < snd i \<and> rv_status r = RvReserved"

definition has_line :: "uuid \<Rightarrow> reservation list \<Rightarrow> uuid \<Rightarrow> bool" where
  "has_line oid rs sid \<longleftrightarrow> list_ex (\<lambda>r. rv_order_id r = oid \<and> rv_sku_id r = sid) rs"

lemma wp_reserve_inventory_row:
  "wp (reserve_inventory x oid sid q)
     (\<lambda>_ t. \<exists>r. reservations (current t) = reservations (current s) @ [r] \<and> reserves oid (sid, q) r \<and>
        \<not> has_line oid (reservations (current s)) sid) (\<lambda>_. True) s"
  unfolding reserve_inventory_def wp_simps
  by (rule wp_update_skus)
     (auto simp: wp_simps wp_throw insert_reservation_sql_def reservation_row_def reserves_def has_line_def
       intro!: wp_stmt_Tx split: if_splits)

text \<open>A loop that succeeds has one new reservation per line, and no SKU twice.\<close>

lemma wp_reserve_items:
  "wp (for_each (\<lambda>(sid, q). reserve_inventory x oid sid q) items)
     (\<lambda>_ t. \<exists>rows. reservations (current t) = reservations (current s) @ rows \<and>
        list_all2 (reserves oid) items rows \<and> distinct (map fst items) \<and>
        list_all (\<lambda>i. \<not> has_line oid (reservations (current s)) (fst i)) items) (\<lambda>_. True) s"
proof (induction items arbitrary: s)
  case Nil
  then show ?case by (simp add: wp_ret)
next
  case (Cons i items)
  obtain sid q where i: "i = (sid, q)" by (cases i)
  have "wp (reserve_inventory x oid sid q) (\<lambda>_. wp (for_each (\<lambda>(sid, q). reserve_inventory x oid sid q) items)
     (\<lambda>_ t. \<exists>rows. reservations (current t) = reservations (current s) @ rows \<and>
        list_all2 (reserves oid) (i # items) rows \<and> distinct (map fst (i # items)) \<and>
        list_all (\<lambda>i. \<not> has_line oid (reservations (current s)) (fst i)) (i # items)) (\<lambda>_. True)) (\<lambda>_. True) s"
  proof (rule wp_mono[OF wp_reserve_inventory_row], elim exE conjE)
    fix r and t :: "catalog_db srv"
    assume r: "reservations (current t) = reservations (current s) @ [r]" "reserves oid (sid, q) r"
      "\<not> has_line oid (reservations (current s)) sid"
    show "wp (for_each (\<lambda>(sid, q). reserve_inventory x oid sid q) items)
     (\<lambda>_ t. \<exists>rows. reservations (current t) = reservations (current s) @ rows \<and>
        list_all2 (reserves oid) (i # items) rows \<and> distinct (map fst (i # items)) \<and>
        list_all (\<lambda>i. \<not> has_line oid (reservations (current s)) (fst i)) (i # items)) (\<lambda>_. True) t"
    proof (rule wp_mono[OF Cons.IH], elim exE conjE)
      fix rows and t' :: "catalog_db srv"
      assume rows: "reservations (current t') = reservations (current t) @ rows" "list_all2 (reserves oid) items rows"
        "distinct (map fst items)" "list_all (\<lambda>i. \<not> has_line oid (reservations (current t)) (fst i)) items"
      then have "sid \<notin> fst ` set items" "list_all (\<lambda>i. \<not> has_line oid (reservations (current s)) (fst i)) items"
        using r by (auto simp: has_line_def list_all_iff reserves_def)
      then show "\<exists>rows. reservations (current t') = reservations (current s) @ rows \<and>
        list_all2 (reserves oid) (i # items) rows \<and> distinct (map fst (i # items)) \<and>
        list_all (\<lambda>i. \<not> has_line oid (reservations (current s)) (fst i)) (i # items)"
        using rows r i by (intro exI[of _ "r # rows"]) auto
    qed simp
  qed simp
  then show ?case by (simp add: i wp_bnd)
qed

lemma wp_do_reserve_rows:
  "wp (do_reserve_and_write_event x oid buyer amount cur items)
     (\<lambda>_ t. catalog_announced (current t) InventoryReserved oid \<and> \<not> aborted t \<and> distinct (map fst items) \<and>
        (\<exists>rows. reservations (current t) = reservations (current s) @ rows \<and> list_all2 (reserves oid) items rows))
     (\<lambda>_. True) s"
  unfolding do_reserve_and_write_event_def wp_simps
  by (rule wp_mono[OF wp_reserve_items])
     (auto intro!: wp_write_catalog_event simp: catalog_announced_def)

text \<open>A failed reservation on a healthy connection is announced, and nothing else is
  written outside the transaction.\<close>

lemma reserve_on_tx_failure_announced:
  assumes run: "reserve_for_order_on_tx x oid buyer amount cur items s = (Err e, t)"
    and ok: "\<And>e' u. do_reserve_and_write_event x oid buyer amount cur items s = (Err e', u) \<Longrightarrow>
      is_ok (fst (write_reservation_failed_on_pool x oid (app_error_str e') u))"
  shows "catalog_announced (committed t) InventoryReservationFailed oid \<and>
    skus (committed t) = skus (committed s) \<and> reservations (committed t) = reservations (committed s)"
proof -
  obtain q u where m: "do_reserve_and_write_event x oid buyer amount cur items s = (q, u)" by fastforce
  then obtain e' where q: "q = Err e'"
    using run by (cases q) (auto simp: reserve_for_order_on_tx_def bnd_def attempt_def ret_def panic_def)
  obtain p w where pw: "write_reservation_failed_on_pool x oid (app_error_str e') u = (p, w)" by fastforce
  have p: "p = Ok ()" using ok[OF m[unfolded q]] pw by (cases p) auto
  then have "t = w" using run m q pw
    by (auto simp: reserve_for_order_on_tx_def bnd_def attempt_def throw_def)
  then show ?thesis
    using write_failed_on_pool[OF pw] p keepsD[OF keeps_inventory_ops(6) m] by auto
qed

section \<open>The operations that begin their own transaction\<close>

lemma wp_confirm_reservation:
  "wp (confirm_reservation x oid sid) (\<lambda>_ t. stock_ok (current s) \<longrightarrow> stock_ok (current t)) (\<lambda>_. True) s"
  unfolding confirm_reservation_def wp_simps
proof (rule wp_fetch_reserved, rule wp_update_skus, rule wp_stmt_Tx)
  fix r u d and t :: "catalog_db srv"
  assume r: "r \<in> set (reservations (current s))" "open_reservation oid sid r"
    and t: "current t = (current (pop_fault s))\<lparr>skus := update_where (live_sku sid)
      (confirm_sku (rv_quantity r) (db_now (pop_fault s))) (skus (current (pop_fault s)))\<rparr>"
    and d: "Inr ((), (current t)\<lparr>reservations := update_where (\<lambda>q. rv_id q = rv_id r) (set_confirmed (db_now t))
      (reservations (current t))\<rparr>) = (Inr (u, d) :: db_error + unit \<times> catalog_db)"
  show "stock_ok (current s) \<longrightarrow> stock_ok (current ((pop_fault t)\<lparr>current := d\<rparr>))"
    using stock_ok_close[of "current s" r sid "confirm_sku (rv_quantity r) (db_now s)" "set_confirmed (db_now t)"] r t d
    by (auto simp: open_reservation_def confirm_sku_def set_confirmed_def)
qed simp_all

lemma confirm_for_order_stock: "stock_ok (committed s) \<Longrightarrow> stock_ok (committed (snd (confirm_for_order x oid items s)))"
proof -
  let ?m = "for_each (\<lambda>(sid, _). map_err tx_other (confirm_reservation x oid sid)) items"
  assume ok: "stock_ok (committed s)"
  have k: "keeps committed ?m" by (auto intro!: frame_rules)
  have "wp ?m (\<lambda>_ u. stock_ok (current u)) (\<lambda>_. True) t" if "current t = committed s" for t
    by (rule wp_for_each)
       (use that ok in \<open>auto simp: wp_map_err intro: wp_mono[OF wp_confirm_reservation]\<close>)
  from with_transaction_invariant[OF k this ok] show ?thesis
    by (simp add: confirm_for_order_def)
qed

lemma release_for_order_stock: "stock_ok (committed s) \<Longrightarrow> stock_ok (committed (snd (release_for_order x oid s)))"
proof -
  assume ok: "stock_ok (committed s)"
  have "wp (map_err tx_other (release_all_reservations x oid)) (\<lambda>_ u. stock_ok (current u)) (\<lambda>_. True) t"
    if "current t = committed s" for t
    unfolding wp_map_err
    by (rule wp_mono[OF wp_release_all]) (use that ok in \<open>auto simp: tx_evolves_def catalog_evolves_def\<close>)
  from with_transaction_invariant[OF _ this ok] show ?thesis
    by (simp add: release_for_order_def frame_rules)
qed

text \<open>Reserving with an own transaction: all lines and the event, or neither stock nor
  reservations change.\<close>

lemma reserve_for_order_cases:
  assumes run: "reserve_for_order x oid buyer amount cur items s = (r, t)"
  shows "(r = Ok () \<and> catalog_evolves (committed s) (committed t) \<and> distinct (map fst items) \<and>
      catalog_announced (committed t) InventoryReserved oid \<and>
      (\<exists>rows. reservations (committed t) = reservations (committed s) @ rows \<and> list_all2 (reserves oid) items rows)) \<or>
    r \<noteq> Ok () \<and> skus (committed t) = skus (committed s) \<and> reservations (committed t) = reservations (committed s)"
proof -
  let ?m = "map_err tx_other (do_reserve_and_write_event x oid buyer amount cur items)"
  obtain q u where w: "with_transaction ?m s = (q, u)" by fastforce
  have post: "wp ?m (\<lambda>_ v. tx_evolves (committed s) v \<and> (catalog_announced (current v) InventoryReserved oid \<and> \<not> aborted v \<and>
      distinct (map fst items) \<and> (\<exists>rows. reservations (current v) = reservations (committed s) @ rows \<and>
        list_all2 (reserves oid) items rows))) (\<lambda>_. True \<and> True) (tx_start s)"
    using wp_conj[OF wp_do_reserve[of x oid buyer amount cur items "tx_start s"]
        wp_do_reserve_rows[of x oid buyer amount cur items "tx_start s"]]
    by (simp add: wp_map_err)
  show ?thesis
  proof (cases q)
    case (Ok v)
    then have "r = Ok ()" "t = u" using run w by (auto simp: reserve_for_order_def bnd_def attempt_def ret_def)
    moreover obtain z where "?m (tx_start s) = (Ok v, z)" "committed u = (if aborted z then committed z else current z)"
      using w Ok by (auto elim: with_transaction_Ok)
    ultimately show ?thesis using wp_Ok_D[OF post] by (auto simp: tx_evolves_def)
  next
    case (Err e)
    have k: "keeps committed ?m" by (auto intro!: frame_rules)
    have "committed u = committed s" using with_transaction_atomic[OF k w] Err by auto
    moreover obtain p z where pw: "write_reservation_failed_on_pool x oid (tx_error_str x e) u = (p, z)" by fastforce
    moreover have "t = z \<and> r \<noteq> Ok ()" using run w Err pw
      by (cases p) (auto simp: reserve_for_order_def bnd_def attempt_def throw_def)
    ultimately show ?thesis using write_failed_on_pool(1)[OF pw] by auto
  next
    case (Panic e)
    have k: "keeps committed ?m" by (auto intro!: frame_rules)
    have "committed u = committed s" using with_transaction_atomic[OF k w] Panic by auto
    then show ?thesis using run w Panic by (auto simp: reserve_for_order_def bnd_def attempt_def)
  qed
qed

lemma reserve_for_order_stock:
  "stock_ok (committed s) \<Longrightarrow> stock_ok (committed (snd (reserve_for_order x oid buyer amount cur items s)))"
  using reserve_for_order_cases[of x oid buyer amount cur items s]
  by (cases "reserve_for_order x oid buyer amount cur items s") (auto simp: catalog_evolves_def stock_ok_def)

section \<open>Properties\<close>

definition demo_sku :: "uuid \<Rightarrow> int \<Rightarrow> int \<Rightarrow> sku" where
  "demo_sku sid stock reserved =
     \<lparr>sk_id = sid, sk_created_at = 0, sk_updated_at = None, sk_deleted_at = None, sk_product_id = 1, sk_sku_code = ''s'',
      sk_price = 5, sk_stock = stock, sk_reserved = reserved, sk_attributes = JNull, sk_status = SkuActive\<rparr>"

definition demo_catalog :: catalog_db where
  "demo_catalog =
     \<lparr>outbox_events = [], processed_events = [], skus = [demo_sku 2 5 3, demo_sku 6 1 0],
      reservations = [reservation_row 50 0 40 2 3]\<rparr>"

lemma demo_catalog_ok: "stock_ok demo_catalog"
  by (simp add: stock_ok_def demo_catalog_def demo_sku_def sku_ok_def reservation_row_def)

text \<open>C2: Stock is never oversold: whatever messages the catalog's consumer receives and whatever
  fails, every live SKU's reserved quantity remains the sum of its open reservations and at most
  its stock.\<close>

theorem stock_never_oversold:
  assumes "stock_ok (committed (cw_srv w))"
  shows "stock_ok (committed (cw_srv (snd (message_loop x cfg (catalog_handle x) msgs w))))"
proof -
  obtain r w' where "message_loop x cfg (catalog_handle x) msgs w = (r, w')" by fastforce
  from catalog.message_loop_advances[OF this] this assms show ?thesis
    by (simp add: catalog.advances_def catalog_evolves_def)
qed

theorem stock_never_oversold_witness:
  "stock_ok (committed (cw_srv (snd (message_loop (reading (demo_envelope OrderCancelled JNull))
     (consumer_config_new ''g'' []) (catalog_handle (reading (demo_envelope OrderCancelled JNull)))
     [Some demo_message, None] (demo_world demo_catalog ())))))"
  by (rule stock_never_oversold) (simp add: demo_world_def demo_catalog_ok)

text \<open>The operations that begin their own transaction keep the stock invariant too: reserving,
  releasing and confirming an order's reservations, on success and on every failure.\<close>

theorem inventory_operations_keep_stock:
  assumes "stock_ok (committed s)"
  shows "stock_ok (committed (snd (reserve_for_order x oid buyer amount cur items s))) \<and>
    stock_ok (committed (snd (release_for_order x oid s))) \<and>
    stock_ok (committed (snd (confirm_for_order x oid items s)))"
  using assms by (simp add: reserve_for_order_stock release_for_order_stock confirm_for_order_stock)

theorem inventory_operations_keep_stock_witness:
  "stock_ok (committed (snd (confirm_for_order demo_externs 40 [(2, 3)] (demo_srv demo_catalog))))"
  using inventory_operations_keep_stock[of "demo_srv demo_catalog"] demo_catalog_ok by simp

text \<open>C8: A reservation is all or nothing: when it succeeds, the order has exactly one new open
  reservation per requested line with the requested quantity, and the \<open>InventoryReserved\<close> event
  is committed with them; otherwise neither stock nor reservations have changed.\<close>

theorem reserve_all_or_nothing:
  "case reserve_for_order x oid buyer amount cur items s of (r, t) \<Rightarrow>
     if r = Ok ()
     then catalog_announced (committed t) InventoryReserved oid \<and>
       (\<exists>rows. reservations (committed t) = reservations (committed s) @ rows \<and> list_all2 (reserves oid) items rows)
     else skus (committed t) = skus (committed s) \<and> reservations (committed t) = reservations (committed s)"
  using reserve_for_order_cases[of x oid buyer amount cur items s]
  by (cases "reserve_for_order x oid buyer amount cur items s") auto

text \<open>An order with two lines of the same SKU can never be reserved: the second line violates the
  unique constraint, although the order service accepts such orders.\<close>

theorem repeated_sku_never_reserved:
  assumes "\<not> distinct (map fst items)"
  shows "fst (reserve_for_order x oid buyer amount cur items s) \<noteq> Ok () \<and>
    reservations (committed (snd (reserve_for_order x oid buyer amount cur items s))) = reservations (committed s)"
  using reserve_for_order_cases[of x oid buyer amount cur items s] assms
  by (cases "reserve_for_order x oid buyer amount cur items s") auto

theorem repeated_sku_never_reserved_witness:
  "fst (reserve_for_order demo_externs 41 9 ''10'' ''USD'' [(6, 1), (6, 1)] (demo_srv demo_catalog)) \<noteq> Ok ()"
  using repeated_sku_never_reserved[of "[(6, 1), (6, 1)]" demo_externs 41 9 "''10''" "''USD''" "demo_srv demo_catalog"]
  by simp

end
