(* ===== verification/Breaker.thy ===== *)
theory Breaker
  imports Prelude
begin

text \<open>
  The circuit breaker of \<open>shared/src/circuit_breaker.rs\<close>: a sliding window of outcomes and a
  three-state machine. \<open>Instant::now\<close> is an argument, in milliseconds; the failure ratio is
  computed in \<open>f64\<close>, so the division is rounded to the nearest binary fraction of 53 bits,
  ties to even.
\<close>

section \<open>Division in \<open>f64\<close>\<close>

text \<open>The number of doublings that bring a positive fraction to at least one; quotients of
  counters stay far above the subnormal range, which 1000 steps cover.\<close>

primrec doublings :: "nat \<Rightarrow> rat \<Rightarrow> nat" where
  "doublings 0 q = 0"
| "doublings (Suc fuel) q = (if 1 \<le> q then 0 else Suc (doublings fuel (2 * q)))"

definition round_half_even :: "rat \<Rightarrow> int" where
  "round_half_even q =
     (let n = \<lfloor>q\<rfloor>; r = q - of_int n in
      if r < 1 / 2 then n else if 1 / 2 < r then n + 1 else if even n then n else n + 1)"

definition f64_ratio :: "nat \<Rightarrow> nat \<Rightarrow> rat" where
  "f64_ratio a b =
     (if a = 0 then 0
      else let q = of_nat a / of_nat b; s = 2 ^ (52 + doublings 1000 q) in of_int (round_half_even (q * s)) / s)"

section \<open>State and configuration\<close>

record breaker_config =
  bc_window_size :: nat
  bc_failure_threshold :: rat
  bc_cooldown :: nat

definition breaker_config_default :: breaker_config where
  "breaker_config_default = \<lparr>bc_window_size = 10, bc_failure_threshold = 1 / 2, bc_cooldown = 30000\<rparr>"

datatype breaker_status = Closed | Open | HalfOpen

fun breaker_status_str :: "breaker_status \<Rightarrow> string" where
  "breaker_status_str Closed = ''closed''"
| "breaker_status_str Open = ''open''"
| "breaker_status_str HalfOpen = ''half-open''"

record breaker_state =
  bs_status :: breaker_status
  bs_window :: "bool list"
  bs_opened_at :: "nat option"

definition breaker_new :: "breaker_config \<Rightarrow> breaker_state" where
  "breaker_new cfg = \<lparr>bs_status = Closed, bs_window = [], bs_opened_at = None\<rparr>"

datatype circuit_open_error = CircuitOpenError

section \<open>Operations\<close>

definition breaker_check ::
  "breaker_config \<Rightarrow> nat \<Rightarrow> (breaker_state, circuit_open_error, unit) eff" where
  "breaker_check cfg now st =
     (case bs_status st of
        Closed \<Rightarrow> (Ok (), st)
      | HalfOpen \<Rightarrow> (Ok (), st)
      | Open \<Rightarrow>
          (case bs_opened_at st of
             Some t \<Rightarrow>
               if now - t \<ge> bc_cooldown cfg then (Ok (), st\<lparr>bs_status := HalfOpen\<rparr>)
               else (Err CircuitOpenError, st)
           | None \<Rightarrow> (Ok (), st\<lparr>bs_status := HalfOpen\<rparr>)))"

definition push_result :: "breaker_config \<Rightarrow> bool \<Rightarrow> breaker_state \<Rightarrow> breaker_state" where
  "push_result cfg success st =
     (let w = (if length (bs_window st) \<ge> bc_window_size cfg then tl (bs_window st) else bs_window st)
      in st\<lparr>bs_window := w @ [success]\<rparr>)"

definition should_trip :: "breaker_config \<Rightarrow> breaker_state \<Rightarrow> bool" where
  "should_trip cfg st =
     (if length (bs_window st) < bc_window_size cfg then False
      else f64_ratio (length (filter (\<lambda>s. \<not> s) (bs_window st))) (length (bs_window st))
             \<ge> bc_failure_threshold cfg)"

definition breaker_record_success :: "breaker_config \<Rightarrow> breaker_state \<Rightarrow> breaker_state" where
  "breaker_record_success cfg st =
     (let st1 = push_result cfg True st in
      if bs_status st1 = HalfOpen then st1\<lparr>bs_status := Closed, bs_opened_at := None\<rparr> else st1)"

definition record_retryable_failure :: "breaker_config \<Rightarrow> nat \<Rightarrow> breaker_state \<Rightarrow> breaker_state" where
  "record_retryable_failure cfg now st =
     (let st1 = push_result cfg False st in
      case bs_status st1 of
        HalfOpen \<Rightarrow> st1\<lparr>bs_status := Open, bs_opened_at := Some now\<rparr>
      | Closed \<Rightarrow>
          if should_trip cfg st1 then st1\<lparr>bs_status := Open, bs_opened_at := Some now\<rparr> else st1
      | Open \<Rightarrow> st1)"

section \<open>The machine\<close>

text \<open>Any interleaving of the three operations at any times.\<close>

inductive breaker_step :: "breaker_config \<Rightarrow> breaker_state \<Rightarrow> breaker_state \<Rightarrow> bool" for cfg where
  step_check: "breaker_step cfg st (snd (breaker_check cfg now st))"
| step_success: "breaker_step cfg st (breaker_record_success cfg st)"
| step_failure: "breaker_step cfg st (record_retryable_failure cfg now st)"

inductive breaker_reachable :: "breaker_config \<Rightarrow> breaker_state \<Rightarrow> bool" for cfg where
  reach_new: "breaker_reachable cfg (breaker_new cfg)"
| reach_step: "breaker_reachable cfg st \<Longrightarrow> breaker_step cfg st st' \<Longrightarrow> breaker_reachable cfg st'"

inductive_cases breaker_stepE: "breaker_step cfg st st'"

definition breaker_ok :: "breaker_config \<Rightarrow> breaker_state \<Rightarrow> bool" where
  "breaker_ok cfg st \<longleftrightarrow>
     length (bs_window st) \<le> max 1 (bc_window_size cfg) \<and>
     (bs_status st = Closed \<longleftrightarrow> bs_opened_at st = None)"

lemmas breaker_defs = breaker_check_def breaker_record_success_def record_retryable_failure_def
  push_result_def Let_def

lemma push_result_window:
  "length (bs_window st) \<le> max 1 (bc_window_size cfg) \<Longrightarrow>
     length (bs_window (push_result cfg b st)) \<le> max 1 (bc_window_size cfg)"
  by (auto simp: push_result_def Let_def max_def split: if_splits)

lemma breaker_ok_step: "breaker_ok cfg st \<Longrightarrow> breaker_step cfg st st' \<Longrightarrow> breaker_ok cfg st'"
  by (erule breaker_stepE)
     (auto simp: breaker_ok_def breaker_defs max_def split: breaker_status.splits option.splits if_splits)

lemma breaker_reachable_ok: "breaker_reachable cfg st \<Longrightarrow> breaker_ok cfg st"
proof (induction rule: breaker_reachable.induct)
  case reach_new
  then show ?case by (simp add: breaker_ok_def breaker_new_def)
next
  case (reach_step st st')
  then show ?case by (blast intro: breaker_ok_step)
qed

text \<open>An open breaker stays open, and rejects, until its cool-down has elapsed.\<close>

lemma open_rejects:
  assumes "breaker_ok cfg st" "bs_status st = Open" "bs_opened_at st = Some t"
  shows "breaker_check cfg now st =
    (if t + bc_cooldown cfg \<le> now \<or> bc_cooldown cfg = 0 then (Ok (), st\<lparr>bs_status := HalfOpen\<rparr>)
     else (Err CircuitOpenError, st))"
  using assms by (auto simp: breaker_check_def)

lemma half_open_resolves:
  "bs_status st = HalfOpen \<Longrightarrow> bs_status (breaker_record_success cfg st) = Closed"
  "bs_status st = HalfOpen \<Longrightarrow> bs_status (record_retryable_failure cfg now st) = Open"
  by (simp_all add: breaker_defs)

lemma trips_only_full:
  assumes "bs_status st = Closed" "bs_status (record_retryable_failure cfg now st) = Open"
  shows "bc_window_size cfg \<le> Suc (length (bs_window st))"
  using assms by (auto simp: breaker_defs should_trip_def split: if_splits)

text \<open>With the default configuration the rounded ratio decides as the exact one: five
  failures among ten.\<close>

lemma f64_ratio_tenths_table: "list_all (\<lambda>n. (1 / 2 \<le> f64_ratio n 10) = (5 \<le> n)) [0..<11]"
  by code_simp

lemma f64_ratio_tenths: "n \<le> 10 \<Longrightarrow> (1 / 2 \<le> f64_ratio n 10) \<longleftrightarrow> 5 \<le> n"
  using f64_ratio_tenths_table by (simp add: list_all_iff del: upt_Suc)

lemma default_should_trip:
  assumes "length (bs_window st) \<le> 10"
  shows "should_trip breaker_config_default st \<longleftrightarrow>
    length (bs_window st) = 10 \<and> 5 \<le> length (filter (\<lambda>s. \<not> s) (bs_window st))"
proof (cases "length (bs_window st) = 10")
  case True
  have "length (filter (\<lambda>s. \<not> s) (bs_window st)) \<le> 10" using True length_filter_le[of _ "bs_window st"] by metis
  then show ?thesis using True f64_ratio_tenths by (simp add: should_trip_def breaker_config_default_def)
qed (use assms in \<open>simp add: should_trip_def breaker_config_default_def\<close>)

text \<open>A failed or successful probe does not clear the window: with the default
  configuration, a breaker that tripped and closed again trips on its next failure while
  four older failures are still in the window.\<close>

lemma window_survives_close:
  "bs_status st = HalfOpen \<Longrightarrow> bs_window (breaker_record_success cfg st) = bs_window (push_result cfg True st)"
  by (simp add: breaker_defs)

section \<open>Properties\<close>

text \<open>In every state the breaker can reach, under any interleaving of its operations at any
  times, the window holds at most the configured number of results and the breaker remembers
  when it opened exactly while it is not closed.\<close>

theorem breaker_invariant:
  assumes "breaker_reachable cfg st"
  shows "length (bs_window st) \<le> max 1 (bc_window_size cfg) \<and> (bs_status st = Closed) = (bs_opened_at st = None)"
  using breaker_reachable_ok[OF assms] by (simp add: breaker_ok_def)

theorem breaker_invariant_witness:
  "length (bs_window (record_retryable_failure breaker_config_default 7 (breaker_new breaker_config_default))) \<le> 10"
proof -
  have "breaker_reachable breaker_config_default
      (record_retryable_failure breaker_config_default 7 (breaker_new breaker_config_default))"
    by (intro reach_step[OF reach_new] step_failure)
  from breaker_invariant[OF this] show ?thesis by (simp add: breaker_config_default_def)
qed

text \<open>With the default configuration a closed breaker opens on a retryable failure exactly when
  that failure completes a window of ten with at least five failures: the rounding of the
  division of the code never changes the decision.\<close>

theorem default_breaker_trips_at_half:
  assumes "breaker_reachable breaker_config_default st" "bs_status st = Closed"
  shows "(bs_status (record_retryable_failure breaker_config_default now st) = Open) =
    (let window = bs_window (push_result breaker_config_default False st) in
     length window = 10 \<and> 5 \<le> length (filter (\<lambda>ok. \<not> ok) window))"
proof -
  have "length (bs_window (push_result breaker_config_default False st)) \<le> 10"
    using push_result_window[of st breaker_config_default False] breaker_reachable_ok[OF assms(1)]
    by (simp add: breaker_ok_def breaker_config_default_def)
  from default_should_trip[OF this] assms(2) show ?thesis
    by (simp add: record_retryable_failure_def Let_def push_result_def)
qed

theorem default_breaker_trips_at_half_witness:
  "bs_status (record_retryable_failure breaker_config_default 0 (breaker_new breaker_config_default)) \<noteq> Open"
  using default_breaker_trips_at_half[OF reach_new, of 0]
  by (simp add: breaker_new_def push_result_def Let_def breaker_config_default_def)

end
