(* ===== verification/Gateway.thy ===== *)
theory Gateway
  imports Breaker Environment
begin

text \<open>
  The payment gateway interface of \<open>payment/src/gateway/traits.rs\<close> as a record of
  operations over a gateway's own state, the mock implementation (\<open>mock.rs\<close>) and the
  circuit-breaker decorator (\<open>circuit_breaker.rs\<close>).
\<close>

section \<open>The trait\<close>

datatype gateway_status = GwSuccess | GwFailed

record auth_result =
  ar_gateway_reference :: string
  ar_approved_amount :: decimal
  ar_status :: gateway_status

record gateway_error =
  ge_code :: string
  ge_message :: string
  ge_reason :: "string option"
  ge_is_retryable :: bool

definition declined :: "string \<Rightarrow> gateway_error" where
  "declined m = \<lparr>ge_code = ''DECLINED'', ge_message = m, ge_reason = None, ge_is_retryable = False\<rparr>"

definition timeout :: "string \<Rightarrow> gateway_error" where
  "timeout m = \<lparr>ge_code = ''TIMEOUT'', ge_message = m, ge_reason = None, ge_is_retryable = True\<rparr>"

definition gateway_error_str :: "gateway_error \<Rightarrow> string" where
  "gateway_error_str e =
     ''['' @ ge_code e @ ''] '' @ ge_message e @
     (case ge_reason e of Some r \<Rightarrow> '' (reason: '' @ r @ '')'' | None \<Rightarrow> [])"

record 'g gateway =
  gw_authorize :: "string \<Rightarrow> uuid \<Rightarrow> decimal \<Rightarrow> string \<Rightarrow> ('g, gateway_error, auth_result) eff"
  gw_capture :: "string \<Rightarrow> ('g, gateway_error, gateway_status) eff"
  gw_void :: "string \<Rightarrow> ('g, gateway_error, gateway_status) eff"
  gw_refund :: "string \<Rightarrow> decimal \<Rightarrow> ('g, gateway_error, gateway_status) eff"

section \<open>The mock\<close>

record mock_gateway =
  mk_always_succeed :: bool
  mk_retryable_failure :: bool
  mk_tampered_amount :: "decimal option"

definition mock_always_succeeds :: mock_gateway where
  "mock_always_succeeds = \<lparr>mk_always_succeed = True, mk_retryable_failure = False, mk_tampered_amount = None\<rparr>"

definition mock_always_fails :: mock_gateway where
  "mock_always_fails = \<lparr>mk_always_succeed = False, mk_retryable_failure = False, mk_tampered_amount = None\<rparr>"

definition mock_always_fails_retryable :: mock_gateway where
  "mock_always_fails_retryable =
     \<lparr>mk_always_succeed = False, mk_retryable_failure = True, mk_tampered_amount = None\<rparr>"

definition mock_tampered_amount :: "decimal \<Rightarrow> mock_gateway" where
  "mock_tampered_amount a = \<lparr>mk_always_succeed = True, mk_retryable_failure = False, mk_tampered_amount = Some a\<rparr>"

definition make_error :: "mock_gateway \<Rightarrow> string \<Rightarrow> gateway_error" where
  "make_error m operation =
     (if mk_retryable_failure m then timeout (operation @ '' timed out'')
      else declined (operation @ '' declined''))"

definition mock_status :: "mock_gateway \<Rightarrow> string \<Rightarrow> ('g, gateway_error, gateway_status) eff" where
  "mock_status m operation =
     (if \<not> mk_always_succeed m then throw (make_error m operation) else ret GwSuccess)"

text \<open>The mock's state is its supply of identifiers.\<close>

definition mock_gateway_ops :: "externs \<Rightarrow> mock_gateway \<Rightarrow> ((nat \<Rightarrow> uuid) \<times> nat) gateway" where
  "mock_gateway_ops x m =
     \<lparr>gw_authorize = (\<lambda>key oid amount cur (us, n).
        if \<not> mk_always_succeed m then (Err (make_error m ''Authorization''), (us, n))
        else (Ok \<lparr>ar_gateway_reference = ''mock-auth-'' @ uuid_str x (us n),
                  ar_approved_amount = (case mk_tampered_amount m of Some a \<Rightarrow> a | None \<Rightarrow> amount),
                  ar_status = GwSuccess\<rparr>, (us, Suc n))),
      gw_capture = (\<lambda>gref. mock_status m ''Capture''),
      gw_void = (\<lambda>gref. mock_status m ''Void''),
      gw_refund = (\<lambda>gref amount. mock_status m ''Refund'')\<rparr>"

section \<open>The circuit-breaker decorator\<close>

definition circuit_open :: gateway_error where
  "circuit_open =
     \<lparr>ge_code = ''CIRCUIT_OPEN'',
      ge_message = ''Circuit breaker is open '' @ [CHR 0xE2, CHR 0x80, CHR 0x94] @ '' gateway temporarily unavailable'',
      ge_reason = None, ge_is_retryable = True\<rparr>"

definition pre_call :: "breaker_config \<Rightarrow> nat \<Rightarrow> (breaker_state, gateway_error, unit) eff" where
  "pre_call cfg now = map_err (\<lambda>_. circuit_open) (breaker_check cfg now)"

definition record_outcome :: "breaker_config \<Rightarrow> nat \<Rightarrow> ('a, gateway_error) result \<Rightarrow> breaker_state \<Rightarrow> breaker_state" where
  "record_outcome cfg now r st =
     (case r of
        Ok _ \<Rightarrow> breaker_record_success cfg st
      | Err e \<Rightarrow> if ge_is_retryable e then record_retryable_failure cfg now st else st
      | Panic _ \<Rightarrow> st)"

text \<open>\<open>time\<close> reads the monotonic clock off the inner gateway's state, before and after the
  call.\<close>

definition guarded ::
  "breaker_config \<Rightarrow> ('g \<Rightarrow> nat) \<Rightarrow> ('g, gateway_error, 'a) eff \<Rightarrow> (breaker_state \<times> 'g, gateway_error, 'a) eff" where
  "guarded cfg time call p =
     (case pre_call cfg (time (snd p)) (fst p) of
        (Ok _, st) \<Rightarrow>
          (case call (snd p) of (r, g) \<Rightarrow> (r, (record_outcome cfg (time g) r st, g)))
      | (Err e, st) \<Rightarrow> (Err e, (st, snd p))
      | (Panic m, st) \<Rightarrow> (Panic m, (st, snd p)))"

definition circuit_breaker_gateway ::
  "breaker_config \<Rightarrow> ('g \<Rightarrow> nat) \<Rightarrow> 'g gateway \<Rightarrow> (breaker_state \<times> 'g) gateway" where
  "circuit_breaker_gateway cfg time inner =
     \<lparr>gw_authorize = (\<lambda>key oid amount cur. guarded cfg time (gw_authorize inner key oid amount cur)),
      gw_capture = (\<lambda>gref. guarded cfg time (gw_capture inner gref)),
      gw_void = (\<lambda>gref. guarded cfg time (gw_void inner gref)),
      gw_refund = (\<lambda>gref amount. guarded cfg time (gw_refund inner gref amount))\<rparr>"

section \<open>What the decorator does\<close>

text \<open>While the breaker is open and cooling down, the inner gateway is not called and the
  caller gets a retryable error; the breaker does not change.\<close>

lemma guarded_open:
  assumes "bs_status st = Open" "bs_opened_at st = Some t" "time g - t < bc_cooldown cfg"
  shows "guarded cfg time call (st, g) = (Err circuit_open, (st, g))"
  using assms by (simp add: guarded_def pre_call_def map_err_def breaker_check_def)

text \<open>A closed breaker is transparent: the caller sees the inner gateway's answer.\<close>

lemma guarded_closed:
  assumes "bs_status st = Closed"
  shows "fst (guarded cfg time call (st, g)) = fst (call g)" "snd (snd (guarded cfg time call (st, g))) = snd (call g)"
  using assms by (simp_all add: guarded_def pre_call_def map_err_def breaker_check_def split: prod.split)

text \<open>Business declines leave a closed breaker as it is.\<close>

lemma guarded_decline:
  assumes "bs_status st = Closed" "call g = (Err e, g')" "\<not> ge_is_retryable e"
  shows "guarded cfg time call (st, g) = (Err e, (st, g'))"
  using assms by (simp add: guarded_def pre_call_def map_err_def breaker_check_def record_outcome_def)

text \<open>The decorated gateway's breaker is a run of the breaker's own machine.\<close>

lemma record_outcome_step: "record_outcome cfg now r st = st \<or> breaker_step cfg st (record_outcome cfg now r st)"
  by (cases r) (auto simp: record_outcome_def intro: breaker_step.intros)

lemma guarded_reachable:
  fixes call :: "('g, gateway_error, 'a) eff"
  assumes "breaker_reachable cfg st" shows "breaker_reachable cfg (fst (snd (guarded cfg time call (st, g))))"
proof -
  obtain c st1 where c: "breaker_check cfg (time g) st = (c, st1)" by fastforce
  have st1: "breaker_reachable cfg st1"
    using reach_step[OF assms step_check[of cfg st "time g"]] c by simp
  have "breaker_reachable cfg (record_outcome cfg n r st1)" for n and r :: "('a, gateway_error) result"
    using record_outcome_step[of cfg n r st1] st1 by (auto intro: reach_step)
  then show ?thesis using c st1
    by (cases c) (auto simp: guarded_def pre_call_def map_err_def split: prod.split)
qed

section \<open>Properties\<close>

text \<open>The circuit breaker protects the gateway: while it is open and its cool-down has not
  elapsed, no operation reaches the inner gateway, whose state is unchanged, and the caller gets
  the retryable error.\<close>

theorem open_breaker_shields_gateway:
  assumes "bs_status st = Open" "bs_opened_at st = Some t" "time g - t < bc_cooldown cfg"
  shows "gw_authorize (circuit_breaker_gateway cfg time inner) key oid amount cur (st, g) = (Err circuit_open, (st, g)) \<and>
    gw_capture (circuit_breaker_gateway cfg time inner) gref (st, g) = (Err circuit_open, (st, g)) \<and>
    gw_void (circuit_breaker_gateway cfg time inner) gref (st, g) = (Err circuit_open, (st, g)) \<and>
    gw_refund (circuit_breaker_gateway cfg time inner) gref amount (st, g) = (Err circuit_open, (st, g))"
  using assms by (simp add: circuit_breaker_gateway_def guarded_open[where t = t])

theorem open_breaker_shields_gateway_witness:
  "gw_capture (circuit_breaker_gateway breaker_config_default snd (mock_gateway_ops demo_externs mock_always_succeeds)) ''r''
     (\<lparr>bs_status = Open, bs_window = [], bs_opened_at = Some 3\<rparr>, (\<lambda>n. n, 4)) =
   (Err circuit_open, (\<lparr>bs_status = Open, bs_window = [], bs_opened_at = Some 3\<rparr>, (\<lambda>n. n, 4)))"
  using open_breaker_shields_gateway[where st = "\<lparr>bs_status = Open, bs_window = [], bs_opened_at = Some 3\<rparr>"
      and t = 3 and time = snd and g = "(\<lambda>n. n, 4)" and cfg = breaker_config_default
      and inner = "mock_gateway_ops demo_externs mock_always_succeeds" and gref = "''r''"]
  by (simp add: breaker_config_default_def)

text \<open>Every call through the decorator moves its breaker along the breaker's own machine, and a
  closed breaker is transparent: the caller gets the inner gateway's answer and the inner gateway
  its own next state.\<close>

theorem decorator_runs_breaker:
  assumes "breaker_reachable cfg st"
  shows "breaker_reachable cfg (fst (snd (guarded cfg time call (st, g)))) \<and>
    (if bs_status st = Closed
     then fst (guarded cfg time call (st, g)) = fst (call g) \<and> snd (snd (guarded cfg time call (st, g))) = snd (call g)
     else True)"
  using guarded_reachable[OF assms] guarded_closed by fastforce

theorem decorator_runs_breaker_witness:
  "fst (guarded breaker_config_default (\<lambda>n. n) (mock_status mock_always_fails_retryable ''Capture'')
     (breaker_new breaker_config_default, 3)) = Err (timeout ''Capture timed out'')"
  using decorator_runs_breaker[OF reach_new, of breaker_config_default "\<lambda>n. n"
      "mock_status mock_always_fails_retryable ''Capture''" 3]
  by (simp add: breaker_new_def mock_status_def mock_always_fails_retryable_def throw_def make_error_def)

end
