(* ===== verification/Ledger.thy ===== *)
theory Ledger
  imports Outbox Gateway
begin

text \<open>
  The payment service's double-entry ledger: value objects and payment states
  (\<open>payment/src/ledger/value_objects.rs\<close>), the errors of \<open>payment/src/payments/error.rs\<close>, the
  tables with the constraints of the migration, and the statements of
  \<open>payment/src/ledger/repository.rs\<close>.
\<close>

section \<open>Value objects\<close>

datatype normal_balance = NbDebit | NbCredit

datatype account_type = AcBuyer | AcGatewayHolding | AcPlatformRevenue | AcSellerPayable

fun account_normal_balance :: "account_type \<Rightarrow> normal_balance" where
  "account_normal_balance AcBuyer = NbDebit"
| "account_normal_balance AcGatewayHolding = NbDebit"
| "account_normal_balance AcPlatformRevenue = NbCredit"
| "account_normal_balance AcSellerPayable = NbCredit"

datatype transaction_type = TAuthorization | TCapture | TVoid | TRefund

datatype transaction_status = TPending | TPosted | TDiscarded

datatype entry_direction = EDebit | ECredit

datatype payment_state =
  StNew | StAuthorized | StCaptured | StVoided | StRefunded | StPending | StFailed

fun payment_state_str :: "payment_state \<Rightarrow> string" where
  "payment_state_str StNew = ''New''"
| "payment_state_str StAuthorized = ''Authorized''"
| "payment_state_str StCaptured = ''Captured''"
| "payment_state_str StVoided = ''Voided''"
| "payment_state_str StRefunded = ''Refunded''"
| "payment_state_str StPending = ''Pending''"
| "payment_state_str StFailed = ''Failed''"

section \<open>Errors\<close>

datatype payment_error =
    PayValidationFailed string
  | PayInvalidState string payment_state
  | PayAmountTampered decimal decimal
  | PayNotFound string
  | PayGatewayDeclined string string
  | PayGatewayRetryable string string
  | PayInfra app_error

definition tampering_text :: "externs \<Rightarrow> decimal \<Rightarrow> decimal \<Rightarrow> string" where
  "tampering_text x req app =
     ''Amount tampering detected: requested='' @ dec_str x req @ '', approved='' @ dec_str x app"

fun payment_error_str :: "externs \<Rightarrow> payment_error \<Rightarrow> string" where
  "payment_error_str x (PayValidationFailed m) = ''Validation failed: '' @ m"
| "payment_error_str x (PayInvalidState op st) =
     ''Cannot '' @ op @ '' payment in state: '' @ payment_state_str st"
| "payment_error_str x (PayAmountTampered r a) = tampering_text x r a"
| "payment_error_str x (PayNotFound m) = ''Not found: '' @ m"
| "payment_error_str x (PayGatewayDeclined c m) = ''Gateway declined ['' @ c @ '']: '' @ m"
| "payment_error_str x (PayGatewayRetryable c m) = ''Gateway retryable error ['' @ c @ '']: '' @ m"
| "payment_error_str x (PayInfra e) = app_error_str e"

definition payment_of_gateway_error :: "gateway_error \<Rightarrow> payment_error" where
  "payment_of_gateway_error e =
     (if ge_is_retryable e then PayGatewayRetryable (ge_code e) (ge_message e)
      else PayGatewayDeclined (ge_code e) (ge_message e))"

fun payment_to_app_error :: "externs \<Rightarrow> payment_error \<Rightarrow> app_error" where
  "payment_to_app_error x (PayValidationFailed m) = BadRequest m"
| "payment_to_app_error x (PayInvalidState op st) =
     BadRequest (''Cannot '' @ op @ '' payment in state: '' @ payment_state_str st)"
| "payment_to_app_error x (PayAmountTampered r a) = BadRequest (tampering_text x r a)"
| "payment_to_app_error x (PayNotFound m) = NotFound m"
| "payment_to_app_error x (PayGatewayDeclined c m) = BadRequest (''Gateway declined ['' @ c @ '']: '' @ m)"
| "payment_to_app_error x (PayGatewayRetryable c m) =
     InternalServerError (''Gateway error ['' @ c @ '']: '' @ m)"
| "payment_to_app_error x (PayInfra e) = e"

fun validate_for_authorize :: "payment_state \<Rightarrow> (unit, payment_error) result" where
  "validate_for_authorize StNew = Ok ()"
| "validate_for_authorize StFailed = Ok ()"
| "validate_for_authorize st = Err (PayInvalidState ''authorize'' st)"

fun validate_for_capture :: "payment_state \<Rightarrow> (unit, payment_error) result" where
  "validate_for_capture StAuthorized = Ok ()"
| "validate_for_capture st = Err (PayInvalidState ''capture'' st)"

fun validate_for_void :: "payment_state \<Rightarrow> (unit, payment_error) result" where
  "validate_for_void StAuthorized = Ok ()"
| "validate_for_void st = Err (PayInvalidState ''void'' st)"

fun validate_for_refund :: "payment_state \<Rightarrow> (unit, payment_error) result" where
  "validate_for_refund StCaptured = Ok ()"
| "validate_for_refund st = Err (PayInvalidState ''refund'' st)"

section \<open>Tables\<close>

record account =
  ac_id :: uuid
  ac_created_at :: timestamp
  ac_type :: account_type
  ac_normal_balance :: normal_balance
  ac_reference_id :: uuid
  ac_currency :: string

record ledger_tx =
  lt_id :: uuid
  lt_created_at :: timestamp
  lt_order_id :: uuid
  lt_type :: transaction_type
  lt_status :: transaction_status
  lt_idempotency_key :: string
  lt_gateway_reference :: "string option"
  lt_metadata :: json

record ledger_entry =
  le_id :: uuid
  le_created_at :: timestamp
  le_transaction_id :: uuid
  le_account_id :: uuid
  le_direction :: entry_direction
  le_amount :: decimal

record account_balance =
  ab_account_id :: uuid
  ab_type :: account_type
  ab_reference_id :: uuid
  ab_normal_balance :: normal_balance
  ab_currency :: string
  ab_total_debits :: decimal
  ab_total_credits :: decimal
  ab_balance :: decimal

record payment_db = svc_db +
  accounts :: "account list"
  ledger_transactions :: "ledger_tx list"
  ledger_entries :: "ledger_entry list"

section \<open>Statements\<close>

definition failed_to :: "externs \<Rightarrow> string \<Rightarrow> db_error \<Rightarrow> app_error" where
  "failed_to x what e = InternalServerError (''Failed to '' @ what @ '': '' @ db_text x e)"

definition account_is :: "account_type \<Rightarrow> uuid \<Rightarrow> string \<Rightarrow> account \<Rightarrow> bool" where
  "account_is t r cur a \<longleftrightarrow> ac_reference_id a = r \<and> ac_type a = t \<and> ac_currency a = cur"

definition account_row :: "account_type \<Rightarrow> uuid \<Rightarrow> string \<Rightarrow> uuid \<Rightarrow> timestamp \<Rightarrow> account" where
  "account_row t r cur rid now =
     \<lparr>ac_id = rid, ac_created_at = now, ac_type = t, ac_normal_balance = account_normal_balance t,
      ac_reference_id = r, ac_currency = cur\<rparr>"

text \<open>\<open>INSERT ... ON CONFLICT (reference_id, account_type, currency) DO NOTHING RETURNING *\<close>:
  no row is returned on a conflict.\<close>

definition insert_account_sql ::
  "account_type \<Rightarrow> uuid \<Rightarrow> string \<Rightarrow> uuid \<Rightarrow> (payment_db, account list) sql" where
  "insert_account_sql t r cur rid now d =
     (case varchar_col 3 cur of
        Inl e \<Rightarrow> Inl e
      | Inr cur' \<Rightarrow>
          if list_ex (account_is t r cur') (accounts d) then Inr ([], d)
          else if rid \<in> ac_id ` set (accounts d) then Inl (UniqueViolation ''accounts_pkey'')
          else Inr ([account_row t r cur' rid now],
                    d\<lparr>accounts := accounts d @ [account_row t r cur' rid now]\<rparr>))"

definition get_or_create_account ::
  "externs \<Rightarrow> account_type \<Rightarrow> uuid \<Rightarrow> string \<Rightarrow> (payment_db srv, app_error, account) eff" where
  "get_or_create_account x t r cur =
     bnd next_uuid (\<lambda>rid.
     bnd (map_err (failed_to x ''create account'')
            (fetch_optional (stmt Tx (insert_account_sql t r cur rid)))) (\<lambda>a.
       case a of
         Some acct \<Rightarrow> ret acct
       | None \<Rightarrow>
           map_err (failed_to x ''fetch account'')
             (fetch_one (query Tx (\<lambda>d. filter (account_is t r cur) (accounts d))))))"

definition tx_row ::
  "uuid \<Rightarrow> transaction_type \<Rightarrow> string \<Rightarrow> string option \<Rightarrow> uuid \<Rightarrow> timestamp \<Rightarrow> ledger_tx" where
  "tx_row oid ty key gref rid now =
     \<lparr>lt_id = rid, lt_created_at = now, lt_order_id = oid, lt_type = ty, lt_status = TPending,
      lt_idempotency_key = key, lt_gateway_reference = gref, lt_metadata = JObject []\<rparr>"

definition insert_tx_sql ::
  "uuid \<Rightarrow> transaction_type \<Rightarrow> string \<Rightarrow> string option \<Rightarrow> uuid \<Rightarrow> (payment_db, ledger_tx) sql" where
  "insert_tx_sql oid ty key gref rid now d =
     (case (varchar_col 255 key, opt_varchar 255 gref) of
        (Inl e, _) \<Rightarrow> Inl e
      | (_, Inl e) \<Rightarrow> Inl e
      | (Inr key', Inr gref') \<Rightarrow>
          if rid \<in> lt_id ` set (ledger_transactions d) then Inl (UniqueViolation ''ledger_transactions_pkey'')
          else if key' \<in> lt_idempotency_key ` set (ledger_transactions d)
          then Inl (UniqueViolation ''ledger_transactions_idempotency_key_key'')
          else Inr (tx_row oid ty key' gref' rid now,
                    d\<lparr>ledger_transactions := ledger_transactions d @ [tx_row oid ty key' gref' rid now]\<rparr>))"

definition create_transaction ::
  "externs \<Rightarrow> uuid \<Rightarrow> transaction_type \<Rightarrow> string \<Rightarrow> string option \<Rightarrow> (payment_db srv, app_error, ledger_tx) eff" where
  "create_transaction x oid ty key gref =
     bnd next_uuid (\<lambda>rid.
       map_err (failed_to x ''create transaction'') (stmt Tx (insert_tx_sql oid ty key gref rid)))"

definition get_transaction_by_idempotency_key ::
  "externs \<Rightarrow> executor \<Rightarrow> string \<Rightarrow> (payment_db srv, app_error, ledger_tx option) eff" where
  "get_transaction_by_idempotency_key x ex key =
     map_err (failed_to x ''fetch transaction'')
       (fetch_optional (query ex (\<lambda>d. filter (\<lambda>t. lt_idempotency_key t = key) (ledger_transactions d))))"

definition set_tx_status :: "transaction_status \<Rightarrow> string option \<Rightarrow> ledger_tx \<Rightarrow> ledger_tx" where
  "set_tx_status st gref t =
     (case gref of
        Some g \<Rightarrow> t\<lparr>lt_status := st, lt_gateway_reference := Some g\<rparr>
      | None \<Rightarrow> t\<lparr>lt_status := st\<rparr>)"

definition update_tx_sql ::
  "uuid \<Rightarrow> transaction_status \<Rightarrow> string option \<Rightarrow> (payment_db, nat) sql" where
  "update_tx_sql tid st gref now d =
     (case opt_varchar 255 gref of
        Inl e \<Rightarrow> Inl e
      | Inr gref' \<Rightarrow>
          Inr (count_where (\<lambda>t. lt_id t = tid) (ledger_transactions d),
               d\<lparr>ledger_transactions :=
                 update_where (\<lambda>t. lt_id t = tid) (set_tx_status st gref') (ledger_transactions d)\<rparr>))"

definition update_transaction_status ::
  "externs \<Rightarrow> uuid \<Rightarrow> transaction_status \<Rightarrow> string option \<Rightarrow> (payment_db srv, app_error, unit) eff" where
  "update_transaction_status x tid st gref =
     bnd (map_err (failed_to x ''update transaction'') (stmt Tx (update_tx_sql tid st gref)))
       (\<lambda>rows. if rows \<noteq> 1 then panic ''UPDATE must affect exactly 1 row'' else ret ())"

text \<open>\<open>ORDER BY created_at DESC\<close>; rows of the same instant in insertion order.\<close>

definition order_transactions :: "uuid \<Rightarrow> payment_db \<Rightarrow> ledger_tx list" where
  "order_transactions oid d =
     sort_key (\<lambda>t. - lt_created_at t) (filter (\<lambda>t. lt_order_id t = oid) (ledger_transactions d))"

definition list_transactions_by_order ::
  "externs \<Rightarrow> executor \<Rightarrow> uuid \<Rightarrow> (payment_db srv, app_error, ledger_tx list) eff" where
  "list_transactions_by_order x ex oid =
     map_err (failed_to x ''list transactions'') (query ex (order_transactions oid))"

definition entry_row ::
  "uuid \<Rightarrow> uuid \<Rightarrow> entry_direction \<Rightarrow> decimal \<Rightarrow> uuid \<Rightarrow> timestamp \<Rightarrow> ledger_entry" where
  "entry_row tid aid dir amount rid now =
     \<lparr>le_id = rid, le_created_at = now, le_transaction_id = tid, le_account_id = aid,
      le_direction = dir, le_amount = amount\<rparr>"

definition insert_entry_sql ::
  "uuid \<Rightarrow> uuid \<Rightarrow> entry_direction \<Rightarrow> decimal \<Rightarrow> uuid \<Rightarrow> (payment_db, ledger_entry) sql" where
  "insert_entry_sql tid aid dir amount rid now d =
     (case numeric_col amount of
        Inl e \<Rightarrow> Inl e
      | Inr amt \<Rightarrow>
          if amt \<le> 0 then Inl (CheckViolation ''chk_amount'')
          else if rid \<in> le_id ` set (ledger_entries d) then Inl (UniqueViolation ''ledger_entries_pkey'')
          else if tid \<notin> lt_id ` set (ledger_transactions d)
          then Inl (ForeignKeyViolation ''ledger_entries_transaction_id_fkey'')
          else if aid \<notin> ac_id ` set (accounts d)
          then Inl (ForeignKeyViolation ''ledger_entries_account_id_fkey'')
          else Inr (entry_row tid aid dir amt rid now,
                    d\<lparr>ledger_entries := ledger_entries d @ [entry_row tid aid dir amt rid now]\<rparr>))"

definition create_entry ::
  "externs \<Rightarrow> uuid \<Rightarrow> uuid \<Rightarrow> entry_direction \<Rightarrow> decimal \<Rightarrow> (payment_db srv, app_error, ledger_entry) eff" where
  "create_entry x tid aid dir amount =
     bnd next_uuid (\<lambda>rid.
       map_err (failed_to x ''create entry'') (stmt Tx (insert_entry_sql tid aid dir amount rid)))"

definition list_entries_by_transaction ::
  "externs \<Rightarrow> executor \<Rightarrow> uuid \<Rightarrow> (payment_db srv, app_error, ledger_entry list) eff" where
  "list_entries_by_transaction x ex tid =
     map_err (failed_to x ''list entries'')
       (query ex (\<lambda>d. sort_key le_created_at (filter (\<lambda>e. le_transaction_id e = tid) (ledger_entries d))))"

section \<open>Balances\<close>

text \<open>The view \<open>account_balances\<close> counts the entries of posted transactions only.\<close>

definition posted_id :: "payment_db \<Rightarrow> uuid \<Rightarrow> bool" where
  "posted_id d tid \<longleftrightarrow> list_ex (\<lambda>t. lt_id t = tid \<and> lt_status t = TPosted) (ledger_transactions d)"

definition posted_sum :: "payment_db \<Rightarrow> uuid \<Rightarrow> entry_direction \<Rightarrow> decimal" where
  "posted_sum d aid dir =
     sum_list (map le_amount
       (filter (\<lambda>e. le_account_id e = aid \<and> le_direction e = dir \<and> posted_id d (le_transaction_id e))
          (ledger_entries d)))"

definition balance_row :: "payment_db \<Rightarrow> account \<Rightarrow> account_balance" where
  "balance_row d a =
     (let debits = posted_sum d (ac_id a) EDebit; credits = posted_sum d (ac_id a) ECredit in
      \<lparr>ab_account_id = ac_id a, ab_type = ac_type a, ab_reference_id = ac_reference_id a,
       ab_normal_balance = ac_normal_balance a, ab_currency = ac_currency a,
       ab_total_debits = debits, ab_total_credits = credits,
       ab_balance = (case ac_normal_balance a of NbDebit \<Rightarrow> debits - credits | NbCredit \<Rightarrow> credits - debits)\<rparr>)"

definition get_account_balances ::
  "externs \<Rightarrow> executor \<Rightarrow> uuid \<Rightarrow> (payment_db srv, app_error, account_balance list) eff" where
  "get_account_balances x ex r =
     map_err (failed_to x ''fetch balances'')
       (query ex (\<lambda>d. map (balance_row d) (filter (\<lambda>a. ac_reference_id a = r) (accounts d))))"

section \<open>The payment state of an order\<close>

fun state_of_type :: "transaction_type \<Rightarrow> payment_state" where
  "state_of_type TRefund = StRefunded"
| "state_of_type TVoid = StVoided"
| "state_of_type TCapture = StCaptured"
| "state_of_type TAuthorization = StAuthorized"

definition derive_payment_state :: "ledger_tx list \<Rightarrow> payment_state" where
  "derive_payment_state ts =
     (if ts = [] then StNew
      else case find (\<lambda>t. lt_status t = TPosted) ts of
             Some t \<Rightarrow> state_of_type (lt_type t)
           | None \<Rightarrow> if list_ex (\<lambda>t. lt_status t = TPending) ts then StPending else StFailed)"

lemma derive_payment_state_cases:
  "derive_payment_state ts = StNew \<longleftrightarrow> ts = []"
  "derive_payment_state ts = StFailed \<longleftrightarrow> ts \<noteq> [] \<and> list_all (\<lambda>t. lt_status t = TDiscarded) ts"
proof -
  have ty: "state_of_type ty \<noteq> StNew \<and> state_of_type ty \<noteq> StFailed" for ty by (cases ty) auto
  show "derive_payment_state ts = StNew \<longleftrightarrow> ts = []"
    using ty by (auto simp: derive_payment_state_def split: option.splits)
  show "derive_payment_state ts = StFailed \<longleftrightarrow> ts \<noteq> [] \<and> list_all (\<lambda>t. lt_status t = TDiscarded) ts"
  proof (cases "find (\<lambda>t. lt_status t = TPosted) ts")
    case None
    then have "lt_status t = TPending \<longleftrightarrow> lt_status t \<noteq> TDiscarded" if "t \<in> set ts" for t
      using that by (cases "lt_status t") (auto simp: find_None_iff)
    then have "list_ex (\<lambda>t. lt_status t = TPending) ts \<longleftrightarrow> \<not> list_all (\<lambda>t. lt_status t = TDiscarded) ts"
      by (simp add: list_ex_iff list_all_iff)
    then show ?thesis using None by (simp add: derive_payment_state_def)
  next
    case (Some t)
    then have "t \<in> set ts" "lt_status t = TPosted" by (auto simp: find_Some_iff)
    then have "\<not> list_all (\<lambda>t. lt_status t = TDiscarded) ts"
      by (auto simp: list_all_iff intro!: bexI[of _ t])
    then show ?thesis using Some ty by (simp add: derive_payment_state_def)
  qed
qed

end
