(* ===== verification/Rules.thy ===== *)
theory Rules
  imports Prelude
begin

text \<open>
  The rule algebra of \<open>shared/src/rules.rs\<close>: rule trees, the combinators that build them,
  and their interpreters (plain evaluation, evaluation with a result tree, the failure
  messages of a result tree, the description, the leaves).
\<close>

named_theorems rule_simps \<open>evaluation of the services' rule trees\<close>

section \<open>Rule trees\<close>

datatype 'a rule = Check 'a | AllR "'a rule list" | AnyR "'a rule list" | NotR "'a rule"

definition rule_check :: "'a \<Rightarrow> 'a rule" where
  "rule_check v = Check v"

definition rule_all :: "'a rule list \<Rightarrow> 'a rule" where
  "rule_all rs = AllR rs"

definition rule_any :: "'a rule list \<Rightarrow> 'a rule" where
  "rule_any rs = AnyR rs"

definition rule_not :: "'a rule \<Rightarrow> 'a rule" where
  "rule_not r = NotR r"

fun rule_and :: "'a rule \<Rightarrow> 'a rule \<Rightarrow> 'a rule" where
  "rule_and (AllR rs) other = AllR (rs @ [other])"
| "rule_and self other = AllR [self, other]"

fun rule_or :: "'a rule \<Rightarrow> 'a rule \<Rightarrow> 'a rule" where
  "rule_or (AnyR rs) other = AnyR (rs @ [other])"
| "rule_or self other = AnyR [self, other]"

fun evaluate :: "'a rule \<Rightarrow> ('a \<Rightarrow> bool) \<Rightarrow> bool" where
  "evaluate (Check a) p = p a"
| "evaluate (AllR rs) p = list_all (\<lambda>r. evaluate r p) rs"
| "evaluate (AnyR rs) p = list_ex (\<lambda>r. evaluate r p) rs"
| "evaluate (NotR r) p = (\<not> evaluate r p)"

section \<open>Result trees\<close>

datatype 'a rule_result =
    RPass 'a
  | RFail 'a
  | AllOf "'a rule_result list" bool
  | AnyOf "'a rule_result list" bool
  | Negated "'a rule_result" bool

fun passed :: "'a rule_result \<Rightarrow> bool" where
  "passed (RPass a) = True"
| "passed (RFail a) = False"
| "passed (AllOf rs b) = b"
| "passed (AnyOf rs b) = b"
| "passed (Negated r b) = b"

fun evaluate_detailed :: "'a rule \<Rightarrow> ('a \<Rightarrow> bool) \<Rightarrow> 'a rule_result" where
  "evaluate_detailed (Check a) p = (if p a then RPass a else RFail a)"
| "evaluate_detailed (AllR rs) p =
     (let results = map (\<lambda>r. evaluate_detailed r p) rs in AllOf results (list_all passed results))"
| "evaluate_detailed (AnyR rs) p =
     (let results = map (\<lambda>r. evaluate_detailed r p) rs in AnyOf results (list_ex passed results))"
| "evaluate_detailed (NotR r) p =
     (let inner = evaluate_detailed r p in Negated inner (\<not> passed inner))"

fun collect_passes :: "'a rule_result \<Rightarrow> 'a list" where
  "collect_passes (RPass a) = [a]"
| "collect_passes (RFail a) = []"
| "collect_passes (AllOf rs b) = (if b then concat (map collect_passes rs) else [])"
| "collect_passes (AnyOf rs b) = (if b then concat (map collect_passes rs) else [])"
| "collect_passes (Negated r b) = (if b then [] else [])"

fun collect_failures :: "'a rule_result \<Rightarrow> 'a list" where
  "collect_failures (RPass a) = []"
| "collect_failures (RFail a) = [a]"
| "collect_failures (AllOf rs b) = (if b then [] else concat (map collect_failures rs))"
| "collect_failures (AnyOf rs b) = (if b then [] else concat (map collect_failures rs))"
| "collect_failures (Negated r b) = (if b then [] else collect_passes r)"

definition failure_messages :: "('a \<Rightarrow> string) \<Rightarrow> 'a rule_result \<Rightarrow> string list" where
  "failure_messages display r = map display (collect_failures r)"

fun describe :: "('a \<Rightarrow> string) \<Rightarrow> 'a rule \<Rightarrow> string" where
  "describe display (Check a) = display a"
| "describe display (AllR rs) = ''('' @ join_with '' AND '' (map (describe display) rs) @ '')''"
| "describe display (AnyR rs) = ''('' @ join_with '' OR '' (map (describe display) rs) @ '')''"
| "describe display (NotR r) = ''NOT '' @ describe display r"

fun collect_checks :: "'a rule \<Rightarrow> 'a list" where
  "collect_checks (Check a) = [a]"
| "collect_checks (AllR rs) = concat (map collect_checks rs)"
| "collect_checks (AnyR rs) = concat (map collect_checks rs)"
| "collect_checks (NotR r) = collect_checks r"

section \<open>The interpreters agree\<close>

lemma passed_evaluate_detailed: "passed (evaluate_detailed r p) = evaluate r p"
  by (induction r p rule: evaluate.induct) (auto simp: Let_def list_all_iff list_ex_iff)

lemma evaluate_rule_and: "evaluate (rule_and r q) p \<longleftrightarrow> evaluate r p \<and> evaluate q p"
  by (cases r) auto

lemma evaluate_rule_or: "evaluate (rule_or r q) p \<longleftrightarrow> evaluate r p \<or> evaluate q p"
  by (cases r) auto

lemma evaluate_depends_on_checks:
  "(\<And>a. a \<in> set (collect_checks r) \<Longrightarrow> p a = q a) \<Longrightarrow> evaluate r p = evaluate r q"
  by (induction r) (auto simp: list_all_iff list_ex_iff)

text \<open>Rules over one conjunction of leaves, the shape of every rule tree of the services.\<close>

lemma evaluate_conjunction [rule_simps]:
  "evaluate (AllR (map Check cs)) p \<longleftrightarrow> list_all p cs"
  by (simp add: list_all_iff)

lemma failures_conjunction [rule_simps]:
  "collect_failures (evaluate_detailed (AllR (map Check cs)) p) = filter (\<lambda>c. \<not> p c) cs"
proof -
  have "concat (map (\<lambda>c. collect_failures (if p c then RPass c else RFail c)) cs)
      = filter (\<lambda>c. \<not> p c) cs"
    by (induction cs) auto
  moreover have "list_all passed (map (\<lambda>c. if p c then RPass c else RFail c) cs) = list_all p cs"
    by (induction cs) auto
  moreover have "list_all p cs \<Longrightarrow> filter (\<lambda>c. \<not> p c) cs = []"
    by (simp add: filter_empty_conv list_all_iff)
  ultimately show ?thesis by (simp add: Let_def o_def)
qed

section \<open>What the failure messages say\<close>

fun not_free :: "'a rule \<Rightarrow> bool" where
  "not_free (Check a) = True"
| "not_free (AllR rs) = list_all not_free rs"
| "not_free (AnyR rs) = list_all not_free rs"
| "not_free (NotR r) = False"

fun no_empty_any :: "'a rule \<Rightarrow> bool" where
  "no_empty_any (Check a) = True"
| "no_empty_any (AllR rs) = list_all no_empty_any rs"
| "no_empty_any (AnyR rs) = (rs \<noteq> [] \<and> list_all no_empty_any rs)"
| "no_empty_any (NotR r) = no_empty_any r"

text \<open>A passing rule reports nothing, and only leaves of the rule are ever reported.\<close>

lemma collect_failures_passed: "passed res \<Longrightarrow> collect_failures res = []"
  by (cases res) auto

lemma collect_passes_checks:
  "a \<in> set (collect_passes (evaluate_detailed r p)) \<Longrightarrow> a \<in> set (collect_checks r)"
  by (induction r) (auto simp: Let_def split: if_splits)

lemma collect_failures_checks:
  "a \<in> set (collect_failures (evaluate_detailed r p)) \<Longrightarrow> a \<in> set (collect_checks r)"
  by (induction r) (auto simp: Let_def dest: collect_passes_checks split: if_splits)

text \<open>Without negation, what is reported has failed.\<close>

lemma collect_failures_fail:
  "not_free r \<Longrightarrow> a \<in> set (collect_failures (evaluate_detailed r p)) \<Longrightarrow> \<not> p a"
  by (induction r) (auto simp: Let_def list_all_iff split: if_splits)

lemma evaluate_mono:
  "not_free r \<Longrightarrow> (\<And>a. p a \<Longrightarrow> q a) \<Longrightarrow> evaluate r p \<Longrightarrow> evaluate r q"
  by (induction r) (auto simp: list_all_iff list_ex_iff)

text \<open>And repairing everything that is reported makes the rule pass.\<close>

lemma repair_failures:
  assumes "not_free r" "no_empty_any r" "\<And>a. p a \<Longrightarrow> q a"
    and "\<And>a. a \<in> set (collect_failures (evaluate_detailed r p)) \<Longrightarrow> q a"
  shows "evaluate r q"
  using assms(1,2,4)
proof (induction r)
  case (Check a)
  then show ?case using assms(3) by (cases "p a") auto
next
  case (AllR rs)
  have "evaluate r q" if "r \<in> set rs" for r
  proof (cases "evaluate (AllR rs) p")
    case True
    then have "evaluate r p" using that by (simp add: list_all_iff)
    then show ?thesis using AllR.prems(1) that assms(3) evaluate_mono[of r p q]
      by (simp add: list_all_iff)
  next
    case False
    then have "set (collect_failures (evaluate_detailed r p)) \<subseteq>
        set (collect_failures (evaluate_detailed (AllR rs) p))"
      using that by (auto simp: Let_def list_all_iff passed_evaluate_detailed)
    then show ?thesis using AllR that by (simp add: list_all_iff) blast
  qed
  then show ?case by (simp add: list_all_iff)
next
  case (AnyR rs)
  show ?case
  proof (cases "evaluate (AnyR rs) p")
    case True
    then show ?thesis using AnyR.prems(1) assms(3) evaluate_mono[of _ p q]
      by (fastforce simp: list_all_iff list_ex_iff)
  next
    case False
    obtain r where r: "r \<in> set rs" using AnyR.prems(2) by (cases rs) auto
    with False have "set (collect_failures (evaluate_detailed r p)) \<subseteq>
        set (collect_failures (evaluate_detailed (AnyR rs) p))"
      by (auto simp: Let_def list_ex_iff passed_evaluate_detailed)
    then have "evaluate r q" using AnyR r by (simp add: list_all_iff) blast
    then show ?thesis using r by (auto simp: list_ex_iff)
  qed
next
  case (NotR r)
  then show ?case by simp
qed

text \<open>So a failing rule without negation and without an empty alternative has a message.\<close>

lemma failing_rule_reports:
  assumes "not_free r" "no_empty_any r" "\<not> evaluate r p"
  shows "collect_failures (evaluate_detailed r p) \<noteq> []"
  using repair_failures[of r p p] assms by auto

text \<open>Double negation hides the failing leaf: no message at all.\<close>

lemma double_negation_silent:
  "\<not> p a \<Longrightarrow> \<not> evaluate (NotR (NotR (Check a))) p \<and>
     collect_failures (evaluate_detailed (NotR (NotR (Check a))) p) = []"
  by (simp add: Let_def)

section \<open>Properties\<close>

text \<open>A rule tree without negation and without an empty alternative that fails names at
  least one failing leaf, names only leaves that are false, and holds as soon as all the named
  leaves are repaired: the messages sent to the caller are sound and sufficient.\<close>

theorem failures_sound_and_sufficient:
  assumes "not_free r" "no_empty_any r" "\<not> evaluate r p"
  shows "collect_failures (evaluate_detailed r p) \<noteq> [] \<and>
    (\<forall>a. a \<in> set (collect_failures (evaluate_detailed r p)) \<longrightarrow> \<not> p a) \<and>
    evaluate r (\<lambda>a. p a \<or> a \<in> set (collect_failures (evaluate_detailed r p)))"
proof -
  have "evaluate r (\<lambda>a. p a \<or> a \<in> set (collect_failures (evaluate_detailed r p)))"
    by (rule repair_failures[OF assms(1,2), where p = p]) auto
  then show ?thesis
    using failing_rule_reports[OF assms] collect_failures_fail[OF assms(1)] by blast
qed

theorem failures_sound_and_sufficient_witness:
  "collect_failures (evaluate_detailed (AllR [Check 1, AnyR [Check 2, Check (3::nat)]]) (\<lambda>a. a = 1)) = [2, 3] \<and>
   evaluate (AllR [Check 1, AnyR [Check 2, Check (3::nat)]]) (\<lambda>a. a = 1 \<or> a = 2 \<or> a = 3)"
  using failures_sound_and_sufficient[of "AllR [Check 1, AnyR [Check 2, Check (3::nat)]]" "\<lambda>a. a = 1"]
  by (simp add: Let_def)

text \<open>The plain evaluation of a rule and the detailed evaluation agree, and the
  combinators \<open>and\<close> and \<open>or\<close> mean conjunction and disjunction for every shape of rule.\<close>

theorem evaluations_agree:
  "passed (evaluate_detailed r p) = evaluate r p \<and>
   evaluate (rule_and r q) p = (evaluate r p \<and> evaluate q p) \<and>
   evaluate (rule_or r q) p = (evaluate r p \<or> evaluate q p)"
  by (simp add: passed_evaluate_detailed evaluate_rule_and evaluate_rule_or)

end
