(* ===== verification/Auth.thy ===== *)
theory Auth
  imports Environment
begin

text \<open>
  Roles, the authenticated user and the access guards of the shared crate:
  \<open>auth/role.rs\<close>, the type \<open>CurrentUser\<close> of \<open>auth/jwt.rs\<close>, and \<open>auth/guards.rs\<close>.
\<close>

datatype role = Buyer | Seller | Admin

fun role_str :: "role \<Rightarrow> string" where
  "role_str Buyer = ''BUYER''"
| "role_str Seller = ''SELLER''"
| "role_str Admin = ''ADMIN''"

record current_user =
  cu_id :: uuid
  cu_role :: role

definition can_access :: "current_user \<Rightarrow> uuid \<Rightarrow> bool" where
  "can_access u target \<longleftrightarrow> cu_id u = target \<or> cu_role u = Admin"

definition require_access :: "current_user \<Rightarrow> uuid \<Rightarrow> (unit, app_error) result" where
  "require_access u owner =
     (if can_access u owner then Ok ()
      else Err (Forbidden ''You don't have permission to access this resource''))"

definition require_admin :: "current_user \<Rightarrow> (unit, app_error) result" where
  "require_admin u = (if cu_role u = Admin then Ok () else Err (Forbidden ''Admin access required''))"

lemma require_access_Ok_iff [simp]: "require_access u owner = Ok () \<longleftrightarrow> can_access u owner"
  by (simp add: require_access_def)

lemma require_admin_Ok_iff [simp]: "require_admin u = Ok () \<longleftrightarrow> cu_role u = Admin"
  by (simp add: require_admin_def)

lemma admin_accesses_all: "require_admin u = Ok () \<Longrightarrow> require_access u owner = Ok ()"
  by (simp add: can_access_def)

end
