(* ===== verification/Lock.thy ===== *)
theory Lock
  imports Environment
begin

text \<open>
  The distributed lock of \<open>shared/src/distributed_lock.rs\<close> over the part of Redis it uses:
  string keys with an expiry time. Redis is the store, the environment supplies its clock
  (in seconds), the tokens and the commands that fail.
\<close>

section \<open>Redis\<close>

record redis =
  rd_store :: "string \<Rightarrow> (string \<times> nat) option"
  rd_clock :: "nat \<Rightarrow> nat"
  rd_tokens :: "nat \<Rightarrow> uuid"
  rd_ticks :: nat
  rd_faults :: "bool list"
  rd_error :: string \<comment> \<open>the text of a connection error\<close>

datatype lock_error = AlreadyHeld | RedisUnavailable string

fun lock_error_str :: "lock_error \<Rightarrow> string" where
  "lock_error_str AlreadyHeld = ''lock already held''"
| "lock_error_str (RedisUnavailable m) = ''redis unavailable: '' @ m"

definition rd_now :: "redis \<Rightarrow> nat" where
  "rd_now r = rd_clock r (rd_ticks r)"

text \<open>A key whose time has come is gone.\<close>

definition rd_get :: "redis \<Rightarrow> string \<Rightarrow> string option" where
  "rd_get r k = (case rd_store r k of Some (v, expiry) \<Rightarrow> if rd_now r < expiry then Some v else None | None \<Rightarrow> None)"

definition rd_fault :: "redis \<Rightarrow> bool" where
  "rd_fault r = (case rd_faults r of [] \<Rightarrow> False | b # _ \<Rightarrow> b)"

definition rd_tick :: "redis \<Rightarrow> redis" where
  "rd_tick r = r\<lparr>rd_ticks := Suc (rd_ticks r), rd_faults := tl (rd_faults r)\<rparr>"

section \<open>Operations\<close>

record lock_guard =
  lg_key :: string
  lg_token :: string

definition acquire :: "externs \<Rightarrow> string \<Rightarrow> nat \<Rightarrow> (redis, lock_error, lock_guard) eff" where
  "acquire x key ttl r =
     (let token = uuid_str x (rd_tokens r (rd_ticks r));
          ttl_secs = max ttl 1 in
      if rd_fault r then (Err (RedisUnavailable (rd_error r)), rd_tick r)
      else case rd_get r key of
             None \<Rightarrow>
               (Ok \<lparr>lg_key = key, lg_token = token\<rparr>,
                (rd_tick r)\<lparr>rd_store := (rd_store r)(key \<mapsto> (token, rd_now r + ttl_secs))\<rparr>)
           | Some _ \<Rightarrow> (Err AlreadyHeld, rd_tick r))"

text \<open>The release script: delete the key if it still holds our token.\<close>

definition release :: "lock_guard \<Rightarrow> (redis, lock_error, bool) eff" where
  "release g r =
     (if rd_fault r then (Err (RedisUnavailable (rd_error r)), rd_tick r)
      else if rd_get r (lg_key g) = Some (lg_token g)
      then (Ok True, (rd_tick r)\<lparr>rd_store := (rd_store r)(lg_key g := None)\<rparr>)
      else (Ok False, rd_tick r))"

text \<open>\<open>acquire_with_retry\<close>: the argument is the number of attempts left.\<close>

primrec acquire_attempts :: "nat \<Rightarrow> externs \<Rightarrow> string \<Rightarrow> nat \<Rightarrow> (redis, lock_error, lock_guard) eff" where
  "acquire_attempts 0 x key ttl r = (Err AlreadyHeld, r)"
| "acquire_attempts (Suc left) x key ttl r =
     (case acquire x key ttl r of
        (Ok g, r') \<Rightarrow> (Ok g, r')
      | (Err e, r') \<Rightarrow>
          if e = AlreadyHeld \<and> left > 0 then acquire_attempts left x key ttl r' else (Err e, r')
      | (Panic p, r') \<Rightarrow> (Panic p, r'))"

definition acquire_with_retry :: "externs \<Rightarrow> string \<Rightarrow> nat \<Rightarrow> nat \<Rightarrow> (redis, lock_error, lock_guard) eff" where
  "acquire_with_retry x key ttl max_attempts = acquire_attempts max_attempts x key ttl"

section \<open>Facts\<close>

definition holds :: "redis \<Rightarrow> lock_guard \<Rightarrow> bool" where
  "holds r g \<longleftrightarrow> rd_get r (lg_key g) = Some (lg_token g)"

text \<open>No two holders: acquiring succeeds only on a key that nobody holds, and then the
  caller is its holder for the time to live.\<close>

lemma acquire_Ok:
  assumes "acquire x key ttl r = (Ok g, r')"
  shows "rd_get r key = None" "lg_key g = key"
    "rd_store r' key = Some (lg_token g, rd_now r + max ttl 1)" "\<And>k. k \<noteq> key \<Longrightarrow> rd_store r' k = rd_store r k"
  using assms by (auto simp: acquire_def Let_def rd_tick_def split: if_splits option.splits)

lemma acquire_held:
  assumes "holds r g" "\<not> rd_fault r"
  shows "acquire x (lg_key g) ttl r = (Err AlreadyHeld, rd_tick r)"
  using assms by (simp add: acquire_def Let_def holds_def)

text \<open>A release never removes another holder's lock.\<close>

lemma release_other:
  assumes "release g r = (q, r')" "rd_store r k = Some (tok, e)" "rd_now r < e" "k = lg_key g \<longrightarrow> tok \<noteq> lg_token g"
  shows "rd_store r' k = Some (tok, e)"
  using assms by (auto simp: release_def rd_get_def rd_tick_def split: if_splits)

lemma release_own:
  assumes "holds r g" "\<not> rd_fault r"
  shows "\<exists>r'. release g r = (Ok True, r') \<and> rd_store r' (lg_key g) = None"
  using assms by (simp add: release_def holds_def)

lemma acquire_attempts_Ok:
  "acquire_attempts n x key ttl r = (Ok g, r') \<Longrightarrow>
     lg_key g = key \<and> (\<exists>t. rd_store r' key = Some (lg_token g, t))"
proof (induction n arbitrary: r)
  case (Suc n)
  obtain q r1 where a: "acquire x key ttl r = (q, r1)" by fastforce
  then show ?case
    using Suc acquire_Ok[of x key ttl r g r'] by (cases q) (auto split: if_splits)
qed simp

section \<open>Properties\<close>

text \<open>C34: Mutual exclusion: a lock is granted only on a key that no live lock occupies; from then
  until it expires or its holder releases it, every other attempt is refused and no release with
  another token removes it.\<close>

theorem lock_excludes_others:
  assumes "acquire x key ttl r = (Ok g, r')" and "rd_store s key = rd_store r' key" "rd_now s < rd_now r + max ttl 1"
    and "rd_faults s = []"
  shows "rd_get r key = None \<and> fst (acquire x' key ttl' s) = Err AlreadyHeld \<and>
    rd_store (snd (acquire x' key ttl' s)) key = rd_store r' key \<and>
    (if lg_token h = lg_token g then True else rd_store (snd (release h s)) key = rd_store r' key)"
proof -
  note g = acquire_Ok[OF assms(1)]
  have s: "rd_store s key = Some (lg_token g, rd_now r + max ttl 1)" using assms(2) g(3) by simp
  have held: "holds s g" using s assms(3) g(2) by (simp add: holds_def rd_get_def)
  have nf: "\<not> rd_fault s" using assms(4) by (simp add: rd_fault_def)
  have "rd_store (snd (release h s)) key = Some (lg_token g, rd_now r + max ttl 1)" if "lg_token h \<noteq> lg_token g"
    by (rule release_other[OF _ s assms(3), of h "fst (release h s)"]) (use that in auto)
  then show ?thesis using g acquire_held[OF held nf] s by (auto simp: rd_tick_def)
qed

definition demo_redis :: redis where
  "demo_redis = \<lparr>rd_store = Map.empty, rd_clock = (\<lambda>n. n), rd_tokens = (\<lambda>n. n), rd_ticks = 0, rd_faults = [],
     rd_error = ''down''\<rparr>"

theorem lock_excludes_others_witness:
  "fst (acquire demo_externs ''k'' 30 (snd (acquire demo_externs ''k'' 30 demo_redis))) = Err AlreadyHeld"
proof -
  have "acquire demo_externs ''k'' 30 demo_redis =
      (Ok \<lparr>lg_key = ''k'', lg_token = uuid_str demo_externs 0\<rparr>, snd (acquire demo_externs ''k'' 30 demo_redis))"
    by (simp add: acquire_def demo_redis_def rd_fault_def rd_get_def Let_def)
  from lock_excludes_others[OF this refl] show ?thesis
    by (simp add: acquire_def demo_redis_def rd_fault_def rd_get_def rd_tick_def rd_now_def Let_def)
qed

end
