(* ===== verification/Payment.thy ===== *)
theory Payment
  imports Ledger Rules Auth Lock Consumer
begin

text \<open>
  The payment service: its rules (\<open>payment/src/payments/rules.rs\<close>), operations
  (\<open>service.rs\<close>), status route (\<open>routes.rs\<close>) and event handlers
  (\<open>payment/src/consumers\<close>). The operations run on a pair: the database session and the
  gateway's state; the handler also holds the Redis of the distributed lock.
\<close>

section \<open>Rules\<close>

datatype payment_check =
    MinAmount decimal
  | MaxAmount decimal
  | PaySupportedCurrency
  | ValidStateForOperation
  | CaptureAmountConsistent

fun payment_check_str :: "externs \<Rightarrow> payment_check \<Rightarrow> string" where
  "payment_check_str x (MinAmount v) = ''amount must be at least $'' @ dec_str x v"
| "payment_check_str x (MaxAmount v) = ''amount must not exceed $'' @ dec_str x v"
| "payment_check_str x PaySupportedCurrency = ''currency must be supported''"
| "payment_check_str x ValidStateForOperation = ''payment must be in valid state for operation''"
| "payment_check_str x CaptureAmountConsistent = ''capture amount must match authorization''"

definition min_payment_amount :: decimal where
  "min_payment_amount = 1 / 2"

definition max_payment_amount :: decimal where
  "max_payment_amount = 100000"

definition payment_currencies :: "string list" where
  "payment_currencies = [''USD'', ''KRW'', ''EUR'', ''GBP'', ''JPY'']"

definition authorization_rules :: "payment_check rule" where
  "authorization_rules =
     rule_all [rule_check (MinAmount min_payment_amount), rule_check (MaxAmount max_payment_amount),
       rule_check PaySupportedCurrency, rule_check ValidStateForOperation]"

definition capture_rules :: "payment_check rule" where
  "capture_rules = rule_all [rule_check ValidStateForOperation, rule_check CaptureAmountConsistent]"

record authorization_context =
  au_amount :: decimal
  au_currency :: string
  au_state :: payment_state

record capture_context =
  cp_state :: payment_state
  cp_auth_amount :: decimal
  cp_capture_amount :: decimal

fun eval_authorization :: "authorization_context \<Rightarrow> payment_check \<Rightarrow> bool" where
  "eval_authorization c (MinAmount m) = (au_amount c \<ge> m)"
| "eval_authorization c (MaxAmount m) = (au_amount c \<le> m)"
| "eval_authorization c PaySupportedCurrency = (au_currency c \<in> set payment_currencies)"
| "eval_authorization c ValidStateForOperation = (au_state c = StNew \<or> au_state c = StFailed)"
| "eval_authorization c CaptureAmountConsistent = True"

fun eval_capture :: "capture_context \<Rightarrow> payment_check \<Rightarrow> bool" where
  "eval_capture c ValidStateForOperation = (cp_state c = StAuthorized)"
| "eval_capture c CaptureAmountConsistent = (cp_capture_amount c = cp_auth_amount c)"
| "eval_capture c _ = True"

definition validate_authorization ::
  "externs \<Rightarrow> decimal \<Rightarrow> string \<Rightarrow> payment_state \<Rightarrow> (unit, app_error) result" where
  "validate_authorization x amount cur st =
     (let res = evaluate_detailed authorization_rules
                  (eval_authorization \<lparr>au_amount = amount, au_currency = cur, au_state = st\<rparr>) in
      if \<not> passed res
      then Err (payment_to_app_error x (PayValidationFailed
             (join_with ''; '' (failure_messages (payment_check_str x) res))))
      else Ok ())"

section \<open>Writes on a transaction\<close>

definition write_outbox ::
  "externs \<Rightarrow> uuid \<Rightarrow> event_type \<Rightarrow> json \<Rightarrow> (payment_db srv, app_error, unit) eff" where
  "write_outbox x oid et pl =
     bnd (event_metadata_new et AggPayment oid SPayment) (\<lambda>m.
     bnd (insert_outbox_event x Tx (from_envelope x ''payments.events'' (event_envelope_new m pl))) (\<lambda>_. ret ()))"

definition create_account_pair ::
  "externs \<Rightarrow> uuid \<Rightarrow> string \<Rightarrow> account_type \<Rightarrow> account_type \<Rightarrow> (payment_db srv, app_error, uuid \<times> uuid) eff" where
  "create_account_pair x oid cur debit_type credit_type =
     bnd (get_or_create_account x debit_type oid cur) (\<lambda>debit_acct.
     bnd (get_or_create_account x credit_type oid cur) (\<lambda>credit_acct.
       ret (ac_id debit_acct, ac_id credit_acct)))"

definition write_entry_pair ::
  "externs \<Rightarrow> uuid \<Rightarrow> uuid \<Rightarrow> uuid \<Rightarrow> decimal \<Rightarrow> (payment_db srv, app_error, unit) eff" where
  "write_entry_pair x tid debit_acct credit_acct amount =
     bnd (create_entry x tid debit_acct EDebit amount) (\<lambda>_.
     bnd (create_entry x tid credit_acct ECredit amount) (\<lambda>_. ret ()))"

definition post_transaction :: "externs \<Rightarrow> uuid \<Rightarrow> (payment_db srv, app_error, unit) eff" where
  "post_transaction x tid = update_transaction_status x tid TPosted None"

definition order_json :: "externs \<Rightarrow> uuid \<Rightarrow> string \<times> json" where
  "order_json x oid = (''order_id'', JString (uuid_str x oid))"

definition record_authorization ::
  "externs \<Rightarrow> uuid \<Rightarrow> decimal \<Rightarrow> string \<Rightarrow> string \<Rightarrow> (payment_db srv, app_error, unit) eff" where
  "record_authorization x oid amount cur gref =
     bnd (create_account_pair x oid cur AcBuyer AcGatewayHolding) (\<lambda>(buyer, holding).
     bnd (create_transaction x oid TAuthorization (''auth:'' @ uuid_str x oid) (Some gref)) (\<lambda>t.
     bnd (write_entry_pair x (lt_id t) holding buyer amount) (\<lambda>_.
     bnd (post_transaction x (lt_id t)) (\<lambda>_.
       write_outbox x oid PaymentAuthorized
         (JObject [order_json x oid, (''payment_id'', JString (uuid_str x (lt_id t))),
            (''gateway_reference'', JString gref)])))))"

definition record_capture ::
  "externs \<Rightarrow> uuid \<Rightarrow> string \<Rightarrow> decimal \<Rightarrow> string \<Rightarrow> string \<Rightarrow> (payment_db srv, app_error, unit) eff" where
  "record_capture x oid cur amount key gref =
     bnd (create_account_pair x oid cur AcGatewayHolding AcPlatformRevenue) (\<lambda>(holding, revenue).
     bnd (create_transaction x oid TCapture key (Some gref)) (\<lambda>t.
     bnd (write_entry_pair x (lt_id t) revenue holding amount) (\<lambda>_.
     bnd (post_transaction x (lt_id t)) (\<lambda>_.
       write_outbox x oid PaymentCaptured (JObject [order_json x oid])))))"

definition record_void ::
  "externs \<Rightarrow> uuid \<Rightarrow> uuid \<Rightarrow> string \<Rightarrow> decimal \<Rightarrow> string \<Rightarrow> (payment_db srv, app_error, unit) eff" where
  "record_void x oid auth_tx cur amount key =
     bnd (update_transaction_status x auth_tx TDiscarded None) (\<lambda>_.
     bnd (create_account_pair x oid cur AcBuyer AcGatewayHolding) (\<lambda>(buyer, holding).
     bnd (create_transaction x oid TVoid key None) (\<lambda>t.
     bnd (write_entry_pair x (lt_id t) buyer holding amount) (\<lambda>_.
     bnd (post_transaction x (lt_id t)) (\<lambda>_.
       write_outbox x oid PaymentVoided (JObject [order_json x oid]))))))"

definition find_posted_authorization ::
  "externs \<Rightarrow> uuid \<Rightarrow> (payment_state \<Rightarrow> (unit, payment_error) result) \<Rightarrow>
   (payment_db srv, app_error, uuid \<times> string \<times> string \<times> decimal) eff" where
  "find_posted_authorization x oid validate =
     bnd (list_transactions_by_order x Pool oid) (\<lambda>ts.
     bnd (of_result (map_err_result (payment_to_app_error x) (validate (derive_payment_state ts)))) (\<lambda>_.
     bnd (of_result (ok_or (NotFound ''No posted authorization found'')
            (find (\<lambda>t. lt_type t = TAuthorization \<and> lt_status t = TPosted) ts))) (\<lambda>auth.
     bnd (of_result (ok_or (InternalServerError ''Authorization missing gateway reference'')
            (lt_gateway_reference auth))) (\<lambda>gref.
     bnd (list_entries_by_transaction x Pool (lt_id auth)) (\<lambda>es.
       let amount = (case es of [] \<Rightarrow> 0 | e # _ \<Rightarrow> le_amount e);
           cur = (case as_str (jget (lt_metadata auth) ''currency'') of Some c \<Rightarrow> c | None \<Rightarrow> ''USD'')
       in ret (lt_id auth, gref, cur, amount))))))"

section \<open>Operations of the service\<close>

text \<open>Effects of the database alone and of the gateway alone, and their sequence.\<close>

definition failed_event :: "externs \<Rightarrow> uuid \<Rightarrow> string \<Rightarrow> (payment_db srv, app_error, unit) eff" where
  "failed_event x oid reason =
     write_outbox x oid PaymentFailed (JObject [order_json x oid, (''reason'', JString reason)])"

definition tampered_reason :: "externs \<Rightarrow> decimal \<Rightarrow> decimal \<Rightarrow> string" where
  "tampered_reason x req app =
     ''Amount tampering: requested='' @ dec_str x req @ '', approved='' @ dec_str x app"

text \<open>The gateway call and the write phase that follows it.\<close>

definition authorize_on_gateway ::
  "externs \<Rightarrow> 'g gateway \<Rightarrow> string \<Rightarrow> uuid \<Rightarrow> decimal \<Rightarrow> string \<Rightarrow> (payment_db srv \<times> 'g, app_error, unit) eff" where
  "authorize_on_gateway x gw key oid amount cur =
     bnd (attempt (on_snd (gw_authorize gw key oid amount cur))) (\<lambda>auth.
       case auth of
         Ok r \<Rightarrow>
           if ar_approved_amount r \<noteq> amount then
             bnd (attempt (on_snd (gw_void gw (ar_gateway_reference r)))) (\<lambda>_.
             bnd (on_fst (failed_event x oid (tampered_reason x amount (ar_approved_amount r)))) (\<lambda>_.
               throw (payment_to_app_error x (PayAmountTampered amount (ar_approved_amount r)))))
           else on_fst (record_authorization x oid amount cur (ar_gateway_reference r))
       | Err e \<Rightarrow> on_fst (failed_event x oid (ge_message e))
       | Panic p \<Rightarrow> panic p)"

definition authorize_payment_on_tx ::
  "externs \<Rightarrow> 'g gateway \<Rightarrow> uuid \<Rightarrow> decimal \<Rightarrow> string \<Rightarrow> (payment_db srv \<times> 'g, app_error, unit) eff" where
  "authorize_payment_on_tx x gw oid amount cur =
     (let key = ''auth:'' @ uuid_str x oid in
      bnd (on_fst (get_transaction_by_idempotency_key x Pool key)) (\<lambda>existing.
      if (case existing of Some t \<Rightarrow> lt_status t \<noteq> TDiscarded | None \<Rightarrow> False) then ret ()
      else
        bnd (on_fst (list_transactions_by_order x Pool oid)) (\<lambda>ts.
        bnd (of_result (validate_authorization x amount cur (derive_payment_state ts))) (\<lambda>_.
          authorize_on_gateway x gw key oid amount cur))))"

definition retry_event ::
  "externs \<Rightarrow> uuid \<Rightarrow> nat \<Rightarrow> string \<Rightarrow> (payment_db srv, app_error, unit) eff" where
  "retry_event x oid n reason =
     write_outbox x oid PaymentCaptureRetryRequested
       (JObject [order_json x oid, (''retry_count'', JInt (int n)), (''reason'', JString reason)])"

text \<open>The part that \<open>capture_payment_on_tx\<close> and \<open>handle_capture_retry\<close> have in common: the
  number of the next retry and the text of a decline differ.\<close>

definition capture_with ::
  "externs \<Rightarrow> 'g gateway \<Rightarrow> uuid \<Rightarrow> nat \<Rightarrow> string \<Rightarrow> (payment_db srv \<times> 'g, app_error, unit) eff" where
  "capture_with x gw oid next_retry declined_text =
     bnd (on_fst (find_posted_authorization x oid validate_for_capture)) (\<lambda>(_, gref, cur, amount).
     bnd (attempt (on_snd (gw_capture gw gref))) (\<lambda>res.
       case res of
         Ok _ \<Rightarrow> on_fst (record_capture x oid cur amount (''capture:'' @ uuid_str x oid) gref)
       | Err e \<Rightarrow>
           if ge_is_retryable e then on_fst (retry_event x oid next_retry (ge_message e))
           else on_fst (failed_event x oid (declined_text @ ge_message e))
       | Panic p \<Rightarrow> panic p))"

definition capture_payment_on_tx ::
  "externs \<Rightarrow> 'g gateway \<Rightarrow> uuid \<Rightarrow> (payment_db srv \<times> 'g, app_error, unit) eff" where
  "capture_payment_on_tx x gw oid = capture_with x gw oid 1 ''Capture declined: ''"

definition gateway_app_error :: "externs \<Rightarrow> gateway_error \<Rightarrow> app_error" where
  "gateway_app_error x e = payment_to_app_error x (payment_of_gateway_error e)"

definition void_payment_on_tx ::
  "externs \<Rightarrow> 'g gateway \<Rightarrow> uuid \<Rightarrow> (payment_db srv \<times> 'g, app_error, unit) eff" where
  "void_payment_on_tx x gw oid =
     bnd (on_fst (find_posted_authorization x oid validate_for_void)) (\<lambda>(auth_tx, gref, cur, amount).
     bnd (map_err (gateway_app_error x) (on_snd (gw_void gw gref))) (\<lambda>_.
       on_fst (record_void x oid auth_tx cur amount (''void:'' @ uuid_str x oid))))"

text \<open>The variants for callers without a transaction: they begin their own.\<close>

definition write_payment_event ::
  "externs \<Rightarrow> uuid \<Rightarrow> event_type \<Rightarrow> json \<Rightarrow> (payment_db srv, app_error, unit) eff" where
  "write_payment_event x oid et pl =
     map_err (\<lambda>e. InternalServerError (''Failed to write '' @ event_type_str et @ '': '' @ tx_error_str x e))
       (with_transaction (map_err tx_other (write_outbox x oid et pl)))"

definition failed_json :: "externs \<Rightarrow> uuid \<Rightarrow> string \<Rightarrow> json" where
  "failed_json x oid reason = JObject [order_json x oid, (''reason'', JString reason)]"

definition handle_tampered_amount ::
  "externs \<Rightarrow> 'g gateway \<Rightarrow> uuid \<Rightarrow> decimal \<Rightarrow> auth_result \<Rightarrow> (payment_db srv \<times> 'g, app_error, unit) eff" where
  "handle_tampered_amount x gw oid req r =
     bnd (attempt (on_snd (gw_void gw (ar_gateway_reference r)))) (\<lambda>_.
     bnd (on_fst (write_payment_event x oid PaymentFailed
            (failed_json x oid (tampered_reason x req (ar_approved_amount r))))) (\<lambda>_.
       throw (payment_to_app_error x (PayAmountTampered req (ar_approved_amount r)))))"

definition authorize_payment ::
  "externs \<Rightarrow> 'g gateway \<Rightarrow> uuid \<Rightarrow> decimal \<Rightarrow> string \<Rightarrow> (payment_db srv \<times> 'g, app_error, unit) eff" where
  "authorize_payment x gw oid amount cur =
     (let key = ''auth:'' @ uuid_str x oid in
      bnd (on_fst (get_transaction_by_idempotency_key x Pool key)) (\<lambda>existing.
      if (case existing of Some t \<Rightarrow> lt_status t \<noteq> TDiscarded | None \<Rightarrow> False) then ret ()
      else
        bnd (on_fst (list_transactions_by_order x Pool oid)) (\<lambda>ts.
        bnd (of_result (validate_authorization x amount cur (derive_payment_state ts))) (\<lambda>_.
        bnd (attempt (on_snd (gw_authorize gw key oid amount cur))) (\<lambda>auth.
          case auth of
            Ok r \<Rightarrow>
              if ar_approved_amount r \<noteq> amount then handle_tampered_amount x gw oid amount r
              else on_fst (map_err (\<lambda>e. InternalServerError (''Failed to authorize: '' @ tx_error_str x e))
                     (with_transaction (map_err tx_other
                        (record_authorization x oid amount cur (ar_gateway_reference r)))))
          | Err e \<Rightarrow> on_fst (write_payment_event x oid PaymentFailed (failed_json x oid (ge_message e)))
          | Panic p \<Rightarrow> panic p)))))"

definition capture_payment ::
  "externs \<Rightarrow> 'g gateway \<Rightarrow> uuid \<Rightarrow> (payment_db srv \<times> 'g, app_error, unit) eff" where
  "capture_payment x gw oid =
     bnd (on_fst (find_posted_authorization x oid validate_for_capture)) (\<lambda>(_, gref, cur, amount).
     bnd (map_err (gateway_app_error x) (on_snd (gw_capture gw gref))) (\<lambda>_.
       on_fst (map_err (\<lambda>e. InternalServerError (''Failed to capture payment: '' @ tx_error_str x e))
         (with_transaction (map_err tx_other
            (record_capture x oid cur amount (''capture:'' @ uuid_str x oid) gref))))))"

definition void_payment ::
  "externs \<Rightarrow> 'g gateway \<Rightarrow> uuid \<Rightarrow> (payment_db srv \<times> 'g, app_error, unit) eff" where
  "void_payment x gw oid =
     bnd (on_fst (find_posted_authorization x oid validate_for_void)) (\<lambda>(auth_tx, gref, cur, amount).
     bnd (map_err (gateway_app_error x) (on_snd (gw_void gw gref))) (\<lambda>_.
       on_fst (map_err (\<lambda>e. InternalServerError (''Failed to void payment: '' @ tx_error_str x e))
         (with_transaction (map_err tx_other
            (record_void x oid auth_tx cur amount (''void:'' @ uuid_str x oid)))))))"

section \<open>Event handlers\<close>

definition max_capture_retries :: nat where
  "max_capture_retries = 10"

definition handle_capture_retry ::
  "externs \<Rightarrow> 'g gateway \<Rightarrow> event_envelope \<Rightarrow> (payment_db srv \<times> 'g, app_error, unit) eff" where
  "handle_capture_retry x gw env =
     bnd (of_result (payload_uuid x env ''order_id'')) (\<lambda>oid.
       let retry_count = cast_u32 (case as_u64 (jget (payload env) ''retry_count'') of Some n \<Rightarrow> n | None \<Rightarrow> 0) in
       if retry_count \<ge> max_capture_retries
       then on_fst (failed_event x oid (''Capture failed after '' @ show_nat retry_count @ '' retries''))
       else capture_with x gw oid (retry_count + 1) ''Capture permanently failed: '')"

definition pay_handle_inventory_reserved ::
  "externs \<Rightarrow> 'g gateway \<Rightarrow> event_envelope \<Rightarrow> (payment_db srv \<times> 'g, app_error, unit) eff" where
  "pay_handle_inventory_reserved x gw env =
     bnd (of_result (payload_uuid x env ''order_id'')) (\<lambda>oid.
     bnd (of_result (ok_or (BadRequest ''Missing or invalid total_amount'')
            (Option.bind (as_str (jget (payload env) ''total_amount'')) (dec_parse x)))) (\<lambda>amount.
       authorize_payment_on_tx x gw oid amount
         (case as_str (jget (payload env) ''currency'') of Some c \<Rightarrow> c | None \<Rightarrow> ''USD'')))"

definition pay_handle_order_confirmed ::
  "externs \<Rightarrow> 'g gateway \<Rightarrow> event_envelope \<Rightarrow> (payment_db srv \<times> 'g, app_error, unit) eff" where
  "pay_handle_order_confirmed x gw env =
     bnd (of_result (payload_uuid x env ''order_id'')) (\<lambda>oid. capture_payment_on_tx x gw oid)"

definition pay_handle_order_cancelled ::
  "externs \<Rightarrow> 'g gateway \<Rightarrow> event_envelope \<Rightarrow> (payment_db srv \<times> 'g, app_error, unit) eff" where
  "pay_handle_order_cancelled x gw env =
     bnd (of_result (payload_uuid x env ''order_id'')) (\<lambda>oid.
     bnd (on_fst (list_transactions_by_order x Pool oid)) (\<lambda>ts.
       if derive_payment_state ts = StAuthorized then void_payment_on_tx x gw oid else ret ()))"

definition lock_ttl :: "event_type \<Rightarrow> nat" where
  "lock_ttl et =
     (case et of OrderConfirmed \<Rightarrow> 60 | PaymentCaptureRetryRequested \<Rightarrow> 60 | _ \<Rightarrow> 30)"

definition payment_dispatch ::
  "externs \<Rightarrow> 'g gateway \<Rightarrow> event_envelope \<Rightarrow> (payment_db srv \<times> 'g, handler_error, unit) eff" where
  "payment_dispatch x gw env =
     map_err transient_of
       (case event_type (metadata env) of
          InventoryReserved \<Rightarrow> pay_handle_inventory_reserved x gw env
        | OrderConfirmed \<Rightarrow> pay_handle_order_confirmed x gw env
        | OrderCancelled \<Rightarrow> pay_handle_order_cancelled x gw env
        | PaymentCaptureRetryRequested \<Rightarrow> handle_capture_retry x gw env
        | _ \<Rightarrow> ret ())"

definition payment_relevant :: "event_type \<Rightarrow> bool" where
  "payment_relevant et \<longleftrightarrow>
     et \<in> {InventoryReserved, OrderConfirmed, OrderCancelled, PaymentCaptureRetryRequested}"

text \<open>The handler's own state is the gateway and Redis; the dispatched operation does not
  see Redis, nor the lock the gateway.\<close>

definition without_redis :: "('s \<times> 'g, 'e, 'a) eff \<Rightarrow> ('s \<times> 'g \<times> redis, 'e, 'a) eff" where
  "without_redis m p =
     (case p of (s, g, r) \<Rightarrow> (case m (s, g) of (res, (s', g')) \<Rightarrow> (res, (s', g', r))))"

definition on_redis :: "(redis, 'e, 'a) eff \<Rightarrow> ('s \<times> 'g \<times> redis, 'e, 'a) eff" where
  "on_redis m p = (case p of (s, g, r) \<Rightarrow> (case m r of (res, r') \<Rightarrow> (res, (s, g, r'))))"

definition payment_handle :: "externs \<Rightarrow> 'g gateway \<Rightarrow> bool \<Rightarrow> (payment_db, 'g \<times> redis) handler" where
  "payment_handle x gw use_lock env =
     (if \<not> payment_relevant (event_type (metadata env)) then ret ()
      else
        bnd (of_result (map_err_result permanent_of (payload_uuid x env ''order_id''))) (\<lambda>oid.
        let lock_key = ''payment:'' @ uuid_str x oid;
            ttl = lock_ttl (event_type (metadata env)) in
        if \<not> use_lock then without_redis (payment_dispatch x gw env)
        else
          bnd (attempt (on_redis (acquire x lock_key ttl))) (\<lambda>guard.
            case guard of
              Err AlreadyHeld \<Rightarrow> throw (Transient (''payment:'' @ uuid_str x oid @ '' in-flight, will retry''))
            | Err (RedisUnavailable m) \<Rightarrow> without_redis (payment_dispatch x gw env)
            | Ok g \<Rightarrow>
                bnd (attempt (without_redis (payment_dispatch x gw env))) (\<lambda>result.
                bnd (attempt (on_redis (release g))) (\<lambda>_. of_result result))
            | Panic p \<Rightarrow> panic p)))"

section \<open>The status route\<close>

record entry_res =
  er_id :: string
  er_account_id :: string
  er_direction :: entry_direction
  er_amount :: decimal

definition entry_res_new :: "externs \<Rightarrow> ledger_entry \<Rightarrow> entry_res" where
  "entry_res_new x e =
     \<lparr>er_id = uuid_str x (le_id e), er_account_id = uuid_str x (le_account_id e),
      er_direction = le_direction e, er_amount = le_amount e\<rparr>"

record transaction_res =
  tr_id :: string
  tr_created_at :: string
  tr_type :: transaction_type
  tr_status :: transaction_status
  tr_idempotency_key :: string
  tr_gateway_reference :: "string option"
  tr_entries :: "entry_res list"

definition transaction_res_new :: "externs \<Rightarrow> ledger_tx \<Rightarrow> ledger_entry list \<Rightarrow> transaction_res" where
  "transaction_res_new x t es =
     \<lparr>tr_id = uuid_str x (lt_id t), tr_created_at = dt_str x (lt_created_at t), tr_type = lt_type t,
      tr_status = lt_status t, tr_idempotency_key = lt_idempotency_key t,
      tr_gateway_reference = lt_gateway_reference t, tr_entries = map (entry_res_new x) es\<rparr>"

record balance_res =
  br_type :: account_type
  br_normal_balance :: normal_balance
  br_currency :: string
  br_total_debits :: decimal
  br_total_credits :: decimal
  br_balance :: decimal

definition balance_res_new :: "account_balance \<Rightarrow> balance_res" where
  "balance_res_new b =
     \<lparr>br_type = ab_type b, br_normal_balance = ab_normal_balance b, br_currency = ab_currency b,
      br_total_debits = ab_total_debits b, br_total_credits = ab_total_credits b, br_balance = ab_balance b\<rparr>"

record payment_status_res =
  ps_order_id :: string
  ps_state :: payment_state
  ps_transactions :: "transaction_res list"
  ps_balances :: "balance_res list"

primrec transaction_responses ::
  "externs \<Rightarrow> ledger_tx list \<Rightarrow> (payment_db srv, app_error, transaction_res list) eff" where
  "transaction_responses x [] = ret []"
| "transaction_responses x (t # ts) =
     bnd (list_entries_by_transaction x Pool (lt_id t)) (\<lambda>es.
     bnd (transaction_responses x ts) (\<lambda>rs. ret (transaction_res_new x t es # rs)))"

definition get_payment_status ::
  "externs \<Rightarrow> uuid \<Rightarrow> current_user \<Rightarrow> (payment_db srv, app_error, payment_status_res) eff" where
  "get_payment_status x oid user =
     bnd (list_transactions_by_order x Pool oid) (\<lambda>ts.
     bnd (transaction_responses x ts) (\<lambda>rs.
     bnd (get_account_balances x Pool oid) (\<lambda>bs.
       ret \<lparr>ps_order_id = uuid_str x oid, ps_state = derive_payment_state ts, ps_transactions = rs,
            ps_balances = map balance_res_new bs\<rparr>)))"

end
