(* ===== verification/Payment_Proofs.thy ===== *)
theory Payment_Proofs
  imports Payment
begin

text \<open>
  The ledger's integrity: every transaction balances, an order has at most one
  authorization, one capture and one void, entries are append-only and a posted capture
  stays posted, for every gateway behaviour and every run of the payment consumer.
\<close>

section \<open>The invariant\<close>

fun key_of :: "externs \<Rightarrow> transaction_type \<Rightarrow> uuid \<Rightarrow> string" where
  "key_of x TAuthorization oid = ''auth:'' @ uuid_str x oid"
| "key_of x TCapture oid = ''capture:'' @ uuid_str x oid"
| "key_of x TVoid oid = ''void:'' @ uuid_str x oid"
| "key_of x TRefund oid = ''refund:'' @ uuid_str x oid"

definition entry_sum :: "entry_direction \<Rightarrow> uuid \<Rightarrow> ledger_entry list \<Rightarrow> decimal" where
  "entry_sum dir tid es =
     sum_list (map le_amount (filter (\<lambda>e. le_transaction_id e = tid \<and> le_direction e = dir) es))"

definition tx_ok :: "externs \<Rightarrow> ledger_entry list \<Rightarrow> ledger_tx \<Rightarrow> bool" where
  "tx_ok x es t \<longleftrightarrow>
     entry_sum EDebit (lt_id t) es = entry_sum ECredit (lt_id t) es \<and>
     varchar_col 255 (key_of x (lt_type t) (lt_order_id t)) = Inr (lt_idempotency_key t) \<and>
     lt_metadata t = JObject [] \<and>
     lt_status t \<noteq> TPending \<and> (lt_status t = TDiscarded \<longrightarrow> lt_type t = TAuthorization)"

definition ledger_ok :: "externs \<Rightarrow> payment_db \<Rightarrow> bool" where
  "ledger_ok x d \<longleftrightarrow>
     distinct (map lt_id (ledger_transactions d)) \<and>
     distinct (map lt_idempotency_key (ledger_transactions d)) \<and>
     list_all (tx_ok x (ledger_entries d)) (ledger_transactions d) \<and>
     list_all (\<lambda>e. 0 < le_amount e \<and> le_transaction_id e \<in> lt_id ` set (ledger_transactions d)) (ledger_entries d)"

lemma entry_sum_append [simp]: "entry_sum dir tid (es @ fs) = entry_sum dir tid es + entry_sum dir tid fs"
  by (simp add: entry_sum_def)

lemma entry_sum_Cons [simp]:
  "entry_sum dir tid (e # es) =
     (if le_transaction_id e = tid \<and> le_direction e = dir then le_amount e else 0) + entry_sum dir tid es"
  by (simp add: entry_sum_def)

lemma entry_sum_Nil [simp]: "entry_sum dir tid [] = 0"
  by (simp add: entry_sum_def)

lemma entry_sum_absent: "tid \<notin> le_transaction_id ` set es \<Longrightarrow> entry_sum dir tid es = 0"
  by (induction es) auto

text \<open>Two transactions of one kind for one order are one transaction.\<close>

lemma one_transaction_per_kind:
  assumes "ledger_ok x d" "t \<in> set (ledger_transactions d)" "u \<in> set (ledger_transactions d)"
    and "lt_type t = lt_type u" "lt_order_id t = lt_order_id u"
  shows "t = u"
proof -
  have "tx_ok x (ledger_entries d) t" "tx_ok x (ledger_entries d) u"
    using assms(1-3) by (auto simp: ledger_ok_def list_all_iff)
  then have "lt_idempotency_key t = lt_idempotency_key u" using assms(4,5) by (simp add: tx_ok_def)
  moreover have "inj_on lt_idempotency_key (set (ledger_transactions d))"
    using assms(1) by (simp add: ledger_ok_def distinct_map)
  ultimately show ?thesis using assms(2,3) by (auto dest: inj_onD)
qed

section \<open>One posting\<close>

text \<open>What recording an authorization, a capture or a void adds: a posted transaction
  with a debit and a credit of the same positive amount, and an event.\<close>

definition posting ::
  "externs \<Rightarrow> transaction_type \<Rightarrow> uuid \<Rightarrow> event_type \<Rightarrow> payment_db \<Rightarrow> payment_db \<Rightarrow> bool" where
  "posting x ty oid et d d' \<longleftrightarrow>
     (\<exists>row e1 e2 ev.
        ledger_transactions d' = ledger_transactions d @ [row] \<and>
        ledger_entries d' = ledger_entries d @ [e1, e2] \<and>
        outbox_events d' = outbox_events d @ [ev] \<and> processed_events d' = processed_events d \<and>
        lt_type row = ty \<and> lt_order_id row = oid \<and> lt_status row = TPosted \<and> lt_metadata row = JObject [] \<and>
        varchar_col 255 (key_of x ty oid) = Inr (lt_idempotency_key row) \<and>
        lt_id row \<notin> lt_id ` set (ledger_transactions d) \<and>
        lt_idempotency_key row \<notin> lt_idempotency_key ` set (ledger_transactions d) \<and>
        le_transaction_id e1 = lt_id row \<and> le_transaction_id e2 = lt_id row \<and>
        le_direction e1 = EDebit \<and> le_direction e2 = ECredit \<and>
        le_amount e1 = le_amount e2 \<and> 0 < le_amount e1 \<and>
        ob_event_type ev = event_type_str et \<and> ob_aggregate_id ev = oid \<and> ob_topic ev = ''payments.events'')"

lemma posting_ok:
  assumes ok: "ledger_ok x d" and post: "posting x ty oid et d d'" shows "ledger_ok x d'"
proof -
  obtain row e1 e2 where r: "ledger_transactions d' = ledger_transactions d @ [row]"
    "ledger_entries d' = ledger_entries d @ [e1, e2]"
    "lt_type row = ty" "lt_order_id row = oid" "lt_status row = TPosted"
    "varchar_col 255 (key_of x ty oid) = Inr (lt_idempotency_key row)"
    "lt_id row \<notin> lt_id ` set (ledger_transactions d)"
    "lt_idempotency_key row \<notin> lt_idempotency_key ` set (ledger_transactions d)"
    "le_transaction_id e1 = lt_id row" "le_transaction_id e2 = lt_id row" "le_direction e1 = EDebit"
    "le_direction e2 = ECredit" "le_amount e1 = le_amount e2" "0 < le_amount e1" "lt_metadata row = JObject []"
    using post unfolding posting_def by blast
  have new: "entry_sum dir (lt_id row) (ledger_entries d) = 0" for dir
    by (rule entry_sum_absent) (use ok r(7) in \<open>auto simp: ledger_ok_def list_all_iff\<close>)
  have "tx_ok x (ledger_entries d') t" if "t \<in> set (ledger_transactions d)" for t
  proof -
    have "lt_id t \<noteq> lt_id row" using that r(7) by (metis imageI)
    then show ?thesis using ok that r by (auto simp: ledger_ok_def list_all_iff tx_ok_def)
  qed
  moreover have "tx_ok x (ledger_entries d') row" using r new by (simp add: tx_ok_def)
  ultimately show ?thesis using ok r by (auto simp: ledger_ok_def list_all_iff)
qed

definition tx_succ :: "ledger_tx \<Rightarrow> ledger_tx \<Rightarrow> bool" where
  "tx_succ a b \<longleftrightarrow>
     b = a \<or> lt_type a = TAuthorization \<and> lt_status a = TPosted \<and> b = a\<lparr>lt_status := TDiscarded\<rparr>"

text \<open>
  From one ledger to a later one: entries and events are only appended, transactions stay
  as they are except that a posted authorization may be discarded.
\<close>

definition payment_evolves :: "externs \<Rightarrow> payment_db \<Rightarrow> payment_db \<Rightarrow> bool" where
  "payment_evolves x d d' \<longleftrightarrow>
     prefix (outbox_events d) (outbox_events d') \<and> prefix (ledger_entries d) (ledger_entries d') \<and>
     (ledger_ok x d \<longrightarrow> ledger_ok x d' \<and> length (ledger_transactions d) \<le> length (ledger_transactions d') \<and>
        list_all2 tx_succ (ledger_transactions d) (take (length (ledger_transactions d)) (ledger_transactions d')))"

lemma tx_succ_refl: "tx_succ a a"
  by (simp add: tx_succ_def)

lemma tx_succ_trans: "tx_succ a b \<Longrightarrow> tx_succ b c \<Longrightarrow> tx_succ a c"
  by (auto simp: tx_succ_def)

lemma payment_evolves_refl: "payment_evolves x d d"
  by (simp add: payment_evolves_def tx_succ_refl list_all2_refl)

lemma payment_evolves_trans:
  assumes a: "payment_evolves x d d'" and b: "payment_evolves x d' d''"
  shows "payment_evolves x d d''"
proof -
  let ?n = "length (ledger_transactions d)" and ?m = "length (ledger_transactions d')"
  have "ledger_ok x d'' \<and> ?n \<le> length (ledger_transactions d'') \<and>
      list_all2 tx_succ (ledger_transactions d) (take ?n (ledger_transactions d''))" if ok: "ledger_ok x d"
  proof -
    have 1: "ledger_ok x d'" "?n \<le> ?m" "list_all2 tx_succ (ledger_transactions d) (take ?n (ledger_transactions d'))"
      using a ok by (auto simp: payment_evolves_def)
    have 2: "ledger_ok x d''" "?m \<le> length (ledger_transactions d'')"
      "list_all2 tx_succ (ledger_transactions d') (take ?m (ledger_transactions d''))"
      using b 1(1) by (auto simp: payment_evolves_def)
    have "list_all2 tx_succ (take ?n (ledger_transactions d')) (take ?n (take ?m (ledger_transactions d'')))"
      using 2(3) by (rule list_all2_takeI)
    then have "list_all2 tx_succ (take ?n (ledger_transactions d')) (take ?n (ledger_transactions d''))"
      using 1(2) by (simp add: min_def)
    from list_all2_trans[OF _ 1(3) this, of tx_succ]
    have "list_all2 tx_succ (ledger_transactions d) (take ?n (ledger_transactions d''))"
      using tx_succ_trans by blast
    then show ?thesis using 1 2 by simp
  qed
  then show ?thesis using a b by (auto simp: payment_evolves_def)
qed

lemma payment_evolves_marks: "payment_evolves x d (d\<lparr>processed_events := ps\<rparr>)"
  by (simp add: payment_evolves_def ledger_ok_def tx_succ_refl list_all2_refl)

lemma payment_evolves_outbox:
  "ledger_transactions d' = ledger_transactions d \<Longrightarrow> ledger_entries d' = ledger_entries d \<Longrightarrow>
     prefix (outbox_events d) (outbox_events d') \<Longrightarrow> payment_evolves x d d'"
  by (simp add: payment_evolves_def ledger_ok_def tx_succ_refl list_all2_refl)

lemma posting_evolves: "posting x ty oid et d d' \<Longrightarrow> payment_evolves x d d'"
  using posting_ok[of x d ty oid et d']
  by (auto simp: payment_evolves_def posting_def tx_succ_refl list_all2_refl)

text \<open>A void discards the posted authorization and adds its own posting.\<close>

lemma discard_evolves:
  assumes "auth \<in> set (ledger_transactions d)" "lt_type auth = TAuthorization" "lt_status auth = TPosted"
    and "d' = d\<lparr>ledger_transactions := update_where (\<lambda>t. lt_id t = lt_id auth) (set_tx_status TDiscarded None) (ledger_transactions d)\<rparr>"
  shows "payment_evolves x d d'"
proof -
  have same: "(if lt_id t = lt_id auth then set_tx_status TDiscarded None t else t) =
      (if t = auth then auth\<lparr>lt_status := TDiscarded\<rparr> else t)"
    if "ledger_ok x d" "t \<in> set (ledger_transactions d)" for t
    using that assms(1) by (auto simp: ledger_ok_def distinct_map set_tx_status_def dest: inj_onD)
  have "ledger_ok x d'" if ok: "ledger_ok x d"
  proof -
    have "list_all (tx_ok x (ledger_entries d)) (ledger_transactions d')"
      using ok same[OF ok] assms(2) by (auto simp: assms(4) ledger_ok_def list_all_iff set_update_where tx_ok_def)
    moreover have ids: "map lt_id (ledger_transactions d') = map lt_id (ledger_transactions d)"
      by (simp add: assms(4) set_tx_status_def)
    moreover have "lt_id ` set (ledger_transactions d') = lt_id ` set (ledger_transactions d)"
      using arg_cong[OF ids, of set] by simp
    ultimately show ?thesis using ok by (simp add: ledger_ok_def assms(4) set_tx_status_def)
  qed
  moreover have "list_all2 tx_succ (ledger_transactions d) (ledger_transactions d')" if ok: "ledger_ok x d"
    using same[OF ok] assms(2,3)
    by (auto simp: assms(4) update_where_def list_all2_conv_all_nth tx_succ_def)
  ultimately show ?thesis by (simp add: payment_evolves_def assms(4))
qed

section \<open>Weakest preconditions of the statements\<close>

definition same_ledger :: "payment_db \<Rightarrow> payment_db \<Rightarrow> bool" where
  "same_ledger d d' \<longleftrightarrow>
     ledger_transactions d' = ledger_transactions d \<and> ledger_entries d' = ledger_entries d \<and>
     outbox_events d' = outbox_events d \<and> processed_events d' = processed_events d"

lemma wp_get_or_create_account:
  assumes "\<And>a t. same_ledger (current s) (current t) \<Longrightarrow> Q a t"
  shows "wp (get_or_create_account x ty r cur) Q (\<lambda>_. True) s"
  unfolding get_or_create_account_def fetch_optional_def fetch_one_def query_def wp_simps
  by (rule wp_stmt_Tx)
     (auto simp: insert_account_sql_def wp_simps wp_ret wp_throw same_ledger_def intro!: wp_stmt_Tx assms
       split: sum.splits if_splits list.split option.split)

lemma wp_create_account_pair:
  assumes "\<And>a t. same_ledger (current s) (current t) \<Longrightarrow> Q a t"
  shows "wp (create_account_pair x r cur ty1 ty2) Q (\<lambda>_. True) s"
  unfolding create_account_pair_def wp_simps
  by (intro wp_get_or_create_account) (auto simp: wp_ret same_ledger_def intro!: assms)

lemma wp_create_transaction:
  assumes "\<And>t rid key' gref' now. current t = (current s)\<lparr>ledger_transactions := ledger_transactions (current s) @ [tx_row oid ty key' gref' rid now]\<rparr> \<Longrightarrow>
      rid \<notin> lt_id ` set (ledger_transactions (current s)) \<Longrightarrow>
      key' \<notin> lt_idempotency_key ` set (ledger_transactions (current s)) \<Longrightarrow>
      varchar_col 255 key = Inr key' \<Longrightarrow> Q (tx_row oid ty key' gref' rid now) t"
  shows "wp (create_transaction x oid ty key gref) Q (\<lambda>_. True) s"
  unfolding create_transaction_def wp_simps
  by (rule wp_stmt_Tx) (auto simp: insert_tx_sql_def intro!: assms split: sum.splits if_splits)

lemma wp_create_entry:
  assumes "\<And>t rid amt now. current t = (current s)\<lparr>ledger_entries := ledger_entries (current s) @ [entry_row tid aid dir amt rid now]\<rparr> \<Longrightarrow>
      numeric_col amount = Inr amt \<Longrightarrow> 0 < amt \<Longrightarrow> Q (entry_row tid aid dir amt rid now) t"
  shows "wp (create_entry x tid aid dir amount) Q (\<lambda>_. True) s"
  unfolding create_entry_def wp_simps
proof (rule wp_stmt_Tx)
  fix e d assume "insert_entry_sql tid aid dir amount (uuids s (ticks s)) (db_now (s\<lparr>ticks := Suc (ticks s)\<rparr>))
      (current (s\<lparr>ticks := Suc (ticks s)\<rparr>)) = Inr (e, d)"
  then obtain amt where "numeric_col amount = Inr amt" "0 < amt"
    "e = entry_row tid aid dir amt (uuids s (ticks s)) (db_now s)"
    "d = (current s)\<lparr>ledger_entries := ledger_entries (current s) @ [e]\<rparr>"
    by (auto simp: insert_entry_sql_def split: sum.splits if_splits)
  then show "Q e ((pop_fault (s\<lparr>ticks := Suc (ticks s)\<rparr>))\<lparr>current := d\<rparr>)" by (auto intro!: assms)
qed simp_all

lemma wp_update_transaction_status:
  assumes "\<And>t. current t = (current s)\<lparr>ledger_transactions :=
      update_where (\<lambda>t. lt_id t = tid) (set_tx_status st None) (ledger_transactions (current s))\<rparr> \<Longrightarrow> Q () t"
  shows "wp (update_transaction_status x tid st None) Q (\<lambda>_. True) s"
  unfolding update_transaction_status_def wp_simps
  by (rule wp_stmt_Tx) (auto simp: update_tx_sql_def opt_varchar_def wp_simps intro!: assms)

lemma wp_write_outbox:
  assumes "\<And>t r. current t = (current s)\<lparr>outbox_events := outbox_events (current s) @ [r]\<rparr> \<Longrightarrow>
      ob_event_type r = event_type_str et \<Longrightarrow> ob_aggregate_id r = oid \<Longrightarrow> ob_topic r = ''payments.events'' \<Longrightarrow>
      jget (ob_payload r) ''payload'' = pl \<Longrightarrow> Q () t"
  shows "wp (write_outbox x oid et pl) Q (\<lambda>_. True) s"
  by (auto simp: write_outbox_def wp_simps wp_ret event_envelope_new_def from_envelope_def outbox_row_def
      envelope_to_json_def intro!: wp_insert_outbox_Tx assms)

text \<open>Creating the transaction, writing its two entries, posting it, announcing it.\<close>

lemma update_where_last:
  assumes "rid \<notin> k ` set xs" "k r = rid"
  shows "update_where (\<lambda>t. k t = rid) f (xs @ [r]) = xs @ [f r]"
proof -
  have "update_where (\<lambda>t. k t = rid) f xs = xs" by (rule update_where_id) (use assms(1) in blast)
  then show ?thesis using assms(2) by simp
qed

lemma wp_post_pair:
  assumes key: "key = key_of x ty oid" and Q: "\<And>t. posting x ty oid et (current s) (current t) \<Longrightarrow> Q () t"
  shows "wp (bnd (create_transaction x oid ty key gref) (\<lambda>t.
      bnd (write_entry_pair x (lt_id t) a b amount) (\<lambda>_.
      bnd (post_transaction x (lt_id t)) (\<lambda>_. write_outbox x oid et (pl t))))) Q (\<lambda>_. True) s"
  unfolding wp_simps write_entry_pair_def post_transaction_def
proof (intro wp_create_transaction wp_create_entry wp_update_transaction_status wp_write_outbox wp_ret[THEN iffD2], goal_cases)
  case (1 t rid key' gref' now t1 rid1 amt1 now1 t2 rid2 amt2 now2 t3 t4 r)
  let ?row = "tx_row oid ty key' gref' rid now"
  have fresh: "rid \<notin> lt_id ` set (ledger_transactions (current s))" using 1 by simp
  have "ledger_transactions (current t4) = ledger_transactions (current s) @ [set_tx_status TPosted None ?row]"
    using 1 update_where_last[OF fresh, of ?row "set_tx_status TPosted None"] by (simp add: tx_row_def)
  then have "posting x ty oid et (current s) (current t4)"
    unfolding posting_def using 1 key
    by (intro exI[of _ "set_tx_status TPosted None ?row"] exI[of _ "entry_row rid a EDebit amt1 rid1 now1"]
        exI[of _ "entry_row rid b ECredit amt1 rid2 now2"] exI[of _ r])
       (simp add: tx_row_def entry_row_def set_tx_status_def)
  then show ?case by (rule Q)
qed

lemma posting_same: "same_ledger d d1 \<Longrightarrow> posting x ty oid et d1 d' \<Longrightarrow> posting x ty oid et d d'"
  by (simp add: same_ledger_def posting_def)

lemma wp_record_authorization:
  assumes "\<And>t. posting x TAuthorization oid PaymentAuthorized (current s) (current t) \<Longrightarrow> Q () t"
  shows "wp (record_authorization x oid amount cur gref) Q (\<lambda>_. True) s"
  unfolding record_authorization_def wp_bnd
proof (rule wp_create_account_pair, goal_cases)
  case (1 a t)
  then show ?case
    unfolding prod.case_eq_if by (intro wp_post_pair) (auto intro: assms posting_same)
qed

lemma wp_record_capture:
  assumes "\<And>t. posting x TCapture oid PaymentCaptured (current s) (current t) \<Longrightarrow> Q () t"
    and "key = ''capture:'' @ uuid_str x oid"
  shows "wp (record_capture x oid cur amount key gref) Q (\<lambda>_. True) s"
  unfolding record_capture_def wp_bnd
proof (rule wp_create_account_pair, goal_cases)
  case (1 a t)
  then show ?case
    unfolding prod.case_eq_if by (intro wp_post_pair) (auto simp: assms(2) intro: assms(1) posting_same)
qed

definition discard :: "uuid \<Rightarrow> payment_db \<Rightarrow> payment_db" where
  "discard tid d =
     d\<lparr>ledger_transactions := update_where (\<lambda>t. lt_id t = tid) (set_tx_status TDiscarded None) (ledger_transactions d)\<rparr>"

lemma wp_record_void:
  assumes "\<And>t. posting x TVoid oid PaymentVoided (discard tid (current s)) (current t) \<Longrightarrow> Q () t"
    and "key = ''void:'' @ uuid_str x oid"
  shows "wp (record_void x oid tid cur amount key) Q (\<lambda>_. True) s"
  unfolding record_void_def wp_bnd
proof (rule wp_update_transaction_status, rule wp_create_account_pair, goal_cases)
  case (1 t1 a t)
  then have "same_ledger (discard tid (current s)) (current t)" by (simp add: discard_def)
  then show ?case
    unfolding prod.case_eq_if by (intro wp_post_pair) (auto simp: assms(2) intro: assms(1) posting_same)
qed

section \<open>Reads on the pool\<close>

lemma wp_query_Pool:
  assumes "\<And>t. current t = current s \<Longrightarrow> committed t = committed s \<Longrightarrow> Q (q (committed s)) t" and "\<And>t. E t"
  shows "wp (query Pool q) Q E s"
  unfolding query_def by (rule wp_stmt_Pool) (use assms in auto)

lemma wp_find_posted_authorization:
  assumes "\<And>auth gref cur amount t. auth \<in> set (ledger_transactions (committed s)) \<Longrightarrow> lt_order_id auth = oid \<Longrightarrow>
      lt_type auth = TAuthorization \<Longrightarrow> lt_status auth = TPosted \<Longrightarrow>
      validate (derive_payment_state (order_transactions oid (committed s))) = Ok () \<Longrightarrow>
      current t = current s \<Longrightarrow> Q (lt_id auth, gref, cur, amount) t"
  shows "wp (find_posted_authorization x oid validate) Q (\<lambda>_. True) s"
  unfolding find_posted_authorization_def list_transactions_by_order_def list_entries_by_transaction_def wp_simps
proof (rule wp_query_Pool, goal_cases)
  case t: (1 t)
  have fnd: "auth \<in> set (ledger_transactions (committed s)) \<and> lt_order_id auth = oid \<and>
      lt_type auth = TAuthorization \<and> lt_status auth = TPosted"
    if "find (\<lambda>t. lt_type t = TAuthorization \<and> lt_status t = TPosted) (order_transactions oid (committed s)) = Some auth" for auth
  proof -
    have "auth \<in> set (order_transactions oid (committed s)) \<and> lt_type auth = TAuthorization \<and> lt_status auth = TPosted"
      using that by (auto simp: find_Some_iff)
    then show ?thesis by (auto simp: order_transactions_def)
  qed
  let ?ts = "order_transactions oid (committed s)"
  let ?fnd = "find (\<lambda>t. lt_type t = TAuthorization \<and> lt_status t = TPosted) ?ts"
  show ?case
  proof (cases "validate (derive_payment_state ?ts)")
    case (Ok u)
    show ?thesis
    proof (cases ?fnd)
      case None
      then show ?thesis using Ok by (simp add: wp_simps ok_or_def)
    next
      case (Some auth)
      show ?thesis
      proof (cases "lt_gateway_reference auth")
        case None
        then show ?thesis using Ok Some by (simp add: wp_simps ok_or_def)
      next
        case gref: (Some gref)
        show ?thesis using Ok Some gref fnd[OF Some] t
          by (simp add: wp_simps ok_or_def) (rule wp_query_Pool, simp_all add: Let_def wp_ret assms)
      qed
    qed
  qed simp_all
qed simp

section \<open>The operations keep the evolution\<close>

definition pay_post :: "externs \<Rightarrow> payment_db \<Rightarrow> payment_db srv \<times> 'g \<Rightarrow> bool" where
  "pay_post x d p \<longleftrightarrow>
     payment_evolves x d (current (fst p)) \<and> processed_events (current (fst p)) = processed_events d"

lemma pay_post_same: "current (fst p) = d \<Longrightarrow> pay_post x d p"
  by (simp add: pay_post_def payment_evolves_refl)

lemma pay_post_posting: "posting x ty oid et d (current (fst p)) \<Longrightarrow> pay_post x d p"
  using posting_evolves[of x ty oid et d] by (auto simp: pay_post_def posting_def)

lemma wp_attempt_gateway:
  assumes "\<And>r g'. Q r (fst p, g')" and "\<And>g'. E (fst p, g')"
  shows "wp (attempt (on_snd m)) Q E p"
  using assms by (auto simp: wp_def attempt_def on_snd_def split: prod.splits result.splits)

lemma wp_gateway:
  assumes "\<And>r g'. Q r (fst p, g')" and "\<And>g'. E (fst p, g')"
  shows "wp (on_snd m) Q E p"
  using assms by (auto simp: wp_def on_snd_def split: prod.splits result.splits)

lemma wp_event_post:
  "current (fst p) = d \<Longrightarrow>
   wp (on_fst (write_outbox x oid et pl)) (\<lambda>_. pay_post x d) (\<lambda>_. True) p"
  unfolding wp_on_fst
  by (rule wp_write_outbox) (simp add: pay_post_def payment_evolves_outbox)

lemma wp_failed_event:
  "current (fst p) = d \<Longrightarrow> wp (on_fst (failed_event x oid reason)) (\<lambda>_. pay_post x d) (\<lambda>_. True) p"
  unfolding failed_event_def by (rule wp_event_post)

lemma wp_retry_event:
  "current (fst p) = d \<Longrightarrow> wp (on_fst (retry_event x oid n reason)) (\<lambda>_. pay_post x d) (\<lambda>_. True) p"
  unfolding retry_event_def by (rule wp_event_post)

lemma wp_capture_with:
  "wp (capture_with x gw oid n txt) (\<lambda>_. pay_post x (current (fst p))) (\<lambda>_. True) p"
  unfolding capture_with_def wp_bnd wp_on_fst
proof (rule wp_find_posted_authorization, goal_cases)
  case (1 auth gref cur amount t)
  have cap: "wp (on_fst (record_capture x oid cur amount (''capture:'' @ uuid_str x oid) gref))
      (\<lambda>_. pay_post x (current (fst p))) (\<lambda>_. True) (t, g)" for g
    unfolding wp_on_fst by (rule wp_record_capture) (use 1 in \<open>auto intro: pay_post_posting\<close>)
  show ?case
    unfolding prod.case
    by (rule wp_bnd[THEN iffD2], rule wp_attempt_gateway)
       (use 1 cap wp_failed_event wp_retry_event in \<open>auto simp: wp_panic split: result.split\<close>)
qed

lemma wp_void_payment:
  assumes "current (fst p) = committed (fst p)"
  shows "wp (void_payment_on_tx x gw oid) (\<lambda>_. pay_post x (current (fst p))) (\<lambda>_. True) p"
  unfolding void_payment_on_tx_def wp_bnd wp_on_fst
proof (rule wp_find_posted_authorization, goal_cases)
  case (1 auth gref cur amount t)
  have "wp (on_fst (record_void x oid (lt_id auth) cur amount (''void:'' @ uuid_str x oid)))
      (\<lambda>_. pay_post x (current (fst p))) (\<lambda>_. True) (t, g)" for g
    unfolding wp_on_fst
  proof (rule wp_record_void)
    fix u :: "payment_db srv" assume u: "posting x TVoid oid PaymentVoided (discard (lt_id auth) (current (fst (t, g)))) (current u)"
    have "payment_evolves x (current (fst p)) (discard (lt_id auth) (current (fst p)))"
      using 1 assms by (intro discard_evolves[of auth]) (simp_all add: discard_def)
    then show "pay_post x (current (fst p)) (u, snd (t, g))"
      using u 1 posting_evolves[OF u] by (auto simp: pay_post_def posting_def discard_def intro: payment_evolves_trans)
  qed simp
  then show ?case
    unfolding prod.case wp_bnd wp_map_err by (intro wp_gateway) simp_all
qed

lemma wp_authorize_on_gateway:
  "wp (authorize_on_gateway x gw key oid amount cur) (\<lambda>_. pay_post x (current (fst p))) (\<lambda>_. True) p"
proof -
  have rec: "wp (on_fst (record_authorization x oid amount cur gref))
      (\<lambda>_. pay_post x (current (fst p))) (\<lambda>_. True) (fst p, g)" for g gref
    unfolding wp_on_fst by (rule wp_record_authorization) (auto intro: pay_post_posting)
  show ?thesis
    unfolding authorize_on_gateway_def wp_bnd
    by (rule wp_attempt_gateway)
       (auto simp: wp_bnd wp_throw wp_panic rec wp_failed_event split: result.split intro!: wp_attempt_gateway)
qed

lemma wp_authorize_payment:
  "wp (authorize_payment_on_tx x gw oid amount cur) (\<lambda>_. pay_post x (current (fst p))) (\<lambda>_. True) p"
proof -
  have gate: "wp (bnd (of_result (validate_authorization x amount cur st)) (\<lambda>_. authorize_on_gateway x gw key oid amount cur))
      (\<lambda>_. pay_post x (current (fst p))) (\<lambda>_. True) q" if "current (fst q) = current (fst p)" for q key st
    using wp_authorize_on_gateway[of x gw key oid amount cur q] that
    by (auto simp: wp_bnd wp_of_result split: result.split)
  have rest: "wp (bnd (on_fst (list_transactions_by_order x Pool oid)) (\<lambda>ts.
      bnd (of_result (validate_authorization x amount cur (derive_payment_state ts))) (\<lambda>_.
        authorize_on_gateway x gw key oid amount cur)))
      (\<lambda>_. pay_post x (current (fst p))) (\<lambda>_. True) q" if "current (fst q) = current (fst p)" for q key
    unfolding list_transactions_by_order_def wp_bnd[of "on_fst m" for m] wp_on_fst wp_map_err
    by (rule wp_query_Pool) (use that gate in auto)
  have "wp (on_fst (get_transaction_by_idempotency_key x Pool key)) (\<lambda>_ q. current (fst q) = current (fst p)) (\<lambda>_. True) p" for key
    unfolding get_transaction_by_idempotency_key_def fetch_optional_def wp_on_fst wp_map_err wp_bnd
    by (rule wp_query_Pool) (auto simp: wp_ret split: list.split)
  then show ?thesis
    unfolding authorize_payment_on_tx_def Let_def wp_bnd[of "on_fst m" for m]
    by (rule wp_mono) (use rest in \<open>auto simp: wp_ret pay_post_same wp_bnd[of "on_fst m" for m]\<close>)
qed

lemma wp_handle_capture_retry:
  "wp (handle_capture_retry x gw env) (\<lambda>_. pay_post x (current (fst p))) (\<lambda>_. True) p"
  unfolding handle_capture_retry_def Let_def wp_bnd[of "of_result r" for r] wp_of_result
  by (auto intro!: wp_failed_event wp_capture_with split: result.split)

lemma wp_pay_handle_order_cancelled:
  assumes "current (fst p) = committed (fst p)"
  shows "wp (pay_handle_order_cancelled x gw env) (\<lambda>_. pay_post x (current (fst p))) (\<lambda>_. True) p"
proof -
  have "wp (bnd (on_fst (list_transactions_by_order x Pool oid)) (\<lambda>ts.
       if derive_payment_state ts = StAuthorized then void_payment_on_tx x gw oid else ret ()))
     (\<lambda>_. pay_post x (current (fst p))) (\<lambda>_. True) p" for oid
    unfolding list_transactions_by_order_def wp_bnd wp_on_fst wp_map_err
  proof (rule wp_query_Pool)
    fix t :: "payment_db srv" assume t: "current t = current (fst p)" "committed t = committed (fst p)"
    show "wp (if derive_payment_state (order_transactions oid (committed (fst p))) = StAuthorized
        then void_payment_on_tx x gw oid else ret ()) (\<lambda>_. pay_post x (current (fst p))) (\<lambda>_. True) (t, snd p)"
      using wp_void_payment[of "(t, snd p)" x gw oid] t assms by (simp add: wp_ret pay_post_same)
  qed simp
  then show ?thesis
    unfolding pay_handle_order_cancelled_def wp_bnd[of "of_result r" for r] wp_of_result
    by (simp split: result.split)
qed

lemma wp_payment_dispatch:
  assumes "current (fst p) = committed (fst p)"
  shows "wp (payment_dispatch x gw env) (\<lambda>_. pay_post x (current (fst p))) (\<lambda>_. True) p"
proof -
  have reserved: "wp (pay_handle_inventory_reserved x gw env) (\<lambda>_. pay_post x (current (fst p))) (\<lambda>_. True) p"
    unfolding pay_handle_inventory_reserved_def wp_bnd wp_of_result
    by (auto intro!: wp_authorize_payment split: result.split)
  have confirmed: "wp (pay_handle_order_confirmed x gw env) (\<lambda>_. pay_post x (current (fst p))) (\<lambda>_. True) p"
    unfolding pay_handle_order_confirmed_def capture_payment_on_tx_def wp_bnd wp_of_result
    by (auto intro!: wp_capture_with split: result.split)
  show ?thesis
    unfolding payment_dispatch_def wp_map_err
    using reserved confirmed wp_handle_capture_retry[of x gw env p] wp_pay_handle_order_cancelled[OF assms]
    by (auto simp: wp_ret pay_post_same split: event_type.split)
qed

section \<open>No operation of the consumer commits\<close>

lemma keeps_query_ops [frame_rules]:
  "keeps committed (list_transactions_by_order x ex oid)"
  "keeps committed (get_transaction_by_idempotency_key x ex key)"
  "keeps committed (list_entries_by_transaction x ex tid)"
  by (auto simp: list_transactions_by_order_def get_transaction_by_idempotency_key_def
      list_entries_by_transaction_def intro!: frame_rules)

lemma keeps_ledger_ops [frame_rules]:
  "keeps committed (get_or_create_account x ty r cur)" "keeps committed (create_transaction x oid tty key gref)"
  "keeps committed (create_entry x tid aid dir amount)" "keeps committed (update_transaction_status x tid st gr)"
  "keeps committed (write_outbox x oid et pl)"
  by (auto simp: get_or_create_account_def create_transaction_def create_entry_def
      update_transaction_status_def write_outbox_def insert_outbox_event_def Let_def
      intro!: frame_rules split: option.split prod.split)

lemma keeps_record_ops [frame_rules]:
  "keeps committed (record_authorization x oid amount cur gref)"
  "keeps committed (record_capture x oid cur amount key gref)"
  "keeps committed (record_void x oid tid cur amount key)"
  "keeps committed (failed_event x oid reason)" "keeps committed (retry_event x oid n reason)"
  "keeps committed (find_posted_authorization x oid validate)"
  by (auto simp: record_authorization_def record_capture_def record_void_def failed_event_def retry_event_def
      find_posted_authorization_def create_account_pair_def write_entry_pair_def post_transaction_def Let_def
      intro!: frame_rules split: prod.split)

lemma keeps_capture_with [frame_rules]: "keeps (\<lambda>p. committed (fst p)) (capture_with x gw oid n txt)"
  by (auto simp: capture_with_def intro!: frame_rules split: prod.split result.split)

lemma keeps_authorize [frame_rules]: "keeps (\<lambda>p. committed (fst p)) (authorize_payment_on_tx x gw oid amount cur)"
  by (auto simp: authorize_payment_on_tx_def authorize_on_gateway_def Let_def
      intro!: frame_rules split: prod.split result.split option.split)

lemma keeps_void [frame_rules]: "keeps (\<lambda>p. committed (fst p)) (void_payment_on_tx x gw oid)"
  by (auto simp: void_payment_on_tx_def intro!: frame_rules split: prod.split)

lemma keeps_payment_dispatch: "keeps (\<lambda>p. committed (fst p)) (payment_dispatch x gw env)"
  by (auto simp: payment_dispatch_def pay_handle_inventory_reserved_def pay_handle_order_confirmed_def
      pay_handle_order_cancelled_def handle_capture_retry_def capture_payment_on_tx_def Let_def
      intro!: frame_rules split: event_type.split)

section \<open>The consumer's handler\<close>

lemma without_redis_run:
  "without_redis m (s, g, r) = (res, (t, y)) \<Longrightarrow> \<exists>g'. m (s, g) = (res, (t, g')) \<and> y = (g', r)"
  by (auto simp: without_redis_def split: prod.splits)

text \<open>Whatever the lock does, the handler does nothing to the ledger or dispatches once.\<close>

lemma payment_handle_cases:
  assumes "payment_handle x gw use_lock env (s, g, rd) = (r, (t, y'))"
  obtains (idle) "t = s"
  | (dispatched) q g' where "payment_dispatch x gw env (s, g) = (q, (t, g'))" "r = Ok () \<Longrightarrow> q = Ok ()"
proof (cases "payment_relevant (event_type (metadata env))")
  case False
  then show thesis using assms by (intro idle) (simp add: payment_handle_def ret_def)
next
  case rel: True
  show thesis
  proof (cases "payload_uuid x env ''order_id''")
    case (Ok oid)
    note run = assms[unfolded payment_handle_def Let_def] 
    have plain: thesis if "without_redis (payment_dispatch x gw env) (s, g, rd') = (r, (t, y'))" for rd'
      using without_redis_run[OF that] dispatched by blast
    show thesis
    proof (cases use_lock)
      case False
      then show thesis using run rel Ok by (intro plain) (simp add: bnd_def of_result_def)
    next
      case True
      obtain lr rd1 where l: "acquire x (''payment:'' @ uuid_str x oid) (lock_ttl (event_type (metadata env))) rd = (lr, rd1)"
        by fastforce
      obtain q u g1 where d: "payment_dispatch x gw env (s, g) = (q, (u, g1))" by (metis prod.exhaust)
      show thesis
      proof (cases lr)
        case (Ok guard)
        obtain rr rd2 where rl: "release guard rd1 = (rr, rd2)" by fastforce
        have "t = u \<and> (r = Ok () \<longrightarrow> q = Ok ())"
          using run rel True \<open>payload_uuid x env ''order_id'' = Ok oid\<close> l d Ok rl
          by (cases q; cases rr) (auto simp: bnd_def of_result_def attempt_def on_redis_def without_redis_def)
        then show thesis using d dispatched by blast
      next
        case (Err e)
        then show thesis
          using run rel True \<open>payload_uuid x env ''order_id'' = Ok oid\<close> l
          by (cases e) (auto simp: bnd_def of_result_def attempt_def on_redis_def throw_def intro: idle plain)
      next
        case (Panic p)
        then show thesis
          using run rel True \<open>payload_uuid x env ''order_id'' = Ok oid\<close> l
          by (intro idle) (auto simp: bnd_def of_result_def attempt_def on_redis_def)
      qed
    qed
  qed (use assms rel in \<open>auto simp: payment_handle_def bnd_def of_result_def intro: idle\<close>)
qed

interpretation payments: event_handler "payment_handle x gw use_lock" "payment_evolves x"
  for x and gw :: "'g gateway" and use_lock
proof (unfold_locales, goal_cases)
  case (1 d)
  show ?case by (rule payment_evolves_refl)
next
  case (2 d d' d'')
  then show ?case by (rule payment_evolves_trans)
next
  case (3 d ps)
  show ?case by (rule payment_evolves_marks)
next
  case (4 env s y u t y')
  obtain g rd where y: "y = (g, rd)" by fastforce
  from 4(1)[unfolded y] show ?case
  proof (cases rule: payment_handle_cases)
    case idle
    then show ?thesis by (simp add: payment_evolves_refl)
  next
    case (dispatched q g')
    then show ?thesis using wp_payment_dispatch[of "(s, g)" x gw env] 4(4)
      by (simp add: wp_def pay_post_def)
  qed
next
  case (5 env s y r t y')
  obtain g rd where y: "y = (g, rd)" by fastforce
  from 5[unfolded y] have "committed t = committed s"
  proof (cases rule: payment_handle_cases)
    case (dispatched q g')
    then show ?thesis using keepsD[OF keeps_payment_dispatch dispatched(1)] by simp
  qed simp
  then show ?case by (simp add: payment_evolves_refl)
qed

section \<open>What the operations read\<close>

lemma find_posted_authorization_currency:
  assumes "find_posted_authorization x oid v s = (Ok (tid, gref, cur, amt), t)" "ledger_ok x (committed s)"
  shows "cur = ''USD''"
proof -
  obtain ts auth s1 where l: "list_transactions_by_order x Pool oid s = (Ok ts, s1)"
    and a: "find (\<lambda>t. lt_type t = TAuthorization \<and> lt_status t = TPosted) ts = Some auth"
    and cur: "cur = (case as_str (jget (lt_metadata auth) ''currency'') of Some c \<Rightarrow> c | None \<Rightarrow> ''USD'')"
    using assms(1) by (auto simp: find_posted_authorization_def ok_iffs Let_def ret_def)
  have "ts = order_transactions oid (committed s)"
    using l by (auto simp: list_transactions_by_order_def query_def map_err_Ok_iff split: if_splits)
  moreover have "auth \<in> set ts" using a by (auto simp: find_Some_iff)
  ultimately have "auth \<in> set (ledger_transactions (committed s))" by (simp add: order_transactions_def)
  then have "lt_metadata auth = JObject []" using assms(2) by (simp add: ledger_ok_def tx_ok_def list_all_iff)
  then show ?thesis using cur by simp
qed

text \<open>A gateway that approves another amount makes the authorization fail, whatever else
  happens, and so nothing of it is kept.\<close>

lemma tampered_never_Ok:
  assumes "\<And>g. \<exists>r g'. gw_authorize gw key oid amount cur g = (Ok r, g') \<and> ar_approved_amount r \<noteq> amount"
  shows "\<not> is_ok (fst (authorize_on_gateway x gw key oid amount cur p))"
proof -
  obtain r g' where "gw_authorize gw key oid amount cur (snd p) = (Ok r, g')" "ar_approved_amount r \<noteq> amount"
    using assms by blast
  then show ?thesis
    by (auto simp: authorize_on_gateway_def bnd_def attempt_def on_snd_def throw_def split: prod.splits result.splits)
qed

lemma wp_authorize_tampered:
  assumes "\<And>g. \<exists>r g'. gw_authorize gw (''auth:'' @ uuid_str x oid) oid amount cur g = (Ok r, g') \<and> ar_approved_amount r \<noteq> amount"
  shows "wp (authorize_payment_on_tx x gw oid amount cur) (\<lambda>_ q. current (fst q) = current (fst p)) (\<lambda>_. True) p"
proof -
  let ?key = "''auth:'' @ uuid_str x oid"
  have fail: "wp (authorize_on_gateway x gw ?key oid amount cur) Q (\<lambda>_. True) q" for Q q
    using tampered_never_Ok[of gw ?key oid amount cur x q] assms by (auto simp: wp_def split: prod.splits result.splits)
  have rest: "wp (bnd (on_fst (list_transactions_by_order x Pool oid)) (\<lambda>ts.
      bnd (of_result (validate_authorization x amount cur (derive_payment_state ts))) (\<lambda>_.
        authorize_on_gateway x gw ?key oid amount cur))) Q (\<lambda>_. True) q" for Q q
    unfolding list_transactions_by_order_def wp_bnd[of "on_fst m" for m] wp_on_fst wp_map_err
    by (rule wp_query_Pool) (auto simp: wp_bnd wp_of_result fail[simplified] split: result.split)
  have "wp (on_fst (get_transaction_by_idempotency_key x Pool ?key)) (\<lambda>_ q. current (fst q) = current (fst p)) (\<lambda>_. True) p"
    unfolding get_transaction_by_idempotency_key_def fetch_optional_def wp_on_fst wp_map_err wp_bnd
    by (rule wp_query_Pool) (auto simp: wp_ret split: list.split)
  then show ?thesis
    unfolding authorize_payment_on_tx_def Let_def wp_bnd[of "on_fst m" for m]
    by (rule wp_mono) (use rest in \<open>auto simp: wp_ret wp_bnd[of "on_fst m" for m]\<close>)
qed

text \<open>The events that a step of the capture retry adds.\<close>

definition retry_rows :: "nat \<Rightarrow> outbox_event list \<Rightarrow> bool" where
  "retry_rows n rows \<longleftrightarrow>
     list_all (\<lambda>r. ob_event_type r = event_type_str PaymentCaptureRetryRequested \<longrightarrow>
       n < max_capture_retries \<and> jget (jget (ob_payload r) ''payload'') ''retry_count'' = JInt (int (Suc n))) rows"

definition adds_retry :: "nat \<Rightarrow> payment_db \<Rightarrow> payment_db srv \<times> 'g \<Rightarrow> bool" where
  "adds_retry n d q \<longleftrightarrow> (\<exists>rows. outbox_events (current (fst q)) = outbox_events d @ rows \<and> retry_rows n rows)"

lemma wp_failed_event_rows:
  "current (fst p) = d \<Longrightarrow> wp (on_fst (failed_event x oid reason)) (\<lambda>_. adds_retry n d) (\<lambda>_. True) p"
  unfolding failed_event_def wp_on_fst
  by (rule wp_write_outbox) (auto simp: adds_retry_def retry_rows_def)

lemma wp_retry_event_rows:
  "current (fst p) = d \<Longrightarrow> n < max_capture_retries \<Longrightarrow>
     wp (on_fst (retry_event x oid (Suc n) reason)) (\<lambda>_. adds_retry n d) (\<lambda>_. True) p"
  unfolding retry_event_def wp_on_fst
  by (rule wp_write_outbox) (auto simp: adds_retry_def retry_rows_def order_json_def)

lemma wp_capture_with_rows:
  assumes "n < max_capture_retries"
  shows "wp (capture_with x gw oid (Suc n) txt) (\<lambda>_. adds_retry n (current (fst p))) (\<lambda>_. True) p"
  unfolding capture_with_def wp_bnd wp_on_fst
proof (rule wp_find_posted_authorization, goal_cases)
  case (1 auth gref cur amount t)
  have cap: "wp (on_fst (record_capture x oid cur amount (''capture:'' @ uuid_str x oid) gref))
      (\<lambda>_. adds_retry n (current (fst p))) (\<lambda>_. True) (t, g)" for g
    unfolding wp_on_fst
    by (rule wp_record_capture) (use 1 in \<open>auto simp: posting_def adds_retry_def retry_rows_def\<close>)
  show ?case
    unfolding prod.case
    by (rule wp_bnd[THEN iffD2], rule wp_attempt_gateway)
       (use 1 cap wp_failed_event_rows wp_retry_event_rows assms in \<open>auto simp: wp_panic split: result.split\<close>)
qed

definition retry_count_of :: "event_envelope \<Rightarrow> nat" where
  "retry_count_of env = cast_u32 (case as_u64 (jget (payload env) ''retry_count'') of Some n \<Rightarrow> n | None \<Rightarrow> 0)"

lemma wp_handle_capture_retry_rows:
  "wp (handle_capture_retry x gw env) (\<lambda>_. adds_retry (retry_count_of env) (current (fst p))) (\<lambda>_. True) p"
  unfolding handle_capture_retry_def Let_def wp_bnd[of "of_result r" for r] wp_of_result retry_count_of_def[symmetric]
  using wp_capture_with_rows[of "retry_count_of env" x gw _ _ p]
  by (auto intro!: wp_failed_event_rows split: result.split)

section \<open>Properties\<close>

definition demo_ledger :: payment_db where
  "demo_ledger =
     \<lparr>outbox_events = [], processed_events = [],
      accounts = [account_row AcBuyer 4 ''EUR'' 20 0, account_row AcGatewayHolding 4 ''EUR'' 21 0],
      ledger_transactions = [set_tx_status TPosted None
        (tx_row 4 TAuthorization (''auth:'' @ uuid_str demo_externs 4) (Some ''ref'') 30 0)],
      ledger_entries = [entry_row 30 21 EDebit 10 31 0, entry_row 30 20 ECredit 10 32 0]\<rparr>"

lemma unary_key: "varchar_col 255 (''auth:'' @ uuid_str demo_externs 4) = Inr (''auth:'' @ uuid_str demo_externs 4)"
  by (rule varchar_col_short) (simp add: demo_externs_def unary_def)

lemma demo_ledger_ok: "ledger_ok demo_externs demo_ledger"
  using unary_key by (simp add: ledger_ok_def demo_ledger_def tx_row_def set_tx_status_def tx_ok_def entry_row_def)



text \<open>C10: The ledger is append-only under the payment consumer: entries and events are only added,
  and no transaction is removed or altered, except that a posted authorization may become
  discarded.\<close>

theorem ledger_append_only:
  "payment_evolves x (committed (cw_srv w))
     (committed (cw_srv (snd (message_loop x cfg (payment_handle x gw use_lock) msgs w))))"
proof -
  obtain r w' where "message_loop x cfg (payment_handle x gw use_lock) msgs w = (r, w')" by fastforce
  from payments.message_loop_advances[OF this] this show ?thesis by (simp add: payments.advances_def)
qed

text \<open>Authorizing again is free: when the order already has an authorization that was not
  discarded, the operation succeeds without calling the gateway and without touching the database.\<close>

theorem authorize_again_is_noop:
  assumes "faults (fst p) = []"
    and "filter (\<lambda>t. lt_idempotency_key t = ''auth:'' @ uuid_str x oid) (ledger_transactions (committed (fst p))) = t # ts"
    and "lt_status t \<noteq> TDiscarded"
  shows "authorize_payment_on_tx x gw oid amount cur p = (Ok (), p)"
  using assms
  by (simp add: authorize_payment_on_tx_def Let_def get_transaction_by_idempotency_key_def fetch_optional_def query_def
      bnd_def map_err_def on_fst_def ret_def)

theorem authorize_again_is_noop_witness:
  "authorize_payment_on_tx demo_externs (mock_gateway_ops demo_externs mock_always_succeeds) 4 10 ''EUR''
     (demo_srv demo_ledger, (\<lambda>n. n, 0)) = (Ok (), (demo_srv demo_ledger, (\<lambda>n. n, 0)))"
  using authorize_again_is_noop[of "(demo_srv demo_ledger, (\<lambda>n. n, 0))" demo_externs 4
      "hd (ledger_transactions demo_ledger)" "[]"]
  by (simp add: demo_ledger_def set_tx_status_def tx_row_def)

text \<open>C33: A tampered amount goes unreported: when the gateway approves another amount than requested,
  the \<open>PaymentFailed\<close> event is written on the transaction that the returned error makes the
  consumer drop, so after the attempt no event has been added to the committed outbox.\<close>

theorem tampered_amount_never_announced:
  assumes "event_type (metadata env) = InventoryReserved" "payload_uuid x env ''order_id'' = Ok oid"
    and "Option.bind (as_str (jget (payload env) ''total_amount'')) (dec_parse x) = Some amount"
    and "\<And>cur g. \<exists>r g'. gw_authorize gw (''auth:'' @ uuid_str x oid) oid amount cur g = (Ok r, g') \<and>
      ar_approved_amount r \<noteq> amount"
  shows "outbox_events (committed (cw_srv (snd (try_process_once x cfg (payment_handle x gw use_lock) env w)))) =
    outbox_events (committed (cw_srv w))"
proof -
  obtain q w' where run: "try_process_once x cfg (payment_handle x gw use_lock) env w = (q, w')" by fastforce
  have disp: "wp (payment_dispatch x gw env) (\<lambda>_ z. current (fst z) = current (fst p)) (\<lambda>_. True) p" for p
    using assms(1-3) wp_authorize_tampered[of gw x oid amount, OF assms(4)]
    by (simp add: payment_dispatch_def pay_handle_inventory_reserved_def wp_simps ok_or_def)
  have handled: "committed t = committed s \<and> (r = Ok () \<longrightarrow> current t = current s)"
    if "payment_handle x gw use_lock env (s, y) = (r, (t, y'))" for s t y y' r
  proof -
    obtain g rd where y: "y = (g, rd)" by fastforce
    from that[unfolded y] show ?thesis
    proof (cases rule: payment_handle_cases)
      case (dispatched z g')
      then show ?thesis using keepsD[OF keeps_payment_dispatch dispatched(1)] wp_Ok_D[OF disp, of "(s, g)" "()"]
        by auto
    qed simp
  qed
  from try_process_once_cases[OF run] have "outbox_events (committed (cw_srv w')) = outbox_events (committed (cw_srv w))"
  proof (elim disjE conjE)
    assume "dropped (payment_handle x gw use_lock) env w w'"
    then show ?thesis unfolding dropped_def using handled by metis
  next
    assume "applied cfg (payment_handle x gw use_lock) env w w'"
    then obtain s t y now where h: "payment_handle x gw use_lock env (s, cw_self w) = (Ok (), (t, y))"
      "current s = committed (cw_srv w)"
      "committed (cw_srv w') = mark_processed (event_id (metadata env)) (event_type_str (event_type (metadata env)))
         (source_service_str (source_service (metadata env))) (cc_group_id cfg) now (current t)"
      unfolding applied_def by blast
    have "current t = current s" using handled[OF h(1)] by simp
    then show ?thesis using h(2,3) by (simp add: mark_processed_def)
  qed simp_all
  then show ?thesis using run by simp
qed

definition demo_reserved :: event_envelope where
  "demo_reserved = demo_envelope InventoryReserved
     (JObject [(''order_id'', JString (uuid_str demo_externs 5)), (''total_amount'', JString (dec_str demo_externs 10))])"

theorem tampered_amount_never_announced_witness:
  "outbox_events (committed (cw_srv (snd (try_process_once demo_externs (consumer_config_new ''g'' [])
     (payment_handle demo_externs (mock_gateway_ops demo_externs (mock_tampered_amount 7)) False) demo_reserved
     (demo_world demo_ledger ((\<lambda>n. n, 0), demo_redis)))))) = []"
proof -
  let ?gw = "mock_gateway_ops demo_externs (mock_tampered_amount 7)"
  have "\<exists>r g'. gw_authorize ?gw (''auth:'' @ uuid_str demo_externs 5) 5 10 cur g = (Ok r, g') \<and>
      ar_approved_amount r \<noteq> 10" for cur g
    by (cases g) (simp add: mock_gateway_ops_def mock_tampered_amount_def)
  from tampered_amount_never_announced[of demo_reserved demo_externs 5 10, OF _ _ _ this] show ?thesis
    by (simp add: demo_reserved_def demo_envelope_def payload_uuid_Ok_iff demo_world_def demo_ledger_def)
qed

text \<open>Captures and voids are always booked in US dollars: the currency of the authorization is
  looked up in the metadata of its transaction, where no operation ever stores it.\<close>

theorem authorization_currency_lost:
  assumes "find_posted_authorization x oid validate s = (Ok (tid, gref, cur, amount), t)"
    and "ledger_ok x (committed s)"
  shows "cur = ''USD''"
  using assms by (rule find_posted_authorization_currency)

theorem authorization_currency_lost_witness:
  "\<exists>cur. map_option (\<lambda>a. ac_currency a) (find (\<lambda>a. ac_reference_id a = 4) (accounts demo_ledger)) = Some ''EUR'' \<and>
     find_posted_authorization demo_externs 4 validate_for_capture (demo_srv demo_ledger) =
       (Ok (30, ''ref'', cur, 10), demo_srv demo_ledger) \<and> cur = ''USD''"
proof -
  obtain cur where "find_posted_authorization demo_externs 4 validate_for_capture (demo_srv demo_ledger) =
       (Ok (30, ''ref'', cur, 10), demo_srv demo_ledger)"
    by (simp add: find_posted_authorization_def list_transactions_by_order_def list_entries_by_transaction_def
        order_transactions_def query_def bnd_def map_err_def of_result_def ret_def demo_ledger_def set_tx_status_def
        tx_row_def entry_row_def derive_payment_state_def ok_or_def Let_def)
  with authorization_currency_lost[OF this] demo_ledger_ok show ?thesis
    by (simp add: demo_ledger_def account_row_def)
qed

text \<open>C32: The chain of capture retries ends: handling a retry event with count \<open>n\<close> adds at most
  retry events with count \<open>n + 1\<close>, and none once \<open>n\<close> has reached ten.\<close>

theorem capture_retries_bounded:
  "case handle_capture_retry x gw env p of
     (Ok _, q) \<Rightarrow> \<exists>rows. outbox_events (current (fst q)) = outbox_events (current (fst p)) @ rows \<and>
        retry_rows (retry_count_of env) rows
   | _ \<Rightarrow> True"
  using wp_handle_capture_retry_rows[of x gw env p]
  by (auto simp: wp_def adds_retry_def split: prod.splits result.splits)

end
