(* ===== verification/Relay.thy ===== *)
theory Relay
  imports Outbox Lock
begin

text \<open>
  The outbox relay of \<open>shared/src/outbox/relay.rs\<close> with its Redis cache of published
  events (\<open>dedup.rs\<close>) and the Kafka publisher of \<open>shared/src/events/producer.rs\<close>. The
  publisher is an argument of the relay's operations, as the code takes a trait object; its
  contract is a locale, interpreted for Kafka and for the recording publisher.
\<close>

section \<open>Publishers\<close>

type_synonym 'p publisher = "string \<Rightarrow> event_envelope \<Rightarrow> ('p, app_error, unit) eff"

record kafka_record =
  kr_topic :: string
  kr_key :: string
  kr_payload :: string
  kr_headers :: "(string \<times> string) list"

text \<open>The broker: what it holds, and the errors of the next sends (success when exhausted).\<close>

record kafka =
  kf_log :: "kafka_record list"
  kf_errors :: "string option list"

definition kafka_headers :: "externs \<Rightarrow> event_metadata \<Rightarrow> (string \<times> string) list" where
  "kafka_headers x m =
     [(''event_id'', uuid_str x (event_id m)), (''event_type'', event_type_str (event_type m)),
      (''aggregate_type'', aggregate_type_str (aggregate_type m)),
      (''aggregate_id'', uuid_str x (aggregate_id m)),
      (''source_service'', source_service_str (source_service m))]
     @ (case correlation_id m of Some c \<Rightarrow> [(''correlation_id'', c)] | None \<Rightarrow> [])
     @ (case causation_id m of Some c \<Rightarrow> [(''causation_id'', uuid_str x c)] | None \<Rightarrow> [])"

definition envelope_record :: "externs \<Rightarrow> string \<Rightarrow> event_envelope \<Rightarrow> kafka_record" where
  "envelope_record x topic env =
     \<lparr>kr_topic = topic, kr_key = partition_key x env, kr_payload = json_text x (envelope_to_json x env),
      kr_headers = kafka_headers x (metadata env)\<rparr>"

definition kafka_publish :: "externs \<Rightarrow> kafka publisher" where
  "kafka_publish x topic env k =
     (case kf_errors k of
        Some e # es \<Rightarrow> (Err (InternalServerError (''Kafka send: '' @ e)), k\<lparr>kf_errors := es\<rparr>)
      | es \<Rightarrow> (Ok (), k\<lparr>kf_errors := tl es, kf_log := kf_log k @ [envelope_record x topic env]\<rparr>))"

definition mock_publish :: "(string \<times> event_envelope) list publisher" where
  "mock_publish topic env evs = (Ok (), evs @ [(topic, env)])"

section \<open>The cache of published events\<close>

definition dedup_key :: "externs \<Rightarrow> uuid \<Rightarrow> string" where
  "dedup_key x eid = ''outbox:published:'' @ uuid_str x eid"

definition dedup_ttl :: nat where
  "dedup_ttl = 300"

definition dedup_is_published :: "externs \<Rightarrow> uuid \<Rightarrow> redis \<Rightarrow> bool \<times> redis" where
  "dedup_is_published x eid r =
     (if rd_fault r then (False, rd_tick r) else (rd_get r (dedup_key x eid) \<noteq> None, rd_tick r))"

definition dedup_mark_published :: "externs \<Rightarrow> uuid \<Rightarrow> redis \<Rightarrow> redis" where
  "dedup_mark_published x eid r =
     (if rd_fault r then rd_tick r
      else (rd_tick r)\<lparr>rd_store := (rd_store r)(dedup_key x eid \<mapsto> (''1'', rd_now r + dedup_ttl))\<rparr>)"

section \<open>The relay\<close>

record relay_config =
  rc_instance_id :: string
  rc_batch_size :: nat
  rc_poll_interval :: nat \<comment> \<open>milliseconds\<close>
  rc_stale_lock_check_interval :: nat \<comment> \<open>seconds\<close>
  rc_stale_lock_timeout :: nat
  rc_cleanup_interval :: nat
  rc_cleanup_max_age :: nat
  rc_delete_on_publish :: bool

definition relay_config_default :: "externs \<Rightarrow> uuid \<Rightarrow> relay_config" where
  "relay_config_default x rid =
     \<lparr>rc_instance_id = uuid_str x rid, rc_batch_size = 50, rc_poll_interval = 500,
      rc_stale_lock_check_interval = 30, rc_stale_lock_timeout = 60, rc_cleanup_interval = 3600,
      rc_cleanup_max_age = 7 * 24 * 3600, rc_delete_on_publish = False\<rparr>"

text \<open>What a relay works on: the service's database, Redis when configured, the publisher's
  state, and the events handed to the escalation handler.\<close>

record ('d, 'p) relay_world =
  rw_srv :: "'d srv"
  rw_redis :: "redis option"
  rw_pub :: 'p
  rw_escalated :: "outbox_event list"

definition publish_payload :: "externs \<Rightarrow> 'p publisher \<Rightarrow> string \<Rightarrow> json \<Rightarrow> ('p, app_error, unit) eff" where
  "publish_payload x publish topic pl =
     (case envelope_of_json x pl of
        None \<Rightarrow> throw (InternalServerError (''Deserialize outbox payload: '' @ deser_text x pl))
      | Some env \<Rightarrow> publish topic env)"

definition dedup_hit :: "externs \<Rightarrow> uuid \<Rightarrow> ('d, 'p) relay_world \<Rightarrow> bool \<times> ('d, 'p) relay_world" where
  "dedup_hit x eid w =
     (case rw_redis w of
        None \<Rightarrow> (False, w)
      | Some rd \<Rightarrow> (case dedup_is_published x eid rd of (b, rd') \<Rightarrow> (b, w\<lparr>rw_redis := Some rd'\<rparr>)))"

definition settle_published ::
  "externs \<Rightarrow> relay_config \<Rightarrow> uuid \<Rightarrow> ('z svc_db_scheme, 'p) relay_world \<Rightarrow> ('z svc_db_scheme, 'p) relay_world" where
  "settle_published x cfg rid w =
     w\<lparr>rw_srv := snd ((if rc_delete_on_publish cfg then delete_published x Pool rid
                       else mark_published x Pool rid) (rw_srv w))\<rparr>"

text \<open>One turn of the loop over a batch. The payload of the escalated event has been taken
  out of it; a failed status update is logged and leaves the row locked.\<close>

definition relay_event ::
  "externs \<Rightarrow> relay_config \<Rightarrow> 'p publisher \<Rightarrow> outbox_event \<Rightarrow>
   (('z svc_db_scheme, 'p) relay_world, app_error, unit) eff" where
  "relay_event x cfg publish ev w =
     (case dedup_hit x (ob_event_id ev) w of
        (True, w1) \<Rightarrow> (Ok (), settle_published x cfg (ob_id ev) w1)
      | (False, w1) \<Rightarrow>
          (case publish_payload x publish (ob_topic ev) (ob_payload ev) (rw_pub w1) of
             (Ok _, p) \<Rightarrow>
               (Ok (), settle_published x cfg (ob_id ev)
                  (w1\<lparr>rw_pub := p, rw_redis := map_option (dedup_mark_published x (ob_event_id ev)) (rw_redis w1)\<rparr>))
           | (Err e, p) \<Rightarrow>
               (case mark_retry_or_failed x Pool (ob_id ev) (app_error_str e) (rw_srv w1) of
                  (Ok _, s) \<Rightarrow>
                    (Ok (), w1\<lparr>rw_pub := p, rw_srv := s,
                       rw_escalated := rw_escalated w1 @
                         (if ob_retry_count ev + 1 \<ge> ob_max_retries ev then [ev\<lparr>ob_payload := JNull\<rparr>] else [])\<rparr>)
                | (_, s) \<Rightarrow> (Ok (), w1\<lparr>rw_pub := p, rw_srv := s\<rparr>))
           | (Panic m, p) \<Rightarrow> (Panic m, w1\<lparr>rw_pub := p\<rparr>)))"

definition process_batch ::
  "externs \<Rightarrow> relay_config \<Rightarrow> 'p publisher \<Rightarrow> (uuid \<Rightarrow> bool) \<Rightarrow>
   (('z svc_db_scheme, 'p) relay_world, app_error, nat) eff" where
  "process_batch x cfg publish busy w =
     (case claim_batch x Pool busy (rc_batch_size cfg) (rc_instance_id cfg) (rw_srv w) of
        (Ok evs, s) \<Rightarrow>
          (if evs = [] then (Ok 0, w\<lparr>rw_srv := s\<rparr>)
           else bnd (for_each (relay_event x cfg publish) evs) (\<lambda>_. ret (length evs)) (w\<lparr>rw_srv := s\<rparr>))
      | (Err e, s) \<Rightarrow> (Err e, w\<lparr>rw_srv := s\<rparr>)
      | (Panic m, s) \<Rightarrow> (Panic m, w\<lparr>rw_srv := s\<rparr>))"

text \<open>\<open>for _ in 0..MAX_ITERATIONS\<close>: the argument is the number of iterations left, which
  also selects the rows that other sessions hold and whether shutdown is seen.\<close>

primrec pending_loop ::
  "nat \<Rightarrow> externs \<Rightarrow> relay_config \<Rightarrow> 'p publisher \<Rightarrow> (nat \<Rightarrow> uuid \<Rightarrow> bool) \<Rightarrow> (nat \<Rightarrow> bool) \<Rightarrow>
   (('z svc_db_scheme, 'p) relay_world, app_error, unit) eff" where
  "pending_loop 0 x cfg publish busy stop w = (Ok (), w)"
| "pending_loop (Suc left) x cfg publish busy stop w =
     (if stop left then (Ok (), w)
      else case process_batch x cfg publish (busy left) w of
             (Ok n, w') \<Rightarrow> if n = 0 then (Ok (), w') else pending_loop left x cfg publish busy stop w'
           | (Err e, w') \<Rightarrow> (Ok (), w')
           | (Panic m, w') \<Rightarrow> (Panic m, w'))"

definition max_iterations :: nat where
  "max_iterations = 100"

definition process_pending ::
  "externs \<Rightarrow> relay_config \<Rightarrow> 'p publisher \<Rightarrow> (nat \<Rightarrow> uuid \<Rightarrow> bool) \<Rightarrow> (nat \<Rightarrow> bool) \<Rightarrow>
   (('z svc_db_scheme, 'p) relay_world, app_error, unit) eff" where
  "process_pending x cfg publish busy stop = pending_loop max_iterations x cfg publish busy stop"

text \<open>One turn of the stale-lock loop, and the inner loop of the cleanup: batches until
  nothing qualifies, an error, or shutdown. It ends because each batch deletes rows.\<close>

definition stale_lock_turn ::
  "externs \<Rightarrow> relay_config \<Rightarrow> ('z svc_db_scheme, 'p) relay_world \<Rightarrow> ('z svc_db_scheme, 'p) relay_world" where
  "stale_lock_turn x cfg w =
     w\<lparr>rw_srv := snd (release_stale_locks x Pool (int (rc_stale_lock_timeout cfg)) (rw_srv w))\<rparr>"

lemma cleanup_published_shrinks:
  assumes "cleanup_published x Pool age s = (Ok n, t)"
  shows "length (outbox_events (committed s)) = n + length (outbox_events (committed t))"
proof -
  obtain k rows where d: "delete_first 1000 (old_published age (clock s (ticks s))) (outbox_events (committed s)) = (k, rows)"
    by fastforce
  show ?thesis
    using assms d delete_first_count[OF d] by (auto simp: cleanup_published_def map_err_def split: if_splits)
qed

function cleanup_drain ::
  "externs \<Rightarrow> int \<Rightarrow> bool list \<Rightarrow> 'z svc_db_scheme srv \<Rightarrow> nat \<times> 'z svc_db_scheme srv" where
  "cleanup_drain x age stops s =
     (if (case stops of [] \<Rightarrow> False | b # _ \<Rightarrow> b) then (0, s)
      else case cleanup_published x Pool age s of
             (Ok n, s') \<Rightarrow>
               if n = 0 then (0, s')
               else (case cleanup_drain x age (tl stops) s' of (m, s'') \<Rightarrow> (n + m, s''))
           | (_, s') \<Rightarrow> (0, s'))"
  by pat_completeness auto
termination
  by (relation "measure (\<lambda>(x, age, stops, s). length (outbox_events (committed s)))")
     (auto dest!: cleanup_published_shrinks[OF sym])

declare cleanup_drain.simps [simp del]

section \<open>Any number of relays beside the service\<close>

text \<open>
  The system around one outbox table. Every claim, every turn over a claimed event, every
  stale-lock recovery and every cleanup batch is a step of its own, in any order and by any
  number of relay instances, interleaved with the service's inserts and with whatever else
  happens to the rest of the database, the clocks and the faults to come. An event claimed
  once may be worked on at any later time and more than once.
\<close>

record ('d, 'p) relay_system =
  ry_world :: "('d, 'p) relay_world"
  ry_claimed :: "outbox_event list" \<comment> \<open>ever returned by a claim\<close>
  ry_inserted :: "outbox_event list" \<comment> \<open>ever committed by the service\<close>

abbreviation table :: "('z svc_db_scheme, 'p) relay_system \<Rightarrow> outbox_event list" where
  "table y \<equiv> outbox_events (committed (rw_srv (ry_world y)))"

abbreviation with_srv ::
  "('z svc_db_scheme, 'p) relay_system \<Rightarrow> 'z svc_db_scheme srv \<Rightarrow> ('z svc_db_scheme, 'p) relay_system" where
  "with_srv y s \<equiv> y\<lparr>ry_world := (ry_world y)\<lparr>rw_srv := s\<rparr>\<rparr>"

inductive relay_step ::
  "externs \<Rightarrow> 'p publisher \<Rightarrow> ('z svc_db_scheme, 'p) relay_system \<Rightarrow> ('z svc_db_scheme, 'p) relay_system \<Rightarrow> bool"
  for x publish where
  claim: "claim_batch x Pool busy n inst (rw_srv (ry_world y)) = (Ok evs, s) \<Longrightarrow>
     relay_step x publish y ((with_srv y s)\<lparr>ry_claimed := ry_claimed y @ evs\<rparr>)"
| turn: "ev \<in> set (ry_claimed y) \<Longrightarrow> relay_event x cfg publish ev (ry_world y) = (r, w) \<Longrightarrow>
     relay_step x publish y (y\<lparr>ry_world := w\<rparr>)"
| stale: "relay_step x publish y (y\<lparr>ry_world := stale_lock_turn x cfg (ry_world y)\<rparr>)"
| cleanup: "cleanup_published x Pool age (rw_srv (ry_world y)) = (r, s) \<Longrightarrow>
     relay_step x publish y (with_srv y s)"
| insert: "outbox_events (committed s) = table y @ [row] \<Longrightarrow> ob_status row = ObPending \<Longrightarrow>
     ob_id row \<notin> ob_id ` set (ry_inserted y) \<Longrightarrow> ob_event_id row \<notin> ob_event_id ` set (ry_inserted y) \<Longrightarrow>
     relay_step x publish y ((with_srv y s)\<lparr>ry_inserted := ry_inserted y @ [row]\<rparr>)"
| elsewhere: "outbox_events (committed s) = table y \<Longrightarrow> relay_step x publish y (with_srv y s)"

inductive_cases relay_stepE: "relay_step x publish y y'"

definition relay_start :: "('z svc_db_scheme, 'p) relay_system \<Rightarrow> bool" where
  "relay_start y \<longleftrightarrow>
     table y = [] \<and> ry_claimed y = [] \<and> ry_inserted y = [] \<and>
     (case rw_redis (ry_world y) of None \<Rightarrow> True | Some rd \<Rightarrow> rd_store rd = Map.empty)"

inductive relay_run ::
  "externs \<Rightarrow> 'p publisher \<Rightarrow> ('z svc_db_scheme, 'p) relay_system \<Rightarrow> ('z svc_db_scheme, 'p) relay_system \<Rightarrow> bool"
  for x publish y where
  run_start: "relay_run x publish y y"
| run_step: "relay_run x publish y y' \<Longrightarrow> relay_step x publish y' y'' \<Longrightarrow> relay_run x publish y y''"

section \<open>The table and what was inserted\<close>

definition same_event :: "outbox_event \<Rightarrow> outbox_event \<Rightarrow> bool" where
  "same_event a b \<longleftrightarrow>
     ob_id b = ob_id a \<and> ob_event_id b = ob_event_id a \<and> ob_topic b = ob_topic a \<and> ob_payload b = ob_payload a"

text \<open>\<open>D\<close> says of which events a copy was delivered: the table holds inserted events only,
  marks only delivered ones as published, and has lost only delivered ones.\<close>

definition log_ok :: "(outbox_event \<Rightarrow> bool) \<Rightarrow> outbox_event list \<Rightarrow> outbox_event list \<Rightarrow> bool" where
  "log_ok D ins rows \<longleftrightarrow>
     distinct (map ob_id ins) \<and> distinct (map ob_event_id ins) \<and>
     (\<forall>r \<in> set rows. (\<exists>i \<in> set ins. same_event i r) \<and> (ob_status r = ObPublished \<longrightarrow> D r)) \<and>
     (\<forall>i \<in> set ins. (\<exists>r \<in> set rows. same_event i r) \<or> D i)"

lemma log_ok_update:
  assumes ok: "log_ok D ins rows"
    and f: "\<And>r. r \<in> set rows \<Longrightarrow> P r \<Longrightarrow> same_event r (f r) \<and> (ob_status (f r) = ObPublished \<longrightarrow> D (f r))"
  shows "log_ok D ins (update_where P f rows)"
proof -
  have tr: "same_event a b \<Longrightarrow> same_event b c \<Longrightarrow> same_event a c" for a b c by (simp add: same_event_def)
  have keep: "\<exists>r' \<in> set (update_where P f rows). same_event r r'" if "r \<in> set rows" for r
  proof (rule bexI)
    show "same_event r (if P r then f r else r)" using f[OF that] by (simp add: same_event_def)
    show "(if P r then f r else r) \<in> set (update_where P f rows)"
      unfolding set_update_where using that by (rule imageI)
  qed
  have "(\<exists>i \<in> set ins. same_event i r) \<and> (ob_status r = ObPublished \<longrightarrow> D r)"
    if "r \<in> set (update_where P f rows)" for r
  proof -
    obtain q where q: "q \<in> set rows" "r = (if P q then f q else q)" using \<open>r \<in> _\<close> by (auto simp: set_update_where)
    obtain i where i: "i \<in> set ins" "same_event i q" using ok q(1) by (auto simp: log_ok_def)
    have "same_event q r \<and> (ob_status r = ObPublished \<longrightarrow> D r)"
      using ok q f[OF q(1)] by (auto simp: log_ok_def same_event_def)
    then show ?thesis using i tr by blast
  qed
  moreover have "(\<exists>r \<in> set (update_where P f rows). same_event i r) \<or> D i" if "i \<in> set ins" for i
  proof -
    have "(\<exists>r \<in> set rows. same_event i r) \<or> D i" using ok \<open>i \<in> set ins\<close> by (simp add: log_ok_def)
    then show ?thesis
    proof
      assume "\<exists>r \<in> set rows. same_event i r"
      then obtain r where r: "r \<in> set rows" "same_event i r" by blast
      with keep obtain r' where "r' \<in> set (update_where P f rows)" "same_event r r'" by blast
      then show ?thesis using tr[OF r(2)] by blast
    qed simp
  qed
  ultimately show ?thesis using ok by (simp add: log_ok_def)
qed

lemma log_ok_touch:
  assumes ok: "log_ok D ins rows" and D: "\<And>a b. same_event a b \<Longrightarrow> D a = D b"
    and f: "\<And>r. same_event r (f r)" "\<And>r. ob_status (f r) = ob_status r"
  shows "log_ok D ins (update_where P f rows)"
proof (rule log_ok_update[OF ok])
  fix r assume "r \<in> set rows"
  then have "ob_status r = ObPublished \<longrightarrow> D r" using ok by (simp add: log_ok_def)
  then show "same_event r (f r) \<and> (ob_status (f r) = ObPublished \<longrightarrow> D (f r))"
    using f D[OF f(1)] by simp
qed

lemma log_ok_filter:
  assumes ok: "log_ok D ins rows" and sub: "set rows' \<subseteq> set rows"
    and gone: "\<And>r. r \<in> set rows \<Longrightarrow> r \<notin> set rows' \<Longrightarrow> D r"
    and D: "\<And>a b. same_event a b \<Longrightarrow> D a = D b"
  shows "log_ok D ins rows'"
  using ok sub gone D unfolding log_ok_def by (metis subsetD)

lemma log_ok_mono: "log_ok D ins rows \<Longrightarrow> (\<And>r. D r \<Longrightarrow> D' r) \<Longrightarrow> log_ok D' ins rows"
  unfolding log_ok_def by blast

lemma log_ok_insert:
  assumes "log_ok D ins rows" "ob_id row \<notin> ob_id ` set ins" "ob_event_id row \<notin> ob_event_id ` set ins"
    "ob_status row = ObPending"
  shows "log_ok D (ins @ [row]) (rows @ [row])"
  using assms unfolding log_ok_def by (auto simp: same_event_def)

lemma same_inserted:
  assumes "log_ok D ins rows" "i \<in> set ins" "same_event i ev" "r \<in> set rows" "ob_id r = ob_id ev"
  shows "same_event ev r"
proof -
  obtain j where j: "j \<in> set ins" "same_event j r" using assms(1,4) by (auto simp: log_ok_def)
  have "inj_on ob_id (set ins)" using assms(1) by (simp add: log_ok_def distinct_map)
  then have "i = j" using j assms(2,3,5) by (auto simp: same_event_def dest: inj_onD)
  then show ?thesis using j assms(3) by (simp add: same_event_def)
qed

section \<open>The contract of a publisher\<close>

locale event_publisher =
  fixes publish :: "'p publisher" and delivered :: "'p \<Rightarrow> string \<Rightarrow> event_envelope \<Rightarrow> bool"
  assumes publish_Ok: "publish topic env p = (Ok u, p') \<Longrightarrow> delivered p' topic env"
    and publish_keeps: "publish topic env p = (r, p') \<Longrightarrow> delivered p t e \<Longrightarrow> delivered p' t e"
begin

definition row_delivered :: "externs \<Rightarrow> 'p \<Rightarrow> outbox_event \<Rightarrow> bool" where
  "row_delivered x p r \<longleftrightarrow>
     (\<exists>env. envelope_of_json x (ob_payload r) = Some env \<and> delivered p (ob_topic r) env)"

lemma row_delivered_same: "same_event a b \<Longrightarrow> row_delivered x p a = row_delivered x p b"
  by (simp add: row_delivered_def same_event_def)

lemma publish_payload_cases:
  assumes "publish_payload x publish (ob_topic ev) (ob_payload ev) p = (r, p')"
  shows "row_delivered x p q \<Longrightarrow> row_delivered x p' q" and "r = Ok u \<Longrightarrow> row_delivered x p' ev"
proof -
  show "row_delivered x p' q" if "row_delivered x p q"
    using assms that publish_keeps[of "ob_topic ev" _ p r p']
    by (cases "envelope_of_json x (ob_payload ev)") (auto simp: publish_payload_def row_delivered_def throw_def)
  show "row_delivered x p' ev" if "r = Ok u"
    using assms that publish_Ok[of "ob_topic ev" _ p u p']
    by (cases "envelope_of_json x (ob_payload ev)") (auto simp: publish_payload_def row_delivered_def throw_def)
qed

text \<open>A cache entry belongs to an inserted event that was delivered.\<close>

definition cache_ok :: "externs \<Rightarrow> 'p \<Rightarrow> outbox_event list \<Rightarrow> redis option \<Rightarrow> bool" where
  "cache_ok x p ins rd \<longleftrightarrow>
     (\<forall>r eid. rd = Some r \<longrightarrow> rd_store r (dedup_key x eid) \<noteq> None \<longrightarrow>
        (\<exists>i \<in> set ins. ob_event_id i = eid \<and> row_delivered x p i))"

definition system_ok :: "externs \<Rightarrow> ('z svc_db_scheme, 'p) relay_system \<Rightarrow> bool" where
  "system_ok x y \<longleftrightarrow>
     log_ok (row_delivered x (rw_pub (ry_world y))) (ry_inserted y) (table y) \<and>
     (\<forall>ev \<in> set (ry_claimed y). \<exists>i \<in> set (ry_inserted y). same_event i ev) \<and>
     cache_ok x (rw_pub (ry_world y)) (ry_inserted y) (rw_redis (ry_world y))"

lemma redis_tick_store [simp]: "rd_store (rd_tick r) = rd_store r"
  by (simp add: rd_tick_def)

lemma dedup_hit_cases:
  assumes "dedup_hit x eid w = (b, w1)"
  shows "rw_srv w1 = rw_srv w" "rw_pub w1 = rw_pub w"
    "map_option rd_store (rw_redis w1) = map_option rd_store (rw_redis w)"
    "b \<Longrightarrow> \<exists>rd. rw_redis w = Some rd \<and> rd_store rd (dedup_key x eid) \<noteq> None"
  using assms
  by (auto simp: dedup_hit_def dedup_is_published_def rd_get_def split: option.splits prod.splits if_splits)

lemma cache_ok_store: "map_option rd_store rd' = map_option rd_store rd \<Longrightarrow> cache_ok x p ins rd' = cache_ok x p ins rd"
  by (cases rd; cases rd') (auto simp: cache_ok_def)

lemma settle_log_ok:
  assumes ok: "log_ok (row_delivered x p) ins (outbox_events (committed (rw_srv w)))"
    and i: "i \<in> set ins" "same_event i ev" and del: "row_delivered x p ev"
  shows "log_ok (row_delivered x p) ins (outbox_events (committed (rw_srv (settle_published x cfg (ob_id ev) w))))"
proof -
  let ?rows = "outbox_events (committed (rw_srv w))"
  have same: "row_delivered x p r" if "r \<in> set ?rows" "ob_id r = ob_id ev" for r
    using same_inserted[OF ok i that] row_delivered_same del by blast
  have "log_ok (row_delivered x p) ins (filter (\<lambda>r. ob_id r \<noteq> ob_id ev) ?rows)"
    by (rule log_ok_filter[OF ok]) (auto intro: same dest: row_delivered_same)
  moreover have "log_ok (row_delivered x p) ins (update_where (\<lambda>r. ob_id r = ob_id ev) (published_row now) ?rows)" for now
    by (rule log_ok_update[OF ok]) (auto simp: published_row_def same_event_def row_delivered_def dest!: same)
  ultimately show ?thesis using ok
    by (auto simp: settle_published_def delete_published_def mark_published_def update_status_sql_def map_err_def)
qed

lemma settle_other [simp]:
  "rw_pub (settle_published x cfg rid w) = rw_pub w" "rw_redis (settle_published x cfg rid w) = rw_redis w"
  by (simp_all add: settle_published_def)

lemma retry_log_ok:
  assumes ok: "log_ok D ins (outbox_events (committed s))" and run: "mark_retry_or_failed x Pool rid err s = (r, t)"
  shows "log_ok D ins (outbox_events (committed t))"
proof -
  have "log_ok D ins (update_where (\<lambda>r. ob_id r = rid) (retry_row err now) (outbox_events (committed s)))" for now
    by (rule log_ok_update[OF ok]) (auto simp: retry_row_def same_event_def Let_def)
  then show ?thesis using ok run
    by (auto simp: mark_retry_or_failed_def update_status_sql_def map_err_def split: if_splits)
qed

lemma cache_ok_mark:
  assumes "uuid_codec x" "cache_ok x p ins rd" "i \<in> set ins" "same_event i ev" "row_delivered x p ev"
  shows "cache_ok x p ins (map_option (dedup_mark_published x (ob_event_id ev)) rd)"
proof -
  have "\<exists>i \<in> set ins. ob_event_id i = ob_event_id ev \<and> row_delivered x p i"
    using assms(3-5) row_delivered_same[OF assms(4)] by (auto simp: same_event_def)
  moreover have "dedup_key x eid = dedup_key x (ob_event_id ev) \<longleftrightarrow> eid = ob_event_id ev" for eid
    using uuid_str_inj[OF assms(1)] by (simp add: dedup_key_def)
  ultimately show ?thesis using assms(2)
    by (auto simp: cache_ok_def dedup_mark_published_def split: if_splits)
qed

lemma cache_ok_mono:
  "cache_ok x p ins rd \<Longrightarrow> (\<And>q. row_delivered x p q \<Longrightarrow> row_delivered x p' q) \<Longrightarrow> cache_ok x p' ins rd"
  unfolding cache_ok_def by blast

lemma turn_ok:
  assumes codec: "uuid_codec x"
    and ok: "log_ok (row_delivered x (rw_pub w)) ins (outbox_events (committed (rw_srv w)))"
    and cache: "cache_ok x (rw_pub w) ins (rw_redis w)"
    and i: "i \<in> set ins" "same_event i ev" and run: "relay_event x cfg publish ev w = (r, w')"
  shows "log_ok (row_delivered x (rw_pub w')) ins (outbox_events (committed (rw_srv w')))"
    and "cache_ok x (rw_pub w') ins (rw_redis w')"
proof -
  obtain b w1 where hit: "dedup_hit x (ob_event_id ev) w = (b, w1)" by fastforce
  note h = dedup_hit_cases[OF hit]
  have cache1: "cache_ok x (rw_pub w) ins (rw_redis w1)" using cache cache_ok_store[OF h(3)] by simp
  obtain q p where pub: "publish_payload x publish (ob_topic ev) (ob_payload ev) (rw_pub w1) = (q, p)" by fastforce
  note keep = publish_payload_cases(1)[OF pub[unfolded h(2)]]
  have cachep: "cache_ok x p ins (rw_redis w1)" using cache1 keep by (rule cache_ok_mono)
  have okp: "log_ok (row_delivered x p) ins (outbox_events (committed (rw_srv w1)))"
    unfolding h(1) using ok keep by (rule log_ok_mono)
  have "log_ok (row_delivered x (rw_pub w')) ins (outbox_events (committed (rw_srv w'))) \<and>
      cache_ok x (rw_pub w') ins (rw_redis w')"
  proof (cases b)
    case True
    obtain j where j: "j \<in> set ins" "ob_event_id j = ob_event_id ev" "row_delivered x (rw_pub w) j"
      using h(4)[OF True] cache unfolding cache_ok_def by blast
    have "inj_on ob_event_id (set ins)" using ok by (simp add: log_ok_def distinct_map)
    then have "j = i" using i j by (auto simp: same_event_def dest: inj_onD)
    then have del: "row_delivered x (rw_pub w) ev" using j(3) row_delivered_same[OF i(2)] by simp
    have "w' = settle_published x cfg (ob_id ev) w1" using run hit True by (simp add: relay_event_def)
    then show ?thesis
      using settle_log_ok[of x "rw_pub w" ins w1 i ev cfg] ok h(1,2) i del cache1 by simp
  next
    case False
    show ?thesis
    proof (cases q)
      case (Ok u)
      let ?w2 = "w1\<lparr>rw_pub := p, rw_redis := map_option (dedup_mark_published x (ob_event_id ev)) (rw_redis w1)\<rparr>"
      have w': "w' = settle_published x cfg (ob_id ev) ?w2"
        using run hit False pub Ok by (simp add: relay_event_def)
      have del: "row_delivered x p ev" using publish_payload_cases(2)[OF pub] Ok by simp
      show ?thesis
        using settle_log_ok[of x p ins ?w2 i ev cfg] okp i del w' cache_ok_mark[OF codec cachep i del] by simp
    next
      case (Err e)
      obtain z t where m: "mark_retry_or_failed x Pool (ob_id ev) (app_error_str e) (rw_srv w1) = (z, t)" by fastforce
      have "rw_srv w' = t \<and> rw_pub w' = p \<and> rw_redis w' = rw_redis w1"
        using run hit False pub Err m by (cases z) (auto simp: relay_event_def)
      then show ?thesis using retry_log_ok[OF okp m] cachep by simp
    next
      case (Panic m)
      then have "w' = w1\<lparr>rw_pub := p\<rparr>" using run hit False pub by (simp add: relay_event_def)
      then show ?thesis using okp cachep by simp
    qed
  qed
  then show "log_ok (row_delivered x (rw_pub w')) ins (outbox_events (committed (rw_srv w')))"
    and "cache_ok x (rw_pub w') ins (rw_redis w')" by simp_all
qed

lemma claim_ok:
  assumes ok: "log_ok D ins (outbox_events (committed s))"
    and D: "\<And>a b. same_event a b \<Longrightarrow> D a = D b"
    and run: "claim_batch x Pool busy n inst s = (Ok evs, t)"
  shows "log_ok D ins (outbox_events (committed t))" and "\<forall>ev \<in> set evs. \<exists>i \<in> set ins. same_event i ev"
proof -
  have "log_ok D ins (update_where P (lock_row inst now) (outbox_events (committed s)))" for P now
    using ok D by (rule log_ok_touch) (simp_all add: lock_row_def same_event_def)
  moreover obtain P now where t: "outbox_events (committed t) = update_where P (lock_row inst now) (outbox_events (committed s))"
    "set evs \<subseteq> set (outbox_events (committed t))"
    using run by (auto simp: claim_batch_def claim_batch_sql_def map_err_def Let_def split: if_splits)
  ultimately show "log_ok D ins (outbox_events (committed t))" by simp
  then show "\<forall>ev \<in> set evs. \<exists>i \<in> set ins. same_event i ev" using t(2) by (auto simp: log_ok_def)
qed

lemma stale_ok:
  assumes ok: "log_ok D ins (outbox_events (committed (rw_srv w)))" and D: "\<And>a b. same_event a b \<Longrightarrow> D a = D b"
  shows "log_ok D ins (outbox_events (committed (rw_srv (stale_lock_turn x cfg w))))"
proof -
  have "log_ok D ins (update_where P unlock_row (outbox_events (committed (rw_srv w))))" for P
    using ok D by (rule log_ok_touch) (simp_all add: unlock_row_def same_event_def)
  then show ?thesis using ok by (auto simp: stale_lock_turn_def release_stale_locks_def map_err_def)
qed

lemma cleanup_ok:
  assumes ok: "log_ok D ins (outbox_events (committed s))" and D: "\<And>a b. same_event a b \<Longrightarrow> D a = D b"
    and run: "cleanup_published x Pool age s = (r, t)"
  shows "log_ok D ins (outbox_events (committed t))"
proof -
  obtain k rows where d: "delete_first 1000 (old_published age (clock s (ticks s))) (outbox_events (committed s)) = (k, rows)"
    by fastforce
  have "log_ok D ins rows"
    by (rule log_ok_filter[OF ok _ _ D])
       (use delete_first_members[OF d] ok in \<open>auto simp: log_ok_def old_published_def\<close>)
  then show ?thesis using ok run d by (auto simp: cleanup_published_def map_err_def split: if_splits)
qed

lemma system_ok_step:
  assumes "uuid_codec x" "system_ok x y" "relay_step x publish y y'"
  shows "system_ok x y'"
  using assms(3)
proof (cases rule: relay_step.cases)
  case (claim busy n inst evs s)
  then show ?thesis
    using assms(2) claim_ok[OF _ row_delivered_same claim(2)] unfolding system_ok_def by auto
next
  case (turn ev cfg r w)
  obtain i where "i \<in> set (ry_inserted y)" "same_event i ev" using assms(2) turn(2) by (auto simp: system_ok_def)
  then show ?thesis
    using turn_ok[OF assms(1) _ _ _ _ turn(3)] assms(2) turn(1) unfolding system_ok_def by auto
next
  case (stale cfg)
  then show ?thesis using assms(2) stale_ok[OF _ row_delivered_same] unfolding system_ok_def
    by (auto simp: stale_lock_turn_def)
next
  case (cleanup age r s)
  then show ?thesis using assms(2) cleanup_ok[OF _ row_delivered_same cleanup(2)] unfolding system_ok_def by auto
next
  case (insert s row)
  then show ?thesis using assms(2) log_ok_insert unfolding system_ok_def cache_ok_def by fastforce
next
  case (elsewhere s)
  then show ?thesis using assms(2) unfolding system_ok_def by simp
qed

lemma system_ok_start: "relay_start y \<Longrightarrow> system_ok x y"
  by (auto simp: relay_start_def system_ok_def log_ok_def cache_ok_def split: option.splits)

lemma system_ok_run:
  assumes "relay_run x publish y y'" "relay_start y" "uuid_codec x"
  shows "system_ok x y'"
  using assms(1) by induction (use assms(2,3) system_ok_start system_ok_step in blast)+

end

lemma kafka_publisher: "event_publisher (kafka_publish x) (\<lambda>k topic env. envelope_record x topic env \<in> set (kf_log k))"
  by unfold_locales (auto simp: kafka_publish_def split: list.splits option.splits)

interpretation kafka: event_publisher "kafka_publish x" "\<lambda>k topic env. envelope_record x topic env \<in> set (kf_log k)" for x
  by (rule kafka_publisher)

interpretation mock: event_publisher mock_publish "\<lambda>evs topic env. (topic, env) \<in> set evs"
  by unfold_locales (auto simp: mock_publish_def)

section \<open>The loops are runs of the system\<close>

lemma relay_run_trans: "relay_run x publish y' y'' \<Longrightarrow> relay_run x publish y y' \<Longrightarrow> relay_run x publish y y''"
  by (induction rule: relay_run.induct) (auto intro: run_step)

lemma turns_run:
  assumes "for_each (relay_event x cfg publish) evs (ry_world y) = (r, w)" "set evs \<subseteq> set (ry_claimed y)"
  shows "relay_run x publish y (y\<lparr>ry_world := w\<rparr>)"
  using assms
proof (induction evs arbitrary: y)
  case Nil
  then show ?case by (auto simp: ret_def intro: run_start)
next
  case (Cons ev evs)
  obtain q w1 where t: "relay_event x cfg publish ev (ry_world y) = (q, w1)" by fastforce
  have first: "relay_run x publish y (y\<lparr>ry_world := w1\<rparr>)"
    using run_step[OF run_start turn[OF _ t]] Cons.prems(2) by simp
  show ?case
  proof (cases q)
    case (Ok u)
    then have "for_each (relay_event x cfg publish) evs (ry_world (y\<lparr>ry_world := w1\<rparr>)) = (r, w)"
      using Cons.prems(1) t by (simp add: bnd_def)
    from Cons.IH[OF this] Cons.prems(2) have "relay_run x publish (y\<lparr>ry_world := w1\<rparr>) (y\<lparr>ry_world := w\<rparr>)" by simp
    then show ?thesis using first by (rule relay_run_trans)
  qed (use Cons.prems(1) t first in \<open>auto simp: bnd_def\<close>)
qed

lemma claim_batch_failed:
  "claim_batch x Pool busy n inst s = (q, t) \<Longrightarrow> \<not> is_ok q \<Longrightarrow> committed t = committed s"
  by (auto simp: claim_batch_def claim_batch_sql_def map_err_def Let_def split: if_splits)

lemma process_batch_run:
  assumes "process_batch x cfg publish busy (ry_world y) = (r, w)"
  shows "\<exists>evs. relay_run x publish y (y\<lparr>ry_world := w, ry_claimed := ry_claimed y @ evs\<rparr>)"
proof -
  obtain q s where c: "claim_batch x Pool busy (rc_batch_size cfg) (rc_instance_id cfg) (rw_srv (ry_world y)) = (q, s)"
    by fastforce
  show ?thesis
  proof (cases q)
    case (Ok evs)
    let ?y = "(with_srv y s)\<lparr>ry_claimed := ry_claimed y @ evs\<rparr>"
    have cl: "relay_run x publish y ?y" using run_step[OF run_start claim] c Ok by blast
    have "relay_run x publish ?y (?y\<lparr>ry_world := w\<rparr>)"
    proof (cases "evs = []")
      case True
      then have "w = ry_world ?y" using assms c Ok by (simp add: process_batch_def)
      then have "?y\<lparr>ry_world := w\<rparr> = ?y" by (intro relay_system.equality) simp_all
      then show ?thesis by (simp only: run_start)
    next
      case False
      obtain z w' where f: "for_each (relay_event x cfg publish) evs (ry_world ?y) = (z, w')" by fastforce
      then have "w = w'" using assms c Ok False
        by (cases z) (auto simp: process_batch_def bnd_def ret_def)
      then show ?thesis using turns_run[OF f] by simp
    qed
    moreover have "?y\<lparr>ry_world := w\<rparr> = y\<lparr>ry_world := w, ry_claimed := ry_claimed y @ evs\<rparr>"
      by (intro relay_system.equality) simp_all
    ultimately show ?thesis using relay_run_trans[OF _ cl] by auto
  next
    case (Err e)
    then have "w = (ry_world y)\<lparr>rw_srv := s\<rparr>" using assms c by (simp add: process_batch_def)
    moreover have "committed s = committed (rw_srv (ry_world y))" using claim_batch_failed[OF c] Err by simp
    ultimately show ?thesis using run_step[OF run_start elsewhere[of s y]] by (auto intro!: exI[of _ "[]"])
  next
    case (Panic e)
    then have "w = (ry_world y)\<lparr>rw_srv := s\<rparr>" using assms c by (simp add: process_batch_def)
    moreover have "committed s = committed (rw_srv (ry_world y))" using claim_batch_failed[OF c] Panic by simp
    ultimately show ?thesis using run_step[OF run_start elsewhere[of s y]] by (auto intro!: exI[of _ "[]"])
  qed
qed

lemma pending_loop_run:
  "pending_loop n x cfg publish busy stop (ry_world y) = (r, w) \<Longrightarrow>
     \<exists>evs. relay_run x publish y (y\<lparr>ry_world := w, ry_claimed := ry_claimed y @ evs\<rparr>)"
proof (induction n arbitrary: y)
  case 0
  then show ?case by (auto intro!: exI[of _ "[]"] run_start)
next
  case (Suc n)
  show ?case
  proof (cases "stop n")
    case True
    then show ?thesis using Suc.prems by (auto intro!: exI[of _ "[]"] run_start)
  next
    case False
    obtain q w1 where b: "process_batch x cfg publish (busy n) (ry_world y) = (q, w1)" by fastforce
    obtain evs where one: "relay_run x publish y (y\<lparr>ry_world := w1, ry_claimed := ry_claimed y @ evs\<rparr>)" (is "relay_run x publish y ?y")
      using process_batch_run[OF b] by blast
    consider "w = w1" | "pending_loop n x cfg publish busy stop (ry_world ?y) = (r, w)"
      using Suc.prems False b by (cases q) (auto split: if_splits)
    then show ?thesis
    proof cases
      case 2
      from Suc.IH[OF this] obtain evs' where "relay_run x publish ?y (?y\<lparr>ry_world := w, ry_claimed := ry_claimed ?y @ evs'\<rparr>)"
        by blast
      moreover have "?y\<lparr>ry_world := w, ry_claimed := ry_claimed ?y @ evs'\<rparr> =
          y\<lparr>ry_world := w, ry_claimed := ry_claimed y @ (evs @ evs')\<rparr>"
        by (intro relay_system.equality) simp_all
      ultimately show ?thesis using relay_run_trans[OF _ one] by metis
    qed (use one in blast)
  qed
qed

section \<open>Cleanup\<close>

lemma cleanup_published_healthy:
  assumes "faults s = []"
    and "delete_first 1000 (old_published age (clock s (ticks s))) (outbox_events (committed s)) = (k, rows)"
  shows "cleanup_published x Pool age s = (Ok k, s\<lparr>committed := (committed s)\<lparr>outbox_events := rows\<rparr>\<rparr>)"
  using assms by (simp add: cleanup_published_def map_err_def pop_fault_no_faults)

lemma cleanup_drain_all:
  assumes "faults s = []"
  shows "outbox_events (committed (snd (cleanup_drain x age [] s))) =
    filter (\<lambda>r. \<not> old_published age (clock s (ticks s)) r) (outbox_events (committed s))"
  using assms
proof (induction "length (outbox_events (committed s))" arbitrary: s rule: less_induct)
  case less
  let ?P = "old_published age (clock s (ticks s))"
  obtain k rows where d: "delete_first 1000 ?P (outbox_events (committed s)) = (k, rows)" by fastforce
  note c = delete_first_count[OF d] and run = cleanup_published_healthy[OF less.prems d, of x]
  let ?t = "s\<lparr>committed := (committed s)\<lparr>outbox_events := rows\<rparr>\<rparr>"
  show ?case
  proof (cases "k = 0")
    case True
    then have "count_where ?P (outbox_events (committed s)) = 0" using c by (simp add: min_def split: if_splits)
    then have none: "\<forall>r\<in>set (outbox_events (committed s)). \<not> ?P r" by (simp add: count_where_zero_iff)
    have "rows = outbox_events (committed s)"
      using c True none delete_first_members[OF d] by (metis filter_True subsetD)
    moreover have "snd (cleanup_drain x age [] s) = ?t"
      using run True by (subst cleanup_drain.simps) simp
    ultimately show ?thesis using none by (simp add: filter_True)
  next
    case False
    have "snd (cleanup_drain x age [] s) = snd (cleanup_drain x age [] ?t)"
      using run False by (subst cleanup_drain.simps) (simp split: prod.split)
    moreover have "length (outbox_events (committed ?t)) < length (outbox_events (committed s))"
      using c False by simp
    ultimately show ?thesis using less.hyps[of ?t] less.prems c by simp
  qed
qed

section \<open>Properties\<close>

definition on_kafka :: "externs \<Rightarrow> kafka \<Rightarrow> outbox_event \<Rightarrow> bool" where
  "on_kafka x k r \<longleftrightarrow>
     (case envelope_of_json x (ob_payload r) of None \<Rightarrow> False
      | Some env \<Rightarrow> envelope_record x (ob_topic r) env \<in> set (kf_log k))"

lemma on_kafka_delivered: "kafka.row_delivered x x k = on_kafka x k"
  by (simp add: fun_eq_iff kafka.row_delivered_def on_kafka_def split: option.splits)

text \<open>C3: At-least-once delivery: along every interleaving of any number of relay instances,
  stale-lock recoveries, cleanups and service commits, with any failures of Postgres, Kafka and
  Redis, every event that a service committed is still waiting in the outbox table (pending or
  failed), or its record is in Kafka. In particular neither the cache of published events nor
  the cleanup ever loses an event.\<close>

theorem outbox_at_least_once:
  assumes "relay_run x (kafka_publish x) y y'" "relay_start y" "uuid_codec x"
  shows "list_all (\<lambda>i. list_ex (\<lambda>r. same_event i r \<and> ob_status r \<noteq> ObPublished) (table y') \<or>
      on_kafka x (rw_pub (ry_world y')) i) (ry_inserted y')"
proof -
  have ok: "log_ok (on_kafka x (rw_pub (ry_world y'))) (ry_inserted y') (table y')"
    using kafka.system_ok_run[OF assms] by (simp add: kafka.system_ok_def on_kafka_delivered)
  have "on_kafka x k i = on_kafka x k r" if "same_event i r" for k i r
    using that by (simp add: on_kafka_def same_event_def split: option.split)
  then show ?thesis using ok unfolding log_ok_def list_all_iff list_ex_iff by blast
qed

definition demo_outbox :: "outbox_event list \<Rightarrow> svc_db" where
  "demo_outbox rows = \<lparr>outbox_events = rows, processed_events = []\<rparr>"

definition demo_system :: "(svc_db, kafka) relay_system" where
  "demo_system =
     \<lparr>ry_world = \<lparr>rw_srv = demo_srv (demo_outbox []), rw_redis = Some demo_redis,
        rw_pub = \<lparr>kf_log = [], kf_errors = [Some ''timeout'']\<rparr>, rw_escalated = []\<rparr>,
      ry_claimed = [], ry_inserted = []\<rparr>"

theorem outbox_at_least_once_witness:
  "\<exists>y :: (svc_db, kafka) relay_system. ry_inserted y = [outbox_row (demo_insert 1) 11 1] \<and>
     list_all (\<lambda>i. list_ex (\<lambda>r. same_event i r \<and> ob_status r \<noteq> ObPublished) (table y) \<or>
        on_kafka demo_externs (rw_pub (ry_world y)) i) (ry_inserted y)"
proof -
  let ?row = "outbox_row (demo_insert 1) 11 1"
  let ?y = "(with_srv demo_system (demo_srv (demo_outbox [?row])))\<lparr>ry_inserted := ry_inserted demo_system @ [?row]\<rparr>"
  have "relay_step demo_externs (kafka_publish demo_externs) demo_system ?y"
    by (rule relay_step.insert) (simp_all add: demo_system_def demo_outbox_def outbox_row_def)
  then have "relay_run demo_externs (kafka_publish demo_externs) demo_system ?y"
    by (rule run_step[OF run_start])
  moreover have "relay_start demo_system"
    by (simp add: relay_start_def demo_system_def demo_outbox_def demo_redis_def)
  moreover have "ry_inserted ?y = [?row]" by (simp add: demo_system_def)
  ultimately show ?thesis using outbox_at_least_once[of demo_externs demo_system ?y] by (intro exI[of _ ?y]) simp
qed


text \<open>The cleanup ends, and on a working connection it removes exactly the published events
  older than the limit, however many batches of a thousand that takes.\<close>

theorem cleanup_removes_exactly_old_published:
  assumes "faults s = []"
  shows "outbox_events (committed (snd (cleanup_drain x age [] s))) =
    filter (\<lambda>r. \<not> old_published age (clock s (ticks s)) r) (outbox_events (committed s))"
  using assms by (rule cleanup_drain_all)

theorem cleanup_removes_exactly_old_published_witness:
  "outbox_events (committed (snd (cleanup_drain demo_externs (- 1) []
     (demo_srv (demo_outbox [published_row 0 (outbox_row (demo_insert 1) 11 1), outbox_row (demo_insert 2) 12 1]))))) =
   [outbox_row (demo_insert 2) 12 1]"
  using cleanup_removes_exactly_old_published[of "demo_srv (demo_outbox
      [published_row 0 (outbox_row (demo_insert 1) 11 1), outbox_row (demo_insert 2) 12 1])" demo_externs "- 1"]
  by (simp add: demo_outbox_def old_published_def published_row_def outbox_row_def)

end
