(* ===== verification/Jobs.thy ===== *)
theory Jobs
  imports Outbox
begin

text \<open>
  Persistent jobs (\<open>shared/src/jobs\<close>): job names, the table \<open>persistent_jobs\<close> with its partial
  unique index and its triggers, the statements of \<open>repository.rs\<close>, the registry and the runner.
  A handler acts on a state of its own beside the job table; what it returns, whether it runs
  into its time limit and whether it panics is up to the environment.
\<close>

section \<open>Names\<close>

datatype job_name = JobName (job_name_str: string)

definition job_name_char :: "char \<Rightarrow> bool" where
  "job_name_char c \<longleftrightarrow>
     ((97::nat) \<le> of_char c \<and> (of_char c :: nat) \<le> 122) \<or> ((48::nat) \<le> of_char c \<and> (of_char c :: nat) \<le> 57) \<or>
     c = CHR ''.'' \<or> c = CHR ''_'' \<or> c = CHR ''-''"

definition job_name_new :: "string \<Rightarrow> (job_name, app_error) result" where
  "job_name_new input =
     (let trimmed = trim input in
      if trimmed = [] then Err (BadRequest ''Job name must not be empty'')
      else if length trimmed > 255 then Err (BadRequest ''Job name must not exceed 255 characters'')
      else if \<not> list_all job_name_char trimmed
      then Err (BadRequest ''Job name must contain only lowercase alphanumeric, dots, underscores, and hyphens'')
      else if CHR ''.'' \<notin> set trimmed
      then Err (BadRequest (''Job name must contain at least one dot for namespacing (e.g. '' @ [CHR 0x27] @
             ''payment.disburse'' @ [CHR 0x27] @ '')''))
      else if hd trimmed = CHR ''.'' \<or> last trimmed = CHR ''.''
      then Err (BadRequest ''Job name must not start or end with a dot'')
      else if sublist ''..'' trimmed then Err (BadRequest ''Job name must not contain consecutive dots'')
      else Ok (JobName trimmed))"

section \<open>Data\<close>

datatype job_status = JPending | JRunning | JCompleted | JFailed | JDeadLettered | JCancelled

fun job_status_str :: "job_status \<Rightarrow> string" where
  "job_status_str JPending = ''pending''"
| "job_status_str JRunning = ''running''"
| "job_status_str JCompleted = ''completed''"
| "job_status_str JFailed = ''failed''"
| "job_status_str JDeadLettered = ''dead_lettered''"
| "job_status_str JCancelled = ''cancelled''"

datatype job_error = JTransient string | JPermanent string

fun job_error_str :: "job_error \<Rightarrow> string" where
  "job_error_str (JTransient m) = ''transient: '' @ m"
| "job_error_str (JPermanent m) = ''permanent: '' @ m"

datatype dedup_strategy = DedupSkip | DedupEnqueue | DedupReplace

record job =
  jb_id :: uuid
  jb_type :: string
  jb_payload :: json
  jb_status :: job_status
  jb_schedule :: "string option"
  jb_dedup_key :: "string option"
  jb_max_retries :: int
  jb_timeout_seconds :: int
  jb_attempts :: int
  jb_last_error :: "string option"
  jb_locked_by :: "string option"
  jb_locked_at :: "timestamp option"
  jb_next_run_at :: timestamp
  jb_created_at :: timestamp
  jb_updated_at :: timestamp

record job_config =
  jc_max_retries :: "nat option"
  jc_timeout_seconds :: "nat option"
  jc_dedup_strategy :: dedup_strategy
  jc_dedup_key :: "string option"

text \<open>A cron schedule is the \<open>cron\<close> package's: its text and the first tick after a time.\<close>

record cron_schedule =
  cs_text :: string
  cs_next :: "timestamp \<Rightarrow> timestamp option"

datatype job_schedule = Cron cron_schedule | Interval nat \<comment> \<open>microseconds\<close>

datatype failure_policy = Die | ResetToNext

record recurring_job =
  rj_name :: job_name
  rj_schedule :: job_schedule
  rj_payload :: json
  rj_dedup_key :: string
  rj_config :: "job_config option"
  rj_failure_policy :: failure_policy

record job_db =
  persistent_jobs :: "job list"

section \<open>Statements\<close>

definition job_row ::
  "string \<Rightarrow> json \<Rightarrow> string option \<Rightarrow> string option \<Rightarrow> int \<Rightarrow> int \<Rightarrow> uuid \<Rightarrow> timestamp \<Rightarrow> job" where
  "job_row name pl sched key retries tmo rid now =
     \<lparr>jb_id = rid, jb_type = name, jb_payload = pl, jb_status = JPending, jb_schedule = sched,
      jb_dedup_key = key, jb_max_retries = retries, jb_timeout_seconds = tmo, jb_attempts = 0,
      jb_last_error = None, jb_locked_by = None, jb_locked_at = None, jb_next_run_at = now,
      jb_created_at = now, jb_updated_at = now\<rparr>"

text \<open>The partial unique index \<open>idx_jobs_dedup\<close>: pending and running rows with a key.\<close>

definition dedup_entry :: "job \<Rightarrow> (string \<times> string) option" where
  "dedup_entry r =
     (case jb_dedup_key r of
        None \<Rightarrow> None
      | Some k \<Rightarrow> if jb_status r = JPending \<or> jb_status r = JRunning then Some (jb_type r, k) else None)"

definition dedup_entries :: "job list \<Rightarrow> (string \<times> string) list" where
  "dedup_entries rows = List.map_filter dedup_entry rows"

definition insert_job_sql ::
  "string \<Rightarrow> json \<Rightarrow> string option \<Rightarrow> string option \<Rightarrow> int \<Rightarrow> int \<Rightarrow> uuid \<Rightarrow> (job_db, uuid) sql" where
  "insert_job_sql name pl sched key retries tmo rid now d =
     (case (varchar_col 255 name, opt_varchar 255 sched, opt_varchar 255 key) of
        (Inl e, _, _) \<Rightarrow> Inl e
      | (_, Inl e, _) \<Rightarrow> Inl e
      | (_, _, Inl e) \<Rightarrow> Inl e
      | (Inr name', Inr sched', Inr key') \<Rightarrow>
          let row = job_row name' pl sched' key' retries tmo rid now in
          if rid \<in> jb_id ` set (persistent_jobs d) then Inl (UniqueViolation ''persistent_jobs_pkey'')
          else if dedup_entry row \<noteq> None \<and> the (dedup_entry row) \<in> set (dedup_entries (persistent_jobs d))
          then Inl (UniqueViolation ''idx_jobs_dedup'')
          else Inr (rid, d\<lparr>persistent_jobs := persistent_jobs d @ [row]\<rparr>))"

definition config_or :: "(job_config \<Rightarrow> nat option) \<Rightarrow> nat \<Rightarrow> job_config option \<Rightarrow> int" where
  "config_or f dflt cfg = cast_i32 (int (case Option.bind cfg f of Some n \<Rightarrow> n | None \<Rightarrow> dflt))"

definition enqueue_job ::
  "externs \<Rightarrow> executor \<Rightarrow> job_name \<Rightarrow> json \<Rightarrow> job_config option \<Rightarrow> (job_db srv, app_error, uuid) eff" where
  "enqueue_job x ex name pl cfg =
     bnd next_uuid (\<lambda>rid. map_err (internal x)
       (stmt ex (insert_job_sql (job_name_str name) pl None (Option.bind cfg jc_dedup_key)
          (config_or jc_max_retries 5 cfg) (config_or jc_timeout_seconds 300 cfg) rid)))"

text \<open>The trigger \<open>enforce_job_status_transition\<close>.\<close>

fun job_transition :: "job_status \<Rightarrow> job_status \<Rightarrow> bool" where
  "job_transition JPending s = (s \<in> {JPending, JRunning, JCancelled})"
| "job_transition JRunning s = (s \<in> {JRunning, JCompleted, JFailed, JDeadLettered, JPending})"
| "job_transition JDeadLettered s = (s \<in> {JDeadLettered, JPending})"
| "job_transition JFailed s = (s \<in> {JFailed, JPending})"
| "job_transition JCompleted s = (s = JCompleted)"
| "job_transition JCancelled s = (s = JCancelled)"

definition job_transition_ok :: "job \<Rightarrow> job \<Rightarrow> bool" where
  "job_transition_ok old new \<longleftrightarrow>
     job_transition (jb_status old) (jb_status new) \<or>
     (jb_status old = JCompleted \<and> jb_status new = JPending \<and> jb_schedule new \<noteq> None)"

text \<open>Every update names the status column, so the trigger guards it, and the other trigger
  stamps the row. The index is checked on the rows after the update: no statement swaps two
  entries of it, so checking row by row gives the same answer.\<close>

definition touched :: "(timestamp \<Rightarrow> job \<Rightarrow> job) \<Rightarrow> timestamp \<Rightarrow> job \<Rightarrow> job" where
  "touched f now r = (f now r)\<lparr>jb_updated_at := now\<rparr>"

definition update_jobs :: "(job \<Rightarrow> bool) \<Rightarrow> (timestamp \<Rightarrow> job \<Rightarrow> job) \<Rightarrow> (job_db, nat) sql" where
  "update_jobs P f now d =
     (let old = filter P (persistent_jobs d); rows = update_where P (touched f now) (persistent_jobs d) in
      if list_ex (\<lambda>r. \<not> int4 (jb_attempts (f now r))) old then Inl NumericOutOfRange
      else if list_ex (\<lambda>r. \<not> job_transition_ok r (f now r)) old
      then Inl (CheckViolation ''invalid job status transition'')
      else if \<not> distinct (dedup_entries rows) then Inl (UniqueViolation ''idx_jobs_dedup'')
      else Inr (count_where P (persistent_jobs d), d\<lparr>persistent_jobs := rows\<rparr>))"

definition claimable_jobs :: "(uuid \<Rightarrow> bool) \<Rightarrow> nat \<Rightarrow> timestamp \<Rightarrow> job list \<Rightarrow> job list" where
  "claimable_jobs busy limit now rows =
     take limit (filter (\<lambda>r. \<not> busy (jb_id r))
       (sort_key jb_next_run_at (filter (\<lambda>r. jb_status r = JPending \<and> jb_next_run_at r \<le> now) rows)))"

definition running_row :: "string \<Rightarrow> timestamp \<Rightarrow> job \<Rightarrow> job" where
  "running_row inst now r =
     r\<lparr>jb_status := JRunning, jb_locked_by := Some inst, jb_locked_at := Some now,
       jb_attempts := jb_attempts r + 1\<rparr>"

definition claim_jobs_sql :: "(uuid \<Rightarrow> bool) \<Rightarrow> nat \<Rightarrow> string \<Rightarrow> (job_db, job list) sql" where
  "claim_jobs_sql busy limit inst now d =
     (let ids = map jb_id (claimable_jobs busy limit now (persistent_jobs d)) in
      if ids = [] then Inr ([], d)
      else case varchar_col 255 inst of
             Inl e \<Rightarrow> Inl e
           | Inr inst' \<Rightarrow>
               (case update_jobs (\<lambda>r. jb_id r \<in> set ids) (running_row inst') now d of
                  Inl e \<Rightarrow> Inl e
                | Inr (_, d') \<Rightarrow> Inr (filter (\<lambda>r. jb_id r \<in> set ids) (persistent_jobs d'), d')))"

definition claim_jobs ::
  "externs \<Rightarrow> (uuid \<Rightarrow> bool) \<Rightarrow> nat \<Rightarrow> string \<Rightarrow> (job_db srv, app_error, job list) eff" where
  "claim_jobs x busy limit inst = map_err (internal x) (stmt Pool (claim_jobs_sql busy limit inst))"

definition update_job ::
  "externs \<Rightarrow> executor \<Rightarrow> uuid \<Rightarrow> (timestamp \<Rightarrow> job \<Rightarrow> job) \<Rightarrow> (job_db srv, app_error, unit) eff" where
  "update_job x ex jid f =
     bnd (map_err (internal x) (stmt ex (update_jobs (\<lambda>r. jb_id r = jid) f))) (\<lambda>_. ret ())"

definition completed_row :: "timestamp \<Rightarrow> job \<Rightarrow> job" where
  "completed_row now r = r\<lparr>jb_status := JCompleted, jb_locked_by := None, jb_locked_at := None\<rparr>"

definition mark_completed :: "externs \<Rightarrow> executor \<Rightarrow> uuid \<Rightarrow> (job_db srv, app_error, unit) eff" where
  "mark_completed x ex jid = update_job x ex jid completed_row"

definition job_retry_row :: "string \<Rightarrow> int \<Rightarrow> timestamp \<Rightarrow> job \<Rightarrow> job" where
  "job_retry_row err max_retries now r =
     r\<lparr>jb_status := (if jb_attempts r \<ge> max_retries then JFailed else JPending),
       jb_next_run_at :=
         (if jb_attempts r \<ge> max_retries then jb_next_run_at r
          else now + 1000000 * backoff_secs (jb_attempts r)),
       jb_last_error := Some err, jb_locked_by := None, jb_locked_at := None\<rparr>"

definition job_retry_or_failed ::
  "externs \<Rightarrow> executor \<Rightarrow> uuid \<Rightarrow> string \<Rightarrow> int \<Rightarrow> (job_db srv, app_error, unit) eff" where
  "job_retry_or_failed x ex jid err max_retries = update_job x ex jid (job_retry_row err max_retries)"

definition dead_row :: "string \<Rightarrow> timestamp \<Rightarrow> job \<Rightarrow> job" where
  "dead_row err now r =
     r\<lparr>jb_status := JDeadLettered, jb_last_error := Some err, jb_locked_by := None, jb_locked_at := None\<rparr>"

definition mark_dead_lettered ::
  "externs \<Rightarrow> executor \<Rightarrow> uuid \<Rightarrow> string \<Rightarrow> (job_db srv, app_error, unit) eff" where
  "mark_dead_lettered x ex jid err = update_job x ex jid (dead_row err)"

definition stale_job :: "int \<Rightarrow> timestamp \<Rightarrow> job \<Rightarrow> bool" where
  "stale_job timeout now r \<longleftrightarrow>
     jb_status r = JRunning \<and>
     (case jb_locked_at r of None \<Rightarrow> False | Some t \<Rightarrow> t < now - 1000000 * timeout)"

definition released_row :: "timestamp \<Rightarrow> job \<Rightarrow> job" where
  "released_row now r = r\<lparr>jb_status := JPending, jb_locked_by := None, jb_locked_at := None\<rparr>"

definition release_stale_jobs ::
  "externs \<Rightarrow> executor \<Rightarrow> int \<Rightarrow> (job_db srv, app_error, nat) eff" where
  "release_stale_jobs x ex timeout =
     map_err (internal x) (stmt ex (\<lambda>now. update_jobs (stale_job timeout now) released_row now))"

definition old_completed :: "int \<Rightarrow> timestamp \<Rightarrow> job \<Rightarrow> bool" where
  "old_completed max_age now r \<longleftrightarrow> jb_status r = JCompleted \<and> jb_updated_at r < now - 1000000 * max_age"

definition cleanup_completed ::
  "externs \<Rightarrow> executor \<Rightarrow> int \<Rightarrow> (job_db srv, app_error, nat) eff" where
  "cleanup_completed x ex max_age =
     map_err (internal x) (stmt ex (\<lambda>now d.
       case delete_first 1000 (old_completed max_age now) (persistent_jobs d) of
         (k, rows) \<Rightarrow> Inr (k, d\<lparr>persistent_jobs := rows\<rparr>)))"

fun schedule_str :: "job_schedule \<Rightarrow> string" where
  "schedule_str (Cron s) = cs_text s"
| "schedule_str (Interval d) = ''@every '' @ show_nat (d div 1000000) @ ''s''"

text \<open>\<open>ON CONFLICT ... DO NOTHING\<close>: a clash with the index is answered without a row.\<close>

definition seed_recurring_job ::
  "externs \<Rightarrow> executor \<Rightarrow> recurring_job \<Rightarrow> (job_db srv, app_error, uuid option) eff" where
  "seed_recurring_job x ex def =
     bnd next_uuid (\<lambda>rid. map_err (internal x) (stmt ex (\<lambda>now d.
       case insert_job_sql (job_name_str (rj_name def)) (rj_payload def) (Some (schedule_str (rj_schedule def)))
              (Some (rj_dedup_key def)) (config_or jc_max_retries 5 (rj_config def))
              (config_or jc_timeout_seconds 300 (rj_config def)) rid now d of
         Inl e \<Rightarrow> if e = UniqueViolation ''idx_jobs_dedup'' then Inr (None, d) else Inl e
       | Inr (i, d') \<Rightarrow> Inr (Some i, d'))))"

definition reset_row :: "timestamp \<Rightarrow> timestamp \<Rightarrow> job \<Rightarrow> job" where
  "reset_row next now r =
     r\<lparr>jb_status := JPending, jb_next_run_at := next, jb_attempts := 0, jb_locked_by := None,
       jb_locked_at := None, jb_last_error := None\<rparr>"

definition reset_recurring ::
  "externs \<Rightarrow> executor \<Rightarrow> uuid \<Rightarrow> timestamp \<Rightarrow> (job_db srv, app_error, unit) eff" where
  "reset_recurring x ex jid next = update_job x ex jid (reset_row next)"

section \<open>Schedules\<close>

definition compute_next_run_at :: "externs \<Rightarrow> job_schedule \<Rightarrow> timestamp \<Rightarrow> (timestamp, 'e) result" where
  "compute_next_run_at x sched now =
     (case sched of
        Cron s \<Rightarrow> (case cs_next s now of Some t \<Rightarrow> Ok t | None \<Rightarrow> Panic ''cron schedule should always have a next tick'')
      | Interval d \<Rightarrow> (case dt_add x now d of Some t \<Rightarrow> Ok t | None \<Rightarrow> Panic ''time overflow''))"

text \<open>The ticks after a time up to now; there are at most as many as microseconds between.\<close>

primrec ticks_until :: "nat \<Rightarrow> cron_schedule \<Rightarrow> timestamp \<Rightarrow> timestamp \<Rightarrow> nat" where
  "ticks_until 0 s t now = 0"
| "ticks_until (Suc fuel) s t now =
     (case cs_next s t of
        Some u \<Rightarrow> if u \<le> now then Suc (ticks_until fuel s u now) else 0
      | None \<Rightarrow> 0)"

definition count_missed_ticks :: "job_schedule \<Rightarrow> timestamp \<Rightarrow> timestamp \<Rightarrow> nat" where
  "count_missed_ticks sched last_run now =
     (case sched of
        Cron s \<Rightarrow> ticks_until (nat (now - last_run)) s last_run now - 1
      | Interval d \<Rightarrow>
          let elapsed = nat (max ((now - last_run) div 1000000) 0); secs = d div 1000000 in
          if secs = 0 then 0 else elapsed div secs - 1)"

section \<open>Registry\<close>

text \<open>What became of a call of a handler under its time limit.\<close>

datatype job_outcome = Finished "(unit, job_error) result" | Elapsed

type_synonym 'x job_handler = "nat \<Rightarrow> json \<Rightarrow> 'x \<Rightarrow> job_outcome \<times> 'x"

record 'x job_registry =
  jr_handlers :: "string \<Rightarrow> 'x job_handler option"
  jr_recurring :: "recurring_job list"

definition registry_new :: "'x job_registry" where
  "registry_new = \<lparr>jr_handlers = (\<lambda>_. None), jr_recurring = []\<rparr>"

definition register :: "string \<Rightarrow> 'x job_handler \<Rightarrow> ('x job_registry, unit, unit) eff" where
  "register raw h reg =
     (case job_name_new raw of
        Ok name \<Rightarrow>
          if jr_handlers reg (job_name_str name) \<noteq> None
          then (Panic (''duplicate job handler registration for type: '' @ job_name_str name), reg)
          else (Ok (), reg\<lparr>jr_handlers := (jr_handlers reg)(job_name_str name \<mapsto> h)\<rparr>)
      | Err e \<Rightarrow>
          (Panic (''invalid job_type format '' @ [CHR 0x27] @ raw @ [CHR 0x27] @ '': '' @ app_error_str e), reg)
      | Panic p \<Rightarrow> (Panic p, reg))"

definition register_recurring :: "recurring_job \<Rightarrow> ('x job_registry, unit, unit) eff" where
  "register_recurring def reg =
     (if jr_handlers reg (job_name_str (rj_name def)) = None
      then (Panic (''handler for '' @ [CHR 0x27] @ job_name_str (rj_name def) @ [CHR 0x27] @
              '' must be registered before register_recurring()''), reg)
      else (Ok (), reg\<lparr>jr_recurring := jr_recurring reg @ [def]\<rparr>))"

section \<open>Runner\<close>

record job_runner_config =
  jn_instance_id :: string
  jn_max_concurrent_jobs :: nat
  jn_poll_interval :: nat \<comment> \<open>milliseconds\<close>
  jn_stale_lock_check_interval :: nat \<comment> \<open>seconds, as the durations below\<close>
  jn_stale_lock_timeout :: nat
  jn_cleanup_interval :: nat
  jn_cleanup_max_age :: nat
  jn_default_max_retries :: nat
  jn_default_timeout_seconds :: nat

definition job_runner_config_default :: "externs \<Rightarrow> uuid \<Rightarrow> job_runner_config" where
  "job_runner_config_default x i =
     \<lparr>jn_instance_id = uuid_str x i, jn_max_concurrent_jobs = 5, jn_poll_interval = 1000,
      jn_stale_lock_check_interval = 30, jn_stale_lock_timeout = 300, jn_cleanup_interval = 3600,
      jn_cleanup_max_age = 7 * 24 * 3600, jn_default_max_retries = 5, jn_default_timeout_seconds = 300\<rparr>"

text \<open>A spawned task holds the claimed row, its handler and what was looked up in the registry;
  the counter of tasks in flight is kept by a guard that the task drops when it ends, also by a
  panic.\<close>

record 'x job_task =
  tk_job :: job
  tk_handler :: "'x job_handler"
  tk_policy :: failure_policy
  tk_schedule :: "job_schedule option"

record 'x job_runner =
  ru_in_flight :: nat
  ru_tasks :: "'x job_task list"

definition job_task_of :: "'x job_registry \<Rightarrow> job \<Rightarrow> 'x job_handler \<Rightarrow> 'x job_task" where
  "job_task_of reg j h =
     (let def = (if jb_schedule j \<noteq> None
                 then find (\<lambda>d. job_name_str (rj_name d) = jb_type j) (jr_recurring reg) else None)
      in \<lparr>tk_job = j, tk_handler = h,
          tk_policy = (case def of Some d \<Rightarrow> rj_failure_policy d | None \<Rightarrow> Die),
          tk_schedule = map_option rj_schedule def\<rparr>)"

definition spawn_job :: "'x job_registry \<Rightarrow> job \<Rightarrow> 'x job_runner \<Rightarrow> 'x job_runner" where
  "spawn_job reg j ru =
     (case jr_handlers reg (jb_type j) of
        None \<Rightarrow> ru
      | Some h \<Rightarrow> ru\<lparr>ru_in_flight := ru_in_flight ru + 1, ru_tasks := ru_tasks ru @ [job_task_of reg j h]\<rparr>)"

definition process_available ::
  "externs \<Rightarrow> 'x job_registry \<Rightarrow> job_runner_config \<Rightarrow> (uuid \<Rightarrow> bool) \<Rightarrow> bool \<Rightarrow>
   'x job_runner \<times> job_db srv \<Rightarrow> 'x job_runner \<times> job_db srv" where
  "process_available x reg cfg busy stop =
     (\<lambda>(ru, s).
        if stop then (ru, s)
        else let capacity = cast_i32 (int (jn_max_concurrent_jobs cfg - ru_in_flight ru)) in
          if capacity \<le> 0 then (ru, s)
          else case claim_jobs x busy (nat capacity) (jn_instance_id cfg) s of
                 (Ok jobs, s') \<Rightarrow> (fold (spawn_job reg) jobs ru, s')
               | (_, s') \<Rightarrow> (ru, s'))"

text \<open>What the task does with the outcome. Errors of the statements are logged only; a panic while
  the next run is computed ends the task.\<close>

definition reset_to_next :: "externs \<Rightarrow> uuid \<Rightarrow> job_schedule \<Rightarrow> (job_db srv, unit, unit) eff" where
  "reset_to_next x jid sched =
     bnd next_stamp (\<lambda>(_, now).
     bnd (of_result (compute_next_run_at x sched now)) (\<lambda>next.
     bnd (attempt (reset_recurring x Pool jid next)) (\<lambda>_. ret ())))"

definition settle_job :: "externs \<Rightarrow> 'x job_task \<Rightarrow> job_outcome \<Rightarrow> (job_db srv, unit, unit) eff" where
  "settle_job x tk out =
     (let j = tk_job tk; jid = jb_id j in
      case out of
        Finished (Ok _) \<Rightarrow>
          bnd (attempt (mark_completed x Pool jid)) (\<lambda>_.
            case tk_schedule tk of None \<Rightarrow> ret () | Some sched \<Rightarrow> reset_to_next x jid sched)
      | Finished (Err (JTransient msg)) \<Rightarrow>
          bnd (attempt (job_retry_or_failed x Pool jid msg (jb_max_retries j))) (\<lambda>_.
            if jb_schedule j \<noteq> None \<and> jb_attempts j \<ge> jb_max_retries j
            then (case tk_policy tk of
                    Die \<Rightarrow> ret ()
                  | ResetToNext \<Rightarrow> (case tk_schedule tk of None \<Rightarrow> ret () | Some sched \<Rightarrow> reset_to_next x jid sched))
            else ret ())
      | Finished (Err (JPermanent msg)) \<Rightarrow>
          bnd (attempt (mark_dead_lettered x Pool jid msg)) (\<lambda>_. ret ())
      | Finished (Panic p) \<Rightarrow> panic p
      | Elapsed \<Rightarrow> ret ())"

definition run_task :: "externs \<Rightarrow> 'x job_task \<Rightarrow> job_db srv \<times> 'x \<Rightarrow> job_outcome \<times> job_db srv \<times> 'x" where
  "run_task x tk =
     (\<lambda>(s, self).
        case tk_handler tk (nat (jb_timeout_seconds (tk_job tk) mod 2 ^ 64)) (jb_payload (tk_job tk)) self of
          (out, self') \<Rightarrow> (out, snd (settle_job x tk out s), self'))"

definition task_ended :: "nat \<Rightarrow> 'x job_runner \<Rightarrow> 'x job_runner" where
  "task_ended i ru =
     ru\<lparr>ru_in_flight := ru_in_flight ru - 1, ru_tasks := take i (ru_tasks ru) @ drop (Suc i) (ru_tasks ru)\<rparr>"

definition seed_recurring_jobs :: "externs \<Rightarrow> 'x job_registry \<Rightarrow> (job_db srv, unit, unit) eff" where
  "seed_recurring_jobs x reg =
     for_each (\<lambda>def. bnd (attempt (seed_recurring_job x Pool def)) (\<lambda>_. ret ())) (jr_recurring reg)"

definition stale_jobs_turn :: "externs \<Rightarrow> job_runner_config \<Rightarrow> job_db srv \<Rightarrow> job_db srv" where
  "stale_jobs_turn x cfg s = snd (release_stale_jobs x Pool (int (jn_stale_lock_timeout cfg)) s)"

lemma cleanup_completed_shrinks:
  assumes "cleanup_completed x Pool age s = (Ok n, s')" "n \<noteq> 0"
  shows "length (persistent_jobs (committed s')) < length (persistent_jobs (committed s))"
proof -
  obtain k rows where d: "delete_first 1000 (old_completed age (clock s (ticks s))) (persistent_jobs (committed s)) = (k, rows)"
    by fastforce
  then show ?thesis
    using assms delete_first_count[OF d] by (auto simp: cleanup_completed_def map_err_def split: if_splits)
qed

function cleanup_jobs_drain :: "externs \<Rightarrow> int \<Rightarrow> bool list \<Rightarrow> job_db srv \<Rightarrow> nat \<times> job_db srv" where
  "cleanup_jobs_drain x age stops s =
     (if (case stops of [] \<Rightarrow> False | b # _ \<Rightarrow> b) then (0, s)
      else case cleanup_completed x Pool age s of
             (Ok n, s') \<Rightarrow>
               if n = 0 then (0, s')
               else (case cleanup_jobs_drain x age (tl stops) s' of (m, s'') \<Rightarrow> (n + m, s''))
           | (_, s') \<Rightarrow> (0, s'))"
  by pat_completeness auto
termination
  by (relation "measure (\<lambda>(x, age, stops, s). length (persistent_jobs (committed s)))")
     (auto dest!: cleanup_completed_shrinks[OF sym])

declare cleanup_jobs_drain.simps [simp del]

end
