(* ===== verification/Jobs_Proofs.thy ===== *)
theory Jobs_Proofs
  imports Jobs
begin

text \<open>
  What holds of the job table while any number of runners, crashed ones included, work on it: every
  statement is a step of its own. A task that has ended has reported its outcome and its statements
  may run at any later time, so the steps cover every interleaving of the runners' tasks; the code's
  \<open>settle_job\<close> is shown to be a run of these steps.
\<close>

section \<open>The system\<close>

record 'x job_system =
  js_srv :: "job_db srv"
  js_self :: 'x
  js_runners :: "nat \<Rightarrow> 'x job_runner"
  js_ended :: "('x job_task \<times> job_outcome) list" \<comment> \<open>tasks whose handler has returned\<close>
  js_inserted :: "uuid list" \<comment> \<open>rows ever inserted\<close>

abbreviation jobs :: "'x job_system \<Rightarrow> job list" where
  "jobs y \<equiv> persistent_jobs (committed (js_srv y))"

definition succeeded :: "'x job_system \<Rightarrow> uuid \<Rightarrow> bool" where
  "succeeded y jid \<longleftrightarrow> list_ex (\<lambda>(tk, out). jb_id (tk_job tk) = jid \<and> out = Finished (Ok ())) (js_ended y)"

text \<open>The updates that a task with this outcome may issue.\<close>

fun settles :: "'x job_task \<Rightarrow> job_outcome \<Rightarrow> (timestamp \<Rightarrow> job \<Rightarrow> job) \<Rightarrow> bool" where
  "settles tk (Finished (Ok _)) f \<longleftrightarrow> f = completed_row \<or> (\<exists>next. f = reset_row next)"
| "settles tk (Finished (Err (JTransient m))) f \<longleftrightarrow>
     f = job_retry_row m (jb_max_retries (tk_job tk)) \<or> (\<exists>next. f = reset_row next)"
| "settles tk (Finished (Err (JPermanent m))) f \<longleftrightarrow> f = dead_row m"
| "settles tk _ f \<longleftrightarrow> False"

inductive job_step ::
  "externs \<Rightarrow> 'x job_registry \<Rightarrow> (nat \<Rightarrow> job_runner_config) \<Rightarrow> 'x job_system \<Rightarrow> 'x job_system \<Rightarrow> bool"
  for x reg cfgs where
  step_claim: "process_available x reg (cfgs k) busy stop (js_runners y k, js_srv y) = (ru, s) \<Longrightarrow>
     job_step x reg cfgs y (y\<lparr>js_srv := s, js_runners := (js_runners y)(k := ru)\<rparr>)"
| step_execute: "i < length (ru_tasks (js_runners y k)) \<Longrightarrow> tk = ru_tasks (js_runners y k) ! i \<Longrightarrow>
     tk_handler tk (nat (jb_timeout_seconds (tk_job tk) mod 2 ^ 64)) (jb_payload (tk_job tk)) (js_self y) = (out, self') \<Longrightarrow>
     job_step x reg cfgs y (y\<lparr>js_self := self', js_runners := (js_runners y)(k := task_ended i (js_runners y k)),
       js_ended := js_ended y @ [(tk, out)]\<rparr>)"
| step_settle: "(tk, out) \<in> set (js_ended y) \<Longrightarrow> settles tk out f \<Longrightarrow>
     job_step x reg cfgs y (y\<lparr>js_srv := snd (update_job x Pool (jb_id (tk_job tk)) f (js_srv y))\<rparr>)"
| step_stale: "job_step x reg cfgs y (y\<lparr>js_srv := stale_jobs_turn x (cfgs k) (js_srv y)\<rparr>)"
| step_cleanup: "job_step x reg cfgs y (y\<lparr>js_srv := snd (cleanup_completed x Pool age (js_srv y))\<rparr>)"
| step_enqueue: "enqueue_job x Pool name pl c (js_srv y) = (Ok jid, s) \<Longrightarrow>
     job_step x reg cfgs y (y\<lparr>js_srv := s, js_inserted := js_inserted y @ [jid]\<rparr>)"
| step_seed: "seed_recurring_job x Pool def (js_srv y) = (Ok (Some jid), s) \<Longrightarrow>
     job_step x reg cfgs y (y\<lparr>js_srv := s, js_inserted := js_inserted y @ [jid]\<rparr>)"
| step_crash: "job_step x reg cfgs y (y\<lparr>js_runners := (js_runners y)(k := \<lparr>ru_in_flight = 0, ru_tasks = []\<rparr>)\<rparr>)"
| step_world: "committed s = committed (js_srv y) \<Longrightarrow> job_step x reg cfgs y (y\<lparr>js_srv := s\<rparr>)"

inductive_cases job_stepE: "job_step x reg cfgs y y'"

definition job_start :: "'x job_system \<Rightarrow> bool" where
  "job_start y \<longleftrightarrow> jobs y = [] \<and> js_ended y = [] \<and> js_inserted y = [] \<and>
     js_runners y = (\<lambda>_. \<lparr>ru_in_flight = 0, ru_tasks = []\<rparr>)"

inductive job_run ::
  "externs \<Rightarrow> 'x job_registry \<Rightarrow> (nat \<Rightarrow> job_runner_config) \<Rightarrow> 'x job_system \<Rightarrow> 'x job_system \<Rightarrow> bool"
  for x reg cfgs where
  run_refl: "job_run x reg cfgs y y"
| run_step: "job_run x reg cfgs y y' \<Longrightarrow> job_step x reg cfgs y' y'' \<Longrightarrow> job_run x reg cfgs y y''"

lemma job_run_trans: "job_run x reg cfgs y y' \<Longrightarrow> job_run x reg cfgs y' y'' \<Longrightarrow> job_run x reg cfgs y y''"
  by (rotate_tac, induction rule: job_run.induct) (auto intro: job_run.intros)

lemma job_run_single: "job_step x reg cfgs y y' \<Longrightarrow> job_run x reg cfgs y y'"
  by (rule run_step[OF run_refl])

section \<open>Statements\<close>

definition jobs_ok :: "job list \<Rightarrow> bool" where
  "jobs_ok rows \<longleftrightarrow> distinct (map jb_id rows) \<and> distinct (dedup_entries rows)"

lemma touched_id [simp]: "jb_id (f now r) = jb_id r \<Longrightarrow> jb_id (touched f now r) = jb_id r"
  by (simp add: touched_def)

lemma touched_status [simp]: "jb_status (touched f now r) = jb_status (f now r)"
  by (simp add: touched_def)

lemma row_ids [simp]:
  "jb_id (running_row inst now r) = jb_id r" "jb_id (completed_row now r) = jb_id r"
  "jb_id (job_retry_row err k now r) = jb_id r" "jb_id (dead_row err now r) = jb_id r"
  "jb_id (released_row now r) = jb_id r" "jb_id (reset_row next now r) = jb_id r"
  by (simp_all add: running_row_def completed_row_def job_retry_row_def dead_row_def released_row_def reset_row_def)

lemma row_status [simp]:
  "jb_status (running_row inst now r) = JRunning" "jb_status (completed_row now r) = JCompleted"
  "jb_status (dead_row err now r) = JDeadLettered" "jb_status (released_row now r) = JPending"
  "jb_status (reset_row next now r) = JPending" "jb_status (job_retry_row err k now r) \<noteq> JCompleted"
  by (simp_all add: running_row_def completed_row_def job_retry_row_def dead_row_def released_row_def reset_row_def)

text \<open>A successful update keeps the identifiers and the index, and changes the chosen rows only.\<close>

lemma update_jobs_Inr:
  assumes "update_jobs P f now d = Inr (n, d')" and "\<And>r. jb_id (f now r) = jb_id r"
  shows "map jb_id (persistent_jobs d') = map jb_id (persistent_jobs d)"
    and "jobs_ok (persistent_jobs d) \<Longrightarrow> jobs_ok (persistent_jobs d')"
    and "r' \<in> set (persistent_jobs d') \<Longrightarrow>
      r' \<in> set (persistent_jobs d) \<or>
      (\<exists>r \<in> set (persistent_jobs d). P r \<and> job_transition_ok r (f now r) \<and> r' = touched f now r)"
proof -
  have rows: "persistent_jobs d' = update_where P (touched f now) (persistent_jobs d)"
    and "distinct (dedup_entries (persistent_jobs d'))"
    and ok: "\<And>r. r \<in> set (persistent_jobs d) \<Longrightarrow> P r \<Longrightarrow> job_transition_ok r (f now r)"
    using assms(1) by (auto simp: update_jobs_def Let_def list_ex_iff split: if_splits)
  show ids: "map jb_id (persistent_jobs d') = map jb_id (persistent_jobs d)"
    unfolding rows by (rule map_update_where) (simp add: assms(2))
  show "jobs_ok (persistent_jobs d) \<Longrightarrow> jobs_ok (persistent_jobs d')"
    using ids \<open>distinct (dedup_entries (persistent_jobs d'))\<close> by (simp add: jobs_ok_def)
  show "r' \<in> set (persistent_jobs d') \<Longrightarrow> r' \<in> set (persistent_jobs d) \<or>
      (\<exists>r \<in> set (persistent_jobs d). P r \<and> job_transition_ok r (f now r) \<and> r' = touched f now r)"
    using ok by (auto simp: rows set_update_where split: if_splits)
qed

lemma insert_job_Inr:
  assumes "insert_job_sql name pl sched key retries tmo rid now d = Inr (i, d')"
  obtains r where "persistent_jobs d' = persistent_jobs d @ [r]" "jb_id r = rid" "i = rid" "jb_status r = JPending"
    "jobs_ok (persistent_jobs d) \<Longrightarrow> jobs_ok (persistent_jobs d')"
proof -
  obtain name' where n: "varchar_col 255 name = Inr name'"
    using assms by (cases "varchar_col 255 name") (auto simp: insert_job_sql_def)
  obtain sched' where sc: "opt_varchar 255 sched = Inr sched'"
    using assms n by (cases "opt_varchar 255 sched") (auto simp: insert_job_sql_def)
  obtain key' where k: "opt_varchar 255 key = Inr key'"
    using assms n sc by (cases "opt_varchar 255 key") (auto simp: insert_job_sql_def)
  define row where "row = job_row name' pl sched' key' retries tmo rid now"
  have row: "jb_id row = rid" "jb_status row = JPending" by (simp_all add: row_def job_row_def)
  have r: "rid \<notin> jb_id ` set (persistent_jobs d)" "i = rid" "persistent_jobs d' = persistent_jobs d @ [row]"
    "\<And>e. dedup_entry row = Some e \<Longrightarrow> e \<notin> set (dedup_entries (persistent_jobs d))"
    using assms unfolding insert_job_sql_def n sc k by (auto simp: Let_def row_def[symmetric] split: if_splits)
  have "dedup_entries (persistent_jobs d') =
      dedup_entries (persistent_jobs d) @ (case dedup_entry row of None \<Rightarrow> [] | Some e \<Rightarrow> [e])"
    by (simp add: r(3) dedup_entries_def map_filter_def split: option.split)
  then have "jobs_ok (persistent_jobs d')" if "jobs_ok (persistent_jobs d)"
    using that r(1,3,4) row(1) by (auto simp: jobs_ok_def image_iff split: option.splits)
  then show thesis using that[OF r(3) row(1) r(2) row(2)] by blast
qed

lemma pool_statement:
  assumes "map_err g (stmt Pool f) s = (r, t)"
  shows "(r \<noteq> Ok a \<or> f (clock s (ticks s)) (committed s) = Inr (a, committed t)) \<and>
    (committed t = committed s \<or> (\<exists>a. f (clock s (ticks s)) (committed s) = Inr (a, committed t)))"
  using assms by (auto simp: map_err_def split: if_splits sum.splits)

lemma delete_first_subseq: "delete_first n P rows = (k, rows') \<Longrightarrow> subseq rows' rows"
  by (induction n P rows arbitrary: k rows' rule: delete_first.induct)
     (auto split: if_splits prod.splits)

lemma subseq_distinct: "subseq xs ys \<Longrightarrow> distinct ys \<Longrightarrow> distinct xs"
proof (induction rule: list_emb.induct)
  case (list_emb_Cons2 u v us vs)
  have "set us \<subseteq> set vs" using list_emb_Cons2(2) by (induction rule: list_emb.induct) auto
  then show ?case using list_emb_Cons2 by auto
qed auto

lemma subseq_distinct_map: "subseq xs ys \<Longrightarrow> distinct (map f ys) \<Longrightarrow> distinct (map f xs)"
  by (rule subseq_distinct[OF subseq_map])

lemma subseq_dedup: "subseq xs ys \<Longrightarrow> distinct (dedup_entries ys) \<Longrightarrow> distinct (dedup_entries xs)"
proof -
  have "subseq xs ys \<Longrightarrow> subseq (dedup_entries xs) (dedup_entries ys)"
    by (induction rule: list_emb.induct) (auto simp: dedup_entries_def map_filter_def)
  then show "subseq xs ys \<Longrightarrow> distinct (dedup_entries ys) \<Longrightarrow> distinct (dedup_entries xs)"
    by (rule subseq_distinct)
qed

section \<open>The invariant\<close>

definition system_jobs_ok :: "'x job_system \<Rightarrow> bool" where
  "system_jobs_ok y \<longleftrightarrow>
     jobs_ok (jobs y) \<and>
     (\<forall>r \<in> set (jobs y). jb_status r = JCompleted \<longrightarrow> succeeded y (jb_id r)) \<and>
     (\<forall>jid \<in> set (js_inserted y). jid \<in> jb_id ` set (jobs y) \<or> succeeded y jid)"

text \<open>An update that completes only jobs that succeeded keeps it.\<close>

lemma system_update:
  assumes ok: "system_jobs_ok y" and u: "update_jobs P f now (committed (js_srv y)) = Inr (n, committed s)"
    and ids: "\<And>r. jb_id (f now r) = jb_id r"
    and comp: "\<And>r. r \<in> set (jobs y) \<Longrightarrow> P r \<Longrightarrow> jb_status (f now r) = JCompleted \<Longrightarrow> succeeded y (jb_id r)"
  shows "system_jobs_ok (y\<lparr>js_srv := s\<rparr>)"
proof -
  note u' = update_jobs_Inr[OF u ids]
  have "succeeded y (jb_id r')" if "r' \<in> set (persistent_jobs (committed s))" "jb_status r' = JCompleted" for r'
    using u'(3)[OF that(1)] that(2) ok comp ids by (auto simp: system_jobs_ok_def)
  moreover have "jb_id ` set (persistent_jobs (committed s)) = jb_id ` set (jobs y)"
    using arg_cong[OF u'(1), of set] by simp
  ultimately show ?thesis using ok u'(2) by (simp add: system_jobs_ok_def succeeded_def)
qed

lemma system_same: "system_jobs_ok y \<Longrightarrow> committed s = committed (js_srv y) \<Longrightarrow> system_jobs_ok (y\<lparr>js_srv := s\<rparr>)"
  by (simp add: system_jobs_ok_def succeeded_def)

lemma system_update_job:
  assumes "system_jobs_ok y" and "\<And>now r. jb_id (f now r) = jb_id r"
    and "\<And>now r. jb_status (f now r) = JCompleted \<Longrightarrow> jb_id r = jid \<Longrightarrow> succeeded y jid"
  shows "system_jobs_ok (y\<lparr>js_srv := snd (update_job x Pool jid f (js_srv y))\<rparr>)"
proof -
  obtain r t where m: "map_err (internal x) (stmt Pool (update_jobs (\<lambda>r. jb_id r = jid) f)) (js_srv y) = (r, t)"
    by fastforce
  have "snd (update_job x Pool jid f (js_srv y)) = t"
    using m by (cases r) (simp_all add: update_job_def bnd_def ret_def)
  moreover have "system_jobs_ok (y\<lparr>js_srv := t\<rparr>)"
    using pool_statement[OF m] system_update[OF assms(1), of "\<lambda>r. jb_id r = jid" f] system_same[OF assms(1)] assms(2,3)
    by blast
  ultimately show ?thesis by simp
qed

lemma system_insert:
  assumes "system_jobs_ok y" "insert_job_sql name pl sched key retries tmo rid now (committed (js_srv y)) = Inr (jid, committed s)"
  shows "system_jobs_ok (y\<lparr>js_srv := s, js_inserted := js_inserted y @ [jid]\<rparr>)"
  using assms(1) by (rule_tac insert_job_Inr[OF assms(2)]) (auto simp: system_jobs_ok_def succeeded_def)

lemma claim_jobs_run:
  assumes "claim_jobs x busy n inst s = (r, t)"
  obtains (none) "committed t = committed s" "\<And>js. r = Ok js \<Longrightarrow> js = []"
  | (claim) ids inst' k where "length ids \<le> n"
      "update_jobs (\<lambda>r. jb_id r \<in> set ids) (running_row inst') (clock s (ticks s)) (committed s) = Inr (k, committed t)"
      "r = Ok (filter (\<lambda>r. jb_id r \<in> set ids) (persistent_jobs (committed t)))"
proof -
  let ?ids = "map jb_id (claimable_jobs busy n (clock s (ticks s)) (persistent_jobs (committed s)))"
  have "length ?ids \<le> n" by (simp add: claimable_jobs_def)
  then show thesis using assms none claim[of ?ids]
    by (auto simp: claim_jobs_def map_err_def claim_jobs_sql_def Let_def split: if_splits sum.splits prod.splits)
qed

lemma process_available_committed:
  assumes "system_jobs_ok y" "process_available x reg cfg busy stop (ru, js_srv y) = (ru', s)"
  shows "system_jobs_ok (y\<lparr>js_srv := s\<rparr>)"
proof -
  have "s = js_srv y \<or> (\<exists>n r. claim_jobs x busy n (jn_instance_id cfg) (js_srv y) = (r, s))"
    using assms(2) by (auto simp: process_available_def Let_def split: if_splits prod.splits result.splits)
  then show ?thesis
  proof
    assume "\<exists>n r. claim_jobs x busy n (jn_instance_id cfg) (js_srv y) = (r, s)"
    then obtain n r where "claim_jobs x busy n (jn_instance_id cfg) (js_srv y) = (r, s)" by blast
    then show ?thesis
      by (cases rule: claim_jobs_run) (use assms(1) in \<open>auto intro: system_same system_update\<close>)
  qed (use assms(1) in \<open>auto intro: system_same\<close>)
qed

lemma seed_Some:
  assumes "seed_recurring_job x Pool def s = (Ok (Some jid), t)"
  obtains name pl sched key retries tmo rid now where
    "insert_job_sql name pl sched key retries tmo rid now (committed s) = Inr (jid, committed t)"
  using assms
  by (auto simp: seed_recurring_job_def bnd_def next_uuid_def map_err_Ok_iff split: if_splits sum.splits prod.splits
      intro: that)

lemma enqueue_Ok:
  assumes "enqueue_job x Pool name pl c s = (Ok jid, t)"
  obtains n pl sched key retries tmo rid now where
    "insert_job_sql n pl sched key retries tmo rid now (committed s) = Inr (jid, committed t)"
  using assms
  by (auto simp: enqueue_job_def bnd_def next_uuid_def map_err_Ok_iff split: if_splits sum.splits prod.splits intro: that)

lemma system_cleanup:
  assumes "system_jobs_ok y"
  shows "system_jobs_ok (y\<lparr>js_srv := snd (cleanup_completed x Pool age (js_srv y))\<rparr>)"
proof -
  obtain r t where m: "cleanup_completed x Pool age (js_srv y) = (r, t)" by fastforce
  obtain k rows where d: "delete_first 1000 (old_completed age (clock (js_srv y) (ticks (js_srv y)))) (jobs y) = (k, rows)"
    by fastforce
  have "committed t = committed (js_srv y) \<or> committed t = (committed (js_srv y))\<lparr>persistent_jobs := rows\<rparr>"
    using pool_statement[OF m[unfolded cleanup_completed_def]] d by auto
  then show ?thesis
  proof
    assume "committed t = (committed (js_srv y))\<lparr>persistent_jobs := rows\<rparr>"
    then have rows: "persistent_jobs (committed t) = rows" by simp
    have sub: "subseq rows (jobs y)" by (rule delete_first_subseq[OF d])
    have "jobs_ok rows"
      using assms subseq_distinct_map[OF sub, of jb_id] subseq_dedup[OF sub] by (simp add: system_jobs_ok_def jobs_ok_def)
    moreover have "jid \<in> jb_id ` set rows \<or> succeeded y jid" if "jid \<in> jb_id ` set (jobs y)" for jid
      using that delete_first_members[OF d] assms by (fastforce simp: old_completed_def system_jobs_ok_def)
    ultimately have "system_jobs_ok (y\<lparr>js_srv := t\<rparr>)"
      using assms rows delete_first_members[OF d] unfolding system_jobs_ok_def succeeded_def by fastforce
    then show ?thesis using m by simp
  qed (use assms m in \<open>auto intro: system_same\<close>)
qed

lemma system_stale:
  assumes "system_jobs_ok y" shows "system_jobs_ok (y\<lparr>js_srv := stale_jobs_turn x cfg (js_srv y)\<rparr>)"
proof -
  obtain r t where m: "release_stale_jobs x Pool (int (jn_stale_lock_timeout cfg)) (js_srv y) = (r, t)" by fastforce
  have "system_jobs_ok (y\<lparr>js_srv := t\<rparr>)"
    using pool_statement[OF m[unfolded release_stale_jobs_def]] system_same[OF assms]
      system_update[OF assms, of _ released_row] by fastforce
  then show ?thesis using m by (simp add: stale_jobs_turn_def)
qed

lemma settles_facts:
  assumes "settles tk out f"
  shows "jb_id (f now r) = jb_id r" "jb_status (f now r) = JCompleted \<Longrightarrow> out = Finished (Ok ())"
  using assms by (induction tk out f rule: settles.induct) auto

lemma system_step: "job_step x reg cfgs y y' \<Longrightarrow> system_jobs_ok y \<Longrightarrow> system_jobs_ok y'"
proof (induction rule: job_step.induct)
  case (step_claim k busy stop y ru s)
  then have "system_jobs_ok (y\<lparr>js_srv := s\<rparr>)" by (auto intro: process_available_committed)
  then show ?case by (simp add: system_jobs_ok_def succeeded_def)
next
  case (step_execute i y k tk out self')
  then show ?case by (auto simp: system_jobs_ok_def succeeded_def)
next
  case (step_settle tk out y f)
  have "succeeded y (jb_id (tk_job tk))" if "out = Finished (Ok ())"
    using step_settle(1) that by (force simp: succeeded_def list_ex_iff)
  then show ?case using settles_facts[OF step_settle(2)]
    by (intro system_update_job[OF step_settle(3)]) blast+
next
  case (step_enqueue name pl c y jid s)
  from step_enqueue(1) show ?case
    by (rule enqueue_Ok) (rule system_insert[OF step_enqueue(2)])
next
  case (step_seed def y jid s)
  from step_seed(1) show ?case
    by (rule seed_Some) (rule system_insert[OF step_seed(2)])
next
  case (step_crash y k)
  then show ?case by (simp add: system_jobs_ok_def succeeded_def)
qed (auto intro: system_stale system_cleanup system_same)

lemma system_run: "job_run x reg cfgs y y' \<Longrightarrow> job_start y \<Longrightarrow> system_jobs_ok y'"
proof (induction rule: job_run.induct)
  case (run_refl y)
  then show ?case
    by (simp add: job_start_def system_jobs_ok_def jobs_ok_def dedup_entries_def map_filter_def)
qed (auto intro: system_step)

section \<open>Tasks in flight\<close>

definition runner_ok :: "job_runner_config \<Rightarrow> 'x job_runner \<Rightarrow> bool" where
  "runner_ok cfg ru \<longleftrightarrow> ru_in_flight ru = length (ru_tasks ru) \<and> ru_in_flight ru \<le> jn_max_concurrent_jobs cfg"

lemma cast_i32_le: "0 \<le> i \<Longrightarrow> cast_i32 i \<le> i"
  using zmod_le_nonneg_dividend[of "i + 2 ^ 31" "2 ^ 32"] by (simp add: cast_i32_def)

lemma fold_spawn_job:
  "ru_in_flight ru = length (ru_tasks ru) \<Longrightarrow>
     ru_in_flight (fold (spawn_job reg) js ru) = length (ru_tasks (fold (spawn_job reg) js ru)) \<and>
     ru_in_flight (fold (spawn_job reg) js ru) \<le> ru_in_flight ru + length js"
proof (induction js arbitrary: ru)
  case (Cons j js)
  have "ru_in_flight (spawn_job reg j ru) = length (ru_tasks (spawn_job reg j ru))"
    "ru_in_flight (spawn_job reg j ru) \<le> Suc (ru_in_flight ru)"
    using Cons.prems by (simp_all add: spawn_job_def split: option.split)
  then show ?case using Cons.IH[of "spawn_job reg j ru"] by auto
qed simp

lemma length_filter_ids: "distinct (map k rows) \<Longrightarrow> length (filter (\<lambda>r. k r \<in> set ids) rows) \<le> length ids"
proof -
  assume "distinct (map k rows)"
  then have "length (filter (\<lambda>r. k r \<in> set ids) rows) = card (k ` set (filter (\<lambda>r. k r \<in> set ids) rows))"
    by (metis distinct_card distinct_map_filter length_map set_map)
  also have "\<dots> \<le> card (set ids)" by (rule card_mono) auto
  also have "\<dots> \<le> length ids" by (rule card_length)
  finally show ?thesis .
qed

lemma process_available_runner:
  assumes "system_jobs_ok y" "runner_ok cfg ru" "process_available x reg cfg busy stop (ru, js_srv y) = (ru', s)"
  shows "runner_ok cfg ru'"
proof (cases "ru' = ru")
  case False
  define n where "n = nat (cast_i32 (int (jn_max_concurrent_jobs cfg - ru_in_flight ru)))"
  obtain js where c: "claim_jobs x busy n (jn_instance_id cfg) (js_srv y) = (Ok js, s)" "ru' = fold (spawn_job reg) js ru"
    using assms(3) False
    by (auto simp: process_available_def Let_def n_def[symmetric] split: if_splits prod.splits result.splits)
  have n: "n \<le> jn_max_concurrent_jobs cfg - ru_in_flight ru"
    using cast_i32_le[of "int (jn_max_concurrent_jobs cfg - ru_in_flight ru)"] by (simp add: n_def nat_le_iff)
  have "length js \<le> n" using c(1)
  proof (cases rule: claim_jobs_run)
    case (claim ids inst' k)
    have "jobs_ok (persistent_jobs (committed s))"
      by (rule update_jobs_Inr(2)[OF claim(2)]) (use assms(1) in \<open>auto simp: system_jobs_ok_def\<close>)
    then have "distinct (map jb_id (persistent_jobs (committed s)))" by (simp add: jobs_ok_def)
    from length_filter_ids[OF this, of ids] claim(1,3) show ?thesis by simp
  qed simp
  then show ?thesis using fold_spawn_job[of ru reg js] c(2) n assms(2) by (auto simp: runner_ok_def)
qed (use assms in simp)

lemma runner_step:
  "job_step x reg cfgs y y' \<Longrightarrow> system_jobs_ok y \<Longrightarrow> runner_ok (cfgs k) (js_runners y k) \<Longrightarrow> runner_ok (cfgs k) (js_runners y' k)"
proof (induction rule: job_step.induct)
  case (step_claim k' busy stop y ru s)
  then show ?case using process_available_runner[of y "cfgs k" "js_runners y k" x reg busy stop ru s] by auto
next
  case (step_execute i y k' tk out self')
  then show ?case by (auto simp: runner_ok_def task_ended_def)
qed (auto simp: runner_ok_def)

lemma runner_run:
  "job_run x reg cfgs y y' \<Longrightarrow> job_start y \<Longrightarrow> runner_ok (cfgs k) (js_runners y' k)"
proof (induction rule: job_run.induct)
  case (run_step y y' y'')
  then show ?case using runner_step[OF run_step(2) system_run[OF run_step(1)]] by blast
qed (simp add: job_start_def runner_ok_def)

section \<open>Refinement\<close>

lemma update_job_attempt:
  "snd (bnd (attempt (update_job x Pool jid f)) (\<lambda>_. m) s) = snd (m (snd (update_job x Pool jid f s)))"
  by (simp add: bnd_def attempt_def update_job_def map_err_def ret_def split: sum.split prod.split)

lemma run_settles:
  assumes "(tk, out) \<in> set (js_ended y)" "settles tk out f"
  shows "job_run x reg cfgs y (y\<lparr>js_srv := snd (update_job x Pool (jb_id (tk_job tk)) f (js_srv y))\<rparr>)"
  by (rule job_run_single[OF step_settle[OF assms]])

lemma run_reset_to_next:
  assumes "(tk, out) \<in> set (js_ended y)" "\<And>next. settles tk out (reset_row next)"
  shows "job_run x reg cfgs y (y\<lparr>js_srv := snd (reset_to_next x (jb_id (tk_job tk)) sched (js_srv y))\<rparr>)"
proof -
  let ?s = "(js_srv y)\<lparr>ticks := Suc (ticks (js_srv y))\<rparr>"
  have w: "job_run x reg cfgs y (y\<lparr>js_srv := ?s\<rparr>)" by (rule job_run_single[OF step_world]) simp
  show ?thesis
  proof (cases "compute_next_run_at x sched (clock (js_srv y) (ticks (js_srv y))) :: (timestamp, unit) result")
    case (Ok nx)
    then have "snd (reset_to_next x (jb_id (tk_job tk)) sched (js_srv y)) =
        snd (update_job x Pool (jb_id (tk_job tk)) (reset_row nx) ?s)"
      using update_job_attempt[of x "jb_id (tk_job tk)" "reset_row nx" "ret ()" ?s]
      by (simp add: reset_to_next_def bnd_def[of next_stamp] bnd_def[of "of_result _"] next_stamp_def of_result_def
          reset_recurring_def ret_def)
    then show ?thesis using job_run_trans[OF w run_settles[of tk out "y\<lparr>js_srv := ?s\<rparr>"]] assms by simp
  qed (use w in \<open>simp_all add: reset_to_next_def bnd_def next_stamp_def of_result_def\<close>)
qed

lemma run_settle_job:
  assumes "(tk, out) \<in> set (js_ended y)"
  shows "job_run x reg cfgs y (y\<lparr>js_srv := snd (settle_job x tk out (js_srv y))\<rparr>)"
proof -
  let ?jid = "jb_id (tk_job tk)"
  have seq: "job_run x reg cfgs y (y\<lparr>js_srv := snd (bnd (attempt (update_job x Pool ?jid f)) (\<lambda>_. m) (js_srv y))\<rparr>)"
    if "settles tk out f" "m = ret () \<or> (\<exists>sched. m = reset_to_next x ?jid sched \<and> (\<forall>next. settles tk out (reset_row next)))"
    for f and m :: "(job_db srv, unit, unit) eff"
  proof -
    let ?y = "y\<lparr>js_srv := snd (update_job x Pool ?jid f (js_srv y))\<rparr>"
    have "job_run x reg cfgs ?y (?y\<lparr>js_srv := snd (m (js_srv ?y))\<rparr>)"
      using that(2) run_reset_to_next[of tk out ?y x reg cfgs] assms by (auto simp: ret_def intro: run_refl)
    from job_run_trans[OF run_settles[OF assms that(1)] this] show ?thesis by (simp add: update_job_attempt)
  qed
  show ?thesis
  proof (cases out)
    case (Finished r)
    show ?thesis
    proof (cases r)
      case (Ok u)
      then show ?thesis using seq[of completed_row] Finished
        by (auto simp: settle_job_def mark_completed_def Let_def split: option.split)
    next
      case (Err e)
      then show ?thesis
      proof (cases e)
        case (JTransient m)
        then show ?thesis using seq[of "job_retry_row m (jb_max_retries (tk_job tk))"] Finished Err
          by (auto simp: settle_job_def job_retry_or_failed_def Let_def split: option.split failure_policy.split)
      next
        case (JPermanent m)
        then show ?thesis using seq[of "dead_row m"] Finished Err
          by (auto simp: settle_job_def mark_dead_lettered_def Let_def)
      qed
    qed (auto simp: settle_job_def Finished panic_def Let_def intro: run_refl)
  qed (auto simp: settle_job_def ret_def Let_def intro: run_refl)
qed

section \<open>One job\<close>

text \<open>An update of one running row is accepted when the trigger allows it and the row keeps its
  entry in the index or leaves it.\<close>

lemma dedup_update_where:
  assumes "\<And>r. r \<in> set rows \<Longrightarrow> P r \<Longrightarrow> dedup_entry (f r) = dedup_entry r \<or> dedup_entry (f r) = None"
    and "distinct (dedup_entries rows)"
  shows "distinct (dedup_entries (update_where P f rows))"
proof -
  have "subseq (dedup_entries (update_where P f rows)) (dedup_entries rows)"
    using assms(1)
  proof (induction rows)
    case (Cons r rows)
    have "dedup_entry (f r) = dedup_entry r \<or> dedup_entry (f r) = None" if "P r" using Cons.prems that by simp
    moreover have "subseq (dedup_entries (update_where P f rows)) (dedup_entries rows)"
      by (rule Cons.IH) (use Cons.prems in auto)
    ultimately show ?case
      by (cases "dedup_entry r"; cases "dedup_entry (f r)") (auto simp: dedup_entries_def map_filter_def)
  qed simp
  then show ?thesis using assms(2) by (rule subseq_distinct)
qed

lemma run_update_job:
  assumes "faults s = []" "jobs_ok (persistent_jobs (committed s))"
    and "\<And>r. r \<in> set (persistent_jobs (committed s)) \<Longrightarrow> jb_id r = jid \<Longrightarrow>
      int4 (jb_attempts (f (clock s (ticks s)) r)) \<and> job_transition_ok r (f (clock s (ticks s)) r) \<and>
      (dedup_entry (touched f (clock s (ticks s)) r) = dedup_entry r \<or> dedup_entry (touched f (clock s (ticks s)) r) = None)"
  shows "update_job x Pool jid f s = (Ok (), s\<lparr>committed := (committed s)\<lparr>persistent_jobs :=
     update_where (\<lambda>r. jb_id r = jid) (touched f (clock s (ticks s))) (persistent_jobs (committed s))\<rparr>\<rparr>)"
proof -
  let ?now = "clock s (ticks s)"
  have d: "distinct (dedup_entries (update_where (\<lambda>r. jb_id r = jid) (touched f ?now) (persistent_jobs (committed s))))"
    by (rule dedup_update_where) (use assms in \<open>auto simp: jobs_ok_def\<close>)
  have "update_jobs (\<lambda>r. jb_id r = jid) f ?now (committed s) =
      Inr (count_where (\<lambda>r. jb_id r = jid) (persistent_jobs (committed s)), (committed s)\<lparr>persistent_jobs :=
        update_where (\<lambda>r. jb_id r = jid) (touched f ?now) (persistent_jobs (committed s))\<rparr>)"
    using assms(3) d by (auto simp: update_jobs_def Let_def list_ex_iff)
  then show ?thesis using assms(1) by (simp add: update_job_def bnd_def map_err_def ret_def)
qed

text \<open>The row that an outcome leaves of a running one-shot job.\<close>

definition settled_row :: "job_outcome \<Rightarrow> timestamp \<Rightarrow> job \<Rightarrow> job" where
  "settled_row out now r =
     (case out of
        Finished (Ok _) \<Rightarrow>
          r\<lparr>jb_status := JCompleted, jb_locked_by := None, jb_locked_at := None, jb_updated_at := now\<rparr>
      | Finished (Err (JTransient m)) \<Rightarrow>
          if jb_attempts r \<ge> jb_max_retries r
          then r\<lparr>jb_status := JFailed, jb_last_error := Some m, jb_locked_by := None, jb_locked_at := None, jb_updated_at := now\<rparr>
          else r\<lparr>jb_status := JPending, jb_next_run_at := now + 1000000 * 2 ^ nat (min (jb_attempts r) 10),
                 jb_last_error := Some m, jb_locked_by := None, jb_locked_at := None, jb_updated_at := now\<rparr>
      | Finished (Err (JPermanent m)) \<Rightarrow>
          r\<lparr>jb_status := JDeadLettered, jb_last_error := Some m, jb_locked_by := None, jb_locked_at := None, jb_updated_at := now\<rparr>
      | _ \<Rightarrow> r)"

lemma settle_update:
  assumes "faults s = []" "jobs_ok (persistent_jobs (committed s))" "tk_job tk = r" "r \<in> set (persistent_jobs (committed s))"
    and "jb_status r = JRunning" "int4 (jb_attempts r)"
    and "jb_attempts (f (clock s (ticks s)) r) = jb_attempts r" "job_transition JRunning (jb_status (f (clock s (ticks s)) r))"
      "jb_type (f (clock s (ticks s)) r) = jb_type r" "jb_dedup_key (f (clock s (ticks s)) r) = jb_dedup_key r"
    and "touched f (clock s (ticks s)) r = r'"
  shows "persistent_jobs (committed (snd (bnd (attempt (update_job x Pool (jb_id r) f)) (\<lambda>_. ret ()) s))) =
    update_where (\<lambda>q. jb_id q = jb_id r) (\<lambda>_. r') (persistent_jobs (committed s))"
proof -
  have uniq: "q = r" if "q \<in> set (persistent_jobs (committed s))" "jb_id q = jb_id r" for q
    using assms(2,4) that by (auto simp: jobs_ok_def distinct_map inj_on_def)
  have "update_job x Pool (jb_id r) f s = (Ok (), s\<lparr>committed := (committed s)\<lparr>persistent_jobs :=
     update_where (\<lambda>q. jb_id q = jb_id r) (touched f (clock s (ticks s))) (persistent_jobs (committed s))\<rparr>\<rparr>)"
    using assms(1,2)
  proof (rule run_update_job)
    fix q assume "q \<in> set (persistent_jobs (committed s))" "jb_id q = jb_id r"
    then have "q = r" by (rule uniq)
    then show "int4 (jb_attempts (f (clock s (ticks s)) q)) \<and> job_transition_ok q (f (clock s (ticks s)) q) \<and>
      (dedup_entry (touched f (clock s (ticks s)) q) = dedup_entry q \<or> dedup_entry (touched f (clock s (ticks s)) q) = None)"
      using assms(5-10) by (auto simp: job_transition_ok_def dedup_entry_def touched_def split: option.split)
  qed
  moreover have "update_where (\<lambda>q. jb_id q = jb_id r) (touched f (clock s (ticks s))) (persistent_jobs (committed s)) =
      update_where (\<lambda>q. jb_id q = jb_id r) (\<lambda>_. r') (persistent_jobs (committed s))"
    using uniq assms(11) by (auto simp: update_where_def)
  ultimately show ?thesis by (simp add: update_job_attempt ret_def)
qed

lemma settle_one_shot:
  assumes "faults s = []" "jobs_ok (persistent_jobs (committed s))" "tk_job tk = r" "r \<in> set (persistent_jobs (committed s))"
    and "jb_status r = JRunning" "int4 (jb_attempts r)" "jb_schedule r = None" "tk_schedule tk = None"
  shows "persistent_jobs (committed (snd (settle_job x tk out s))) =
    update_where (\<lambda>q. jb_id q = jb_id r) (\<lambda>_. settled_row out (clock s (ticks s)) r) (persistent_jobs (committed s))"
proof -
  note upd = settle_update[OF assms(1-6), where x = x]
  have same: "update_where (\<lambda>q. jb_id q = jb_id r) (\<lambda>_. r) (persistent_jobs (committed s)) = persistent_jobs (committed s)"
    using assms(2,4) by (auto simp: update_where_def jobs_ok_def distinct_map inj_on_def intro!: map_idI)
  show ?thesis
  proof (cases out)
    case (Finished q)
    show ?thesis
    proof (cases q)
      case (Ok u)
      then show ?thesis using Finished assms(3,8)
        by (simp add: settle_job_def mark_completed_def Let_def upd completed_row_def touched_def settled_row_def)
    next
      case (Err e)
      have retry: "touched (job_retry_row m (jb_max_retries r)) (clock s (ticks s)) r =
          settled_row (Finished (Err (JTransient m))) (clock s (ticks s)) r" for m
        by (rule job.equality) (simp_all add: touched_def job_retry_row_def settled_row_def backoff_secs_def)
      have "persistent_jobs (committed (snd (bnd (attempt (update_job x Pool (jb_id r) (job_retry_row m (jb_max_retries r)))) (\<lambda>_. ret ()) s))) =
          update_where (\<lambda>q. jb_id q = jb_id r) (\<lambda>_. settled_row (Finished (Err (JTransient m))) (clock s (ticks s)) r)
            (persistent_jobs (committed s))" for m
        by (rule upd[OF _ _ _ _ retry]) (simp_all add: job_retry_row_def)
      then show ?thesis using Finished Err assms(3,7)
      proof (cases e)
        case (JPermanent m)
        then show ?thesis using Finished Err assms(3)
          by (simp add: settle_job_def mark_dead_lettered_def Let_def upd dead_row_def touched_def settled_row_def)
      qed (simp add: settle_job_def job_retry_or_failed_def Let_def)
    qed (use Finished same in \<open>simp add: settle_job_def Let_def panic_def settled_row_def\<close>)
  qed (use same in \<open>simp add: settle_job_def Let_def ret_def settled_row_def\<close>)
qed

section \<open>A job that always runs out of time\<close>

lemma dedup_single [simp]: "distinct (dedup_entries [r])"
  by (simp add: dedup_entries_def map_filter_def)

lemma run_claim_single:
  assumes "jobs y = [r]" "jb_status r = JPending" "int4 (jb_attempts r + 1)" "faults (js_srv y) = []"
    and "jb_next_run_at r \<le> clock (js_srv y) (ticks (js_srv y))"
    and "js_runners y 0 = \<lparr>ru_in_flight = 0, ru_tasks = []\<rparr>" "jr_handlers reg (jb_type r) = Some h"
    and "length (jn_instance_id (cfgs 0)) \<le> 255" "0 < jn_max_concurrent_jobs (cfgs 0)" "jn_max_concurrent_jobs (cfgs 0) < 2 ^ 31"
  defines "r' \<equiv> touched (running_row (jn_instance_id (cfgs 0))) (clock (js_srv y) (ticks (js_srv y))) r"
  shows "job_step x reg cfgs y (y\<lparr>
      js_srv := (js_srv y)\<lparr>committed := (committed (js_srv y))\<lparr>persistent_jobs := [r']\<rparr>\<rparr>,
      js_runners := (js_runners y)(0 := \<lparr>ru_in_flight = 1, ru_tasks = [job_task_of reg r' h]\<rparr>)\<rparr>)"
proof -
  let ?now = "clock (js_srv y) (ticks (js_srv y))" and ?cfg = "cfgs 0"
  have cap: "cast_i32 (int (jn_max_concurrent_jobs ?cfg)) = int (jn_max_concurrent_jobs ?cfg)"
    using assms(10) by (intro cast_i32_id) simp_all
  have pick: "map jb_id (claimable_jobs (\<lambda>_. False) (jn_max_concurrent_jobs ?cfg) ?now [r]) = [jb_id r]"
    using assms(2,5,9) by (simp add: claimable_jobs_def)
  have "update_jobs (\<lambda>q. jb_id q \<in> set [jb_id r]) (running_row (jn_instance_id ?cfg)) ?now (committed (js_srv y)) =
      Inr (1, (committed (js_srv y))\<lparr>persistent_jobs := [r']\<rparr>)"
    using assms(1-3) by (simp add: update_jobs_def r'_def running_row_def[of _ _ r] job_transition_ok_def count_where_def)
  then have "claim_jobs_sql (\<lambda>_. False) (jn_max_concurrent_jobs ?cfg) (jn_instance_id ?cfg) ?now (committed (js_srv y)) =
      Inr ([r'], (committed (js_srv y))\<lparr>persistent_jobs := [r']\<rparr>)"
    using pick assms(1,8) by (simp add: claim_jobs_sql_def varchar_col_short r'_def)
  then have "claim_jobs x (\<lambda>_. False) (jn_max_concurrent_jobs ?cfg) (jn_instance_id ?cfg) (js_srv y) =
      (Ok [r'], (js_srv y)\<lparr>committed := (committed (js_srv y))\<lparr>persistent_jobs := [r']\<rparr>\<rparr>)"
    using assms(4) by (simp add: claim_jobs_def map_err_def)
  moreover have "jr_handlers reg (jb_type r') = Some h" using assms(7) by (simp add: r'_def touched_def running_row_def)
  ultimately have "process_available x reg ?cfg (\<lambda>_. False) False (js_runners y 0, js_srv y) =
      (\<lparr>ru_in_flight = 1, ru_tasks = [job_task_of reg r' h]\<rparr>,
       (js_srv y)\<lparr>committed := (committed (js_srv y))\<lparr>persistent_jobs := [r']\<rparr>\<rparr>)"
    using assms(6,9) cap by (simp add: process_available_def spawn_job_def)
  then show ?thesis by (rule step_claim)
qed

lemma run_stale_single:
  assumes "jobs y = [r]" "jb_status r = JRunning" "int4 (jb_attempts r)" "faults (js_srv y) = []"
    and "jb_locked_at r = Some t" "t < clock (js_srv y) (ticks (js_srv y)) - 1000000 * int (jn_stale_lock_timeout (cfgs 0))"
  shows "job_step x reg cfgs y (y\<lparr>js_srv := (js_srv y)\<lparr>committed := (committed (js_srv y))\<lparr>persistent_jobs :=
    [touched released_row (clock (js_srv y) (ticks (js_srv y))) r]\<rparr>\<rparr>\<rparr>)"
proof -
  have "stale_jobs_turn x (cfgs 0) (js_srv y) = (js_srv y)\<lparr>committed := (committed (js_srv y))\<lparr>persistent_jobs :=
    [touched released_row (clock (js_srv y) (ticks (js_srv y))) r]\<rparr>\<rparr>"
    using assms by (simp add: stale_jobs_turn_def release_stale_jobs_def map_err_def update_jobs_def stale_job_def
        released_row_def[of _ r] job_transition_ok_def)
  then show ?thesis using step_stale[of x reg cfgs y 0] by simp
qed

definition idle_with :: "'x job_system \<Rightarrow> job \<Rightarrow> bool" where
  "idle_with y r \<longleftrightarrow> jobs y = [r] \<and> jb_status r = JPending \<and> js_runners y 0 = \<lparr>ru_in_flight = 0, ru_tasks = []\<rparr>"

lemma timeout_round:
  assumes "idle_with y r" "int4 (jb_attempts r + 1)" "0 \<le> jb_attempts r"
    and "jr_handlers reg (jb_type r) = Some h" "\<And>n p z. \<exists>z'. h n p z = (Elapsed, z')"
    and "length (jn_instance_id (cfgs 0)) \<le> 255" "0 < jn_max_concurrent_jobs (cfgs 0)" "jn_max_concurrent_jobs (cfgs 0) < 2 ^ 31"
  shows "\<exists>y' r'. job_run x reg cfgs y y' \<and> idle_with y' r' \<and> jb_attempts r' = jb_attempts r + 1 \<and>
    jb_type r' = jb_type r \<and> jb_max_retries r' = jb_max_retries r"
proof -
  define y1 where "y1 = y\<lparr>js_srv := (js_srv y)\<lparr>faults := [], clock := (\<lambda>_. jb_next_run_at r)\<rparr>\<rparr>"
  have s1: "job_step x reg cfgs y y1" unfolding y1_def by (rule step_world) simp
  define r1 where "r1 = touched (running_row (jn_instance_id (cfgs 0))) (jb_next_run_at r) r"
  define tk where "tk = job_task_of reg r1 h"
  define y2 where "y2 = y1\<lparr>js_srv := (js_srv y1)\<lparr>committed := (committed (js_srv y1))\<lparr>persistent_jobs := [r1]\<rparr>\<rparr>,
      js_runners := (js_runners y1)(0 := \<lparr>ru_in_flight = 1, ru_tasks = [tk]\<rparr>)\<rparr>"
  have s2: "job_step x reg cfgs y1 y2"
    using run_claim_single[of y1 r reg h cfgs x] assms by (simp add: y1_def y2_def r1_def tk_def idle_with_def)
  obtain z' where z: "tk_handler tk (nat (jb_timeout_seconds (tk_job tk) mod 2 ^ 64)) (jb_payload (tk_job tk)) (js_self y2) = (Elapsed, z')"
    using assms(5) by (simp add: tk_def job_task_of_def Let_def) metis
  define y3 where "y3 = y2\<lparr>js_self := z', js_runners := (js_runners y2)(0 := task_ended 0 (js_runners y2 0)),
      js_ended := js_ended y2 @ [(tk, Elapsed)]\<rparr>"
  have s3: "job_step x reg cfgs y2 y3"
    unfolding y3_def by (rule step_execute[OF _ _ z]) (simp_all add: y2_def)
  define t where "t = jb_next_run_at r + 1000000 * int (jn_stale_lock_timeout (cfgs 0)) + 1"
  define y4 where "y4 = y3\<lparr>js_srv := (js_srv y3)\<lparr>clock := (\<lambda>_. t)\<rparr>\<rparr>"
  have s4: "job_step x reg cfgs y3 y4" unfolding y4_def by (rule step_world) simp
  define r5 where "r5 = touched released_row t r1"
  define y5 where "y5 = y4\<lparr>js_srv := (js_srv y4)\<lparr>committed := (committed (js_srv y4))\<lparr>persistent_jobs := [r5]\<rparr>\<rparr>\<rparr>"
  have r1: "jb_status r1 = JRunning" "jb_attempts r1 = jb_attempts r + 1" "jb_locked_at r1 = Some (jb_next_run_at r)"
    by (simp_all add: r1_def touched_def running_row_def)
  have s5: "job_step x reg cfgs y4 y5"
    using run_stale_single[of y4 r1 "jb_next_run_at r" cfgs x reg] r1 assms(2)
    by (simp add: y5_def y4_def y3_def y2_def y1_def r5_def t_def)
  have "job_run x reg cfgs y y5"
    by (rule run_step[OF run_step[OF run_step[OF run_step[OF job_run_single[OF s1] s2] s3] s4] s5])
  moreover have "idle_with y5 r5 \<and> jb_attempts r5 = jb_attempts r + 1 \<and> jb_type r5 = jb_type r \<and> jb_max_retries r5 = jb_max_retries r"
    by (simp add: idle_with_def y5_def y4_def y3_def y2_def task_ended_def r5_def r1_def touched_def released_row_def running_row_def)
  ultimately show ?thesis by blast
qed

lemma timeout_rounds:
  assumes "idle_with y r" "jb_attempts r = 0" "int n < 2 ^ 31"
    and "jr_handlers reg (jb_type r) = Some h" "\<And>n p z. \<exists>z'. h n p z = (Elapsed, z')"
    and "length (jn_instance_id (cfgs 0)) \<le> 255" "0 < jn_max_concurrent_jobs (cfgs 0)" "jn_max_concurrent_jobs (cfgs 0) < 2 ^ 31"
  shows "\<exists>y' r'. job_run x reg cfgs y y' \<and> idle_with y' r' \<and> jb_attempts r' = int n \<and>
    jb_type r' = jb_type r \<and> jb_max_retries r' = jb_max_retries r"
  using assms(3)
proof (induction n)
  case 0
  then show ?case using assms(1,2) by (auto intro: run_refl)
next
  case (Suc n)
  then obtain y1 r1 where y1: "job_run x reg cfgs y y1" "idle_with y1 r1" "jb_attempts r1 = int n" "jb_type r1 = jb_type r"
    "jb_max_retries r1 = jb_max_retries r" by auto
  have "int4 (jb_attempts r1 + 1)" "0 \<le> jb_attempts r1" using Suc.prems y1(3) by (simp_all add: int4_def)
  from timeout_round[OF y1(2) this, of reg h cfgs x] obtain y2 r2 where
    "job_run x reg cfgs y1 y2" "idle_with y2 r2" "jb_attempts r2 = jb_attempts r1 + 1" "jb_type r2 = jb_type r1"
    "jb_max_retries r2 = jb_max_retries r1" using assms(4-) y1(4) by auto
  then show ?case using job_run_trans[OF y1(1)] y1 by (intro exI[of _ y2] exI[of _ r2]) simp
qed

section \<open>Properties\<close>

definition demo_jobs :: "job list \<Rightarrow> unit job_system" where
  "demo_jobs rows =
     \<lparr>js_srv = demo_srv \<lparr>persistent_jobs = rows\<rparr>, js_self = (),
      js_runners = (\<lambda>_. \<lparr>ru_in_flight = 0, ru_tasks = []\<rparr>), js_ended = [], js_inserted = []\<rparr>"

definition demo_job :: job where
  "demo_job = job_row ''a.b'' JNull None (Some ''k'') 5 300 101 0"

definition demo_registry :: "job_outcome \<Rightarrow> unit job_registry" where
  "demo_registry out = \<lparr>jr_handlers = [''a.b'' \<mapsto> \<lambda>n p z. (out, z)], jr_recurring = []\<rparr>"

lemma demo_jobs_start: "job_start (demo_jobs [])"
  by (simp add: job_start_def demo_jobs_def)

text \<open>C30: The job table under any number of runners, crashes and failures: no two pending or running
  jobs share a type and deduplication key, a job is completed only when its handler has returned
  success, and no job that was ever inserted disappears before its handler has succeeded.\<close>

theorem jobs_unique_and_never_lost:
  assumes "job_run x reg cfgs y y'" "job_start y"
  shows "distinct (map jb_id (jobs y')) \<and> distinct (dedup_entries (jobs y')) \<and>
    list_all (\<lambda>r. jb_status r \<noteq> JCompleted \<or> succeeded y' (jb_id r)) (jobs y') \<and>
    list_all (\<lambda>jid. list_ex (\<lambda>r. jb_id r = jid) (jobs y') \<or> succeeded y' jid) (js_inserted y')"
  using system_run[OF assms] by (auto simp: system_jobs_ok_def jobs_ok_def list_all_iff list_ex_iff)

theorem jobs_unique_and_never_lost_witness:
  "\<exists>y'. job_run demo_externs (demo_registry Elapsed) (\<lambda>_. job_runner_config_default demo_externs 1) (demo_jobs []) y' \<and>
     js_inserted y' = [100] \<and> list_ex (\<lambda>r. jb_id r = 100) (jobs y')"
proof -
  let ?s = "demo_srv \<lparr>persistent_jobs = []\<rparr>"
  obtain s where e: "enqueue_job demo_externs Pool (JobName ''a.b'') JNull None ?s = (Ok 100, s)"
    by (simp add: enqueue_job_def bnd_def next_uuid_def map_err_def insert_job_sql_def varchar_col_short opt_varchar_def
        job_row_def dedup_entry_def Let_def)
  have r: "job_run demo_externs (demo_registry Elapsed) (\<lambda>_. job_runner_config_default demo_externs 1) (demo_jobs [])
      ((demo_jobs [])\<lparr>js_srv := s, js_inserted := [100]\<rparr>)"
    using job_run_single[OF step_enqueue[where y = "demo_jobs []"]] e by (simp add: demo_jobs_def)
  from jobs_unique_and_never_lost[OF r demo_jobs_start] r show ?thesis
    by (intro exI[of _ "(demo_jobs [])\<lparr>js_srv := s, js_inserted := [100]\<rparr>"]) (simp add: succeeded_def demo_jobs_def)
qed



text \<open>Refinement: a whole task of the runner, the handler and all the statements that record its
  outcome, is a run of the step relation.\<close>

theorem run_task_refines_steps:
  assumes "i < length (ru_tasks (js_runners y k))" "tk = ru_tasks (js_runners y k) ! i"
    and "run_task x tk (js_srv y, js_self y) = (out, s, self')"
  shows "job_run x reg cfgs y (y\<lparr>js_srv := s, js_self := self',
    js_runners := (js_runners y)(k := task_ended i (js_runners y k)), js_ended := js_ended y @ [(tk, out)]\<rparr>)"
proof -
  have h: "tk_handler tk (nat (jb_timeout_seconds (tk_job tk) mod 2 ^ 64)) (jb_payload (tk_job tk)) (js_self y) = (out, self')"
    and s: "s = snd (settle_job x tk out (js_srv y))"
    using assms(3) by (auto simp: run_task_def split: prod.splits)
  let ?y = "y\<lparr>js_self := self', js_runners := (js_runners y)(k := task_ended i (js_runners y k)),
    js_ended := js_ended y @ [(tk, out)]\<rparr>"
  have "job_run x reg cfgs ?y (?y\<lparr>js_srv := snd (settle_job x tk out (js_srv ?y))\<rparr>)"
    by (rule run_settle_job) simp
  moreover have "?y\<lparr>js_srv := snd (settle_job x tk out (js_srv ?y))\<rparr> = y\<lparr>js_srv := s, js_self := self',
    js_runners := (js_runners y)(k := task_ended i (js_runners y k)), js_ended := js_ended y @ [(tk, out)]\<rparr>"
    by (rule job_system.equality) (simp_all add: s)
  ultimately show ?thesis using job_run_trans[OF job_run_single[OF step_execute[OF assms(1,2) h]]] by simp
qed

theorem run_task_refines_steps_witness:
  "\<exists>y'. job_run demo_externs (demo_registry (Finished (Ok ()))) (\<lambda>_. job_runner_config_default demo_externs 1)
     ((demo_jobs [demo_job])\<lparr>js_runners :=
        (\<lambda>_. \<lparr>ru_in_flight = 1, ru_tasks = [job_task_of (demo_registry (Finished (Ok ()))) demo_job (\<lambda>n p z. (Finished (Ok ()), z))]\<rparr>)\<rparr>) y' \<and>
     succeeded y' 101"
proof -
  let ?tk = "job_task_of (demo_registry (Finished (Ok ()))) demo_job (\<lambda>n p z. (Finished (Ok ()), z))"
  let ?y = "(demo_jobs [demo_job])\<lparr>js_runners := (\<lambda>_. \<lparr>ru_in_flight = 1, ru_tasks = [?tk]\<rparr>)\<rparr>"
  obtain s self' where "run_task demo_externs ?tk (js_srv ?y, js_self ?y) = (Finished (Ok ()), s, self')"
    by (simp add: run_task_def job_task_of_def demo_job_def Let_def)
  from run_task_refines_steps[OF _ _ this, of 0 0 "demo_registry (Finished (Ok ()))" "\<lambda>_. job_runner_config_default demo_externs 1"]
  show ?thesis
    by (fastforce simp: succeeded_def job_task_of_def demo_job_def job_row_def Let_def)
qed

text \<open>What becomes of a running one-shot job on a working connection: success completes it, a
  transient error schedules it again after two to the number of attempts seconds (at most 1024) or,
  when its attempts are used up, fails it, a permanent error dead-letters it, and after a timeout or a
  panic it stays running for the recovery; no other job changes.\<close>

theorem job_outcome_recorded:
  assumes "faults s = []" "jobs_ok (persistent_jobs (committed s))" "tk_job tk = r" "r \<in> set (persistent_jobs (committed s))"
    and "jb_status r = JRunning" "int4 (jb_attempts r)" "jb_schedule r = None" "tk_schedule tk = None"
  shows "persistent_jobs (committed (snd (settle_job x tk out s))) =
    update_where (\<lambda>q. jb_id q = jb_id r) (\<lambda>_. settled_row out (clock s (ticks s)) r) (persistent_jobs (committed s))"
  by (rule settle_one_shot[OF assms])

theorem job_outcome_recorded_witness:
  "map jb_status (persistent_jobs (committed (snd (settle_job demo_externs
     (job_task_of (demo_registry Elapsed) (demo_job\<lparr>jb_status := JRunning, jb_attempts := 5\<rparr>) (\<lambda>n p z. (Elapsed, z)))
     (Finished (Err (JTransient ''e''))) (demo_srv \<lparr>persistent_jobs = [demo_job\<lparr>jb_status := JRunning, jb_attempts := 5\<rparr>]\<rparr>))))) = [JFailed]"
proof -
  let ?r = "demo_job\<lparr>jb_status := JRunning, jb_attempts := 5\<rparr>"
  have r: "jb_status ?r = JRunning" "jb_attempts ?r = 5" "jb_schedule ?r = None" "jb_max_retries ?r = 5"
    by (simp_all add: demo_job_def job_row_def)
  then have "tk_schedule (job_task_of (demo_registry Elapsed) ?r (\<lambda>n p z. (Elapsed, z))) = None"
    "tk_job (job_task_of (demo_registry Elapsed) ?r (\<lambda>n p z. (Elapsed, z))) = ?r"
    by (simp_all add: job_task_of_def)
  from job_outcome_recorded[OF _ _ this(2) _ r(1) _ r(3) this(1), of "demo_srv \<lparr>persistent_jobs = [?r]\<rparr>"] r
  show ?thesis by (simp add: jobs_ok_def int4_def settled_row_def)
qed

text \<open>A job that always runs out of time is retried for ever: the recovery of stale locks puts it
  back to pending without looking at its attempts, so every number of attempts is reached however
  small its limit is.\<close>

theorem timed_out_job_retried_forever:
  assumes "idle_with y r" "jb_attempts r = 0" "int n < 2 ^ 31"
    and "jr_handlers reg (jb_type r) = Some h" "\<And>n p z. \<exists>z'. h n p z = (Elapsed, z')"
    and "length (jn_instance_id (cfgs 0)) \<le> 255" "0 < jn_max_concurrent_jobs (cfgs 0)" "jn_max_concurrent_jobs (cfgs 0) < 2 ^ 31"
  shows "\<exists>y' r'. job_run x reg cfgs y y' \<and> idle_with y' r' \<and> jb_attempts r' = int n \<and>
    jb_max_retries r' = jb_max_retries r"
proof -
  have "\<exists>y' r'. job_run x reg cfgs y y' \<and> idle_with y' r' \<and> jb_attempts r' = int n \<and>
    jb_type r' = jb_type r \<and> jb_max_retries r' = jb_max_retries r"
    by (rule timeout_rounds) (use assms in auto)
  then show ?thesis by blast
qed

theorem timed_out_job_retried_forever_witness:
  "\<exists>y' r'. job_run demo_externs (demo_registry Elapsed) (\<lambda>_. job_runner_config_default demo_externs 1) (demo_jobs [demo_job]) y' \<and>
     idle_with y' r' \<and> jb_attempts r' = 1000 \<and> jb_max_retries r' = 5"
proof -
  have "idle_with (demo_jobs [demo_job]) demo_job" "jb_attempts demo_job = 0" "jb_max_retries demo_job = 5"
    "jr_handlers (demo_registry Elapsed) (jb_type demo_job) = Some (\<lambda>n p z. (Elapsed, z))"
    by (simp_all add: idle_with_def demo_jobs_def demo_job_def job_row_def demo_registry_def)
  from timed_out_job_retried_forever[OF this(1,2) _ this(4), of 1000 "\<lambda>_. job_runner_config_default demo_externs 1" demo_externs] this(3)
  show ?thesis by (simp add: job_runner_config_default_def demo_externs_def unary_def)
qed

end
