(* ===== verification/Money.thy ===== *)
theory Money
  imports Environment
begin

text \<open>
  Value objects of the shared crate: \<open>shared/src/new_types/money.rs\<close> and the macros
  \<open>validated_name!\<close> and \<open>valid_id!\<close> of \<open>shared/src/new_types/value_objects.rs\<close>.
\<close>

section \<open>Price, currency, money\<close>

datatype price = Price (price_value: decimal)

definition price_new :: "decimal \<Rightarrow> (price, app_error) result" where
  "price_new v = (if v < 0 then Err (BadRequest ''Price must not be negative'') else Ok (Price v))"

definition price_str :: "externs \<Rightarrow> price \<Rightarrow> string" where
  "price_str x p = dec_str x (price_value p)"

datatype currency = Currency (currency_str: string)

definition is_ascii_uppercase :: "char \<Rightarrow> bool" where
  "is_ascii_uppercase c \<longleftrightarrow> (65::nat) \<le> of_char c \<and> (of_char c :: nat) \<le> 90"

definition currency_new :: "externs \<Rightarrow> string \<Rightarrow> (currency, app_error) result" where
  "currency_new x input =
     (let trimmed = upper x (trim input) in
      if length trimmed \<noteq> 3 \<or> \<not> list_all is_ascii_uppercase trimmed
      then Err (BadRequest ''Currency must be a 3-letter ISO 4217 code (e.g. USD, KRW)'')
      else Ok (Currency trimmed))"

definition currency_default :: currency where
  "currency_default = Currency ''USD''"

record money =
  money_price :: price
  money_currency :: currency

definition money_new :: "price \<Rightarrow> currency \<Rightarrow> money" where
  "money_new p c = \<lparr>money_price = p, money_currency = c\<rparr>"

definition same_currency :: "money \<Rightarrow> money \<Rightarrow> bool" where
  "same_currency a b \<longleftrightarrow> money_currency a = money_currency b"

definition money_str :: "externs \<Rightarrow> money \<Rightarrow> string" where
  "money_str x m = price_str x (money_price m) @ '' '' @ currency_str (money_currency m)"

section \<open>Validated names\<close>

definition validated_name_new :: "string \<Rightarrow> nat \<Rightarrow> string \<Rightarrow> (string, app_error) result" where
  "validated_name_new display max_len input =
     (let trimmed = trim input in
      if trimmed = [] then Err (BadRequest (display @ '' must not be empty''))
      else if length trimmed > max_len
      then Err (BadRequest (display @ '' must not exceed '' @ show_nat max_len @ '' characters''))
      else Ok trimmed)"

section \<open>Trimming twice is trimming once\<close>

lemma strip_prefixes_stuck:
  assumes "w \<in> set ws" and "w \<noteq> []" shows "\<not> prefix w (strip_prefixes ws s)"
  using assms
proof (induction ws s rule: strip_prefixes.induct)
  case (1 ws s)
  show ?case
  proof (cases "find (\<lambda>w. w \<noteq> [] \<and> prefix w s) ws")
    case None
    then have "\<not> (w \<noteq> [] \<and> prefix w s)" using "1.prems"(1) by (auto simp: find_None_iff)
    then show ?thesis using None "1.prems"(2) by (subst strip_prefixes.simps) simp
  next
    case (Some v)
    then show ?thesis using 1 by (subst strip_prefixes.simps) simp
  qed
qed

lemma strip_prefixes_suffix: "suffix (strip_prefixes ws s) s"
proof (induction ws s rule: strip_prefixes.induct)
  case (1 ws s)
  then show ?case
    by (subst strip_prefixes.simps)
       (auto split: option.splits intro: suffix_order.trans suffix_drop)
qed

lemma strip_prefixes_fixed:
  "(\<And>w. w \<in> set ws \<Longrightarrow> w \<noteq> [] \<Longrightarrow> \<not> prefix w s) \<Longrightarrow> strip_prefixes ws s = s"
  by (subst strip_prefixes.simps) (auto split: option.splits simp: find_Some_iff)

lemma trim_no_white_space:
  assumes "w \<in> set white_space" shows "\<not> prefix w (trim s)" and "\<not> suffix w (trim s)"
proof -
  let ?front = "strip_prefixes white_space s"
  have w: "w \<noteq> []" using assms by (rule white_space_nonempty)
  have "prefix (trim s) ?front"
    using strip_prefixes_suffix[of "map rev white_space" "rev ?front"]
    by (simp add: trim_def suffix_to_prefix)
  then show "\<not> prefix w (trim s)"
    using strip_prefixes_stuck[OF assms w, of s] by (auto dest: prefix_order.trans)
  have "\<not> prefix (rev w) (strip_prefixes (map rev white_space) (rev ?front))"
    using assms w by (intro strip_prefixes_stuck) auto
  then show "\<not> suffix w (trim s)" by (simp add: trim_def suffix_to_prefix)
qed

lemma trim_trim [simp]: "trim (trim s) = trim s"
proof -
  have front: "strip_prefixes white_space (trim s) = trim s"
    by (rule strip_prefixes_fixed) (rule trim_no_white_space)
  have "strip_prefixes (map rev white_space) (rev (trim s)) = rev (trim s)"
    by (rule strip_prefixes_fixed) (auto simp: trim_no_white_space simp flip: suffix_to_prefix)
  then show ?thesis using front by (simp add: trim_def)
qed

section \<open>Facts about the constructors\<close>

lemma price_new_Ok_iff: "price_new v = Ok p \<longleftrightarrow> 0 \<le> v \<and> p = Price v"
  by (auto simp: price_new_def)

lemma currency_new_Ok:
  "currency_new x input = Ok c \<Longrightarrow>
     length (currency_str c) = 3 \<and> list_all is_ascii_uppercase (currency_str c)"
  by (auto simp: currency_new_def Let_def split: if_splits)

lemma validated_name_new_Ok_iff:
  "validated_name_new display n input = Ok v \<longleftrightarrow> v = trim input \<and> v \<noteq> [] \<and> length v \<le> n"
  by (auto simp: validated_name_new_def Let_def)

lemma validated_name_new_idem:
  "validated_name_new display n input = Ok v \<Longrightarrow> validated_name_new display n v = Ok v"
  by (auto simp: validated_name_new_Ok_iff)

lemma white_space_not_upper:
  "w \<in> set white_space \<Longrightarrow> list_all is_ascii_uppercase t \<Longrightarrow> \<not> prefix w t \<and> \<not> suffix w t"
  by (auto simp: white_space_def prefix_def suffix_def is_ascii_uppercase_def)

text \<open>An accepted code is accepted again and unchanged, where upper-casing leaves
  ASCII capitals alone: reading a stored currency back never fails.\<close>

lemma currency_new_idem:
  assumes "currency_new x input = Ok c"
    and "\<And>t. list_all is_ascii_uppercase t \<Longrightarrow> upper x t = t"
  shows "currency_new x (currency_str c) = Ok c"
proof -
  have c: "length (currency_str c) = 3" "list_all is_ascii_uppercase (currency_str c)"
    using currency_new_Ok[OF assms(1)] by simp_all
  have "strip_prefixes white_space (currency_str c) = currency_str c"
    by (rule strip_prefixes_fixed) (use c white_space_not_upper in blast)
  moreover have "strip_prefixes (map rev white_space) (rev (currency_str c)) = rev (currency_str c)"
    by (rule strip_prefixes_fixed)
       (use c white_space_not_upper in \<open>auto simp flip: suffix_to_prefix\<close>)
  ultimately have "trim (currency_str c) = currency_str c" by (simp add: trim_def)
  then show ?thesis using c assms(2)[of "currency_str c"] by (simp add: currency_new_def)
qed

section \<open>Properties\<close>

text \<open>A currency code that was accepted is three ASCII capitals, and accepting it again
  gives the same code, provided upper-casing leaves ASCII capitals alone.\<close>

theorem currency_canonical:
  assumes "currency_new x input = Ok c" and "\<And>t. list_all is_ascii_uppercase t \<Longrightarrow> upper x t = t"
  shows "length (currency_str c) = 3 \<and> list_all is_ascii_uppercase (currency_str c) \<and>
    currency_new x (currency_str c) = Ok c"
  using currency_new_Ok[OF assms(1)] currency_new_idem[OF assms] by simp

lemma trim_EUR: "trim '' EUR '' = ''EUR''"
  by (simp add: trim_def strip_prefixes.simps white_space_def)

theorem currency_canonical_witness:
  "currency_new demo_externs '' EUR '' = Ok (Currency ''EUR'') \<and>
   currency_new demo_externs ''EUR'' = Ok (Currency ''EUR'')"
proof -
  have "currency_new demo_externs '' EUR '' = Ok (Currency ''EUR'')"
    by (simp add: currency_new_def trim_EUR demo_externs_def is_ascii_uppercase_def)
  moreover from currency_canonical[OF this] have "currency_new demo_externs ''EUR'' = Ok (Currency ''EUR'')"
    by (simp add: demo_externs_def)
  ultimately show ?thesis by simp
qed

end
