(* ===== verification/Names.thy ===== *)
theory Names
  imports Money
begin

text \<open>
  The value objects of the catalog service: \<open>catalog/src/common/value_objects.rs\<close> (slugs and
  URLs), \<open>categories/value_objects.rs\<close> (tree labels), \<open>brands/value_objects.rs\<close> and
  \<open>products/value_objects.rs\<close> (SKU codes, stock quantities, search terms). Their regular
  expressions are written out as automata over bytes; lower-casing and the Unicode class of
  alphanumeric characters are parameters.
\<close>

section \<open>Characters\<close>

definition is_ascii_lowercase :: "char \<Rightarrow> bool" where
  "is_ascii_lowercase c \<longleftrightarrow> (97::nat) \<le> of_char c \<and> (of_char c :: nat) \<le> 122"

definition is_ascii_digit :: "char \<Rightarrow> bool" where
  "is_ascii_digit c \<longleftrightarrow> (48::nat) \<le> of_char c \<and> (of_char c :: nat) \<le> 57"

definition slug_char :: "char \<Rightarrow> bool" where
  "slug_char c \<longleftrightarrow> is_ascii_lowercase c \<or> is_ascii_digit c"

definition code_char :: "char \<Rightarrow> bool" where
  "code_char c \<longleftrightarrow> is_ascii_uppercase c \<or> is_ascii_lowercase c \<or> is_ascii_digit c"

text \<open>\<open>str::chars\<close>: a character is a byte with the continuation bytes that follow it.\<close>

function utf8_chars :: "string \<Rightarrow> string list" where
  "utf8_chars [] = []"
| "utf8_chars (c # cs) = (c # takeWhile continuation cs) # utf8_chars (dropWhile continuation cs)"
  by pat_completeness auto
termination
  by (relation "measure length") (auto simp: less_Suc_eq_le length_dropWhile_le)

section \<open>Splitting and joining\<close>

fun split_on :: "char \<Rightarrow> string \<Rightarrow> string list" where
  "split_on c [] = [[]]"
| "split_on c (d # ds) =
     (if d = c then [] # split_on c ds
      else case split_on c ds of p # ps \<Rightarrow> (d # p) # ps | [] \<Rightarrow> [[d]])"

text \<open>The characters that are not alphanumeric become separators, empty pieces disappear.\<close>

definition hyphenate :: "externs \<Rightarrow> char \<Rightarrow> string \<Rightarrow> string" where
  "hyphenate x sep name =
     (let text = concat (map (\<lambda>ch. if alnum x ch then ch else [sep]) (utf8_chars (lower x (trim name)))) in
      join_with [sep] (filter (\<lambda>s. s \<noteq> []) (split_on sep text)))"

section \<open>Slugs and URLs\<close>

text \<open>\<open>^[a-z0-9]+(-[a-z0-9]+)*$\<close>: a piece has begun, or one must begin.\<close>

fun slug_re :: "string \<Rightarrow> bool" and slug_rest :: "string \<Rightarrow> bool" where
  "slug_rest [] = True"
| "slug_rest (c # cs) = (if slug_char c then slug_rest cs else c = CHR ''-'' \<and> slug_re cs)"
| "slug_re [] = False"
| "slug_re (c # cs) = (slug_char c \<and> slug_rest cs)"

definition slug_new :: "string \<Rightarrow> (string, app_error) result" where
  "slug_new input =
     (let trimmed = trim input in
      if trimmed = [] then Err (BadRequest ''Slug must not be empty'')
      else if length trimmed > 500 then Err (BadRequest ''Slug must not exceed 500 characters'')
      else if \<not> slug_re trimmed
      then Err (BadRequest ''Slug must be lowercase alphanumeric with hyphens (e.g. my-product-name)'')
      else Ok trimmed)"

definition slug_from_name :: "externs \<Rightarrow> string \<Rightarrow> (string, app_error) result" where
  "slug_from_name x name = slug_new (hyphenate x CHR ''-'' name)"

text \<open>\<open>^https?://.+\<close>, where the dot does not match a line feed.\<close>

definition url_re :: "string \<Rightarrow> bool" where
  "url_re s \<longleftrightarrow>
     list_ex (\<lambda>p. prefix p s \<and> (case drop (length p) s of c # _ \<Rightarrow> c \<noteq> CHR 0x0A | [] \<Rightarrow> False))
       [''http://'', ''https://'']"

definition http_url_new :: "string \<Rightarrow> (string, app_error) result" where
  "http_url_new input =
     (let trimmed = trim input in
      if \<not> url_re trimmed then Err (BadRequest ''URL must start with http:// or https://'')
      else if length trimmed > 2048 then Err (BadRequest ''URL must not exceed 2048 characters'')
      else Ok trimmed)"

section \<open>Category names and tree labels\<close>

definition category_name_new :: "string \<Rightarrow> (string, app_error) result" where
  "category_name_new = validated_name_new ''Category name'' 255"

definition brand_name_new :: "string \<Rightarrow> (string, app_error) result" where
  "brand_name_new = validated_name_new ''Brand name'' 255"

definition product_name_new :: "string \<Rightarrow> (string, app_error) result" where
  "product_name_new = validated_name_new ''Product name'' 500"

text \<open>\<open>^[a-z][a-z0-9_]*$\<close>\<close>

definition label_char :: "char \<Rightarrow> bool" where
  "label_char c \<longleftrightarrow> slug_char c \<or> c = CHR ''_''"

definition label_re :: "string \<Rightarrow> bool" where
  "label_re s \<longleftrightarrow> (case s of [] \<Rightarrow> False | c # cs \<Rightarrow> is_ascii_lowercase c \<and> list_all label_char cs)"

definition ltree_label_new :: "string \<Rightarrow> (string, app_error) result" where
  "ltree_label_new input =
     (let trimmed = trim input in
      if trimmed = [] then Err (BadRequest ''Ltree label must not be empty'')
      else if length trimmed > 255 then Err (BadRequest ''Ltree label must not exceed 255 characters'')
      else if \<not> label_re trimmed
      then Err (BadRequest (''Ltree label must be lowercase alphanumeric with underscores, starting with a letter '' @
             ''(e.g. electronics, smart_phones)''))
      else Ok trimmed)"

definition ltree_label_from_name :: "externs \<Rightarrow> string \<Rightarrow> (string, app_error) result" where
  "ltree_label_from_name x name =
     (let label = hyphenate x CHR ''_'' name in
      if label = [] then Err (BadRequest ''Cannot generate ltree label from empty name'')
      else ltree_label_new (dropWhile (\<lambda>c. \<not> is_ascii_lowercase c) label))"

section \<open>SKU codes, stock, search terms\<close>

text \<open>\<open>^[A-Za-z0-9][A-Za-z0-9_-]{0,98}[A-Za-z0-9]$\<close>\<close>

definition sku_code_re :: "string \<Rightarrow> bool" where
  "sku_code_re s \<longleftrightarrow>
     2 \<le> length s \<and> length s \<le> 100 \<and> code_char (hd s) \<and> code_char (last s) \<and>
     list_all (\<lambda>c. code_char c \<or> c = CHR ''_'' \<or> c = CHR ''-'') (butlast (tl s))"

definition sku_code_new :: "string \<Rightarrow> (string, app_error) result" where
  "sku_code_new input =
     (let trimmed = trim input in
      if length trimmed < 2 then Err (BadRequest ''SKU code must be at least 2 characters'')
      else if length trimmed > 100 then Err (BadRequest ''SKU code must not exceed 100 characters'')
      else if \<not> sku_code_re trimmed
      then Err (BadRequest ''SKU code must be alphanumeric (with hyphens/underscores allowed in the middle)'')
      else Ok trimmed)"

definition stock_quantity_new :: "int \<Rightarrow> (int, app_error) result" where
  "stock_quantity_new v = (if v < 0 then Err (BadRequest ''Stock quantity must not be negative'') else Ok v)"

definition search_max_len :: nat where
  "search_max_len = 200"

definition search_query_new :: "string \<Rightarrow> (string, app_error) result" where
  "search_query_new input =
     (let trimmed = trim input in
      if trimmed = [] then Err (BadRequest ''Search query must not be empty'')
      else Ok (take_chars search_max_len trimmed))"

section \<open>What a slug is\<close>

text \<open>The words of the regular expression: pieces joined by single hyphens.\<close>

definition slug_word :: "string \<Rightarrow> bool" where
  "slug_word s \<longleftrightarrow>
     (\<exists>ps. ps \<noteq> [] \<and> (\<forall>p\<in>set ps. p \<noteq> [] \<and> list_all slug_char p) \<and> s = join_with ''-'' ps)"

lemma hyphen_not_slug_char [simp]: "\<not> slug_char CHR ''-''"
  by (simp add: slug_char_def is_ascii_lowercase_def is_ascii_digit_def)

lemma slug_rest_piece: "list_all slug_char p \<Longrightarrow> slug_rest (p @ s) = slug_rest s"
  by (induction p) auto

lemma join_with_Cons: "ps \<noteq> [] \<Longrightarrow> join_with sep (p # ps) = p @ sep @ join_with sep ps"
  by (cases ps) auto

lemma slug_re_piece: "p \<noteq> [] \<Longrightarrow> list_all slug_char p \<Longrightarrow> slug_re (p @ s) = slug_rest s"
  by (cases p) (auto simp: slug_rest_piece)

lemma slug_word_accepted:
  "ps \<noteq> [] \<Longrightarrow> (\<And>p. p \<in> set ps \<Longrightarrow> p \<noteq> [] \<and> list_all slug_char p) \<Longrightarrow> slug_re (join_with ''-'' ps)"
proof (induction ps)
  case (Cons p ps)
  show ?case
  proof (cases "ps = []")
    case True
    then show ?thesis using Cons.prems slug_re_piece[of p "[]"] by simp
  next
    case False
    then show ?thesis using Cons slug_re_piece[of p "''-'' @ join_with ''-'' ps"] by (simp add: join_with_Cons)
  qed
qed simp

lemma slug_accepted_word:
  "(slug_rest s \<longrightarrow> (\<exists>p ps. list_all slug_char p \<and> (\<forall>q\<in>set ps. q \<noteq> [] \<and> list_all slug_char q) \<and>
      s = join_with ''-'' (p # ps))) \<and> (slug_re s \<longrightarrow> slug_word s)"
proof (induction s)
  case Nil
  show ?case by (auto intro!: exI[of _ "[] :: string"] exI[of _ "[] :: string list"])
next
  case (Cons c s)
  have rest: "\<exists>p ps. list_all slug_char p \<and> (\<forall>q\<in>set ps. q \<noteq> [] \<and> list_all slug_char q) \<and>
      c # s = join_with ''-'' ((if slug_char c then c # p else p) # ps) \<and> (slug_char c \<or> p = [])"
    if r: "slug_rest (c # s)"
  proof (cases "slug_char c")
    case True
    then obtain p ps where "list_all slug_char p" "\<forall>q\<in>set ps. q \<noteq> [] \<and> list_all slug_char q" "s = join_with ''-'' (p # ps)"
      using r Cons by auto
    then show ?thesis using True by (intro exI[of _ p] exI[of _ ps]) (cases ps; simp)
  next
    case False
    then obtain qs where "qs \<noteq> []" "\<forall>q\<in>set qs. q \<noteq> [] \<and> list_all slug_char q" "s = join_with ''-'' qs" "c = CHR ''-''"
      using r Cons by (auto simp: slug_word_def)
    then show ?thesis by (intro exI[of _ "[]"] exI[of _ qs]) (simp add: join_with_Cons)
  qed
  show ?case
  proof (intro conjI impI)
    assume "slug_rest (c # s)"
    from rest[OF this] obtain p ps where p: "list_all slug_char p" "\<forall>q\<in>set ps. q \<noteq> [] \<and> list_all slug_char q"
      "c # s = join_with ''-'' ((if slug_char c then c # p else p) # ps)" by blast
    then show "\<exists>p ps. list_all slug_char p \<and> (\<forall>q\<in>set ps. q \<noteq> [] \<and> list_all slug_char q) \<and>
      c # s = join_with ''-'' (p # ps)"
      by (intro exI[of _ "if slug_char c then c # p else p"] exI[of _ ps]) simp
  next
    assume "slug_re (c # s)"
    then have c: "slug_char c" and "slug_rest (c # s)" by simp_all
    from rest[OF this(2)] c obtain p ps where "list_all slug_char p" "\<forall>q\<in>set ps. q \<noteq> [] \<and> list_all slug_char q"
      "c # s = join_with ''-'' ((c # p) # ps)" by auto
    then show "slug_word (c # s)" unfolding slug_word_def using c by (intro exI[of _ "(c # p) # ps"]) simp
  qed
qed

lemma slug_re_word: "slug_re s \<longleftrightarrow> slug_word s"
  using slug_word_accepted slug_accepted_word[of s] by (auto simp: slug_word_def)


section \<open>Generated slugs are canonical\<close>

text \<open>Visible ASCII characters, of which only the space is white space.\<close>

definition visible_char :: "char \<Rightarrow> bool" where
  "visible_char c \<longleftrightarrow> (32::nat) \<le> of_char c \<and> (of_char c :: nat) < 127"

lemma white_space_not_visible:
  "w \<in> set white_space \<Longrightarrow> list_all (\<lambda>c. visible_char c \<and> c \<noteq> CHR '' '') t \<Longrightarrow> \<not> prefix w t \<and> \<not> suffix w t"
  by (auto simp: white_space_def prefix_def suffix_def visible_char_def)

lemma trim_visible: "list_all (\<lambda>c. visible_char c \<and> c \<noteq> CHR '' '') s \<Longrightarrow> trim s = s"
proof -
  assume s: "list_all (\<lambda>c. visible_char c \<and> c \<noteq> CHR '' '') s"
  have "strip_prefixes white_space s = s"
    by (rule strip_prefixes_fixed) (use s white_space_not_visible in blast)
  moreover have "strip_prefixes (map rev white_space) (rev s) = rev s"
    by (rule strip_prefixes_fixed) (use s white_space_not_visible in \<open>auto simp flip: suffix_to_prefix\<close>)
  ultimately show ?thesis by (simp add: trim_def)
qed

text \<open>What lower-casing and the class of alphanumeric characters do on ASCII.\<close>

definition plain_char :: "char \<Rightarrow> bool" where
  "plain_char c \<longleftrightarrow> slug_char c \<or> c = CHR ''-'' \<or> c = CHR ''_''"

definition ascii_case :: "externs \<Rightarrow> bool" where
  "ascii_case x \<longleftrightarrow>
     (\<forall>s. list_all plain_char s \<longrightarrow> lower x s = s) \<and>
     (\<forall>c. slug_char c \<longrightarrow> alnum x [c]) \<and> \<not> alnum x ''-'' \<and> \<not> alnum x ''_''"

lemma trim_plain: "list_all plain_char s \<Longrightarrow> trim s = s"
  by (rule trim_visible)
     (auto simp: list_all_iff plain_char_def slug_char_def is_ascii_lowercase_def is_ascii_digit_def visible_char_def)

lemma plain_not_continuation: "plain_char c \<Longrightarrow> \<not> continuation c"
  by (auto simp: plain_char_def slug_char_def is_ascii_lowercase_def is_ascii_digit_def continuation_def)

lemma utf8_chars_plain: "list_all plain_char s \<Longrightarrow> utf8_chars s = map (\<lambda>c. [c]) s"
proof (induction s)
  case (Cons c s)
  then show ?case by (cases s) (simp_all add: plain_not_continuation)
qed simp

lemma split_on_not_Nil [simp]: "split_on c s \<noteq> []"
  by (cases s) (auto split: list.splits)

lemma split_on_append: "c \<notin> set p \<Longrightarrow> split_on c (p @ c # s) = p # split_on c s"
  by (induction p) auto

lemma split_on_single: "c \<notin> set p \<Longrightarrow> split_on c p = [p]"
  by (induction p) auto

lemma split_on_join: "ps \<noteq> [] \<Longrightarrow> (\<And>p. p \<in> set ps \<Longrightarrow> c \<notin> set p) \<Longrightarrow> split_on c (join_with [c] ps) = ps"
proof (induction ps)
  case (Cons p ps)
  then show ?case by (cases "ps = []") (simp_all add: join_with_Cons split_on_append split_on_single)
qed simp

lemma join_split_on [simp]: "join_with [c] (split_on c s) = s"
proof (induction s)
  case (Cons d s)
  obtain p ps where "split_on c s = p # ps" by (cases "split_on c s") auto
  then show ?case using Cons by (cases ps) auto
qed simp

lemma split_on_no_sep: "p \<in> set (split_on c s) \<Longrightarrow> c \<notin> set p"
proof (induction s arbitrary: p)
  case (Cons d s)
  then show ?case by (cases "split_on c s") (auto split: if_splits)
qed simp

lemma slug_word_plain: "slug_word s \<Longrightarrow> list_all plain_char s"
proof -
  have "list_all plain_char (join_with ''-'' ps)" if "\<forall>p\<in>set ps. list_all slug_char p" for ps
    using that
  proof (induction ps)
    case (Cons p ps)
    then show ?case
      by (cases "ps = []") (auto simp: join_with_Cons plain_char_def list_all_iff)
  qed simp
  then show "slug_word s \<Longrightarrow> list_all plain_char s" by (auto simp: slug_word_def)
qed

lemma slug_new_Ok_iff: "slug_new input = Ok s \<longleftrightarrow> s = trim input \<and> length s \<le> 500 \<and> slug_word s"
  by (auto simp: slug_new_def Let_def slug_re_word[symmetric])

lemma hyphenate_slug:
  assumes "ascii_case x" "slug_word s" shows "hyphenate x CHR ''-'' s = s"
proof -
  note plain = slug_word_plain[OF assms(2)]
  obtain ps where ps: "ps \<noteq> []" "\<forall>p\<in>set ps. p \<noteq> [] \<and> list_all slug_char p" "s = join_with ''-'' ps"
    using assms(2) by (auto simp: slug_word_def)
  have chars: "slug_char c \<or> c = CHR ''-''" if "c \<in> set s" for c
  proof -
    have "\<forall>c\<in>set (join_with ''-'' qs). slug_char c \<or> c = CHR ''-''" if "\<forall>p\<in>set qs. list_all slug_char p" for qs
      using that
    proof (induction qs)
      case (Cons q qs)
      then show ?case by (cases "qs = []") (auto simp: join_with_Cons list_all_iff)
    qed simp
    then show ?thesis using ps that by auto
  qed
  have "concat (map (\<lambda>ch. if alnum x ch then ch else ''-'') (map (\<lambda>c. [c]) t)) = t"
    if "\<forall>c\<in>set t. slug_char c \<or> c = CHR ''-''" for t
    using that assms(1) by (induction t) (auto simp: ascii_case_def)
  then have "concat (map (\<lambda>ch. if alnum x ch then ch else ''-'') (utf8_chars (lower x (trim s)))) = s"
    using plain chars assms(1) by (simp add: trim_plain ascii_case_def utf8_chars_plain del: map_map)
  moreover have "split_on CHR ''-'' s = ps"
    unfolding ps(3) by (rule split_on_join) (use ps hyphen_not_slug_char in \<open>fastforce simp: list_all_iff\<close>)+
  moreover have "filter (\<lambda>p. p \<noteq> []) ps = ps" using ps by simp
  ultimately show ?thesis using ps(3) by (simp add: hyphenate_def Let_def)
qed

lemma label_no_dot: "label_re l \<Longrightarrow> CHR ''.'' \<notin> set l"
  by (auto simp: label_re_def label_char_def slug_char_def is_ascii_lowercase_def is_ascii_digit_def list_all_iff
      split: list.splits)

lemma ltree_label_no_dot: "ltree_label_new input = Ok p \<Longrightarrow> CHR ''.'' \<notin> set p"
  by (rule label_no_dot) (auto simp: ltree_label_new_def Let_def split: if_splits)

section \<open>Properties\<close>

text \<open>The automaton for the slug pattern accepts exactly the non-empty sequences of non-empty
  pieces of lower-case letters and digits that are joined by single hyphens: the words of the
  regular expression in the source.\<close>

theorem slug_pattern_language:
  "slug_re s \<longleftrightarrow>
     (\<exists>ps. ps \<noteq> [] \<and> list_all (\<lambda>p. p \<noteq> [] \<and> list_all slug_char p) ps \<and> s = join_with ''-'' ps)"
  by (simp add: slug_re_word slug_word_def list_all_iff)

text \<open>A slug generated from a name is a slug: at most 500 bytes of hyphenated lower-case words.
  Validating it, or generating a slug from it again, gives the same slug, so a stored slug can
  always be read back and looked up.\<close>

theorem generated_slug_canonical:
  assumes "ascii_case x" "slug_from_name x name = Ok s"
  shows "slug_re s \<and> length s \<le> 500 \<and> slug_new s = Ok s \<and> slug_from_name x s = Ok s"
proof -
  have s: "length s \<le> 500" "slug_word s" using assms(2) by (auto simp: slug_from_name_def slug_new_Ok_iff)
  then have "slug_new s = Ok s" by (simp add: slug_new_Ok_iff trim_plain slug_word_plain)
  then show ?thesis using s hyphenate_slug[OF assms(1) s(2)] by (simp add: slug_from_name_def slug_re_word)
qed

lemma demo_ascii_case [simp]: "ascii_case demo_externs"
  by (auto simp: ascii_case_def demo_externs_def slug_char_def is_ascii_lowercase_def is_ascii_digit_def)

theorem generated_slug_canonical_witness:
  "slug_from_name demo_externs ''red pen!'' = Ok ''red-pen'' \<and> slug_from_name demo_externs ''red-pen'' = Ok ''red-pen''"
proof -
  have t: "trim ''red pen!'' = ''red pen!''" "trim ''red-pen'' = ''red-pen''"
    by (simp_all add: trim_def strip_prefixes.simps white_space_def)
  have "slug_from_name demo_externs ''red pen!'' = Ok ''red-pen''"
    by (simp add: slug_from_name_def slug_new_def hyphenate_def t demo_externs_def continuation_def slug_char_def
        is_ascii_lowercase_def is_ascii_digit_def)
  then show ?thesis using generated_slug_canonical[OF demo_ascii_case] by blast
qed

end
