(* ===== verification/Requests.thy ===== *)
theory Requests
  imports Database
begin

text \<open>
  What the repositories and services do around their statements: an error of the database reported as
  an internal error, the number of rows an update affects, and a body run by \<open>with_transaction\<close> whose
  error is turned into text.
\<close>

definition failed :: "externs \<Rightarrow> string \<Rightarrow> db_error \<Rightarrow> app_error" where
  "failed x what e = InternalServerError (what @ db_text x e)"

definition one_row :: "string \<Rightarrow> string \<Rightarrow> nat \<Rightarrow> ('s, app_error, unit) eff" where
  "one_row missing what rows =
     (if rows = 0 then throw (NotFound missing) else if rows \<noteq> 1 then panic what else ret ())"

text \<open>A body run by \<open>with_transaction\<close>, its error turned into text and reported as internal.\<close>

definition in_tx :: "externs \<Rightarrow> string \<Rightarrow> ('d srv, app_error, 'a) eff \<Rightarrow> ('d srv, app_error, 'a) eff" where
  "in_tx x what body =
     map_err (\<lambda>e. InternalServerError (what @ tx_error_str x e)) (with_transaction (map_err tx_other body))"

lemma preserves_in_tx [inv_rules]:
  "keeps committed m \<Longrightarrow> preserves (\<lambda>s. I (current s)) m \<Longrightarrow> preserves (\<lambda>s. I (committed s)) (in_tx x what m)"
  unfolding in_tx_def by (intro inv_rules frame_rules)

lemma wp_in_tx:
  assumes "keeps committed m" "\<And>t. current t = committed s \<Longrightarrow> wp m (\<lambda>_ t'. R (committed s) (current t')) (\<lambda>_. True) t"
    and "R (committed s) (committed s)"
  shows "wp (in_tx x what m) (\<lambda>_ t. R (committed s) (committed t)) (\<lambda>t. committed t = committed s) s"
proof -
  obtain r t where w: "with_transaction (map_err tx_other m) s = (r, t)" by fastforce
  have "keeps committed (map_err tx_other m)" using assms(1) by (rule keeps_map_err)
  from with_transaction_atomic[OF this w] show ?thesis
  proof (elim disjE exE conjE)
    fix a t' assume a: "r = Ok a" "map_err tx_other m (tx_start s) = (Ok a, t')" "committed t = current t'"
    then have "m (tx_start s) = (Ok a, t')" by (simp add: map_err_Ok_iff)
    then have "R (committed s) (committed t)" using wp_Ok_D[OF assms(2)[of "tx_start s"], of a t'] a(3) by simp
    then show ?thesis unfolding in_tx_def wp_map_err by (simp add: wp_def w a(1))
  next
    assume "committed t = committed s"
    then show ?thesis unfolding in_tx_def wp_map_err by (simp add: wp_def w assms(3) split: result.split)
  qed
qed

lemma wp_one_row: "Q () s \<Longrightarrow> wp (one_row missing what n) Q (\<lambda>_. True) s"
  by (simp add: one_row_def wp_simps)

lemma run_in_tx_Ok:
  assumes "healthy s" "m (tx_start s) = (Ok a, t)" "healthy t"
  shows "in_tx x what m s = (Ok a, t\<lparr>committed := current t, current := current s, aborted := aborted s, db_now := db_now s\<rparr>)"
proof -
  have "map_err tx_other m (tx_start s) = (Ok a, t)" using assms(2) by (simp add: map_err_Ok_iff)
  from with_transaction_healthy_Ok[where f = "map_err tx_other m", OF assms(1) this assms(3)] show ?thesis by (simp add: in_tx_def map_err_def)
qed

lemma run_in_tx:
  assumes "healthy s" "m (tx_start s) = (Ok a, t)" "healthy t"
  shows "\<exists>t'. in_tx x what m s = (Ok a, t') \<and> committed t' = current t"
  using run_in_tx_Ok[where m = m, OF assms] by simp

text \<open>One statement, with what the code does around it.\<close>

lemma wp_stmt_step:
  assumes "\<And>now a d'. f now (current t) = Inr (a, d') \<Longrightarrow> R d'"
  shows "wp (stmt Tx f) (\<lambda>_ t'. R (current t')) (\<lambda>_. True) t"
  by (rule wp_stmt_Tx) (use assms in auto)

lemma wp_stmt_then:
  assumes "\<And>now a d'. f now (current t) = Inr (a, d') \<Longrightarrow> R d'" "\<And>n t'. R (current t') \<Longrightarrow> wp (k n) (\<lambda>_ t'. R (current t')) (\<lambda>_. True) t'"
  shows "wp (bnd (map_err e (stmt Tx f)) k) (\<lambda>_ t'. R (current t')) (\<lambda>_. True) t"
  unfolding wp_bnd wp_map_err by (rule wp_mono[OF wp_stmt_step[where R = R]]) (use assms in auto)

lemma wp_uuid_then:
  "(\<And>rid t'. current t' = current t \<Longrightarrow> wp (k rid) Q (\<lambda>_. True) t') \<Longrightarrow> wp (bnd next_uuid k) Q (\<lambda>_. True) t"
  by (simp add: wp_bnd wp_next_uuid)

end
