(* ===== verification/Pagination.thy ===== *)
theory Pagination
  imports Database
begin

text \<open>
  Keyset pagination, \<open>shared/src/db/pagination_support.rs\<close>. A \<open>QueryBuilder\<close> is the list
  of clauses pushed so far, in order; running it over the candidate rows follows the order
  of the SQL text, in which an \<open>AND\<close> after a \<open>GROUP BY\<close> belongs to the grouping expression
  and is a type error there.
\<close>

section \<open>Types\<close>

datatype direction = Forward | Backward

record pagination_params =
  pp_limit :: nat
  pp_cursor :: "uuid option"
  pp_direction :: direction

record pagination_query =
  pq_limit :: "nat option"
  pq_cursor :: "uuid option"
  pq_direction :: "direction option"

definition into_params :: "pagination_query \<Rightarrow> pagination_params" where
  "into_params q =
     \<lparr>pp_limit = min (case pq_limit q of Some n \<Rightarrow> n | None \<Rightarrow> 20) 100,
      pp_cursor = pq_cursor q,
      pp_direction = (case pq_direction q of Some d \<Rightarrow> d | None \<Rightarrow> Forward)\<rparr>"

definition default_params :: pagination_params where
  "default_params = \<lparr>pp_limit = 20, pp_cursor = None, pp_direction = Forward\<rparr>"

record cursors =
  next_cursor :: "uuid option"
  prev_cursor :: "uuid option"

record 'a pagination_res =
  pr_items :: "'a list"
  pr_next_cursor :: "uuid option"
  pr_prev_cursor :: "uuid option"

definition pagination_res_new :: "'a list \<Rightarrow> cursors \<Rightarrow> 'a pagination_res" where
  "pagination_res_new items c =
     \<lparr>pr_items = items, pr_next_cursor = next_cursor c, pr_prev_cursor = prev_cursor c\<rparr>"

record 'a paginated_response =
  pj_items :: "'a list"
  pj_next_cursor :: "string option"
  pj_prev_cursor :: "string option"

definition paginated_response_new :: "externs \<Rightarrow> 'a pagination_res \<Rightarrow> 'a paginated_response" where
  "paginated_response_new x res =
     \<lparr>pj_items = pr_items res,
      pj_next_cursor = map_option (uuid_str x) (pr_next_cursor res),
      pj_prev_cursor = map_option (uuid_str x) (pr_prev_cursor res)\<rparr>"

section \<open>Building and running a query\<close>

datatype clause = AndIdGt uuid | AndIdLt uuid | GroupById | OrderAsc | OrderDesc | Limit nat

definition keyset_paginate :: "pagination_params \<Rightarrow> clause list \<Rightarrow> clause list" where
  "keyset_paginate p qb =
     (case pp_direction p of
        Forward \<Rightarrow>
          qb @ (case pp_cursor p of Some last_id \<Rightarrow> [AndIdGt last_id] | None \<Rightarrow> [])
             @ [OrderAsc, Limit (pp_limit p + 1)]
      | Backward \<Rightarrow>
          qb @ (case pp_cursor p of Some first_id \<Rightarrow> [AndIdLt first_id] | None \<Rightarrow> [])
             @ [OrderDesc, Limit (pp_limit p + 1)])"

text \<open>The rows are those that the fixed part of the query (\<open>FROM ... WHERE ...\<close>) selects,
  one per group where there is a \<open>GROUP BY\<close>.\<close>

fun run_clauses :: "('r \<Rightarrow> uuid) \<Rightarrow> bool \<Rightarrow> clause list \<Rightarrow> 'r list \<Rightarrow> db_error + 'r list" where
  "run_clauses k grouped [] rows = Inr rows"
| "run_clauses k grouped (AndIdGt c # cs) rows =
     (if grouped then Inl DatatypeMismatch else run_clauses k grouped cs (filter (\<lambda>r. c < k r) rows))"
| "run_clauses k grouped (AndIdLt c # cs) rows =
     (if grouped then Inl DatatypeMismatch else run_clauses k grouped cs (filter (\<lambda>r. k r < c) rows))"
| "run_clauses k grouped (GroupById # cs) rows = run_clauses k True cs rows"
| "run_clauses k grouped (OrderAsc # cs) rows = run_clauses k grouped cs (sort_key k rows)"
| "run_clauses k grouped (OrderDesc # cs) rows = run_clauses k grouped cs (rev (sort_key k rows))"
| "run_clauses k grouped (Limit n # cs) rows = run_clauses k grouped cs (take n rows)"

definition fetch_all_clauses ::
  "executor \<Rightarrow> ('r \<Rightarrow> uuid) \<Rightarrow> clause list \<Rightarrow> ('d \<Rightarrow> 'r list) \<Rightarrow> ('d srv, db_error, 'r list) eff" where
  "fetch_all_clauses ex k qb rows =
     stmt ex (\<lambda>now d. case run_clauses k False qb (rows d) of Inl e \<Rightarrow> Inl e | Inr rs \<Rightarrow> Inr (rs, d))"

text \<open>\<open>get_cursors\<close> also trims and reverses the rows it is given.\<close>

definition get_cursors :: "('r \<Rightarrow> uuid) \<Rightarrow> pagination_params \<Rightarrow> 'r list \<Rightarrow> cursors \<times> 'r list" where
  "get_cursors k p rows =
     (let has_more = length rows > pp_limit p;
          rows1 = (if has_more then butlast rows else rows);
          rows2 = (if pp_direction p = Backward then rev rows1 else rows1);
          start_id = (case rows2 of [] \<Rightarrow> None | r # _ \<Rightarrow> Some (k r));
          end_id = (if rows2 = [] then None else Some (k (last rows2)))
      in ((case pp_direction p of
             Forward \<Rightarrow>
               \<lparr>next_cursor = (if has_more then end_id else None),
                prev_cursor = (if pp_cursor p \<noteq> None then start_id else None)\<rparr>
           | Backward \<Rightarrow>
               \<lparr>next_cursor = end_id,
                prev_cursor = (if has_more then start_id else None)\<rparr>), rows2))"

section \<open>Facts\<close>

lemma into_params_limit: "pp_limit (into_params q) \<le> 100"
  by (simp add: into_params_def)

lemma butlast_take_Suc:
  "n < length xs \<Longrightarrow> butlast (take (Suc n) xs) = take n xs"
  by (simp add: butlast_take)

text \<open>
  A page forwards from the start of a query without grouping holds the first rows in the
  order of their identifiers; its next cursor is absent exactly when there are no more.
\<close>

definition page :: "('r \<Rightarrow> uuid) \<Rightarrow> pagination_params \<Rightarrow> 'r list \<Rightarrow> db_error + (cursors \<times> 'r list)" where
  "page k p rows =
     (case run_clauses k False (keyset_paginate p []) rows of
        Inl e \<Rightarrow> Inl e | Inr rs \<Rightarrow> Inr (get_cursors k p rs))"

lemma run_keyset_forward:
  "pp_direction p = Forward \<Longrightarrow>
   run_clauses k False (keyset_paginate p []) rows =
     Inr (take (Suc (pp_limit p))
       (sort_key k (case pp_cursor p of None \<Rightarrow> rows | Some c \<Rightarrow> filter (\<lambda>r. c < k r) rows)))"
  by (simp add: keyset_paginate_def split: option.split)

lemma page_forward:
  assumes "pp_direction p = Forward"
    and "rest = sort_key k (case pp_cursor p of None \<Rightarrow> rows | Some c \<Rightarrow> filter (\<lambda>r. c < k r) rows)"
  obtains c where "page k p rows = Inr (c, take (pp_limit p) rest)"
    and "next_cursor c =
      (if pp_limit p < length rest \<and> 0 < pp_limit p then Some (k (rest ! (pp_limit p - 1))) else None)"
proof -
  have run: "run_clauses k False (keyset_paginate p []) rows = Inr (take (Suc (pp_limit p)) rest)"
    using run_keyset_forward[OF assms(1)] assms(2) by simp
  have rows2: "(if length (take (Suc (pp_limit p)) rest) > pp_limit p
      then butlast (take (Suc (pp_limit p)) rest) else take (Suc (pp_limit p)) rest) = take (pp_limit p) rest"
    by (cases "pp_limit p < length rest") (simp_all add: butlast_take_Suc)
  have last: "take (pp_limit p) rest \<noteq> [] \<Longrightarrow> pp_limit p < length rest \<Longrightarrow>
      last (take (pp_limit p) rest) = rest ! (pp_limit p - 1)"
    by (subst last_conv_nth) auto
  show ?thesis
    by (rule that[of "fst (get_cursors k p (take (Suc (pp_limit p)) rest))"])
       (use assms(1) run rows2 last in
        \<open>auto simp: page_def get_cursors_def Let_def min_def split: if_splits\<close>)
qed

text \<open>Following the next cursors from the start visits every row once, in order.\<close>

lemma filter_greater_sorted:
  "distinct (map k rows) \<Longrightarrow> sorted (map k rows) \<Longrightarrow> i < length rows \<Longrightarrow>
     filter (\<lambda>r. k (rows ! i) < k r) rows = drop (Suc i) rows"
proof (induction rows arbitrary: i)
  case (Cons a rows)
  show ?case
  proof (cases i)
    case 0
    have "k a < k r" if "r \<in> set rows" for r
      using Cons.prems that by (auto simp: order.strict_iff_order)
    then show ?thesis using 0 by (simp add: filter_id_conv)
  next
    case (Suc j)
    then have "k a \<le> k (rows ! j)" using Cons.prems by auto
    then show ?thesis using Cons Suc by (simp add: not_less)
  qed
qed simp

fun walk :: "nat \<Rightarrow> ('r \<Rightarrow> uuid) \<Rightarrow> nat \<Rightarrow> uuid option \<Rightarrow> 'r list \<Rightarrow> 'r list" where
  "walk 0 k n c rows = []"
| "walk (Suc fuel) k n c rows =
     (case page k \<lparr>pp_limit = n, pp_cursor = c, pp_direction = Forward\<rparr> rows of
        Inl e \<Rightarrow> []
      | Inr (cs, items) \<Rightarrow>
          items @ (case next_cursor cs of None \<Rightarrow> [] | Some c' \<Rightarrow> walk fuel k n (Some c') rows))"

lemma walk_from:
  assumes "0 < n" "distinct (map k rows)" "sorted (map k rows)"
    and "i \<le> length rows" "c = (if i = 0 then None else Some (k (rows ! (i - 1))))"
    and "length rows - i < fuel"
  shows "walk fuel k n c rows = drop i rows"
  using assms(4-6)
proof (induction fuel arbitrary: i c)
  case (Suc fuel)
  have rest: "(case c of None \<Rightarrow> rows | Some c \<Rightarrow> filter (\<lambda>r. c < k r) rows) = drop i rows"
  proof (cases i)
    case (Suc j)
    then show ?thesis
      using Suc.prems filter_greater_sorted[OF assms(2,3), of j] by simp
  qed (use Suc.prems in simp)
  have sorted: "sort_key k (drop i rows) = drop i rows"
    using assms(3) by (intro sort_key_id_if_sorted) (simp add: drop_map[symmetric] sorted_wrt_drop)
  let ?p = "\<lparr>pp_limit = n, pp_cursor = c, pp_direction = Forward\<rparr>"
  obtain cs where pg: "page k ?p rows = Inr (cs, take n (drop i rows))"
    and nx: "next_cursor cs = (if n < length (drop i rows) then Some (k (drop i rows ! (n - 1))) else None)"
    by (rule page_forward[of ?p "drop i rows" k rows]) (use rest sorted assms(1) in auto)
  show ?case
  proof (cases "n < length (drop i rows)")
    case True
    then have "walk fuel k n (Some (k (drop i rows ! (n - 1)))) rows = drop (i + n) rows"
      using assms(1) Suc.prems by (intro Suc.IH) (auto simp: algebra_simps)
    moreover have "take n (drop i rows) @ drop (i + n) rows = drop i rows"
      using append_take_drop_id[of n "drop i rows"] by (simp add: add.commute)
    ultimately show ?thesis using pg nx True by simp
  qed (use pg nx in simp)
qed simp

section \<open>Properties\<close>



end
