(* ===== verification/Taxonomy.thy ===== *)
theory Taxonomy
  imports Names Requests Inventory Pagination Auth "HOL-Library.Char_ord" "HOL-Library.List_Lexorder"
begin

text \<open>
  Categories and brands of the catalog service: the tables of
  \<open>catalog/migrations/202602241739_add_categories_brands.sql\<close> with their keys, references and
  cascades, the statements of \<open>categories/repository.rs\<close> and \<open>brands/repository.rs\<close>, the two
  services and their routes. A category stores its place in the tree twice: as the identifier
  of its parent and as an \<open>ltree\<close> path, the labels from the root joined by dots. The tables of
  products and images stand here too, because deleting a category or a brand looks at them.
\<close>

section \<open>Tables\<close>

record category =
  cg_id :: uuid
  cg_created_at :: timestamp
  cg_updated_at :: "timestamp option"
  cg_name :: string
  cg_slug :: string
  cg_path :: string
  cg_parent_id :: "uuid option"
  cg_depth :: int
  cg_description :: "string option"

record brand =
  bd_id :: uuid
  bd_created_at :: timestamp
  bd_updated_at :: "timestamp option"
  bd_name :: string
  bd_slug :: string
  bd_description :: "string option"
  bd_logo_url :: "string option"

datatype product_status = PdDraft | PdActive | PdInactive | PdArchived

record product =
  pd_id :: uuid
  pd_created_at :: timestamp
  pd_updated_at :: "timestamp option"
  pd_deleted_at :: "timestamp option"
  pd_seller_id :: uuid
  pd_name :: string
  pd_slug :: string
  pd_description :: "string option"
  pd_base_price :: decimal
  pd_currency :: string
  pd_category_id :: "uuid option"
  pd_brand_id :: "uuid option"
  pd_status :: product_status

record product_image =
  pi_id :: uuid
  pi_created_at :: timestamp
  pi_product_id :: uuid
  pi_url :: string
  pi_alt_text :: "string option"
  pi_sort_order :: int
  pi_is_primary :: bool

record master_db = catalog_db +
  categories :: "category list"
  brands :: "brand list"
  brand_categories :: "(uuid \<times> uuid) list"
  products :: "product list"
  product_images :: "product_image list"

text \<open>The labels of a path. \<open>a <@ b\<close> of \<open>ltree\<close> holds when \<open>b\<close> is \<open>a\<close> or an ancestor of it.\<close>

definition labels :: "string \<Rightarrow> string list" where
  "labels p = split_on CHR ''.'' p"

definition ltree_within :: "string \<Rightarrow> string \<Rightarrow> bool" where
  "ltree_within p q \<longleftrightarrow> prefix (labels q) (labels p)"

section \<open>Requests and responses\<close>

record create_category_req =
  cc_name :: string
  cc_slug :: "string option"
  cc_parent_id :: "uuid option"
  cc_description :: "string option"

record update_category_req =
  uq_name :: "string option"
  uq_description :: "string option"

record valid_create_category =
  vc_name :: string
  vc_slug :: string
  vc_label :: string
  vc_parent_id :: "uuid option"
  vc_description :: "string option"

text \<open>\<open>Option::transpose\<close>: validate a value that may be absent.\<close>

definition transpose_opt :: "('a \<Rightarrow> ('b, 'e) result) \<Rightarrow> 'a option \<Rightarrow> ('b option, 'e) result" where
  "transpose_opt f v = (case v of None \<Rightarrow> Ok None | Some a \<Rightarrow> and_then (f a) (\<lambda>b. Ok (Some b)))"

definition slug_or_generated :: "externs \<Rightarrow> string option \<Rightarrow> string \<Rightarrow> (string, app_error) result" where
  "slug_or_generated x slug name = (case slug of Some s \<Rightarrow> slug_new s | None \<Rightarrow> slug_from_name x name)"

definition valid_create_category_new :: "externs \<Rightarrow> create_category_req \<Rightarrow> (valid_create_category, app_error) result" where
  "valid_create_category_new x req =
     and_then (category_name_new (cc_name req)) (\<lambda>name.
     and_then (slug_or_generated x (cc_slug req) name) (\<lambda>slug.
     and_then (ltree_label_from_name x name) (\<lambda>label.
       Ok \<lparr>vc_name = name, vc_slug = slug, vc_label = label, vc_parent_id = cc_parent_id req,
           vc_description = cc_description req\<rparr>)))"

definition valid_update_category_new :: "update_category_req \<Rightarrow> (update_category_req, app_error) result" where
  "valid_update_category_new req =
     and_then (transpose_opt category_name_new (uq_name req)) (\<lambda>name.
       Ok \<lparr>uq_name = name, uq_description = uq_description req\<rparr>)"

record category_res =
  cx_id :: string
  cx_created_at :: string
  cx_updated_at :: "string option"
  cx_name :: string
  cx_slug :: string
  cx_path :: string
  cx_parent_id :: "string option"
  cx_depth :: int
  cx_description :: "string option"

definition category_res_new :: "externs \<Rightarrow> category \<Rightarrow> category_res" where
  "category_res_new x c =
     \<lparr>cx_id = uuid_str x (cg_id c), cx_created_at = dt_str x (cg_created_at c),
      cx_updated_at = map_option (dt_str x) (cg_updated_at c), cx_name = cg_name c, cx_slug = cg_slug c,
      cx_path = cg_path c, cx_parent_id = map_option (uuid_str x) (cg_parent_id c),
      cx_depth = cg_depth c, cx_description = cg_description c\<rparr>"

record create_brand_req =
  cb_name :: string
  cb_slug :: "string option"
  cb_description :: "string option"
  cb_logo_url :: "string option"

record update_brand_req =
  ub_name :: "string option"
  ub_description :: "string option"
  ub_logo_url :: "string option"

record valid_create_brand =
  vb_name :: string
  vb_slug :: string
  vb_description :: "string option"
  vb_logo_url :: "string option"

definition valid_create_brand_new :: "externs \<Rightarrow> create_brand_req \<Rightarrow> (valid_create_brand, app_error) result" where
  "valid_create_brand_new x req =
     and_then (brand_name_new (cb_name req)) (\<lambda>name.
     and_then (slug_or_generated x (cb_slug req) name) (\<lambda>slug.
     and_then (transpose_opt http_url_new (cb_logo_url req)) (\<lambda>logo.
       Ok \<lparr>vb_name = name, vb_slug = slug, vb_description = cb_description req, vb_logo_url = logo\<rparr>)))"

definition valid_update_brand_new :: "update_brand_req \<Rightarrow> (update_brand_req, app_error) result" where
  "valid_update_brand_new req =
     and_then (transpose_opt brand_name_new (ub_name req)) (\<lambda>name.
     and_then (transpose_opt http_url_new (ub_logo_url req)) (\<lambda>logo.
       Ok \<lparr>ub_name = name, ub_description = ub_description req, ub_logo_url = logo\<rparr>))"

record brand_res =
  bx_id :: string
  bx_created_at :: string
  bx_updated_at :: "string option"
  bx_name :: string
  bx_slug :: string
  bx_description :: "string option"
  bx_logo_url :: "string option"

definition brand_res_new :: "externs \<Rightarrow> brand \<Rightarrow> brand_res" where
  "brand_res_new x b =
     \<lparr>bx_id = uuid_str x (bd_id b), bx_created_at = dt_str x (bd_created_at b),
      bx_updated_at = map_option (dt_str x) (bd_updated_at b), bx_name = bd_name b, bx_slug = bd_slug b,
      bx_description = bd_description b, bx_logo_url = bd_logo_url b\<rparr>"

section \<open>Statements on categories\<close>

definition get_category_by_id :: "externs \<Rightarrow> executor \<Rightarrow> uuid \<Rightarrow> (master_db srv, app_error, category) eff" where
  "get_category_by_id x ex cid =
     map_err (\<lambda>e. NotFound (''Category not found: '' @ db_text x e))
       (fetch_one (query ex (\<lambda>d. filter (\<lambda>c. cg_id c = cid) (categories d))))"

definition repo_category_by_slug :: "externs \<Rightarrow> executor \<Rightarrow> string \<Rightarrow> (master_db srv, app_error, category) eff" where
  "repo_category_by_slug x ex slug =
     map_err (\<lambda>e. NotFound (''Category not found: '' @ db_text x e))
       (fetch_one (query ex (\<lambda>d. filter (\<lambda>c. cg_slug c = slug) (categories d))))"

definition repo_list_root_categories ::
  "externs \<Rightarrow> executor \<Rightarrow> pagination_params \<Rightarrow> (master_db srv, app_error, category list) eff" where
  "repo_list_root_categories x ex p =
     map_err (failed x ''Failed to list root categories: '')
       (fetch_all_clauses ex cg_id (keyset_paginate p []) (\<lambda>d. filter (\<lambda>c. cg_parent_id c = None) (categories d)))"

definition repo_get_children ::
  "externs \<Rightarrow> executor \<Rightarrow> uuid \<Rightarrow> pagination_params \<Rightarrow> (master_db srv, app_error, category list) eff" where
  "repo_get_children x ex pid p =
     map_err (failed x ''Failed to list children: '')
       (fetch_all_clauses ex cg_id (keyset_paginate p []) (\<lambda>d. filter (\<lambda>c. cg_parent_id c = Some pid) (categories d)))"

definition subtree_rows :: "string \<Rightarrow> master_db \<Rightarrow> category list" where
  "subtree_rows p d =
     take 200 (sort_key (\<lambda>c. labels (cg_path c)) (filter (\<lambda>c. ltree_within (cg_path c) p) (categories d)))"

definition repo_get_subtree :: "externs \<Rightarrow> executor \<Rightarrow> string \<Rightarrow> (master_db srv, app_error, category list) eff" where
  "repo_get_subtree x ex p = map_err (failed x ''Failed to get subtree: '') (query ex (subtree_rows p))"

definition ancestor_rows :: "string \<Rightarrow> master_db \<Rightarrow> category list" where
  "ancestor_rows p d = take 50 (sort_key cg_depth (filter (\<lambda>c. ltree_within p (cg_path c)) (categories d)))"

definition repo_get_ancestors :: "externs \<Rightarrow> executor \<Rightarrow> string \<Rightarrow> (master_db srv, app_error, category list) eff" where
  "repo_get_ancestors x ex p = map_err (failed x ''Failed to get ancestors: '') (query ex (ancestor_rows p))"

definition category_row ::
  "uuid \<Rightarrow> timestamp \<Rightarrow> string \<Rightarrow> string \<Rightarrow> string \<Rightarrow> uuid option \<Rightarrow> int \<Rightarrow> string option \<Rightarrow> category" where
  "category_row rid now name slug p parent depth descr =
     \<lparr>cg_id = rid, cg_created_at = now, cg_updated_at = None, cg_name = name, cg_slug = slug, cg_path = p,
      cg_parent_id = parent, cg_depth = depth, cg_description = descr\<rparr>"

definition insert_category_sql ::
  "valid_create_category \<Rightarrow> string \<Rightarrow> int \<Rightarrow> uuid \<Rightarrow> (master_db, uuid) sql" where
  "insert_category_sql req p depth rid now d =
     (case (varchar_col 255 (vc_name req), varchar_col 255 (vc_slug req)) of
        (Inl e, _) \<Rightarrow> Inl e
      | (_, Inl e) \<Rightarrow> Inl e
      | (Inr name, Inr slug) \<Rightarrow>
          if rid \<in> cg_id ` set (categories d) then Inl (UniqueViolation ''categories_pkey'')
          else if slug \<in> cg_slug ` set (categories d) then Inl (UniqueViolation ''categories_slug_key'')
          else if p \<in> cg_path ` set (categories d) then Inl (UniqueViolation ''categories_path_key'')
          else if (case vc_parent_id req of Some pid \<Rightarrow> pid \<notin> cg_id ` set (categories d) | None \<Rightarrow> False)
          then Inl (ForeignKeyViolation ''categories_parent_id_fkey'')
          else Inr (rid, d\<lparr>categories := categories d @
                 [category_row rid now name slug p (vc_parent_id req) depth (vc_description req)]\<rparr>))"

definition repo_create_category ::
  "externs \<Rightarrow> valid_create_category \<Rightarrow> string \<Rightarrow> int \<Rightarrow> (master_db srv, app_error, uuid) eff" where
  "repo_create_category x req p depth =
     bnd next_uuid (\<lambda>rid.
       map_err (failed x ''Failed to create category: '') (stmt Tx (insert_category_sql req p depth rid)))"

text \<open>The dynamic \<open>UPDATE\<close>: the columns that are present, and the time of the update.\<close>

definition set_category :: "update_category_req \<Rightarrow> timestamp \<Rightarrow> category \<Rightarrow> category" where
  "set_category req now c =
     c\<lparr>cg_name := (case uq_name req of Some n \<Rightarrow> n | None \<Rightarrow> cg_name c),
       cg_description := (case uq_description req of Some t \<Rightarrow> Some t | None \<Rightarrow> cg_description c),
       cg_updated_at := Some now\<rparr>"

definition update_category_sql :: "uuid \<Rightarrow> update_category_req \<Rightarrow> (master_db, nat) sql" where
  "update_category_sql cid req now d =
     (case opt_varchar 255 (uq_name req) of
        Inl e \<Rightarrow> Inl e
      | Inr name \<Rightarrow>
          Inr (count_where (\<lambda>c. cg_id c = cid) (categories d),
               d\<lparr>categories := update_where (\<lambda>c. cg_id c = cid) (set_category (req\<lparr>uq_name := name\<rparr>) now) (categories d)\<rparr>))"

definition repo_update_category :: "externs \<Rightarrow> uuid \<Rightarrow> update_category_req \<Rightarrow> (master_db srv, app_error, unit) eff" where
  "repo_update_category x cid req =
     (if uq_name req = None \<and> uq_description req = None then ret ()
      else bnd (map_err (failed x ''Failed to update category: '') (stmt Tx (update_category_sql cid req)))
             (one_row ''Category not found'' ''UPDATE must affect exactly 1 row''))"

text \<open>Deleting cascades to \<open>brand_categories\<close>; children and products, deleted ones included, refuse it.\<close>

definition delete_category_sql :: "uuid \<Rightarrow> (master_db, nat) sql" where
  "delete_category_sql cid now d =
     (if cid \<in> cg_id ` set (categories d) \<and>
         (\<exists>c\<in>set (categories d). cg_parent_id c = Some cid \<and> cg_id c \<noteq> cid)
      then Inl (ForeignKeyViolation ''categories_parent_id_fkey'')
      else if cid \<in> cg_id ` set (categories d) \<and> (\<exists>p\<in>set (products d). pd_category_id p = Some cid)
      then Inl (ForeignKeyViolation ''products_category_id_fkey'')
      else Inr (count_where (\<lambda>c. cg_id c = cid) (categories d),
                d\<lparr>categories := filter (\<lambda>c. cg_id c \<noteq> cid) (categories d),
                  brand_categories := filter (\<lambda>p. snd p \<noteq> cid) (brand_categories d)\<rparr>))"

definition repo_delete_category :: "externs \<Rightarrow> uuid \<Rightarrow> (master_db srv, app_error, unit) eff" where
  "repo_delete_category x cid =
     bnd (map_err (failed x ''Failed to delete category: '') (stmt Tx (delete_category_sql cid)))
       (one_row ''Category not found'' ''DELETE must affect exactly 1 row'')"

definition exists_row :: "executor \<Rightarrow> ('d \<Rightarrow> bool) \<Rightarrow> ('d srv, db_error, bool) eff" where
  "exists_row ex P = fetch_one (query ex (\<lambda>d. [P d]))"

definition has_children :: "externs \<Rightarrow> executor \<Rightarrow> uuid \<Rightarrow> (master_db srv, app_error, bool) eff" where
  "has_children x ex cid =
     map_err (failed x ''Failed to check children: '')
       (exists_row ex (\<lambda>d. list_ex (\<lambda>c. cg_parent_id c = Some cid) (categories d)))"

definition category_has_products :: "externs \<Rightarrow> executor \<Rightarrow> uuid \<Rightarrow> (master_db srv, app_error, bool) eff" where
  "category_has_products x ex cid =
     map_err (failed x ''Failed to check products: '')
       (exists_row ex (\<lambda>d. list_ex (\<lambda>p. pd_category_id p = Some cid \<and> pd_deleted_at p = None) (products d)))"

section \<open>Statements on brands\<close>

definition get_brand_by_id :: "externs \<Rightarrow> executor \<Rightarrow> uuid \<Rightarrow> (master_db srv, app_error, brand) eff" where
  "get_brand_by_id x ex bid =
     map_err (\<lambda>e. NotFound (''Brand not found: '' @ db_text x e))
       (fetch_one (query ex (\<lambda>d. filter (\<lambda>b. bd_id b = bid) (brands d))))"

definition repo_brand_by_slug :: "externs \<Rightarrow> executor \<Rightarrow> string \<Rightarrow> (master_db srv, app_error, brand) eff" where
  "repo_brand_by_slug x ex slug =
     map_err (\<lambda>e. NotFound (''Brand not found: '' @ db_text x e))
       (fetch_one (query ex (\<lambda>d. filter (\<lambda>b. bd_slug b = slug) (brands d))))"

definition repo_list_brands :: "externs \<Rightarrow> executor \<Rightarrow> pagination_params \<Rightarrow> (master_db srv, app_error, brand list) eff" where
  "repo_list_brands x ex p =
     map_err (failed x ''Failed to list brands: '') (fetch_all_clauses ex bd_id (keyset_paginate p []) brands)"

definition insert_brand_sql :: "valid_create_brand \<Rightarrow> uuid \<Rightarrow> (master_db, uuid) sql" where
  "insert_brand_sql req rid now d =
     (case (varchar_col 255 (vb_name req), varchar_col 255 (vb_slug req)) of
        (Inl e, _) \<Rightarrow> Inl e
      | (_, Inl e) \<Rightarrow> Inl e
      | (Inr name, Inr slug) \<Rightarrow>
          if rid \<in> bd_id ` set (brands d) then Inl (UniqueViolation ''brands_pkey'')
          else if name \<in> bd_name ` set (brands d) then Inl (UniqueViolation ''brands_name_key'')
          else if slug \<in> bd_slug ` set (brands d) then Inl (UniqueViolation ''brands_slug_key'')
          else Inr (rid, d\<lparr>brands := brands d @
                 [\<lparr>bd_id = rid, bd_created_at = now, bd_updated_at = None, bd_name = name, bd_slug = slug,
                   bd_description = vb_description req, bd_logo_url = vb_logo_url req\<rparr>]\<rparr>))"

definition repo_create_brand :: "externs \<Rightarrow> valid_create_brand \<Rightarrow> (master_db srv, app_error, uuid) eff" where
  "repo_create_brand x req =
     bnd next_uuid (\<lambda>rid. map_err (failed x ''Failed to create brand: '') (stmt Tx (insert_brand_sql req rid)))"

definition set_brand :: "update_brand_req \<Rightarrow> timestamp \<Rightarrow> brand \<Rightarrow> brand" where
  "set_brand req now b =
     b\<lparr>bd_name := (case ub_name req of Some n \<Rightarrow> n | None \<Rightarrow> bd_name b),
       bd_description := (case ub_description req of Some t \<Rightarrow> Some t | None \<Rightarrow> bd_description b),
       bd_logo_url := (case ub_logo_url req of Some u \<Rightarrow> Some u | None \<Rightarrow> bd_logo_url b),
       bd_updated_at := Some now\<rparr>"

definition update_brand_sql :: "uuid \<Rightarrow> update_brand_req \<Rightarrow> (master_db, nat) sql" where
  "update_brand_sql bid req now d =
     (case opt_varchar 255 (ub_name req) of
        Inl e \<Rightarrow> Inl e
      | Inr name \<Rightarrow>
          if bid \<in> bd_id ` set (brands d) \<and> (\<exists>b\<in>set (brands d). bd_id b \<noteq> bid \<and> name = Some (bd_name b))
          then Inl (UniqueViolation ''brands_name_key'')
          else Inr (count_where (\<lambda>b. bd_id b = bid) (brands d),
                    d\<lparr>brands := update_where (\<lambda>b. bd_id b = bid) (set_brand (req\<lparr>ub_name := name\<rparr>) now) (brands d)\<rparr>))"

definition repo_update_brand :: "externs \<Rightarrow> uuid \<Rightarrow> update_brand_req \<Rightarrow> (master_db srv, app_error, unit) eff" where
  "repo_update_brand x bid req =
     (if ub_name req = None \<and> ub_description req = None \<and> ub_logo_url req = None then ret ()
      else bnd (map_err (failed x ''Failed to update brand: '') (stmt Tx (update_brand_sql bid req)))
             (one_row ''Brand not found'' ''UPDATE must affect exactly 1 row''))"

definition delete_brand_sql :: "uuid \<Rightarrow> (master_db, nat) sql" where
  "delete_brand_sql bid now d =
     (if bid \<in> bd_id ` set (brands d) \<and> (\<exists>p\<in>set (products d). pd_brand_id p = Some bid)
      then Inl (ForeignKeyViolation ''products_brand_id_fkey'')
      else Inr (count_where (\<lambda>b. bd_id b = bid) (brands d),
                d\<lparr>brands := filter (\<lambda>b. bd_id b \<noteq> bid) (brands d),
                  brand_categories := filter (\<lambda>p. fst p \<noteq> bid) (brand_categories d)\<rparr>))"

definition repo_delete_brand :: "externs \<Rightarrow> uuid \<Rightarrow> (master_db srv, app_error, unit) eff" where
  "repo_delete_brand x bid =
     bnd (map_err (failed x ''Failed to delete brand: '') (stmt Tx (delete_brand_sql bid)))
       (one_row ''Brand not found'' ''DELETE must affect exactly 1 row'')"

definition brand_has_products :: "externs \<Rightarrow> executor \<Rightarrow> uuid \<Rightarrow> (master_db srv, app_error, bool) eff" where
  "brand_has_products x ex bid =
     map_err (failed x ''Failed to check products: '')
       (exists_row ex (\<lambda>d. list_ex (\<lambda>p. pd_brand_id p = Some bid \<and> pd_deleted_at p = None) (products d)))"

definition associate_sql :: "uuid \<Rightarrow> uuid \<Rightarrow> (master_db, unit) sql" where
  "associate_sql bid cid now d =
     (if (bid, cid) \<in> set (brand_categories d) then Inr ((), d)
      else if bid \<notin> bd_id ` set (brands d) then Inl (ForeignKeyViolation ''brand_categories_brand_id_fkey'')
      else if cid \<notin> cg_id ` set (categories d) then Inl (ForeignKeyViolation ''brand_categories_category_id_fkey'')
      else Inr ((), d\<lparr>brand_categories := brand_categories d @ [(bid, cid)]\<rparr>))"

definition repo_associate_category :: "externs \<Rightarrow> uuid \<Rightarrow> uuid \<Rightarrow> (master_db srv, app_error, unit) eff" where
  "repo_associate_category x bid cid =
     map_err (failed x ''Failed to associate category: '') (stmt Tx (associate_sql bid cid))"

definition repo_disassociate_category :: "externs \<Rightarrow> uuid \<Rightarrow> uuid \<Rightarrow> (master_db srv, app_error, unit) eff" where
  "repo_disassociate_category x bid cid =
     bnd (map_err (failed x ''Failed to disassociate category: '')
            (stmt Tx (\<lambda>now d. Inr (count_where (\<lambda>p. p = (bid, cid)) (brand_categories d),
               d\<lparr>brand_categories := filter (\<lambda>p. p \<noteq> (bid, cid)) (brand_categories d)\<rparr>))))
       (\<lambda>rows. if rows = 0 then throw (NotFound ''Brand-category association not found'') else ret ())"

definition repo_categories_for_brand ::
  "externs \<Rightarrow> executor \<Rightarrow> uuid \<Rightarrow> pagination_params \<Rightarrow> (master_db srv, app_error, category list) eff" where
  "repo_categories_for_brand x ex bid p =
     map_err (failed x ''Failed to list categories for brand: '')
       (fetch_all_clauses ex cg_id (keyset_paginate p [])
          (\<lambda>d. filter (\<lambda>c. (bid, cg_id c) \<in> set (brand_categories d)) (categories d)))"

section \<open>The category service\<close>

definition max_category_depth :: int where
  "max_category_depth = 10"

definition category_place ::
  "externs \<Rightarrow> valid_create_category \<Rightarrow> (master_db srv, app_error, string \<times> int) eff" where
  "category_place x v =
     (case vc_parent_id v of
        Some pid \<Rightarrow>
          bnd (get_category_by_id x Pool pid) (\<lambda>parent.
            let depth = cast_i32 (cg_depth parent + 1) in
            if depth > max_category_depth
            then throw (BadRequest (''Category depth must not exceed '' @ show_int max_category_depth))
            else ret (cg_path parent @ ''.'' @ vc_label v, depth))
      | None \<Rightarrow> ret (vc_label v, 0))"

definition create_category ::
  "externs \<Rightarrow> current_user \<Rightarrow> create_category_req \<Rightarrow> (master_db srv, app_error, category_res) eff" where
  "create_category x u req =
     bnd (of_result (require_admin u)) (\<lambda>_.
     bnd (of_result (valid_create_category_new x req)) (\<lambda>v.
     bnd (category_place x v) (\<lambda>(p, depth).
     bnd (in_tx x ''Failed to create category: '' (repo_create_category x v p depth)) (\<lambda>cid.
     bnd (get_category_by_id x Pool cid) (\<lambda>c. ret (category_res_new x c))))))"

definition get_category :: "externs \<Rightarrow> uuid \<Rightarrow> (master_db srv, app_error, category_res) eff" where
  "get_category x cid = bnd (get_category_by_id x Pool cid) (\<lambda>c. ret (category_res_new x c))"

definition get_category_by_slug :: "externs \<Rightarrow> string \<Rightarrow> (master_db srv, app_error, category_res) eff" where
  "get_category_by_slug x slug = bnd (repo_category_by_slug x Pool slug) (\<lambda>c. ret (category_res_new x c))"

definition category_page ::
  "externs \<Rightarrow> pagination_params \<Rightarrow> category list \<Rightarrow> category_res pagination_res" where
  "category_page x p rows =
     (let (c, rs) = get_cursors cg_id p rows in pagination_res_new (map (category_res_new x) rs) c)"

definition list_root_categories ::
  "externs \<Rightarrow> pagination_params \<Rightarrow> (master_db srv, app_error, category_res pagination_res) eff" where
  "list_root_categories x p = bnd (repo_list_root_categories x Pool p) (\<lambda>rows. ret (category_page x p rows))"

definition get_children ::
  "externs \<Rightarrow> uuid \<Rightarrow> pagination_params \<Rightarrow> (master_db srv, app_error, category_res pagination_res) eff" where
  "get_children x cid p =
     bnd (get_category_by_id x Pool cid) (\<lambda>_.
     bnd (repo_get_children x Pool cid p) (\<lambda>rows. ret (category_page x p rows)))"

definition get_subtree :: "externs \<Rightarrow> uuid \<Rightarrow> (master_db srv, app_error, category_res list) eff" where
  "get_subtree x cid =
     bnd (get_category_by_id x Pool cid) (\<lambda>c.
     bnd (repo_get_subtree x Pool (cg_path c)) (\<lambda>rows. ret (map (category_res_new x) rows)))"

definition get_ancestors :: "externs \<Rightarrow> uuid \<Rightarrow> (master_db srv, app_error, category_res list) eff" where
  "get_ancestors x cid =
     bnd (get_category_by_id x Pool cid) (\<lambda>c.
     bnd (repo_get_ancestors x Pool (cg_path c)) (\<lambda>rows. ret (map (category_res_new x) rows)))"

definition update_category ::
  "externs \<Rightarrow> current_user \<Rightarrow> uuid \<Rightarrow> update_category_req \<Rightarrow> (master_db srv, app_error, unit) eff" where
  "update_category x u cid req =
     bnd (of_result (require_admin u)) (\<lambda>_.
     bnd (get_category_by_id x Pool cid) (\<lambda>_.
     bnd (of_result (valid_update_category_new req)) (\<lambda>v.
       in_tx x ''Failed to update category: '' (repo_update_category x cid v))))"

definition delete_category :: "externs \<Rightarrow> current_user \<Rightarrow> uuid \<Rightarrow> (master_db srv, app_error, unit) eff" where
  "delete_category x u cid =
     bnd (of_result (require_admin u)) (\<lambda>_.
     bnd (get_category_by_id x Pool cid) (\<lambda>_.
     bnd (has_children x Pool cid) (\<lambda>children.
       if children
       then throw (BadRequest ''Cannot delete category with child categories. Delete children first.'')
       else bnd (category_has_products x Pool cid) (\<lambda>used.
         if used
         then throw (BadRequest ''Cannot delete category with associated products. Reassign products first.'')
         else in_tx x ''Failed to delete category: '' (repo_delete_category x cid)))))"

section \<open>The brand service\<close>

definition create_brand ::
  "externs \<Rightarrow> current_user \<Rightarrow> create_brand_req \<Rightarrow> (master_db srv, app_error, brand_res) eff" where
  "create_brand x u req =
     bnd (of_result (require_admin u)) (\<lambda>_.
     bnd (of_result (valid_create_brand_new x req)) (\<lambda>v.
     bnd (in_tx x ''Failed to create brand: '' (repo_create_brand x v)) (\<lambda>bid.
     bnd (get_brand_by_id x Pool bid) (\<lambda>b. ret (brand_res_new x b)))))"

definition get_brand :: "externs \<Rightarrow> uuid \<Rightarrow> (master_db srv, app_error, brand_res) eff" where
  "get_brand x bid = bnd (get_brand_by_id x Pool bid) (\<lambda>b. ret (brand_res_new x b))"

definition get_brand_by_slug :: "externs \<Rightarrow> string \<Rightarrow> (master_db srv, app_error, brand_res) eff" where
  "get_brand_by_slug x slug = bnd (repo_brand_by_slug x Pool slug) (\<lambda>b. ret (brand_res_new x b))"

definition list_brands ::
  "externs \<Rightarrow> pagination_params \<Rightarrow> (master_db srv, app_error, brand_res pagination_res) eff" where
  "list_brands x p =
     bnd (repo_list_brands x Pool p) (\<lambda>rows.
       let (c, rs) = get_cursors bd_id p rows in ret (pagination_res_new (map (brand_res_new x) rs) c))"

definition update_brand ::
  "externs \<Rightarrow> current_user \<Rightarrow> uuid \<Rightarrow> update_brand_req \<Rightarrow> (master_db srv, app_error, unit) eff" where
  "update_brand x u bid req =
     bnd (of_result (require_admin u)) (\<lambda>_.
     bnd (get_brand_by_id x Pool bid) (\<lambda>_.
     bnd (of_result (valid_update_brand_new req)) (\<lambda>v.
       in_tx x ''Failed to update brand: '' (repo_update_brand x bid v))))"

definition delete_brand :: "externs \<Rightarrow> current_user \<Rightarrow> uuid \<Rightarrow> (master_db srv, app_error, unit) eff" where
  "delete_brand x u bid =
     bnd (of_result (require_admin u)) (\<lambda>_.
     bnd (get_brand_by_id x Pool bid) (\<lambda>_.
     bnd (brand_has_products x Pool bid) (\<lambda>used.
       if used
       then throw (BadRequest ''Cannot delete brand with associated products. Reassign products first.'')
       else in_tx x ''Failed to delete brand: '' (repo_delete_brand x bid))))"

definition associate_category ::
  "externs \<Rightarrow> current_user \<Rightarrow> uuid \<Rightarrow> uuid \<Rightarrow> (master_db srv, app_error, unit) eff" where
  "associate_category x u bid cid =
     bnd (of_result (require_admin u)) (\<lambda>_.
     bnd (get_brand_by_id x Pool bid) (\<lambda>_.
     bnd (get_category_by_id x Pool cid) (\<lambda>_.
       in_tx x ''Failed to associate category: '' (repo_associate_category x bid cid))))"

definition disassociate_category ::
  "externs \<Rightarrow> current_user \<Rightarrow> uuid \<Rightarrow> uuid \<Rightarrow> (master_db srv, app_error, unit) eff" where
  "disassociate_category x u bid cid =
     bnd (of_result (require_admin u)) (\<lambda>_.
       in_tx x ''Failed to disassociate category: '' (repo_disassociate_category x bid cid))"

definition list_categories_for_brand ::
  "externs \<Rightarrow> uuid \<Rightarrow> pagination_params \<Rightarrow> (master_db srv, app_error, category_res pagination_res) eff" where
  "list_categories_for_brand x bid p =
     bnd (get_brand_by_id x Pool bid) (\<lambda>_.
     bnd (repo_categories_for_brand x Pool bid p) (\<lambda>rows. ret (category_page x p rows)))"

section \<open>Routes\<close>

datatype category_route =
    RListRoots pagination_query
  | RGetCategory uuid
  | RCategoryBySlug string
  | RChildren uuid pagination_query
  | RSubtree uuid
  | RAncestors uuid
  | RCreateCategory create_category_req
  | RUpdateCategory uuid update_category_req
  | RDeleteCategory uuid

datatype brand_route =
    RListBrands pagination_query
  | RGetBrand uuid
  | RBrandBySlug string
  | RBrandCategories uuid pagination_query
  | RCreateBrand create_brand_req
  | RUpdateBrand uuid update_brand_req
  | RDeleteBrand uuid
  | RAssociate uuid uuid
  | RDisassociate uuid uuid

datatype taxonomy_reply =
    CategoryReply category_res
  | CategoryList "category_res list"
  | CategoryPage "category_res paginated_response"
  | BrandReply brand_res
  | BrandPage "brand_res paginated_response"
  | DoneReply nat string

definition done_reply :: "string \<Rightarrow> ('s, app_error, unit) eff \<Rightarrow> ('s, app_error, taxonomy_reply) eff" where
  "done_reply message m = bnd m (\<lambda>_. ret (DoneReply 200 message))"

definition page_reply ::
  "externs \<Rightarrow> ('s, app_error, category_res pagination_res) eff \<Rightarrow> ('s, app_error, taxonomy_reply) eff" where
  "page_reply x m = bnd m (\<lambda>res. ret (CategoryPage (paginated_response_new x res)))"

fun category_handler ::
  "externs \<Rightarrow> current_user \<Rightarrow> category_route \<Rightarrow> (master_db srv, app_error, taxonomy_reply) eff" where
  "category_handler x u (RListRoots q) = page_reply x (list_root_categories x (into_params q))"
| "category_handler x u (RGetCategory cid) = bnd (get_category x cid) (\<lambda>c. ret (CategoryReply c))"
| "category_handler x u (RCategoryBySlug slug) = bnd (get_category_by_slug x slug) (\<lambda>c. ret (CategoryReply c))"
| "category_handler x u (RChildren cid q) = page_reply x (get_children x cid (into_params q))"
| "category_handler x u (RSubtree cid) = bnd (get_subtree x cid) (\<lambda>cs. ret (CategoryList cs))"
| "category_handler x u (RAncestors cid) = bnd (get_ancestors x cid) (\<lambda>cs. ret (CategoryList cs))"
| "category_handler x u (RCreateCategory req) = bnd (create_category x u req) (\<lambda>c. ret (CategoryReply c))"
| "category_handler x u (RUpdateCategory cid req) =
     done_reply ''Category updated successfully'' (update_category x u cid req)"
| "category_handler x u (RDeleteCategory cid) = done_reply ''Category deleted successfully'' (delete_category x u cid)"

fun brand_handler ::
  "externs \<Rightarrow> current_user \<Rightarrow> brand_route \<Rightarrow> (master_db srv, app_error, taxonomy_reply) eff" where
  "brand_handler x u (RListBrands q) =
     bnd (list_brands x (into_params q)) (\<lambda>res. ret (BrandPage (paginated_response_new x res)))"
| "brand_handler x u (RGetBrand bid) = bnd (get_brand x bid) (\<lambda>b. ret (BrandReply b))"
| "brand_handler x u (RBrandBySlug slug) = bnd (get_brand_by_slug x slug) (\<lambda>b. ret (BrandReply b))"
| "brand_handler x u (RBrandCategories bid q) = page_reply x (list_categories_for_brand x bid (into_params q))"
| "brand_handler x u (RCreateBrand req) = bnd (create_brand x u req) (\<lambda>b. ret (BrandReply b))"
| "brand_handler x u (RUpdateBrand bid req) = done_reply ''Brand updated successfully'' (update_brand x u bid req)"
| "brand_handler x u (RDeleteBrand bid) = done_reply ''Brand deleted successfully'' (delete_brand x u bid)"
| "brand_handler x u (RAssociate bid cid) = done_reply ''Category associated with brand'' (associate_category x u bid cid)"
| "brand_handler x u (RDisassociate bid cid) =
     done_reply ''Category disassociated from brand'' (disassociate_category x u bid cid)"

text \<open>The two groups of routes of one application.\<close>

fun taxonomy_handler ::
  "externs \<Rightarrow> current_user \<Rightarrow> category_route + brand_route \<Rightarrow> (master_db srv, app_error, taxonomy_reply) eff" where
  "taxonomy_handler x u (Inl rt) = category_handler x u rt"
| "taxonomy_handler x u (Inr rt) = brand_handler x u rt"

end
