(* ===== verification/Taxonomy_Proofs.thy ===== *)
theory Taxonomy_Proofs
  imports Taxonomy "HOL-Library.Multiset"
begin

text \<open>
  The category tree: the two representations of a category's place, the identifier of the
  parent and the path, agree in every reachable state, so that the queries over paths answer
  questions about the tree.
\<close>

section \<open>The invariant\<close>

text \<open>A category is a root, whose path is one label, or a child one level below its parent, whose
  path is the parent's path with one more label.\<close>

definition placed_ok :: "category list \<Rightarrow> category \<Rightarrow> bool" where
  "placed_ok cs c \<longleftrightarrow>
     (case cg_parent_id c of
        None \<Rightarrow> label_re (cg_path c) \<and> cg_depth c = 0
      | Some pid \<Rightarrow> (\<exists>q\<in>set cs. cg_id q = pid \<and> cg_depth c = cg_depth q + 1 \<and>
          labels (cg_path c) = labels (cg_path q) @ [last (labels (cg_path c))] \<and>
          label_re (last (labels (cg_path c)))))"

definition tree_ok :: "category list \<Rightarrow> bool" where
  "tree_ok cs \<longleftrightarrow>
     distinct (map cg_id cs) \<and> distinct (map cg_path cs) \<and>
     (\<forall>c\<in>set cs. placed_ok cs c \<and> cg_depth c \<le> max_category_depth)"

lemma labels_label: "label_re l \<Longrightarrow> labels l = [l]"
  by (simp add: labels_def split_on_single label_no_dot)

lemma labels_not_Nil [simp]: "labels p \<noteq> []"
  by (simp add: labels_def)

lemma labels_inj: "labels p = labels q \<longleftrightarrow> p = q"
  by (metis labels_def join_split_on)

lemma split_on_snoc: "c \<notin> set t \<Longrightarrow> split_on c (s @ c # t) = split_on c s @ [t]"
proof (induction s)
  case (Cons d s)
  then show ?case by (cases "split_on c s") (auto simp: split_on_single)
qed (simp add: split_on_single)

lemma labels_child: "label_re l \<Longrightarrow> labels (p @ ''.'' @ l) = labels p @ [l]"
  using split_on_snoc[of "CHR ''.''" l p] label_no_dot[of l] by (simp add: labels_def)

lemmas labels_simps = labels_label labels_child labels_child[simplified]

lemma tree_ok_unique:
  "tree_ok cs \<Longrightarrow> c \<in> set cs \<Longrightarrow> e \<in> set cs \<Longrightarrow> cg_id c = cg_id e \<or> cg_path c = cg_path e \<Longrightarrow> c = e"
  by (auto simp: tree_ok_def distinct_map dest: inj_onD)

lemma tree_parent:
  assumes "tree_ok cs" "c \<in> set cs" "cg_parent_id c = Some (cg_id q)" "q \<in> set cs"
  shows "labels (cg_path c) = labels (cg_path q) @ [last (labels (cg_path c))]" "cg_depth c = cg_depth q + 1"
proof -
  obtain q' where q': "q' \<in> set cs" "cg_id q' = cg_id q" "cg_depth c = cg_depth q' + 1"
    "labels (cg_path c) = labels (cg_path q') @ [last (labels (cg_path c))]"
  proof -
    have "placed_ok cs c" using assms(1,2) by (simp add: tree_ok_def)
    then show ?thesis using that by (auto simp: placed_ok_def assms(3))
  qed
  moreover have "q' = q" using tree_ok_unique[OF assms(1) q'(1) assms(4)] q'(2) by simp
  ultimately show "labels (cg_path c) = labels (cg_path q) @ [last (labels (cg_path c))]" "cg_depth c = cg_depth q + 1"
    by simp_all
qed

lemma tree_cases:
  assumes "tree_ok cs" "c \<in> set cs"
  obtains (root) "cg_parent_id c = None" "labels (cg_path c) = [cg_path c]" "cg_depth c = 0"
  | (child) q where "q \<in> set cs" "cg_parent_id c = Some (cg_id q)" "cg_depth c = cg_depth q + 1"
      "labels (cg_path c) = labels (cg_path q) @ [last (labels (cg_path c))]"
proof (cases "cg_parent_id c")
  case None
  then show ?thesis using root assms by (auto simp: tree_ok_def placed_ok_def labels_label)
next
  case (Some pid)
  have "placed_ok cs c" using assms by (simp add: tree_ok_def)
  then obtain q where "q \<in> set cs" "cg_id q = pid" by (auto simp: placed_ok_def Some)
  then show ?thesis using child[of q] Some tree_parent[OF assms, of q] by simp
qed

lemma tree_depth:
  assumes "tree_ok cs" shows "c \<in> set cs \<Longrightarrow> cg_depth c + 1 = int (length (labels (cg_path c)))"
proof (induction "length (labels (cg_path c))" arbitrary: c rule: less_induct)
  case less
  from assms less.prems show ?case
  proof (cases rule: tree_cases)
    case (child q)
    have "length (labels (cg_path c)) = Suc (length (labels (cg_path q)))"
      by (subst child(4)) simp
    then show ?thesis using less.hyps[of q] child by simp
  qed simp
qed

section \<open>Descendants\<close>

inductive descends :: "category list \<Rightarrow> category \<Rightarrow> category \<Rightarrow> bool" for cs where
  descends_refl: "c \<in> set cs \<Longrightarrow> descends cs c c"
| descends_step: "descends cs q c \<Longrightarrow> e \<in> set cs \<Longrightarrow> cg_parent_id e = Some (cg_id q) \<Longrightarrow> descends cs e c"

lemma descends_member: "descends cs e c \<Longrightarrow> e \<in> set cs \<and> c \<in> set cs"
  by (induction rule: descends.induct) auto

lemma descends_within: "descends cs e c \<Longrightarrow> tree_ok cs \<Longrightarrow> ltree_within (cg_path e) (cg_path c)"
proof (induction rule: descends.induct)
  case (descends_step q c e)
  have "labels (cg_path e) = labels (cg_path q) @ [last (labels (cg_path e))]"
    using tree_parent descends_step descends_member by blast
  then show ?case using descends_step by (metis ltree_within_def prefix_prefix)
qed (simp add: ltree_within_def)

lemma within_descends:
  assumes "tree_ok cs" "c \<in> set cs"
  shows "e \<in> set cs \<Longrightarrow> ltree_within (cg_path e) (cg_path c) \<Longrightarrow> descends cs e c"
proof (induction "length (labels (cg_path e))" arbitrary: e rule: less_induct)
  case less
  show ?case
  proof (cases "cg_path e = cg_path c")
    case True
    then have "e = c" using tree_ok_unique[OF assms(1) less.prems(1) assms(2)] by simp
    then show ?thesis using assms(2) descends_refl by simp
  next
    case False
    from assms(1) less.prems(1) show ?thesis
    proof (cases rule: tree_cases)
      case root
      then have "labels (cg_path c) = labels (cg_path e)"
        using less.prems(2) labels_not_Nil[of "cg_path c"] by (auto simp: ltree_within_def prefix_Cons)
      then show ?thesis using False by (simp add: labels_inj)
    next
      case (child q)
      have "labels (cg_path c) \<noteq> labels (cg_path e)" using False by (simp add: labels_inj)
      then have "ltree_within (cg_path q) (cg_path c)"
        using less.prems(2) child(4) by (metis ltree_within_def prefix_snoc)
      moreover have "length (labels (cg_path q)) < length (labels (cg_path e))" by (subst child(4)) simp
      ultimately have "descends cs q c" using less.hyps child(1) by blast
      then show ?thesis using descends_step less.prems(1) child(2) by blast
    qed
  qed
qed


section \<open>Ancestors\<close>

text \<open>A chain of categories from a root, each the parent of the next.\<close>

definition linked :: "category list \<Rightarrow> bool" where
  "linked rows \<longleftrightarrow>
     rows \<noteq> [] \<and> cg_parent_id (hd rows) = None \<and>
     (\<forall>i. Suc i < length rows \<longrightarrow> cg_parent_id (rows ! Suc i) = Some (cg_id (rows ! i)))"

lemma linked_snoc: "linked rows \<Longrightarrow> cg_parent_id c = Some (cg_id (last rows)) \<Longrightarrow> linked (rows @ [c])"
proof -
  assume l: "linked rows" "cg_parent_id c = Some (cg_id (last rows))"
  have "cg_parent_id ((rows @ [c]) ! Suc i) = Some (cg_id ((rows @ [c]) ! i))" if "Suc i < length (rows @ [c])" for i
  proof (cases "Suc i = length rows")
    case True
    then have "last rows = rows ! i" using l(1) last_conv_nth[of rows] by (simp add: linked_def flip: True)
    then show ?thesis using True l(2) by (simp add: nth_append)
  qed (use that l(1) in \<open>simp add: linked_def nth_append\<close>)
  then show ?thesis using l(1) by (simp add: linked_def)
qed

lemma ancestor_chain:
  assumes "tree_ok cs"
  shows "c \<in> set cs \<Longrightarrow> \<exists>rows. set rows = {q \<in> set cs. ltree_within (cg_path c) (cg_path q)} \<and>
    map cg_depth rows = [0..cg_depth c] \<and> last rows = c \<and> linked rows"
proof (induction "length (labels (cg_path c))" arbitrary: c rule: less_induct)
  case less
  have self: "z = c" if "z \<in> set cs" "labels (cg_path z) = labels (cg_path c)" for z
    using tree_ok_unique[OF assms that(1) less.prems] that(2) by (simp add: labels_inj)
  from assms less.prems show ?case
  proof (cases rule: tree_cases)
    case root
    have "{q \<in> set cs. ltree_within (cg_path c) (cg_path q)} = {c}"
    proof (intro equalityI subsetI)
      fix z assume "z \<in> {q \<in> set cs. ltree_within (cg_path c) (cg_path q)}"
      then have "z \<in> set cs" "labels (cg_path z) = labels (cg_path c)"
        using root(2) labels_not_Nil[of "cg_path z"] by (auto simp: ltree_within_def prefix_Cons)
      then show "z \<in> {c}" using self by simp
    qed (use less.prems in \<open>simp add: ltree_within_def\<close>)
    then show ?thesis using root by (intro exI[of _ "[c]"]) (simp add: linked_def)
  next
    case (child q)
    have "length (labels (cg_path q)) < length (labels (cg_path c))" by (subst child(4)) simp
    from less.hyps[OF this child(1)] obtain rows where rows:
      "set rows = {z \<in> set cs. ltree_within (cg_path q) (cg_path z)}" "map cg_depth rows = [0..cg_depth q]"
      "last rows = q" "linked rows" by blast
    have "ltree_within (cg_path c) (cg_path z) \<longleftrightarrow> labels (cg_path z) = labels (cg_path c) \<or> ltree_within (cg_path q) (cg_path z)" for z
      using child(4) unfolding ltree_within_def by (metis prefix_snoc)
    then have "{z \<in> set cs. ltree_within (cg_path c) (cg_path z)} = set (rows @ [c])"
      using self less.prems rows(1) by auto
    moreover have "0 \<le> cg_depth q + 1" using tree_depth[OF assms child(1)] by simp
    then have "map cg_depth (rows @ [c]) = [0..cg_depth c]"
      using rows(2) child(3) upto_rec2[of 0 "cg_depth q + 1"] by simp
    ultimately show ?thesis using linked_snoc[OF rows(4)] rows(3) child(2)
      by (intro exI[of _ "rows @ [c]"]) simp
  qed
qed

lemma ancestor_rows_chain:
  assumes "tree_ok (categories d)" "c \<in> set (categories d)"
  shows "map cg_depth (ancestor_rows (cg_path c) d) = [0..cg_depth c] \<and> last (ancestor_rows (cg_path c) d) = c \<and>
    linked (ancestor_rows (cg_path c) d)"
proof -
  let ?cs = "categories d" and ?f = "filter (\<lambda>q. ltree_within (cg_path c) (cg_path q)) (categories d)"
  obtain rows where rows: "set rows = {q \<in> set ?cs. ltree_within (cg_path c) (cg_path q)}"
    "map cg_depth rows = [0..cg_depth c]" "last rows = c" "linked rows" using ancestor_chain[OF assms] by blast
  have dist: "distinct (map cg_depth rows)" "sorted (map cg_depth rows)" by (simp_all add: rows(2))
  have "distinct ?cs" using assms(1) by (simp add: tree_ok_def distinct_map)
  then have "mset ?f = mset rows"
    using dist(1) rows(1) by (intro set_eq_iff_mset_eq_distinct[THEN iffD1]) (auto simp: distinct_map)
  moreover have "inj_on cg_depth (set ?f)" using dist(1) rows(1) by (simp add: distinct_map)
  ultimately have s: "sort_key cg_depth ?f = rows" by (intro sort_key_inj_key_eq) (simp_all add: dist(2))
  have "length rows = nat (cg_depth c + 1)" using arg_cong[OF rows(2), of length] by simp
  then have "length rows \<le> 50" using assms by (auto simp: tree_ok_def max_category_depth_def)
  then have "ancestor_rows (cg_path c) d = rows" by (simp add: ancestor_rows_def s)
  then show ?thesis using rows by simp
qed

section \<open>Every request keeps the tree\<close>

lemma placed_ok_transfer:
  assumes "placed_ok cs c"
    and "\<And>q. q \<in> set cs \<Longrightarrow> cg_parent_id c = Some (cg_id q) \<Longrightarrow>
      \<exists>q'\<in>set cs'. cg_id q' = cg_id q \<and> cg_depth q' = cg_depth q \<and> cg_path q' = cg_path q"
    and "cg_parent_id c' = cg_parent_id c" "cg_path c' = cg_path c" "cg_depth c' = cg_depth c"
  shows "placed_ok cs' c'"
proof (cases "cg_parent_id c")
  case None
  then show ?thesis using assms by (simp add: placed_ok_def)
next
  case (Some pid)
  then obtain q where q: "q \<in> set cs" "cg_id q = pid" "cg_depth c = cg_depth q + 1"
    "labels (cg_path c) = labels (cg_path q) @ [last (labels (cg_path c))]" "label_re (last (labels (cg_path c)))"
    using assms(1) by (auto simp: placed_ok_def)
  then obtain q' where "q' \<in> set cs'" "cg_id q' = cg_id q" "cg_depth q' = cg_depth q" "cg_path q' = cg_path q"
    using assms(2)[OF q(1)] Some by auto
  then show ?thesis using q Some assms(3-5) by (auto simp: placed_ok_def intro!: bexI[of _ q'])
qed

lemma tree_ok_append:
  assumes "tree_ok cs" "cg_id c \<notin> cg_id ` set cs" "cg_path c \<notin> cg_path ` set cs" "placed_ok cs c"
    "cg_depth c \<le> max_category_depth"
  shows "tree_ok (cs @ [c])"
proof -
  have "placed_ok (cs @ [c]) e" if "placed_ok cs e" for e
    by (rule placed_ok_transfer[OF that]) auto
  then show ?thesis using assms by (auto simp: tree_ok_def)
qed

lemma tree_ok_update:
  assumes "tree_ok cs" "\<And>c. cg_id (f c) = cg_id c" "\<And>c. cg_path (f c) = cg_path c" "\<And>c. cg_depth (f c) = cg_depth c"
    "\<And>c. cg_parent_id (f c) = cg_parent_id c"
  shows "tree_ok (update_where P f cs)"
proof -
  let ?g = "\<lambda>c. if P c then f c else c"
  have g: "cg_id (?g c) = cg_id c" "cg_path (?g c) = cg_path c" "cg_depth (?g c) = cg_depth c"
    "cg_parent_id (?g c) = cg_parent_id c" for c using assms by simp_all
  have placed: "placed_ok (update_where P f cs) (?g c)" if "placed_ok cs c" for c
  proof (rule placed_ok_transfer[OF that])
    fix q assume "q \<in> set cs"
    then have "?g q \<in> set (update_where P f cs)" by (simp add: set_update_where)
    then show "\<exists>q'\<in>set (update_where P f cs). cg_id q' = cg_id q \<and> cg_depth q' = cg_depth q \<and> cg_path q' = cg_path q"
      using g by (intro bexI[of _ "?g q"]) simp_all
  qed (simp_all only: g)
  have "placed_ok (update_where P f cs) e \<and> cg_depth e \<le> max_category_depth" if e: "e \<in> set (update_where P f cs)" for e
  proof -
    obtain c where c: "c \<in> set cs" "e = ?g c" using e unfolding set_update_where by blast
    have "placed_ok cs c" "cg_depth c \<le> max_category_depth" using assms(1) c(1) by (simp_all add: tree_ok_def)
    then show ?thesis unfolding c(2) g(3) using placed by blast
  qed
  then show ?thesis using assms(1-3) by (simp add: tree_ok_def)
qed

lemma tree_ok_delete:
  assumes "tree_ok cs" "\<forall>c\<in>set cs. cg_parent_id c = Some cid \<longrightarrow> cg_id c = cid"
  shows "tree_ok (filter (\<lambda>c. cg_id c \<noteq> cid) cs)"
proof -
  have "placed_ok (filter (\<lambda>c. cg_id c \<noteq> cid) cs) c" if c: "c \<in> set cs" "cg_id c \<noteq> cid" for c
  proof (rule placed_ok_transfer[of cs c])
    show "placed_ok cs c" using assms(1) c by (simp add: tree_ok_def)
    fix q assume "q \<in> set cs" "cg_parent_id c = Some (cg_id q)"
    then show "\<exists>q'\<in>set (filter (\<lambda>c. cg_id c \<noteq> cid) cs). cg_id q' = cg_id q \<and> cg_depth q' = cg_depth q \<and> cg_path q' = cg_path q"
      using assms(2) c by (intro bexI[of _ q]) auto
  qed simp_all
  then show ?thesis using assms(1) by (auto simp: tree_ok_def distinct_map_filter)
qed


lemma insert_category_sql_InrE:
  assumes "insert_category_sql v p depth rid now d = Inr (a, d')"
  obtains name slug where
    "d' = d\<lparr>categories := categories d @ [category_row rid now name slug p (vc_parent_id v) depth (vc_description v)]\<rparr>"
    "rid \<notin> cg_id ` set (categories d)" "p \<notin> cg_path ` set (categories d)"
  using assms unfolding insert_category_sql_def
  by (cases "varchar_col 255 (vc_name v)"; cases "varchar_col 255 (vc_slug v)") (auto split: if_splits)

lemma update_category_sql_categories:
  assumes "update_category_sql cid req now d = Inr (n, d')"
  shows "\<exists>req'. categories d' = update_where (\<lambda>c. cg_id c = cid) (set_category req' now) (categories d)"
  using assms by (cases "opt_varchar 255 (uq_name req)") (auto simp: update_category_sql_def)

text \<open>The place computed for a new category is one below a parent that exists.\<close>

definition place_ok :: "master_db \<Rightarrow> valid_create_category \<Rightarrow> string \<times> int \<Rightarrow> bool" where
  "place_ok d v pl \<longleftrightarrow>
     snd pl \<le> max_category_depth \<and>
     (case vc_parent_id v of
        None \<Rightarrow> fst pl = vc_label v \<and> snd pl = 0
      | Some pid \<Rightarrow> (\<exists>q\<in>set (categories d). cg_id q = pid \<and> fst pl = cg_path q @ ''.'' @ vc_label v \<and>
          snd pl = cg_depth q + 1))"

lemma label_from_name_Ok: "ltree_label_from_name x name = Ok l \<Longrightarrow> label_re l"
  by (auto simp: ltree_label_from_name_def ltree_label_new_def Let_def split: if_splits)

lemma valid_create_category_label: "valid_create_category_new x req = Ok v \<Longrightarrow> label_re (vc_label v)"
  by (auto simp: valid_create_category_new_def and_then_Ok_iff label_from_name_Ok)

lemma get_category_by_id_Ok:
  "get_category_by_id x Pool cid s = (Ok c, t) \<Longrightarrow> c \<in> set (categories (committed s)) \<and> cg_id c = cid \<and> committed t = committed s"
  unfolding get_category_by_id_def map_err_Ok_iff by (drule fetch_one_Pool_Ok) (auto simp: filter_eq_Cons_iff)

lemma keeps_taxonomy_queries [frame_rules]:
  "keeps committed (get_category_by_id x ex cid)" "keeps committed (has_children x ex cid)"
  "keeps committed (category_has_products x ex cid)" "keeps committed (get_brand_by_id x ex bid)"
  "keeps committed (brand_has_products x ex bid)" "keeps committed (repo_category_by_slug x ex slug)"
  "keeps committed (repo_brand_by_slug x ex slug)" "keeps committed (repo_get_subtree x ex p)"
  "keeps committed (repo_get_ancestors x ex p)"
  unfolding get_category_by_id_def has_children_def category_has_products_def get_brand_by_id_def brand_has_products_def
    exists_row_def repo_category_by_slug_def repo_brand_by_slug_def repo_get_subtree_def repo_get_ancestors_def
  by (intro frame_rules)+

lemma keeps_fetch_all_clauses [frame_rules]: "keeps committed (fetch_all_clauses ex k qb rows)"
  unfolding fetch_all_clauses_def
  by (cases ex; cases "\<exists>s. True") (auto simp: keeps_def split: sum.splits)

lemma keeps_taxonomy_lists [frame_rules]:
  "keeps committed (repo_list_root_categories x ex p)" "keeps committed (repo_get_children x ex cid p)"
  "keeps committed (repo_list_brands x ex p)" "keeps committed (repo_categories_for_brand x ex bid p)"
  unfolding repo_list_root_categories_def repo_get_children_def repo_list_brands_def repo_categories_for_brand_def
  by (intro frame_rules)+

lemma keeps_taxonomy_writes [frame_rules]:
  "keeps committed (repo_create_category x v p depth)" "keeps committed (repo_update_category x cid uq)"
  "keeps committed (repo_delete_category x cid)" "keeps committed (repo_create_brand x vb)"
  "keeps committed (repo_update_brand x bid ub)" "keeps committed (repo_delete_brand x bid)"
  "keeps committed (repo_associate_category x bid cid)" "keeps committed (repo_disassociate_category x bid cid)"
  unfolding repo_create_category_def repo_update_category_def repo_delete_category_def repo_create_brand_def
    repo_update_brand_def repo_delete_brand_def repo_associate_category_def repo_disassociate_category_def one_row_def
  by (intro frame_rules)+


text \<open>Statements that leave the categories alone.\<close>

lemma preserves_categories:
  "(\<And>now d a d'. f now d = Inr (a, d') \<Longrightarrow> categories d' = categories d) \<Longrightarrow>
     preserves (\<lambda>s. I (categories (current s))) (stmt Tx f)"
  by (rule preserves_stmt_Tx) metis

lemma brand_sql_categories:
  "insert_brand_sql v rid now d = Inr (a, d') \<Longrightarrow> categories d' = categories d"
  "update_brand_sql bid req now d = Inr (n, d') \<Longrightarrow> categories d' = categories d"
  "delete_brand_sql bid now d = Inr (n, d') \<Longrightarrow> categories d' = categories d"
  "associate_sql bid cid now d = Inr (w, d') \<Longrightarrow> categories d' = categories d"
  by (auto simp: insert_brand_sql_def update_brand_sql_def delete_brand_sql_def associate_sql_def
      split: if_splits sum.splits)

lemma preserves_brand_writes [inv_rules]:
  "preserves (\<lambda>s. I (categories (current s))) (repo_create_brand x vb)"
  "preserves (\<lambda>s. I (categories (current s))) (repo_update_brand x bid ub)"
  "preserves (\<lambda>s. I (categories (current s))) (repo_delete_brand x bid)"
  "preserves (\<lambda>s. I (categories (current s))) (repo_associate_category x bid cid)"
  "preserves (\<lambda>s. I (categories (current s))) (repo_disassociate_category x bid cid)"
proof -
  let ?P = "\<lambda>s. I (categories (current s))"
  have sql: "preserves ?P (stmt Tx (insert_brand_sql vb rid))" "preserves ?P (stmt Tx (update_brand_sql bid ub))"
    "preserves ?P (stmt Tx (delete_brand_sql bid))" "preserves ?P (stmt Tx (associate_sql bid cid))"
    "preserves ?P (stmt Tx (\<lambda>now d. Inr (count_where (\<lambda>p. p = (bid, cid)) (brand_categories d),
       d\<lparr>brand_categories := filter (\<lambda>p. p \<noteq> (bid, cid)) (brand_categories d)\<rparr>)))" for rid
    by (rule preserves_categories; auto dest: brand_sql_categories)+
  note fresh = preserves_next_uuid(2)[where I = "\<lambda>d. I (categories d)"]
  show "preserves ?P (repo_create_brand x vb)" "preserves ?P (repo_update_brand x bid ub)"
    "preserves ?P (repo_delete_brand x bid)" "preserves ?P (repo_associate_category x bid cid)"
    "preserves ?P (repo_disassociate_category x bid cid)"
    unfolding repo_create_brand_def repo_update_brand_def repo_delete_brand_def repo_associate_category_def
      repo_disassociate_category_def one_row_def
    by (intro inv_rules sql fresh)+
qed

lemma preserves_category_writes [inv_rules]:
  "preserves (\<lambda>s. tree_ok (categories (current s))) (repo_update_category x cid uq)"
  "preserves (\<lambda>s. tree_ok (categories (current s))) (repo_delete_category x cid)"
proof -
  have "preserves (\<lambda>s. tree_ok (categories (current s))) (stmt Tx (update_category_sql cid uq))"
    by (rule preserves_stmt_Tx[where I = "\<lambda>d. tree_ok (categories d)"])
       (auto dest!: update_category_sql_categories intro!: tree_ok_update simp: set_category_def)
  then show "preserves (\<lambda>s. tree_ok (categories (current s))) (repo_update_category x cid uq)"
    unfolding repo_update_category_def one_row_def by (intro inv_rules)
  have "preserves (\<lambda>s. tree_ok (categories (current s))) (stmt Tx (delete_category_sql cid))"
  proof (rule preserves_stmt_Tx[where I = "\<lambda>d. tree_ok (categories d)"])
    fix now d a d' assume sql: "delete_category_sql cid now d = Inr (a, d')" and ok: "tree_ok (categories d)"
    have "\<forall>c\<in>set (categories d). cg_parent_id c = Some cid \<longrightarrow> cg_id c = cid"
    proof (cases "cid \<in> cg_id ` set (categories d)")
      case True
      then show ?thesis using sql by (auto simp: delete_category_sql_def split: if_splits)
    next
      case False
      then show ?thesis using ok by (fastforce simp: tree_ok_def placed_ok_def)
    qed
    then show "tree_ok (categories d')"
      using sql ok tree_ok_delete by (auto simp: delete_category_sql_def split: if_splits)
  qed
  then show "preserves (\<lambda>s. tree_ok (categories (current s))) (repo_delete_category x cid)"
    unfolding repo_delete_category_def one_row_def by (intro inv_rules)
qed


lemma wp_category_place:
  assumes "tree_ok (categories (committed s))"
  shows "wp (category_place x v) (\<lambda>pl t. committed t = committed s \<and> place_ok (committed s) v pl)
    (\<lambda>t. committed t = committed s) s"
proof (cases "vc_parent_id v")
  case None
  then show ?thesis by (simp add: category_place_def wp_ret place_ok_def max_category_depth_def)
next
  case (Some pid)
  obtain r t where g: "get_category_by_id x Pool pid s = (r, t)" by fastforce
  have t: "committed t = committed s" using keepsD[OF keeps_taxonomy_queries(1) g] .
  show ?thesis
  proof (cases r)
    case (Ok q)
    have q: "q \<in> set (categories (committed s))" "cg_id q = pid" using get_category_by_id_Ok g Ok by blast+
    have "cg_depth q + 1 = int (length (labels (cg_path q)))" "cg_depth q \<le> 10"
      using tree_depth[OF assms q(1)] assms q(1) by (auto simp: tree_ok_def max_category_depth_def)
    then have "cast_i32 (cg_depth q + 1) = cg_depth q + 1" by (intro cast_i32_id) simp_all
    then show ?thesis using Some Ok g t q
      by (auto simp: category_place_def wp_def bnd_def Let_def throw_def ret_def place_ok_def)
  qed (use Some g t in \<open>simp_all add: category_place_def wp_def bnd_def\<close>)
qed

lemma tree_ok_create:
  assumes "tree_ok (categories (committed s))" "place_ok (committed s) v pl" "label_re (vc_label v)"
  shows "tree_ok (categories (committed (snd (in_tx x what (repo_create_category x v (fst pl) (snd pl)) s))))"
proof -
  let ?m = "map_err tx_other (repo_create_category x v (fst pl) (snd pl))"
  have sql: "tree_ok (categories d')"
    if "insert_category_sql v (fst pl) (snd pl) rid now (committed s) = Inr (a, d')" for rid now a d'
    using that
  proof (rule insert_category_sql_InrE)
    fix name slug
    let ?c = "category_row rid now name slug (fst pl) (vc_parent_id v) (snd pl) (vc_description v)"
    assume d': "d' = (committed s)\<lparr>categories := categories (committed s) @ [?c]\<rparr>"
      and new: "rid \<notin> cg_id ` set (categories (committed s))" "fst pl \<notin> cg_path ` set (categories (committed s))"
    have "placed_ok (categories (committed s)) ?c"
    proof (cases "vc_parent_id v")
      case (Some pid)
      then obtain q where "q \<in> set (categories (committed s))" "cg_id q = pid" "fst pl = cg_path q @ ''.'' @ vc_label v"
        "snd pl = cg_depth q + 1" using assms(2) by (auto simp: place_ok_def)
      then show ?thesis using assms(3) Some
        by (auto simp: placed_ok_def category_row_def labels_simps intro!: bexI[of _ q])
    qed (use assms(2,3) in \<open>simp add: placed_ok_def place_ok_def category_row_def\<close>)
    then show "tree_ok (categories d')"
      using tree_ok_append[OF assms(1), of ?c] new assms(2) by (simp add: d' category_row_def place_ok_def)
  qed
  have "tree_ok (categories (committed (snd (with_transaction ?m s))))"
  proof (rule with_transaction_invariant[where I = "\<lambda>d. tree_ok (categories d)"])
    fix t :: "master_db srv" assume t: "current t = committed s"
    show "wp ?m (\<lambda>_ u. tree_ok (categories (current u))) (\<lambda>_. True) t"
      unfolding repo_create_category_def wp_map_err wp_bnd wp_next_uuid
      by (rule wp_stmt_Tx) (use sql t in auto)
  qed (use assms(1) in \<open>auto intro: frame_rules\<close>)
  then show ?thesis by (simp add: in_tx_def)
qed

lemma preserves_create_category: "preserves (\<lambda>s. tree_ok (categories (committed s))) (create_category x u req)"
proof (rule preserves_wp)
  let ?T = "\<lambda>s :: master_db srv. tree_ok (categories (committed s))"
  fix s :: "master_db srv" assume ok: "?T s"
  have rest: "wp (in_tx x what (repo_create_category x v (fst pl) (snd pl)))
      (\<lambda>cid. wp (bnd (get_category_by_id x Pool cid) (\<lambda>c. ret (category_res_new x c))) (\<lambda>_. ?T) ?T) ?T t"
    if "valid_create_category_new x req = Ok v" "committed t = committed s \<and> place_ok (committed s) v pl" for what v pl t
  proof -
    have "?T (snd (in_tx x what (repo_create_category x v (fst pl) (snd pl)) t))"
      using tree_ok_create[of t v pl] valid_create_category_label that ok by auto
    then show ?thesis
      by (rule wp_then_preserves)
         (intro preserves_keeps[where g = committed and I = "\<lambda>d. tree_ok (categories d)"] frame_rules)
  qed
  show "wp (create_category x u req) (\<lambda>_. ?T) ?T s"
  proof (cases "require_admin u")
    case (Ok w)
    show ?thesis
    proof (cases "valid_create_category_new x req")
      case v: (Ok v)
      show ?thesis unfolding create_category_def wp_bnd wp_of_result Ok v result.case
        by (rule wp_mono[OF wp_category_place[OF ok]]) (use rest[OF v] ok in \<open>auto simp: wp_bnd split: prod.split\<close>)
    qed (simp_all add: create_category_def wp_simps Ok ok)
  qed (simp_all add: create_category_def wp_simps ok)
qed

lemma preserves_category_handler: "preserves (\<lambda>s. tree_ok (categories (committed s))) (category_handler x u rt)"
proof -
  note reads = preserves_keeps[where g = committed and I = "\<lambda>d. tree_ok (categories d)"]
  note writes = preserves_in_tx[where I = "\<lambda>d. tree_ok (categories d)"]
  show ?thesis
  proof (cases rt)
    case (RCreateCategory req)
    then show ?thesis using preserves_create_category by (auto intro: inv_rules)
  next
    case (RUpdateCategory cid req)
    then show ?thesis
      by (auto simp: done_reply_def update_category_def intro!: preserves_bnd preserves_basic writes reads[OF keeps_taxonomy_queries(1)]
          preserves_category_writes frame_rules)
  next
    case (RDeleteCategory cid)
    then show ?thesis
      by (auto simp: done_reply_def delete_category_def intro!: preserves_bnd preserves_basic writes
          reads[OF keeps_taxonomy_queries(1)] reads[OF keeps_taxonomy_queries(2)] reads[OF keeps_taxonomy_queries(3)]
          preserves_category_writes frame_rules)
  qed (auto simp: page_reply_def list_root_categories_def get_category_def get_category_by_slug_def get_children_def
      get_subtree_def get_ancestors_def intro!: reads frame_rules)
qed

lemma preserves_brand_handler: "preserves (\<lambda>s. I (categories (committed s))) (brand_handler x u rt)"
proof -
  note reads = preserves_keeps[where g = committed and I = "\<lambda>d. I (categories d)"]
  note writes = preserves_in_tx[where I = "\<lambda>d. I (categories d)"]
  note parts = preserves_bnd preserves_basic preserves_if writes preserves_brand_writes
    reads[OF keeps_taxonomy_queries(1)] reads[OF keeps_taxonomy_queries(4)] reads[OF keeps_taxonomy_queries(5)]
  show ?thesis
    by (cases rt)
       (auto simp: done_reply_def page_reply_def list_brands_def get_brand_def get_brand_by_slug_def
         list_categories_for_brand_def create_brand_def update_brand_def delete_brand_def associate_category_def
         disassociate_category_def intro!: parts frame_rules intro: reads[OF keeps_taxonomy_queries(7)]
         reads[OF keeps_taxonomy_lists(3)] reads[OF keeps_taxonomy_lists(4)] split: prod.split)
qed

lemma preserves_taxonomy_handler:
  "preserves (\<lambda>s. tree_ok (categories (committed s))) (taxonomy_handler x u rt)"
  by (cases rt) (simp_all add: preserves_category_handler preserves_brand_handler[where I = tree_ok])

interpretation taxonomy: invariant_service "taxonomy_handler x" "\<lambda>_. True" "\<lambda>s. tree_ok (categories (committed s))" for x
proof unfold_locales
  fix u q and s :: "master_db srv" assume "tree_ok (categories (committed s))"
  then show "tree_ok (categories (committed (snd (taxonomy_handler x u q s))))"
    using preserves_taxonomy_handler[of x u q] by (simp add: preserves_def)
qed

section \<open>Properties\<close>

definition demo_master :: master_db where
  "demo_master =
     \<lparr>outbox_events = [], processed_events = [], skus = [], reservations = [],
      categories = [category_row 1 0 ''Tools'' ''tools'' ''tools'' None 0 None,
        category_row 2 0 ''Hand Tools'' ''hand-tools'' ''tools.hand_tools'' (Some 1) 1 None],
      brands = [], brand_categories = [],
      products = [\<lparr>pd_id = 5, pd_created_at = 0, pd_updated_at = None, pd_deleted_at = Some 3, pd_seller_id = 9,
        pd_name = ''Saw'', pd_slug = ''saw'', pd_description = None, pd_base_price = 10, pd_currency = ''USD'',
        pd_category_id = Some 2, pd_brand_id = None, pd_status = PdActive\<rparr>],
      product_images = []\<rparr>"

definition demo_admin :: current_user where
  "demo_admin = \<lparr>cu_id = 1, cu_role = Admin\<rparr>"

lemma demo_master_ok: "tree_ok (categories demo_master)"
  by (simp add: demo_master_def tree_ok_def placed_ok_def category_row_def labels_def label_re_def label_char_def slug_char_def
      is_ascii_lowercase_def is_ascii_digit_def max_category_depth_def)

text \<open>C28: Whatever requests the category and brand routes serve, in any order and with any outcome,
  the tree of categories stays consistent: identifiers and paths are unique, every category is a root
  whose path is one label or stands one level below an existing parent and extends that parent's path by
  one label, and no category is deeper than the limit.\<close>

theorem category_tree_invariant:
  assumes "tree_ok (categories (committed s))"
  shows "tree_ok (categories (committed (serve_all (taxonomy_handler x) reqs s)))"
  using taxonomy.serve_all_inv[OF _ assms, of reqs x] by (simp add: list_all_iff)

theorem category_tree_invariant_witness:
  "tree_ok (categories (committed (serve_all (taxonomy_handler demo_externs)
     [(demo_admin, Inl (RCreateCategory \<lparr>cc_name = ''Saws'', cc_slug = None, cc_parent_id = Some 2, cc_description = None\<rparr>)),
      (demo_admin, Inl (RDeleteCategory 1))] (demo_srv demo_master))))"
  by (rule category_tree_invariant) (simp add: demo_master_ok)

text \<open>C29: The subtree query, a comparison of paths, answers with the descendants of a category along
  the references to parents, ordered by path and cut at 200 rows.\<close>

theorem subtree_is_descendants:
  assumes "tree_ok (categories d)" "c \<in> set (categories d)"
  shows "subtree_rows (cg_path c) d =
    take 200 (sort_key (\<lambda>e. labels (cg_path e)) (filter (\<lambda>e. descends (categories d) e c) (categories d)))"
proof -
  have "filter (\<lambda>e. ltree_within (cg_path e) (cg_path c)) (categories d) = filter (\<lambda>e. descends (categories d) e c) (categories d)"
    using within_descends[OF assms] descends_within assms(1) by (intro filter_cong) auto
  then show ?thesis by (simp add: subtree_rows_def)
qed

theorem subtree_is_descendants_witness:
  "subtree_rows ''tools'' demo_master =
    take 200 (sort_key (\<lambda>e. labels (cg_path e))
      (filter (\<lambda>e. descends (categories demo_master) e (categories demo_master ! 0)) (categories demo_master)))"
  using subtree_is_descendants[OF demo_master_ok, of "categories demo_master ! 0"]
  by (simp add: demo_master_def category_row_def)

text \<open>The ancestors query answers with the whole chain from the root to the category itself, each
  row the parent of the following one, at the depths 0, 1 and so on: its limit of 50 rows never cuts it.\<close>

theorem ancestors_are_the_chain:
  assumes "tree_ok (categories d)" "c \<in> set (categories d)"
  shows "map cg_depth (ancestor_rows (cg_path c) d) = [0..cg_depth c] \<and> last (ancestor_rows (cg_path c) d) = c \<and>
    linked (ancestor_rows (cg_path c) d)"
  by (rule ancestor_rows_chain[OF assms])

theorem ancestors_are_the_chain_witness:
  "map cg_depth (ancestor_rows ''tools.hand_tools'' demo_master) = [0, 1]"
  using ancestors_are_the_chain[OF demo_master_ok, of "categories demo_master ! 1"]
  by (simp add: demo_master_def category_row_def upto_rec1)

text \<open>A category whose only products are deleted ones passes the check for associated products,
  which looks at live products, and is then refused by the foreign key: the request fails with an
  internal error and the category cannot be deleted.\<close>

theorem deleted_products_block_category:
  assumes "cu_role u = Admin" "healthy s" "c \<in> set (categories (committed s))"
    and "\<forall>e\<in>set (categories (committed s)). cg_parent_id e \<noteq> Some (cg_id c)"
    and "p \<in> set (products (committed s))" "pd_category_id p = Some (cg_id c)"
    and "\<forall>q\<in>set (products (committed s)). pd_category_id q = Some (cg_id c) \<longrightarrow> pd_deleted_at q \<noteq> None"
  shows "(\<exists>m. fst (delete_category x u (cg_id c) s) = Err (InternalServerError m)) \<and>
    committed (snd (delete_category x u (cg_id c) s)) = committed s"
proof -
  have "\<exists>e es. filter (\<lambda>e. cg_id e = cg_id c) (categories (committed s)) = e # es"
    using assms(3) by (cases "filter (\<lambda>e. cg_id e = cg_id c) (categories (committed s))") (auto simp: filter_empty_conv)
  then obtain e where "get_category_by_id x Pool (cg_id c) s = (Ok e, s)"
    using assms(2) by (auto simp: get_category_by_id_def fetch_one_def map_err_def bnd_def ret_def run_query_healthy)
  moreover have "has_children x Pool (cg_id c) s = (Ok False, s)" "category_has_products x Pool (cg_id c) s = (Ok False, s)"
    using assms by (auto simp: has_children_def category_has_products_def exists_row_def fetch_one_def run_query_healthy
        map_err_def bnd_def ret_def list_ex_iff)
  moreover have "(\<exists>m. fst (in_tx x what (repo_delete_category x (cg_id c)) s) = Err (InternalServerError m)) \<and>
    committed (snd (in_tx x what (repo_delete_category x (cg_id c)) s)) = committed s" for what
  proof -
    have "\<exists>n. delete_category_sql (cg_id c) now (committed s) = Inl (ForeignKeyViolation n)" for now
      using assms(3,5,6) by (auto simp: delete_category_sql_def)
    then obtain n where "delete_category_sql (cg_id c) (clock s (ticks s)) (committed s) = Inl (ForeignKeyViolation n)" by blast
    then have "repo_delete_category x (cg_id c) (tx_start s) =
      (Err (failed x ''Failed to delete category: '' (ForeignKeyViolation n)), (tx_start s)\<lparr>aborted := True\<rparr>)"
      using assms(2) by (simp add: repo_delete_category_def stmt_Tx_healthy bnd_def map_err_def del: stmt.simps)
    then show ?thesis using assms(2)
      by (simp add: in_tx_def with_transaction_def begin_tx_def map_err_def rollback_tx_def resume_tx_def)
  qed
  ultimately show ?thesis using assms(1) by (simp add: delete_category_def bnd_def of_result_def require_admin_def)
qed

theorem deleted_products_block_category_witness:
  "\<exists>m. fst (delete_category demo_externs demo_admin 2 (demo_srv demo_master)) = Err (InternalServerError m)"
  using deleted_products_block_category[of demo_admin "demo_srv demo_master" "categories demo_master ! 1" "products demo_master ! 0" demo_externs]
  by (simp add: demo_master_def demo_admin_def category_row_def)

end
