(* ===== verification/Cache.thy ===== *)
theory Cache
  imports Lock
begin

text \<open>
  The read cache \<open>RedisCache\<close> of \<open>shared/src/cache/mod.rs\<close>: values under keys in Redis, as the text that
  \<open>serde_json\<close> makes of them, with a time to live. There may be no Redis at all, and failures of the
  cache are never reported.
\<close>

section \<open>Operations\<close>

text \<open>\<open>GET\<close> of a missing key is an error of the client, which the wrapper turns into a miss.\<close>

definition cache_get :: "(string \<Rightarrow> 'a option) \<Rightarrow> string \<Rightarrow> (redis option, 'e, 'a option) eff" where
  "cache_get read key c =
     (case c of
        None \<Rightarrow> (Ok None, None)
      | Some r \<Rightarrow> (Ok (if rd_fault r then None else Option.bind (rd_get r key) read), Some (rd_tick r)))"

definition cache_set :: "('a \<Rightarrow> string option) \<Rightarrow> nat \<Rightarrow> string \<Rightarrow> 'a \<Rightarrow> (redis option, 'e, unit) eff" where
  "cache_set render ttl key v c =
     (case c of
        None \<Rightarrow> (Ok (), None)
      | Some r \<Rightarrow>
          (case render v of
             None \<Rightarrow> (Ok (), Some r)
           | Some t \<Rightarrow>
               (Ok (), Some (if rd_fault r then rd_tick r
                 else (rd_tick r)\<lparr>rd_store := (rd_store r)(key \<mapsto> (t, rd_now r + ttl))\<rparr>))))"

definition evict :: "string \<Rightarrow> (redis option, 'e, unit) eff" where
  "evict key c =
     (Ok (), map_option (\<lambda>r. if rd_fault r then rd_tick r
        else (rd_tick r)\<lparr>rd_store := (rd_store r)(key := None)\<rparr>) c)"

section \<open>Cached reads\<close>

lemma rd_get_Some: "rd_get r k = Some t \<Longrightarrow> \<exists>e. rd_store r k = Some (t, e)"
  by (auto simp: rd_get_def split: option.splits prod.splits if_splits)

text \<open>A cached read: the value comes from the cache or from the database.\<close>

lemma cached_read_Ok:
  fixes m :: "('s \<times> redis option, 'e, 'a) eff"
  assumes "bnd (on_snd (cache_get dec key)) (\<lambda>c. case c of Some v \<Rightarrow> ret v | None \<Rightarrow> m) s = (Ok v, t)"
  obtains (hit) r js e where "snd s = Some r" "rd_store r key = Some (js, e)" "dec js = Some v"
  | (miss) s1 where "fst s1 = fst s" "m s1 = (Ok v, t)"
proof -
  obtain c s1 where g: "on_snd (cache_get dec key :: (redis option, 'e, 'a option) eff) s = (Ok c, s1)" "(case c of Some v \<Rightarrow> ret v | None \<Rightarrow> m) s1 = (Ok v, t)"
    using assms unfolding bnd_Ok_iff by blast
  have s1: "fst s1 = fst s" using g(1) by (auto simp: on_snd_def split: prod.splits)
  show ?thesis
  proof (cases c)
    case None
    then show ?thesis using miss s1 g(2) by simp
  next
    case (Some w)
    then have "w = v" using g(2) by (simp add: ret_def)
    moreover obtain r where r: "snd s = Some r" "Option.bind (rd_get r key) dec = Some w"
      using g(1) Some by (cases "snd s") (auto simp: on_snd_def cache_get_def split: if_splits)
    then obtain js where "rd_get r key = Some js" "dec js = Some w" by (cases "rd_get r key") auto
    ultimately show ?thesis using hit r(1) rd_get_Some by blast
  qed
qed

end
