(* ===== verification/Products.thy ===== *)
theory Products
  imports Taxonomy Cache
begin

text \<open>
  Products, SKUs and images of the catalog service: the requests and responses of
  \<open>products/dtos.rs\<close>, the statements of \<open>products/repository.rs\<close> on the tables of
  \<open>catalog/migrations\<close>, the read cache of \<open>shared/src/cache/mod.rs\<close>, the service and its
  routes. The state is the database session and the optional connection to Redis. Rows that
  a query leaves unordered come in the order of the table.
\<close>

section \<open>Parameters\<close>

text \<open>What Postgres and the serde packages do: case-insensitive pattern matching, the JSON form of a
  row and the derived reading of it, and the JSON text of a cached response.\<close>

record shop_externs =
  ilike :: "string \<Rightarrow> string \<Rightarrow> bool" \<comment> \<open>text and pattern\<close>
  sku_json :: "sku \<Rightarrow> json"
  sku_of_json :: "json \<Rightarrow> sku option"
  image_json :: "product_image \<Rightarrow> json"
  image_of_json :: "json \<Rightarrow> product_image option"

section \<open>Rows of the joins\<close>

record product_entity = product +
  pe_category_name :: "string option"
  pe_category_slug :: "string option"
  pe_brand_name :: "string option"
  pe_brand_slug :: "string option"

record product_detail_row = product_entity +
  pr_skus_json :: json
  pr_images_json :: json

record product_list_entity =
  pl_id :: uuid
  pl_created_at :: timestamp
  pl_seller_id :: uuid
  pl_name :: string
  pl_slug :: string
  pl_base_price :: decimal
  pl_currency :: string
  pl_category_id :: "uuid option"
  pl_brand_id :: "uuid option"
  pl_status :: product_status
  pl_category_name :: "string option"
  pl_brand_name :: "string option"
  pl_image_url :: "string option"

definition joined_category :: "master_db \<Rightarrow> product \<Rightarrow> category option" where
  "joined_category d p = find (\<lambda>c. pd_category_id p = Some (cg_id c)) (categories d)"

definition joined_brand :: "master_db \<Rightarrow> product \<Rightarrow> brand option" where
  "joined_brand d p = find (\<lambda>b. pd_brand_id p = Some (bd_id b)) (brands d)"

definition product_select :: "master_db \<Rightarrow> product \<Rightarrow> product_entity" where
  "product_select d p =
     product.extend p (product_entity.fields
       (map_option cg_name (joined_category d p)) (map_option cg_slug (joined_category d p))
       (map_option bd_name (joined_brand d p)) (map_option bd_slug (joined_brand d p)))"

section \<open>Filters\<close>

record product_filter =
  pf_category_id :: "uuid option"
  pf_brand_id :: "uuid option"
  pf_min_price :: "decimal option"
  pf_max_price :: "decimal option"
  pf_search :: "string option"
  pf_status :: "product_status option"

record product_filter_query =
  fq_limit :: "nat option"
  fq_cursor :: "uuid option"
  fq_direction :: "direction option"
  fq_category_id :: "uuid option"
  fq_brand_id :: "uuid option"
  fq_min_price :: "decimal option"
  fq_max_price :: "decimal option"
  fq_search :: "string option"
  fq_status :: "product_status option"

text \<open>\<open>Option::and_then\<close> with \<open>Result::ok\<close>: a search term that is refused is dropped.\<close>

definition result_ok :: "('a, 'e) result \<Rightarrow> 'a option" where
  "result_ok r = (case r of Ok a \<Rightarrow> Some a | _ \<Rightarrow> None)"

definition product_filter_parts :: "product_filter_query \<Rightarrow> pagination_params \<times> product_filter" where
  "product_filter_parts q =
     (into_params \<lparr>pq_limit = fq_limit q, pq_cursor = fq_cursor q, pq_direction = fq_direction q\<rparr>,
      \<lparr>pf_category_id = fq_category_id q, pf_brand_id = fq_brand_id q, pf_min_price = fq_min_price q,
       pf_max_price = fq_max_price q, pf_search = Option.bind (fq_search q) (\<lambda>s. result_ok (search_query_new s)),
       pf_status = fq_status q\<rparr>)"

section \<open>Requests\<close>

record create_product_req =
  cp_name :: string
  cp_slug :: "string option"
  cp_description :: "string option"
  cp_base_price :: decimal
  cp_currency :: "string option"
  cp_category_id :: "uuid option"
  cp_brand_id :: "uuid option"

record valid_create_product =
  vp_name :: string
  vp_slug :: string
  vp_description :: "string option"
  vp_base_price :: price
  vp_currency :: currency
  vp_category_id :: "uuid option"
  vp_brand_id :: "uuid option"

definition valid_create_product_new :: "externs \<Rightarrow> create_product_req \<Rightarrow> (valid_create_product, app_error) result" where
  "valid_create_product_new x req =
     and_then (product_name_new (cp_name req)) (\<lambda>name.
     and_then (slug_or_generated x (cp_slug req) name) (\<lambda>slug.
     and_then (price_new (cp_base_price req)) (\<lambda>price.
     and_then (case cp_currency req of Some c \<Rightarrow> currency_new x c | None \<Rightarrow> Ok currency_default) (\<lambda>cur.
       Ok \<lparr>vp_name = name, vp_slug = slug, vp_description = cp_description req, vp_base_price = price,
           vp_currency = cur, vp_category_id = cp_category_id req, vp_brand_id = cp_brand_id req\<rparr>))))"

record update_product_req =
  up_name :: "string option"
  up_slug :: "string option"
  up_description :: "string option"
  up_base_price :: "decimal option"
  up_currency :: "string option"
  up_category_id :: "uuid option"
  up_brand_id :: "uuid option"
  up_status :: "product_status option"

record valid_update_product =
  vu_name :: "string option"
  vu_slug :: "string option"
  vu_description :: "string option"
  vu_base_price :: "price option"
  vu_currency :: "currency option"
  vu_category_id :: "uuid option"
  vu_brand_id :: "uuid option"
  vu_status :: "product_status option"

definition or_else :: "'a option \<Rightarrow> 'a option \<Rightarrow> 'a option" where
  "or_else v w = (case v of Some a \<Rightarrow> Some a | None \<Rightarrow> w)"

definition valid_update_product_new ::
  "externs \<Rightarrow> update_product_req \<Rightarrow> product_entity \<Rightarrow> (valid_update_product, app_error) result" where
  "valid_update_product_new x req existing =
     and_then (transpose_opt product_name_new (up_name req)) (\<lambda>name.
     and_then (transpose_opt slug_new (up_slug req)) (\<lambda>slug.
     and_then (transpose_opt price_new (up_base_price req)) (\<lambda>price.
     and_then (transpose_opt (currency_new x) (up_currency req)) (\<lambda>cur.
       Ok \<lparr>vu_name = name, vu_slug = slug, vu_description = up_description req, vu_base_price = price,
           vu_currency = cur, vu_category_id = or_else (up_category_id req) (pd_category_id existing),
           vu_brand_id = or_else (up_brand_id req) (pd_brand_id existing), vu_status = up_status req\<rparr>))))"

record create_sku_req =
  ck_sku_code :: string
  ck_price :: decimal
  ck_stock_quantity :: int
  ck_attributes :: "json option"

record valid_create_sku =
  vk_sku_code :: string
  vk_price :: price
  vk_stock_quantity :: int
  vk_attributes :: json

definition valid_create_sku_new :: "create_sku_req \<Rightarrow> (valid_create_sku, app_error) result" where
  "valid_create_sku_new req =
     and_then (sku_code_new (ck_sku_code req)) (\<lambda>code.
     and_then (price_new (ck_price req)) (\<lambda>price.
     and_then (stock_quantity_new (ck_stock_quantity req)) (\<lambda>stock.
       Ok \<lparr>vk_sku_code = code, vk_price = price, vk_stock_quantity = stock,
           vk_attributes = (case ck_attributes req of Some j \<Rightarrow> j | None \<Rightarrow> JObject [])\<rparr>)))"

record update_sku_req =
  us_price :: "decimal option"
  us_stock_quantity :: "int option"
  us_attributes :: "json option"
  us_status :: "sku_status option"

record valid_update_sku =
  vs_price :: "price option"
  vs_stock_quantity :: "int option"
  vs_attributes :: "json option"
  vs_status :: "sku_status option"

definition valid_update_sku_new :: "update_sku_req \<Rightarrow> (valid_update_sku, app_error) result" where
  "valid_update_sku_new req =
     and_then (transpose_opt price_new (us_price req)) (\<lambda>price.
     and_then (transpose_opt stock_quantity_new (us_stock_quantity req)) (\<lambda>stock.
       Ok \<lparr>vs_price = price, vs_stock_quantity = stock, vs_attributes = us_attributes req,
           vs_status = us_status req\<rparr>))"

record add_image_req =
  ai_url :: string
  ai_alt_text :: "string option"
  ai_sort_order :: "int option"
  ai_is_primary :: "bool option"

record valid_add_image =
  vi_url :: string
  vi_alt_text :: "string option"
  vi_sort_order :: int
  vi_is_primary :: bool

definition valid_add_image_new :: "add_image_req \<Rightarrow> (valid_add_image, app_error) result" where
  "valid_add_image_new req =
     and_then (http_url_new (ai_url req)) (\<lambda>url.
       Ok \<lparr>vi_url = url, vi_alt_text = ai_alt_text req,
           vi_sort_order = (case ai_sort_order req of Some n \<Rightarrow> n | None \<Rightarrow> 0),
           vi_is_primary = (case ai_is_primary req of Some b \<Rightarrow> b | None \<Rightarrow> False)\<rparr>)"

section \<open>Responses\<close>

record product_res =
  px_id :: string
  px_created_at :: string
  px_updated_at :: "string option"
  px_seller_id :: string
  px_name :: string
  px_slug :: string
  px_description :: "string option"
  px_base_price :: decimal
  px_currency :: string
  px_category_id :: "string option"
  px_brand_id :: "string option"
  px_status :: product_status
  px_category_name :: "string option"
  px_category_slug :: "string option"
  px_brand_name :: "string option"
  px_brand_slug :: "string option"

definition product_res_new :: "externs \<Rightarrow> 'a product_entity_scheme \<Rightarrow> product_res" where
  "product_res_new x e =
     \<lparr>px_id = uuid_str x (pd_id e), px_created_at = dt_str x (pd_created_at e),
      px_updated_at = map_option (dt_str x) (pd_updated_at e), px_seller_id = uuid_str x (pd_seller_id e),
      px_name = pd_name e, px_slug = pd_slug e, px_description = pd_description e,
      px_base_price = pd_base_price e, px_currency = pd_currency e,
      px_category_id = map_option (uuid_str x) (pd_category_id e),
      px_brand_id = map_option (uuid_str x) (pd_brand_id e), px_status = pd_status e,
      px_category_name = pe_category_name e, px_category_slug = pe_category_slug e,
      px_brand_name = pe_brand_name e, px_brand_slug = pe_brand_slug e\<rparr>"

record product_list_res =
  lx_id :: string
  lx_created_at :: string
  lx_seller_id :: string
  lx_name :: string
  lx_slug :: string
  lx_base_price :: decimal
  lx_currency :: string
  lx_category_id :: "string option"
  lx_brand_id :: "string option"
  lx_status :: product_status
  lx_category_name :: "string option"
  lx_brand_name :: "string option"
  lx_image_url :: "string option"

definition product_list_res_new :: "externs \<Rightarrow> product_list_entity \<Rightarrow> product_list_res" where
  "product_list_res_new x e =
     \<lparr>lx_id = uuid_str x (pl_id e), lx_created_at = dt_str x (pl_created_at e),
      lx_seller_id = uuid_str x (pl_seller_id e), lx_name = pl_name e, lx_slug = pl_slug e,
      lx_base_price = pl_base_price e, lx_currency = pl_currency e,
      lx_category_id = map_option (uuid_str x) (pl_category_id e),
      lx_brand_id = map_option (uuid_str x) (pl_brand_id e), lx_status = pl_status e,
      lx_category_name = pl_category_name e, lx_brand_name = pl_brand_name e, lx_image_url = pl_image_url e\<rparr>"

record sku_res =
  kx_id :: string
  kx_created_at :: string
  kx_updated_at :: "string option"
  kx_product_id :: string
  kx_sku_code :: string
  kx_price :: decimal
  kx_stock_quantity :: int
  kx_attributes :: json
  kx_status :: sku_status

definition sku_res_new :: "externs \<Rightarrow> sku \<Rightarrow> sku_res" where
  "sku_res_new x k =
     \<lparr>kx_id = uuid_str x (sk_id k), kx_created_at = dt_str x (sk_created_at k),
      kx_updated_at = map_option (dt_str x) (sk_updated_at k), kx_product_id = uuid_str x (sk_product_id k),
      kx_sku_code = sk_sku_code k, kx_price = sk_price k, kx_stock_quantity = sk_stock k,
      kx_attributes = sk_attributes k, kx_status = sk_status k\<rparr>"

record image_res =
  mx_id :: string
  mx_created_at :: string
  mx_product_id :: string
  mx_url :: string
  mx_alt_text :: "string option"
  mx_sort_order :: int
  mx_is_primary :: bool

definition image_res_new :: "externs \<Rightarrow> product_image \<Rightarrow> image_res" where
  "image_res_new x i =
     \<lparr>mx_id = uuid_str x (pi_id i), mx_created_at = dt_str x (pi_created_at i),
      mx_product_id = uuid_str x (pi_product_id i), mx_url = pi_url i, mx_alt_text = pi_alt_text i,
      mx_sort_order = pi_sort_order i, mx_is_primary = pi_is_primary i\<rparr>"

record product_detail_res =
  dx_product :: product_res
  dx_skus :: "sku_res list"
  dx_images :: "image_res list"

text \<open>\<open>serde_json::from_value\<close> of an array: every element must be readable.\<close>

definition vec_of_json :: "externs \<Rightarrow> (json \<Rightarrow> 'a option) \<Rightarrow> json \<Rightarrow> ('a list, string) result" where
  "vec_of_json x f j =
     (case j of
        JArray js \<Rightarrow> collect_results (\<lambda>e. ok_or (deser_text x e) (f e)) js
      | _ \<Rightarrow> Err (deser_text x j))"

definition product_detail_res_from_row ::
  "externs \<Rightarrow> shop_externs \<Rightarrow> product_detail_row \<Rightarrow> (product_detail_res, app_error) result" where
  "product_detail_res_from_row x y row =
     and_then (map_err_result (\<lambda>m. InternalServerError (''Failed to parse SKUs: '' @ m))
                 (vec_of_json x (sku_of_json y) (pr_skus_json row))) (\<lambda>ks.
     and_then (map_err_result (\<lambda>m. InternalServerError (''Failed to parse images: '' @ m))
                 (vec_of_json x (image_of_json y) (pr_images_json row))) (\<lambda>is.
       Ok \<lparr>dx_product = product_res_new x row, dx_skus = map (sku_res_new x) ks,
           dx_images = map (image_res_new x) is\<rparr>))"

section \<open>Queries on products\<close>

definition live_product :: "uuid \<Rightarrow> product \<Rightarrow> bool" where
  "live_product pid p \<longleftrightarrow> pd_id p = pid \<and> pd_deleted_at p = None"

definition product_not_found :: "externs \<Rightarrow> db_error \<Rightarrow> app_error" where
  "product_not_found x e = NotFound (''Product not found: '' @ db_text x e)"

definition get_product_by_id :: "externs \<Rightarrow> executor \<Rightarrow> uuid \<Rightarrow> (master_db srv, app_error, product_entity) eff" where
  "get_product_by_id x ex pid =
     map_err (product_not_found x)
       (fetch_one (query ex (\<lambda>d. map (product_select d) (filter (live_product pid) (products d)))))"

definition repo_product_by_slug :: "externs \<Rightarrow> executor \<Rightarrow> string \<Rightarrow> (master_db srv, app_error, product_entity) eff" where
  "repo_product_by_slug x ex slug =
     map_err (product_not_found x)
       (fetch_one (query ex (\<lambda>d. map (product_select d)
          (filter (\<lambda>p. pd_slug p = slug \<and> pd_deleted_at p = None) (products d)))))"

definition product_skus :: "uuid \<Rightarrow> master_db \<Rightarrow> sku list" where
  "product_skus pid d =
     take 100 (sort_key sk_created_at (filter (\<lambda>k. sk_product_id k = pid \<and> sk_deleted_at k = None) (skus d)))"

definition images_of :: "uuid \<Rightarrow> master_db \<Rightarrow> product_image list" where
  "images_of pid d = take 50 (sort_key pi_sort_order (filter (\<lambda>i. pi_product_id i = pid) (product_images d)))"

definition detail_select :: "shop_externs \<Rightarrow> master_db \<Rightarrow> product \<Rightarrow> product_detail_row" where
  "detail_select y d p =
     product_entity.extend (product_select d p) (product_detail_row.fields
       (JArray (map (sku_json y) (product_skus (pd_id p) d))) (JArray (map (image_json y) (images_of (pd_id p) d))))"

definition repo_product_detail ::
  "externs \<Rightarrow> shop_externs \<Rightarrow> executor \<Rightarrow> uuid \<Rightarrow> (master_db srv, app_error, product_detail_row) eff" where
  "repo_product_detail x y ex pid =
     map_err (product_not_found x)
       (fetch_one (query ex (\<lambda>d. map (detail_select y d) (filter (live_product pid) (products d)))))"

definition apply_product_filters :: "shop_externs \<Rightarrow> product_filter \<Rightarrow> product \<Rightarrow> bool" where
  "apply_product_filters y f p \<longleftrightarrow>
     (case pf_category_id f of Some c \<Rightarrow> pd_category_id p = Some c | None \<Rightarrow> True) \<and>
     (case pf_brand_id f of Some b \<Rightarrow> pd_brand_id p = Some b | None \<Rightarrow> True) \<and>
     (case pf_min_price f of Some m \<Rightarrow> pd_base_price p \<ge> m | None \<Rightarrow> True) \<and>
     (case pf_max_price f of Some m \<Rightarrow> pd_base_price p \<le> m | None \<Rightarrow> True) \<and>
     (case pf_search f of Some t \<Rightarrow> ilike y (pd_name p) (''%'' @ t @ ''%'') | None \<Rightarrow> True) \<and>
     (case pf_status f of Some st \<Rightarrow> pd_status p = st | None \<Rightarrow> True)"

definition product_list_select :: "master_db \<Rightarrow> product \<Rightarrow> product_list_entity" where
  "product_list_select d p =
     \<lparr>pl_id = pd_id p, pl_created_at = pd_created_at p, pl_seller_id = pd_seller_id p, pl_name = pd_name p,
      pl_slug = pd_slug p, pl_base_price = pd_base_price p, pl_currency = pd_currency p,
      pl_category_id = pd_category_id p, pl_brand_id = pd_brand_id p, pl_status = pd_status p,
      pl_category_name = map_option cg_name (joined_category d p),
      pl_brand_name = map_option bd_name (joined_brand d p),
      pl_image_url = (case sort_key pi_sort_order (filter (\<lambda>i. pi_product_id i = pd_id p) (product_images d)) of
                        [] \<Rightarrow> None | i # _ \<Rightarrow> Some (pi_url i))\<rparr>"

definition list_products ::
  "externs \<Rightarrow> executor \<Rightarrow> (product \<Rightarrow> bool) \<Rightarrow> pagination_params \<Rightarrow> (master_db srv, app_error, product_list_entity list) eff" where
  "list_products x ex P p =
     map_err (failed x ''Failed to list products: '')
       (fetch_all_clauses ex pl_id (keyset_paginate p []) (\<lambda>d. map (product_list_select d) (filter P (products d))))"

definition repo_products_by_seller ::
  "externs \<Rightarrow> shop_externs \<Rightarrow> executor \<Rightarrow> uuid \<Rightarrow> pagination_params \<Rightarrow> product_filter \<Rightarrow>
     (master_db srv, app_error, product_list_entity list) eff" where
  "repo_products_by_seller x y ex seller p f =
     list_products x ex (\<lambda>r. pd_seller_id r = seller \<and> pd_deleted_at r = None \<and> apply_product_filters y f r) p"

definition repo_active_products ::
  "externs \<Rightarrow> shop_externs \<Rightarrow> executor \<Rightarrow> pagination_params \<Rightarrow> product_filter \<Rightarrow>
     (master_db srv, app_error, product_list_entity list) eff" where
  "repo_active_products x y ex p f =
     list_products x ex (\<lambda>r. pd_status r = PdActive \<and> pd_deleted_at r = None \<and> apply_product_filters y f r) p"

definition category_exists :: "externs \<Rightarrow> executor \<Rightarrow> uuid \<Rightarrow> (master_db srv, app_error, bool) eff" where
  "category_exists x ex cid =
     map_err (failed x ''Failed to check category: '') (exists_row ex (\<lambda>d. list_ex (\<lambda>c. cg_id c = cid) (categories d)))"

definition brand_exists :: "externs \<Rightarrow> executor \<Rightarrow> uuid \<Rightarrow> (master_db srv, app_error, bool) eff" where
  "brand_exists x ex bid =
     map_err (failed x ''Failed to check brand: '') (exists_row ex (\<lambda>d. list_ex (\<lambda>b. bd_id b = bid) (brands d)))"

definition is_brand_in_category :: "externs \<Rightarrow> executor \<Rightarrow> uuid \<Rightarrow> uuid \<Rightarrow> (master_db srv, app_error, bool) eff" where
  "is_brand_in_category x ex bid cid =
     map_err (failed x ''Failed to check brand-category association: '')
       (exists_row ex (\<lambda>d. list_ex (\<lambda>p. p = (bid, cid)) (brand_categories d)))"

definition require_row :: "string \<Rightarrow> ('s, app_error, bool) eff \<Rightarrow> ('s, app_error, unit) eff" where
  "require_row missing m = bnd m (\<lambda>b. if b then ret () else throw (BadRequest missing))"

definition validate_fk_references ::
  "externs \<Rightarrow> uuid option \<Rightarrow> uuid option \<Rightarrow> (master_db srv, app_error, unit) eff" where
  "validate_fk_references x cat br =
     bnd (case cat of Some c \<Rightarrow> require_row ''Category does not exist'' (category_exists x Pool c) | None \<Rightarrow> ret ()) (\<lambda>_.
     bnd (case br of Some b \<Rightarrow> require_row ''Brand does not exist'' (brand_exists x Pool b) | None \<Rightarrow> ret ()) (\<lambda>_.
       case (cat, br) of
         (Some c, Some b) \<Rightarrow>
           require_row ''Brand is not associated with the specified category'' (is_brand_in_category x Pool b c)
       | _ \<Rightarrow> ret ()))"

section \<open>Statements on products\<close>

definition refers :: "uuid option \<Rightarrow> uuid set \<Rightarrow> bool" where
  "refers v ids \<longleftrightarrow> (case v of Some i \<Rightarrow> i \<in> ids | None \<Rightarrow> True)"

definition product_row :: "uuid \<Rightarrow> timestamp \<Rightarrow> uuid \<Rightarrow> string \<Rightarrow> string \<Rightarrow> decimal \<Rightarrow> string \<Rightarrow>
    valid_create_product \<Rightarrow> product" where
  "product_row rid now seller name slug price cur req =
     \<lparr>pd_id = rid, pd_created_at = now, pd_updated_at = None, pd_deleted_at = None, pd_seller_id = seller,
      pd_name = name, pd_slug = slug, pd_description = vp_description req, pd_base_price = price,
      pd_currency = cur, pd_category_id = vp_category_id req, pd_brand_id = vp_brand_id req, pd_status = PdDraft\<rparr>"

definition insert_product_sql :: "uuid \<Rightarrow> valid_create_product \<Rightarrow> uuid \<Rightarrow> (master_db, uuid) sql" where
  "insert_product_sql seller req rid now d =
     (case (varchar_col 500 (vp_name req), varchar_col 500 (vp_slug req),
            numeric_col (price_value (vp_base_price req)), varchar_col 3 (currency_str (vp_currency req))) of
        (Inr name, Inr slug, Inr price, Inr cur) \<Rightarrow>
          if price < 0 then Inl (CheckViolation ''chk_products_base_price'')
          else if rid \<in> pd_id ` set (products d) then Inl (UniqueViolation ''products_pkey'')
          else if slug \<in> pd_slug ` set (products d) then Inl (UniqueViolation ''products_slug_key'')
          else if \<not> refers (vp_category_id req) (cg_id ` set (categories d))
          then Inl (ForeignKeyViolation ''products_category_id_fkey'')
          else if \<not> refers (vp_brand_id req) (bd_id ` set (brands d))
          then Inl (ForeignKeyViolation ''products_brand_id_fkey'')
          else Inr (rid, d\<lparr>products := products d @ [product_row rid now seller name slug price cur req]\<rparr>)
      | (Inl e, _, _, _) \<Rightarrow> Inl e
      | (_, Inl e, _, _) \<Rightarrow> Inl e
      | (_, _, Inl e, _) \<Rightarrow> Inl e
      | (_, _, _, Inl e) \<Rightarrow> Inl e)"

definition repo_create_product ::
  "externs \<Rightarrow> uuid \<Rightarrow> valid_create_product \<Rightarrow> (master_db srv, app_error, uuid) eff" where
  "repo_create_product x seller req =
     bnd next_uuid (\<lambda>rid.
       map_err (failed x ''Failed to create product: '') (stmt Tx (insert_product_sql seller req rid)))"

text \<open>The columns a product update sets: those that are present, and the time of the update.\<close>

definition set_product ::
  "valid_update_product \<Rightarrow> string option \<Rightarrow> string option \<Rightarrow> decimal option \<Rightarrow> string option \<Rightarrow> timestamp \<Rightarrow> product \<Rightarrow> product" where
  "set_product req name slug price cur now p =
     p\<lparr>pd_name := case_option (pd_name p) id name, pd_slug := case_option (pd_slug p) id slug,
       pd_description := or_else (vu_description req) (pd_description p),
       pd_base_price := case_option (pd_base_price p) id price, pd_currency := case_option (pd_currency p) id cur,
       pd_category_id := or_else (vu_category_id req) (pd_category_id p),
       pd_brand_id := or_else (vu_brand_id req) (pd_brand_id p),
       pd_status := case_option (pd_status p) id (vu_status req), pd_updated_at := Some now\<rparr>"

definition opt_numeric :: "decimal option \<Rightarrow> db_error + decimal option" where
  "opt_numeric v =
     (case v of None \<Rightarrow> Inr None | Some a \<Rightarrow> (case numeric_col a of Inl e \<Rightarrow> Inl e | Inr b \<Rightarrow> Inr (Some b)))"

definition update_product_sql :: "uuid \<Rightarrow> valid_update_product \<Rightarrow> (master_db, nat) sql" where
  "update_product_sql pid req now d =
     (case (opt_varchar 500 (vu_name req), opt_varchar 500 (vu_slug req),
            opt_numeric (map_option price_value (vu_base_price req)),
            opt_varchar 3 (map_option currency_str (vu_currency req))) of
        (Inr name, Inr slug, Inr price, Inr cur) \<Rightarrow>
          let hit = list_ex (live_product pid) (products d) in
          if hit \<and> (case price of Some v \<Rightarrow> v < 0 | None \<Rightarrow> False)
          then Inl (CheckViolation ''chk_products_base_price'')
          else if hit \<and> list_ex (\<lambda>p. \<not> live_product pid p \<and> slug = Some (pd_slug p)) (products d)
          then Inl (UniqueViolation ''products_slug_key'')
          else if hit \<and> \<not> refers (vu_category_id req) (cg_id ` set (categories d))
          then Inl (ForeignKeyViolation ''products_category_id_fkey'')
          else if hit \<and> \<not> refers (vu_brand_id req) (bd_id ` set (brands d))
          then Inl (ForeignKeyViolation ''products_brand_id_fkey'')
          else Inr (count_where (live_product pid) (products d),
                    d\<lparr>products := update_where (live_product pid) (set_product req name slug price cur now) (products d)\<rparr>)
      | (Inl e, _, _, _) \<Rightarrow> Inl e
      | (_, Inl e, _, _) \<Rightarrow> Inl e
      | (_, _, Inl e, _) \<Rightarrow> Inl e
      | (_, _, _, Inl e) \<Rightarrow> Inl e)"

definition no_product_fields :: "valid_update_product \<Rightarrow> bool" where
  "no_product_fields req \<longleftrightarrow>
     vu_name req = None \<and> vu_slug req = None \<and> vu_description req = None \<and> vu_base_price req = None \<and>
     vu_currency req = None \<and> vu_category_id req = None \<and> vu_brand_id req = None \<and> vu_status req = None"

definition repo_update_product :: "externs \<Rightarrow> uuid \<Rightarrow> valid_update_product \<Rightarrow> (master_db srv, app_error, unit) eff" where
  "repo_update_product x pid req =
     (if no_product_fields req then ret ()
      else bnd (map_err (failed x ''Failed to update product: '') (stmt Tx (update_product_sql pid req)))
             (one_row ''Product not found'' ''UPDATE must affect exactly 1 row''))"

definition delete_product_sql :: "uuid \<Rightarrow> (master_db, nat) sql" where
  "delete_product_sql pid now d =
     Inr (count_where (live_product pid) (products d),
          d\<lparr>products := update_where (live_product pid) (\<lambda>p. p\<lparr>pd_deleted_at := Some now\<rparr>) (products d)\<rparr>)"

definition repo_delete_product :: "externs \<Rightarrow> uuid \<Rightarrow> (master_db srv, app_error, unit) eff" where
  "repo_delete_product x pid =
     bnd (map_err (failed x ''Failed to delete product: '') (stmt Tx (delete_product_sql pid)))
       (one_row ''Product not found'' ''DELETE must affect exactly 1 row'')"

section \<open>Statements on SKUs\<close>

definition get_sku_by_id :: "externs \<Rightarrow> executor \<Rightarrow> uuid \<Rightarrow> (master_db srv, app_error, sku) eff" where
  "get_sku_by_id x ex sid =
     map_err (\<lambda>e. NotFound (''SKU not found: '' @ db_text x e))
       (fetch_one (query ex (\<lambda>d. filter (live_sku sid) (skus d))))"

definition list_skus_by_product :: "externs \<Rightarrow> executor \<Rightarrow> uuid \<Rightarrow> (master_db srv, app_error, sku list) eff" where
  "list_skus_by_product x ex pid = map_err (failed x ''Failed to list SKUs: '') (query ex (product_skus pid))"

definition sku_row :: "uuid \<Rightarrow> timestamp \<Rightarrow> uuid \<Rightarrow> string \<Rightarrow> decimal \<Rightarrow> valid_create_sku \<Rightarrow> sku" where
  "sku_row rid now pid code price req =
     \<lparr>sk_id = rid, sk_created_at = now, sk_updated_at = None, sk_deleted_at = None, sk_product_id = pid,
      sk_sku_code = code, sk_price = price, sk_stock = vk_stock_quantity req, sk_reserved = 0,
      sk_attributes = vk_attributes req, sk_status = SkuActive\<rparr>"

definition insert_sku_sql :: "uuid \<Rightarrow> valid_create_sku \<Rightarrow> uuid \<Rightarrow> (master_db, uuid) sql" where
  "insert_sku_sql pid req rid now d =
     (case (varchar_col 100 (vk_sku_code req), numeric_col (price_value (vk_price req))) of
        (Inr code, Inr price) \<Rightarrow>
          if price < 0 then Inl (CheckViolation ''chk_skus_price'')
          else if vk_stock_quantity req < 0 then Inl (CheckViolation ''chk_skus_stock'')
          else if rid \<in> sk_id ` set (skus d) then Inl (UniqueViolation ''skus_pkey'')
          else if code \<in> sk_sku_code ` set (skus d) then Inl (UniqueViolation ''skus_sku_code_key'')
          else if pid \<notin> pd_id ` set (products d) then Inl (ForeignKeyViolation ''skus_product_id_fkey'')
          else Inr (rid, d\<lparr>skus := skus d @ [sku_row rid now pid code price req]\<rparr>)
      | (Inl e, _) \<Rightarrow> Inl e
      | (_, Inl e) \<Rightarrow> Inl e)"

definition repo_create_sku :: "externs \<Rightarrow> uuid \<Rightarrow> valid_create_sku \<Rightarrow> (master_db srv, app_error, uuid) eff" where
  "repo_create_sku x pid req =
     bnd next_uuid (\<lambda>rid. map_err (failed x ''Failed to create SKU: '') (stmt Tx (insert_sku_sql pid req rid)))"

definition set_sku :: "valid_update_sku \<Rightarrow> decimal option \<Rightarrow> timestamp \<Rightarrow> sku \<Rightarrow> sku" where
  "set_sku req price now k =
     k\<lparr>sk_price := case_option (sk_price k) id price, sk_stock := case_option (sk_stock k) id (vs_stock_quantity req),
       sk_attributes := case_option (sk_attributes k) id (vs_attributes req),
       sk_status := case_option (sk_status k) id (vs_status req), sk_updated_at := Some now\<rparr>"

definition update_sku_sql :: "uuid \<Rightarrow> valid_update_sku \<Rightarrow> (master_db, nat) sql" where
  "update_sku_sql sid req now d =
     (case opt_numeric (map_option price_value (vs_price req)) of
        Inl e \<Rightarrow> Inl e
      | Inr price \<Rightarrow>
          let hit = list_ex (live_sku sid) (skus d) in
          if hit \<and> (case price of Some v \<Rightarrow> v < 0 | None \<Rightarrow> False) then Inl (CheckViolation ''chk_skus_price'')
          else if hit \<and> (case vs_stock_quantity req of Some n \<Rightarrow> n < 0 | None \<Rightarrow> False)
          then Inl (CheckViolation ''chk_skus_stock'')
          else Inr (count_where (live_sku sid) (skus d),
                    d\<lparr>skus := update_where (live_sku sid) (set_sku req price now) (skus d)\<rparr>))"

definition repo_update_sku :: "externs \<Rightarrow> uuid \<Rightarrow> valid_update_sku \<Rightarrow> (master_db srv, app_error, unit) eff" where
  "repo_update_sku x sid req =
     (if vs_price req = None \<and> vs_stock_quantity req = None \<and> vs_attributes req = None \<and> vs_status req = None
      then ret ()
      else bnd (map_err (failed x ''Failed to update SKU: '') (stmt Tx (update_sku_sql sid req)))
             (one_row ''SKU not found'' ''UPDATE must affect exactly 1 row''))"

definition delete_sku_sql :: "uuid \<Rightarrow> (master_db, nat) sql" where
  "delete_sku_sql sid now d =
     Inr (count_where (live_sku sid) (skus d),
          d\<lparr>skus := update_where (live_sku sid) (\<lambda>k. k\<lparr>sk_deleted_at := Some now\<rparr>) (skus d)\<rparr>)"

definition repo_delete_sku :: "externs \<Rightarrow> uuid \<Rightarrow> (master_db srv, app_error, unit) eff" where
  "repo_delete_sku x sid =
     bnd (map_err (failed x ''Failed to delete SKU: '') (stmt Tx (delete_sku_sql sid)))
       (one_row ''SKU not found'' ''DELETE must affect exactly 1 row'')"

definition adjust_stock_sql :: "uuid \<Rightarrow> int \<Rightarrow> (master_db, nat) sql" where
  "adjust_stock_sql sid delta now d =
     (let P = (\<lambda>k. live_sku sid k \<and> sk_stock k + delta \<ge> 0) in
      if list_ex (\<lambda>k. live_sku sid k \<and> \<not> int4 (sk_stock k + delta)) (skus d) then Inl NumericOutOfRange
      else Inr (count_where P (skus d),
                d\<lparr>skus := update_where P (\<lambda>k. k\<lparr>sk_stock := sk_stock k + delta, sk_updated_at := Some now\<rparr>) (skus d)\<rparr>))"

definition repo_adjust_stock :: "externs \<Rightarrow> uuid \<Rightarrow> int \<Rightarrow> (master_db srv, app_error, unit) eff" where
  "repo_adjust_stock x sid delta =
     bnd (map_err (failed x ''Failed to adjust stock: '') (stmt Tx (adjust_stock_sql sid delta))) (\<lambda>rows.
       if rows = 0 then throw (BadRequest ''SKU not found or insufficient stock'')
       else if rows \<noteq> 1 then panic ''UPDATE must affect exactly 1 row'' else ret ())"

section \<open>Statements on images\<close>

definition get_image_by_id :: "externs \<Rightarrow> executor \<Rightarrow> uuid \<Rightarrow> (master_db srv, app_error, product_image) eff" where
  "get_image_by_id x ex iid =
     map_err (\<lambda>e. NotFound (''Image not found: '' @ db_text x e))
       (fetch_one (query ex (\<lambda>d. filter (\<lambda>i. pi_id i = iid) (product_images d))))"

definition list_images_by_product :: "externs \<Rightarrow> executor \<Rightarrow> uuid \<Rightarrow> (master_db srv, app_error, product_image list) eff" where
  "list_images_by_product x ex pid = map_err (failed x ''Failed to list images: '') (query ex (images_of pid))"

definition unset_primary_sql :: "uuid \<Rightarrow> (master_db, nat) sql" where
  "unset_primary_sql pid now d =
     (let P = (\<lambda>i. pi_product_id i = pid \<and> pi_is_primary i) in
      Inr (count_where P (product_images d),
           d\<lparr>product_images := update_where P (\<lambda>i. i\<lparr>pi_is_primary := False\<rparr>) (product_images d)\<rparr>))"

definition insert_image_sql :: "uuid \<Rightarrow> valid_add_image \<Rightarrow> uuid \<Rightarrow> (master_db, uuid) sql" where
  "insert_image_sql pid req rid now d =
     (case opt_varchar 500 (vi_alt_text req) of
        Inl e \<Rightarrow> Inl e
      | Inr alt \<Rightarrow>
          if rid \<in> pi_id ` set (product_images d) then Inl (UniqueViolation ''product_images_pkey'')
          else if pid \<notin> pd_id ` set (products d) then Inl (ForeignKeyViolation ''product_images_product_id_fkey'')
          else Inr (rid, d\<lparr>product_images := product_images d @
                 [\<lparr>pi_id = rid, pi_created_at = now, pi_product_id = pid, pi_url = vi_url req, pi_alt_text = alt,
                   pi_sort_order = vi_sort_order req, pi_is_primary = vi_is_primary req\<rparr>]\<rparr>))"

definition repo_add_image :: "externs \<Rightarrow> uuid \<Rightarrow> valid_add_image \<Rightarrow> (master_db srv, app_error, uuid) eff" where
  "repo_add_image x pid req =
     bnd (if vi_is_primary req
          then bnd (map_err (failed x ''Failed to unset primary image: '') (stmt Tx (unset_primary_sql pid))) (\<lambda>_. ret ())
          else ret ()) (\<lambda>_.
     bnd next_uuid (\<lambda>rid. map_err (failed x ''Failed to add image: '') (stmt Tx (insert_image_sql pid req rid))))"

definition delete_image_sql :: "uuid \<Rightarrow> (master_db, nat) sql" where
  "delete_image_sql iid now d =
     Inr (count_where (\<lambda>i. pi_id i = iid) (product_images d),
          d\<lparr>product_images := filter (\<lambda>i. pi_id i \<noteq> iid) (product_images d)\<rparr>)"

definition repo_delete_image :: "externs \<Rightarrow> uuid \<Rightarrow> (master_db srv, app_error, unit) eff" where
  "repo_delete_image x iid =
     bnd (map_err (failed x ''Failed to delete image: '') (stmt Tx (delete_image_sql iid)))
       (\<lambda>rows. if rows = 0 then throw (NotFound ''Image not found'') else ret ())"

end
