(* ===== verification/Catalog_Domain.thy ===== *)
theory Catalog_Domain
  imports Products
begin

text \<open>
  The domain types of the catalog, \<open>catalog/src/{products,categories,brands}/domain.rs\<close>: a stored row is turned into
  validated values again. The assertions on the stored values exist in debug builds only.
\<close>

section \<open>Types and conversions\<close>

record domain_product =
  dp_id :: uuid
  dp_name :: string
  dp_slug :: string
  dp_description :: "string option"
  dp_base_price :: price
  dp_currency :: currency
  dp_category_id :: "uuid option"
  dp_brand_id :: "uuid option"
  dp_status :: product_status

definition product_try_from :: "externs \<Rightarrow> product \<Rightarrow> (domain_product, app_error) result" where
  "product_try_from x p =
     and_then (product_name_new (pd_name p)) (\<lambda>name.
     and_then (slug_new (pd_slug p)) (\<lambda>slug.
     and_then (price_new (pd_base_price p)) (\<lambda>price.
     and_then (currency_new x (pd_currency p)) (\<lambda>cur.
       Ok \<lparr>dp_id = pd_id p, dp_name = name, dp_slug = slug, dp_description = pd_description p, dp_base_price = price,
           dp_currency = cur, dp_category_id = pd_category_id p, dp_brand_id = pd_brand_id p, dp_status = pd_status p\<rparr>))))"

record domain_sku =
  ds_id :: uuid
  ds_product_id :: uuid
  ds_sku_code :: string
  ds_price :: price
  ds_stock_quantity :: int
  ds_attributes :: json

definition sku_try_from :: "uuid \<Rightarrow> sku \<Rightarrow> (domain_sku, app_error) result" where
  "sku_try_from pid k =
     and_then (sku_code_new (sk_sku_code k)) (\<lambda>code.
     and_then (price_new (sk_price k)) (\<lambda>price.
     and_then (stock_quantity_new (sk_stock k)) (\<lambda>stock.
       Ok \<lparr>ds_id = sk_id k, ds_product_id = pid, ds_sku_code = code, ds_price = price, ds_stock_quantity = stock,
           ds_attributes = sk_attributes k\<rparr>)))"

record domain_category =
  ca_id :: uuid
  ca_name :: string
  ca_slug :: string
  ca_path :: string
  ca_parent_id :: "uuid option"
  ca_depth :: int
  ca_description :: "string option"

definition category_try_from :: "externs \<Rightarrow> category \<Rightarrow> (domain_category, app_error) result" where
  "category_try_from x c =
     and_then (category_name_new (cg_name c)) (\<lambda>name.
     and_then (slug_new (cg_slug c)) (\<lambda>slug.
     and_then (ltree_label_from_name x (cg_path c)) (\<lambda>p.
       Ok \<lparr>ca_id = cg_id c, ca_name = name, ca_slug = slug, ca_path = p, ca_parent_id = cg_parent_id c, ca_depth = cg_depth c,
           ca_description = cg_description c\<rparr>)))"

record domain_brand =
  db_id :: uuid
  db_name :: string
  db_slug :: string
  db_description :: "string option"
  db_logo_url :: "string option"

definition brand_try_from :: "brand \<Rightarrow> (domain_brand, app_error) result" where
  "brand_try_from b =
     and_then (brand_name_new (bd_name b)) (\<lambda>name.
     and_then (slug_new (bd_slug b)) (\<lambda>slug.
     and_then (transpose_opt http_url_new (bd_logo_url b)) (\<lambda>url.
       Ok \<lparr>db_id = bd_id b, db_name = name, db_slug = slug, db_description = bd_description b, db_logo_url = url\<rparr>)))"

section \<open>Rows that were validated\<close>

lemma sku_code_new_Ok: "sku_code_new input = Ok c \<Longrightarrow> sku_code_new c = Ok c"
  by (auto simp: sku_code_new_def Let_def split: if_splits)

lemma slug_new_again: "slug_new input = Ok s \<Longrightarrow> slug_new s = Ok s"
  by (auto simp: slug_new_def Let_def split: if_splits)

lemma validated_name_new_again: "validated_name_new what n input = Ok s \<Longrightarrow> validated_name_new what n s = Ok s"
  by (auto simp: validated_name_new_def Let_def split: if_splits)

lemma price_new_Ok: "price_new v = Ok p \<Longrightarrow> price_value p = v \<and> 0 \<le> v"
  by (auto simp: price_new_def split: if_splits)

definition upper_ascii :: "externs \<Rightarrow> bool" where
  "upper_ascii x \<longleftrightarrow> (\<forall>s. list_all is_ascii_uppercase s \<longrightarrow> upper x s = s)"

lemma currency_new_again:
  assumes "upper_ascii x" "length c = 3" "list_all is_ascii_uppercase c"
  shows "currency_new x c = Ok (Currency c)"
proof -
  have "trim c = c"
    by (rule trim_visible) (use assms(3) in \<open>auto simp: list_all_iff visible_char_def is_ascii_uppercase_def\<close>)
  then show ?thesis using assms by (simp add: currency_new_def upper_ascii_def)
qed

lemma currency_new_shape: "currency_new x s = Ok c \<Longrightarrow> length (currency_str c) = 3 \<and> list_all is_ascii_uppercase (currency_str c)"
  by (auto simp: currency_new_def Let_def split: if_splits)

lemma slug_or_generated_again: "slug_or_generated x given name = Ok s \<Longrightarrow> slug_new s = Ok s"
  by (auto simp: slug_or_generated_def slug_from_name_def dest: slug_new_again split: option.splits)

text \<open>The row of a new product reads back as the values of the request, if the price fits its column unrounded.\<close>

lemma product_reads_back:
  assumes "upper_ascii x" "valid_create_product_new x req = Ok v"
  shows "product_try_from x (product_row rid now seller (vp_name v) (vp_slug v) (price_value (vp_base_price v)) (currency_str (vp_currency v)) v) =
    Ok \<lparr>dp_id = rid, dp_name = vp_name v, dp_slug = vp_slug v, dp_description = vp_description v, dp_base_price = vp_base_price v,
      dp_currency = vp_currency v, dp_category_id = vp_category_id v, dp_brand_id = vp_brand_id v, dp_status = PdDraft\<rparr>"
proof -
  obtain name slug price cur where r: "product_name_new (cp_name req) = Ok name" "slug_or_generated x (cp_slug req) name = Ok slug"
      "price_new (cp_base_price req) = Ok price" "(case cp_currency req of Some c \<Rightarrow> currency_new x c | None \<Rightarrow> Ok currency_default) = Ok cur"
      "v = \<lparr>vp_name = name, vp_slug = slug, vp_description = cp_description req, vp_base_price = price,
           vp_currency = cur, vp_category_id = cp_category_id req, vp_brand_id = cp_brand_id req\<rparr>"
    using assms(2) by (auto simp: valid_create_product_new_def and_then_Ok_iff)
  have "length (currency_str cur) = 3 \<and> list_all is_ascii_uppercase (currency_str cur)"
    using r(4) by (auto simp: currency_default_def is_ascii_uppercase_def dest: currency_new_shape split: option.splits)
  then have "currency_new x (currency_str cur) = Ok cur" using currency_new_again[OF assms(1)] by simp
  moreover have "product_name_new name = Ok name" using r(1) by (simp add: product_name_new_def validated_name_new_again)
  moreover have "price_new (price_value price) = Ok price" using price_new_Ok[OF r(3)] by (cases price) (simp add: price_new_def)
  ultimately show ?thesis using slug_or_generated_again[OF r(2)] r(5) by (simp add: product_try_from_def product_row_def)
qed

text \<open>The row of a new SKU reads back as the values of the request, if the price fits its column unrounded.\<close>

lemma sku_reads_back:
  assumes "valid_create_sku_new req = Ok v"
  shows "sku_try_from pid (sku_row rid now pid (vk_sku_code v) (price_value (vk_price v)) v) =
    Ok \<lparr>ds_id = rid, ds_product_id = pid, ds_sku_code = vk_sku_code v, ds_price = vk_price v,
      ds_stock_quantity = vk_stock_quantity v, ds_attributes = vk_attributes v\<rparr>"
  using assms
  by (auto simp: valid_create_sku_new_def and_then_Ok_iff sku_try_from_def sku_row_def price_new_def stock_quantity_new_def
      dest: sku_code_new_Ok split: if_splits)

text \<open>The domain category of a category below the root never has the path of its row: the whole path is read as the
  name of one label, and a label has no dots.\<close>

theorem domain_category_loses_path:
  assumes "category_try_from x c = Ok d" "CHR ''.'' \<in> set (cg_path c)"
  shows "ca_path d \<noteq> cg_path c"
  using assms ltree_label_no_dot
  by (auto simp: category_try_from_def and_then_Ok_iff ltree_label_from_name_def Let_def split: if_splits)

end
