(* ===== verification/Tokens.thy ===== *)
theory Tokens
  imports Events Auth Names
begin

text \<open>
  Access and refresh tokens, \<open>shared/src/auth/jwt.rs\<close>, the settings of \<open>config/auth_config.rs\<close> and the
  middleware of \<open>auth/middleware.rs\<close>, which finds the current user of a request from its bearer token.
  Signing and checking a token is done by the package \<open>jsonwebtoken\<close> and is a parameter; the claims, their
  JSON form, the times and the decisions taken on the outcome are the code's own. The arithmetic on times
  is that of a release build, where overflow wraps around.
\<close>

section \<open>Claims\<close>

record access_claims =
  at_sub :: uuid
  at_name :: string
  at_role :: role
  at_iat :: int
  at_exp :: int

record refresh_claims =
  rt_sub :: uuid
  rt_jti :: string
  rt_iat :: int
  rt_exp :: int

definition roles :: "role list" where
  "roles = [Buyer, Seller, Admin]"

definition int_field :: "json \<Rightarrow> string \<Rightarrow> int option" where
  "int_field j k = Option.bind (jfield j k) as_i64"

text \<open>The derived \<open>Serialize\<close> and \<open>Deserialize\<close>.\<close>

definition access_claims_json :: "externs \<Rightarrow> access_claims \<Rightarrow> json" where
  "access_claims_json x c =
     JObject [(''sub'', JString (uuid_str x (at_sub c))), (''name'', JString (at_name c)),
       (''role'', JString (role_str (at_role c))), (''iat'', JInt (at_iat c)), (''exp'', JInt (at_exp c))]"

definition access_claims_of_json :: "externs \<Rightarrow> json \<Rightarrow> access_claims option" where
  "access_claims_of_json x j =
     Option.bind (str_field j ''sub'' (uuid_parse x)) (\<lambda>sub.
     Option.bind (str_field j ''name'' Some) (\<lambda>name.
     Option.bind (str_field j ''role'' (of_name role_str roles)) (\<lambda>rl.
     Option.bind (int_field j ''iat'') (\<lambda>iat.
     Option.bind (int_field j ''exp'') (\<lambda>ex.
       Some \<lparr>at_sub = sub, at_name = name, at_role = rl, at_iat = iat, at_exp = ex\<rparr>)))))"

definition refresh_claims_json :: "externs \<Rightarrow> refresh_claims \<Rightarrow> json" where
  "refresh_claims_json x c =
     JObject [(''sub'', JString (uuid_str x (rt_sub c))), (''jti'', JString (rt_jti c)),
       (''iat'', JInt (rt_iat c)), (''exp'', JInt (rt_exp c))]"

definition refresh_claims_of_json :: "externs \<Rightarrow> json \<Rightarrow> refresh_claims option" where
  "refresh_claims_of_json x j =
     Option.bind (str_field j ''sub'' (uuid_parse x)) (\<lambda>sub.
     Option.bind (str_field j ''jti'' Some) (\<lambda>jti.
     Option.bind (int_field j ''iat'') (\<lambda>iat.
     Option.bind (int_field j ''exp'') (\<lambda>ex.
       Some \<lparr>rt_sub = sub, rt_jti = jti, rt_iat = iat, rt_exp = ex\<rparr>))))"

section \<open>Errors and settings\<close>

datatype auth_error = JwtError string | TimeError string | TokenExpired | InvalidToken

fun auth_error_str :: "auth_error \<Rightarrow> string" where
  "auth_error_str (JwtError e) = ''JWT Error: '' @ e"
| "auth_error_str (TimeError e) = ''Time Error: '' @ e"
| "auth_error_str TokenExpired = ''Token Expired''"
| "auth_error_str InvalidToken = ''Invalid Token''"

record auth_config =
  access_token_secret :: string
  refresh_token_secret :: string
  access_token_expiry_secs :: nat
  refresh_token_expiry_secs :: nat

text \<open>The checks of \<open>AuthConfig::new\<close> on the four values it has read.\<close>

definition auth_config_new :: "string \<Rightarrow> string \<Rightarrow> nat \<Rightarrow> nat \<Rightarrow> (auth_config, 'e) result" where
  "auth_config_new access refresh access_secs refresh_secs =
     (if access = [] then Panic ''ACCESS_TOKEN_SECRET must not be empty''
      else if refresh = [] then Panic ''REFRESH_TOKEN_SECRET must not be empty''
      else if access_secs = 0 then Panic ''ACCESS_TOKEN_EXPIRY must be positive''
      else if refresh_secs = 0 then Panic ''REFRESH_TOKEN_EXPIRY must be positive''
      else if \<not> refresh_secs > access_secs
      then Panic ''REFRESH_TOKEN_EXPIRY must be greater than ACCESS_TOKEN_EXPIRY''
      else Ok \<lparr>access_token_secret = access, refresh_token_secret = refresh,
               access_token_expiry_secs = access_secs, refresh_token_expiry_secs = refresh_secs\<rparr>)"

text \<open>The package: \<open>encode\<close> signs claims with a secret; \<open>decode\<close> checks the signature, reads the claims,
  which must have the type that is asked for, and compares the expiry with the time. \<open>HeaderValue::to_str\<close>
  reads the bytes of a header.\<close>

datatype jwt_failure = ExpiredSignature | OtherJwtError string

record jwt_externs =
  jwt_encode :: "string \<Rightarrow> json \<Rightarrow> string + string" \<comment> \<open>\<open>Inl\<close>: the text of the error\<close>
  jwt_decode :: "(json \<Rightarrow> bool) \<Rightarrow> string \<Rightarrow> int \<Rightarrow> string \<Rightarrow> jwt_failure + json"
  header_text :: "string \<Rightarrow> string option"

section \<open>Tokens\<close>

definition wrap_i64 :: "int \<Rightarrow> int" where
  "wrap_i64 i = (i + 2 ^ 63) mod 2 ^ 64 - 2 ^ 63"

definition current_timestamp :: "('d srv, auth_error, int) eff" where
  "current_timestamp s =
     (let now = clock s (ticks s) in
      (if now < 0 then Err (TimeError ''second time provided was later than self'')
       else Ok (wrap_i64 (now div 1000000)), s\<lparr>ticks := Suc (ticks s)\<rparr>))"

definition sign :: "jwt_externs \<Rightarrow> string \<Rightarrow> json \<Rightarrow> (string, auth_error) result" where
  "sign j secret claims = (case jwt_encode j secret claims of Inl e \<Rightarrow> Err (JwtError e) | Inr t \<Rightarrow> Ok t)"

definition generate_access_token ::
  "externs \<Rightarrow> jwt_externs \<Rightarrow> auth_config \<Rightarrow> uuid \<Rightarrow> string \<Rightarrow> role \<Rightarrow> ('d srv, auth_error, string) eff" where
  "generate_access_token x j cfg uid name rl =
     bnd current_timestamp (\<lambda>now.
       of_result (sign j (access_token_secret cfg)
         (access_claims_json x \<lparr>at_sub = uid, at_name = name, at_role = rl, at_iat = now,
            at_exp = wrap_i64 (now + wrap_i64 (int (access_token_expiry_secs cfg)))\<rparr>)))"

definition jwt_refresh_token ::
  "externs \<Rightarrow> jwt_externs \<Rightarrow> auth_config \<Rightarrow> uuid \<Rightarrow> ('d srv, auth_error, string) eff" where
  "jwt_refresh_token x j cfg uid =
     bnd current_timestamp (\<lambda>now.
     bnd next_uuid (\<lambda>jti.
       of_result (sign j (refresh_token_secret cfg)
         (refresh_claims_json x \<lparr>rt_sub = uid, rt_jti = uuid_str x jti, rt_iat = now,
            rt_exp = wrap_i64 (now + wrap_i64 (int (refresh_token_expiry_secs cfg)))\<rparr>))))"

text \<open>The time at which \<open>decode\<close> compares the expiry.\<close>

definition unix_secs :: "('d srv, 'e, int) eff" where
  "unix_secs s =
     (let now = clock s (ticks s) in
      (if now < 0 then Panic ''Time went backwards'' else Ok (now div 1000000), s\<lparr>ticks := Suc (ticks s)\<rparr>))"

definition checked_claims ::
  "jwt_externs \<Rightarrow> (json \<Rightarrow> 'c option) \<Rightarrow> string \<Rightarrow> int \<Rightarrow> string \<Rightarrow> ('c, auth_error) result" where
  "checked_claims j read secret now token =
     (case jwt_decode j (\<lambda>c. read c \<noteq> None) secret now token of
        Inr c \<Rightarrow> (case read c of Some v \<Rightarrow> Ok v | None \<Rightarrow> Err InvalidToken)
      | Inl ExpiredSignature \<Rightarrow> Err TokenExpired
      | Inl (OtherJwtError e) \<Rightarrow> Err InvalidToken)"

definition validate_access_token ::
  "externs \<Rightarrow> jwt_externs \<Rightarrow> auth_config \<Rightarrow> string \<Rightarrow> ('d srv, auth_error, access_claims) eff" where
  "validate_access_token x j cfg token =
     bnd unix_secs (\<lambda>now. of_result (checked_claims j (access_claims_of_json x) (access_token_secret cfg) now token))"

definition validate_refresh_token ::
  "externs \<Rightarrow> jwt_externs \<Rightarrow> auth_config \<Rightarrow> string \<Rightarrow> ('d srv, auth_error, refresh_claims) eff" where
  "validate_refresh_token x j cfg token =
     bnd unix_secs (\<lambda>now. of_result (checked_claims j (refresh_claims_of_json x) (refresh_token_secret cfg) now token))"

definition refresh_access ::
  "externs \<Rightarrow> jwt_externs \<Rightarrow> auth_config \<Rightarrow> string \<Rightarrow> string \<Rightarrow> role \<Rightarrow> ('d srv, auth_error, string) eff" where
  "refresh_access x j cfg token name rl =
     bnd (validate_refresh_token x j cfg token) (\<lambda>c. generate_access_token x j cfg (rt_sub c) name rl)"

section \<open>The middleware\<close>

datatype auth_middleware_error =
    InternalError
  | MissingAuthHeader
  | InvalidAuthHeader
  | MwInvalidToken
  | MwTokenExpired
  | UserNotFound

fun auth_middleware_error_str :: "auth_middleware_error \<Rightarrow> string" where
  "auth_middleware_error_str InternalError = ''Internal error''"
| "auth_middleware_error_str MissingAuthHeader = ''Missing Authorization header''"
| "auth_middleware_error_str InvalidAuthHeader = ''Invalid Authorization header format''"
| "auth_middleware_error_str MwInvalidToken = ''Invalid token''"
| "auth_middleware_error_str MwTokenExpired = ''Token has expired''"
| "auth_middleware_error_str UserNotFound = ''User not found''"

fun auth_into_response :: "auth_middleware_error \<Rightarrow> nat \<times> string" where
  "auth_into_response InternalError = (500, ''Internal error'')"
| "auth_into_response MissingAuthHeader = (401, ''Missing Authorization header'')"
| "auth_into_response InvalidAuthHeader = (401, ''Invalid Authorization header format'')"
| "auth_into_response MwInvalidToken = (401, ''Invalid token'')"
| "auth_into_response MwTokenExpired = (401, ''Token has expired'')"
| "auth_into_response UserNotFound = (403, ''User not found or access denied'')"

text \<open>\<open>trim_start_matches\<close> removes the prefix as often as it is there.\<close>

definition extract_bearer_token :: "jwt_externs \<Rightarrow> string option \<Rightarrow> (string, auth_middleware_error) result" where
  "extract_bearer_token j header =
     (case header of
        None \<Rightarrow> Err MissingAuthHeader
      | Some bytes \<Rightarrow>
          (case header_text j bytes of
             None \<Rightarrow> Err InvalidAuthHeader
           | Some t \<Rightarrow>
               if \<not> prefix ''Bearer '' t then Err InvalidAuthHeader
               else Ok (trim (strip_prefixes [''Bearer ''] t))))"

fun token_refusal :: "auth_error \<Rightarrow> auth_middleware_error" where
  "token_refusal TokenExpired = MwTokenExpired"
| "token_refusal InvalidToken = MwInvalidToken"
| "token_refusal (JwtError e) = MwInvalidToken"
| "token_refusal (TimeError e) = MwInvalidToken"

text \<open>The user is read by \<open>GetCurrentUser\<close>, or taken from the claims in services without users.\<close>

definition auth_handle ::
  "externs \<Rightarrow> jwt_externs \<Rightarrow> auth_config \<Rightarrow> (uuid \<Rightarrow> ('d srv \<times> 'r, app_error, current_user) eff) option \<Rightarrow>
     string option \<Rightarrow> ('d srv \<times> 'r, auth_middleware_error, current_user \<times> access_claims) eff" where
  "auth_handle x j cfg getter header =
     bnd (of_result (extract_bearer_token j header)) (\<lambda>token.
     bnd (on_fst (map_err token_refusal (validate_access_token x j cfg token))) (\<lambda>c.
     bnd (case getter of
            Some get_by_id \<Rightarrow> map_err (\<lambda>_. UserNotFound) (get_by_id (at_sub c))
          | None \<Rightarrow> ret \<lparr>cu_id = at_sub c, cu_role = at_role c\<rparr>) (\<lambda>u.
       ret (u, c))))"

section \<open>What the code relies on\<close>

text \<open>A token is made of letters, digits, hyphens, underscores and dots, and carries its claims: whoever
  accepts it reads the claims that were signed. With the secret of the signature it is accepted until
  its expiry, provided its claims have the type that is asked for. A header of visible ASCII
  characters is readable.\<close>

definition token_char :: "char \<Rightarrow> bool" where
  "token_char c \<longleftrightarrow> code_char c \<or> c \<in> {CHR ''-'', CHR ''_'', CHR ''.''}"

definition jwt_signed :: "jwt_externs \<Rightarrow> string \<Rightarrow> json \<Rightarrow> string \<Rightarrow> bool" where
  "jwt_signed j secret c t \<longleftrightarrow>
     list_all token_char t \<and>
     (\<forall>P k now c'. jwt_decode j P k now t = Inr c' \<longrightarrow> c' = c \<and> P c) \<and>
     (\<forall>P now e. int_field c ''exp'' = Some e \<and> 0 \<le> e \<and> P c \<longrightarrow>
        jwt_decode j P secret now t = (if now \<le> e then Inr c else Inl ExpiredSignature))"

definition jwt_laws :: "jwt_externs \<Rightarrow> bool" where
  "jwt_laws j \<longleftrightarrow>
     (\<forall>secret c t. jwt_encode j secret c = Inr t \<longrightarrow> jwt_signed j secret c t) \<and>
     (\<forall>s. list_all visible_char s \<longrightarrow> header_text j s = Some s)"

lemma wrap_i64_range: "- (2 ^ 63) \<le> wrap_i64 i \<and> wrap_i64 i < 2 ^ 63"
  using pos_mod_bound[of "2 ^ 64" "i + 2 ^ 63"] pos_mod_sign[of "2 ^ 64" "i + 2 ^ 63"] by (simp add: wrap_i64_def)

lemma wrap_i64_id: "- (2 ^ 63) \<le> i \<Longrightarrow> i < 2 ^ 63 \<Longrightarrow> wrap_i64 i = i"
  by (simp add: wrap_i64_def)

lemma as_i64_wrap [simp]: "as_i64 (JInt (wrap_i64 i)) = Some (wrap_i64 i)"
  using wrap_i64_range[of i] by simp

lemma role_of_name [simp]: "of_name role_str roles (role_str rl) = Some rl"
  by (cases rl) (simp_all add: of_name_def roles_def)

lemma access_claims_roundtrip:
  assumes "uuid_codec x" "at_iat c = wrap_i64 a" "at_exp c = wrap_i64 b"
  shows "access_claims_of_json x (access_claims_json x c) = Some c"
  using assms by (simp add: access_claims_of_json_def access_claims_json_def str_field_def int_field_def del: as_i64.simps)

lemma refresh_claims_roundtrip:
  assumes "uuid_codec x" "rt_iat c = wrap_i64 a" "rt_exp c = wrap_i64 b"
  shows "refresh_claims_of_json x (refresh_claims_json x c) = Some c"
  using assms by (simp add: refresh_claims_of_json_def refresh_claims_json_def str_field_def int_field_def del: as_i64.simps)

text \<open>Neither kind of claims can be read as the other.\<close>

lemma claims_differ:
  "access_claims_of_json x (refresh_claims_json x c) = None"
  "refresh_claims_of_json x (access_claims_json x d) = None"
  by (simp_all add: access_claims_of_json_def refresh_claims_json_def refresh_claims_of_json_def access_claims_json_def
      str_field_def bind_eq_None_conv)

lemma token_char_visible: "token_char c \<Longrightarrow> visible_char c \<and> c \<noteq> CHR '' ''"
  by (auto simp: token_char_def visible_char_def code_char_def is_ascii_uppercase_def is_ascii_lowercase_def
      is_ascii_digit_def)

text \<open>A signed token survives the header.\<close>

lemma extract_bearer_token_signed:
  assumes "jwt_laws j" "list_all token_char t"
  shows "extract_bearer_token j (Some (''Bearer '' @ t)) = Ok t"
proof -
  have vis: "list_all (\<lambda>c. visible_char c \<and> c \<noteq> CHR '' '') t"
    using assms(2) token_char_visible by (auto simp: list_all_iff)
  then have "list_all visible_char (''Bearer '' @ t)" by (auto simp: list_all_iff visible_char_def)
  then have "header_text j (''Bearer '' @ t) = Some (''Bearer '' @ t)" using assms(1) by (simp add: jwt_laws_def)
  moreover have "strip_prefixes [''Bearer ''] (''Bearer '' @ t) = t"
  proof -
    have "CHR '' '' \<notin> set t" using vis by (auto simp: list_all_iff)
    then have "\<not> prefix ''Bearer '' t" by (auto simp: prefix_def)
    then have "strip_prefixes [''Bearer ''] t = t" by (intro strip_prefixes_fixed) simp
    then show ?thesis by (subst strip_prefixes.simps) simp
  qed
  ultimately show ?thesis using trim_visible[OF vis] by (simp add: extract_bearer_token_def)
qed

lemma generate_access_token_Ok:
  assumes "generate_access_token x j cfg uid name rl s = (Ok t, s1)"
  obtains c where "at_sub c = uid" "at_role c = rl" "at_iat c = wrap_i64 (clock s (ticks s) div 1000000)"
    "at_exp c = wrap_i64 (at_iat c + wrap_i64 (int (access_token_expiry_secs cfg)))"
    "0 \<le> clock s (ticks s)" "jwt_encode j (access_token_secret cfg) (access_claims_json x c) = Inr t"
  using assms that[of "\<lparr>at_sub = uid, at_name = name, at_role = rl, at_iat = wrap_i64 (clock s (ticks s) div 1000000),
      at_exp = wrap_i64 (wrap_i64 (clock s (ticks s) div 1000000) + wrap_i64 (int (access_token_expiry_secs cfg)))\<rparr>"]
  by (auto simp: generate_access_token_def bnd_def current_timestamp_def of_result_def sign_def Let_def split: if_splits sum.splits)

lemma jwt_refresh_token_Ok:
  assumes "jwt_refresh_token x j cfg uid s = (Ok t, s1)"
  obtains c where "rt_sub c = uid" "rt_iat c = wrap_i64 (clock s (ticks s) div 1000000)"
    "rt_exp c = wrap_i64 (rt_iat c + wrap_i64 (int (refresh_token_expiry_secs cfg)))"
    "0 \<le> clock s (ticks s)" "jwt_encode j (refresh_token_secret cfg) (refresh_claims_json x c) = Inr t"
  using assms that[of "\<lparr>rt_sub = uid, rt_jti = uuid_str x (uuids s (Suc (ticks s))), rt_iat = wrap_i64 (clock s (ticks s) div 1000000),
      rt_exp = wrap_i64 (wrap_i64 (clock s (ticks s) div 1000000) + wrap_i64 (int (refresh_token_expiry_secs cfg)))\<rparr>"]
  by (auto simp: jwt_refresh_token_def bnd_def current_timestamp_def next_uuid_def of_result_def sign_def Let_def split: if_splits sum.splits)

lemma checked_claims_signed:
  assumes "jwt_signed j secret c t" "read c = Some v" "int_field c ''exp'' = Some e" "0 \<le> e"
  shows "checked_claims j read secret now t = (if now \<le> e then Ok v else Err TokenExpired)"
proof -
  have "jwt_decode j (\<lambda>c. read c \<noteq> None) secret now t = (if now \<le> e then Inr c else Inl ExpiredSignature)"
    using assms by (simp add: jwt_signed_def)
  then show ?thesis by (simp add: checked_claims_def assms(2))
qed

lemma checked_claims_other:
  assumes "jwt_signed j secret c t" "read c = None"
  shows "\<not> is_ok (checked_claims j read k now t)"
proof -
  have "jwt_decode j (\<lambda>c. read c \<noteq> None) k now t \<noteq> Inr c'" for c'
    using assms unfolding jwt_signed_def by blast
  then show ?thesis by (auto simp: checked_claims_def split: sum.splits jwt_failure.splits)
qed

lemma int_field_exp:
  "at_exp c = wrap_i64 b \<Longrightarrow> int_field (access_claims_json x c) ''exp'' = Some (at_exp c)"
  "rt_exp d = wrap_i64 b \<Longrightarrow> int_field (refresh_claims_json x d) ''exp'' = Some (rt_exp d)"
  by (simp_all add: int_field_def access_claims_json_def refresh_claims_json_def del: as_i64.simps)

text \<open>A package that signs the claims of a table: an instance of what is relied on.\<close>

definition table_jwt :: "(json \<times> string) list \<Rightarrow> jwt_externs" where
  "table_jwt tbl =
     \<lparr>jwt_encode = (\<lambda>secret c. case map_of tbl c of Some t \<Rightarrow> Inr t | None \<Rightarrow> Inl ''unknown claims''),
      jwt_decode = (\<lambda>P secret now t.
        case find (\<lambda>(c, u). u = t) tbl of
          None \<Rightarrow> Inl (OtherJwtError ''InvalidToken'')
        | Some (c, u) \<Rightarrow>
            (if \<not> P c then Inl (OtherJwtError ''missing field'')
             else if (case int_field c ''exp'' of Some e \<Rightarrow> now \<le> e | None \<Rightarrow> True) then Inr c
             else Inl ExpiredSignature)),
      header_text = Some\<rparr>"

lemma table_jwt_laws:
  assumes "distinct (map snd tbl)" "list_all (\<lambda>(c, t). list_all token_char t) tbl"
  shows "jwt_laws (table_jwt tbl)"
proof -
  have "jwt_signed (table_jwt tbl) secret c t" if "map_of tbl c = Some t" for secret c t
  proof -
    have m: "(c, t) \<in> set tbl" using that by (rule map_of_SomeD)
    have "find (\<lambda>(c, u). u = t) tbl = Some (c, t)"
      using m assms(1)
    proof (induction tbl)
      case (Cons p tbl)
      then show ?case by (cases p) force
    qed simp
    then show ?thesis using m assms(2) by (auto simp: jwt_signed_def table_jwt_def list_all_iff split: if_splits)
  qed
  then show ?thesis by (auto simp: jwt_laws_def table_jwt_def split: option.splits)
qed

definition demo_auth :: auth_config where
  "demo_auth = \<lparr>access_token_secret = ''k1'', refresh_token_secret = ''k2'', access_token_expiry_secs = 60,
     refresh_token_expiry_secs = 600\<rparr>"

definition demo_access :: access_claims where
  "demo_access = \<lparr>at_sub = 1, at_name = ''ann'', at_role = Seller, at_iat = 0, at_exp = 60\<rparr>"

definition demo_refresh :: refresh_claims where
  "demo_refresh = \<lparr>rt_sub = 1, rt_jti = uuid_str demo_externs 101, rt_iat = 0, rt_exp = 600\<rparr>"

definition demo_jwt :: jwt_externs where
  "demo_jwt = table_jwt [(access_claims_json demo_externs demo_access, ''access''),
     (refresh_claims_json demo_externs demo_refresh, ''refresh'')]"

lemma demo_jwt_laws: "jwt_laws demo_jwt"
  unfolding demo_jwt_def
  by (rule table_jwt_laws) (simp_all add: token_char_def code_char_def is_ascii_lowercase_def)

lemma demo_tokens:
  "generate_access_token demo_externs demo_jwt demo_auth 1 ''ann'' Seller (demo_srv d) = (Ok ''access'', (demo_srv d)\<lparr>ticks := 1\<rparr>)"
  "jwt_refresh_token demo_externs demo_jwt demo_auth 1 (demo_srv d) = (Ok ''refresh'', (demo_srv d)\<lparr>ticks := 2\<rparr>)"
  by (simp_all add: generate_access_token_def jwt_refresh_token_def bnd_def current_timestamp_def next_uuid_def of_result_def sign_def
      Let_def wrap_i64_id demo_auth_def demo_jwt_def table_jwt_def demo_access_def demo_refresh_def access_claims_json_def refresh_claims_json_def)

text \<open>The middleware of a service without users takes a token for what it was issued for: until its
  expiry a request with the token is one of the user and the role it was generated for, and
  afterwards it is refused as expired.\<close>

lemma access_token_roundtrip:
  assumes "jwt_laws j" "uuid_codec x" "generate_access_token x j cfg uid name rl s = (Ok t, s1)"
    and "expiry = clock s (ticks s) div 1000000 + int (access_token_expiry_secs cfg)" "expiry < 2 ^ 63"
    and "0 \<le> clock later (ticks later)"
  shows "\<exists>c. auth_handle x j cfg None (Some (''Bearer '' @ t)) (later, r) =
    (if clock later (ticks later) div 1000000 \<le> expiry then Ok (\<lparr>cu_id = uid, cu_role = rl\<rparr>, c) else Err MwTokenExpired,
     later\<lparr>ticks := Suc (ticks later)\<rparr>, r)"
proof -
  obtain c where c: "at_sub c = uid" "at_role c = rl" "at_iat c = wrap_i64 (clock s (ticks s) div 1000000)"
      "at_exp c = wrap_i64 (at_iat c + wrap_i64 (int (access_token_expiry_secs cfg)))"
    and pos: "0 \<le> clock s (ticks s)" and t: "jwt_encode j (access_token_secret cfg) (access_claims_json x c) = Inr t"
    using assms(3) by (elim generate_access_token_Ok)
  have signed: "jwt_signed j (access_token_secret cfg) (access_claims_json x c) t" using assms(1) t by (simp add: jwt_laws_def)
  have "0 \<le> clock s (ticks s) div 1000000" using pos by (simp add: pos_imp_zdiv_nonneg_iff)
  then have e: "at_exp c = expiry" "0 \<le> expiry" using assms(4,5) c(3,4) by (simp_all add: wrap_i64_id)
  note ok = checked_claims_signed[where read = "access_claims_of_json x", OF signed access_claims_roundtrip[OF assms(2) c(3,4)]
      int_field_exp(1)[OF c(4)]]
  have "extract_bearer_token j (Some (''Bearer '' @ t)) = Ok t"
    using extract_bearer_token_signed[OF assms(1)] signed by (simp add: jwt_signed_def)
  then show ?thesis using assms(6) c(1,2) e ok
    by (simp add: auth_handle_def bnd_def of_result_def on_fst_def map_err_def validate_access_token_def unix_secs_def
        Let_def ret_def)
qed

section \<open>Properties\<close>

text \<open>C24: The two kinds of tokens are not interchangeable, whatever the secrets are: no refresh token
  passes the middleware, and no access token is accepted for a refresh.\<close>

theorem tokens_not_interchangeable:
  assumes "jwt_laws j" "jwt_refresh_token x j cfg uid s = (Ok t, s1)"
    and "generate_access_token x j cfg uid' name rl s' = (Ok t', s1')"
  shows "\<not> is_ok (fst (auth_handle x j cfga getter (Some (''Bearer '' @ t)) (later, r))) \<and>
    \<not> is_ok (fst (validate_refresh_token x j cfgb t' sb))"
proof
  obtain c where "jwt_encode j (refresh_token_secret cfg) (refresh_claims_json x c) = Inr t"
    using assms(2) by (elim jwt_refresh_token_Ok) auto
  then have signed: "jwt_signed j (refresh_token_secret cfg) (refresh_claims_json x c) t" using assms(1) by (simp add: jwt_laws_def)
  have "\<not> is_ok (checked_claims j (access_claims_of_json x) k now t)" for k now
    by (rule checked_claims_other[OF signed]) (rule claims_differ)
  then have "checked_claims j (access_claims_of_json x) k now t \<noteq> Ok v" for k now v by (metis is_ok.simps(1))
  moreover have "extract_bearer_token j (Some (''Bearer '' @ t)) = Ok t"
    using extract_bearer_token_signed[OF assms(1)] signed by (simp add: jwt_signed_def)
  ultimately show "\<not> is_ok (fst (auth_handle x j cfga getter (Some (''Bearer '' @ t)) (later, r)))"
    by (auto simp: auth_handle_def bnd_def of_result_def on_fst_def map_err_def validate_access_token_def unix_secs_def
        Let_def split: result.splits prod.splits if_splits)
  obtain d where "jwt_encode j (access_token_secret cfg) (access_claims_json x d) = Inr t'"
    using assms(3) by (elim generate_access_token_Ok) auto
  then have signed': "jwt_signed j (access_token_secret cfg) (access_claims_json x d) t'" using assms(1) by (simp add: jwt_laws_def)
  have "\<not> is_ok (checked_claims j (refresh_claims_of_json x) k now t')" for k now
    by (rule checked_claims_other[OF signed']) (rule claims_differ)
  then show "\<not> is_ok (fst (validate_refresh_token x j cfgb t' sb))"
    by (auto simp: validate_refresh_token_def bnd_def of_result_def unix_secs_def Let_def
        split: result.splits prod.splits if_splits)
qed

theorem tokens_not_interchangeable_witness:
  "\<not> is_ok (fst (auth_handle demo_externs demo_jwt demo_auth None (Some ''Bearer refresh'') (demo_srv (0::nat), ()))) \<and>
   \<not> is_ok (fst (validate_refresh_token demo_externs demo_jwt (demo_auth\<lparr>refresh_token_secret := ''k1''\<rparr>) ''access'' (demo_srv (0::nat))))"
  using tokens_not_interchangeable[OF demo_jwt_laws demo_tokens(2)[of "0::nat"] demo_tokens(1)[of "0::nat"],
      where cfga = demo_auth and cfgb = "demo_auth\<lparr>refresh_token_secret := ''k1''\<rparr>" and later = "demo_srv (0::nat)"
        and r = "()" and getter = None and sb = "demo_srv (0::nat)"]
  by simp

end
