(* ===== verification/Settings.thy ===== *)
theory Settings
  imports Tokens Consumer Relay Jobs
begin

text \<open>
  The settings a service reads from its environment, \<open>shared/src/config\<close>: how a variable is read and
  parsed, and the constructors of the settings of tokens, database, Redis, Kafka, consumers, relay and job runner
  with their assertions. The environment is what \<open>std::env::var\<close> answers for a name.
\<close>

type_synonym env_vars = "string \<Rightarrow> string option"

section \<open>Reading a variable\<close>

text \<open>\<open>FromStr\<close> of the unsigned and signed integers: decimal digits after an optional sign, an
  error if there are none or if the number does not fit.\<close>

definition digits_value :: "string \<Rightarrow> nat option" where
  "digits_value s =
     (if s = [] \<or> \<not> list_all is_ascii_digit s then None
      else Some (foldl (\<lambda>n c. 10 * n + (of_char c - 48)) 0 s))"

definition strip_sign :: "char \<Rightarrow> string \<Rightarrow> string option" where
  "strip_sign sg s = (case s of c # rest \<Rightarrow> if c = sg then Some rest else None | [] \<Rightarrow> None)"

definition parse_unsigned :: "nat \<Rightarrow> string \<Rightarrow> nat option" where
  "parse_unsigned bits s =
     Option.bind (digits_value (case strip_sign CHR ''+'' s of Some rest \<Rightarrow> rest | None \<Rightarrow> s))
       (\<lambda>n. if n < 2 ^ bits then Some n else None)"

definition parse_i64 :: "string \<Rightarrow> int option" where
  "parse_i64 s =
     (case strip_sign CHR ''-'' s of
        Some rest \<Rightarrow> Option.bind (digits_value rest) (\<lambda>n. if n \<le> 2 ^ 63 then Some (- int n) else None)
      | None \<Rightarrow> map_option int (parse_unsigned 63 s))"

definition parse_bool :: "string \<Rightarrow> bool option" where
  "parse_bool s = (if s = ''true'' then Some True else if s = ''false'' then Some False else None)"

definition read_env_or :: "env_vars \<Rightarrow> string \<Rightarrow> string \<Rightarrow> string" where
  "read_env_or env key d = (case env key of Some v \<Rightarrow> v | None \<Rightarrow> d)"

definition parse_env_or :: "env_vars \<Rightarrow> (string \<Rightarrow> 'a option) \<Rightarrow> string \<Rightarrow> 'a \<Rightarrow> 'a" where
  "parse_env_or env parse key d = (case Option.bind (env key) parse of Some v \<Rightarrow> v | None \<Rightarrow> d)"

section \<open>Required settings\<close>

text \<open>\<open>AuthConfig::new\<close>: the four variables are read before the assertions of \<open>auth_config_new\<close>.\<close>

definition auth_config_from_env :: "env_vars \<Rightarrow> (auth_config, 'e) result" where
  "auth_config_from_env env =
     and_then (or_panic ''ACCESS_TOKEN_SECRET must be set'' (env ''ACCESS_TOKEN_SECRET'')) (\<lambda>access.
     and_then (or_panic ''REFRESH_TOKEN_SECRET must be set'' (env ''REFRESH_TOKEN_SECRET'')) (\<lambda>refresh.
     and_then (or_panic ''ACCESS_TOKEN_EXPIRY must be set'' (env ''ACCESS_TOKEN_EXPIRY'')) (\<lambda>a.
     and_then (or_panic ''ACCESS_TOKEN_EXPIRY must be a valid u64'' (parse_unsigned 64 a)) (\<lambda>access_secs.
     and_then (or_panic ''REFRESH_TOKEN_EXPIRY must be set'' (env ''REFRESH_TOKEN_EXPIRY'')) (\<lambda>r.
     and_then (or_panic ''REFRESH_TOKEN_EXPIRY must be a valid u64'' (parse_unsigned 64 r)) (\<lambda>refresh_secs.
       auth_config_new access refresh access_secs refresh_secs))))))"

record db_config =
  dc_url :: string
  dc_max_connections :: nat

definition db_config_new :: "env_vars \<Rightarrow> string \<Rightarrow> (db_config, 'e) result" where
  "db_config_new env key =
     and_then (or_panic (key @ '' env var must be set'') (env key)) (\<lambda>url.
     and_then (or_panic ''DB_MAX_CONNECTIONS env var must be set'' (env ''DB_MAX_CONNECTIONS'')) (\<lambda>m.
     and_then (or_panic ''DB_MAX_CONNECTIONS must be a valid u32'' (parse_unsigned 32 m)) (\<lambda>n.
       if url = [] then Panic (key @ '' must not be empty'')
       else if n = 0 then Panic (''DB_MAX_CONNECTIONS must be positive, got '' @ show_nat n)
       else Ok \<lparr>dc_url = url, dc_max_connections = n\<rparr>)))"

definition redis_config_new :: "env_vars \<Rightarrow> (string, 'e) result" where
  "redis_config_new env = or_panic ''REDIS_URL must be set'' (env ''REDIS_URL'')"

definition redis_config_try_new :: "env_vars \<Rightarrow> string option" where
  "redis_config_try_new env = env ''REDIS_URL''"

definition kafka_config_new :: "env_vars \<Rightarrow> string" where
  "kafka_config_new env = read_env_or env ''KAFKA_BROKERS'' ''localhost:29092''"

section \<open>Settings with defaults\<close>

definition relay_config_from_env :: "env_vars \<Rightarrow> externs \<Rightarrow> uuid \<Rightarrow> (relay_config, 'e) result" where
  "relay_config_from_env env x rid =
     (let batch_size = parse_env_or env parse_i64 ''OUTBOX_RELAY_BATCH_SIZE'' 50;
          poll = parse_env_or env (parse_unsigned 64) ''OUTBOX_RELAY_POLL_INTERVAL_MS'' 500;
          check = parse_env_or env (parse_unsigned 64) ''OUTBOX_RELAY_STALE_LOCK_CHECK_INTERVAL_SECS'' 30;
          timeout = parse_env_or env (parse_unsigned 64) ''OUTBOX_RELAY_STALE_LOCK_TIMEOUT_SECS'' 60;
          cleanup = parse_env_or env (parse_unsigned 64) ''OUTBOX_RELAY_CLEANUP_INTERVAL_SECS'' 3600;
          max_age = parse_env_or env (parse_unsigned 64) ''OUTBOX_RELAY_CLEANUP_MAX_AGE_SECS'' (7 * 24 * 3600) in
      if \<not> batch_size > 0 then Panic ''OUTBOX_RELAY_BATCH_SIZE must be positive''
      else if \<not> poll > 0 then Panic ''OUTBOX_RELAY_POLL_INTERVAL_MS must be positive''
      else if \<not> timeout > check then Panic ''stale_lock_timeout must exceed stale_lock_check_interval''
      else Ok \<lparr>rc_instance_id = read_env_or env ''OUTBOX_RELAY_INSTANCE_ID'' (uuid_str x rid), rc_batch_size = nat batch_size,
               rc_poll_interval = poll, rc_stale_lock_check_interval = check, rc_stale_lock_timeout = timeout,
               rc_cleanup_interval = cleanup, rc_cleanup_max_age = max_age,
               rc_delete_on_publish = parse_env_or env parse_bool ''OUTBOX_RELAY_DELETE_ON_PUBLISH'' False\<rparr>)"

definition job_runner_config_from_env :: "env_vars \<Rightarrow> externs \<Rightarrow> uuid \<Rightarrow> (job_runner_config, 'e) result" where
  "job_runner_config_from_env env x i =
     (let max_concurrent = parse_env_or env (parse_unsigned 64) ''JOB_RUNNER_MAX_CONCURRENT_JOBS'' 5;
          poll = parse_env_or env (parse_unsigned 64) ''JOB_RUNNER_POLL_INTERVAL_MS'' 1000;
          check = parse_env_or env (parse_unsigned 64) ''JOB_RUNNER_STALE_LOCK_CHECK_INTERVAL_SECS'' 30;
          timeout = parse_env_or env (parse_unsigned 64) ''JOB_RUNNER_STALE_LOCK_TIMEOUT_SECS'' 300;
          cleanup = parse_env_or env (parse_unsigned 64) ''JOB_RUNNER_CLEANUP_INTERVAL_SECS'' 3600;
          max_age = parse_env_or env (parse_unsigned 64) ''JOB_RUNNER_CLEANUP_MAX_AGE_SECS'' (7 * 24 * 3600) in
      if \<not> max_concurrent > 0 then Panic ''JOB_RUNNER_MAX_CONCURRENT_JOBS must be positive''
      else if \<not> poll > 0 then Panic ''JOB_RUNNER_POLL_INTERVAL_MS must be positive''
      else if \<not> timeout > check then Panic ''stale_lock_timeout must exceed stale_lock_check_interval''
      else Ok \<lparr>jn_instance_id = read_env_or env ''JOB_RUNNER_INSTANCE_ID'' (uuid_str x i), jn_max_concurrent_jobs = max_concurrent,
               jn_poll_interval = poll, jn_stale_lock_check_interval = check, jn_stale_lock_timeout = timeout,
               jn_cleanup_interval = cleanup, jn_cleanup_max_age = max_age,
               jn_default_max_retries = parse_env_or env (parse_unsigned 32) ''JOB_RUNNER_DEFAULT_MAX_RETRIES'' 5,
               jn_default_timeout_seconds = parse_env_or env (parse_unsigned 32) ''JOB_RUNNER_DEFAULT_TIMEOUT_SECS'' 300\<rparr>)"

definition consumer_config_from_env :: "env_vars \<Rightarrow> string \<Rightarrow> string list \<Rightarrow> consumer_config" where
  "consumer_config_from_env env g ts =
     \<lparr>cc_group_id = g, cc_topics = ts,
      cc_max_retries = parse_env_or env (parse_unsigned 32) ''EVENT_CONSUMER_MAX_RETRIES'' 3,
      cc_retry_base_delay = parse_env_or env (parse_unsigned 64) ''EVENT_CONSUMER_RETRY_BASE_DELAY_MS'' 1000,
      cc_retry_max_delay = 1000 * parse_env_or env (parse_unsigned 64) ''EVENT_CONSUMER_RETRY_MAX_DELAY_SECS'' 30,
      cc_dlq_topic_override = env ''EVENT_CONSUMER_DLQ_TOPIC'',
      cc_session_timeout = 1000 * parse_env_or env (parse_unsigned 64) ''EVENT_CONSUMER_SESSION_TIMEOUT_SECS'' 30,
      cc_auto_create_dlq_topics = parse_env_or env parse_bool ''EVENT_CONSUMER_AUTO_CREATE_DLQ'' True,
      cc_cleanup_interval = parse_env_or env (parse_unsigned 64) ''EVENT_CONSUMER_CLEANUP_INTERVAL_SECS'' 3600,
      cc_max_age = parse_env_or env (parse_unsigned 64) ''EVENT_CONSUMER_CLEANUP_MAX_AGE_SECS'' (7 * 24 * 3600)\<rparr>"

section \<open>Facts\<close>

lemma parse_unsigned_bound: "parse_unsigned bits s = Some n \<Longrightarrow> n < 2 ^ bits"
  by (auto simp: parse_unsigned_def bind_eq_Some_conv split: if_splits)

lemma parse_i64_bounds: "parse_i64 s = Some i \<Longrightarrow> - (2 ^ 63) \<le> i \<and> i < 2 ^ 63"
  using parse_unsigned_bound[of 63 s]
  by (auto simp: parse_i64_def bind_eq_Some_conv split: if_splits option.splits)

lemma parse_env_or_cases: "parse_env_or env parse key d = v \<Longrightarrow> v = d \<or> (\<exists>s. env key = Some s \<and> parse s = Some v)"
  by (auto simp: parse_env_or_def split: option.splits bind_splits)

text \<open>A variable that is written in decimals is read back.\<close>

lemma digit_code: "n < 10 \<Longrightarrow> (of_char (digit n) :: nat) = 48 + n"
  by (simp add: digit_def)

lemma digits_value_append:
  assumes "digits_value s = Some n" "m < 10"
  shows "digits_value (s @ [digit m]) = Some (10 * n + m)"
  using assms by (auto simp: digits_value_def is_ascii_digit_def digit_code split: if_splits)

lemma digits_value_show: "digits_value (show_nat n) = Some n"
proof (induction n rule: show_nat.induct)
  case (1 n)
  show ?case
  proof (cases "n < 10")
    case True
    then show ?thesis by (subst show_nat.simps) (simp add: digits_value_def is_ascii_digit_def digit_code)
  next
    case False
    then have "show_nat n = show_nat (n div 10) @ [digit (n mod 10)]" by (subst show_nat.simps) simp
    then show ?thesis using digits_value_append[OF 1[OF False], of "n mod 10"] by simp
  qed
qed

lemma parse_unsigned_show: "n < 2 ^ bits \<Longrightarrow> parse_unsigned bits (show_nat n) = Some n"
proof -
  assume n: "n < 2 ^ bits"
  have d: "digits_value (show_nat n) = Some n" by (rule digits_value_show)
  then have "strip_sign CHR ''+'' (show_nat n) = None"
    by (auto simp: strip_sign_def digits_value_def is_ascii_digit_def split: if_splits list.splits)
  then show ?thesis using d n by (simp add: parse_unsigned_def)
qed

text \<open>What the settings of a running service satisfy.\<close>

definition relay_settings_ok :: "relay_config \<Rightarrow> bool" where
  "relay_settings_ok c \<longleftrightarrow>
     0 < rc_batch_size c \<and> rc_batch_size c < 2 ^ 63 \<and> 0 < rc_poll_interval c \<and>
     rc_stale_lock_check_interval c < rc_stale_lock_timeout c"

definition job_settings_ok :: "job_runner_config \<Rightarrow> bool" where
  "job_settings_ok c \<longleftrightarrow>
     0 < jn_max_concurrent_jobs c \<and> 0 < jn_poll_interval c \<and> jn_stale_lock_check_interval c < jn_stale_lock_timeout c \<and>
     jn_default_max_retries c < 2 ^ 32 \<and> jn_default_timeout_seconds c < 2 ^ 32"

definition auth_settings_ok :: "auth_config \<Rightarrow> bool" where
  "auth_settings_ok c \<longleftrightarrow>
     access_token_secret c \<noteq> [] \<and> refresh_token_secret c \<noteq> [] \<and> 0 < access_token_expiry_secs c \<and>
     access_token_expiry_secs c < refresh_token_expiry_secs c \<and> refresh_token_expiry_secs c < 2 ^ 64"

lemma parse_env_or_bound: "d < 2 ^ bits \<Longrightarrow> parse_env_or env (parse_unsigned bits) key d < 2 ^ bits"
  using parse_env_or_cases[where env = env and parse = "parse_unsigned bits" and key = key and d = d, OF refl]
  by (auto dest: parse_unsigned_bound)

lemma parse_env_or_i64: "- (2 ^ 63) \<le> d \<Longrightarrow> d < 2 ^ 63 \<Longrightarrow> parse_env_or env parse_i64 key d < 2 ^ 63"
  using parse_env_or_cases[where env = env and parse = parse_i64 and key = key and d = d, OF refl]
  by (auto dest: parse_i64_bounds)

lemma relay_config_from_env_ok:
  assumes "relay_config_from_env env x rid = Ok c"
  shows "relay_settings_ok c"
proof -
  let ?b = "parse_env_or env parse_i64 ''OUTBOX_RELAY_BATCH_SIZE'' 50"
  have "?b < 2 ^ 63" by (rule parse_env_or_i64) simp_all
  then show ?thesis using assms
    by (auto simp: relay_config_from_env_def relay_settings_ok_def Let_def split: if_splits)
qed

lemma job_runner_config_from_env_ok:
  assumes "job_runner_config_from_env env x i = Ok c"
  shows "job_settings_ok c"
proof -
  have "parse_env_or env (parse_unsigned 32) key 5 < 2 ^ 32" "parse_env_or env (parse_unsigned 32) key 300 < 2 ^ 32" for key
    by (rule parse_env_or_bound; simp)+
  then show ?thesis using assms
    by (auto simp: job_runner_config_from_env_def job_settings_ok_def Let_def split: if_splits)
qed

lemma auth_config_from_env_ok:
  assumes "auth_config_from_env env = Ok c"
  shows "auth_settings_ok c"
  using assms
  by (auto simp: auth_config_from_env_def and_then_Ok_iff auth_config_new_def auth_settings_ok_def dest: parse_unsigned_bound
      split: if_splits)

section \<open>Properties\<close>


definition demo_env_vars :: env_vars where
  "demo_env_vars =
     map_of [(''ACCESS_TOKEN_SECRET'', ''k1''), (''REFRESH_TOKEN_SECRET'', ''k2''), (''ACCESS_TOKEN_EXPIRY'', ''900''),
       (''REFRESH_TOKEN_EXPIRY'', ''+86400''), (''OUTBOX_RELAY_BATCH_SIZE'', ''many''), (''JOB_RUNNER_MAX_CONCURRENT_JOBS'', ''8''),
       (''DB_MAX_CONNECTIONS'', ''5''), (''ORDER_DB_URL'', ''postgres://order''), (''CARGO_MANIFEST_DIR'', ''/order'')]"

lemmas env_defs = demo_env_vars_def parse_env_or_def read_env_or_def parse_unsigned_def strip_sign_def digits_value_def is_ascii_digit_def
  or_panic_def

lemma demo_settings:
  "auth_config_from_env demo_env_vars = Ok \<lparr>access_token_secret = ''k1'', refresh_token_secret = ''k2'',
     access_token_expiry_secs = 900, refresh_token_expiry_secs = 86400\<rparr>"
  "relay_config_from_env demo_env_vars x rid = Ok (relay_config_default x rid)"
  "job_runner_config_from_env demo_env_vars x i = Ok ((job_runner_config_default x i)\<lparr>jn_max_concurrent_jobs := 8\<rparr>)"
  by (simp_all add: auth_config_from_env_def auth_config_new_def relay_config_from_env_def relay_config_default_def parse_i64_def
      job_runner_config_from_env_def job_runner_config_default_def env_defs)


text \<open>A variable that is unset or cannot be parsed is as if it had its default; one that is
  written in decimals counts.\<close>

theorem settings_fall_back:
  "relay_config_from_env (\<lambda>_. None) x rid = Ok (relay_config_default x rid)"
  "job_runner_config_from_env (\<lambda>_. None) x i = Ok (job_runner_config_default x i)"
  "consumer_config_from_env (\<lambda>_. None) g ts = consumer_config_new g ts"
  by (simp_all add: relay_config_from_env_def job_runner_config_from_env_def consumer_config_from_env_def consumer_config_new_def
      parse_env_or_def read_env_or_def relay_config_default_def job_runner_config_default_def)

theorem setting_read_back:
  "n < 2 ^ bits \<Longrightarrow> env key = Some (show_nat n) \<Longrightarrow> parse_env_or env (parse_unsigned bits) key d = n"
  by (simp add: parse_env_or_def parse_unsigned_show)

end
