(* ===== verification/Server.thy ===== *)
theory Server
  imports Settings
begin

text \<open>
  How a service starts, \<open>shared/src/server.rs\<close> and the \<open>main.rs\<close> of the services: the declared dependencies and the
  interpreter that opens them, the background tasks that are spawned, and the servers. What the process
  cannot decide itself (whether a connection is established, a client is created, a port is free) is the platform, a
  parameter; a failure is the text of the boxed error.
\<close>

section \<open>Platform and process\<close>

record ('p, 'r) platform =
  pf_connect :: "db_config \<Rightarrow> string + 'p"
  pf_migrate :: "string \<Rightarrow> 'p \<Rightarrow> string option" \<comment> \<open>the error, if any, of the migrations in a directory\<close>
  pf_redis :: "string \<Rightarrow> string + 'r"
  pf_client :: "(string \<times> string) list \<Rightarrow> string option" \<comment> \<open>the error of \<open>ClientConfig::create\<close>\<close>
  pf_bind :: "nat \<Rightarrow> string option"
  pf_serve :: "nat list \<Rightarrow> string option" \<comment> \<open>how the servers on these ports end\<close>
  pf_uuid :: uuid

datatype infra_dep = DepPostgres string string | DepRedis | DepKafka

fun infra_dep_str :: "infra_dep \<Rightarrow> string" where
  "infra_dep_str (DepPostgres url_env dir) = ''Postgres('' @ url_env @ '')''"
| "infra_dep_str DepRedis = ''Redis''"
| "infra_dep_str DepKafka = ''Kafka''"

definition describe_deps :: "infra_dep list \<Rightarrow> string" where
  "describe_deps deps = (if deps = [] then ''none'' else join_with '', '' (map infra_dep_str deps))"

record ('p, 'r) infra =
  in_db :: "'p option"
  in_redis :: "'r option"
  in_kafka :: "string option"

definition require_db :: "('p, 'r) infra \<Rightarrow> ('p, 'e) result" where
  "require_db i = or_panic ''BUG: service requires Postgres but ServiceBuilder was not configured with .with_db()'' (in_db i)"

definition require_redis :: "('p, 'r) infra \<Rightarrow> ('r, 'e) result" where
  "require_redis i = or_panic ''BUG: service requires Redis but ServiceBuilder was not configured with .with_redis()'' (in_redis i)"

definition require_kafka :: "('p, 'r) infra \<Rightarrow> (string, 'e) result" where
  "require_kafka i = or_panic ''BUG: service requires Kafka but ServiceBuilder was not configured with .with_consumers()'' (in_kafka i)"

record 'h consumer_registration =
  cg_group_id :: string
  cg_topics :: "string list"
  cg_handler :: 'h

record ('p, 'r, 'h, 'g) service_builder =
  sb_name :: string
  sb_http_port_env :: string
  sb_deps :: "infra_dep list"
  sb_consumer_factory :: "(('p, 'r) infra \<Rightarrow> ('h consumer_registration list, string) result) option"
  sb_relay_config :: "relay_config option"
  sb_job_runner_factory :: "(('p, 'r) infra \<Rightarrow> ('g, string) result) option"

text \<open>The tasks of the process, in the order in which they are started, and whether their shutdown
  token has been cancelled.\<close>

datatype ('p, 'r, 'h, 'g) service_task =
    ConsumerTask string consumer_config 'h 'p
  | RelayTask string 'p "'r option" relay_config
  | JobRunnerTask 'p 'g job_runner_config
  | Servers "nat list"

record ('p, 'r, 'h, 'g) process =
  pr_tasks :: "('p, 'r, 'h, 'g) service_task list"
  pr_cancelled :: bool

definition spawn_task :: "('p, 'r, 'h, 'g) service_task \<Rightarrow> (('p, 'r, 'h, 'g) process, 'e, unit) eff" where
  "spawn_task t s = (Ok (), s\<lparr>pr_tasks := pr_tasks s @ [t]\<rparr>)"

section \<open>Builder\<close>

definition service_builder_new :: "string \<Rightarrow> ('p, 'r, 'h, 'g) service_builder" where
  "service_builder_new name =
     \<lparr>sb_name = name, sb_http_port_env = ''PORT'', sb_deps = [], sb_consumer_factory = None, sb_relay_config = None,
      sb_job_runner_factory = None\<rparr>"

definition http_port_env :: "string \<Rightarrow> ('p, 'r, 'h, 'g) service_builder \<Rightarrow> ('p, 'r, 'h, 'g) service_builder" where
  "http_port_env key b = b\<lparr>sb_http_port_env := key\<rparr>"

definition with_db_migrations :: "string \<Rightarrow> string \<Rightarrow> ('p, 'r, 'h, 'g) service_builder \<Rightarrow> ('p, 'r, 'h, 'g) service_builder" where
  "with_db_migrations url_env dir b = b\<lparr>sb_deps := sb_deps b @ [DepPostgres url_env dir]\<rparr>"

definition with_db :: "string \<Rightarrow> ('p, 'r, 'h, 'g) service_builder \<Rightarrow> ('p, 'r, 'h, 'g) service_builder" where
  "with_db url_env = with_db_migrations url_env ''./migrations''"

definition with_redis :: "('p, 'r, 'h, 'g) service_builder \<Rightarrow> ('p, 'r, 'h, 'g) service_builder" where
  "with_redis b = b\<lparr>sb_deps := sb_deps b @ [DepRedis]\<rparr>"

definition declare_kafka :: "('p, 'r, 'h, 'g) service_builder \<Rightarrow> ('p, 'r, 'h, 'g) service_builder" where
  "declare_kafka b = (if DepKafka \<in> set (sb_deps b) then b else b\<lparr>sb_deps := sb_deps b @ [DepKafka]\<rparr>)"

definition with_consumers ::
  "(('p, 'r) infra \<Rightarrow> ('h consumer_registration list, string) result) \<Rightarrow>
     ('p, 'r, 'h, 'g) service_builder \<Rightarrow> ('p, 'r, 'h, 'g) service_builder" where
  "with_consumers factory b = (declare_kafka b)\<lparr>sb_consumer_factory := Some factory\<rparr>"

definition with_outbox_relay ::
  "env_vars \<Rightarrow> externs \<Rightarrow> uuid \<Rightarrow> ('p, 'r, 'h, 'g) service_builder \<Rightarrow> (('p, 'r, 'h, 'g) service_builder, 'e) result" where
  "with_outbox_relay env x rid b =
     and_then (relay_config_from_env env x rid) (\<lambda>c. Ok ((declare_kafka b)\<lparr>sb_relay_config := Some c\<rparr>))"

definition with_job_runner ::
  "(('p, 'r) infra \<Rightarrow> ('g, string) result) \<Rightarrow> ('p, 'r, 'h, 'g) service_builder \<Rightarrow> ('p, 'r, 'h, 'g) service_builder" where
  "with_job_runner factory b = b\<lparr>sb_job_runner_factory := Some factory\<rparr>"

section \<open>Opening the dependencies\<close>

text \<open>\<open>Path::join\<close>: an absolute path replaces, another one is appended after a separator.\<close>

definition path_join :: "string \<Rightarrow> string \<Rightarrow> string" where
  "path_join base path =
     (if prefix ''/'' path then path else if base = [] \<or> suffix ''/'' base then base @ path else base @ ''/'' @ path)"

definition migrate_db :: "env_vars \<Rightarrow> ('p, 'r) platform \<Rightarrow> 'p \<Rightarrow> string \<Rightarrow> (unit, string) result" where
  "migrate_db env pf pool dir =
     and_then (ok_or ''environment variable not found'' (env ''CARGO_MANIFEST_DIR'')) (\<lambda>crate.
       case pf_migrate pf (path_join crate dir) pool of Some e \<Rightarrow> Err e | None \<Rightarrow> Ok ())"

definition init_db :: "env_vars \<Rightarrow> ('p, 'r) platform \<Rightarrow> db_config \<Rightarrow> string \<Rightarrow> ('p, string) result" where
  "init_db env pf cfg dir =
     (case pf_connect pf cfg of
        Inl e \<Rightarrow> Err e
      | Inr pool \<Rightarrow> and_then (migrate_db env pf pool dir) (\<lambda>_. Ok pool))"

definition init_optional_redis :: "env_vars \<Rightarrow> ('p, 'r) platform \<Rightarrow> 'r option" where
  "init_optional_redis env pf =
     Option.bind (redis_config_try_new env) (\<lambda>url. case pf_redis pf url of Inr conn \<Rightarrow> Some conn | Inl e \<Rightarrow> None)"

fun init_dep :: "env_vars \<Rightarrow> ('p, 'r) platform \<Rightarrow> infra_dep \<Rightarrow> ('p, 'r) infra \<Rightarrow> (('p, 'r) infra, string) result" where
  "init_dep env pf (DepPostgres url_env dir) i =
     and_then (db_config_new env url_env) (\<lambda>cfg.
     and_then (init_db env pf cfg dir) (\<lambda>pool. Ok (i\<lparr>in_db := Some pool\<rparr>)))"
| "init_dep env pf DepRedis i = Ok (i\<lparr>in_redis := init_optional_redis env pf\<rparr>)"
| "init_dep env pf DepKafka i = Ok (i\<lparr>in_kafka := Some (kafka_config_new env)\<rparr>)"

primrec init_deps ::
  "env_vars \<Rightarrow> ('p, 'r) platform \<Rightarrow> infra_dep list \<Rightarrow> ('p, 'r) infra \<Rightarrow> (('p, 'r) infra, string) result" where
  "init_deps env pf [] i = Ok i"
| "init_deps env pf (d # ds) i = and_then (init_dep env pf d i) (init_deps env pf ds)"

definition do_init_infra :: "env_vars \<Rightarrow> ('p, 'r) platform \<Rightarrow> infra_dep list \<Rightarrow> (('p, 'r) infra, string) result" where
  "do_init_infra env pf deps = init_deps env pf deps \<lparr>in_db = None, in_redis = None, in_kafka = None\<rparr>"

section \<open>Background tasks\<close>

definition consumer_client :: "string \<Rightarrow> consumer_config \<Rightarrow> (string \<times> string) list" where
  "consumer_client brokers cfg =
     [(''bootstrap.servers'', brokers), (''group.id'', cc_group_id cfg), (''enable.auto.commit'', ''false''),
      (''auto.offset.reset'', ''earliest''), (''session.timeout.ms'', show_nat (cc_session_timeout cfg))]"

definition kafka_event_consumer_new ::
  "('p, 'r) platform \<Rightarrow> string \<Rightarrow> consumer_config \<Rightarrow> (unit, app_error) result" where
  "kafka_event_consumer_new pf brokers cfg =
     (case pf_client pf (consumer_client brokers cfg) of
        Some e \<Rightarrow> Err (InternalServerError (''Kafka consumer init: '' @ e))
      | None \<Rightarrow>
          (case pf_client pf [(''bootstrap.servers'', brokers), (''message.timeout.ms'', ''10000'')] of
             Some e \<Rightarrow> Err (InternalServerError (''Kafka DLQ producer init: '' @ e))
           | None \<Rightarrow> Ok ()))"

definition kafka_event_publisher_new :: "('p, 'r) platform \<Rightarrow> string \<Rightarrow> (unit, app_error) result" where
  "kafka_event_publisher_new pf brokers =
     (case pf_client pf [(''bootstrap.servers'', brokers), (''message.timeout.ms'', ''30000'')] of
        Some e \<Rightarrow> Err (InternalServerError (''Kafka producer init: '' @ e))
      | None \<Rightarrow> Ok ())"

text \<open>A consumer whose clients cannot be created is logged and left out.\<close>

definition spawn_consumer ::
  "('p, 'r) platform \<Rightarrow> string \<Rightarrow> 'p \<Rightarrow> 'h consumer_registration \<Rightarrow> (('p, 'r, 'h, 'g) process, string, unit) eff" where
  "spawn_consumer pf brokers pool reg =
     (let cfg = consumer_config_new (cg_group_id reg) (cg_topics reg) in
      case kafka_event_consumer_new pf brokers cfg of
        Ok _ \<Rightarrow> spawn_task (ConsumerTask brokers cfg (cg_handler reg) pool)
      | Err e \<Rightarrow> ret ()
      | Panic m \<Rightarrow> panic m)"

definition spawn_consumers ::
  "('p, 'r) platform \<Rightarrow> (('p, 'r) infra \<Rightarrow> ('h consumer_registration list, string) result) option \<Rightarrow> ('p, 'r) infra \<Rightarrow>
     (('p, 'r, 'h, 'g) process, string, unit) eff" where
  "spawn_consumers pf factory i =
     (case factory of
        None \<Rightarrow> ret ()
      | Some f \<Rightarrow>
          bnd (of_result (f i)) (\<lambda>regs.
          bnd (of_result (require_kafka i)) (\<lambda>brokers.
          bnd (of_result (require_db i)) (\<lambda>pool.
            for_each (spawn_consumer pf brokers pool) regs))))"

definition spawn_relay ::
  "('p, 'r) platform \<Rightarrow> relay_config option \<Rightarrow> ('p, 'r) infra \<Rightarrow> (('p, 'r, 'h, 'g) process, string, unit) eff" where
  "spawn_relay pf config i =
     (case config of
        None \<Rightarrow> ret ()
      | Some c \<Rightarrow>
          bnd (of_result (require_kafka i)) (\<lambda>brokers.
          bnd (of_result (require_db i)) (\<lambda>pool.
          bnd (of_result (map_err_result app_error_str (kafka_event_publisher_new pf brokers))) (\<lambda>_.
            spawn_task (RelayTask brokers pool (in_redis i) c)))))"

definition spawn_job_runner ::
  "env_vars \<Rightarrow> externs \<Rightarrow> ('p, 'r) platform \<Rightarrow> (('p, 'r) infra \<Rightarrow> ('g, string) result) option \<Rightarrow> ('p, 'r) infra \<Rightarrow>
     (('p, 'r, 'h, 'g) process, string, unit) eff" where
  "spawn_job_runner env x pf factory i =
     (case factory of
        None \<Rightarrow> ret ()
      | Some f \<Rightarrow>
          bnd (of_result (f i)) (\<lambda>registry.
          bnd (of_result (require_db i)) (\<lambda>pool.
          bnd (of_result (job_runner_config_from_env env x (pf_uuid pf))) (\<lambda>c.
            spawn_task (JobRunnerTask pool registry c)))))"

section \<open>Running\<close>

definition parse_port :: "env_vars \<Rightarrow> string \<Rightarrow> string \<Rightarrow> string \<Rightarrow> (nat, 'e) result" where
  "parse_port env key d what =
     and_then (or_panic (what @ '' must be a valid u16'') (parse_unsigned 16 (read_env_or env key d))) (\<lambda>port.
       if \<not> port > 0 then Panic (what @ '' must be positive'') else Ok port)"

definition parse_http_port :: "env_vars \<Rightarrow> ('p, 'r, 'h, 'g) service_builder \<Rightarrow> (nat, 'e) result" where
  "parse_http_port env b = parse_port env (sb_http_port_env b) ''3000'' ''HTTP port''"

text \<open>Infrastructure, application, background tasks, then the listening socket; the tasks are told to stop
  when the servers have ended without an error.\<close>

definition cancel_tasks :: "(('p, 'r, 'h, 'g) process, 'e, unit) eff" where
  "cancel_tasks s = (Ok (), s\<lparr>pr_cancelled := True\<rparr>)"

definition start_service ::
  "env_vars \<Rightarrow> externs \<Rightarrow> ('p, 'r) platform \<Rightarrow> ('p, 'r, 'h, 'g) service_builder \<Rightarrow>
     (('p, 'r) infra \<Rightarrow> (unit, string) result) \<Rightarrow> (('p, 'r) infra \<Rightarrow> (unit, string) result) \<Rightarrow> nat \<Rightarrow> nat list \<Rightarrow>
     (('p, 'r, 'h, 'g) process, string, unit) eff" where
  "start_service env x pf b build_app build_grpc port ports =
     bnd (of_result (do_init_infra env pf (sb_deps b))) (\<lambda>i.
     bnd (of_result (build_app i)) (\<lambda>_.
     bnd (spawn_consumers pf (sb_consumer_factory b) i) (\<lambda>_.
     bnd (spawn_relay pf (sb_relay_config b) i) (\<lambda>_.
     bnd (spawn_job_runner env x pf (sb_job_runner_factory b) i) (\<lambda>_.
     bnd (of_result (case pf_bind pf port of Some e \<Rightarrow> Err e | None \<Rightarrow> Ok ())) (\<lambda>_.
     bnd (of_result (build_grpc i)) (\<lambda>_.
     bnd (spawn_task (Servers ports)) (\<lambda>_.
     bnd (of_result (case pf_serve pf ports of Some e \<Rightarrow> Err e | None \<Rightarrow> Ok ())) (\<lambda>_. cancel_tasks)))))))))"

definition run_service ::
  "env_vars \<Rightarrow> externs \<Rightarrow> ('p, 'r) platform \<Rightarrow> (('p, 'r) infra \<Rightarrow> (unit, string) result) \<Rightarrow>
     ('p, 'r, 'h, 'g) service_builder \<Rightarrow> (('p, 'r, 'h, 'g) process, string, unit) eff" where
  "run_service env x pf build_app b =
     bnd (of_result (parse_http_port env b)) (\<lambda>port. start_service env x pf b build_app (\<lambda>_. Ok ()) port [port])"

record grpc_config =
  gc_port_env_key :: string
  gc_default_port :: nat

text \<open>The gRPC server is built from the infrastructure when the servers start.\<close>

definition run_with_grpc ::
  "env_vars \<Rightarrow> externs \<Rightarrow> ('p, 'r) platform \<Rightarrow> grpc_config \<Rightarrow> (('p, 'r) infra \<Rightarrow> (unit, string) result) \<Rightarrow>
     (('p, 'r) infra \<Rightarrow> (unit, string) result) \<Rightarrow> ('p, 'r, 'h, 'g) service_builder \<Rightarrow>
     (('p, 'r, 'h, 'g) process, string, unit) eff" where
  "run_with_grpc env x pf gc build_app build_grpc b =
     bnd (of_result (parse_http_port env b)) (\<lambda>port.
     bnd (of_result (parse_port env (gc_port_env_key gc) (show_nat (gc_default_port gc)) ''gRPC port'')) (\<lambda>grpc_port.
       start_service env x pf b build_app build_grpc port [port, grpc_port]))"

section \<open>The services\<close>

text \<open>The handler a service registers, with what it holds.\<close>

datatype ('p, 'r) service_handler =
    OrderEventHandler
  | PaymentEventHandler 'p "'r option" \<comment> \<open>with the mock gateway, and a lock if Redis is there\<close>
  | CatalogEventHandler 'p

definition app_state_new :: "env_vars \<Rightarrow> ('p, 'r) infra \<Rightarrow> (unit, string) result" where
  "app_state_new env i = and_then (require_db i) (\<lambda>pool. and_then (auth_config_from_env env) (\<lambda>cfg. Ok ()))"

definition cart_state_new :: "env_vars \<Rightarrow> ('p, 'r) infra \<Rightarrow> (unit, string) result" where
  "cart_state_new env i = and_then (require_redis i) (\<lambda>conn. and_then (auth_config_from_env env) (\<lambda>cfg. Ok ()))"

text \<open>The gRPC server of identity takes the pool.\<close>

definition identity_grpc :: "('p, 'r) infra \<Rightarrow> (unit, string) result" where
  "identity_grpc i = and_then (require_db i) (\<lambda>pool. Ok ())"

type_synonym ('p, 'r) builder = "('p, 'r, ('p, 'r) service_handler, unit) service_builder"
type_synonym ('p, 'r) service_process = "('p, 'r, ('p, 'r) service_handler, unit) process"

definition order_builder :: "('p, 'r) builder" where
  "order_builder =
     with_consumers (\<lambda>_. Ok [\<lparr>cg_group_id = ''order-service'', cg_topics = [''catalog.events'', ''payments.events''],
         cg_handler = OrderEventHandler\<rparr>])
       (with_db ''ORDER_DB_URL'' (http_port_env ''ORDER_PORT'' (service_builder_new ''order'')))"

definition order_main :: "env_vars \<Rightarrow> externs \<Rightarrow> ('p, 'r) platform \<Rightarrow> uuid \<Rightarrow> (('p, 'r) service_process, string, unit) eff" where
  "order_main env x pf rid =
     bnd (of_result (with_outbox_relay env x rid order_builder)) (run_service env x pf (app_state_new env))"

definition payment_builder :: "('p, 'r) builder" where
  "payment_builder =
     with_consumers (\<lambda>i. and_then (require_db i) (\<lambda>pool. Ok [\<lparr>cg_group_id = ''payment-service'',
         cg_topics = [''catalog.events'', ''orders.events'', ''payments.events''], cg_handler = PaymentEventHandler pool (in_redis i)\<rparr>]))
       (with_redis (with_db ''PAYMENT_DB_URL'' (http_port_env ''PAYMENT_PORT'' (service_builder_new ''payment''))))"

definition payment_main :: "env_vars \<Rightarrow> externs \<Rightarrow> ('p, 'r) platform \<Rightarrow> uuid \<Rightarrow> (('p, 'r) service_process, string, unit) eff" where
  "payment_main env x pf rid =
     bnd (of_result (with_outbox_relay env x rid payment_builder)) (run_service env x pf (app_state_new env))"

definition catalog_builder :: "('p, 'r) builder" where
  "catalog_builder =
     with_consumers (\<lambda>i. and_then (require_db i) (\<lambda>pool. Ok [\<lparr>cg_group_id = ''catalog-service'',
         cg_topics = [''orders.events''], cg_handler = CatalogEventHandler pool\<rparr>]))
       (with_redis (with_db ''CATALOG_DB_URL'' (http_port_env ''CATALOG_PORT'' (service_builder_new ''catalog''))))"

definition catalog_main :: "env_vars \<Rightarrow> externs \<Rightarrow> ('p, 'r) platform \<Rightarrow> uuid \<Rightarrow> (('p, 'r) service_process, string, unit) eff" where
  "catalog_main env x pf rid =
     bnd (of_result (with_outbox_relay env x rid catalog_builder)) (run_service env x pf (app_state_new env))"

definition identity_builder :: "('p, 'r) builder" where
  "identity_builder =
     with_redis (with_db ''IDENTITY_DB_URL'' (http_port_env ''IDENTITY_PORT'' (service_builder_new ''identity'')))"

definition identity_main :: "env_vars \<Rightarrow> externs \<Rightarrow> ('p, 'r) platform \<Rightarrow> (('p, 'r) service_process, string, unit) eff" where
  "identity_main env x pf =
     run_with_grpc env x pf \<lparr>gc_port_env_key = ''IDENTITY_GRPC_PORT'', gc_default_port = 50051\<rparr> (app_state_new env)
       identity_grpc identity_builder"

definition cart_builder :: "('p, 'r) builder" where
  "cart_builder = with_redis (http_port_env ''CART_PORT'' (service_builder_new ''cart''))"

definition cart_main :: "env_vars \<Rightarrow> externs \<Rightarrow> ('p, 'r) platform \<Rightarrow> (('p, 'r) service_process, string, unit) eff" where
  "cart_main env x pf = run_service env x pf (cart_state_new env) cart_builder"

lemmas builder_defs = service_builder_new_def http_port_env_def with_db_migrations_def with_db_def with_redis_def declare_kafka_def
  with_consumers_def with_job_runner_def order_builder_def payment_builder_def catalog_builder_def identity_builder_def cart_builder_def

section \<open>Panics\<close>

text \<open>A service that reaches for something it has not declared panics with a message that calls it a bug.\<close>

named_theorems clean_rules \<open>what does not panic as a bug\<close>

fun clean :: "('a, 'e) result \<Rightarrow> bool" where
  "clean (Panic m) = (\<not> prefix ''BUG'' m)"
| "clean r = True"

definition cleanly :: "('s, 'e, 'a) eff \<Rightarrow> bool" where
  "cleanly m \<longleftrightarrow> (\<forall>s. clean (fst (m s)))"

lemma cleanlyD: "cleanly m \<Longrightarrow> clean (fst (m s))"
  by (simp add: cleanly_def)

lemma clean_and_then: "clean r \<Longrightarrow> (\<And>a. r = Ok a \<Longrightarrow> clean (f a)) \<Longrightarrow> clean (and_then r f)"
  by (cases r) simp_all

lemma clean_or_panic: "v \<noteq> None \<or> \<not> prefix ''BUG'' m \<Longrightarrow> clean (or_panic m v)"
  by (auto simp: or_panic_def split: option.split)

lemma clean_ok_or [simp]: "clean (ok_or e v)"
  by (cases v) (simp_all add: ok_or_def)

lemma clean_map_err [simp]: "clean (map_err_result f r) = clean r"
  by (cases r) simp_all

lemma cleanly_of_result: "clean r \<Longrightarrow> (\<And>a. r = Ok a \<Longrightarrow> cleanly (f a)) \<Longrightarrow> cleanly (bnd (of_result r) f)"
  by (cases r) (simp_all add: cleanly_def bnd_def of_result_def)

lemma cleanly_of_result_iff [simp]: "cleanly (of_result r) = clean r"
  by (simp add: cleanly_def of_result_def)

lemma cleanly_bnd [clean_rules]: "cleanly m \<Longrightarrow> (\<And>a. cleanly (f a)) \<Longrightarrow> cleanly (bnd m f)"
  unfolding cleanly_def
proof
  fix s assume m: "\<forall>s. clean (fst (m s))" and f: "\<And>a. \<forall>s. clean (fst (f a s))"
  obtain r t where r: "m s = (r, t)" by fastforce
  then show "clean (fst (bnd m f s))" using m[rule_format, of s] f by (cases r) (simp_all add: bnd_def)
qed

lemma cleanly_basic [clean_rules]: "cleanly (ret a)" "cleanly (spawn_task t)" "cleanly cancel_tasks"
  by (simp_all add: cleanly_def ret_def spawn_task_def cancel_tasks_def)

lemma cleanly_for_each [clean_rules]: "(\<And>y. cleanly (f y)) \<Longrightarrow> cleanly (for_each f ys)"
  by (induction ys) (auto intro: clean_rules)

lemma cleanly_if [clean_rules]: "(c \<Longrightarrow> cleanly m) \<Longrightarrow> (\<not> c \<Longrightarrow> cleanly n) \<Longrightarrow> cleanly (if c then m else n)"
  by simp

lemma clean_port: "what \<in> {''HTTP port'', ''gRPC port''} \<Longrightarrow> clean (parse_port env key d what)"
  unfolding parse_port_def by (intro clean_and_then clean_or_panic) (auto split: if_splits)

lemma clean_auth_config: "clean (auth_config_from_env env)"
  unfolding auth_config_from_env_def by (intro clean_and_then clean_or_panic) (simp_all add: auth_config_new_def)

lemma clean_relay_config: "clean (relay_config_from_env env x rid)"
  by (simp add: relay_config_from_env_def Let_def)

lemma clean_job_config: "clean (job_runner_config_from_env env x i)"
  by (simp add: job_runner_config_from_env_def Let_def)

lemma clean_clients [simp]: "clean (kafka_event_consumer_new pf brokers cfg)" "clean (kafka_event_publisher_new pf brokers)"
  by (simp_all add: kafka_event_consumer_new_def kafka_event_publisher_new_def split: option.split)

lemma clean_init_db: "clean (init_db env pf cfg dir)"
  unfolding init_db_def migrate_db_def
  by (cases "pf_connect pf cfg") (auto intro!: clean_and_then split: option.split)

section \<open>Declared dependencies\<close>

text \<open>What the interpreter has opened when it succeeds: everything that was declared, except that Redis is optional.\<close>

definition opened :: "infra_dep list \<Rightarrow> ('p, 'r) infra \<Rightarrow> bool" where
  "opened deps i \<longleftrightarrow>
     ((\<exists>key dir. DepPostgres key dir \<in> set deps) \<longrightarrow> in_db i \<noteq> None) \<and> (DepKafka \<in> set deps \<longrightarrow> in_kafka i \<noteq> None)"

lemma init_dep_opened:
  assumes "init_dep env pf d i = Ok j"
  shows "opened [d] j" "in_db i \<noteq> None \<Longrightarrow> in_db j \<noteq> None" "in_kafka i \<noteq> None \<Longrightarrow> in_kafka j \<noteq> None"
  using assms by (cases d; auto simp: opened_def and_then_Ok_iff)+

lemma init_deps_opened:
  "init_deps env pf ds i = Ok j \<Longrightarrow>
     opened ds j \<and> (in_db i \<noteq> None \<longrightarrow> in_db j \<noteq> None) \<and> (in_kafka i \<noteq> None \<longrightarrow> in_kafka j \<noteq> None)"
proof (induction ds arbitrary: i)
  case (Cons d ds)
  then obtain k where k: "init_dep env pf d i = Ok k" "init_deps env pf ds k = Ok j" by (auto simp: and_then_Ok_iff)
  from Cons.IH[OF k(2)] init_dep_opened[OF k(1)] show ?case by (auto simp: opened_def)
qed (simp add: opened_def)

lemma do_init_infra_opened: "do_init_infra env pf deps = Ok i \<Longrightarrow> opened deps i"
  using init_deps_opened[of env pf deps _ i] by (auto simp: do_init_infra_def)

lemma clean_init_deps:
  "(\<And>key dir. DepPostgres key dir \<in> set ds \<Longrightarrow> clean (db_config_new env key :: (db_config, string) result)) \<Longrightarrow>
     clean (init_deps env pf ds i)"
proof (induction ds arbitrary: i)
  case (Cons d ds)
  have "clean (init_dep env pf d i)"
    using Cons.prems by (cases d) (auto intro!: clean_and_then clean_init_db)
  then show ?case using Cons by (auto intro!: clean_and_then)
qed simp

text \<open>The contract of a service: it declares what its tasks need, its closures need no more than it declares,
  and its servers start from the application.\<close>

locale service =
  fixes env :: env_vars and b :: "('p, 'r, 'h, 'g) service_builder"
    and build_app build_grpc :: "('p, 'r) infra \<Rightarrow> (unit, string) result"
  assumes url_keys: "DepPostgres key dir \<in> set (sb_deps b) \<Longrightarrow> clean (db_config_new env key :: (db_config, string) result)"
    and tasks_declared: "sb_consumer_factory b \<noteq> None \<or> sb_relay_config b \<noteq> None \<Longrightarrow>
      DepKafka \<in> set (sb_deps b) \<and> (\<exists>key dir. DepPostgres key dir \<in> set (sb_deps b))"
    and jobs_declared: "sb_job_runner_factory b \<noteq> None \<Longrightarrow> \<exists>key dir. DepPostgres key dir \<in> set (sb_deps b)"
    and app_built: "opened (sb_deps b) i \<Longrightarrow> clean (build_app i)"
    and grpc_built: "opened (sb_deps b) i \<Longrightarrow> clean (build_grpc i)"
    and consumers_built: "sb_consumer_factory b = Some f \<Longrightarrow> opened (sb_deps b) i \<Longrightarrow> clean (f i)"
    and jobs_built: "sb_job_runner_factory b = Some g \<Longrightarrow> opened (sb_deps b) i \<Longrightarrow> clean (g i)"
begin

lemma cleanly_spawn_consumers: "opened (sb_deps b) i \<Longrightarrow> cleanly (spawn_consumers pf (sb_consumer_factory b) i)"
proof (cases "sb_consumer_factory b")
  case (Some f)
  assume o: "opened (sb_deps b) i"
  then have "in_kafka i \<noteq> None" "in_db i \<noteq> None" using tasks_declared Some by (auto simp: opened_def)
  moreover have "cleanly (spawn_consumer pf brokers pool reg)" for brokers pool reg
    using clean_clients(1)[of pf brokers "consumer_config_new (cg_group_id reg) (cg_topics reg)"]
    by (cases "kafka_event_consumer_new pf brokers (consumer_config_new (cg_group_id reg) (cg_topics reg))")
       (simp_all add: spawn_consumer_def spawn_task_def ret_def cleanly_def panic_def)
  ultimately show ?thesis using Some consumers_built[OF Some o]
    by (auto simp: spawn_consumers_def require_kafka_def require_db_def intro!: cleanly_of_result clean_or_panic clean_rules)
qed (simp add: spawn_consumers_def clean_rules)

lemma cleanly_spawn_relay: "opened (sb_deps b) i \<Longrightarrow> cleanly (spawn_relay pf (sb_relay_config b) i)"
proof (cases "sb_relay_config b")
  case (Some c)
  assume "opened (sb_deps b) i"
  then have "in_kafka i \<noteq> None" "in_db i \<noteq> None" using tasks_declared Some by (auto simp: opened_def)
  then show ?thesis using Some
    by (auto simp: spawn_relay_def require_kafka_def require_db_def intro!: cleanly_of_result clean_or_panic clean_rules)
qed (simp add: spawn_relay_def clean_rules)

lemma cleanly_spawn_job_runner: "opened (sb_deps b) i \<Longrightarrow> cleanly (spawn_job_runner env x pf (sb_job_runner_factory b) i)"
proof (cases "sb_job_runner_factory b")
  case (Some g)
  assume o: "opened (sb_deps b) i"
  then have "in_db i \<noteq> None" using jobs_declared Some by (auto simp: opened_def)
  then show ?thesis using Some jobs_built[OF Some o]
    by (auto simp: spawn_job_runner_def require_db_def intro!: cleanly_of_result clean_or_panic clean_job_config clean_rules)
qed (simp add: spawn_job_runner_def clean_rules)

lemma cleanly_start: "cleanly (start_service env x pf b build_app build_grpc port ports)"
  unfolding start_service_def
proof (rule cleanly_of_result)
  show "clean (do_init_infra env pf (sb_deps b))" unfolding do_init_infra_def by (rule clean_init_deps) (rule url_keys)
  fix i assume "do_init_infra env pf (sb_deps b) = Ok i"
  then have o: "opened (sb_deps b) i" by (rule do_init_infra_opened)
  show "cleanly (bnd (of_result (build_app i)) (\<lambda>_. bnd (spawn_consumers pf (sb_consumer_factory b) i) (\<lambda>_.
      bnd (spawn_relay pf (sb_relay_config b) i) (\<lambda>_. bnd (spawn_job_runner env x pf (sb_job_runner_factory b) i) (\<lambda>_.
      bnd (of_result (case pf_bind pf port of Some e \<Rightarrow> Err e | None \<Rightarrow> Ok ())) (\<lambda>_. bnd (of_result (build_grpc i)) (\<lambda>_.
      bnd (spawn_task (Servers ports)) (\<lambda>_. bnd (of_result (case pf_serve pf ports of Some e \<Rightarrow> Err e | None \<Rightarrow> Ok ()))
        (\<lambda>_. cancel_tasks)))))))))"
    by (intro cleanly_of_result clean_rules app_built[OF o] grpc_built[OF o] cleanly_spawn_consumers[OF o] cleanly_spawn_relay[OF o]
        cleanly_spawn_job_runner[OF o]) (simp_all split: option.split)
qed

lemma cleanly_run: "build_grpc = (\<lambda>_. Ok ()) \<Longrightarrow> cleanly (run_service env x pf build_app b)"
  unfolding run_service_def parse_http_port_def
  using cleanly_start by (auto intro!: cleanly_of_result clean_port)

lemma cleanly_run_with_grpc: "cleanly (run_with_grpc env x pf gc build_app build_grpc b)"
  unfolding run_with_grpc_def parse_http_port_def
  using cleanly_start by (auto intro!: cleanly_of_result clean_port)

end

text \<open>The services meet the contract.\<close>

lemma clean_state: "in_db i \<noteq> None \<Longrightarrow> clean (app_state_new env i)"
  unfolding app_state_new_def require_db_def by (intro clean_and_then clean_or_panic clean_auth_config) simp_all

lemma clean_url:
  "key \<in> {''ORDER_DB_URL'', ''PAYMENT_DB_URL'', ''CATALOG_DB_URL'', ''IDENTITY_DB_URL''} \<Longrightarrow> clean (db_config_new env key)"
  unfolding db_config_new_def by (intro clean_and_then clean_or_panic) auto

definition relayed :: "relay_config \<Rightarrow> ('p, 'r) builder \<Rightarrow> ('p, 'r) builder" where
  "relayed c b = (declare_kafka b)\<lparr>sb_relay_config := Some c\<rparr>"

interpretation order_svc: service env "relayed c order_builder" "app_state_new env" "\<lambda>_. Ok ()" for env c
  by unfold_locales (auto simp: relayed_def builder_defs opened_def clean_url intro!: clean_state)

interpretation payment_svc: service env "relayed c payment_builder" "app_state_new env" "\<lambda>_. Ok ()" for env c
  by unfold_locales (auto simp: relayed_def builder_defs opened_def clean_url require_db_def intro!: clean_state clean_and_then clean_or_panic)

interpretation catalog_svc: service env "relayed c catalog_builder" "app_state_new env" "\<lambda>_. Ok ()" for env c
  by unfold_locales (auto simp: relayed_def builder_defs opened_def clean_url require_db_def intro!: clean_state clean_and_then clean_or_panic)

interpretation identity_svc: service env identity_builder "app_state_new env" identity_grpc for env
  by unfold_locales
    (auto simp: builder_defs opened_def clean_url identity_grpc_def require_db_def intro!: clean_state clean_and_then clean_or_panic)

lemma cleanly_relayed:
  assumes "\<And>c. cleanly (run_service env x pf app (relayed c b))"
  shows "cleanly (bnd (of_result (with_outbox_relay env x rid b)) (run_service env x pf app))"
  unfolding with_outbox_relay_def using assms
  by (auto simp: and_then_Ok_iff relayed_def intro!: cleanly_of_result clean_and_then clean_relay_config)

section \<open>Properties\<close>

text \<open>C36: The order, payment, catalog and identity services declare what they use: whatever the environment and the
  platform answer, they start, fail with an error, or stop on a setting; none of them ever reaches
  for a resource that was not opened.\<close>

theorem declared_dependencies_suffice:
  "clean (fst (order_main env x pf rid s)) \<and> clean (fst (payment_main env x pf rid s)) \<and>
   clean (fst (catalog_main env x pf rid s)) \<and> clean (fst (identity_main env x pf s))"
  unfolding order_main_def payment_main_def catalog_main_def identity_main_def
  by (intro conjI cleanlyD cleanly_relayed order_svc.cleanly_run[OF refl] payment_svc.cleanly_run[OF refl] catalog_svc.cleanly_run[OF refl]
      identity_svc.cleanly_run_with_grpc)

text \<open>The cart service treats Redis as required while the interpreter treats it as optional: without a
  reachable Redis it panics with a message that blames the declaration it has made.\<close>

theorem cart_blames_its_declaration:
  assumes "parse_port env ''CART_PORT'' ''3000'' ''HTTP port'' = (Ok port :: (nat, string) result)"
    and "init_optional_redis env pf = None"
  shows "fst (cart_main env x pf s) =
    Panic ''BUG: service requires Redis but ServiceBuilder was not configured with .with_redis()''"
  using assms
  by (simp add: cart_main_def run_service_def parse_http_port_def bnd_def of_result_def start_service_def do_init_infra_def builder_defs
      cart_state_new_def require_redis_def or_panic_def)

end
