(* ===== verification/Kafka_Admin.thy ===== *)
theory Kafka_Admin
  imports Server
begin

text \<open>
  Administration of Kafka: topics that are created when they are missing (\<open>shared/src/events/admin.rs\<close>), the start of a
  consumer with its dead-letter topics (\<open>run\<close> and \<open>ensure_dlq_topics\<close> of \<open>shared/src/events/consumer.rs\<close>) and the health of the
  brokers (\<open>shared/src/events/health.rs\<close>). The clients of \<open>rdkafka\<close> are parameters.
\<close>

section \<open>Topics\<close>

record topic_spec =
  ts_name :: string
  ts_partitions :: int
  ts_replication_factor :: int
  ts_config :: "string \<rightharpoonup> string"

definition topic_spec_new :: "string \<Rightarrow> int \<Rightarrow> int \<Rightarrow> topic_spec" where
  "topic_spec_new name parts repl =
     \<lparr>ts_name = name, ts_partitions = parts, ts_replication_factor = repl, ts_config = Map.empty\<rparr>"

definition with_config :: "string \<Rightarrow> string \<Rightarrow> topic_spec \<Rightarrow> topic_spec" where
  "with_config k v t = t\<lparr>ts_config := (ts_config t)(k \<mapsto> v)\<rparr>"

text \<open>What a cluster answers to \<open>create_topics\<close>: an error of the request, or an outcome per topic.\<close>

datatype topic_outcome = TopicCreated string | TopicExists string | TopicRefused string string

type_synonym 'k create_topics = "topic_spec list \<Rightarrow> 'k \<Rightarrow> (string + topic_outcome list) \<times> 'k"

definition kafka_admin_new :: "('p, 'r) platform \<Rightarrow> string \<Rightarrow> (unit, app_error) result" where
  "kafka_admin_new pf brokers =
     (case pf_client pf [(''bootstrap.servers'', brokers)] of
        Some e \<Rightarrow> Err (InternalServerError (''Kafka admin init: '' @ e))
      | None \<Rightarrow> Ok ())"

fun topic_results :: "topic_outcome list \<Rightarrow> (unit, app_error) result" where
  "topic_results [] = Ok ()"
| "topic_results (TopicRefused t code # rs) =
     Err (InternalServerError (''Failed to create topic '' @ [CHR 0x27] @ t @ [CHR 0x27] @ '': '' @ code))"
| "topic_results (_ # rs) = topic_results rs"

definition ensure_topics :: "'k create_topics \<Rightarrow> topic_spec list \<Rightarrow> ('k, app_error, unit) eff" where
  "ensure_topics create specs s =
     (if specs = [] then (Ok (), s)
      else case create specs s of
             (Inl e, t) \<Rightarrow> (Err (InternalServerError (''Kafka create_topics: '' @ e)), t)
           | (Inr results, t) \<Rightarrow> (topic_results results, t))"

section \<open>The start of a consumer\<close>

definition ensure_dlq_topics ::
  "('p, 'r) platform \<Rightarrow> 'k create_topics \<Rightarrow> string \<Rightarrow> consumer_config \<Rightarrow> ('k, app_error, unit) eff" where
  "ensure_dlq_topics pf create brokers cfg =
     bnd (of_result (kafka_admin_new pf brokers)) (\<lambda>_.
       ensure_topics create (map (\<lambda>t. topic_spec_new (dlq_topic_for cfg t) 1 1) (cc_topics cfg)))"

text \<open>Missing dead-letter topics do not stop a consumer, a failed subscription does. The result tells whether
  the message and cleanup loops are started.\<close>

definition consumer_start ::
  "('p, 'r) platform \<Rightarrow> 'k create_topics \<Rightarrow> (string list \<Rightarrow> string option) \<Rightarrow> string \<Rightarrow> consumer_config \<Rightarrow>
     ('k, app_error, bool) eff" where
  "consumer_start pf create subscribe brokers cfg =
     bnd (if cc_auto_create_dlq_topics cfg
          then bnd (attempt (ensure_dlq_topics pf create brokers cfg)) (\<lambda>_. ret ()) else ret ()) (\<lambda>_.
       ret (subscribe (cc_topics cfg) = None))"

section \<open>Health\<close>

datatype kafka_health_status = KafkaUp | KafkaDown

record kafka_health =
  kh_status :: kafka_health_status
  kh_broker_count :: nat
  kh_error :: "string option"

definition is_healthy :: "kafka_health \<Rightarrow> bool" where
  "is_healthy h \<longleftrightarrow> kh_status h = KafkaUp"

text \<open>The answer of \<open>fetch_metadata\<close>: the number of brokers or an error, unless the blocking task itself fails.\<close>

definition health_check :: "string + (string + nat) \<Rightarrow> kafka_health" where
  "health_check answer =
     (case answer of
        Inr (Inr n) \<Rightarrow> \<lparr>kh_status = KafkaUp, kh_broker_count = n, kh_error = None\<rparr>
      | Inr (Inl e) \<Rightarrow> \<lparr>kh_status = KafkaDown, kh_broker_count = 0, kh_error = Some e\<rparr>
      | Inl e \<Rightarrow> \<lparr>kh_status = KafkaDown, kh_broker_count = 0, kh_error = Some (''Health check task failed: '' @ e)\<rparr>)"

section \<open>What the code relies on\<close>

text \<open>A cluster answers for each topic of a request in its order, has the topics it reports as created or existing, and
  keeps the topics it has.\<close>

fun outcome_topic :: "topic_outcome \<Rightarrow> string" where
  "outcome_topic (TopicCreated t) = t"
| "outcome_topic (TopicExists t) = t"
| "outcome_topic (TopicRefused t code) = t"

fun refused :: "topic_outcome \<Rightarrow> bool" where
  "refused (TopicRefused t code) = True"
| "refused _ = False"

definition cluster_laws :: "('k \<Rightarrow> string set) \<Rightarrow> 'k create_topics \<Rightarrow> bool" where
  "cluster_laws topics create \<longleftrightarrow>
     (\<forall>specs s r t. create specs s = (r, t) \<longrightarrow> topics s \<subseteq> topics t \<and>
        (\<forall>rs. r = Inr rs \<longrightarrow> map outcome_topic rs = map ts_name specs \<and>
           (\<forall>out \<in> set rs. \<not> refused out \<longrightarrow> outcome_topic out \<in> topics t)))"

section \<open>Topics exist\<close>

lemma topic_results_Ok_iff: "topic_results rs = Ok () \<longleftrightarrow> list_all (\<lambda>out. \<not> refused out) rs"
  by (induction rs rule: topic_results.induct) simp_all

lemma ensure_topics_keeps: "cluster_laws topics create \<Longrightarrow> topics s \<subseteq> topics (snd (ensure_topics create specs s))"
  by (cases "create specs s") (fastforce simp: cluster_laws_def ensure_topics_def split: sum.splits)

lemma ensure_topics_exist:
  assumes "cluster_laws topics create" "ensure_topics create specs s = (Ok (), t)"
  shows "ts_name ` set specs \<subseteq> topics t"
proof (cases "specs = []")
  case False
  with assms(2) obtain rs where rs: "create specs s = (Inr rs, t)" "topic_results rs = Ok ()"
    by (auto simp: ensure_topics_def split: sum.splits prod.splits)
  from assms(1) rs(1) have names: "map outcome_topic rs = map ts_name specs"
    and here: "\<And>out. out \<in> set rs \<Longrightarrow> \<not> refused out \<Longrightarrow> outcome_topic out \<in> topics t"
    unfolding cluster_laws_def by blast+
  have "ts_name ` set specs = outcome_topic ` set rs" using arg_cong[OF names, of set] by simp
  then show ?thesis using here rs(2) by (auto simp: topic_results_Ok_iff list_all_iff)
qed simp

text \<open>A consumer that could create its dead-letter topics finds every topic it may send a dead letter to, whether or
  not they existed, and never loses one.\<close>

theorem dead_letter_topics_exist:
  assumes "cluster_laws topics create" "ensure_dlq_topics pf create brokers cfg s = (Ok (), t)" "topic \<in> set (cc_topics cfg)"
  shows "dlq_topic_for cfg topic \<in> topics t"
proof -
  from assms(2) have "ensure_topics create (map (\<lambda>t. topic_spec_new (dlq_topic_for cfg t) 1 1) (cc_topics cfg)) s = (Ok (), t)"
    by (auto simp: ensure_dlq_topics_def ok_iffs)
  from ensure_topics_exist[OF assms(1) this] assms(3) show ?thesis by (simp add: topic_spec_new_def image_image image_subset_iff)
qed

lemma topic_results_no_panic: "topic_results rs \<noteq> Panic m"
  by (induction rs rule: topic_results.induct) simp_all

lemma ensure_dlq_topics_no_panic: "ensure_dlq_topics pf create brokers cfg s \<noteq> (Panic m, t)"
  by (auto simp: ensure_dlq_topics_def ensure_topics_def kafka_admin_new_def bnd_def of_result_def topic_results_no_panic
      split: option.splits prod.splits sum.splits)

text \<open>The start of a consumer depends on its subscription alone.\<close>

theorem consumer_start_subscribes:
  "fst (consumer_start pf create subscribe brokers cfg s) = Ok (subscribe (cc_topics cfg) = None)"
  by (auto simp: consumer_start_def bnd_def attempt_def ret_def ensure_dlq_topics_no_panic split: prod.splits result.splits)

theorem healthy_iff_metadata: "is_healthy (health_check answer) \<longleftrightarrow> (\<exists>n. answer = Inr (Inr n) \<and> kh_broker_count (health_check answer) = n)"
  by (auto simp: is_healthy_def health_check_def split: sum.splits)

end
