(* ===== verification/Order.thy ===== *)
theory Order
  imports Rules Money Auth
begin

text \<open>
  The order service's domain: the status machine and value objects of
  \<open>order/src/orders/value_objects.rs\<close>, its errors (\<open>error.rs\<close>), its rules (\<open>rules.rs\<close>) and
  the validation of a request (\<open>dtos.rs\<close>).
\<close>

section \<open>Status\<close>

datatype order_status =
    OPending | OInventoryReserved | OPaymentAuthorized | OConfirmed
  | OShipped | ODelivered | OCancelled | OReturned

fun order_status_str :: "order_status \<Rightarrow> string" where
  "order_status_str OPending = ''pending''"
| "order_status_str OInventoryReserved = ''inventory_reserved''"
| "order_status_str OPaymentAuthorized = ''payment_authorized''"
| "order_status_str OConfirmed = ''confirmed''"
| "order_status_str OShipped = ''shipped''"
| "order_status_str ODelivered = ''delivered''"
| "order_status_str OCancelled = ''cancelled''"
| "order_status_str OReturned = ''returned''"

section \<open>Errors\<close>

datatype order_error =
    OrderValidationFailed string
  | OrderInvalidTransition order_status order_status
  | OrderCancellationDenied string
  | OrderNotFound string
  | OrderAccessDenied string
  | OrderInfra app_error

definition arrow :: string where
  "arrow = [CHR 0xE2, CHR 0x86, CHR 0x92]"

definition transition_text :: "order_status \<Rightarrow> order_status \<Rightarrow> string" where
  "transition_text a b =
     ''Invalid order status transition: '' @ order_status_str a @ '' '' @ arrow @ '' '' @ order_status_str b"

fun order_error_str :: "order_error \<Rightarrow> string" where
  "order_error_str (OrderValidationFailed m) = ''Validation failed: '' @ m"
| "order_error_str (OrderInvalidTransition a b) = transition_text a b"
| "order_error_str (OrderCancellationDenied m) = ''Cancellation denied: '' @ m"
| "order_error_str (OrderNotFound m) = ''Not found: '' @ m"
| "order_error_str (OrderAccessDenied m) = ''Access denied: '' @ m"
| "order_error_str (OrderInfra e) = app_error_str e"

fun order_to_app_error :: "order_error \<Rightarrow> app_error" where
  "order_to_app_error (OrderValidationFailed m) = BadRequest m"
| "order_to_app_error (OrderInvalidTransition a b) = BadRequest (transition_text a b)"
| "order_to_app_error (OrderCancellationDenied m) = BadRequest m"
| "order_to_app_error (OrderNotFound m) = NotFound m"
| "order_to_app_error (OrderAccessDenied m) = Forbidden m"
| "order_to_app_error (OrderInfra e) = e"

section \<open>Transitions\<close>

fun order_allowed :: "order_status \<Rightarrow> order_status \<Rightarrow> bool" where
  "order_allowed OPending t = (t = OInventoryReserved \<or> t = OCancelled)"
| "order_allowed OInventoryReserved t = (t = OPaymentAuthorized \<or> t = OCancelled)"
| "order_allowed OPaymentAuthorized t = (t = OConfirmed \<or> t = OCancelled)"
| "order_allowed OConfirmed t = (t = OShipped \<or> t = OCancelled)"
| "order_allowed OShipped t = (t = ODelivered \<or> t = OCancelled)"
| "order_allowed ODelivered t = (t = OReturned)"
| "order_allowed OCancelled t = False"
| "order_allowed OReturned t = False"

definition order_transition_to :: "order_status \<Rightarrow> order_status \<Rightarrow> (order_status, order_error) result" where
  "order_transition_to s t = (if order_allowed s t then Ok t else Err (OrderInvalidTransition s t))"

definition order_can_cancel :: "order_status \<Rightarrow> bool" where
  "order_can_cancel s \<longleftrightarrow>
     (case s of
        OPending \<Rightarrow> True | OInventoryReserved \<Rightarrow> True | OPaymentAuthorized \<Rightarrow> True
      | OConfirmed \<Rightarrow> True | OShipped \<Rightarrow> True | _ \<Rightarrow> False)"

text \<open>The statuses an order can pass through: a step relation over the status alone.\<close>

inductive order_path :: "order_status \<Rightarrow> order_status \<Rightarrow> bool" where
  order_path_refl: "order_path s s"
| order_path_step: "order_path s t \<Longrightarrow> order_transition_to t u = Ok u \<Longrightarrow> order_path s u"

inductive_cases order_path_stepE: "order_path s t"

section \<open>Shipping address, idempotency key, quantity\<close>

record shipping_address =
  sa_street :: string
  sa_city :: string
  sa_state :: string
  sa_postal_code :: string
  sa_country :: string

definition shipping_address_new :: "shipping_address \<Rightarrow> (shipping_address, app_error) result" where
  "shipping_address_new req =
     (let street = trim (sa_street req); city = trim (sa_city req); state = trim (sa_state req);
          postal_code = trim (sa_postal_code req); country = trim (sa_country req) in
      if street = [] \<or> city = [] \<or> postal_code = [] \<or> country = []
      then Err (BadRequest ''Shipping address fields (street, city, postal_code, country) must not be empty'')
      else if length street > 500 then Err (BadRequest ''Street must not exceed 500 characters'')
      else if length city > 200 then Err (BadRequest ''City must not exceed 200 characters'')
      else if length postal_code > 20 then Err (BadRequest ''Postal code must not exceed 20 characters'')
      else if length country > 3 then Err (BadRequest ''Country must not exceed 3 characters'')
      else Ok \<lparr>sa_street = street, sa_city = city, sa_state = state, sa_postal_code = postal_code,
               sa_country = country\<rparr>)"

definition is_complete :: "shipping_address \<Rightarrow> bool" where
  "is_complete a \<longleftrightarrow> sa_street a \<noteq> [] \<and> sa_city a \<noteq> [] \<and> sa_postal_code a \<noteq> [] \<and> sa_country a \<noteq> []"

definition address_to_json :: "shipping_address \<Rightarrow> json" where
  "address_to_json a =
     JObject [(''street'', JString (sa_street a)), (''city'', JString (sa_city a)),
       (''state'', JString (sa_state a)), (''postal_code'', JString (sa_postal_code a)),
       (''country'', JString (sa_country a))]"

definition idempotency_key_new :: "string \<Rightarrow> (string, app_error) result" where
  "idempotency_key_new input =
     (let trimmed = trim input in
      if trimmed = [] then Err (BadRequest ''Idempotency key must not be empty'')
      else if length trimmed > 255 then Err (BadRequest ''Idempotency key must not exceed 255 characters'')
      else Ok trimmed)"

definition max_order_quantity :: int where
  "max_order_quantity = 9999"

definition quantity_new :: "int \<Rightarrow> (int, app_error) result" where
  "quantity_new v =
     (if v \<le> 0 then Err (BadRequest ''Quantity must be greater than 0'')
      else if v > max_order_quantity then Err (BadRequest (''Quantity must not exceed '' @ show_int max_order_quantity))
      else Ok v)"

section \<open>Rules\<close>

datatype order_check =
    NonEmptyItems
  | MinOrderAmount decimal
  | MaxItemsPerOrder nat
  | SupportedCurrency
  | ShippingAddressComplete
  | PositiveItemPrices
  | StatusAllowsCancellation

fun order_check_str :: "externs \<Rightarrow> order_check \<Rightarrow> string" where
  "order_check_str x NonEmptyItems = ''order must have at least one item''"
| "order_check_str x (MinOrderAmount v) = ''order total must be at least $'' @ dec_str x v"
| "order_check_str x (MaxItemsPerOrder n) = ''order must not exceed '' @ show_nat n @ '' items''"
| "order_check_str x SupportedCurrency = ''currency must be supported''"
| "order_check_str x ShippingAddressComplete = ''shipping address must be complete''"
| "order_check_str x PositiveItemPrices = ''all item prices must be positive''"
| "order_check_str x StatusAllowsCancellation = ''order status must allow cancellation''"

definition min_order_amount :: decimal where
  "min_order_amount = 1"

definition max_items_per_order :: nat where
  "max_items_per_order = 100"

definition supported_currencies :: "string list" where
  "supported_currencies = [''USD'', ''KRW'', ''EUR'', ''GBP'', ''JPY'']"

definition creation_rules :: "order_check rule" where
  "creation_rules =
     rule_all
       [rule_check NonEmptyItems, rule_check (MaxItemsPerOrder max_items_per_order),
        rule_check (MinOrderAmount min_order_amount), rule_check SupportedCurrency,
        rule_check ShippingAddressComplete, rule_check PositiveItemPrices]"

definition cancellation_rules :: "order_check rule" where
  "cancellation_rules = rule_all [rule_check StatusAllowsCancellation]"

record create_order_context =
  co_item_count :: nat
  co_total_amount :: decimal
  co_currency :: string
  co_shipping_complete :: bool
  co_all_prices_positive :: bool

fun eval_creation :: "create_order_context \<Rightarrow> order_check \<Rightarrow> bool" where
  "eval_creation c NonEmptyItems = (co_item_count c > 0)"
| "eval_creation c (MinOrderAmount m) = (co_total_amount c \<ge> m)"
| "eval_creation c (MaxItemsPerOrder n) = (co_item_count c \<le> n)"
| "eval_creation c SupportedCurrency = (co_currency c \<in> set supported_currencies)"
| "eval_creation c ShippingAddressComplete = co_shipping_complete c"
| "eval_creation c PositiveItemPrices = co_all_prices_positive c"
| "eval_creation c StatusAllowsCancellation = False"

definition eval_cancellation :: "order_status \<Rightarrow> order_check \<Rightarrow> bool" where
  "eval_cancellation current check =
     (case check of StatusAllowsCancellation \<Rightarrow> order_can_cancel current | _ \<Rightarrow> True)"

section \<open>Requests\<close>

record create_order_item_req =
  ci_product_id :: uuid
  ci_sku_id :: uuid
  ci_product_name :: string
  ci_sku_code :: string
  ci_quantity :: int
  ci_seller_id :: uuid
  ci_unit_price :: decimal

record create_order_req =
  cr_items :: "create_order_item_req list"
  cr_currency :: "string option"
  cr_shipping_address :: shipping_address

record valid_order_item =
  vi_product_id :: uuid
  vi_sku_id :: uuid
  vi_product_name :: string
  vi_sku_code :: string
  vi_quantity :: int
  vi_seller_id :: uuid
  vi_unit_price :: price
  vi_total_price :: decimal

record valid_order_req =
  vr_idempotency_key :: string
  vr_currency :: currency
  vr_shipping_address :: shipping_address
  vr_items :: "valid_order_item list"
  vr_total_amount :: decimal

text \<open>The loop over the items carries the running total.\<close>

fun valid_items ::
  "externs \<Rightarrow> decimal \<Rightarrow> create_order_item_req list \<Rightarrow> (valid_order_item list \<times> decimal, app_error) result" where
  "valid_items x acc [] = Ok ([], acc)"
| "valid_items x acc (item # rest) =
     and_then (quantity_new (ci_quantity item)) (\<lambda>quantity.
     and_then (price_new (ci_unit_price item)) (\<lambda>unit_price.
     and_then (or_panic ''Multiplication overflowed'' (dec_mul x (price_value unit_price) (of_int quantity))) (\<lambda>total_price.
     and_then (or_panic ''Addition overflowed'' (dec_add x acc total_price)) (\<lambda>acc'.
     and_then (valid_items x acc' rest) (\<lambda>(items, tot).
       Ok (\<lparr>vi_product_id = ci_product_id item, vi_sku_id = ci_sku_id item,
            vi_product_name = ci_product_name item, vi_sku_code = ci_sku_code item,
            vi_quantity = quantity, vi_seller_id = ci_seller_id item,
            vi_unit_price = unit_price, vi_total_price = total_price\<rparr> # items, tot))))))"

definition valid_order_req_new ::
  "externs \<Rightarrow> string \<Rightarrow> create_order_req \<Rightarrow> (valid_order_req, app_error) result" where
  "valid_order_req_new x idempotency_key req =
     and_then (idempotency_key_new idempotency_key) (\<lambda>key.
     and_then (case cr_currency req of Some c \<Rightarrow> currency_new x c | None \<Rightarrow> Ok currency_default) (\<lambda>cur.
     and_then (shipping_address_new (cr_shipping_address req)) (\<lambda>addr.
       if cr_items req = [] then Err (BadRequest ''Order must have at least one item'')
       else and_then (valid_items x 0 (cr_items req)) (\<lambda>(items, acc).
         Ok \<lparr>vr_idempotency_key = key, vr_currency = cur, vr_shipping_address = addr,
             vr_items = items, vr_total_amount = acc\<rparr>))))"

section \<open>Facts: status machine\<close>

lemma order_transition_to_Ok_iff [simp]: "order_transition_to s t = Ok u \<longleftrightarrow> order_allowed s t \<and> u = t"
  by (auto simp: order_transition_to_def)

lemma order_can_cancel_iff: "order_can_cancel s \<longleftrightarrow> order_allowed s OCancelled"
  by (cases s) (simp_all add: order_can_cancel_def)

text \<open>Every transition moves forward in this rank, so no status is visited twice.\<close>

fun order_rank :: "order_status \<Rightarrow> nat" where
  "order_rank OPending = 0"
| "order_rank OInventoryReserved = 1"
| "order_rank OPaymentAuthorized = 2"
| "order_rank OConfirmed = 3"
| "order_rank OShipped = 4"
| "order_rank ODelivered = 5"
| "order_rank OCancelled = 6"
| "order_rank OReturned = 6"

lemma order_allowed_rank: "order_allowed s t \<Longrightarrow> order_rank s < order_rank t"
  by (cases s) auto

lemma order_path_rank: "order_path s t \<Longrightarrow> s = t \<or> order_rank s < order_rank t"
  by (induction rule: order_path.induct) (auto dest: order_allowed_rank)

lemma order_path_trans: "order_path s t \<Longrightarrow> order_path t u \<Longrightarrow> order_path s u"
  by (rotate_tac, induction rule: order_path.induct) (auto intro: order_path.intros)

lemma order_path_allowed: "order_allowed s t \<Longrightarrow> order_path s t"
  by (rule order_path_step[OF order_path_refl]) simp

lemma order_path_terminal: "order_path s t \<Longrightarrow> s \<in> {OCancelled, OReturned} \<Longrightarrow> t = s"
  by (induction rule: order_path.induct) auto

section \<open>Facts: validation\<close>

lemma quantity_new_Ok_iff: "quantity_new v = Ok q \<longleftrightarrow> q = v \<and> 0 < v \<and> v \<le> max_order_quantity"
  by (auto simp: quantity_new_def)

lemma idempotency_key_new_Ok_iff:
  "idempotency_key_new k = Ok v \<longleftrightarrow> v = trim k \<and> v \<noteq> [] \<and> length v \<le> 255"
  by (auto simp: idempotency_key_new_def Let_def)

lemma shipping_address_new_Ok:
  "shipping_address_new r = Ok a \<Longrightarrow>
     is_complete a \<and> length (sa_street a) \<le> 500 \<and> length (sa_city a) \<le> 200 \<and>
     length (sa_postal_code a) \<le> 20 \<and> length (sa_country a) \<le> 3"
  by (auto simp: shipping_address_new_def Let_def is_complete_def split: if_splits)

text \<open>An accepted address satisfies the rule on addresses, which therefore never fails.\<close>

lemma shipping_address_new_idem: "shipping_address_new r = Ok a \<Longrightarrow> shipping_address_new a = Ok a"
  by (auto simp: shipping_address_new_def Let_def split: if_splits)

lemma valid_items_spec:
  assumes "valid_items x acc items = Ok (vs, tot)"
  shows "length vs = length items"
    and "list_all (\<lambda>v. 0 < vi_quantity v \<and> vi_quantity v \<le> max_order_quantity \<and>
      0 \<le> price_value (vi_unit_price v) \<and>
      dec_mul x (price_value (vi_unit_price v)) (of_int (vi_quantity v)) = Some (vi_total_price v)) vs"
  using assms
  by (induction x acc items arbitrary: vs tot rule: valid_items.induct)
     (auto simp: and_then_Ok_iff quantity_new_Ok_iff price_new_Ok_iff)

text \<open>Exact arithmetic: an accepted order's total is the sum of quantity times price, as
  long as every product and partial tot is a number a \<open>Decimal\<close> can hold.\<close>

definition item_amount :: "create_order_item_req \<Rightarrow> decimal" where
  "item_amount i = ci_unit_price i * of_int (ci_quantity i)"

fun sums_representable :: "decimal \<Rightarrow> create_order_item_req list \<Rightarrow> bool" where
  "sums_representable acc [] = True"
| "sums_representable acc (i # rest) \<longleftrightarrow>
     representable (item_amount i) \<and> representable (acc + item_amount i) \<and>
     sums_representable (acc + item_amount i) rest"

lemma valid_items_total:
  assumes "dec_exact x" "sums_representable acc items" "valid_items x acc items = Ok (vs, tot)"
  shows "tot = acc + sum_list (map item_amount items) \<and> map vi_total_price vs = map item_amount items"
  using assms
  by (induction x acc items arbitrary: vs tot rule: valid_items.induct)
     (simp, fastforce simp: and_then_Ok_iff quantity_new_Ok_iff price_new_Ok_iff dec_exact_def
       item_amount_def add.assoc)

lemma valid_items_succeeds:
  assumes "dec_exact x" "sums_representable acc items"
    and "\<And>i. i \<in> set items \<Longrightarrow> 0 < ci_quantity i \<and> ci_quantity i \<le> max_order_quantity \<and> 0 \<le> ci_unit_price i"
  shows "\<exists>vs. valid_items x acc items = Ok (vs, acc + sum_list (map item_amount items))"
  using assms
proof (induction items arbitrary: acc)
  case (Cons i items)
  have q: "quantity_new (ci_quantity i) = Ok (ci_quantity i)"
    and p: "price_new (ci_unit_price i) = Ok (Price (ci_unit_price i))"
    using Cons.prems(3)[of i] by (simp_all add: quantity_new_Ok_iff price_new_Ok_iff)
  have "dec_mul x (ci_unit_price i) (of_int (ci_quantity i)) = Some (item_amount i)"
    "dec_add x acc (item_amount i) = Some (acc + item_amount i)"
    using Cons.prems(1,2) by (auto simp: dec_exact_def item_amount_def)
  moreover obtain vs where "valid_items x (acc + item_amount i) items =
      Ok (vs, acc + item_amount i + sum_list (map item_amount items))"
    using Cons by fastforce
  ultimately show ?case using q p by (simp add: or_panic_def add.assoc)
qed simp

section \<open>Facts: rules\<close>

lemma creation_rules_iff:
  "passed (evaluate_detailed creation_rules (eval_creation c)) \<longleftrightarrow>
     0 < co_item_count c \<and> co_item_count c \<le> 100 \<and> 1 \<le> co_total_amount c \<and>
     co_currency c \<in> set supported_currencies \<and> co_shipping_complete c \<and> co_all_prices_positive c"
  by (simp add: passed_evaluate_detailed creation_rules_def rule_all_def rule_check_def
      max_items_per_order_def min_order_amount_def)

lemma cancellation_rules_iff:
  "passed (evaluate_detailed cancellation_rules (eval_cancellation s)) \<longleftrightarrow> order_can_cancel s"
  by (simp add: passed_evaluate_detailed cancellation_rules_def rule_all_def rule_check_def
      eval_cancellation_def)

section \<open>Properties\<close>

text \<open>The order status machine never goes back: along every sequence of transitions the rank
  grows strictly, so no status is entered twice, and nothing leaves cancelled or returned.\<close>

theorem order_status_never_returns:
  assumes "order_path s t" "s \<noteq> t"
  shows "order_rank s < order_rank t \<and> \<not> order_path t s \<and> s \<notin> {OCancelled, OReturned}"
  using order_path_rank[OF assms(1)] order_path_rank[of t s] order_path_terminal[OF assms(1)] assms(2) by auto

theorem order_status_never_returns_witness:
  "order_path OPending OCancelled \<and> \<not> order_path OCancelled OPending"
proof -
  have p: "order_path OPending OCancelled" by (rule order_path_allowed) simp
  from order_status_never_returns[OF p] p show ?thesis by simp
qed

text \<open>An order request whose quantities and prices are in range is accepted, and the total the
  service computes is the exact sum of price times quantity, as long as the products and partial
  sums are numbers a \<open>Decimal\<close> can hold.\<close>

theorem order_total_is_exact:
  assumes "dec_exact x" "sums_representable 0 items"
    and "list_all (\<lambda>i. 0 < ci_quantity i \<and> ci_quantity i \<le> max_order_quantity \<and> 0 \<le> ci_unit_price i) items"
  shows "\<exists>vs. valid_items x 0 items = Ok (vs, sum_list (map item_amount items)) \<and>
    map vi_total_price vs = map item_amount items"
proof -
  obtain vs where vs: "valid_items x 0 items = Ok (vs, 0 + sum_list (map item_amount items))"
    using valid_items_succeeds[OF assms(1,2)] assms(3) by (auto simp: list_all_iff)
  from valid_items_total[OF assms(1,2) vs] vs show ?thesis by simp
qed

definition demo_item :: create_order_item_req where
  "demo_item =
     \<lparr>ci_product_id = 1, ci_sku_id = 2, ci_product_name = ''p'', ci_sku_code = ''s'',
      ci_quantity = 2, ci_seller_id = 3, ci_unit_price = 5\<rparr>"

theorem order_total_is_exact_witness:
  "\<exists>vs. valid_items demo_externs 0 [demo_item, demo_item] = Ok (vs, 20) \<and> map vi_total_price vs = [10, 10]"
proof -
  have "sums_representable 0 [demo_item, demo_item]"
    using representable_int[of 10] representable_int[of 20] by (simp add: item_amount_def demo_item_def)
  from order_total_is_exact[OF _ this, of demo_externs] show ?thesis
    by (simp add: demo_item_def item_amount_def max_order_quantity_def)
qed

end
