(* ===== verification/Order_Service.thy ===== *)
theory Order_Service
  imports Order Pagination Consumer
begin

text \<open>
  The order service: its tables and statements (\<open>order/src/orders/repository.rs\<close>, with the
  constraints of its migration), the operations of \<open>service.rs\<close> and \<open>routes.rs\<close>, and the event
  handlers of \<open>order/src/consumers\<close>.
\<close>

section \<open>Tables\<close>

record order_entity =
  or_id :: uuid
  or_created_at :: timestamp
  or_updated_at :: "timestamp option"
  or_buyer_id :: uuid
  or_status :: order_status
  or_total_amount :: decimal
  or_currency :: string
  or_idempotency_key :: string
  or_shipping_address :: json
  or_cancelled_reason :: "string option"

record order_item_entity =
  it_id :: uuid
  it_created_at :: timestamp
  it_order_id :: uuid
  it_product_id :: uuid
  it_sku_id :: uuid
  it_product_name :: string
  it_sku_code :: string
  it_quantity :: int
  it_seller_id :: uuid
  it_unit_price :: decimal
  it_total_price :: decimal

record order_list_entity =
  ol_id :: uuid
  ol_created_at :: timestamp
  ol_buyer_id :: uuid
  ol_status :: order_status
  ol_total_amount :: decimal
  ol_currency :: string
  ol_item_count :: nat

record order_db = svc_db +
  orders :: "order_entity list"
  order_items :: "order_item_entity list"

section \<open>Responses\<close>

record order_res =
  rs_id :: string
  rs_created_at :: string
  rs_buyer_id :: string
  rs_status :: order_status
  rs_total_amount :: decimal
  rs_currency :: string
  rs_idempotency_key :: string
  rs_shipping_address :: json
  rs_cancelled_reason :: "string option"

definition order_res_new :: "externs \<Rightarrow> order_entity \<Rightarrow> order_res" where
  "order_res_new x e =
     \<lparr>rs_id = uuid_str x (or_id e), rs_created_at = dt_str x (or_created_at e),
      rs_buyer_id = uuid_str x (or_buyer_id e), rs_status = or_status e,
      rs_total_amount = or_total_amount e, rs_currency = or_currency e,
      rs_idempotency_key = or_idempotency_key e, rs_shipping_address = or_shipping_address e,
      rs_cancelled_reason = or_cancelled_reason e\<rparr>"

record order_list_res =
  rl_id :: string
  rl_created_at :: string
  rl_buyer_id :: string
  rl_status :: order_status
  rl_total_amount :: decimal
  rl_currency :: string
  rl_item_count :: nat

definition order_list_res_new :: "externs \<Rightarrow> order_list_entity \<Rightarrow> order_list_res" where
  "order_list_res_new x e =
     \<lparr>rl_id = uuid_str x (ol_id e), rl_created_at = dt_str x (ol_created_at e),
      rl_buyer_id = uuid_str x (ol_buyer_id e), rl_status = ol_status e,
      rl_total_amount = ol_total_amount e, rl_currency = ol_currency e, rl_item_count = ol_item_count e\<rparr>"

record order_item_res =
  ri_id :: string
  ri_product_id :: string
  ri_sku_id :: string
  ri_product_name :: string
  ri_sku_code :: string
  ri_quantity :: int
  ri_seller_id :: string
  ri_unit_price :: decimal
  ri_total_price :: decimal

definition order_item_res_new :: "externs \<Rightarrow> order_item_entity \<Rightarrow> order_item_res" where
  "order_item_res_new x e =
     \<lparr>ri_id = uuid_str x (it_id e), ri_product_id = uuid_str x (it_product_id e),
      ri_sku_id = uuid_str x (it_sku_id e), ri_product_name = it_product_name e,
      ri_sku_code = it_sku_code e, ri_quantity = it_quantity e,
      ri_seller_id = uuid_str x (it_seller_id e), ri_unit_price = it_unit_price e,
      ri_total_price = it_total_price e\<rparr>"

record order_detail_res =
  rd_order :: order_res
  rd_items :: "order_item_res list"

record order_filter_query =
  fq_limit :: "nat option"
  fq_cursor :: "uuid option"
  fq_direction :: "direction option"
  fq_status :: "order_status option"

definition into_parts :: "order_filter_query \<Rightarrow> pagination_params \<times> order_status option" where
  "into_parts q =
     (into_params \<lparr>pq_limit = fq_limit q, pq_cursor = fq_cursor q, pq_direction = fq_direction q\<rparr>,
      fq_status q)"

section \<open>Repository\<close>

definition get_order_by_id :: "externs \<Rightarrow> executor \<Rightarrow> uuid \<Rightarrow> (order_db srv, app_error, order_entity) eff" where
  "get_order_by_id x ex oid =
     map_err (\<lambda>e. NotFound (''Order not found: '' @ db_text x e))
       (fetch_one (query ex (\<lambda>d. filter (\<lambda>o1. or_id o1 = oid) (orders d))))"

definition get_order_by_idempotency_key ::
  "externs \<Rightarrow> executor \<Rightarrow> string \<Rightarrow> (order_db srv, app_error, order_entity option) eff" where
  "get_order_by_idempotency_key x ex key =
     map_err (\<lambda>e. InternalServerError (''Failed to check idempotency key: '' @ db_text x e))
       (fetch_optional (query ex (\<lambda>d. filter (\<lambda>o1. or_idempotency_key o1 = key) (orders d))))"

definition list_row :: "(order_item_entity \<Rightarrow> bool) \<Rightarrow> order_db \<Rightarrow> order_entity \<Rightarrow> order_list_entity" where
  "list_row P d e =
     \<lparr>ol_id = or_id e, ol_created_at = or_created_at e, ol_buyer_id = or_buyer_id e,
      ol_status = or_status e, ol_total_amount = or_total_amount e, ol_currency = or_currency e,
      ol_item_count = count_where (\<lambda>i. it_order_id i = or_id e \<and> P i) (order_items d)\<rparr>"

definition apply_order_filters :: "order_status option \<Rightarrow> order_entity \<Rightarrow> bool" where
  "apply_order_filters st e = (case st of None \<Rightarrow> True | Some s \<Rightarrow> or_status e = s)"

definition list_orders_by_buyer ::
  "externs \<Rightarrow> executor \<Rightarrow> uuid \<Rightarrow> pagination_params \<Rightarrow> order_status option \<Rightarrow>
   (order_db srv, app_error, order_list_entity list) eff" where
  "list_orders_by_buyer x ex buyer p st =
     map_err (\<lambda>e. InternalServerError (''Failed to list orders: '' @ db_text x e))
       (fetch_all_clauses ex ol_id (keyset_paginate p [GroupById])
          (\<lambda>d. map (list_row (\<lambda>i. True) d)
             (filter (\<lambda>e. or_buyer_id e = buyer \<and> apply_order_filters st e) (orders d))))"

definition list_orders_by_seller ::
  "externs \<Rightarrow> executor \<Rightarrow> uuid \<Rightarrow> pagination_params \<Rightarrow> order_status option \<Rightarrow>
   (order_db srv, app_error, order_list_entity list) eff" where
  "list_orders_by_seller x ex seller p st =
     map_err (\<lambda>e. InternalServerError (''Failed to list seller orders: '' @ db_text x e))
       (fetch_all_clauses ex ol_id (keyset_paginate p [GroupById])
          (\<lambda>d. filter (\<lambda>r. ol_item_count r > 0)
             (map (list_row (\<lambda>i. it_seller_id i = seller) d)
                (filter (apply_order_filters st) (orders d)))))"

definition list_order_items ::
  "externs \<Rightarrow> executor \<Rightarrow> uuid \<Rightarrow> (order_db srv, app_error, order_item_entity list) eff" where
  "list_order_items x ex oid =
     map_err (\<lambda>e. InternalServerError (''Failed to list order items: '' @ db_text x e))
       (query ex (\<lambda>d. take 100 (sort_key it_created_at (filter (\<lambda>i. it_order_id i = oid) (order_items d)))))"

text \<open>The two inserts, with the column types and constraints of the tables.\<close>

definition order_row ::
  "uuid \<Rightarrow> timestamp \<Rightarrow> uuid \<Rightarrow> decimal \<Rightarrow> string \<Rightarrow> string \<Rightarrow> json \<Rightarrow> order_entity" where
  "order_row rid now buyer amount cur key ship =
     \<lparr>or_id = rid, or_created_at = now, or_updated_at = None, or_buyer_id = buyer,
      or_status = OPending, or_total_amount = amount, or_currency = cur, or_idempotency_key = key,
      or_shipping_address = ship, or_cancelled_reason = None\<rparr>"

definition insert_order_sql :: "uuid \<Rightarrow> valid_order_req \<Rightarrow> json \<Rightarrow> uuid \<Rightarrow> (order_db, uuid) sql" where
  "insert_order_sql buyer req ship rid now d =
     (case (numeric_col (vr_total_amount req), varchar_col 3 (currency_str (vr_currency req)),
            varchar_col 255 (vr_idempotency_key req)) of
        (Inl e, _, _) \<Rightarrow> Inl e
      | (_, Inl e, _) \<Rightarrow> Inl e
      | (_, _, Inl e) \<Rightarrow> Inl e
      | (Inr amount, Inr cur, Inr key) \<Rightarrow>
          if amount < 0 then Inl (CheckViolation ''chk_orders_total'')
          else if rid \<in> or_id ` set (orders d) then Inl (UniqueViolation ''orders_pkey'')
          else if key \<in> or_idempotency_key ` set (orders d)
          then Inl (UniqueViolation ''orders_idempotency_key_key'')
          else Inr (rid, d\<lparr>orders := orders d @ [order_row rid now buyer amount cur key ship]\<rparr>))"

definition item_row ::
  "uuid \<Rightarrow> timestamp \<Rightarrow> uuid \<Rightarrow> valid_order_item \<Rightarrow> string \<Rightarrow> string \<Rightarrow> decimal \<Rightarrow> decimal \<Rightarrow> order_item_entity" where
  "item_row rid now oid i name code unit tot =
     \<lparr>it_id = rid, it_created_at = now, it_order_id = oid, it_product_id = vi_product_id i,
      it_sku_id = vi_sku_id i, it_product_name = name, it_sku_code = code,
      it_quantity = vi_quantity i, it_seller_id = vi_seller_id i, it_unit_price = unit,
      it_total_price = tot\<rparr>"

definition insert_item_sql :: "uuid \<Rightarrow> valid_order_item \<Rightarrow> uuid \<Rightarrow> (order_db, unit) sql" where
  "insert_item_sql oid i rid now d =
     (case (varchar_col 500 (vi_product_name i), varchar_col 100 (vi_sku_code i),
            numeric_col (price_value (vi_unit_price i)), numeric_col (vi_total_price i)) of
        (Inl e, _, _, _) \<Rightarrow> Inl e
      | (_, Inl e, _, _) \<Rightarrow> Inl e
      | (_, _, Inl e, _) \<Rightarrow> Inl e
      | (_, _, _, Inl e) \<Rightarrow> Inl e
      | (Inr name, Inr code, Inr unit, Inr tot) \<Rightarrow>
          if vi_quantity i \<le> 0 then Inl (CheckViolation ''chk_quantity'')
          else if unit < 0 then Inl (CheckViolation ''chk_unit_price'')
          else if tot < 0 then Inl (CheckViolation ''chk_total_price'')
          else if rid \<in> it_id ` set (order_items d) then Inl (UniqueViolation ''order_items_pkey'')
          else if oid \<notin> or_id ` set (orders d)
          then Inl (ForeignKeyViolation ''order_items_order_id_fkey'')
          else Inr ((), d\<lparr>order_items := order_items d @ [item_row rid now oid i name code unit tot]\<rparr>))"

definition insert_items :: "externs \<Rightarrow> uuid \<Rightarrow> valid_order_item list \<Rightarrow> (order_db srv, app_error, unit) eff" where
  "insert_items x oid items =
     for_each (\<lambda>i. bnd next_uuid (\<lambda>rid.
       map_err (\<lambda>e. InternalServerError (''Failed to create order item: '' @ db_text x e))
         (stmt Tx (insert_item_sql oid i rid)))) items"

definition create_order_tx :: "externs \<Rightarrow> uuid \<Rightarrow> valid_order_req \<Rightarrow> (order_db srv, app_error, uuid) eff" where
  "create_order_tx x buyer req =
     (let shipping_json = address_to_json (vr_shipping_address req) in
      bnd next_uuid (\<lambda>rid.
      bnd (map_err (\<lambda>e. InternalServerError (''Failed to create order: '' @ db_text x e))
             (stmt Tx (insert_order_sql buyer req shipping_json rid))) (\<lambda>oid.
      bnd (insert_items x oid (vr_items req)) (\<lambda>_. ret oid))))"

definition set_status :: "order_status \<Rightarrow> string option \<Rightarrow> timestamp \<Rightarrow> order_entity \<Rightarrow> order_entity" where
  "set_status st reason now e =
     (case reason of
        Some r \<Rightarrow> e\<lparr>or_status := st, or_cancelled_reason := Some r, or_updated_at := Some now\<rparr>
      | None \<Rightarrow> e\<lparr>or_status := st, or_updated_at := Some now\<rparr>)"

definition update_order_status ::
  "externs \<Rightarrow> uuid \<Rightarrow> order_status \<Rightarrow> string option \<Rightarrow> (order_db srv, app_error, unit) eff" where
  "update_order_status x oid st reason =
     bnd (map_err (\<lambda>e. InternalServerError (''Failed to update order status: '' @ db_text x e))
            (stmt Tx (\<lambda>now d.
               Inr (count_where (\<lambda>e. or_id e = oid) (orders d),
                    d\<lparr>orders := update_where (\<lambda>e. or_id e = oid) (set_status st reason now) (orders d)\<rparr>))))
       (\<lambda>rows. if rows = 0 then throw (NotFound ''Order not found'')
               else if rows \<noteq> 1 then panic ''UPDATE must affect exactly 1 row''
               else ret ())"

section \<open>Service\<close>

definition creation_context :: "valid_order_req \<Rightarrow> create_order_context" where
  "creation_context v =
     \<lparr>co_item_count = length (vr_items v), co_total_amount = vr_total_amount v,
      co_currency = currency_str (vr_currency v), co_shipping_complete = is_complete (vr_shipping_address v),
      co_all_prices_positive = list_all (\<lambda>i. price_value (vi_unit_price i) > 0) (vr_items v)\<rparr>"

definition order_created_payload :: "externs \<Rightarrow> uuid \<Rightarrow> uuid \<Rightarrow> valid_order_req \<Rightarrow> json" where
  "order_created_payload x oid buyer v =
     JObject
       [(''order_id'', JString (uuid_str x oid)), (''buyer_id'', JString (uuid_str x buyer)),
        (''total_amount'', JString (dec_str x (vr_total_amount v))),
        (''currency'', JString (currency_str (vr_currency v))),
        (''items'', JArray (map (\<lambda>i.
           JObject
             [(''product_id'', JString (uuid_str x (vi_product_id i))),
              (''sku_id'', JString (uuid_str x (vi_sku_id i))),
              (''quantity'', JInt (vi_quantity i)),
              (''unit_price'', JString (dec_str x (price_value (vi_unit_price i))))]) (vr_items v)))]"

text \<open>An event of the order: metadata, envelope, outbox row on topic \<open>orders.events\<close>.\<close>

definition write_order_outbox ::
  "externs \<Rightarrow> uuid \<Rightarrow> event_type \<Rightarrow> json \<Rightarrow> uuid option \<Rightarrow> (order_db srv, app_error, unit) eff" where
  "write_order_outbox x oid et pl cause =
     bnd (event_metadata_new et AggOrder oid SOrder) (\<lambda>m.
       let m' = (case cause of Some c \<Rightarrow> with_causation_id c m | None \<Rightarrow> m);
           env = event_envelope_new m' pl
       in bnd (insert_outbox_event x Tx (from_envelope x ''orders.events'' env)) (\<lambda>_. ret ()))"

definition create_order_body ::
  "externs \<Rightarrow> uuid \<Rightarrow> valid_order_req \<Rightarrow> (order_db srv, tx_error, uuid) eff" where
  "create_order_body x buyer v =
     bnd (map_err tx_other (create_order_tx x buyer v)) (\<lambda>oid.
     bnd (map_err tx_other (write_order_outbox x oid OrderCreated (order_created_payload x oid buyer v) None))
       (\<lambda>_. ret oid))"

definition create_order ::
  "externs \<Rightarrow> current_user \<Rightarrow> string \<Rightarrow> create_order_req \<Rightarrow> (order_db srv, app_error, order_res) eff" where
  "create_order x user idempotency_key req =
     bnd (of_result (valid_order_req_new x idempotency_key req)) (\<lambda>v.
       let res = evaluate_detailed creation_rules (eval_creation (creation_context v)) in
       if \<not> passed res
       then throw (order_to_app_error (OrderValidationFailed
              (join_with ''; '' (failure_messages (order_check_str x) res))))
       else
         bnd (get_order_by_idempotency_key x Pool (vr_idempotency_key v)) (\<lambda>existing.
           case existing of
             Some e \<Rightarrow> ret (order_res_new x e)
           | None \<Rightarrow>
               bnd (map_err (\<lambda>e. InternalServerError (''Failed to create order: '' @ tx_error_str x e))
                      (with_transaction (create_order_body x (cu_id user) v))) (\<lambda>oid.
               bnd (get_order_by_id x Pool oid) (\<lambda>e. ret (order_res_new x e)))))"

definition get_order_detail ::
  "externs \<Rightarrow> current_user \<Rightarrow> uuid \<Rightarrow> (order_db srv, app_error, order_detail_res) eff" where
  "get_order_detail x user oid =
     bnd (get_order_by_id x Pool oid) (\<lambda>e.
     bnd (of_result (require_access user (or_buyer_id e))) (\<lambda>_.
     bnd (list_order_items x Pool oid) (\<lambda>items.
       ret \<lparr>rd_order = order_res_new x e, rd_items = map (order_item_res_new x) items\<rparr>)))"

definition list_my_orders ::
  "externs \<Rightarrow> uuid \<Rightarrow> pagination_params \<Rightarrow> order_status option \<Rightarrow>
   (order_db srv, app_error, order_list_res pagination_res) eff" where
  "list_my_orders x buyer p st =
     bnd (list_orders_by_buyer x Pool buyer p st) (\<lambda>rows.
       case get_cursors ol_id p rows of
         (c, rows') \<Rightarrow> ret (pagination_res_new (map (order_list_res_new x) rows') c))"

definition list_seller_orders ::
  "externs \<Rightarrow> uuid \<Rightarrow> pagination_params \<Rightarrow> order_status option \<Rightarrow>
   (order_db srv, app_error, order_list_res pagination_res) eff" where
  "list_seller_orders x seller p st =
     bnd (list_orders_by_seller x Pool seller p st) (\<lambda>rows.
       case get_cursors ol_id p rows of
         (c, rows') \<Rightarrow> ret (pagination_res_new (map (order_list_res_new x) rows') c))"

definition order_cancelled_payload :: "externs \<Rightarrow> uuid \<Rightarrow> uuid \<Rightarrow> string \<Rightarrow> json" where
  "order_cancelled_payload x oid buyer reason =
     JObject [(''order_id'', JString (uuid_str x oid)), (''buyer_id'', JString (uuid_str x buyer)),
       (''reason'', JString reason)]"

definition cancel_order_body ::
  "externs \<Rightarrow> order_entity \<Rightarrow> uuid \<Rightarrow> string \<Rightarrow> (order_db srv, tx_error, unit) eff" where
  "cancel_order_body x e oid reason =
     bnd (map_err tx_other (update_order_status x oid OCancelled (Some reason))) (\<lambda>_.
       map_err tx_other (write_order_outbox x oid OrderCancelled
         (order_cancelled_payload x oid (or_buyer_id e) reason) None))"

definition cancel_order ::
  "externs \<Rightarrow> current_user \<Rightarrow> uuid \<Rightarrow> string option \<Rightarrow> (order_db srv, app_error, unit) eff" where
  "cancel_order x user oid reason =
     bnd (get_order_by_id x Pool oid) (\<lambda>e.
     bnd (of_result (require_access user (or_buyer_id e))) (\<lambda>_.
       let res = evaluate_detailed cancellation_rules (eval_cancellation (or_status e)) in
       if \<not> passed res
       then throw (order_to_app_error (OrderCancellationDenied
              (join_with ''; '' (failure_messages (order_check_str x) res))))
       else
         bnd (of_result (map_err_result order_to_app_error (order_transition_to (or_status e) OCancelled))) (\<lambda>_.
           let cancel_reason = (case reason of Some r \<Rightarrow> r | None \<Rightarrow> ''Cancelled by buyer'') in
           map_err (\<lambda>e. InternalServerError (''Failed to cancel order: '' @ tx_error_str x e))
             (with_transaction (cancel_order_body x e oid cancel_reason)))))"

section \<open>Routes\<close>

text \<open>The header value is \<open>None\<close> when it is missing or not visible ASCII.\<close>

definition create_order_route ::
  "externs \<Rightarrow> current_user \<Rightarrow> string option \<Rightarrow> create_order_req \<Rightarrow>
   (order_db srv, app_error, nat \<times> order_res) eff" where
  "create_order_route x user header req =
     bnd (of_result (ok_or (BadRequest ''Idempotency-Key header is required'') header)) (\<lambda>key.
     bnd (create_order x user key req) (\<lambda>order. ret (202, order)))"

definition list_my_orders_route ::
  "externs \<Rightarrow> current_user \<Rightarrow> order_filter_query \<Rightarrow>
   (order_db srv, app_error, order_list_res paginated_response) eff" where
  "list_my_orders_route x user q =
     (case into_parts q of (p, st) \<Rightarrow>
        bnd (list_my_orders x (cu_id user) p st) (\<lambda>r. ret (paginated_response_new x r)))"

definition list_seller_orders_route ::
  "externs \<Rightarrow> current_user \<Rightarrow> order_filter_query \<Rightarrow>
   (order_db srv, app_error, order_list_res paginated_response) eff" where
  "list_seller_orders_route x user q =
     (case into_parts q of (p, st) \<Rightarrow>
        bnd (list_seller_orders x (cu_id user) p st) (\<lambda>r. ret (paginated_response_new x r)))"

section \<open>Event handlers\<close>

definition checked_transition ::
  "order_entity \<Rightarrow> order_status \<Rightarrow> (order_db srv, app_error, order_status) eff" where
  "checked_transition e st =
     of_result (map_err_result (\<lambda>err. BadRequest (order_error_str err)) (order_transition_to (or_status e) st))"

definition handle_inventory_reserved ::
  "externs \<Rightarrow> event_envelope \<Rightarrow> (order_db srv, app_error, unit) eff" where
  "handle_inventory_reserved x env =
     bnd (of_result (payload_uuid x env ''order_id'')) (\<lambda>oid.
     bnd (get_order_by_id x Tx oid) (\<lambda>e.
     bnd (checked_transition e OInventoryReserved) (\<lambda>_.
       update_order_status x oid OInventoryReserved None)))"

definition reason_or :: "event_envelope \<Rightarrow> string \<Rightarrow> string" where
  "reason_or env dflt = (case as_str (jget (payload env) ''reason'') of Some r \<Rightarrow> r | None \<Rightarrow> dflt)"

definition handle_inventory_reservation_failed ::
  "externs \<Rightarrow> event_envelope \<Rightarrow> (order_db srv, app_error, unit) eff" where
  "handle_inventory_reservation_failed x env =
     bnd (of_result (payload_uuid x env ''order_id'')) (\<lambda>oid.
     bnd (get_order_by_id x Tx oid) (\<lambda>e.
     bnd (checked_transition e OCancelled) (\<lambda>_.
       update_order_status x oid OCancelled (Some (reason_or env ''Inventory reservation failed'')))))"

definition handle_payment_authorized ::
  "externs \<Rightarrow> event_envelope \<Rightarrow> (order_db srv, app_error, unit) eff" where
  "handle_payment_authorized x env =
     bnd (of_result (payload_uuid x env ''order_id'')) (\<lambda>oid.
     bnd (get_order_by_id x Tx oid) (\<lambda>e.
     bnd (checked_transition e OPaymentAuthorized) (\<lambda>_.
     bnd (update_order_status x oid OPaymentAuthorized None) (\<lambda>_.
     bnd (update_order_status x oid OConfirmed None) (\<lambda>_.
       write_order_outbox x oid OrderConfirmed
         (JObject [(''order_id'', JString (uuid_str x oid)), (''buyer_id'', JString (uuid_str x (or_buyer_id e)))])
         (Some (event_id (metadata env))))))))"

definition cancel_order_on_payment_failure ::
  "externs \<Rightarrow> event_envelope \<Rightarrow> string \<Rightarrow> (order_db srv, app_error, unit) eff" where
  "cancel_order_on_payment_failure x env dflt =
     bnd (of_result (payload_uuid x env ''order_id'')) (\<lambda>oid.
     bnd (get_order_by_id x Tx oid) (\<lambda>e.
     bnd (checked_transition e OCancelled) (\<lambda>_.
     bnd (update_order_status x oid OCancelled (Some (reason_or env dflt))) (\<lambda>_.
       write_order_outbox x oid OrderCancelled
         (order_cancelled_payload x oid (or_buyer_id e) (reason_or env dflt))
         (Some (event_id (metadata env)))))))"

definition handle_payment_failed ::
  "externs \<Rightarrow> event_envelope \<Rightarrow> (order_db srv, app_error, unit) eff" where
  "handle_payment_failed x env = cancel_order_on_payment_failure x env ''Payment failed''"

definition handle_payment_timed_out ::
  "externs \<Rightarrow> event_envelope \<Rightarrow> (order_db srv, app_error, unit) eff" where
  "handle_payment_timed_out x env = cancel_order_on_payment_failure x env ''Payment timed out''"

definition order_handle :: "externs \<Rightarrow> (order_db, 'x) handler" where
  "order_handle x env =
     (case event_type (metadata env) of
        InventoryReserved \<Rightarrow> on_fst (map_err transient_of (handle_inventory_reserved x env))
      | InventoryReservationFailed \<Rightarrow>
          on_fst (map_err transient_of (handle_inventory_reservation_failed x env))
      | PaymentAuthorized \<Rightarrow> on_fst (map_err transient_of (handle_payment_authorized x env))
      | PaymentFailed \<Rightarrow> on_fst (map_err transient_of (handle_payment_failed x env))
      | PaymentTimedOut \<Rightarrow> on_fst (map_err transient_of (handle_payment_timed_out x env))
      | _ \<Rightarrow> ret ())"

end
