(* ===== verification/Order_Proofs.thy ===== *)
theory Order_Proofs
  imports Order_Service
begin

text \<open>
  The order service's correctness: how orders evolve under its event handlers for every
  schedule of faults, redeliveries and message orders, and the functional behaviour of its
  operations.
\<close>

section \<open>Statements of the repository\<close>

lemma keeps_order_ops [frame_rules]:
  "keeps committed (get_order_by_id x ex oid)" "keeps current (get_order_by_id x ex oid)"
  "keeps committed (checked_transition e st)" "keeps current (checked_transition e st)"
  "keeps committed (update_order_status x oid st reason)"
  "keeps committed (write_order_outbox x oid et pl cause)"
  by (auto simp: get_order_by_id_def checked_transition_def update_order_status_def
      write_order_outbox_def Let_def intro!: frame_rules split: option.split)

lemma keeps_order_handlers [frame_rules]:
  "keeps committed (handle_inventory_reserved x env)"
  "keeps committed (handle_inventory_reservation_failed x env)"
  "keeps committed (handle_payment_authorized x env)"
  "keeps committed (cancel_order_on_payment_failure x env dflt)"
  by (auto simp: handle_inventory_reserved_def handle_inventory_reservation_failed_def
      handle_payment_authorized_def cancel_order_on_payment_failure_def intro!: frame_rules)

lemma wp_get_order_by_id_Tx:
  assumes "\<And>e rest. \<not> aborted s \<Longrightarrow> filter (\<lambda>o1. or_id o1 = oid) (orders (current s)) = e # rest \<Longrightarrow>
      Q e (pop_fault s)"
  shows "wp (get_order_by_id x Tx oid) Q (\<lambda>_. True) s"
  using assms
  by (auto simp: get_order_by_id_def fetch_one_def query_def wp_simps wp_throw wp_ret
      intro!: wp_stmt_Tx split: list.split)

lemma wp_checked_transition [wp_simps]:
  "wp (checked_transition e st) Q E s = (if order_allowed (or_status e) st then Q st s else E s)"
  by (simp add: checked_transition_def wp_simps order_transition_to_def)

lemma wp_update_order_status:
  assumes "\<And>t. \<not> aborted s \<Longrightarrow> \<not> aborted t \<Longrightarrow>
      count_where (\<lambda>e. or_id e = oid) (orders (current s)) = 1 \<Longrightarrow>
      current t = (current s)\<lparr>orders :=
        update_where (\<lambda>e. or_id e = oid) (set_status st reason (db_now s)) (orders (current s))\<rparr> \<Longrightarrow>
      db_now t = db_now s \<Longrightarrow> Q () t"
  shows "wp (update_order_status x oid st reason) Q (\<lambda>_. True) s"
  using assms
  by (auto simp: update_order_status_def wp_simps wp_throw wp_ret wp_panic intro!: wp_stmt_Tx)

definition announced :: "order_db \<Rightarrow> event_type \<Rightarrow> uuid \<Rightarrow> bool" where
  "announced d et oid \<longleftrightarrow>
     (\<exists>r \<in> set (outbox_events d). ob_event_type r = event_type_str et \<and> ob_aggregate_id r = oid \<and>
        ob_topic r = ''orders.events'')"

lemma wp_write_order_outbox:
  assumes "\<And>t r. current t = (current s)\<lparr>outbox_events := outbox_events (current s) @ [r]\<rparr> \<Longrightarrow>
      ob_event_type r = event_type_str et \<Longrightarrow> ob_aggregate_id r = oid \<Longrightarrow> ob_topic r = ''orders.events'' \<Longrightarrow>
      \<not> aborted t \<Longrightarrow> Q () t"
  shows "wp (write_order_outbox x oid et pl cause) Q (\<lambda>_. True) s"
  by (cases cause)
     (auto simp: write_order_outbox_def wp_simps wp_ret Let_def with_causation_id_def
      event_envelope_new_def from_envelope_def outbox_row_def intro!: wp_insert_outbox_Tx assms)

section \<open>How orders evolve\<close>

definition same_order :: "order_entity \<Rightarrow> order_entity \<Rightarrow> bool" where
  "same_order a b \<longleftrightarrow>
     or_id b = or_id a \<and> or_created_at b = or_created_at a \<and> or_buyer_id b = or_buyer_id a \<and>
     or_total_amount b = or_total_amount a \<and> or_currency b = or_currency a \<and>
     or_idempotency_key b = or_idempotency_key a \<and> or_shipping_address b = or_shipping_address a"

definition order_succ :: "order_db \<Rightarrow> order_entity \<Rightarrow> order_entity \<Rightarrow> bool" where
  "order_succ d' a b \<longleftrightarrow>
     same_order a b \<and> order_path (or_status a) (or_status b) \<and>
     (or_status b = OConfirmed \<longrightarrow> or_status a = OConfirmed \<or> announced d' OrderConfirmed (or_id a))"

text \<open>
  From one database to a later one: orders keep their place and everything but status,
  reason and update time; statuses follow the machine; an order that became confirmed has
  its \<open>OrderConfirmed\<close> event in the outbox; items and events are only added.
\<close>

definition order_evolves :: "order_db \<Rightarrow> order_db \<Rightarrow> bool" where
  "order_evolves d d' \<longleftrightarrow>
     list_all2 (order_succ d') (orders d) (orders d') \<and>
     order_items d' = order_items d \<and> prefix (outbox_events d) (outbox_events d')"

lemma announced_mono: "prefix (outbox_events d) (outbox_events d') \<Longrightarrow> announced d et oid \<Longrightarrow> announced d' et oid"
  using set_mono_prefix by (fastforce simp: announced_def)

lemma order_succ_refl: "order_succ d a a"
  by (simp add: order_succ_def same_order_def order_path_refl)

lemma order_succ_trans:
  assumes "order_succ d' a b" "order_succ d'' b c" "prefix (outbox_events d') (outbox_events d'')"
  shows "order_succ d'' a c"
  using assms announced_mono[OF assms(3)]
  by (auto simp: order_succ_def same_order_def intro: order_path_trans)

lemma order_evolves_refl: "order_evolves d d"
  by (simp add: order_evolves_def order_succ_refl list_all2_refl)

lemma order_evolves_trans:
  assumes "order_evolves d d'" "order_evolves d' d''" shows "order_evolves d d''"
proof -
  have "list_all2 (order_succ d'') (orders d) (orders d'')"
    using assms by (auto simp: order_evolves_def intro: list_all2_trans[rotated 1] order_succ_trans)
  then show ?thesis using assms by (auto simp: order_evolves_def)
qed

lemma order_evolves_marks: "order_evolves d (d\<lparr>processed_events := ps\<rparr>)"
  by (simp add: order_evolves_def order_succ_def same_order_def order_path_refl list_all2_refl)

lemma set_status_same [simp]:
  "same_order e (set_status st reason now e)" "or_status (set_status st reason now e) = st"
  "or_id (set_status st reason now e) = or_id e"
  by (simp_all add: same_order_def set_status_def split: option.split)

lemma same_order_trans: "same_order a b \<Longrightarrow> same_order b c \<Longrightarrow> same_order a c"
  by (simp add: same_order_def)

lemma count_one_unique:
  assumes "count_where P xs = Suc 0" "filter P xs = e # rest" "r \<in> set xs" "P r"
  shows "r = e"
proof -
  have "filter P xs = [e]" using assms(1,2) by (simp add: count_where_def)
  then have "set (filter P xs) = {e}" by simp
  then show ?thesis using assms(3,4) by auto
qed

lemma update_where_twice:
  "(\<And>r. P r \<Longrightarrow> P (g r)) \<Longrightarrow> update_where P f (update_where P g xs) = update_where P (\<lambda>r. f (g r)) xs"
  by (induction xs) auto

text \<open>Moving one order along the machine is an evolution.\<close>

lemma order_evolves_update:
  assumes found: "filter (\<lambda>o1. or_id o1 = oid) (orders d) = e # rest"
    and one: "count_where (\<lambda>e. or_id e = oid) (orders d) = Suc 0"
    and path: "order_path (or_status e) st"
    and f: "\<And>a. same_order a (f a)" "\<And>a. or_status (f a) = st"
    and conf: "st = OConfirmed \<Longrightarrow> announced d' OrderConfirmed oid"
    and d': "orders d' = update_where (\<lambda>e. or_id e = oid) f (orders d)"
      "order_items d' = order_items d" "prefix (outbox_events d) (outbox_events d')"
  shows "order_evolves d d'"
proof -
  have "order_succ d' a (if or_id a = oid then f a else a)" if "a \<in> set (orders d)" for a
  proof (cases "or_id a = oid")
    case True
    then have "a = e" using count_one_unique[OF one found that] by simp
    then show ?thesis using True path f conf by (simp add: order_succ_def)
  qed (simp add: order_succ_refl)
  then have "list_all2 (order_succ d') (orders d) (orders d')"
    unfolding d' update_where_def by (auto simp: list_all2_conv_all_nth)
  then show ?thesis using d' by (simp add: order_evolves_def)
qed

lemma order_evolves_set_status:
  assumes "filter (\<lambda>o1. or_id o1 = oid) (orders d) = e # rest"
    and "count_where (\<lambda>e. or_id e = oid) (orders d) = Suc 0"
    and "order_allowed (or_status e) st" and "st \<noteq> OConfirmed"
  shows "order_evolves d
      (d\<lparr>orders := update_where (\<lambda>e. or_id e = oid) (set_status st reason now) (orders d)\<rparr>)"
    and "order_evolves d
      (d\<lparr>orders := update_where (\<lambda>e. or_id e = oid) (set_status st reason now) (orders d),
         outbox_events := outbox_events d @ rs\<rparr>)"
  by (rule order_evolves_update[OF assms(1,2) order_path_allowed[OF assms(3)],
        where f = "set_status st reason now"]; use assms(4) in simp)+

section \<open>The handlers keep the evolution\<close>

definition tx_post :: "order_db srv \<Rightarrow> unit \<Rightarrow> order_db srv \<Rightarrow> bool" where
  "tx_post s u t \<longleftrightarrow>
     order_evolves (current s) (current t) \<and> processed_events (current t) = processed_events (current s)"

lemma tx_post_same: "current t = current s \<Longrightarrow> tx_post s u t"
  by (simp add: tx_post_def order_evolves_refl)

lemmas handler_wps = wp_get_order_by_id_Tx wp_update_order_status wp_write_order_outbox

lemma handle_inventory_reserved_post: "wp (handle_inventory_reserved x env) (tx_post s) (\<lambda>_. True) s"
  unfolding handle_inventory_reserved_def wp_simps
  by (auto simp: tx_post_def wp_simps order_evolves_set_status split: result.split intro!: handler_wps)

lemma handle_inventory_reservation_failed_post:
  "wp (handle_inventory_reservation_failed x env) (tx_post s) (\<lambda>_. True) s"
  unfolding handle_inventory_reservation_failed_def wp_simps
  by (auto simp: tx_post_def wp_simps order_evolves_set_status split: result.split intro!: handler_wps)

lemma cancel_on_payment_failure_post:
  "wp (cancel_order_on_payment_failure x env dflt) (tx_post s) (\<lambda>_. True) s"
  unfolding cancel_order_on_payment_failure_def wp_simps
  by (auto simp: tx_post_def wp_simps order_evolves_set_status split: result.split intro!: handler_wps)

lemma handle_payment_authorized_post: "wp (handle_payment_authorized x env) (tx_post s) (\<lambda>_. True) s"
proof -
  have "order_evolves d (d\<lparr>orders := update_where (\<lambda>e. or_id e = oid) (set_status OConfirmed None now)
      (update_where (\<lambda>e. or_id e = oid) (set_status OPaymentAuthorized None now) (orders d)),
      outbox_events := outbox_events d @ [r]\<rparr>)"
    if "filter (\<lambda>o1. or_id o1 = oid) (orders d) = e # rest" "count_where (\<lambda>e. or_id e = oid) (orders d) = Suc 0"
      "order_allowed (or_status e) OPaymentAuthorized" "ob_event_type r = event_type_str OrderConfirmed"
      "ob_aggregate_id r = oid" "ob_topic r = ''orders.events''" for d oid now r e rest
  proof (rule order_evolves_update[OF that(1,2)])
    show "order_path (or_status e) OConfirmed"
      by (rule order_path_trans[OF order_path_allowed[OF that(3)] order_path_allowed]) simp
    show "orders (d\<lparr>orders := update_where (\<lambda>e. or_id e = oid) (set_status OConfirmed None now)
      (update_where (\<lambda>e. or_id e = oid) (set_status OPaymentAuthorized None now) (orders d)),
      outbox_events := outbox_events d @ [r]\<rparr>) = update_where (\<lambda>e. or_id e = oid)
        (\<lambda>e. set_status OConfirmed None now (set_status OPaymentAuthorized None now e)) (orders d)"
      by (simp add: update_where_twice)
    show "same_order a (set_status OConfirmed None now (set_status OPaymentAuthorized None now a))" for a
      by (rule same_order_trans[OF set_status_same(1) set_status_same(1)])
  qed (use that in \<open>auto simp: announced_def\<close>)
  then show ?thesis
    unfolding handle_payment_authorized_def wp_simps
    by (auto simp: tx_post_def wp_simps split: result.split
        intro!: handler_wps)
qed

lemma order_handle_post:
  assumes "order_handle x env (s, y) = (r, (t, y'))"
  shows "committed t = committed s \<and> (r = Ok () \<longrightarrow> tx_post s () t)"
proof -
  note posts = handle_inventory_reserved_post[of x env s] handle_inventory_reservation_failed_post[of x env s]
    handle_payment_authorized_post[of x env s] cancel_on_payment_failure_post[of x env "''Payment failed''" s]
    cancel_on_payment_failure_post[of x env "''Payment timed out''" s]
  have one: "committed t = committed s \<and> (r = Ok () \<longrightarrow> tx_post s () t)"
    if k: "keeps committed m" and post: "wp m (tx_post s) (\<lambda>_. True) s"
      and run: "on_fst (map_err transient_of m) (s, y) = (r, (t, y'))" for m
  proof -
    obtain q where q: "m s = (q, t)" "r = map_err_result transient_of q"
      using run by (rule on_fst_map_err_run)
    show ?thesis
      using keepsD[OF k q(1)] wp_Ok_D[OF post, of "()" t] q by simp
  qed
  note cases = one[OF keeps_order_handlers(1) posts(1)] one[OF keeps_order_handlers(2) posts(2)]
    one[OF keeps_order_handlers(3) posts(3)] one[OF keeps_order_handlers(4) posts(4)]
    one[OF keeps_order_handlers(4) posts(5)]
  show ?thesis
    using assms cases
    by (cases "event_type (metadata env)")
       (simp_all add: order_handle_def handle_payment_failed_def handle_payment_timed_out_def run_ret
        tx_post_same)
qed

interpretation orders: event_handler "order_handle x" order_evolves
proof
  show "order_evolves d d" for d by (rule order_evolves_refl)
  show "order_evolves d d' \<Longrightarrow> order_evolves d' d'' \<Longrightarrow> order_evolves d d''" for d d' d''
    by (rule order_evolves_trans)
  show "order_evolves d (d\<lparr>processed_events := ps\<rparr>)" for d ps by (rule order_evolves_marks)
qed (auto dest!: order_handle_post simp: tx_post_def order_evolves_refl)

section \<open>Runs in a healthy session\<close>

lemma run_get_order_Tx:
  "healthy s \<Longrightarrow> filter (\<lambda>o1. or_id o1 = oid) (orders (current s)) = e # es \<Longrightarrow>
     get_order_by_id x Tx oid s = (Ok e, s)"
  by (simp add: get_order_by_id_def map_err_def run_fetch_one_healthy)

lemma run_get_order_Pool:
  "healthy s \<Longrightarrow> filter (\<lambda>o1. or_id o1 = oid) (orders (committed s)) = e # es \<Longrightarrow>
     get_order_by_id x Pool oid s = (Ok e, s)"
  by (simp add: get_order_by_id_def map_err_def run_fetch_one_healthy)

lemma run_get_order_missing:
  "healthy s \<Longrightarrow> filter (\<lambda>o1. or_id o1 = oid) (orders (current s)) = [] \<Longrightarrow>
     get_order_by_id x Tx oid s = (Err (NotFound (''Order not found: '' @ db_text x RowNotFound)), s)"
  "healthy s \<Longrightarrow> filter (\<lambda>o1. or_id o1 = oid) (orders (committed s)) = [] \<Longrightarrow>
     get_order_by_id x Pool oid s = (Err (NotFound (''Order not found: '' @ db_text x RowNotFound)), s)"
  by (simp_all add: get_order_by_id_def map_err_def run_fetch_one_healthy)

lemma run_update_order_status:
  assumes "healthy s" and "count_where (\<lambda>e. or_id e = oid) (orders (current s)) = 1"
  shows "update_order_status x oid st reason s =
    (Ok (), s\<lparr>current := (current s)\<lparr>orders :=
       update_where (\<lambda>e. or_id e = oid) (set_status st reason (db_now s)) (orders (current s))\<rparr>\<rparr>)"
  using assms by (simp add: update_order_status_def bnd_def map_err_def run_ret)

definition order_envelope ::
  "order_db srv \<Rightarrow> uuid \<Rightarrow> event_type \<Rightarrow> json \<Rightarrow> uuid option \<Rightarrow> event_envelope" where
  "order_envelope s oid et pl cause =
     event_envelope_new
       \<lparr>event_id = uuids s (ticks s), event_type = et, aggregate_type = AggOrder, aggregate_id = oid,
        event_time = clock s (ticks s), source_service = SOrder, correlation_id = None,
        causation_id = cause\<rparr> pl"

definition order_event_row ::
  "externs \<Rightarrow> order_db srv \<Rightarrow> uuid \<Rightarrow> event_type \<Rightarrow> json \<Rightarrow> uuid option \<Rightarrow> outbox_event" where
  "order_event_row x s oid et pl cause =
     outbox_row (from_envelope x ''orders.events'' (order_envelope s oid et pl cause))
       (uuids s (Suc (ticks s))) (db_now s)"

definition order_event_room ::
  "externs \<Rightarrow> order_db srv \<Rightarrow> uuid \<Rightarrow> event_type \<Rightarrow> json \<Rightarrow> uuid option \<Rightarrow> bool" where
  "order_event_room x s oid et pl cause \<longleftrightarrow>
     outbox_room x (from_envelope x ''orders.events'' (order_envelope s oid et pl cause))
       (s\<lparr>ticks := Suc (ticks s)\<rparr>)"

lemma run_write_order_outbox:
  assumes "healthy s" and "order_event_room x s oid et pl cause"
  shows "write_order_outbox x oid et pl cause s =
    (Ok (), s\<lparr>ticks := Suc (Suc (ticks s)),
       current := (current s)\<lparr>outbox_events := outbox_events (current s) @
         [order_event_row x s oid et pl cause]\<rparr>\<rparr>)"
proof -
  let ?s = "s\<lparr>ticks := Suc (ticks s)\<rparr>"
  have "healthy ?s" using assms(1) by simp
  note ins = run_insert_outbox_Tx[OF this assms(2)[unfolded order_event_room_def]]
  show ?thesis
    using ins
    by (cases cause)
       (simp_all add: write_order_outbox_def bnd_def run_event_metadata_new Let_def run_ret
        with_causation_id_def order_event_row_def order_envelope_def)
qed

lemma order_event_room_status [simp]:
  "order_event_room x (s\<lparr>current := (current s)\<lparr>orders := os\<rparr>\<rparr>) oid et pl cause =
     order_event_room x s oid et pl cause"
  "order_event_row x (s\<lparr>current := d\<rparr>) oid et pl cause = order_event_row x s oid et pl cause"
  by (simp_all add: order_event_room_def outbox_room_def order_event_row_def order_envelope_def)

text \<open>The authorization of the payment confirms a reserved order and announces it.\<close>

definition confirmed_payload :: "externs \<Rightarrow> uuid \<Rightarrow> uuid \<Rightarrow> json" where
  "confirmed_payload x oid buyer =
     JObject [(''order_id'', JString (uuid_str x oid)), (''buyer_id'', JString (uuid_str x buyer))]"

lemma count_where_filter: "filter P xs = [e] \<Longrightarrow> count_where P xs = 1"
  by (simp add: count_where_def)

lemma run_handle_payment_authorized:
  assumes h: "healthy s" and oid: "payload_uuid x env ''order_id'' = Ok oid"
    and e: "filter (\<lambda>e. or_id e = oid) (orders (current s)) = [e]"
    and st: "or_status e = OInventoryReserved"
    and room: "order_event_room x s oid OrderConfirmed (confirmed_payload x oid (or_buyer_id e))
      (Some (event_id (metadata env)))"
  shows "\<exists>t. handle_payment_authorized x env s = (Ok (), t) \<and> healthy t \<and>
    current t = (current s)\<lparr>
      orders := update_where (\<lambda>e. or_id e = oid) (\<lambda>e. set_status OConfirmed None (db_now s)
        (set_status OPaymentAuthorized None (db_now s) e)) (orders (current s)),
      outbox_events := outbox_events (current s) @ [order_event_row x s oid OrderConfirmed
        (confirmed_payload x oid (or_buyer_id e)) (Some (event_id (metadata env)))]\<rparr>"
proof -
  let ?P = "\<lambda>e. or_id e = oid"
  let ?s1 = "s\<lparr>current := (current s)\<lparr>orders := update_where ?P (set_status OPaymentAuthorized None (db_now s)) (orders (current s))\<rparr>\<rparr>"
  have one: "count_where ?P (orders (current s)) = 1" using e by (rule count_where_filter)
  then have one1: "count_where ?P (orders (current ?s1)) = 1"
    by (simp add: count_where_def update_where_def filter_map o_def if_distrib[of or_id])
  have u1: "update_order_status x oid OPaymentAuthorized None s = (Ok (), ?s1)"
    using run_update_order_status[OF h one] .
  have h1: "healthy ?s1" using h by simp
  have u2: "update_order_status x oid OConfirmed None ?s1 = (Ok (), s\<lparr>current := (current s)\<lparr>orders :=
      update_where ?P (\<lambda>e. set_status OConfirmed None (db_now s) (set_status OPaymentAuthorized None (db_now s) e))
        (orders (current s))\<rparr>\<rparr>)" (is "_ = (_, ?s2)")
    using run_update_order_status[OF h1 one1] by (simp add: update_where_twice)
  have w: "write_order_outbox x oid OrderConfirmed (confirmed_payload x oid (or_buyer_id e))
      (Some (event_id (metadata env))) ?s2 = (Ok (), ?s2\<lparr>ticks := Suc (Suc (ticks s)),
       current := (current ?s2)\<lparr>outbox_events := outbox_events (current s) @ [order_event_row x s oid OrderConfirmed
        (confirmed_payload x oid (or_buyer_id e)) (Some (event_id (metadata env)))]\<rparr>\<rparr>)"
    using run_write_order_outbox[of ?s2] h room by simp
  have "checked_transition e OPaymentAuthorized s = (Ok OPaymentAuthorized, s)"
    by (simp add: checked_transition_def run_of_result order_transition_to_def st)
  then show ?thesis
    using u1 u2 w oid run_get_order_Tx[OF h e] h
    by (simp add: handle_payment_authorized_def bnd_def run_of_result confirmed_payload_def)
qed

section \<open>Creating an order\<close>

lemma wp_insert_items:
  "orders (current s) = os \<Longrightarrow> outbox_events (current s) = obs \<Longrightarrow>
   wp (insert_items x oid items) (\<lambda>_ t. orders (current t) = os \<and> outbox_events (current t) = obs) (\<lambda>_. True) s"
  unfolding insert_items_def
  by (rule wp_for_each)
     (auto simp: wp_simps insert_item_sql_def intro!: wp_stmt_Tx split: sum.splits if_splits)

definition new_order :: "uuid \<Rightarrow> valid_order_req \<Rightarrow> order_entity \<Rightarrow> bool" where
  "new_order buyer v row \<longleftrightarrow>
     or_buyer_id row = buyer \<and> or_status row = OPending \<and>
     numeric_col (vr_total_amount v) = Inr (or_total_amount row) \<and>
     or_idempotency_key row = vr_idempotency_key v \<and> or_cancelled_reason row = None"

lemma new_order_row:
  "numeric_col (vr_total_amount v) = Inr amount \<Longrightarrow>
     new_order buyer v (order_row rid now buyer amount cur (vr_idempotency_key v) ship)"
  by (simp add: new_order_def order_row_def)

lemma or_id_order_row [simp]: "or_id (order_row rid now buyer amount cur key ship) = rid"
  by (simp add: order_row_def)

lemma insert_order_sql_InrE:
  assumes "insert_order_sql buyer req ship rid now d = Inr (oid, d')"
  obtains amount cur key where "numeric_col (vr_total_amount req) = Inr amount"
    "varchar_col 255 (vr_idempotency_key req) = Inr key"
    "oid = rid" "rid \<notin> or_id ` set (orders d)" "key \<notin> or_idempotency_key ` set (orders d)"
    "d' = d\<lparr>orders := orders d @ [order_row rid now buyer amount cur key ship]\<rparr>"
  using assms by (auto simp: insert_order_sql_def split: sum.splits if_splits)

lemma wp_create_order_tx:
  assumes "length (vr_idempotency_key v) \<le> 255"
  shows "wp (create_order_tx x buyer v)
    (\<lambda>oid t. \<exists>row. orders (current t) = orders (current s) @ [row] \<and> new_order buyer v row \<and> or_id row = oid \<and>
       oid \<notin> or_id ` set (orders (current s)) \<and>
       vr_idempotency_key v \<notin> or_idempotency_key ` set (orders (current s)) \<and>
       outbox_events (current t) = outbox_events (current s)) (\<lambda>_. True) s"
  unfolding create_order_tx_def Let_def wp_simps
proof (rule wp_stmt_Tx, goal_cases)
  case (1 oid d)
  then obtain row where row: "orders d = orders (current s) @ [row]" "new_order buyer v row" "or_id row = oid"
    "oid \<notin> or_id ` set (orders (current s))"
    "vr_idempotency_key v \<notin> or_idempotency_key ` set (orders (current s))"
    "outbox_events d = outbox_events (current s)"
    using varchar_col_short[OF assms] new_order_row
    by (elim insert_order_sql_InrE) auto
  show ?case
    by (rule wp_mono[OF wp_insert_items[where os = "orders d" and obs = "outbox_events d"]])
       (use row in \<open>auto simp: wp_ret\<close>)
qed simp_all

lemma wp_create_order_body:
  assumes "length (vr_idempotency_key v) \<le> 255"
  shows "wp (create_order_body x buyer v)
    (\<lambda>oid t. \<not> aborted t \<and> announced (current t) OrderCreated oid \<and>
       (\<exists>row. orders (current t) = orders (current s) @ [row] \<and> new_order buyer v row \<and> or_id row = oid \<and>
       oid \<notin> or_id ` set (orders (current s)) \<and>
       vr_idempotency_key v \<notin> or_idempotency_key ` set (orders (current s)))) (\<lambda>_. True) s"
  unfolding create_order_body_def wp_simps
  by (rule wp_mono[OF wp_create_order_tx[OF assms]])
     (auto intro!: wp_write_order_outbox simp: wp_ret announced_def)

text \<open>A reported success is durable: the order is committed, alone with its identifier and
  key, together with its \<open>OrderCreated\<close> event.\<close>

lemma create_order_tx_Ok:
  assumes run: "with_transaction (create_order_body x buyer v) s = (Ok oid, t)"
    and len: "length (vr_idempotency_key v) \<le> 255"
  obtains row where "orders (committed t) = orders (committed s) @ [row]" "new_order buyer v row" "or_id row = oid"
    "filter (\<lambda>e. or_id e = oid) (orders (committed t)) = [row]"
    "filter (\<lambda>e. or_idempotency_key e = vr_idempotency_key v) (orders (committed t)) = [row]"
    "announced (committed t) OrderCreated oid"
proof -
  obtain u where u: "create_order_body x buyer v (tx_start s) = (Ok oid, u)"
    "committed t = (if aborted u then committed u else current u)"
    using run by (rule with_transaction_Ok)
  from wp_Ok_D[OF wp_create_order_body[OF len] u(1)] obtain row where row: "\<not> aborted u"
    "announced (current u) OrderCreated oid" "orders (current u) = orders (committed s) @ [row]"
    "new_order buyer v row" "or_id row = oid" "oid \<notin> or_id ` set (orders (committed s))"
    "vr_idempotency_key v \<notin> or_idempotency_key ` set (orders (committed s))"
    by auto
  have "filter (\<lambda>e. or_id e = oid) (orders (committed s)) = []"
    "filter (\<lambda>e. or_idempotency_key e = vr_idempotency_key v) (orders (committed s)) = []"
    using row(6,7) by (force simp: filter_empty_conv)+
  then show ?thesis using that[of row] row u(2) by (simp add: new_order_def)
qed

text \<open>What a successful call returned: the order found under the key, old or new.\<close>

lemma valid_order_req_key:
  "valid_order_req_new x key req = Ok v \<Longrightarrow>
     vr_idempotency_key v = trim key \<and> length (vr_idempotency_key v) \<le> 255"
  by (auto simp: valid_order_req_new_def and_then_Ok_iff idempotency_key_new_Ok_iff split: if_splits prod.splits)

lemma get_order_by_id_Pool_Ok:
  "get_order_by_id x Pool oid s = (Ok e, t) \<Longrightarrow>
     \<exists>es. filter (\<lambda>o1. or_id o1 = oid) (orders (committed s)) = e # es \<and> committed t = committed s"
  by (cases "filter (\<lambda>o1. or_id o1 = oid) (orders (committed s))")
     (auto simp: get_order_by_id_def ok_iffs fetch_one_def query_def ret_def throw_def split: if_splits)

lemma get_order_by_key_Pool_Ok:
  "get_order_by_idempotency_key x Pool key s = (Ok v, t) \<Longrightarrow> committed t = committed s \<and>
     v = (case filter (\<lambda>o1. or_idempotency_key o1 = key) (orders (committed s)) of [] \<Rightarrow> None | e # _ \<Rightarrow> Some e)"
  by (cases "filter (\<lambda>o1. or_idempotency_key o1 = key) (orders (committed s))")
     (auto simp: get_order_by_idempotency_key_def ok_iffs fetch_optional_def query_def ret_def split: if_splits)

lemma create_order_steps:
  assumes "create_order x user key req s = (Ok res, t)"
  obtains v found s1 where "valid_order_req_new x key req = Ok v"
    "get_order_by_idempotency_key x Pool (trim key) s = (Ok found, s1)" "committed s1 = committed s"
    "(\<exists>e. found = Some e \<and> e \<in> set (orders (committed s)) \<and> or_idempotency_key e = trim key \<and>
        res = order_res_new x e \<and> t = s1) \<or>
     found = None \<and> (\<exists>oid s2 e. with_transaction (create_order_body x (cu_id user) v) s1 = (Ok oid, s2) \<and>
        get_order_by_id x Pool oid s2 = (Ok e, t) \<and> res = order_res_new x e)"
proof -
  obtain v where v: "valid_order_req_new x key req = Ok v"
    using assms by (auto simp: create_order_def ok_iffs)
  note key = valid_order_req_key[OF v]
  from assms v obtain found s1 where l: "get_order_by_idempotency_key x Pool (trim key) s = (Ok found, s1)"
    using key by (auto simp: create_order_def ok_iffs Let_def throw_def split: if_splits)
  have rest: "(\<exists>e. found = Some e \<and> res = order_res_new x e \<and> t = s1) \<or>
      found = None \<and> (\<exists>oid s2 e. with_transaction (create_order_body x (cu_id user) v) s1 = (Ok oid, s2) \<and>
         get_order_by_id x Pool oid s2 = (Ok e, t) \<and> res = order_res_new x e)"
    using assms v l key
    by (cases found) (auto simp: create_order_def ok_iffs Let_def throw_def ret_def split: if_splits)
  note lk = get_order_by_key_Pool_Ok[OF l]
  have "e \<in> set (orders (committed s)) \<and> or_idempotency_key e = trim key" if "found = Some e" for e
  proof -
    obtain es where "filter (\<lambda>o1. or_idempotency_key o1 = trim key) (orders (committed s)) = e # es"
      using lk \<open>found = Some e\<close> by (auto split: list.splits)
    then have "e \<in> set (filter (\<lambda>o1. or_idempotency_key o1 = trim key) (orders (committed s)))" by simp
    then show ?thesis by simp
  qed
  then have "(\<exists>e. found = Some e \<and> e \<in> set (orders (committed s)) \<and> or_idempotency_key e = trim key \<and>
        res = order_res_new x e \<and> t = s1) \<or>
     found = None \<and> (\<exists>oid s2 e. with_transaction (create_order_body x (cu_id user) v) s1 = (Ok oid, s2) \<and>
        get_order_by_id x Pool oid s2 = (Ok e, t) \<and> res = order_res_new x e)"
    using rest by auto
  then show thesis by (rule that[OF v l conjunct1[OF lk]])
qed

lemma create_order_found:
  assumes "create_order x user key req s = (Ok res, t)"
  shows "\<exists>e es. filter (\<lambda>o1. or_idempotency_key o1 = trim key) (orders (committed t)) = e # es \<and>
    res = order_res_new x e"
proof -
  obtain v found s1 where v: "valid_order_req_new x key req = Ok v"
    and l: "get_order_by_idempotency_key x Pool (trim key) s = (Ok found, s1)"
    and rest: "(\<exists>e. found = Some e \<and> res = order_res_new x e \<and> t = s1) \<or>
      (\<exists>oid s2 e. with_transaction (create_order_body x (cu_id user) v) s1 = (Ok oid, s2) \<and>
         get_order_by_id x Pool oid s2 = (Ok e, t) \<and> res = order_res_new x e)"
    by (rule create_order_steps[OF assms]) blast
  note key = valid_order_req_key[OF v]
  from rest show ?thesis
  proof (elim disjE exE conjE)
    fix e assume "found = Some e" "res = order_res_new x e" "t = s1"
    then show ?thesis using get_order_by_key_Pool_Ok[OF l] by (auto split: list.splits)
  next
    fix oid s2 e assume w: "with_transaction (create_order_body x (cu_id user) v) s1 = (Ok oid, s2)"
      and g: "get_order_by_id x Pool oid s2 = (Ok e, t)" "res = order_res_new x e"
    obtain row where "filter (\<lambda>e. or_id e = oid) (orders (committed s2)) = [row]"
      "filter (\<lambda>e. or_idempotency_key e = trim key) (orders (committed s2)) = [row]"
      by (rule create_order_tx_Ok[OF w]) (use key in auto)
    then show ?thesis using get_order_by_id_Pool_Ok[OF g(1)] g(2) by auto
  qed
qed

lemma create_order_again:
  assumes "create_order x user key req s = (Ok res, t)" and "faults t = []"
    and "valid_order_req_new x key' req' = Ok v" and "trim key' = trim key"
    and "passed (evaluate_detailed creation_rules (eval_creation (creation_context v)))"
  shows "create_order x user' key' req' t = (Ok res, t)"
proof -
  obtain e es where e: "filter (\<lambda>o1. or_idempotency_key o1 = trim key) (orders (committed t)) = e # es"
    "res = order_res_new x e" using create_order_found[OF assms(1)] by blast
  have "get_order_by_idempotency_key x Pool (trim key) t = (Ok (Some e), t)"
    using assms(2) e
    by (simp add: get_order_by_idempotency_key_def map_err_def fetch_optional_def bnd_def query_def run_ret)
  then show ?thesis
    using assms(3-5) valid_order_req_key[OF assms(3)] e(2)
    by (simp add: create_order_def bnd_def run_of_result Let_def run_ret)
qed

section \<open>Cancelling an order\<close>

lemma cancel_order_refused:
  assumes "healthy s" and "filter (\<lambda>o1. or_id o1 = oid) (orders (committed s)) = e # es"
  shows "\<not> can_access user (or_buyer_id e) \<Longrightarrow> \<exists>m. cancel_order x user oid reason s = (Err (Forbidden m), s)"
    and "can_access user (or_buyer_id e) \<Longrightarrow> \<not> order_can_cancel (or_status e) \<Longrightarrow>
      \<exists>m. cancel_order x user oid reason s = (Err (BadRequest m), s)"
  using run_get_order_Pool[OF assms]
  by (simp_all add: cancel_order_def bnd_def run_of_result require_access_def Let_def
      cancellation_rules_iff run_throw)

lemma run_cancel_order:
  assumes h: "healthy s" and e: "filter (\<lambda>o1. or_id o1 = oid) (orders (committed s)) = [e]"
    and acc: "can_access user (or_buyer_id e)" and can: "order_can_cancel (or_status e)"
    and why: "why = (case reason of Some r \<Rightarrow> r | None \<Rightarrow> ''Cancelled by buyer'')"
    and room: "order_event_room x (tx_start s) oid OrderCancelled
      (order_cancelled_payload x oid (or_buyer_id e) why) None"
  shows "\<exists>t. cancel_order x user oid reason s = (Ok (), t) \<and> healthy t \<and>
    committed t = (committed s)\<lparr>
      orders := update_where (\<lambda>e. or_id e = oid) (set_status OCancelled (Some why) (clock s (ticks s)))
        (orders (committed s)),
      outbox_events := outbox_events (committed s) @ [order_event_row x (tx_start s) oid OrderCancelled
        (order_cancelled_payload x oid (or_buyer_id e) why) None]\<rparr>"
proof -
  let ?s0 = "tx_start s"
  let ?s1 = "?s0\<lparr>current := (committed s)\<lparr>orders := update_where (\<lambda>e. or_id e = oid)
    (set_status OCancelled (Some why) (clock s (ticks s))) (orders (committed s))\<rparr>\<rparr>"
  let ?pl = "order_cancelled_payload x oid (or_buyer_id e) why"
  let ?t = "?s1\<lparr>ticks := Suc (Suc (Suc (ticks s))), current := (current ?s1)\<lparr>outbox_events :=
     outbox_events (committed s) @ [order_event_row x ?s0 oid OrderCancelled ?pl None]\<rparr>\<rparr>"
  have u: "update_order_status x oid OCancelled (Some why) ?s0 = (Ok (), ?s1)"
    using run_update_order_status[where s = ?s0 and oid = oid] h count_where_filter[OF e] by simp
  have "order_event_room x ?s1 oid OrderCancelled ?pl None"
    using room order_event_room_status(1)[where s = ?s0] by simp
  then have w: "write_order_outbox x oid OrderCancelled ?pl None ?s1 = (Ok (), ?t)"
    using run_write_order_outbox[where s = ?s1] h by simp
  have b: "cancel_order_body x e oid why ?s0 = (Ok (), ?t)"
    using u w by (simp add: cancel_order_body_def bnd_def map_err_def)
  have wt: "with_transaction (cancel_order_body x e oid why) s =
      (Ok (), ?t\<lparr>committed := current ?t, current := current s, aborted := aborted s, db_now := db_now s\<rparr>)"
    by (rule with_transaction_healthy_Ok[where f = "cancel_order_body x e oid why", OF h b]) (use h in simp)
  have "order_allowed (or_status e) OCancelled" using can by (simp add: order_can_cancel_iff)
  then show ?thesis
    using run_get_order_Pool[OF h e] acc can wt why h
    by (simp add: cancel_order_def bnd_def run_of_result Let_def cancellation_rules_iff
        require_access_def order_transition_to_def map_err_def)
qed

section \<open>Listing orders\<close>

text \<open>The cursor condition is appended after \<open>GROUP BY\<close>: with a cursor every listing fails.\<close>

lemma grouped_keyset_fails:
  "pp_cursor p = Some c \<Longrightarrow> run_clauses k False (keyset_paginate p [GroupById]) rows = Inl DatatypeMismatch"
  by (cases "pp_direction p") (simp_all add: keyset_paginate_def)

lemma list_my_orders_cursor:
  assumes "pp_cursor p = Some c"
  shows "\<exists>m t. list_my_orders x buyer p st s = (Err (InternalServerError m), t)"
    and "\<exists>m t. list_seller_orders x seller p st s = (Err (InternalServerError m), t)"
  by (simp_all add: list_my_orders_def list_orders_by_buyer_def list_seller_orders_def
      list_orders_by_seller_def fetch_all_clauses_def bnd_def map_err_def grouped_keyset_fails[OF assms])

section \<open>Properties\<close>

definition demo_request :: create_order_req where
  "demo_request =
     \<lparr>cr_items = [demo_item], cr_currency = None,
      cr_shipping_address = \<lparr>sa_street = ''a'', sa_city = ''b'', sa_state = ''c'', sa_postal_code = ''1'', sa_country = ''US''\<rparr>\<rparr>"

definition demo_buyer :: current_user where
  "demo_buyer = \<lparr>cu_id = 9, cu_role = Buyer\<rparr>"

definition demo_orders :: "order_entity list \<Rightarrow> order_db" where
  "demo_orders rows = \<lparr>outbox_events = [], processed_events = [], orders = rows, order_items = []\<rparr>"

definition demo_valid :: valid_order_req where
  "demo_valid =
     \<lparr>vr_idempotency_key = ''k'', vr_currency = Currency ''USD'',
      vr_shipping_address = cr_shipping_address demo_request,
      vr_items = [\<lparr>vi_product_id = 1, vi_sku_id = 2, vi_product_name = ''p'', vi_sku_code = ''s'', vi_quantity = 2,
         vi_seller_id = 3, vi_unit_price = Price 5, vi_total_price = 10\<rparr>], vr_total_amount = 10\<rparr>"

lemma trim_demo: "c \<in> {CHR ''a'', CHR ''b'', CHR ''c'', CHR ''1'', CHR ''k''} \<Longrightarrow> trim [c] = [c]" "trim ''US'' = ''US''"
  by (auto simp: trim_def strip_prefixes.simps white_space_def)

lemma demo_request_valid: "valid_order_req_new demo_externs ''k'' demo_request = Ok demo_valid"
  by (simp add: valid_order_req_new_def demo_request_def idempotency_key_new_def trim_demo
     shipping_address_new_def demo_item_def quantity_new_def max_order_quantity_def price_new_def
     demo_externs_def or_panic_def currency_default_def demo_valid_def)

lemma demo_request_passes: "passed (evaluate_detailed creation_rules (eval_creation (creation_context demo_valid)))"
  by (simp add: creation_rules_iff creation_context_def demo_valid_def supported_currencies_def is_complete_def
      demo_request_def)

lemma numeric_demo: "numeric_col 5 = Inr 5" "numeric_col 10 = Inr 10"
  by (simp_all add: numeric_col_def round_places_def floor_eq_iff)

lemma demo_creation:
  "\<exists>t. with_transaction (create_order_body demo_externs 9 demo_valid) (demo_srv (demo_orders [])) = (Ok 101, t) \<and>
     faults t = []"
  by (simp add: with_transaction_def begin_tx_def commit_tx_def create_order_body_def create_order_tx_def Let_def
    bnd_def map_err_def next_uuid_def insert_order_sql_def demo_valid_def varchar_col_short numeric_demo demo_orders_def
    insert_items_def ret_def insert_item_sql_def order_row_def write_order_outbox_def run_event_metadata_new
    insert_outbox_event_def max_payload_bytes_def demo_externs_def insert_outbox_sql_def tx_start_def healthy_def
    resume_tx_def)

lemma demo_create_order:
  "\<exists>res t. create_order demo_externs demo_buyer ''k'' demo_request (demo_srv (demo_orders [])) = (Ok res, t) \<and> faults t = []"
proof -
  let ?s = "demo_srv (demo_orders [])"
  obtain t where t: "with_transaction (create_order_body demo_externs 9 demo_valid) ?s = (Ok 101, t)" "faults t = []"
    using demo_creation by blast
  have len: "length (vr_idempotency_key demo_valid) \<le> 255" by (simp add: demo_valid_def)
  obtain row where "filter (\<lambda>e. or_id e = 101) (orders (committed t)) = [row]"
    by (rule create_order_tx_Ok[OF t(1) len])
  then have "get_order_by_id demo_externs Pool 101 t = (Ok row, t)"
    using t(2) by (simp add: get_order_by_id_def fetch_one_def query_def map_err_def bnd_def ret_def)
  moreover have "get_order_by_idempotency_key demo_externs Pool ''k'' ?s = (Ok None, ?s)"
    by (simp add: get_order_by_idempotency_key_def fetch_optional_def query_def map_err_def bnd_def ret_def demo_orders_def)
  moreover have "vr_idempotency_key demo_valid = ''k''" "cu_id demo_buyer = 9"
    by (simp_all add: demo_valid_def demo_buyer_def)
  ultimately show ?thesis using t demo_request_valid demo_request_passes
    by (simp add: create_order_def bnd_def run_of_result Let_def map_err_def ret_def)
qed





text \<open>Cancellation, on a working connection: an order's owner or an administrator cancels an
  order whose status allows it, and the cancelled order with its reason and the \<open>OrderCancelled\<close>
  event are committed together, nothing else changes.\<close>

theorem cancel_order_commits:
  assumes "healthy s" "filter (\<lambda>o1. or_id o1 = oid) (orders (committed s)) = [e]"
    and "can_access user (or_buyer_id e)" "order_can_cancel (or_status e)"
    and "order_event_room x (tx_start s) oid OrderCancelled (order_cancelled_payload x oid (or_buyer_id e) reason) None"
  shows "\<exists>t. cancel_order x user oid (Some reason) s = (Ok (), t) \<and>
    committed t = (committed s)\<lparr>
      orders := update_where (\<lambda>e. or_id e = oid) (set_status OCancelled (Some reason) (clock s (ticks s)))
        (orders (committed s)),
      outbox_events := outbox_events (committed s) @ [order_event_row x (tx_start s) oid OrderCancelled
        (order_cancelled_payload x oid (or_buyer_id e) reason) None]\<rparr>"
  using run_cancel_order[OF assms(1-4) _ assms(5), of "Some reason"] by auto

definition demo_order :: "order_status \<Rightarrow> order_entity" where
  "demo_order st = (order_row 4 1 9 10 ''USD'' ''k'' JNull)\<lparr>or_status := st\<rparr>"

lemma demo_order_simps [simp]:
  "or_id (demo_order st) = 4" "or_status (demo_order st) = st" "or_buyer_id (demo_order st) = 9"
  by (simp_all add: demo_order_def order_row_def)

lemma demo_room: "order_event_room demo_externs (tx_start (demo_srv (demo_orders rows))) oid et pl cause"
  by (simp add: order_event_room_def outbox_room_def demo_externs_def max_payload_bytes_def demo_orders_def)

theorem cancel_order_commits_witness:
  "\<exists>t. cancel_order demo_externs demo_buyer 4 (Some ''no'') (demo_srv (demo_orders [demo_order OPending])) = (Ok (), t) \<and>
     map or_status (orders (committed t)) = [OCancelled] \<and> length (outbox_events (committed t)) = 1"
proof -
  let ?s = "demo_srv (demo_orders [demo_order OPending])"
  have "filter (\<lambda>o1. or_id o1 = 4) (orders (committed ?s)) = [demo_order OPending]" by (simp add: demo_orders_def)
  moreover have "can_access demo_buyer (or_buyer_id (demo_order OPending))"
    by (simp add: can_access_def demo_buyer_def)
  ultimately show ?thesis
    using cancel_order_commits[of ?s 4 "demo_order OPending" demo_buyer demo_externs "''no''"] demo_room
    by (auto simp: order_can_cancel_iff demo_orders_def set_status_def)
qed

text \<open>Refusals change nothing: a caller who is neither owner nor administrator is refused with
  \<open>Forbidden\<close>, an order in a status that cannot be cancelled with \<open>BadRequest\<close>, and the session is
  left exactly as it was.\<close>

theorem cancel_order_refusals:
  assumes "healthy s" "filter (\<lambda>o1. or_id o1 = oid) (orders (committed s)) = e # es"
  shows "if \<not> can_access user (or_buyer_id e) then \<exists>m. cancel_order x user oid reason s = (Err (Forbidden m), s)
    else order_can_cancel (or_status e) \<or> (\<exists>m. cancel_order x user oid reason s = (Err (BadRequest m), s))"
  using cancel_order_refused[OF assms, of user x reason] by auto

theorem cancel_order_refusals_witness:
  "\<exists>m. cancel_order demo_externs \<lparr>cu_id = 8, cu_role = Seller\<rparr> 4 None (demo_srv (demo_orders [demo_order OPending])) =
     (Err (Forbidden m), demo_srv (demo_orders [demo_order OPending]))"
proof -
  have "filter (\<lambda>o1. or_id o1 = 4) (orders (committed (demo_srv (demo_orders [demo_order OPending])))) = [demo_order OPending]"
    by (simp add: demo_orders_def)
  from cancel_order_refusals[OF _ this, of "\<lparr>cu_id = 8, cu_role = Seller\<rparr>" demo_externs None]
  show ?thesis by (simp add: can_access_def)
qed

text \<open>C9: Whatever messages the order consumer receives, in whatever order and with whatever
  failures of the database and of the dead-letter topic: no order appears, disappears or changes
  its buyer, amount, currency, key or address, every status follows the status machine, an order
  that became confirmed has its \<open>OrderConfirmed\<close> event in the outbox, and events are only added.\<close>

theorem order_consumer_evolution:
  "order_evolves (committed (cw_srv w)) (committed (cw_srv (snd (message_loop x cfg (order_handle x) msgs w))))"
proof -
  obtain r w' where "message_loop x cfg (order_handle x) msgs w = (r, w')" by fastforce
  from orders.message_loop_advances[OF this] this show ?thesis by (simp add: orders.advances_def)
qed

text \<open>In a working transaction a \<open>PaymentAuthorized\<close> event confirms a reserved order: it passes
  through payment-authorized to confirmed and the \<open>OrderConfirmed\<close> event, caused by the incoming
  one, is written with it.\<close>

theorem payment_authorized_confirms:
  assumes "healthy s" "payload_uuid x env ''order_id'' = Ok oid"
    and "filter (\<lambda>e. or_id e = oid) (orders (current s)) = [e]" "or_status e = OInventoryReserved"
    and "order_event_room x s oid OrderConfirmed (confirmed_payload x oid (or_buyer_id e)) (Some (event_id (metadata env)))"
  shows "\<exists>t. handle_payment_authorized x env s = (Ok (), t) \<and>
    map or_status (filter (\<lambda>e. or_id e = oid) (orders (current t))) = [OConfirmed] \<and>
    outbox_events (current t) = outbox_events (current s) @ [order_event_row x s oid OrderConfirmed
        (confirmed_payload x oid (or_buyer_id e)) (Some (event_id (metadata env)))]"
proof -
  let ?f = "\<lambda>e. set_status OConfirmed None (db_now s) (set_status OPaymentAuthorized None (db_now s) e)"
  have "filter (\<lambda>e. or_id e = oid) (update_where (\<lambda>e. or_id e = oid) ?f rows) =
      map ?f (filter (\<lambda>e. or_id e = oid) rows)" for rows
    by (induction rows) auto
  then show ?thesis using run_handle_payment_authorized[OF assms] assms(3) by (auto simp: set_status_def)
qed

theorem payment_authorized_confirms_witness:
  "\<exists>t. handle_payment_authorized demo_externs
       (demo_envelope PaymentAuthorized (JObject [(''order_id'', JString (uuid_str demo_externs 4))]))
       (demo_srv (demo_orders [demo_order OInventoryReserved])) = (Ok (), t) \<and>
     map or_status (filter (\<lambda>e. or_id e = 4) (orders (current t))) = [OConfirmed]"
proof -
  let ?env = "demo_envelope PaymentAuthorized (JObject [(''order_id'', JString (uuid_str demo_externs 4))])"
  let ?s = "demo_srv (demo_orders [demo_order OInventoryReserved])"
  have "payload_uuid demo_externs ?env ''order_id'' = Ok 4" by (simp add: payload_uuid_Ok_iff demo_envelope_def)
  moreover have "filter (\<lambda>e. or_id e = 4) (orders (current ?s)) = [demo_order OInventoryReserved]"
    by (simp add: demo_orders_def)
  moreover have "order_event_room demo_externs ?s 4 OrderConfirmed pl c" for pl c
    by (simp add: order_event_room_def outbox_room_def demo_externs_def max_payload_bytes_def demo_orders_def)
  ultimately show ?thesis
    using payment_authorized_confirms[of ?s demo_externs ?env 4 "demo_order OInventoryReserved"] by auto
qed

text \<open>C40: A listing with a cursor never works: the condition on the cursor is appended after the
  \<open>GROUP BY\<close> clause, Postgres rejects the statement, and every second page of a buyer's or a
  seller's orders is an internal server error.\<close>

theorem order_listing_with_cursor_fails:
  assumes "pp_cursor p = Some c"
  shows "(\<exists>m t. list_my_orders x buyer p st s = (Err (InternalServerError m), t)) \<and>
    (\<exists>m t. list_seller_orders x seller p st s = (Err (InternalServerError m), t))"
  using list_my_orders_cursor[OF assms] by simp

theorem order_listing_with_cursor_fails_witness:
  "\<exists>m t. list_my_orders demo_externs 9 \<lparr>pp_limit = 20, pp_cursor = Some 4, pp_direction = Forward\<rparr> None
     (demo_srv (demo_orders [demo_order OPending])) = (Err (InternalServerError m), t)"
  using order_listing_with_cursor_fails[of "\<lparr>pp_limit = 20, pp_cursor = Some 4, pp_direction = Forward\<rparr>" 4] by simp

end
