(* ===== verification/Payloads.thy ===== *)
theory Payloads
  imports Order_Proofs Inventory Payment
begin

text \<open>
  The typed payloads of the events on the order flow, \<open>order/src/events/types.rs\<close>: the contract between the services,
  which build and read the JSON by hand. The decoders are the derived \<open>Deserialize\<close>; unknown fields are
  ignored, every field is required.
\<close>

section \<open>Types\<close>

record order_created_item =
  oi_product_id :: uuid
  oi_sku_id :: uuid
  oi_quantity :: int
  oi_unit_price :: string

record order_created =
  oc_order_id :: uuid
  oc_buyer_id :: uuid
  oc_total_amount :: string
  oc_currency :: string
  oc_items :: "order_created_item list"

record order_confirmed =
  of_order_id :: uuid
  of_buyer_id :: uuid

record order_cancelled =
  ol_order_id :: uuid
  ol_buyer_id :: uuid
  ol_reason :: string

record inventory_reserved_item =
  ir_sku_id :: uuid
  ir_quantity :: int

record inventory_reserved =
  iv_order_id :: uuid
  iv_buyer_id :: uuid
  iv_total_amount :: string
  iv_currency :: string
  iv_items :: "inventory_reserved_item list"

text \<open>\<open>InventoryReservationFailedPayload\<close>, \<open>PaymentFailedPayload\<close> and \<open>PaymentTimedOutPayload\<close> have the same fields.\<close>

record failure_notice =
  fn_order_id :: uuid
  fn_reason :: string

record payment_authorized =
  pz_order_id :: uuid
  pz_payment_id :: uuid
  pz_gateway_reference :: string

section \<open>Decoders\<close>

definition uuid_field :: "externs \<Rightarrow> json \<Rightarrow> string \<Rightarrow> uuid option" where
  "uuid_field x j k = str_field j k (uuid_parse x)"

definition text_field :: "json \<Rightarrow> string \<Rightarrow> string option" where
  "text_field j k = str_field j k Some"

definition i32_field :: "json \<Rightarrow> string \<Rightarrow> int option" where
  "i32_field j k =
     Option.bind (Option.bind (jfield j k) as_i64) (\<lambda>i. if - (2 ^ 31) \<le> i \<and> i < 2 ^ 31 then Some i else None)"

fun collect_options :: "('a \<Rightarrow> 'b option) \<Rightarrow> 'a list \<Rightarrow> 'b list option" where
  "collect_options f [] = Some []"
| "collect_options f (a # as) = Option.bind (f a) (\<lambda>b. Option.bind (collect_options f as) (\<lambda>bs. Some (b # bs)))"

definition list_field :: "json \<Rightarrow> string \<Rightarrow> (json \<Rightarrow> 'a option) \<Rightarrow> 'a list option" where
  "list_field j k item = (case jfield j k of Some (JArray js) \<Rightarrow> collect_options item js | _ \<Rightarrow> None)"

definition order_created_item_of :: "externs \<Rightarrow> json \<Rightarrow> order_created_item option" where
  "order_created_item_of x j =
     Option.bind (uuid_field x j ''product_id'') (\<lambda>p.
     Option.bind (uuid_field x j ''sku_id'') (\<lambda>k.
     Option.bind (i32_field j ''quantity'') (\<lambda>q.
     Option.bind (text_field j ''unit_price'') (\<lambda>u.
       Some \<lparr>oi_product_id = p, oi_sku_id = k, oi_quantity = q, oi_unit_price = u\<rparr>))))"

definition order_created_of :: "externs \<Rightarrow> json \<Rightarrow> order_created option" where
  "order_created_of x j =
     Option.bind (uuid_field x j ''order_id'') (\<lambda>oid.
     Option.bind (uuid_field x j ''buyer_id'') (\<lambda>b.
     Option.bind (text_field j ''total_amount'') (\<lambda>t.
     Option.bind (text_field j ''currency'') (\<lambda>c.
     Option.bind (list_field j ''items'' (order_created_item_of x)) (\<lambda>its.
       Some \<lparr>oc_order_id = oid, oc_buyer_id = b, oc_total_amount = t, oc_currency = c, oc_items = its\<rparr>)))))"

definition order_confirmed_of :: "externs \<Rightarrow> json \<Rightarrow> order_confirmed option" where
  "order_confirmed_of x j =
     Option.bind (uuid_field x j ''order_id'') (\<lambda>oid.
     Option.bind (uuid_field x j ''buyer_id'') (\<lambda>b. Some \<lparr>of_order_id = oid, of_buyer_id = b\<rparr>))"

definition order_cancelled_of :: "externs \<Rightarrow> json \<Rightarrow> order_cancelled option" where
  "order_cancelled_of x j =
     Option.bind (uuid_field x j ''order_id'') (\<lambda>oid.
     Option.bind (uuid_field x j ''buyer_id'') (\<lambda>b.
     Option.bind (text_field j ''reason'') (\<lambda>r. Some \<lparr>ol_order_id = oid, ol_buyer_id = b, ol_reason = r\<rparr>)))"

definition inventory_reserved_item_of :: "externs \<Rightarrow> json \<Rightarrow> inventory_reserved_item option" where
  "inventory_reserved_item_of x j =
     Option.bind (uuid_field x j ''sku_id'') (\<lambda>k.
     Option.bind (i32_field j ''quantity'') (\<lambda>q. Some \<lparr>ir_sku_id = k, ir_quantity = q\<rparr>))"

definition inventory_reserved_of :: "externs \<Rightarrow> json \<Rightarrow> inventory_reserved option" where
  "inventory_reserved_of x j =
     Option.bind (uuid_field x j ''order_id'') (\<lambda>oid.
     Option.bind (uuid_field x j ''buyer_id'') (\<lambda>b.
     Option.bind (text_field j ''total_amount'') (\<lambda>t.
     Option.bind (text_field j ''currency'') (\<lambda>c.
     Option.bind (list_field j ''items'' (inventory_reserved_item_of x)) (\<lambda>its.
       Some \<lparr>iv_order_id = oid, iv_buyer_id = b, iv_total_amount = t, iv_currency = c, iv_items = its\<rparr>)))))"

definition failure_notice_of :: "externs \<Rightarrow> json \<Rightarrow> failure_notice option" where
  "failure_notice_of x j =
     Option.bind (uuid_field x j ''order_id'') (\<lambda>oid.
     Option.bind (text_field j ''reason'') (\<lambda>r. Some \<lparr>fn_order_id = oid, fn_reason = r\<rparr>))"

definition payment_authorized_of :: "externs \<Rightarrow> json \<Rightarrow> payment_authorized option" where
  "payment_authorized_of x j =
     Option.bind (uuid_field x j ''order_id'') (\<lambda>oid.
     Option.bind (uuid_field x j ''payment_id'') (\<lambda>p.
     Option.bind (text_field j ''gateway_reference'') (\<lambda>g.
       Some \<lparr>pz_order_id = oid, pz_payment_id = p, pz_gateway_reference = g\<rparr>)))"

section \<open>What the services write\<close>

lemmas field_defs = uuid_field_def text_field_def i32_field_def list_field_def str_field_def

lemma collect_options_map: "(\<And>a. a \<in> set as \<Longrightarrow> f (g a) = Some (h a)) \<Longrightarrow> collect_options f (map g as) = Some (map h as)"
  by (induction as) simp_all

lemma valid_order_req_quantities:
  assumes "valid_order_req_new x key req = Ok v" "i \<in> set (vr_items v)"
  shows "0 < vi_quantity i \<and> vi_quantity i \<le> max_order_quantity"
proof -
  obtain acc where "valid_items x 0 (cr_items req) = Ok (vr_items v, acc)"
    using assms(1) by (auto simp: valid_order_req_new_def and_then_Ok_iff split: if_splits option.splits)
  from valid_items_spec(2)[OF this] assms(2) show ?thesis by (auto simp: list_all_iff)
qed

lemma order_created_conforms:
  assumes "uuid_codec x" "valid_order_req_new x key req = Ok v"
  shows "order_created_of x (order_created_payload x oid buyer v) =
    Some \<lparr>oc_order_id = oid, oc_buyer_id = buyer, oc_total_amount = dec_str x (vr_total_amount v),
      oc_currency = currency_str (vr_currency v),
      oc_items = map (\<lambda>i. \<lparr>oi_product_id = vi_product_id i, oi_sku_id = vi_sku_id i, oi_quantity = vi_quantity i,
        oi_unit_price = dec_str x (price_value (vi_unit_price i))\<rparr>) (vr_items v)\<rparr>"
proof -
  have "collect_options (order_created_item_of x)
      (map (\<lambda>i. JObject [(''product_id'', JString (uuid_str x (vi_product_id i))), (''sku_id'', JString (uuid_str x (vi_sku_id i))),
         (''quantity'', JInt (vi_quantity i)), (''unit_price'', JString (dec_str x (price_value (vi_unit_price i))))]) (vr_items v)) =
    Some (map (\<lambda>i. \<lparr>oi_product_id = vi_product_id i, oi_sku_id = vi_sku_id i, oi_quantity = vi_quantity i,
        oi_unit_price = dec_str x (price_value (vi_unit_price i))\<rparr>) (vr_items v))"
    using assms(1) valid_order_req_quantities[OF assms(2)]
    by (intro collect_options_map)
       (fastforce simp: order_created_item_of_def field_defs uuid_codec_def max_order_quantity_def)
  then show ?thesis using assms(1)
    by (simp add: order_created_of_def order_created_payload_def field_defs uuid_codec_def)
qed

lemma inventory_reserved_conforms:
  assumes "uuid_codec x" "list_all (\<lambda>(sid, q). - (2 ^ 31) \<le> q \<and> q < 2 ^ 31) items"
  shows "inventory_reserved_of x (reserved_payload x oid buyer amount cur items) =
    Some \<lparr>iv_order_id = oid, iv_buyer_id = buyer, iv_total_amount = amount, iv_currency = cur,
      iv_items = map (\<lambda>(sid, q). \<lparr>ir_sku_id = sid, ir_quantity = q\<rparr>) items\<rparr>"
proof -
  have "collect_options (inventory_reserved_item_of x)
      (map (\<lambda>(sid, q). JObject [(''sku_id'', JString (uuid_str x sid)), (''quantity'', JInt q)]) items) =
    Some (map (\<lambda>(sid, q). \<lparr>ir_sku_id = sid, ir_quantity = q\<rparr>) items)"
    using assms
    by (intro collect_options_map) (auto simp: inventory_reserved_item_of_def field_defs uuid_codec_def list_all_iff split: prod.splits)
  then show ?thesis using assms(1)
    by (simp add: inventory_reserved_of_def reserved_payload_def field_defs uuid_codec_def)
qed

lemma small_payloads_conform:
  assumes "uuid_codec x"
  shows "order_confirmed_of x (confirmed_payload x oid buyer) = Some \<lparr>of_order_id = oid, of_buyer_id = buyer\<rparr>"
    "order_cancelled_of x (order_cancelled_payload x oid buyer reason) = Some \<lparr>ol_order_id = oid, ol_buyer_id = buyer, ol_reason = reason\<rparr>"
    "failure_notice_of x (failed_payload x oid reason) = Some \<lparr>fn_order_id = oid, fn_reason = reason\<rparr>"
    "failure_notice_of x (JObject [order_json x oid, (''reason'', JString reason)]) = Some \<lparr>fn_order_id = oid, fn_reason = reason\<rparr>"
    "payment_authorized_of x (JObject [order_json x oid, (''payment_id'', JString (uuid_str x pid)), (''gateway_reference'', JString gref)]) =
       Some \<lparr>pz_order_id = oid, pz_payment_id = pid, pz_gateway_reference = gref\<rparr>"
  using assms
  by (simp_all add: order_confirmed_of_def confirmed_payload_def order_cancelled_of_def order_cancelled_payload_def failure_notice_of_def
      failed_payload_def payment_authorized_of_def order_json_def field_defs uuid_codec_def)

end
