(* ===== verification/Cart.thy ===== *)
theory Cart
  imports Rules Money Auth Events "HOL-Library.AList"
begin

text \<open>
  The cart service, \<open>cart/src/cart\<close>: value objects, requests and responses, the checkout rules,
  the repository over Redis hashes, the service and its routes. Redis keeps one hash per user
  under \<open>cart:{user_id}\<close>, a field per SKU whose value is the JSON text of the stored item, with
  an expiry time for the whole hash. The environment supplies the clocks, the order in which a
  \<open>HashMap\<close> is iterated and the commands that fail, before or after they took effect.
\<close>

section \<open>Value objects\<close>

definition cart_quantity_new :: "nat \<Rightarrow> (nat, app_error) result" where
  "cart_quantity_new v =
     (if v = 0 then Err (BadRequest ''Quantity must be at least 1'')
      else if v > 99 then Err (BadRequest ''Quantity must not exceed 99'')
      else Ok v)"

definition cart_product_name_new :: "string \<Rightarrow> (string, app_error) result" where
  "cart_product_name_new = validated_name_new ''Product name'' 500"

section \<open>Errors\<close>

datatype cart_error =
    CartValidationFailed string
  | CartFull nat
  | CartItemNotFound string
  | CheckoutNotReady string
  | CartInfra app_error

fun cart_error_str :: "cart_error \<Rightarrow> string" where
  "cart_error_str (CartValidationFailed m) = ''Validation failed: '' @ m"
| "cart_error_str (CartFull n) = ''Cart is full (max '' @ show_nat n @ '' items)''"
| "cart_error_str (CartItemNotFound m) = ''Item not found: '' @ m"
| "cart_error_str (CheckoutNotReady m) = ''Checkout not ready: '' @ m"
| "cart_error_str (CartInfra e) = app_error_str e"

fun cart_to_app_error :: "cart_error \<Rightarrow> app_error" where
  "cart_to_app_error (CartValidationFailed m) = BadRequest m"
| "cart_to_app_error (CartFull n) = BadRequest (''Cart is full (max '' @ show_nat n @ '' items)'')"
| "cart_to_app_error (CartItemNotFound m) = NotFound m"
| "cart_to_app_error (CheckoutNotReady m) = BadRequest m"
| "cart_to_app_error (CartInfra e) = e"

section \<open>Domain\<close>

record cart_item =
  ct_product_id :: uuid
  ct_sku_id :: uuid
  ct_quantity :: nat
  ct_unit_price :: price
  ct_currency :: currency
  ct_product_name :: string
  ct_image_url :: "string option"
  ct_added_at :: timestamp

record cart =
  cart_user_id :: uuid
  cart_items :: "cart_item list"

definition line_total :: "externs \<Rightarrow> cart_item \<Rightarrow> (decimal, app_error) result" where
  "line_total x i =
     or_panic ''Multiplication overflowed'' (dec_mul x (price_value (ct_unit_price i)) (of_nat (ct_quantity i)))"

text \<open>The sum starts from zero and adds the line totals in the order of the items.\<close>

fun sum_lines :: "externs \<Rightarrow> decimal \<Rightarrow> cart_item list \<Rightarrow> (decimal, app_error) result" where
  "sum_lines x acc [] = Ok acc"
| "sum_lines x acc (i # is) =
     and_then (line_total x i) (\<lambda>t.
     and_then (or_panic ''Addition overflowed'' (dec_add x acc t)) (\<lambda>acc'. sum_lines x acc' is))"

definition cart_total :: "externs \<Rightarrow> cart \<Rightarrow> (decimal, app_error) result" where
  "cart_total x c = sum_lines x 0 (cart_items c)"

definition item_count :: "cart \<Rightarrow> nat" where
  "item_count c = length (cart_items c)"

section \<open>Stored items\<close>

record cart_item_stored =
  cs_product_id :: uuid
  cs_sku_id :: uuid
  cs_quantity :: nat
  cs_unit_price :: string
  cs_currency :: string
  cs_product_name :: string
  cs_image_url :: "string option"
  cs_added_at :: timestamp

definition stored_to_json :: "externs \<Rightarrow> cart_item_stored \<Rightarrow> json" where
  "stored_to_json x s =
     JObject
       [(''product_id'', JString (uuid_str x (cs_product_id s))),
        (''sku_id'', JString (uuid_str x (cs_sku_id s))),
        (''quantity'', JInt (int (cs_quantity s))),
        (''unit_price'', JString (cs_unit_price s)),
        (''currency'', JString (cs_currency s)),
        (''product_name'', JString (cs_product_name s)),
        (''image_url'', opt_json JString (cs_image_url s)),
        (''added_at'', JString (dt_str x (cs_added_at s)))]"

fun as_u32 :: "json \<Rightarrow> nat option" where
  "as_u32 (JInt i) = (if 0 \<le> i \<and> i < 2 ^ 32 then Some (nat i) else None)"
| "as_u32 _ = None"

definition stored_of_json :: "externs \<Rightarrow> json \<Rightarrow> cart_item_stored option" where
  "stored_of_json x j =
     Option.bind (str_field j ''product_id'' (uuid_parse x)) (\<lambda>pid.
     Option.bind (str_field j ''sku_id'' (uuid_parse x)) (\<lambda>sid.
     Option.bind (Option.bind (jfield j ''quantity'') as_u32) (\<lambda>q.
     Option.bind (str_field j ''unit_price'' Some) (\<lambda>up.
     Option.bind (str_field j ''currency'' Some) (\<lambda>cur.
     Option.bind (str_field j ''product_name'' Some) (\<lambda>name.
     Option.bind (opt_str_field j ''image_url'' Some) (\<lambda>img.
     Option.bind (str_field j ''added_at'' (dt_parse x)) (\<lambda>ts.
       Some \<lparr>cs_product_id = pid, cs_sku_id = sid, cs_quantity = q, cs_unit_price = up, cs_currency = cur,
             cs_product_name = name, cs_image_url = img, cs_added_at = ts\<rparr>))))))))"

definition read_stored :: "externs \<Rightarrow> string \<Rightarrow> (cart_item_stored, app_error) result" where
  "read_stored x text =
     (case json_parse x text of
        None \<Rightarrow> Err (InternalServerError (''Cart item deserialization: '' @ parse_text x text))
      | Some j \<Rightarrow>
          ok_or (InternalServerError (''Cart item deserialization: '' @ deser_text x j)) (stored_of_json x j))"

definition to_domain :: "externs \<Rightarrow> cart_item_stored \<Rightarrow> (cart_item, app_error) result" where
  "to_domain x s =
     and_then (ok_or (InternalServerError (''Invalid stored price: '' @ parse_text x (cs_unit_price s)))
                 (dec_parse x (cs_unit_price s))) (\<lambda>unit_price.
     and_then (cart_quantity_new (cs_quantity s)) (\<lambda>quantity.
     and_then (price_new unit_price) (\<lambda>p.
     and_then (currency_new x (cs_currency s)) (\<lambda>cur.
       Ok \<lparr>ct_product_id = cs_product_id s, ct_sku_id = cs_sku_id s, ct_quantity = quantity,
           ct_unit_price = p, ct_currency = cur, ct_product_name = cs_product_name s,
           ct_image_url = cs_image_url s, ct_added_at = cs_added_at s\<rparr>))))"

section \<open>Requests and responses\<close>

record add_to_cart_req =
  ac_product_id :: uuid
  ac_sku_id :: uuid
  ac_quantity :: nat
  ac_unit_price :: decimal
  ac_currency :: "string option"
  ac_product_name :: string
  ac_image_url :: "string option"

record update_cart_item_req =
  uc_quantity :: nat

record valid_add_to_cart_req =
  va_product_id :: uuid
  va_sku_id :: uuid
  va_quantity :: nat
  va_unit_price :: price
  va_currency :: currency
  va_product_name :: string
  va_image_url :: "string option"

definition valid_add_to_cart :: "externs \<Rightarrow> add_to_cart_req \<Rightarrow> (valid_add_to_cart_req, app_error) result" where
  "valid_add_to_cart x req =
     and_then (cart_quantity_new (ac_quantity req)) (\<lambda>quantity.
     and_then (price_new (ac_unit_price req)) (\<lambda>unit_price.
     and_then (case ac_currency req of Some c \<Rightarrow> currency_new x c | None \<Rightarrow> Ok currency_default) (\<lambda>cur.
     and_then (cart_product_name_new (ac_product_name req)) (\<lambda>name.
       Ok \<lparr>va_product_id = ac_product_id req, va_sku_id = ac_sku_id req, va_quantity = quantity,
           va_unit_price = unit_price, va_currency = cur, va_product_name = name,
           va_image_url = ac_image_url req\<rparr>))))"

definition valid_update_cart_item :: "update_cart_item_req \<Rightarrow> (nat, app_error) result" where
  "valid_update_cart_item req = cart_quantity_new (uc_quantity req)"

text \<open>\<open>to_stored\<close> stamps the item with the time it was added.\<close>

definition to_stored :: "externs \<Rightarrow> valid_add_to_cart_req \<Rightarrow> timestamp \<Rightarrow> cart_item_stored" where
  "to_stored x v utc_now =
     \<lparr>cs_product_id = va_product_id v, cs_sku_id = va_sku_id v, cs_quantity = va_quantity v,
      cs_unit_price = dec_str x (price_value (va_unit_price v)), cs_currency = currency_str (va_currency v),
      cs_product_name = va_product_name v, cs_image_url = va_image_url v, cs_added_at = utc_now\<rparr>"

record cart_item_res =
  ir_product_id :: string
  ir_sku_id :: string
  ir_quantity :: nat
  ir_unit_price :: decimal
  ir_currency :: string
  ir_product_name :: string
  ir_image_url :: "string option"
  ir_line_total :: decimal

record cart_res =
  cres_items :: "cart_item_res list"
  cres_item_count :: nat
  cres_total :: decimal

definition cart_item_res_of :: "externs \<Rightarrow> cart_item \<Rightarrow> (cart_item_res, app_error) result" where
  "cart_item_res_of x i =
     and_then (line_total x i) (\<lambda>t.
       Ok \<lparr>ir_product_id = uuid_str x (ct_product_id i), ir_sku_id = uuid_str x (ct_sku_id i),
           ir_quantity = ct_quantity i, ir_unit_price = price_value (ct_unit_price i),
           ir_currency = currency_str (ct_currency i), ir_product_name = ct_product_name i,
           ir_image_url = ct_image_url i, ir_line_total = t\<rparr>)"

definition cart_res_of :: "externs \<Rightarrow> cart \<Rightarrow> (cart_res, app_error) result" where
  "cart_res_of x c =
     and_then (collect_results (cart_item_res_of x) (cart_items c)) (\<lambda>items.
     and_then (cart_total x c) (\<lambda>t.
       Ok \<lparr>cres_items = items, cres_item_count = item_count c, cres_total = t\<rparr>))"

record cart_validation_item_res =
  cv_sku_id :: string
  cv_price_changed :: bool
  cv_snapshot_price :: decimal
  cv_current_price :: "decimal option"
  cv_product_unavailable :: bool
  cv_stock_insufficient :: bool

record cart_validation_res =
  cv_items :: "cart_validation_item_res list"
  cv_all_valid :: bool

section \<open>Checkout rules\<close>

datatype checkout_check =
    CartNotEmpty
  | MinCartValue decimal
  | MaxCartValue decimal
  | AllItemsHaveValidPrices
  | MaxCartItems nat
  | AllQuantitiesWithinLimits

fun checkout_check_str :: "externs \<Rightarrow> checkout_check \<Rightarrow> string" where
  "checkout_check_str x CartNotEmpty = ''cart must not be empty''"
| "checkout_check_str x (MinCartValue v) = ''cart total must be at least $'' @ dec_str x v"
| "checkout_check_str x (MaxCartValue v) = ''cart total must not exceed $'' @ dec_str x v"
| "checkout_check_str x AllItemsHaveValidPrices = ''all items must have valid prices''"
| "checkout_check_str x (MaxCartItems n) = ''cart must not exceed '' @ show_nat n @ '' items''"
| "checkout_check_str x AllQuantitiesWithinLimits = ''all quantities must be within limits''"

definition min_cart_value :: decimal where
  "min_cart_value = 1"

definition max_cart_value :: decimal where
  "max_cart_value = 50000"

definition max_cart_items :: nat where
  "max_cart_items = 50"

definition checkout_readiness_rules :: "checkout_check rule" where
  "checkout_readiness_rules =
     rule_all
       [rule_check CartNotEmpty, rule_check (MaxCartItems max_cart_items),
        rule_check (MinCartValue min_cart_value), rule_check (MaxCartValue max_cart_value),
        rule_check AllItemsHaveValidPrices, rule_check AllQuantitiesWithinLimits]"

record checkout_context =
  cc_item_count :: nat
  cc_cart_total :: decimal
  cc_all_prices_valid :: bool
  cc_all_quantities_valid :: bool

definition checkout_context_of :: "externs \<Rightarrow> cart \<Rightarrow> (checkout_context, app_error) result" where
  "checkout_context_of x c =
     and_then (cart_total x c) (\<lambda>t.
       Ok \<lparr>cc_item_count = item_count c, cc_cart_total = t,
           cc_all_prices_valid = list_all (\<lambda>i. price_value (ct_unit_price i) > 0) (cart_items c),
           cc_all_quantities_valid = list_all (\<lambda>i. ct_quantity i \<ge> 1 \<and> ct_quantity i \<le> 99) (cart_items c)\<rparr>)"

fun eval_checkout :: "checkout_context \<Rightarrow> checkout_check \<Rightarrow> bool" where
  "eval_checkout c CartNotEmpty = (cc_item_count c > 0)"
| "eval_checkout c (MinCartValue m) = (cc_cart_total c \<ge> m)"
| "eval_checkout c (MaxCartValue m) = (cc_cart_total c \<le> m)"
| "eval_checkout c AllItemsHaveValidPrices = cc_all_prices_valid c"
| "eval_checkout c (MaxCartItems n) = (cc_item_count c \<le> n)"
| "eval_checkout c AllQuantitiesWithinLimits = cc_all_quantities_valid c"

section \<open>Redis hashes\<close>

text \<open>A command that fails was either never executed or executed with its reply lost.\<close>

datatype redis_fault = CmdRefused | ReplyLost

type_synonym hash = "(string \<times> string) list"

record hash_redis =
  hr_store :: "string \<Rightarrow> (hash \<times> nat option) option"
  hr_clock :: "nat \<Rightarrow> nat" \<comment> \<open>the server's clock, in seconds\<close>
  hr_utc :: "nat \<Rightarrow> timestamp" \<comment> \<open>the service's clock\<close>
  hr_rank :: "nat \<Rightarrow> string \<Rightarrow> nat" \<comment> \<open>where a fresh \<open>HashMap\<close> puts a key\<close>
  hr_ticks :: nat
  hr_faults :: "redis_fault option list"
  hr_error :: string

definition hr_live :: "hash_redis \<Rightarrow> string \<Rightarrow> (hash \<times> nat option) option" where
  "hr_live r k =
     (case hr_store r k of
        Some (h, Some e) \<Rightarrow> if hr_clock r (hr_ticks r) < e then Some (h, Some e) else None
      | v \<Rightarrow> v)"

definition hr_fields :: "hash_redis \<Rightarrow> string \<Rightarrow> hash" where
  "hr_fields r k = (case hr_live r k of Some (h, e) \<Rightarrow> h | None \<Rightarrow> [])"

text \<open>Redis deletes a key whose time has come when a command touches it.\<close>

definition hr_touch :: "string \<Rightarrow> hash_redis \<Rightarrow> string \<Rightarrow> (hash \<times> nat option) option" where
  "hr_touch k r = (hr_store r)(k := hr_live r k)"

definition hr_tick :: "hash_redis \<Rightarrow> hash_redis" where
  "hr_tick r = r\<lparr>hr_ticks := Suc (hr_ticks r), hr_faults := tl (hr_faults r)\<rparr>"

definition hr_cmd :: "(hash_redis \<Rightarrow> 'a) \<Rightarrow> (hash_redis \<Rightarrow> string \<Rightarrow> (hash \<times> nat option) option) \<Rightarrow>
    (hash_redis, string, 'a) eff" where
  "hr_cmd reply effect r =
     (case hr_faults r of
        Some CmdRefused # _ \<Rightarrow> (Err (hr_error r), hr_tick r)
      | Some ReplyLost # _ \<Rightarrow> (Err (hr_error r), (hr_tick r)\<lparr>hr_store := effect r\<rparr>)
      | _ \<Rightarrow> (Ok (reply r), (hr_tick r)\<lparr>hr_store := effect r\<rparr>))"

text \<open>The commands the repository sends. A hash that loses its last field is deleted; a field
  set on a hash keeps the expiry time of the hash.\<close>

definition hgetall :: "string \<Rightarrow> (hash_redis, string, hash) eff" where
  "hgetall k = hr_cmd (\<lambda>r. hr_fields r k) (hr_touch k)"

definition hget :: "string \<Rightarrow> string \<Rightarrow> (hash_redis, string, string option) eff" where
  "hget k f = hr_cmd (\<lambda>r. map_of (hr_fields r k) f) (hr_touch k)"

definition hlen :: "string \<Rightarrow> (hash_redis, string, nat) eff" where
  "hlen k = hr_cmd (\<lambda>r. length (hr_fields r k)) (hr_touch k)"

definition hexists :: "string \<Rightarrow> string \<Rightarrow> (hash_redis, string, bool) eff" where
  "hexists k f = hr_cmd (\<lambda>r. map_of (hr_fields r k) f \<noteq> None) (hr_touch k)"

definition hset :: "string \<Rightarrow> string \<Rightarrow> string \<Rightarrow> (hash_redis, string, unit) eff" where
  "hset k f v =
     hr_cmd (\<lambda>_. ())
       (\<lambda>r. (hr_store r)(k \<mapsto>
          (case hr_live r k of Some (h, e) \<Rightarrow> (AList.update f v h, e) | None \<Rightarrow> ([(f, v)], None))))"

definition hdel :: "string \<Rightarrow> string \<Rightarrow> (hash_redis, string, unit) eff" where
  "hdel k f =
     hr_cmd (\<lambda>_. ())
       (\<lambda>r. (hr_store r)(k :=
          (case hr_live r k of
             Some (h, e) \<Rightarrow> (case AList.delete f h of [] \<Rightarrow> None | h' \<Rightarrow> Some (h', e))
           | None \<Rightarrow> None)))"

definition expire :: "string \<Rightarrow> nat \<Rightarrow> (hash_redis, string, unit) eff" where
  "expire k secs =
     hr_cmd (\<lambda>_. ())
       (\<lambda>r. (hr_store r)(k :=
          map_option (\<lambda>(h, _). (h, Some (hr_clock r (hr_ticks r) + secs))) (hr_live r k)))"

definition hdrop :: "string \<Rightarrow> (hash_redis, string, unit) eff" where
  "hdrop k = hr_cmd (\<lambda>_. ()) (\<lambda>r. (hr_store r)(k := None))"

section \<open>Repository\<close>

definition cart_ttl_secs :: nat where
  "cart_ttl_secs = 2592000"

definition cart_key :: "externs \<Rightarrow> uuid \<Rightarrow> string" where
  "cart_key x user_id = ''cart:'' @ uuid_str x user_id"

definition redis_failed :: "string \<Rightarrow> string \<Rightarrow> app_error" where
  "redis_failed name e = InternalServerError (''Redis '' @ name @ '' failed: '' @ e)"

text \<open>The order in which the \<open>HashMap\<close> built from a reply yields its entries.\<close>

definition map_iteration :: "hash_redis \<Rightarrow> hash \<Rightarrow> hash" where
  "map_iteration r h = sort_key (\<lambda>p. hr_rank r (hr_ticks r) (fst p)) h"

definition repo_get_cart :: "externs \<Rightarrow> uuid \<Rightarrow> (hash_redis, app_error, cart_item_stored list) eff" where
  "repo_get_cart x user_id =
     bnd (map_err (redis_failed ''HGETALL'') (hgetall (cart_key x user_id))) (\<lambda>items r.
       (collect_results (\<lambda>(_, text). read_stored x text) (map_iteration r items), r))"

definition get_cart_item :: "externs \<Rightarrow> uuid \<Rightarrow> uuid \<Rightarrow> (hash_redis, app_error, cart_item_stored option) eff" where
  "get_cart_item x user_id sku_id =
     bnd (map_err (redis_failed ''HGET'') (hget (cart_key x user_id) (uuid_str x sku_id))) (\<lambda>text.
       case text of
         Some s \<Rightarrow> of_result (and_then (read_stored x s) (\<lambda>stored. Ok (Some stored)))
       | None \<Rightarrow> ret None)"

definition cart_item_count :: "externs \<Rightarrow> uuid \<Rightarrow> (hash_redis, app_error, nat) eff" where
  "cart_item_count x user_id = map_err (redis_failed ''HLEN'') (hlen (cart_key x user_id))"

definition item_exists :: "externs \<Rightarrow> uuid \<Rightarrow> uuid \<Rightarrow> (hash_redis, app_error, bool) eff" where
  "item_exists x user_id sku_id =
     map_err (redis_failed ''HEXISTS'') (hexists (cart_key x user_id) (uuid_str x sku_id))"

definition set_cart_item :: "externs \<Rightarrow> uuid \<Rightarrow> uuid \<Rightarrow> cart_item_stored \<Rightarrow> (hash_redis, app_error, unit) eff" where
  "set_cart_item x user_id sku_id stored =
     (let key = cart_key x user_id; text = json_text x (stored_to_json x stored) in
      bnd (map_err (redis_failed ''HSET'') (hset key (uuid_str x sku_id) text)) (\<lambda>_.
        map_err (redis_failed ''EXPIRE'') (expire key cart_ttl_secs)))"

definition remove_cart_item :: "externs \<Rightarrow> uuid \<Rightarrow> uuid \<Rightarrow> (hash_redis, app_error, unit) eff" where
  "remove_cart_item x user_id sku_id =
     (let key = cart_key x user_id in
      bnd (map_err (redis_failed ''HDEL'') (hdel key (uuid_str x sku_id))) (\<lambda>_.
        map_err (redis_failed ''EXPIRE'') (expire key cart_ttl_secs)))"

definition repo_clear_cart :: "externs \<Rightarrow> uuid \<Rightarrow> (hash_redis, app_error, unit) eff" where
  "repo_clear_cart x user_id = map_err (redis_failed ''DEL'') (hdrop (cart_key x user_id))"

section \<open>Service\<close>

definition load_cart :: "externs \<Rightarrow> uuid \<Rightarrow> (hash_redis, app_error, cart) eff" where
  "load_cart x user_id =
     bnd (repo_get_cart x user_id) (\<lambda>stored_items.
     bnd (of_result (collect_results (to_domain x) stored_items)) (\<lambda>domain_items.
       ret \<lparr>cart_user_id = user_id, cart_items = domain_items\<rparr>))"

definition get_cart :: "externs \<Rightarrow> uuid \<Rightarrow> (hash_redis, app_error, cart_res) eff" where
  "get_cart x user_id = bnd (load_cart x user_id) (\<lambda>c. of_result (cart_res_of x c))"

text \<open>\<open>add_item\<close> in the two halves between which another request can run: what it reads to
  decide, and what it then writes.\<close>

definition add_item_check ::
  "externs \<Rightarrow> uuid \<Rightarrow> add_to_cart_req \<Rightarrow> (hash_redis, app_error, valid_add_to_cart_req) eff" where
  "add_item_check x user_id req =
     bnd (of_result (valid_add_to_cart x req)) (\<lambda>validated.
     bnd (item_exists x user_id (va_sku_id validated)) (\<lambda>exists.
       if \<not> exists
       then bnd (cart_item_count x user_id) (\<lambda>count.
              if count \<ge> max_cart_items then throw (cart_to_app_error (CartFull max_cart_items))
              else ret validated)
       else ret validated))"

definition add_item_write ::
  "externs \<Rightarrow> uuid \<Rightarrow> valid_add_to_cart_req \<Rightarrow> (hash_redis, app_error, cart_res) eff" where
  "add_item_write x user_id validated r =
     (let stored = to_stored x validated (hr_utc r (hr_ticks r)) in
      bnd (set_cart_item x user_id (va_sku_id validated) stored) (\<lambda>_. get_cart x user_id) r)"

definition add_item :: "externs \<Rightarrow> uuid \<Rightarrow> add_to_cart_req \<Rightarrow> (hash_redis, app_error, cart_res) eff" where
  "add_item x user_id req = bnd (add_item_check x user_id req) (add_item_write x user_id)"

definition update_item_quantity ::
  "externs \<Rightarrow> uuid \<Rightarrow> uuid \<Rightarrow> update_cart_item_req \<Rightarrow> (hash_redis, app_error, cart_res) eff" where
  "update_item_quantity x user_id sku_id req =
     bnd (of_result (valid_update_cart_item req)) (\<lambda>quantity.
     bnd (get_cart_item x user_id sku_id) (\<lambda>existing.
     bnd (of_result (ok_or (cart_to_app_error (CartItemNotFound (''SKU '' @ uuid_str x sku_id @ '' not in cart'')))
            existing)) (\<lambda>stored.
     bnd (set_cart_item x user_id sku_id (stored\<lparr>cs_quantity := quantity\<rparr>)) (\<lambda>_.
       get_cart x user_id))))"

definition remove_item :: "externs \<Rightarrow> uuid \<Rightarrow> uuid \<Rightarrow> (hash_redis, app_error, unit) eff" where
  "remove_item x user_id sku_id = remove_cart_item x user_id sku_id"

definition clear_cart :: "externs \<Rightarrow> uuid \<Rightarrow> (hash_redis, app_error, unit) eff" where
  "clear_cart x user_id = repo_clear_cart x user_id"

definition validation_item :: "externs \<Rightarrow> cart_item \<Rightarrow> cart_validation_item_res" where
  "validation_item x i =
     \<lparr>cv_sku_id = uuid_str x (ct_sku_id i), cv_price_changed = False,
      cv_snapshot_price = price_value (ct_unit_price i),
      cv_current_price = Some (price_value (ct_unit_price i)),
      cv_product_unavailable = False, cv_stock_insufficient = False\<rparr>"

definition validate_cart :: "externs \<Rightarrow> uuid \<Rightarrow> (hash_redis, app_error, cart_validation_res) eff" where
  "validate_cart x user_id =
     bnd (load_cart x user_id) (\<lambda>c.
     bnd (of_result (checkout_context_of x c)) (\<lambda>ctx.
       let res = evaluate_detailed checkout_readiness_rules (eval_checkout ctx) in
       if \<not> passed res
       then throw (cart_to_app_error (CheckoutNotReady (join_with ''; '' (failure_messages (checkout_check_str x) res))))
       else ret \<lparr>cv_items = map (validation_item x) (cart_items c), cv_all_valid = True\<rparr>))"

section \<open>Routes\<close>

text \<open>The routes behind the authentication middleware: each acts on the cart of the user the
  token names, never on one named in the request.\<close>

datatype cart_route =
    RGetCart
  | RClearCart
  | RAddItem add_to_cart_req
  | RUpdateItem uuid update_cart_item_req
  | RRemoveItem uuid
  | RValidateCart

datatype cart_reply =
    CartReply cart_res
  | ValidationReply cart_validation_res
  | MessageReply nat string

fun cart_handler :: "externs \<Rightarrow> current_user \<Rightarrow> cart_route \<Rightarrow> (hash_redis, app_error, cart_reply) eff" where
  "cart_handler x u RGetCart = bnd (get_cart x (cu_id u)) (\<lambda>c. ret (CartReply c))"
| "cart_handler x u RClearCart = bnd (clear_cart x (cu_id u)) (\<lambda>_. ret (MessageReply 200 ''Cart cleared''))"
| "cart_handler x u (RAddItem req) = bnd (add_item x (cu_id u) req) (\<lambda>c. ret (CartReply c))"
| "cart_handler x u (RUpdateItem sku_id req) =
     bnd (update_item_quantity x (cu_id u) sku_id req) (\<lambda>c. ret (CartReply c))"
| "cart_handler x u (RRemoveItem sku_id) =
     bnd (remove_item x (cu_id u) sku_id) (\<lambda>_. ret (MessageReply 200 ''Item removed from cart''))"
| "cart_handler x u RValidateCart = bnd (validate_cart x (cu_id u)) (\<lambda>c. ret (ValidationReply c))"

end
