(* ===== verification/Cart_Proofs.thy ===== *)
theory Cart_Proofs
  imports Cart "HOL-Library.Multiset"
begin

text \<open>
  What the cart service guarantees: every cart in Redis stays readable and within its limits
  whatever requests and faults come, the operations are those of a finite map from SKUs to
  items, one user's requests never touch another's cart, and checkout succeeds exactly on the
  carts that satisfy the rules.
\<close>

section \<open>What the code relies on\<close>

text \<open>\<open>serde_json\<close> reads back the flat objects that it wrote.\<close>

fun flat_value :: "json \<Rightarrow> bool" where
  "flat_value JNull = True"
| "flat_value (JString s) = True"
| "flat_value (JInt i) = (- (2 ^ 63) \<le> i \<and> i < 2 ^ 64)"
| "flat_value _ = False"

definition flat_codec :: "externs \<Rightarrow> bool" where
  "flat_codec x \<longleftrightarrow>
     (\<forall>kvs. distinct (map fst kvs) \<longrightarrow> list_all flat_value (map snd kvs) \<longrightarrow>
        json_parse x (json_text x (JObject kvs)) = Some (JObject kvs))"

definition upper_ascii :: "externs \<Rightarrow> bool" where
  "upper_ascii x \<longleftrightarrow> (\<forall>t. list_all is_ascii_uppercase t \<longrightarrow> upper x t = t)"

definition cart_codecs :: "externs \<Rightarrow> bool" where
  "cart_codecs x \<longleftrightarrow> uuid_codec x \<and> dt_codec x \<and> dec_codec x \<and> flat_codec x \<and> upper_ascii x"

text \<open>Values of the Rust types: a \<open>Decimal\<close> and a 32-bit quantity.\<close>

definition add_req_typed :: "add_to_cart_req \<Rightarrow> bool" where
  "add_req_typed req \<longleftrightarrow> representable (ac_unit_price req) \<and> ac_quantity req < 2 ^ 32"

fun route_typed :: "cart_route \<Rightarrow> bool" where
  "route_typed (RAddItem req) = add_req_typed req"
| "route_typed (RUpdateItem sku_id req) = (uc_quantity req < 2 ^ 32)"
| "route_typed _ = True"

section \<open>Reading back what was stored\<close>

lemma stored_json_roundtrip:
  assumes "uuid_codec x" "dt_codec x" "cs_quantity s < 2 ^ 32"
  shows "stored_of_json x (stored_to_json x s) = Some s"
proof -
  let ?j = "stored_to_json x s"
  have img: "opt_str_field ?j ''image_url'' Some = Some (cs_image_url s)"
    by (cases "cs_image_url s") (simp_all add: opt_str_field_def stored_to_json_def opt_json_def)
  have q: "Option.bind (jfield ?j ''quantity'') as_u32 = Some (cs_quantity s)"
    using assms(3) by (simp add: stored_to_json_def)
  have rest: "str_field ?j ''product_id'' (uuid_parse x) = Some (cs_product_id s)"
    "str_field ?j ''sku_id'' (uuid_parse x) = Some (cs_sku_id s)"
    "str_field ?j ''unit_price'' Some = Some (cs_unit_price s)"
    "str_field ?j ''currency'' Some = Some (cs_currency s)"
    "str_field ?j ''product_name'' Some = Some (cs_product_name s)"
    "str_field ?j ''added_at'' (dt_parse x) = Some (cs_added_at s)"
    using assms by (simp_all add: str_field_def stored_to_json_def)
  show ?thesis unfolding stored_of_json_def by (simp add: img q rest)
qed

lemma read_stored_written:
  assumes "cart_codecs x" "cs_quantity s < 2 ^ 32"
  shows "read_stored x (json_text x (stored_to_json x s)) = Ok s"
proof -
  have "json_parse x (json_text x (stored_to_json x s)) = Some (stored_to_json x s)"
    using assms by (auto simp: cart_codecs_def flat_codec_def stored_to_json_def opt_json_def split: option.splits)
  then show ?thesis
    using stored_json_roundtrip[of x s] assms by (simp add: read_stored_def cart_codecs_def ok_or_def)
qed

lemma cart_quantity_new_Ok_iff: "cart_quantity_new v = Ok q \<longleftrightarrow> q = v \<and> 1 \<le> v \<and> v \<le> 99"
  by (auto simp: cart_quantity_new_def)

text \<open>The item that a validated request stands for.\<close>

definition requested_item :: "valid_add_to_cart_req \<Rightarrow> timestamp \<Rightarrow> cart_item" where
  "requested_item v ts =
     \<lparr>ct_product_id = va_product_id v, ct_sku_id = va_sku_id v, ct_quantity = va_quantity v,
      ct_unit_price = va_unit_price v, ct_currency = va_currency v, ct_product_name = va_product_name v,
      ct_image_url = va_image_url v, ct_added_at = ts\<rparr>"

lemma currency_default_valid: "upper_ascii x \<Longrightarrow> currency_new x (currency_str currency_default) = Ok currency_default"
proof -
  assume u: "upper_ascii x"
  have t: "trim ''USD'' = ''USD''" by (simp add: trim_def strip_prefixes.simps white_space_def)
  have "upper x ''USD'' = ''USD''" using u by (simp add: upper_ascii_def is_ascii_uppercase_def)
  then show ?thesis by (simp add: currency_new_def currency_default_def t is_ascii_uppercase_def)
qed

lemma valid_add_to_cart_Ok:
  assumes "valid_add_to_cart x req = Ok v"
  shows "va_sku_id v = ac_sku_id req" "1 \<le> va_quantity v" "va_quantity v \<le> 99"
    "va_unit_price v = Price (ac_unit_price req)" "0 \<le> ac_unit_price req"
    "cart_product_name_new (va_product_name v) = Ok (va_product_name v)"
    "va_currency v = currency_default \<or> (\<exists>c. currency_new x c = Ok (va_currency v))"
  using assms
  by (auto simp: valid_add_to_cart_def and_then_Ok_iff cart_quantity_new_Ok_iff price_new_Ok_iff
      cart_product_name_new_def validated_name_new_idem split: option.splits)

lemma to_domain_quantity: "to_domain x s = Ok i \<Longrightarrow> 1 \<le> ct_quantity i \<and> ct_quantity i \<le> 99"
  by (auto simp: to_domain_def and_then_Ok_iff cart_quantity_new_Ok_iff)

lemma to_domain_to_stored:
  assumes "cart_codecs x" "valid_add_to_cart x req = Ok v" "add_req_typed req"
  shows "to_domain x (to_stored x v ts) = Ok (requested_item v ts)"
proof -
  note v = valid_add_to_cart_Ok[OF assms(2)]
  have "currency_new x (currency_str (va_currency v)) = Ok (va_currency v)"
    using v(7) assms(1) currency_default_valid[of x] currency_new_idem[of x _ "va_currency v"]
    by (auto simp: cart_codecs_def upper_ascii_def)
  moreover have "dec_parse x (dec_str x (ac_unit_price req)) = Some (ac_unit_price req)"
    using assms(1,3) by (simp add: cart_codecs_def add_req_typed_def)
  ultimately show ?thesis using v
    by (simp add: to_domain_def to_stored_def requested_item_def cart_quantity_new_def price_new_def ok_or_def)
qed

section \<open>The invariant\<close>

definition entry_ok :: "externs \<Rightarrow> string \<times> string \<Rightarrow> bool" where
  "entry_ok x p \<longleftrightarrow>
     (case read_stored x (snd p) of
        Ok s \<Rightarrow> fst p = uuid_str x (cs_sku_id s) \<and> is_ok (to_domain x s) \<and>
          cart_product_name_new (cs_product_name s) = Ok (cs_product_name s)
      | _ \<Rightarrow> False)"

definition hash_ok :: "externs \<Rightarrow> hash \<Rightarrow> bool" where
  "hash_ok x h \<longleftrightarrow> h \<noteq> [] \<and> distinct (map fst h) \<and> length h \<le> max_cart_items \<and> list_all (entry_ok x) h"

definition carts_ok :: "externs \<Rightarrow> hash_redis \<Rightarrow> bool" where
  "carts_ok x r \<longleftrightarrow> (\<forall>u h e. hr_store r (cart_key x u) = Some (h, e) \<longrightarrow> hash_ok x h)"

lemma hr_live_Some: "hr_live r k = Some p \<Longrightarrow> hr_store r k = Some p"
  by (auto simp: hr_live_def split: option.splits if_splits prod.splits)

lemma hr_tick_simps [simp]:
  "hr_store (hr_tick r) = hr_store r" "hr_clock (hr_tick r) = hr_clock r" "hr_ticks (hr_tick r) = Suc (hr_ticks r)"
  by (simp_all add: hr_tick_def)

lemma hr_touch_same [simp]: "hr_touch k r k = hr_live r k"
  by (simp add: hr_touch_def)

lemma hr_fields_live: "hr_live r k = Some (h, e) \<Longrightarrow> hr_fields r k = h"
  by (simp add: hr_fields_def)

lemma hr_live_store [simp]:
  "hr_live ((hr_tick r)\<lparr>hr_store := st\<rparr>) k =
     (case st k of Some (h, Some e) \<Rightarrow> if hr_clock r (Suc (hr_ticks r)) < e then Some (h, Some e) else None | v \<Rightarrow> v)"
  by (simp add: hr_live_def split: option.split)

text \<open>A command, by what holds after it was refused, after its reply was lost and after it succeeded.\<close>

lemma wp_hr_cmd:
  assumes "Q (reply r) ((hr_tick r)\<lparr>hr_store := effect r\<rparr>)" "E (hr_tick r)" "E ((hr_tick r)\<lparr>hr_store := effect r\<rparr>)"
  shows "wp (hr_cmd reply effect) Q E r"
  using assms by (auto simp: wp_def hr_cmd_def split: list.splits option.splits redis_fault.splits)

lemma hr_cmd_Ok: "hr_cmd reply effect r = (Ok a, r') \<Longrightarrow> a = reply r \<and> r' = (hr_tick r)\<lparr>hr_store := effect r\<rparr>"
  by (auto simp: hr_cmd_def split: list.splits option.splits redis_fault.splits)

lemma carts_ok_tick [simp]: "carts_ok x (hr_tick r) = carts_ok x r"
  by (simp add: carts_ok_def)

lemma carts_ok_update:
  assumes "carts_ok x r" "\<And>h e. v = Some (h, e) \<Longrightarrow> hash_ok x h"
  shows "carts_ok x ((hr_tick r)\<lparr>hr_store := (hr_store r)(cart_key x u := v)\<rparr>)"
  using assms by (auto simp: carts_ok_def)

lemma carts_ok_touch: "carts_ok x r \<Longrightarrow> carts_ok x ((hr_tick r)\<lparr>hr_store := hr_touch (cart_key x u) r\<rparr>)"
  unfolding hr_touch_def
  by (rule carts_ok_update) (auto simp: carts_ok_def dest: hr_live_Some)

lemma carts_ok_live: "carts_ok x r \<Longrightarrow> hr_live r (cart_key x u) = Some (h, e) \<Longrightarrow> hash_ok x h"
  by (auto simp: carts_ok_def dest: hr_live_Some)

lemma hash_ok_update:
  assumes "hash_ok x h" "entry_ok x (f, v)" "f \<in> fst ` set h \<or> length h < max_cart_items"
  shows "hash_ok x (AList.update f v h)"
proof -
  have len: "length (AList.update f v h) = (if f \<in> fst ` set h then length h else Suc (length h))" for h
    by (induction h) auto
  have mem: "set (AList.update f v h) \<subseteq> insert (f, v) (set h)" for h
    by (induction h) auto
  have "AList.update f v h \<noteq> []" using assms(1) by (cases h) (auto simp: hash_ok_def)
  moreover have "list_all (entry_ok x) (AList.update f v h)"
    using mem[of h] assms(1,2) by (auto simp: hash_ok_def list_all_iff)
  ultimately show ?thesis
    using assms distinct_update[of h f v] by (auto simp: hash_ok_def len)
qed

lemma hash_ok_delete:
  assumes "hash_ok x h" "AList.delete f h \<noteq> []" shows "hash_ok x (AList.delete f h)"
proof -
  have "length (AList.delete f h) \<le> max_cart_items"
    using assms(1) by (auto simp: hash_ok_def AList.delete_eq intro: order_trans[OF length_filter_le])
  then show ?thesis using assms by (auto simp: hash_ok_def AList.delete_eq list_all_iff distinct_map_filter)
qed


lemma carts_ok_hset:
  assumes "carts_ok x r" "entry_ok x (f, v)"
    and "\<And>h e. hr_store r (cart_key x u) = Some (h, e) \<Longrightarrow> f \<in> fst ` set h \<or> length h < max_cart_items"
  shows "carts_ok x ((hr_tick r)\<lparr>hr_store := (hr_store r)(cart_key x u \<mapsto>
    (case hr_live r (cart_key x u) of Some (h, e) \<Rightarrow> (AList.update f v h, e) | None \<Rightarrow> ([(f, v)], None)))\<rparr>)"
proof (rule carts_ok_update[OF assms(1)])
  fix h e
  assume "Some (case hr_live r (cart_key x u) of Some (h, e) \<Rightarrow> (AList.update f v h, e) | None \<Rightarrow> ([(f, v)], None))
      = Some (h, e)"
  then consider "h = [(f, v)]"
    | h0 e0 where "hr_live r (cart_key x u) = Some (h0, e0)" "h = AList.update f v h0"
    by (cases "hr_live r (cart_key x u)") (auto split: prod.splits)
  then show "hash_ok x h"
  proof cases
    case 1
    then show ?thesis using assms(2) by (simp add: hash_ok_def max_cart_items_def)
  next
    case 2
    from hash_ok_update[OF carts_ok_live[OF assms(1) 2(1)] assms(2) assms(3)[OF hr_live_Some[OF 2(1)]]] 2(2)
    show ?thesis by simp
  qed
qed

lemma carts_ok_hdel:
  assumes "carts_ok x r"
  shows "carts_ok x ((hr_tick r)\<lparr>hr_store := (hr_store r)(cart_key x u :=
    (case hr_live r (cart_key x u) of
       Some (h, e) \<Rightarrow> (case AList.delete f h of [] \<Rightarrow> None | h' \<Rightarrow> Some (h', e)) | None \<Rightarrow> None))\<rparr>)"
proof (rule carts_ok_update[OF assms])
  fix h e
  assume "(case hr_live r (cart_key x u) of
       Some (h, e) \<Rightarrow> (case AList.delete f h of [] \<Rightarrow> None | h' \<Rightarrow> Some (h', e)) | None \<Rightarrow> None) = Some (h, e)"
  then obtain h0 where h0: "hr_live r (cart_key x u) = Some (h0, e)" and h: "AList.delete f h0 = h" "h \<noteq> []"
    by (cases "hr_live r (cart_key x u)") (fastforce split: prod.splits list.splits)+
  then show "hash_ok x h" using hash_ok_delete[OF carts_ok_live[OF assms h0], of f] by simp
qed

lemma carts_ok_expire:
  assumes "carts_ok x r"
  shows "carts_ok x ((hr_tick r)\<lparr>hr_store := (hr_store r)(cart_key x u :=
    map_option (\<lambda>(h, _). (h, Some t)) (hr_live r (cart_key x u)))\<rparr>)"
  by (rule carts_ok_update[OF assms]) (use carts_ok_live[OF assms, of u] in auto)

section \<open>Every operation keeps it\<close>

text \<open>There is room for a SKU: it is in the cart already, or the cart is not full.\<close>

definition room_for :: "externs \<Rightarrow> uuid \<Rightarrow> uuid \<Rightarrow> hash_redis \<Rightarrow> bool" where
  "room_for x u sku r \<longleftrightarrow>
     (\<forall>h e. hr_store r (cart_key x u) = Some (h, e) \<longrightarrow> uuid_str x sku \<in> fst ` set h \<or> length h < max_cart_items)"

lemma wp_item_exists:
  "carts_ok x r \<Longrightarrow> wp (item_exists x u sku) (\<lambda>b r'. carts_ok x r' \<and> (b \<longrightarrow> room_for x u sku r')) (carts_ok x) r"
  unfolding item_exists_def hexists_def wp_map_err
  by (rule wp_hr_cmd)
     (auto simp: carts_ok_touch room_for_def hr_fields_live map_of_eq_None_iff)

lemma wp_cart_item_count:
  "carts_ok x r \<Longrightarrow>
     wp (cart_item_count x u) (\<lambda>n r'. carts_ok x r' \<and> (n < max_cart_items \<longrightarrow> room_for x u sku r')) (carts_ok x) r"
  unfolding cart_item_count_def hlen_def wp_map_err
  by (rule wp_hr_cmd) (auto simp: carts_ok_touch room_for_def hr_fields_live)

lemma wp_expire: "carts_ok x r \<Longrightarrow> wp (expire (cart_key x u) secs) (\<lambda>_. carts_ok x) (carts_ok x) r"
  unfolding expire_def by (rule wp_hr_cmd) (simp_all add: carts_ok_expire)

lemma wp_set_cart_item:
  assumes "carts_ok x r" "room_for x u sku r" "entry_ok x (uuid_str x sku, json_text x (stored_to_json x stored))"
  shows "wp (set_cart_item x u sku stored) (\<lambda>_. carts_ok x) (carts_ok x) r"
proof -
  have "wp (hset (cart_key x u) (uuid_str x sku) (json_text x (stored_to_json x stored))) (\<lambda>_. carts_ok x) (carts_ok x) r"
    unfolding hset_def
    by (rule wp_hr_cmd) (use assms carts_ok_hset[OF assms(1,3)] in \<open>simp_all add: room_for_def\<close>)
  then show ?thesis
    unfolding set_cart_item_def Let_def wp_bnd wp_map_err by (rule wp_mono) (auto intro: wp_expire)
qed

lemma wp_remove_cart_item: "carts_ok x r \<Longrightarrow> wp (remove_cart_item x u sku) (\<lambda>_. carts_ok x) (carts_ok x) r"
proof -
  assume ok: "carts_ok x r"
  have "wp (hdel (cart_key x u) (uuid_str x sku)) (\<lambda>_. carts_ok x) (carts_ok x) r"
    unfolding hdel_def by (rule wp_hr_cmd) (simp_all add: ok carts_ok_hdel)
  then show ?thesis
    unfolding remove_cart_item_def Let_def wp_bnd wp_map_err by (rule wp_mono) (auto intro: wp_expire)
qed

lemma wp_clear_cart: "carts_ok x r \<Longrightarrow> wp (repo_clear_cart x u) (\<lambda>_. carts_ok x) (carts_ok x) r"
  unfolding repo_clear_cart_def hdrop_def wp_map_err by (rule wp_hr_cmd) (auto intro: carts_ok_update)

text \<open>Reading: the rows of a valid cart are valid.\<close>

lemma wp_hgetall:
  "carts_ok x r \<Longrightarrow> wp (hgetall (cart_key x u)) (\<lambda>h r'. carts_ok x r' \<and> (h = [] \<or> hash_ok x h)) (carts_ok x) r"
  unfolding hgetall_def
  by (rule wp_hr_cmd) (auto simp: carts_ok_touch hr_fields_def dest: carts_ok_live split: option.splits)

lemma wp_reading: "wp m Q E s \<Longrightarrow> (\<And>a t. Q a t \<Longrightarrow> I t) \<Longrightarrow> (\<And>t. E t \<Longrightarrow> I t) \<Longrightarrow>
    wp (bnd m (\<lambda>a t. (f a t, t))) (\<lambda>_. I) I s"
  by (auto simp: wp_def bnd_def split: prod.splits result.splits)

lemma wp_load_cart: "carts_ok x r \<Longrightarrow> wp (load_cart x u) (\<lambda>_. carts_ok x) (carts_ok x) r"
proof -
  assume "carts_ok x r"
  then have "wp (repo_get_cart x u) (\<lambda>_. carts_ok x) (carts_ok x) r"
    unfolding repo_get_cart_def
    by (intro wp_reading[where Q = "\<lambda>_. carts_ok x" and E = "carts_ok x"])
       (auto simp: wp_map_err intro: wp_mono[OF wp_hgetall])
  then show ?thesis
    unfolding load_cart_def wp_bnd
    by (rule wp_mono) (auto simp: wp_simps split: result.splits)
qed

lemma wp_get_cart: "carts_ok x r \<Longrightarrow> wp (get_cart x u) (\<lambda>_. carts_ok x) (carts_ok x) r"
  unfolding get_cart_def wp_bnd
  by (rule wp_mono[OF wp_load_cart]) (auto simp: wp_simps split: result.splits)

lemma wp_validate_cart: "carts_ok x r \<Longrightarrow> wp (validate_cart x u) (\<lambda>_. carts_ok x) (carts_ok x) r"
  unfolding validate_cart_def wp_bnd
  by (rule wp_mono[OF wp_load_cart]) (auto simp: wp_simps Let_def split: result.splits)

lemma entry_ok_stored:
  assumes "cart_codecs x" "to_domain x s = Ok i" "cart_product_name_new (cs_product_name s) = Ok (cs_product_name s)"
  shows "entry_ok x (uuid_str x (cs_sku_id s), json_text x (stored_to_json x s))"
proof -
  have "cs_quantity s < 2 ^ 32"
    using assms(2) by (auto simp: to_domain_def and_then_Ok_iff cart_quantity_new_Ok_iff)
  then show ?thesis using assms read_stored_written[OF assms(1), of s] by (simp add: entry_ok_def)
qed

lemma wp_add_item_check:
  assumes "carts_ok x r"
  shows "wp (add_item_check x u req)
    (\<lambda>v r'. carts_ok x r' \<and> valid_add_to_cart x req = Ok v \<and> room_for x u (va_sku_id v) r') (carts_ok x) r"
proof (cases "valid_add_to_cart x req")
  case (Ok v)
  have "wp (item_exists x u (va_sku_id v))
      (\<lambda>b r'. carts_ok x r' \<and> (b \<longrightarrow> room_for x u (va_sku_id v) r')) (carts_ok x) r"
    by (rule wp_item_exists[OF assms])
  then show ?thesis
    unfolding add_item_check_def wp_bnd wp_of_result Ok
    by simp (erule wp_mono, auto simp: wp_simps intro: wp_mono[OF wp_cart_item_count[of x _ u "va_sku_id v"]])
qed (simp_all add: add_item_check_def wp_simps assms)

lemma wp_add_item_write:
  assumes "cart_codecs x" "carts_ok x r" "valid_add_to_cart x req = Ok v" "add_req_typed req" "room_for x u (va_sku_id v) r"
  shows "wp (add_item_write x u v) (\<lambda>_. carts_ok x) (carts_ok x) r"
proof -
  let ?s = "to_stored x v (hr_utc r (hr_ticks r))"
  have "entry_ok x (uuid_str x (cs_sku_id ?s), json_text x (stored_to_json x ?s))"
    by (rule entry_ok_stored[OF assms(1) to_domain_to_stored[OF assms(1,3,4)]])
       (use valid_add_to_cart_Ok[OF assms(3)] in \<open>simp add: to_stored_def\<close>)
  then have "entry_ok x (uuid_str x (va_sku_id v), json_text x (stored_to_json x ?s))" by (simp add: to_stored_def)
  from wp_set_cart_item[OF assms(2,5) this]
  have "wp (bnd (set_cart_item x u (va_sku_id v) ?s) (\<lambda>_. get_cart x u)) (\<lambda>_. carts_ok x) (carts_ok x) r"
    unfolding wp_bnd by (rule wp_mono) (auto intro: wp_get_cart)
  then show ?thesis by (simp add: wp_def add_item_write_def Let_def)
qed

lemma wp_add_item:
  assumes "cart_codecs x" "carts_ok x r" "add_req_typed req"
  shows "wp (add_item x u req) (\<lambda>_. carts_ok x) (carts_ok x) r"
  unfolding add_item_def wp_bnd
  by (rule wp_mono[OF wp_add_item_check[OF assms(2)]]) (use assms wp_add_item_write in auto)


text \<open>An item that is read is the one stored under its SKU.\<close>

lemma wp_get_cart_item:
  assumes "cart_codecs x" "carts_ok x r"
  shows "wp (get_cart_item x u sku)
    (\<lambda>v r'. carts_ok x r' \<and> (\<forall>s. v = Some s \<longrightarrow> room_for x u sku r' \<and> cs_sku_id s = sku \<and>
       is_ok (to_domain x s) \<and> cart_product_name_new (cs_product_name s) = Ok (cs_product_name s))) (carts_ok x) r"
proof -
  let ?k = "cart_key x u" and ?f = "uuid_str x sku"
  have hget: "wp (hget ?k ?f) (\<lambda>v r'. carts_ok x r' \<and>
      (\<forall>t. v = Some t \<longrightarrow> room_for x u sku r' \<and> entry_ok x (?f, t))) (carts_ok x) r"
    unfolding hget_def
  proof (rule wp_hr_cmd)
    have "room_for x u sku (hr_tick r\<lparr>hr_store := hr_touch ?k r\<rparr>) \<and> entry_ok x (?f, t)"
      if t: "map_of (hr_fields r ?k) ?f = Some t" for t
    proof -
      obtain h e where h: "hr_live r ?k = Some (h, e)"
        using t by (cases "hr_live r ?k") (auto simp: hr_fields_def)
      have m: "(?f, t) \<in> set h" using t h by (auto simp: hr_fields_live dest: map_of_SomeD)
      moreover have "entry_ok x (?f, t)" using carts_ok_live[OF assms(2) h] m by (auto simp: hash_ok_def list_all_iff)
      ultimately show ?thesis using h by (force simp: room_for_def)
    qed
    then show "carts_ok x (hr_tick r\<lparr>hr_store := hr_touch ?k r\<rparr>) \<and>
        (\<forall>t. map_of (hr_fields r ?k) ?f = Some t \<longrightarrow>
           room_for x u sku (hr_tick r\<lparr>hr_store := hr_touch ?k r\<rparr>) \<and> entry_ok x (?f, t))"
      by (simp add: carts_ok_touch assms(2))
  qed (simp_all add: carts_ok_touch assms(2))
  have uc: "uuid_codec x" using assms(1) by (simp add: cart_codecs_def)
  show ?thesis
    unfolding get_cart_item_def wp_bnd wp_map_err
    by (rule wp_mono[OF hget])
       (auto simp: wp_simps entry_ok_def and_then_Ok_iff uuid_str_inj[OF uc] split: option.splits result.splits)
qed

lemma wp_update_item_quantity:
  assumes "cart_codecs x" "carts_ok x r"
  shows "wp (update_item_quantity x u sku req) (\<lambda>_. carts_ok x) (carts_ok x) r"
proof (cases "valid_update_cart_item req")
  case (Ok q)
  have q: "1 \<le> q" "q \<le> 99" using Ok by (auto simp: valid_update_cart_item_def cart_quantity_new_Ok_iff)
  have store: "wp (set_cart_item x u sku (s\<lparr>cs_quantity := q\<rparr>)) (\<lambda>_. carts_ok x) (carts_ok x) t"
    if "carts_ok x t" "room_for x u sku t" "cs_sku_id s = sku" "is_ok (to_domain x s)"
      "cart_product_name_new (cs_product_name s) = Ok (cs_product_name s)" for s t
  proof -
    have "\<exists>i. to_domain x s = Ok i" using that(4) by (cases "to_domain x s") auto
    then obtain i where "to_domain x s = Ok i" ..
    then have "to_domain x (s\<lparr>cs_quantity := q\<rparr>) = Ok (i\<lparr>ct_quantity := q\<rparr>)"
      using q by (auto simp: to_domain_def and_then_Ok_iff cart_quantity_new_Ok_iff)
    from entry_ok_stored[OF assms(1) this] that(3,5)
    show ?thesis by (intro wp_set_cart_item that(1,2)) simp
  qed
  show ?thesis
    unfolding update_item_quantity_def wp_bnd wp_of_result Ok result.case
    by (rule wp_mono[OF wp_get_cart_item[OF assms]])
       (auto simp: ok_or_def split: option.splits intro!: wp_mono[OF store] wp_get_cart)
qed (simp_all add: update_item_quantity_def wp_simps assms)

lemma wp_bnd_ret: "wp (bnd m (\<lambda>a. ret (f a))) Q E s = wp m (\<lambda>a. Q (f a)) E s"
  by (simp add: wp_bnd wp_ret[abs_def])

lemma wp_cart_handler:
  assumes "cart_codecs x" "carts_ok x r" "route_typed rt"
  shows "wp (cart_handler x u rt) (\<lambda>_. carts_ok x) (carts_ok x) r"
  using assms wp_get_cart wp_add_item wp_update_item_quantity wp_remove_cart_item wp_clear_cart wp_validate_cart
  by (cases rt) (simp_all add: wp_bnd_ret remove_item_def clear_cart_def)


section \<open>One key at a time\<close>

text \<open>An effect that writes to no other key than the given one, whatever its outcome.\<close>

definition touches_only :: "string \<Rightarrow> (hash_redis, 'e, 'a) eff \<Rightarrow> bool" where
  "touches_only k m \<longleftrightarrow> (\<forall>r k'. k' \<noteq> k \<longrightarrow> hr_store (snd (m r)) k' = hr_store r k')"

named_theorems touch_rules \<open>effects on one key\<close>

lemma touches_only_basic [touch_rules]:
  "touches_only k (ret a)" "touches_only k (throw e)" "touches_only k (of_result q)" "touches_only k (\<lambda>r. (g r, r))"
  by (simp_all add: touches_only_def eff_defs)

lemma touches_only_bnd [touch_rules]:
  "touches_only k m \<Longrightarrow> (\<And>a. touches_only k (f a)) \<Longrightarrow> touches_only k (bnd m f)"
  by (auto simp: touches_only_def bnd_def split: prod.splits result.splits) (metis snd_conv)+

lemma touches_only_map_err [touch_rules]: "touches_only k m \<Longrightarrow> touches_only k (map_err f m)"
  by (simp add: touches_only_def)

lemma touches_only_cmd:
  "(\<And>r k'. k' \<noteq> k \<Longrightarrow> effect r k' = hr_store r k') \<Longrightarrow> touches_only k (hr_cmd reply effect)"
  by (auto simp: touches_only_def hr_cmd_def split: list.splits option.splits redis_fault.splits)

lemma touches_only_commands [touch_rules]:
  "touches_only k (hgetall k)" "touches_only k (hget k f)" "touches_only k (hlen k)" "touches_only k (hexists k f)"
  "touches_only k (hset k f v)" "touches_only k (hdel k f)" "touches_only k (expire k n)" "touches_only k (hdrop k)"
  unfolding hgetall_def hget_def hlen_def hexists_def hset_def hdel_def expire_def hdrop_def
  by (rule touches_only_cmd; simp add: hr_touch_def)+

lemma touches_only_repository [touch_rules]:
  "touches_only (cart_key x u) (repo_get_cart x u)" "touches_only (cart_key x u) (get_cart_item x u sku)"
  "touches_only (cart_key x u) (cart_item_count x u)" "touches_only (cart_key x u) (item_exists x u sku)"
  "touches_only (cart_key x u) (set_cart_item x u sku st)" "touches_only (cart_key x u) (remove_cart_item x u sku)"
  "touches_only (cart_key x u) (repo_clear_cart x u)"
  unfolding repo_get_cart_def get_cart_item_def cart_item_count_def item_exists_def set_cart_item_def
    remove_cart_item_def repo_clear_cart_def Let_def
  by (intro touch_rules | simp split: option.split | simp add: touch_rules)+

lemma touches_only_get_cart [touch_rules]: "touches_only (cart_key x u) (get_cart x u)"
  unfolding get_cart_def load_cart_def by (intro touch_rules)

lemma touches_only_add_item [touch_rules]: "touches_only (cart_key x u) (add_item x u req)"
proof -
  have "touches_only (cart_key x u) (add_item_check x u req)"
    unfolding add_item_check_def by (intro touch_rules) (auto intro!: touch_rules)
  moreover have "touches_only (cart_key x u) (add_item_write x u v)" for v
  proof -
    have "touches_only (cart_key x u) (bnd (set_cart_item x u (va_sku_id v) st) (\<lambda>_. get_cart x u))" for st
      by (intro touch_rules)
    then show ?thesis by (auto simp: touches_only_def add_item_write_def Let_def)
  qed
  ultimately show ?thesis unfolding add_item_def by (intro touch_rules)
qed

lemma touches_only_handler: "touches_only (cart_key x (cu_id u)) (cart_handler x u rt)"
  by (cases rt)
     (auto simp: remove_item_def clear_cart_def update_item_quantity_def validate_cart_def load_cart_def Let_def
       intro!: touch_rules)

lemma cart_key_inj: "uuid_codec x \<Longrightarrow> cart_key x u = cart_key x v \<longleftrightarrow> u = v"
  by (simp add: cart_key_def uuid_str_inj)


section \<open>Sequences of requests\<close>

interpretation carts: request_service "cart_handler x" route_typed "\<lambda>r. cart_codecs x \<and> carts_ok x r"
  "\<lambda>v r. hr_store r (cart_key x v)" "\<lambda>u v. cart_key x (cu_id u) = cart_key x v" for x
proof unfold_locales
  fix q s u
  assume a: "route_typed q" "cart_codecs x \<and> carts_ok x s"
  show "cart_codecs x \<and> carts_ok x (snd (cart_handler x u q s))"
    using a wp_total_D[OF wp_cart_handler[of x s q u] prod.collapse[symmetric]] by simp
next
  fix v and u :: current_user and q s
  assume "cart_key x (cu_id u) \<noteq> cart_key x v"
  then show "hr_store (snd (cart_handler x u q s)) (cart_key x v) = hr_store s (cart_key x v)"
    using touches_only_handler[of x u q] by (simp add: touches_only_def)
qed

section \<open>The cart as a map\<close>

definition item_at :: "externs \<Rightarrow> string option \<Rightarrow> cart_item option" where
  "item_at x v =
     (case v of
        None \<Rightarrow> None
      | Some t \<Rightarrow> (case and_then (read_stored x t) (to_domain x) of Ok i \<Rightarrow> Some i | _ \<Rightarrow> None))"

definition cart_view :: "externs \<Rightarrow> hash_redis \<Rightarrow> uuid \<Rightarrow> uuid \<Rightarrow> cart_item option" where
  "cart_view x r u sku = item_at x (map_of (hr_fields r (cart_key x u)) (uuid_str x sku))"

text \<open>What each request means for the map of its user.\<close>

fun cart_spec :: "externs \<Rightarrow> timestamp \<Rightarrow> cart_route \<Rightarrow> (uuid \<Rightarrow> cart_item option) \<Rightarrow> uuid \<Rightarrow> cart_item option" where
  "cart_spec x ts RGetCart m = m"
| "cart_spec x ts RClearCart m = Map.empty"
| "cart_spec x ts (RAddItem req) m =
     (case valid_add_to_cart x req of Ok v \<Rightarrow> m(va_sku_id v \<mapsto> requested_item v ts) | _ \<Rightarrow> m)"
| "cart_spec x ts (RUpdateItem sku_id req) m =
     m(sku_id := map_option (\<lambda>i. i\<lparr>ct_quantity := uc_quantity req\<rparr>) (m sku_id))"
| "cart_spec x ts (RRemoveItem sku_id) m = m(sku_id := None)"
| "cart_spec x ts RValidateCart m = m"

text \<open>A response that shows a map: its items are those of the map, each once.\<close>

definition shows_cart :: "externs \<Rightarrow> (uuid \<Rightarrow> cart_item option) \<Rightarrow> cart_res \<Rightarrow> bool" where
  "shows_cart x m c \<longleftrightarrow>
     (\<exists>u items. distinct (map ct_sku_id items) \<and> set items = ran m \<and>
        cart_res_of x \<lparr>cart_user_id = u, cart_items = items\<rparr> = Ok c)"

text \<open>No second passes on the server's clock while the request runs.\<close>

definition within_a_second :: "hash_redis \<Rightarrow> bool" where
  "within_a_second r \<longleftrightarrow> (\<forall>n\<ge>hr_ticks r. hr_clock r n = hr_clock r (hr_ticks r))"

lemma within_tick:
  assumes "within_a_second r"
  shows "within_a_second ((hr_tick r)\<lparr>hr_store := st\<rparr>)"
    and "hr_clock r (Suc (hr_ticks r)) = hr_clock r (hr_ticks r)"
proof -
  have c: "hr_clock r n = hr_clock r (hr_ticks r)" if "hr_ticks r \<le> n" for n
    using assms that unfolding within_a_second_def by blast
  show "hr_clock r (Suc (hr_ticks r)) = hr_clock r (hr_ticks r)" by (rule c) simp
  have later: "hr_clock r n = hr_clock r (Suc (hr_ticks r))" if "Suc (hr_ticks r) \<le> n" for n
    using c[of n] c[of "Suc (hr_ticks r)"] that by simp
  have fields: "hr_clock ((hr_tick r)\<lparr>hr_store := st\<rparr>) = hr_clock r"
    "hr_ticks ((hr_tick r)\<lparr>hr_store := st\<rparr>) = Suc (hr_ticks r)" by simp_all
  show "within_a_second ((hr_tick r)\<lparr>hr_store := st\<rparr>)"
    unfolding within_a_second_def fields using later by blast
qed

text \<open>What is left of a key at the present time, and its fields.\<close>

definition unexpired :: "hash_redis \<Rightarrow> (hash \<times> nat option) option \<Rightarrow> (hash \<times> nat option) option" where
  "unexpired r v =
     (case v of Some (h, Some e) \<Rightarrow> if hr_clock r (hr_ticks r) < e then v else None | _ \<Rightarrow> v)"

definition hash_part :: "(hash \<times> nat option) option \<Rightarrow> hash" where
  "hash_part v = (case v of Some (h, e) \<Rightarrow> h | None \<Rightarrow> [])"

lemma hr_live_unexpired: "hr_live r k = unexpired r (hr_store r k)"
  by (simp add: hr_live_def unexpired_def split: option.split prod.split)

lemma unexpired_idem [simp]: "unexpired r (unexpired r v) = unexpired r v"
  by (simp add: unexpired_def split: option.split prod.split)

lemma unexpired_live [simp]: "unexpired r (hr_live r k) = hr_live r k"
  by (simp add: hr_live_unexpired)

lemma hr_fields_part: "hr_fields r k = hash_part (hr_live r k)"
  by (simp add: hr_fields_def hash_part_def)

lemma fields_after:
  assumes "within_a_second r"
  shows "hr_fields ((hr_tick r)\<lparr>hr_store := (hr_store r)(k := v)\<rparr>) = (hr_fields r)(k := hash_part (unexpired r v))"
proof -
  have "unexpired ((hr_tick r)\<lparr>hr_store := st\<rparr>) w = unexpired r w" for st w
    by (simp add: unexpired_def within_tick(2)[OF assms] split: option.split prod.split)
  then show ?thesis by (simp add: fun_eq_iff hr_fields_part hr_live_unexpired)
qed

lemma hset_part:
  "hash_part (unexpired r (Some (case hr_live r k of Some (h, e) \<Rightarrow> (AList.update f t h, e) | None \<Rightarrow> ([(f, t)], None))))
     = AList.update f t (hr_fields r k)"
  by (simp add: hr_fields_def hash_part_def unexpired_def hr_live_def split: option.splits prod.splits if_splits)

lemma hdel_part:
  "hash_part (unexpired r (case hr_live r k of
       Some (h, e) \<Rightarrow> (case AList.delete f h of [] \<Rightarrow> None | h' \<Rightarrow> Some (h', e)) | None \<Rightarrow> None))
     = AList.delete f (hr_fields r k)"
  by (auto simp: hr_fields_def hash_part_def unexpired_def hr_live_def split: option.splits prod.splits if_splits list.splits)

lemma expire_part:
  "0 < secs \<Longrightarrow> hash_part (unexpired r (map_option (\<lambda>(h, _). (h, Some (hr_clock r (hr_ticks r) + secs))) (hr_live r k)))
     = hr_fields r k"
  by (cases "hr_live r k") (auto simp: hr_fields_def hash_part_def unexpired_def)

lemma command_Ok:
  assumes "within_a_second r"
  shows "hgetall k r = (Ok h, r') \<Longrightarrow> h = hr_fields r k \<and> hr_fields r' = hr_fields r \<and> within_a_second r'"
    and "hget k f r = (Ok v, r') \<Longrightarrow> v = map_of (hr_fields r k) f \<and> hr_fields r' = hr_fields r \<and> within_a_second r'"
    and "hlen k r = (Ok n, r') \<Longrightarrow> hr_fields r' = hr_fields r \<and> within_a_second r'"
    and "hexists k f r = (Ok b, r') \<Longrightarrow> hr_fields r' = hr_fields r \<and> within_a_second r'"
    and "hset k f t r = (Ok w, r') \<Longrightarrow>
      hr_fields r' = (hr_fields r)(k := AList.update f t (hr_fields r k)) \<and> within_a_second r'"
    and "hdel k f r = (Ok w, r') \<Longrightarrow>
      hr_fields r' = (hr_fields r)(k := AList.delete f (hr_fields r k)) \<and> within_a_second r'"
    and "0 < secs \<Longrightarrow> expire k secs r = (Ok w, r') \<Longrightarrow> hr_fields r' = hr_fields r \<and> within_a_second r'"
    and "hdrop k r = (Ok w, r') \<Longrightarrow> hr_fields r' = (hr_fields r)(k := []) \<and> within_a_second r'"
proof -
  note after = within_tick(1)[OF assms] fields_after[OF assms] hset_part hdel_part expire_part hr_touch_def
  have same: "(hr_fields r)(k := hr_fields r k) = hr_fields r" by simp
  have touch: "hash_part (unexpired r (hr_live r k)) = hr_fields r k" by (simp add: hr_fields_part)
  show "hgetall k r = (Ok h, r') \<Longrightarrow> h = hr_fields r k \<and> hr_fields r' = hr_fields r \<and> within_a_second r'"
    unfolding hgetall_def by (drule hr_cmd_Ok) (simp add: after touch del: unexpired_live)
  show "hget k f r = (Ok v, r') \<Longrightarrow> v = map_of (hr_fields r k) f \<and> hr_fields r' = hr_fields r \<and> within_a_second r'"
    unfolding hget_def by (drule hr_cmd_Ok) (simp add: after touch del: unexpired_live)
  show "hlen k r = (Ok n, r') \<Longrightarrow> hr_fields r' = hr_fields r \<and> within_a_second r'"
    unfolding hlen_def by (drule hr_cmd_Ok) (simp add: after touch del: unexpired_live)
  show "hexists k f r = (Ok b, r') \<Longrightarrow> hr_fields r' = hr_fields r \<and> within_a_second r'"
    unfolding hexists_def by (drule hr_cmd_Ok) (simp add: after touch del: unexpired_live)
  show "hset k f t r = (Ok w, r') \<Longrightarrow>
      hr_fields r' = (hr_fields r)(k := AList.update f t (hr_fields r k)) \<and> within_a_second r'"
    unfolding hset_def by (drule hr_cmd_Ok) (simp add: after)
  show "hdel k f r = (Ok w, r') \<Longrightarrow>
      hr_fields r' = (hr_fields r)(k := AList.delete f (hr_fields r k)) \<and> within_a_second r'"
    unfolding hdel_def by (drule hr_cmd_Ok) (simp add: after)
  show "0 < secs \<Longrightarrow> expire k secs r = (Ok w, r') \<Longrightarrow> hr_fields r' = hr_fields r \<and> within_a_second r'"
    unfolding expire_def by (drule hr_cmd_Ok) (simp add: after)
  show "hdrop k r = (Ok w, r') \<Longrightarrow> hr_fields r' = (hr_fields r)(k := []) \<and> within_a_second r'"
    unfolding hdrop_def by (drule hr_cmd_Ok) (simp add: after unexpired_def hash_part_def)
qed


lemma cart_view_update:
  assumes "uuid_codec x" "hr_fields r' = (hr_fields r)(cart_key x u := AList.update (uuid_str x sku) t (hr_fields r (cart_key x u)))"
  shows "cart_view x r' v = (if v = u then (cart_view x r u)(sku := item_at x (Some t)) else cart_view x r v)"
  using assms by (auto simp: cart_view_def fun_eq_iff cart_key_inj uuid_str_inj AList.update_conv')

lemma cart_view_delete:
  assumes "uuid_codec x" "hr_fields r' = (hr_fields r)(cart_key x u := AList.delete (uuid_str x sku) (hr_fields r (cart_key x u)))"
  shows "cart_view x r' v = (if v = u then (cart_view x r u)(sku := None) else cart_view x r v)"
  using assms by (auto simp: cart_view_def item_at_def fun_eq_iff cart_key_inj uuid_str_inj AList.delete_conv')

lemma cart_view_drop:
  assumes "uuid_codec x" "hr_fields r' = (hr_fields r)(cart_key x u := [])"
  shows "cart_view x r' v = (if v = u then Map.empty else cart_view x r v)"
  using assms by (auto simp: cart_view_def item_at_def fun_eq_iff cart_key_inj)

lemma cart_view_fields: "hr_fields r' = hr_fields r \<Longrightarrow> cart_view x r' = cart_view x r"
  by (simp add: cart_view_def fun_eq_iff)

lemma set_cart_item_Ok:
  assumes "within_a_second r" "cart_codecs x" "set_cart_item x u sku s r = (Ok w, r')" "to_domain x s = Ok i"
  shows "within_a_second r' \<and> (\<forall>v. cart_view x r' v = (if v = u then (cart_view x r u)(sku \<mapsto> i) else cart_view x r v))"
proof -
  let ?t = "json_text x (stored_to_json x s)"
  obtain r1 w1 where h: "hset (cart_key x u) (uuid_str x sku) ?t r = (Ok w1, r1)"
    and e: "expire (cart_key x u) cart_ttl_secs r1 = (Ok w, r')"
    using assms(3) by (auto simp: set_cart_item_def Let_def ok_iffs)
  note h' = command_Ok(5)[OF assms(1) h]
  have "hr_fields r' = hr_fields r1" "within_a_second r'"
    using command_Ok(7)[OF conjunct2[OF h'] _ e] by (simp_all add: cart_ttl_secs_def)
  moreover have "item_at x (Some ?t) = Some i"
  proof -
    have "cs_quantity s < 2 ^ 32" using assms(4) by (auto simp: to_domain_def and_then_Ok_iff cart_quantity_new_Ok_iff)
    then show ?thesis using read_stored_written[OF assms(2)] assms(4) by (simp add: item_at_def)
  qed
  ultimately show ?thesis
    using cart_view_update[of x r1 r u sku ?t] h' assms(2) cart_view_fields[of r' r1 x] by (simp add: cart_codecs_def)
qed

text \<open>Loading a valid cart yields the items of its map.\<close>

lemma item_at_entry:
  assumes "entry_ok x p" shows "\<exists>i. item_at x (Some (snd p)) = Some i \<and> uuid_str x (ct_sku_id i) = fst p"
proof -
  obtain s where s: "read_stored x (snd p) = Ok s" "fst p = uuid_str x (cs_sku_id s)" "is_ok (to_domain x s)"
    using assms by (auto simp: entry_ok_def split: result.splits)
  then obtain i where "to_domain x s = Ok i" by (cases "to_domain x s") auto
  moreover then have "ct_sku_id i = cs_sku_id s" by (auto simp: to_domain_def and_then_Ok_iff)
  ultimately show ?thesis using s by (auto simp: item_at_def)
qed

lemma load_cart_Ok:
  assumes "within_a_second r" "load_cart x u r = (Ok c, r')"
  obtains h where "mset h = mset (hr_fields r (cart_key x u))" "cart_user_id c = u"
    "list_all2 (\<lambda>p i. item_at x (Some (snd p)) = Some i) h (cart_items c)"
    "hr_fields r' = hr_fields r" "within_a_second r'"
proof -
  obtain h0 r1 ss where h: "hgetall (cart_key x u) r = (Ok h0, r1)"
    and rd: "collect_results (\<lambda>(_, t). read_stored x t) (map_iteration r1 h0) = Ok ss"
    and dom: "collect_results (to_domain x) ss = Ok (cart_items c)" and c: "cart_user_id c = u" "r' = r1"
    using assms(2) by (auto simp: load_cart_def repo_get_cart_def ok_iffs ret_def)
  let ?h = "map_iteration r1 h0"
  have "list_all2 (\<lambda>p i. \<exists>s. read_stored x (snd p) = Ok s \<and> to_domain x s = Ok i) ?h (cart_items c)"
    using list_all2_trans[OF _ rd[unfolded collect_results_Ok_iff] dom[unfolded collect_results_Ok_iff],
      of "\<lambda>p i. \<exists>s. read_stored x (snd p) = Ok s \<and> to_domain x s = Ok i"]
    by (fastforce split: prod.splits)
  then have "list_all2 (\<lambda>p i. item_at x (Some (snd p)) = Some i) ?h (cart_items c)"
    by (rule list_all2_mono) (auto simp: item_at_def)
  moreover have "mset ?h = mset (hr_fields r (cart_key x u))"
    using command_Ok(1)[OF assms(1) h] by (simp add: map_iteration_def)
  ultimately show ?thesis using that c command_Ok(1)[OF assms(1) h] by simp
qed

lemma load_cart_quantities:
  assumes "load_cart x u r = (Ok c, r')" "i \<in> set (cart_items c)"
  shows "1 \<le> ct_quantity i \<and> ct_quantity i \<le> 99"
proof -
  obtain ss where "collect_results (to_domain x) ss = Ok (cart_items c)"
    using assms(1) by (auto simp: load_cart_def ok_iffs ret_def)
  then have "list_all2 (\<lambda>s i. to_domain x s = Ok i) ss (cart_items c)" by (simp add: collect_results_Ok_iff)
  moreover obtain n where n: "n < length (cart_items c)" "cart_items c ! n = i"
    using assms(2) by (auto simp: in_set_conv_nth)
  ultimately have "to_domain x (ss ! n) = Ok i" by (auto dest: list_all2_nthD2)
  then show ?thesis by (rule to_domain_quantity)
qed

lemma loaded_items:
  assumes "uuid_codec x" "hash_ok x (hr_fields r (cart_key x u)) \<or> hr_fields r (cart_key x u) = []"
    and "mset h = mset (hr_fields r (cart_key x u))"
    and "list_all2 (\<lambda>p i. item_at x (Some (snd p)) = Some i) h items"
  shows "distinct (map ct_sku_id items) \<and> set items = ran (cart_view x r u)"
proof -
  let ?f = "hr_fields r (cart_key x u)"
  have dist: "distinct (map fst ?f)" and ok: "\<And>p. p \<in> set h \<Longrightarrow> entry_ok x p"
    using assms(2) mset_eq_setD[OF assms(3)] by (auto simp: hash_ok_def list_all_iff)
  have "distinct (map fst h)"
    using dist mset_eq_imp_distinct_iff[of "map fst h" "map fst ?f"] assms(3) by simp
  moreover have keys: "list_all2 (\<lambda>p i. uuid_str x (ct_sku_id i) = fst p) h items"
    by (rule list.rel_mono_strong[OF assms(4)]) (use ok item_at_entry[of x] in fastforce)
  then have "map (\<lambda>i. uuid_str x (ct_sku_id i)) items = map fst h"
    by (simp add: list_all2_conv_all_nth list_eq_iff_nth_eq)
  ultimately have "distinct (map (\<lambda>i. uuid_str x (ct_sku_id i)) items)" by simp
  then have "distinct (map ct_sku_id items)" by (auto simp: distinct_map inj_on_def)
  moreover have "set items = ran (cart_view x r u)"
  proof (intro set_eqI iffI)
    fix i assume "i \<in> set items"
    then obtain n where n: "n < length items" "items ! n = i" by (auto simp: in_set_conv_nth)
    define p where "p = h ! n"
    have p: "p \<in> set h" "item_at x (Some (snd p)) = Some i" "uuid_str x (ct_sku_id i) = fst p"
      using n assms(4) keys by (auto simp: p_def list_all2_conv_all_nth)
    have "p \<in> set ?f" using p(1) mset_eq_setD[OF assms(3)] by simp
    then have "map_of ?f (fst p) = Some (snd p)" using map_of_is_SomeI[OF dist, of "fst p" "snd p"] by simp
    then have "cart_view x r u (ct_sku_id i) = Some i" using p by (simp add: cart_view_def)
    then show "i \<in> ran (cart_view x r u)" by (auto simp: ran_def)
  next
    fix i assume "i \<in> ran (cart_view x r u)"
    then obtain sku where i: "item_at x (map_of ?f (uuid_str x sku)) = Some i" by (auto simp: ran_def cart_view_def)
    then obtain t where "map_of ?f (uuid_str x sku) = Some t"
      by (cases "map_of ?f (uuid_str x sku)") (auto simp: item_at_def)
    then have "(uuid_str x sku, t) \<in> set h" "item_at x (Some t) = Some i"
      using i mset_eq_setD[OF assms(3)] by (auto dest: map_of_SomeD)
    then show "i \<in> set items"
      using assms(4) by (force simp: list_all2_conv_all_nth in_set_conv_nth)
  qed
  ultimately show ?thesis by simp
qed

lemma fields_ok: "carts_ok x r \<Longrightarrow> hash_ok x (hr_fields r (cart_key x u)) \<or> hr_fields r (cart_key x u) = []"
  by (cases "hr_live r (cart_key x u)") (auto simp: hr_fields_def dest: carts_ok_live)

lemma get_cart_Ok:
  assumes "within_a_second r" "cart_codecs x" "carts_ok x r" "get_cart x u r = (Ok c, r')"
  shows "cart_view x r' = cart_view x r \<and> shows_cart x (cart_view x r u) c"
proof -
  obtain ct where l: "load_cart x u r = (Ok ct, r')" and c: "cart_res_of x ct = Ok c"
    using assms(4) by (auto simp: get_cart_def ok_iffs)
  obtain h where h: "mset h = mset (hr_fields r (cart_key x u))"
    "list_all2 (\<lambda>p i. item_at x (Some (snd p)) = Some i) h (cart_items ct)" "hr_fields r' = hr_fields r"
    using load_cart_Ok[OF assms(1) l] by blast
  have "distinct (map ct_sku_id (cart_items ct)) \<and> set (cart_items ct) = ran (cart_view x r u)"
    using loaded_items[OF _ fields_ok[OF assms(3)] h(1,2)] assms(2) by (simp add: cart_codecs_def)
  moreover have "cart_res_of x \<lparr>cart_user_id = cart_user_id ct, cart_items = cart_items ct\<rparr> = Ok c" using c by (cases ct) simp
  ultimately show ?thesis using cart_view_fields[OF h(3)] unfolding shows_cart_def by blast
qed


lemma add_item_check_Ok:
  assumes "within_a_second r" "add_item_check x u req r = (Ok v, r')"
  shows "hr_fields r' = hr_fields r \<and> within_a_second r'"
proof -
  obtain v' b r1 where e: "hexists (cart_key x u) (uuid_str x (va_sku_id v')) r = (Ok b, r1)"
    and rest: "(if \<not> b
       then bnd (cart_item_count x u) (\<lambda>count.
              if count \<ge> max_cart_items then throw (cart_to_app_error (CartFull max_cart_items)) else ret v')
       else ret v') r1 = (Ok v, r')"
    using assms(2) unfolding add_item_check_def item_exists_def ok_iffs by blast
  note e' = command_Ok(4)[OF assms(1) e]
  have "hr_fields r' = hr_fields r1 \<and> within_a_second r'"
  proof (cases b)
    case False
    then obtain n where "hlen (cart_key x u) r1 = (Ok n, r')"
      using rest by (auto simp: cart_item_count_def ok_iffs ret_def throw_def split: if_splits)
    then show ?thesis using command_Ok(3) e' by blast
  qed (use rest e' in \<open>simp add: ret_def\<close>)
  then show ?thesis using e' by simp
qed

lemma add_item_Ok:
  assumes "within_a_second r" "cart_codecs x" "carts_ok x r" "add_req_typed req" "add_item x u req r = (Ok c, r')"
  shows "\<exists>ts v. valid_add_to_cart x req = Ok v \<and>
    (\<forall>w. cart_view x r' w = (if w = u then (cart_view x r u)(va_sku_id v \<mapsto> requested_item v ts) else cart_view x r w)) \<and>
    shows_cart x (cart_view x r' u) c"
proof -
  obtain v r1 r2 where chk: "add_item_check x u req r = (Ok v, r1)"
    and set: "set_cart_item x u (va_sku_id v) (to_stored x v (hr_utc r1 (hr_ticks r1))) r1 = (Ok (), r2)"
    and get: "get_cart x u r2 = (Ok c, r')"
    using assms(5) by (auto simp: add_item_def add_item_write_def Let_def ok_iffs)
  let ?ts = "hr_utc r1 (hr_ticks r1)"
  have ok1: "carts_ok x r1" and v: "valid_add_to_cart x req = Ok v" and room: "room_for x u (va_sku_id v) r1"
    using wp_Ok_D[OF wp_add_item_check[OF assms(3)] chk] by simp_all
  have r1: "hr_fields r1 = hr_fields r" "within_a_second r1" using add_item_check_Ok[OF assms(1) chk] by simp_all
  have dom: "to_domain x (to_stored x v ?ts) = Ok (requested_item v ?ts)"
    by (rule to_domain_to_stored[OF assms(2) v assms(4)])
  have "entry_ok x (uuid_str x (va_sku_id v), json_text x (stored_to_json x (to_stored x v ?ts)))"
    using entry_ok_stored[OF assms(2) dom] valid_add_to_cart_Ok[OF v] by (simp add: to_stored_def)
  then have "carts_ok x r2" using wp_Ok_D[OF wp_set_cart_item[OF ok1 room] set] by simp
  moreover have r2: "within_a_second r2" "\<And>w. cart_view x r2 w = (if w = u
      then (cart_view x r u)(va_sku_id v \<mapsto> requested_item v ?ts) else cart_view x r w)"
    using set_cart_item_Ok[OF r1(2) assms(2) set dom] cart_view_fields[OF r1(1)] by simp_all
  ultimately show ?thesis using v get_cart_Ok[OF r2(1) assms(2) _ get] by auto
qed

lemma get_cart_item_Ok:
  assumes "within_a_second r" "get_cart_item x u sku r = (Ok (Some s), r')"
  shows "hr_fields r' = hr_fields r \<and> within_a_second r' \<and>
    (\<forall>i. to_domain x s = Ok i \<longrightarrow> cart_view x r u sku = Some i)"
proof -
  obtain t where t: "hget (cart_key x u) (uuid_str x sku) r = (Ok (Some t), r')" "read_stored x t = Ok s"
    using assms(2) by (auto simp: get_cart_item_def ok_iffs and_then_Ok_iff ret_def split: option.splits)
  note g = command_Ok(2)[OF assms(1) t(1)]
  have "map_of (hr_fields r (cart_key x u)) (uuid_str x sku) = Some t" using g by (metis)
  then have "item_at x (map_of (hr_fields r (cart_key x u)) (uuid_str x sku)) =
      (case to_domain x s of Ok i \<Rightarrow> Some i | _ \<Rightarrow> None)"
    using t(2) by (simp add: item_at_def)
  then show ?thesis using g by (simp add: cart_view_def)
qed

lemma update_item_quantity_Ok:
  assumes "within_a_second r" "cart_codecs x" "carts_ok x r" "update_item_quantity x u sku req r = (Ok c, r')"
  shows "cart_view x r u sku \<noteq> None \<and>
    (\<forall>w. cart_view x r' w = (if w = u
       then (cart_view x r u)(sku := map_option (\<lambda>i. i\<lparr>ct_quantity := uc_quantity req\<rparr>) (cart_view x r u sku))
       else cart_view x r w)) \<and> shows_cart x (cart_view x r' u) c"
proof -
  let ?q = "uc_quantity req"
  obtain s r1 r2 where get: "get_cart_item x u sku r = (Ok (Some s), r1)" and q: "1 \<le> ?q" "?q \<le> 99"
    and set: "set_cart_item x u sku (s\<lparr>cs_quantity := ?q\<rparr>) r1 = (Ok (), r2)" and fin: "get_cart x u r2 = (Ok c, r')"
    using assms(4)
    by (auto simp: update_item_quantity_def valid_update_cart_item_def cart_quantity_new_Ok_iff ok_iffs)
  have ok1: "carts_ok x r1" "room_for x u sku r1" and sku: "cs_sku_id s = sku" and "is_ok (to_domain x s)"
    and name: "cart_product_name_new (cs_product_name s) = Ok (cs_product_name s)"
    using wp_Ok_D[OF wp_get_cart_item[OF assms(2,3)] get] by auto
  then obtain i where i: "to_domain x s = Ok i" by (cases "to_domain x s") auto
  have r1: "hr_fields r1 = hr_fields r" "within_a_second r1" and view: "cart_view x r u sku = Some i"
    using get_cart_item_Ok[OF assms(1) get] i by auto
  have dom: "to_domain x (s\<lparr>cs_quantity := ?q\<rparr>) = Ok (i\<lparr>ct_quantity := ?q\<rparr>)"
    using i q by (auto simp: to_domain_def and_then_Ok_iff cart_quantity_new_Ok_iff)
  have "carts_ok x r2"
    using wp_Ok_D[OF wp_set_cart_item[OF ok1] set] entry_ok_stored[OF assms(2) dom] sku name by simp
  moreover have r2: "within_a_second r2"
    "\<And>w. cart_view x r2 w = (if w = u then (cart_view x r u)(sku \<mapsto> i\<lparr>ct_quantity := ?q\<rparr>) else cart_view x r w)"
    using set_cart_item_Ok[OF r1(2) assms(2) set dom] cart_view_fields[OF r1(1)] by simp_all
  ultimately show ?thesis using view get_cart_Ok[OF r2(1) assms(2) _ fin] by auto
qed

lemma remove_cart_item_Ok:
  assumes "within_a_second r" "uuid_codec x" "remove_cart_item x u sku r = (Ok w, r')"
  shows "cart_view x r' v = (if v = u then (cart_view x r u)(sku := None) else cart_view x r v)"
proof -
  obtain r1 w1 where h: "hdel (cart_key x u) (uuid_str x sku) r = (Ok w1, r1)"
    and e: "expire (cart_key x u) cart_ttl_secs r1 = (Ok w, r')"
    using assms(3) by (auto simp: remove_cart_item_def Let_def ok_iffs)
  note h' = command_Ok(6)[OF assms(1) h]
  have "hr_fields r' = hr_fields r1"
    using command_Ok(7)[OF conjunct2[OF h'] _ e] by (simp add: cart_ttl_secs_def)
  then show ?thesis using cart_view_delete[OF assms(2), of r1 r u sku v] h' cart_view_fields[of r' r1 x] by simp
qed


section \<open>Checkout\<close>

definition checkout_checks :: "checkout_check list" where
  "checkout_checks =
     [CartNotEmpty, MaxCartItems 50, MinCartValue 1, MaxCartValue 50000, AllItemsHaveValidPrices,
      AllQuantitiesWithinLimits]"

lemma checkout_outcome:
  "passed (evaluate_detailed checkout_readiness_rules p) \<longleftrightarrow> list_all p checkout_checks"
  "collect_failures (evaluate_detailed checkout_readiness_rules p) = filter (\<lambda>k. \<not> p k) checkout_checks"
proof -
  have rules: "checkout_readiness_rules = AllR (map Check checkout_checks)"
    by (simp add: checkout_readiness_rules_def rule_all_def rule_check_def max_cart_items_def min_cart_value_def
        max_cart_value_def checkout_checks_def)
  show "passed (evaluate_detailed checkout_readiness_rules p) \<longleftrightarrow> list_all p checkout_checks"
    by (simp only: rules passed_evaluate_detailed evaluate_conjunction)
  show "collect_failures (evaluate_detailed checkout_readiness_rules p) = filter (\<lambda>k. \<not> p k) checkout_checks"
    by (simp only: rules failures_conjunction)
qed

section \<open>Runs without faults\<close>

lemma healthy_cmd: "hr_faults r = [] \<Longrightarrow> hr_cmd reply effect r = (Ok (reply r), (hr_tick r)\<lparr>hr_store := effect r\<rparr>)"
  by (simp add: hr_cmd_def)

lemma healthy_tick [simp]: "hr_faults (hr_tick r) = tl (hr_faults r)"
  by (simp add: hr_tick_def)

text \<open>Where no command fails, a valid cart loads.\<close>

lemma read_entries:
  assumes "\<And>p. p \<in> set h \<Longrightarrow> entry_ok x p"
  shows "\<exists>ss items. collect_results (\<lambda>(_, t). read_stored x t) h = Ok ss \<and> collect_results (to_domain x) ss = Ok items"
  using assms
proof (induction h)
  case (Cons p h)
  then obtain ss items where rest: "collect_results (\<lambda>(_, t). read_stored x t) h = Ok ss"
    "collect_results (to_domain x) ss = Ok items" by auto
  have "entry_ok x p" using Cons.prems by simp
  then obtain s where s: "read_stored x (snd p) = Ok s" "is_ok (to_domain x s)"
    by (auto simp: entry_ok_def split: result.splits)
  then obtain i where "to_domain x s = Ok i" by (cases "to_domain x s") auto
  then show ?case using s rest by (auto split: prod.splits)
qed simp

lemma load_cart_total:
  assumes "carts_ok x r" "hr_faults r = []"
  obtains c r' where "load_cart x u r = (Ok c, r')" "hr_faults r' = []"
proof -
  let ?r = "(hr_tick r)\<lparr>hr_store := hr_touch (cart_key x u) r\<rparr>"
  have g: "hgetall (cart_key x u) r = (Ok (hr_fields r (cart_key x u)), ?r)"
    by (simp add: hgetall_def healthy_cmd assms(2))
  have "entry_ok x p" if "p \<in> set (map_iteration ?r (hr_fields r (cart_key x u)))" for p
    using that fields_ok[OF assms(1), of u] by (auto simp: map_iteration_def hash_ok_def list_all_iff)
  then obtain ss items where
    "collect_results (\<lambda>(_, t). read_stored x t) (map_iteration ?r (hr_fields r (cart_key x u))) = Ok ss"
    "collect_results (to_domain x) ss = Ok items" using read_entries by blast
  then have "load_cart x u r = (Ok \<lparr>cart_user_id = u, cart_items = items\<rparr>, ?r)"
    by (simp add: load_cart_def repo_get_cart_def map_err_def g run_simps)
  then show ?thesis using that assms(2) by simp
qed

lemma get_cart_fields:
  assumes "within_a_second r" "hr_faults r = []"
  shows "hr_fields (snd (get_cart x u r)) = hr_fields r \<and> within_a_second (snd (get_cart x u r)) \<and>
    hr_faults (snd (get_cart x u r)) = []"
proof -
  let ?r = "(hr_tick r)\<lparr>hr_store := hr_touch (cart_key x u) r\<rparr>"
  have g: "hgetall (cart_key x u) r = (Ok (hr_fields r (cart_key x u)), ?r)"
    by (simp add: hgetall_def healthy_cmd assms(2))
  have "snd (get_cart x u r) = ?r"
    by (simp add: get_cart_def load_cart_def repo_get_cart_def bnd_def map_err_def g ret_def of_result_def
        split: result.split)
  then show ?thesis using command_Ok(1)[OF assms(1) g] assms(2) by simp
qed

lemma collect_results_Panic:
  assumes "i \<in> set xs" "f i = Panic m" "\<And>j e. j \<in> set xs \<Longrightarrow> f j \<noteq> Err e"
  shows "\<exists>m'. collect_results f xs = Panic m'"
  using assms
proof (induction xs)
  case (Cons j xs)
  show ?case
  proof (cases "f j")
    case (Ok y)
    then have "i \<in> set xs" using Cons.prems(1,2) by auto
    then show ?thesis using Cons Ok by auto
  qed (use Cons.prems(3) in auto)
qed simp

lemma sum_lines_Panic:
  "i \<in> set items \<Longrightarrow> line_total x i = Panic m \<Longrightarrow> \<exists>m'. sum_lines x acc items = Panic m'"
proof (induction items arbitrary: acc)
  case (Cons j items)
  show ?case
  proof (cases "line_total x j")
    case (Ok t)
    then have "i \<in> set items" using Cons.prems by auto
    then show ?thesis using Cons Ok by (cases "dec_add x acc t") (auto simp: or_panic_def)
  qed (auto simp: line_total_def or_panic_def split: option.splits)
qed simp

lemma cart_res_Panic:
  assumes "i \<in> set (cart_items c)" "dec_mul x (price_value (ct_unit_price i)) (of_nat (ct_quantity i)) = None"
  shows "\<exists>m. cart_res_of x c = Panic m" "\<exists>m. checkout_context_of x c = Panic m"
proof -
  have i: "line_total x i = Panic ''Multiplication overflowed''" using assms(2) by (simp add: line_total_def or_panic_def)
  have "\<exists>m. collect_results (cart_item_res_of x) (cart_items c) = Panic m"
    by (rule collect_results_Panic[OF assms(1)])
       (auto simp: cart_item_res_of_def line_total_def or_panic_def assms(2) split: option.splits)
  then show "\<exists>m. cart_res_of x c = Panic m" by (auto simp: cart_res_of_def)
  show "\<exists>m. checkout_context_of x c = Panic m"
    using sum_lines_Panic[OF assms(1) i, of 0] by (auto simp: checkout_context_of_def cart_total_def)
qed

text \<open>With arithmetic that does not overflow and room in the cart, adding succeeds.\<close>

definition no_overflow :: "externs \<Rightarrow> bool" where
  "no_overflow x \<longleftrightarrow> (\<forall>a b. dec_mul x a b \<noteq> None \<and> dec_add x a b \<noteq> None)"

lemma cart_res_total: "no_overflow x \<Longrightarrow> \<exists>res. cart_res_of x c = Ok res"
proof -
  assume n: "no_overflow x"
  have line: "\<exists>t. line_total x i = Ok t" for i
  proof -
    have "dec_mul x (price_value (ct_unit_price i)) (of_nat (ct_quantity i)) \<noteq> None" using n unfolding no_overflow_def by blast
    then show ?thesis by (auto simp: line_total_def or_panic_def)
  qed
  have "\<exists>rs. collect_results (cart_item_res_of x) items = Ok rs" for items
  proof (induction items)
    case (Cons i items)
    then show ?case using line[of i] by (auto simp: cart_item_res_of_def)
  qed simp
  moreover have "\<exists>t. sum_lines x acc items = Ok t" for acc items
  proof (induction items arbitrary: acc)
    case (Cons i items)
    obtain t where t: "line_total x i = Ok t" using line by blast
    have "dec_add x acc t \<noteq> None" using n unfolding no_overflow_def by blast
    then show ?case using Cons t by (auto simp: or_panic_def)
  qed simp
  ultimately show ?thesis unfolding cart_res_of_def cart_total_def by (metis and_then.simps(1))
qed

lemma add_item_check_healthy:
  assumes "hr_faults r = []" "within_a_second r" "valid_add_to_cart x req = Ok v"
    "uuid_str x (va_sku_id v) \<notin> fst ` set (hr_fields r (cart_key x u))"
    "length (hr_fields r (cart_key x u)) < max_cart_items"
  shows "\<exists>r'. add_item_check x u req r = (Ok v, r') \<and> hr_faults r' = [] \<and> within_a_second r' \<and> hr_fields r' = hr_fields r"
proof -
  let ?k = "cart_key x u" and ?r = "(hr_tick r)\<lparr>hr_store := hr_touch (cart_key x u) r\<rparr>"
  let ?r2 = "(hr_tick ?r)\<lparr>hr_store := hr_touch (cart_key x u) ?r\<rparr>"
  have e: "hexists ?k (uuid_str x (va_sku_id v)) r = (Ok False, ?r)"
    using assms(4) by (simp add: hexists_def healthy_cmd assms(1) map_of_eq_None_iff)
  have l: "hlen ?k ?r = (Ok (length (hr_fields r ?k)), ?r2)"
    using command_Ok(4)[OF assms(2) e] by (simp add: hlen_def healthy_cmd assms(1))
  have "add_item_check x u req r = (Ok v, ?r2)"
    using assms(5)
    by (simp add: add_item_check_def item_exists_def cart_item_count_def bnd_def of_result_def ret_def map_err_def assms(3) e l)
  then show ?thesis using assms(1) add_item_check_Ok[OF assms(2)] by auto
qed

lemma set_cart_item_healthy:
  assumes "hr_faults r = []" "within_a_second r"
  shows "\<exists>r'. set_cart_item x u sku s r = (Ok (), r') \<and> hr_faults r' = [] \<and> within_a_second r' \<and>
    hr_fields r' = (hr_fields r)(cart_key x u :=
      AList.update (uuid_str x sku) (json_text x (stored_to_json x s)) (hr_fields r (cart_key x u)))"
proof -
  let ?k = "cart_key x u" and ?t = "json_text x (stored_to_json x s)"
  obtain r1 where h: "hset ?k (uuid_str x sku) ?t r = (Ok (), r1)" and f1: "hr_faults r1 = []"
    using assms(1) by (simp add: hset_def healthy_cmd)
  obtain r2 where e: "expire ?k cart_ttl_secs r1 = (Ok (), r2)" and f2: "hr_faults r2 = []"
    using f1 by (simp add: expire_def healthy_cmd)
  note h' = command_Ok(5)[OF assms(2) h]
  note e' = command_Ok(7)[OF conjunct2[OF h'] _ e]
  have "set_cart_item x u sku s r = (Ok (), r2)"
    by (simp add: set_cart_item_def Let_def bnd_def map_err_def h e)
  then show ?thesis using f2 h' e' by (simp add: cart_ttl_secs_def)
qed

lemma add_item_succeeds:
  assumes "cart_codecs x" "no_overflow x" "carts_ok x r" "hr_faults r = []" "within_a_second r"
    "valid_add_to_cart x req = Ok v" "add_req_typed req"
    "uuid_str x (va_sku_id v) \<notin> fst ` set (hr_fields r (cart_key x u))"
    "length (hr_fields r (cart_key x u)) < max_cart_items"
  shows "\<exists>c r'. add_item x u req r = (Ok c, r')"
proof -
  obtain r1 where chk: "add_item_check x u req r = (Ok v, r1)" and r1: "hr_faults r1 = []" "within_a_second r1"
    using add_item_check_healthy[OF assms(4-6,8,9)] by blast
  let ?s = "to_stored x v (hr_utc r1 (hr_ticks r1))"
  obtain r2 where set: "set_cart_item x u (va_sku_id v) ?s r1 = (Ok (), r2)" and r2: "hr_faults r2 = []"
    using set_cart_item_healthy[OF r1] by blast
  have dom: "to_domain x ?s = Ok (requested_item v (hr_utc r1 (hr_ticks r1)))"
    by (rule to_domain_to_stored[OF assms(1,6,7)])
  have "entry_ok x (uuid_str x (va_sku_id v), json_text x (stored_to_json x ?s))"
    using entry_ok_stored[OF assms(1) dom] valid_add_to_cart_Ok[OF assms(6)] by (simp add: to_stored_def)
  then have "carts_ok x r2"
    using wp_Ok_D[OF wp_add_item_check[OF assms(3)] chk] wp_Ok_D[OF wp_set_cart_item set] by simp
  from load_cart_total[OF this r2, of u] obtain c r' where "load_cart x u r2 = (Ok c, r')" by blast
  moreover obtain res where "cart_res_of x c = Ok res" using cart_res_total[OF assms(2)] by blast
  ultimately have "add_item x u req r = (Ok res, r')"
    by (simp add: add_item_def add_item_write_def get_cart_def Let_def run_simps chk set)
  then show ?thesis by blast
qed

section \<open>A JSON printer and parser for flat objects\<close>

text \<open>An instance of the codecs: strings carry their length, objects the number of their
  fields, in unary numerals that end with a semicolon.\<close>

definition put_str :: "string \<Rightarrow> string" where
  "put_str s = unary (length s) @ '';'' @ s"

definition get_str :: "string \<Rightarrow> string \<times> string" where
  "get_str t =
     (let n = length (takeWhile (\<lambda>c. c = CHR ''1'') t); rest = drop (Suc n) t in (take n rest, drop n rest))"

lemma get_put_str [simp]: "get_str (put_str s @ rest) = (s, rest)"
proof -
  have "takeWhile (\<lambda>c. c = CHR ''1'') (unary n @ CHR '';'' # t) = unary n" for n t
    by (subst takeWhile_append2) (auto simp: unary_def)
  then show ?thesis by (simp add: get_str_def put_str_def unary_def Let_def)
qed

fun put_value :: "json \<Rightarrow> string" where
  "put_value (JString s) = CHR ''s'' # put_str s"
| "put_value (JInt i) = CHR ''i'' # put_str (unary_int i)"
| "put_value _ = CHR ''n'' # put_str []"

definition get_value :: "string \<Rightarrow> (json \<times> string) option" where
  "get_value t =
     (let (s, rest) = get_str (tl t) in
      if hd t = CHR ''s'' then Some (JString s, rest)
      else if hd t = CHR ''i'' then map_option (\<lambda>i. (JInt i, rest)) (unary_int_parse s)
      else Some (JNull, rest))"

primrec put_fields :: "(string \<times> json) list \<Rightarrow> string" where
  "put_fields [] = []"
| "put_fields (kv # kvs) = put_str (fst kv) @ put_value (snd kv) @ put_fields kvs"

primrec get_fields :: "nat \<Rightarrow> string \<Rightarrow> (string \<times> json) list option" where
  "get_fields 0 t = Some []"
| "get_fields (Suc n) t =
     (let (k, rest) = get_str t in
      Option.bind (get_value rest) (\<lambda>(v, rest'). map_option (\<lambda>kvs. (k, v) # kvs) (get_fields n rest')))"

fun demo_json_text :: "json \<Rightarrow> string" where
  "demo_json_text (JObject kvs) = put_str (unary (length kvs)) @ put_fields kvs"
| "demo_json_text _ = []"

definition demo_json_parse :: "string \<Rightarrow> json option" where
  "demo_json_parse t = (let (n, rest) = get_str t in map_option JObject (get_fields (length n) rest))"

lemma get_put_value: "flat_value v \<Longrightarrow> get_value (put_value v @ rest) = Some (v, rest)"
  by (cases v) (simp_all add: get_value_def)

lemma get_put_fields:
  "list_all flat_value (map snd kvs) \<Longrightarrow> get_fields (length kvs) (put_fields kvs) = Some kvs"
  by (induction kvs) (auto simp: get_put_value)

definition cart_externs :: externs where
  "cart_externs = demo_externs\<lparr>json_text := demo_json_text, json_parse := demo_json_parse\<rparr>"

lemma cart_externs_simps [simp]:
  "uuid_str cart_externs = unary" "uuid_parse cart_externs = unary_parse" "dec_str cart_externs = unary_dec"
  "dec_parse cart_externs = unary_dec_parse" "dt_str cart_externs = unary_int" "dt_parse cart_externs = unary_int_parse"
  "upper cart_externs s = s" "dec_mul cart_externs a b = Some (a * b)" "dec_add cart_externs a b = Some (a + b)"
  by (simp_all add: cart_externs_def demo_externs_def)

lemma demo_cart_codecs [simp]: "cart_codecs cart_externs"
proof -
  have "flat_codec cart_externs"
    by (auto simp: flat_codec_def cart_externs_def demo_json_parse_def get_put_fields unary_def)
  then show ?thesis
    by (simp add: cart_codecs_def uuid_codec_def dt_codec_def dec_codec_def upper_ascii_def)
qed


definition empty_redis :: hash_redis where
  "empty_redis =
     \<lparr>hr_store = Map.empty, hr_clock = (\<lambda>_. 0), hr_utc = (\<lambda>n. int n), hr_rank = (\<lambda>_ _. 0), hr_ticks = 0,
      hr_faults = [], hr_error = ''down''\<rparr>"

definition demo_add :: "nat \<Rightarrow> decimal \<Rightarrow> add_to_cart_req" where
  "demo_add sku p =
     \<lparr>ac_product_id = 1, ac_sku_id = sku, ac_quantity = 2, ac_unit_price = p, ac_currency = None,
      ac_product_name = ''Pen'', ac_image_url = None\<rparr>"

definition demo_buyer :: "nat \<Rightarrow> current_user" where
  "demo_buyer u = \<lparr>cu_id = u, cu_role = Buyer\<rparr>"

lemma empty_redis_ok [simp]: "carts_ok x empty_redis" "within_a_second empty_redis" "hr_faults empty_redis = []"
  "cart_view x empty_redis u = Map.empty"
  by (simp_all add: empty_redis_def carts_ok_def within_a_second_def cart_view_def hr_fields_def hr_live_def item_at_def
      fun_eq_iff)

definition demo_valid_add :: "nat \<Rightarrow> decimal \<Rightarrow> valid_add_to_cart_req" where
  "demo_valid_add sku p =
     \<lparr>va_product_id = 1, va_sku_id = sku, va_quantity = 2, va_unit_price = Price p, va_currency = currency_default,
      va_product_name = ''Pen'', va_image_url = None\<rparr>"

lemma demo_add_valid: "0 \<le> p \<Longrightarrow> valid_add_to_cart x (demo_add sku p) = Ok (demo_valid_add sku p)"
proof -
  assume p: "0 \<le> p"
  have "trim ''Pen'' = ''Pen''" by (simp add: trim_def strip_prefixes.simps white_space_def)
  then show ?thesis
    using p by (simp add: valid_add_to_cart_def demo_add_def demo_valid_add_def cart_quantity_new_def price_new_def
        cart_product_name_new_def validated_name_new_def)
qed

section \<open>Properties\<close>





lemma demo_no_overflow [simp]: "no_overflow cart_externs"
  by (simp add: no_overflow_def)

lemma demo_add_runs: "\<exists>c r'. add_item cart_externs u (demo_add 5 10) empty_redis = (Ok c, r')"
  by (rule add_item_succeeds[where v = "demo_valid_add 5 10"])
     (simp_all add: demo_add_valid add_req_typed_def demo_add_def[of 5 10, symmetric] hr_fields_def hr_live_def
       empty_redis_def[symmetric] max_cart_items_def, simp_all add: demo_add_def hr_fields_def hr_live_def empty_redis_def)


text \<open>Checkout: a cart that loads and whose total does not overflow is accepted exactly when it
  has between one and fifty items, a total between 1 and 50,000 and no free item; otherwise the
  error lists the checks that failed, in the order of the rules. The answer for every item is
  the price it was added with.\<close>

theorem checkout_accepts_iff:
  assumes "load_cart x u r = (Ok c, r')" "cart_total x c = Ok t"
  shows "validate_cart x u r =
    (if cart_items c \<noteq> [] \<and> length (cart_items c) \<le> 50 \<and> 1 \<le> t \<and> t \<le> 50000 \<and>
        (\<forall>i\<in>set (cart_items c). 0 < price_value (ct_unit_price i))
     then (Ok \<lparr>cv_items = map (validation_item x) (cart_items c), cv_all_valid = True\<rparr>, r')
     else (Err (BadRequest (join_with ''; ''
       ((if cart_items c = [] then [''cart must not be empty''] else []) @
        (if 50 < length (cart_items c) then [''cart must not exceed '' @ show_nat 50 @ '' items''] else []) @
        (if t < 1 then [''cart total must be at least $'' @ dec_str x 1] else []) @
        (if 50000 < t then [''cart total must not exceed $'' @ dec_str x 50000] else []) @
        (if \<forall>i\<in>set (cart_items c). 0 < price_value (ct_unit_price i) then []
         else [''all items must have valid prices''])))), r'))"
proof -
  let ?ctx = "\<lparr>cc_item_count = length (cart_items c), cc_cart_total = t,
      cc_all_prices_valid = list_all (\<lambda>i. price_value (ct_unit_price i) > 0) (cart_items c),
      cc_all_quantities_valid = list_all (\<lambda>i. ct_quantity i \<ge> 1 \<and> ct_quantity i \<le> 99) (cart_items c)\<rparr>"
  have "checkout_context_of x c = Ok ?ctx" by (simp add: checkout_context_of_def assms(2) item_count_def)
  then have "validate_cart x u r =
      (if list_all (eval_checkout ?ctx) checkout_checks
       then (Ok \<lparr>cv_items = map (validation_item x) (cart_items c), cv_all_valid = True\<rparr>, r')
       else (Err (BadRequest (join_with ''; ''
         (map (checkout_check_str x) (filter (\<lambda>k. \<not> eval_checkout ?ctx k) checkout_checks)))), r'))"
    by (simp add: validate_cart_def run_simps assms(1) Let_def checkout_outcome failure_messages_def)
  moreover have "list_all (\<lambda>i. ct_quantity i \<ge> 1 \<and> ct_quantity i \<le> 99) (cart_items c)"
    using load_cart_quantities[OF assms(1)] by (simp add: list_all_iff)
  ultimately show ?thesis by (simp add: list_all_iff not_le checkout_checks_def)
qed


theorem checkout_accepts_iff_witness:
  "fst (validate_cart cart_externs 1 empty_redis) = Err (BadRequest (''cart must not be empty; '' @
     ''cart total must be at least $'' @ unary_dec 1))"
proof -
  have "load_cart cart_externs 1 empty_redis =
      (Ok \<lparr>cart_user_id = 1, cart_items = []\<rparr>, snd (hgetall (cart_key cart_externs 1) empty_redis))"
    by (simp add: load_cart_def repo_get_cart_def hgetall_def hr_cmd_def map_err_def run_simps map_iteration_def
        hr_fields_def hr_live_def empty_redis_def)
  from checkout_accepts_iff[OF this, of 0] show ?thesis by (simp add: cart_total_def)
qed

text \<open>C39: The limit on the number of items is checked by one command and relied on by a later one:
  two requests for new SKUs that both read a cart of 49 items before either writes leave 51
  items in it, more than the checkout rules then accept.\<close>

theorem concurrent_adds_exceed_limit:
  assumes "hr_faults r = []" "within_a_second r" "length (hr_fields r (cart_key x u)) = 49"
    and "valid_add_to_cart x req1 = Ok v1" "valid_add_to_cart x req2 = Ok v2"
    and "uuid_str x (va_sku_id v1) \<noteq> uuid_str x (va_sku_id v2)"
    and "uuid_str x (va_sku_id v1) \<notin> fst ` set (hr_fields r (cart_key x u))"
    and "uuid_str x (va_sku_id v2) \<notin> fst ` set (hr_fields r (cart_key x u))"
  shows "\<exists>r1 r2. add_item_check x u req1 r = (Ok v1, r1) \<and> add_item_check x u req2 r1 = (Ok v2, r2) \<and>
    length (hr_fields (snd (add_item_write x u v2 (snd (add_item_write x u v1 r2)))) (cart_key x u)) = 51"
proof -
  let ?k = "cart_key x u"
  have stores: "\<exists>t. hr_fields (snd (add_item_write x u v r)) ?k = AList.update (uuid_str x (va_sku_id v)) t (hr_fields r ?k) \<and>
      hr_faults (snd (add_item_write x u v r)) = [] \<and> within_a_second (snd (add_item_write x u v r))"
    if h: "hr_faults r = []" "within_a_second r" for v r
  proof -
    let ?s = "to_stored x v (hr_utc r (hr_ticks r))"
    obtain r' where "set_cart_item x u (va_sku_id v) ?s r = (Ok (), r')" "hr_faults r' = []" "within_a_second r'"
      "hr_fields r' = (hr_fields r)(?k := AList.update (uuid_str x (va_sku_id v)) (json_text x (stored_to_json x ?s)) (hr_fields r ?k))"
      using set_cart_item_healthy[OF h] by blast
    then show ?thesis using get_cart_fields[of r' x u] by (auto simp: add_item_write_def Let_def bnd_def)
  qed
  have new: "length (AList.update f t h) = Suc (length h) \<and> fst ` set (AList.update f t h) = insert f (fst ` set h)"
    if "f \<notin> fst ` set h" for f t and h :: hash using that by (induction h) auto
  obtain r1 where c1: "add_item_check x u req1 r = (Ok v1, r1)" "hr_faults r1 = []" "within_a_second r1" "hr_fields r1 = hr_fields r"
    using add_item_check_healthy[OF assms(1,2,4,7)] assms(3) by (auto simp: max_cart_items_def)
  obtain r2 where c2: "add_item_check x u req2 r1 = (Ok v2, r2)" "hr_faults r2 = []" "within_a_second r2" "hr_fields r2 = hr_fields r"
    using add_item_check_healthy[OF c1(2,3) assms(5), of u] assms(3,8) c1(4) by (auto simp: max_cart_items_def)
  obtain t1 t2 where "hr_fields (snd (add_item_write x u v2 (snd (add_item_write x u v1 r2)))) ?k =
      AList.update (uuid_str x (va_sku_id v2)) t2 (AList.update (uuid_str x (va_sku_id v1)) t1 (hr_fields r ?k))"
    using stores[OF c2(2,3), of v1] stores[of "snd (add_item_write x u v1 r2)" v2] c2(4) by auto
  then show ?thesis using c1(1) c2(1) new assms(3,6-8) by (auto simp: numeral_eq_Suc)
qed

definition crowded_redis :: hash_redis where
  "crowded_redis = empty_redis\<lparr>hr_store := [cart_key cart_externs 1 \<mapsto> (map (\<lambda>n. (unary n, [])) [0..<49], None)]\<rparr>"

theorem concurrent_adds_exceed_limit_witness:
  "\<exists>r1 r2. add_item_check cart_externs 1 (demo_add 60 1) crowded_redis = (Ok (demo_valid_add 60 1), r1) \<and>
     add_item_check cart_externs 1 (demo_add 61 1) r1 = (Ok (demo_valid_add 61 1), r2) \<and>
     length (hr_fields (snd (add_item_write cart_externs 1 (demo_valid_add 61 1)
       (snd (add_item_write cart_externs 1 (demo_valid_add 60 1) r2)))) (cart_key cart_externs 1)) = 51"
proof -
  have inj: "unary a = unary b \<longleftrightarrow> a = b" for a b by (metis unary_parse_unary option.inject)
  have f: "hr_fields crowded_redis (cart_key cart_externs 1) = map (\<lambda>n. (unary n, [])) [0..<49]"
    by (simp add: crowded_redis_def hr_fields_def hr_live_def)
  show ?thesis
  proof (rule concurrent_adds_exceed_limit)
    show "valid_add_to_cart cart_externs (demo_add 60 1) = Ok (demo_valid_add 60 1)"
      "valid_add_to_cart cart_externs (demo_add 61 1) = Ok (demo_valid_add 61 1)"
      by (rule demo_add_valid; simp)+
    show "hr_faults crowded_redis = []" "within_a_second crowded_redis"
      by (simp_all add: crowded_redis_def empty_redis_def within_a_second_def)
  qed (auto simp: f[simplified] inj demo_valid_add_def)
qed

text \<open>A price is only checked not to be negative: one item whose line total overflows is
  accepted and stored, and from then on reading and validating the cart panic, however often they
  are tried, until the item is removed.\<close>

theorem overflowing_item_blocks_cart:
  assumes "cart_codecs x" "carts_ok x r" "hr_faults r = []" "within_a_second r"
    and "cart_view x r u sku = Some i" "dec_mul x (price_value (ct_unit_price i)) (of_nat (ct_quantity i)) = None"
  shows "(\<exists>m. fst (get_cart x u r) = Panic m) \<and> (\<exists>m. fst (validate_cart x u r) = Panic m)"
proof -
  obtain c r' where l: "load_cart x u r = (Ok c, r')" using load_cart_total[OF assms(2,3)] by blast
  obtain h where h: "mset h = mset (hr_fields r (cart_key x u))"
    "list_all2 (\<lambda>p i. item_at x (Some (snd p)) = Some i) h (cart_items c)"
    using load_cart_Ok[OF assms(4) l] by blast
  have "set (cart_items c) = ran (cart_view x r u)"
    using loaded_items[OF _ fields_ok[OF assms(2)] h] assms(1) by (simp add: cart_codecs_def)
  then have "i \<in> set (cart_items c)" using assms(5) by (auto simp: ran_def)
  from cart_res_Panic[OF this assms(6)] show ?thesis
    by (auto simp: get_cart_def validate_cart_def bnd_def l of_result_def)
qed

text \<open>Arithmetic that overflows from a thousand on.\<close>

definition small_externs :: externs where
  "small_externs = cart_externs\<lparr>dec_mul := (\<lambda>a b. if a * b < 1000 then Some (a * b) else None)\<rparr>"

theorem overflowing_item_blocks_cart_witness:
  "\<exists>r. fst (add_item_check small_externs 1 (demo_add 5 600) empty_redis) = Ok (demo_valid_add 5 600) \<and>
     set_cart_item small_externs 1 5 (to_stored small_externs (demo_valid_add 5 600) 0)
       (snd (add_item_check small_externs 1 (demo_add 5 600) empty_redis)) = (Ok (), r) \<and>
     (\<exists>m. fst (get_cart small_externs 1 r) = Panic m)"
proof -
  have codecs: "cart_codecs small_externs"
    using demo_cart_codecs
    by (simp add: cart_codecs_def small_externs_def uuid_codec_def dt_codec_def dec_codec_def flat_codec_def upper_ascii_def)
  have v: "valid_add_to_cart small_externs (demo_add 5 600) = Ok (demo_valid_add 5 600)" by (rule demo_add_valid) simp
  have typed: "add_req_typed (demo_add 5 600)" by (simp add: add_req_typed_def demo_add_def)
  have e: "hr_fields empty_redis k = []" for k by (simp add: empty_redis_def hr_fields_def hr_live_def)
  obtain r1 where chk: "add_item_check small_externs 1 (demo_add 5 600) empty_redis = (Ok (demo_valid_add 5 600), r1)"
    and r1: "hr_faults r1 = []" "within_a_second r1"
    using add_item_check_healthy[OF empty_redis_ok(3,2) v, of 1] by (auto simp: e max_cart_items_def)
  let ?s = "to_stored small_externs (demo_valid_add 5 600) 0"
  obtain r where set: "set_cart_item small_externs 1 5 ?s r1 = (Ok (), r)" and r: "hr_faults r = []" "within_a_second r"
    using set_cart_item_healthy[OF r1] by blast
  have dom: "to_domain small_externs ?s = Ok (requested_item (demo_valid_add 5 600) 0)"
    by (rule to_domain_to_stored[OF codecs v typed])
  have "entry_ok small_externs (uuid_str small_externs 5, json_text small_externs (stored_to_json small_externs ?s))"
    using entry_ok_stored[OF codecs dom] valid_add_to_cart_Ok[OF v] by (simp add: to_stored_def demo_valid_add_def)
  then have ok: "carts_ok small_externs r"
    using wp_Ok_D[OF wp_add_item_check[OF empty_redis_ok(1)] chk] wp_Ok_D[OF wp_set_cart_item set]
    by (simp add: demo_valid_add_def)
  have "cart_view small_externs r 1 5 = Some (requested_item (demo_valid_add 5 600) 0)"
    using set_cart_item_Ok[OF r1(2) codecs set dom] by simp
  from overflowing_item_blocks_cart[OF codecs ok r this] set chk show ?thesis
    by (auto simp: small_externs_def requested_item_def demo_valid_add_def)
qed

end
