(* ===== verification/Product_Service.thy ===== *)
theory Product_Service
  imports Products
begin

text \<open>
  The product service and its routes: \<open>products/service.rs\<close> and \<open>products/routes.rs\<close> of the
  catalog, over the read cache of \<open>shared/src/cache/mod.rs\<close>. A cached response is the text
  that \<open>serde_json\<close> makes of it; failures of the cache are never reported.
\<close>

section \<open>The cache\<close>

text \<open>The derived JSON text of the two cached responses, and the reading of it.\<close>

record shop_env = shop_externs +
  product_text :: "product_res \<Rightarrow> string option"
  product_of_text :: "string \<Rightarrow> product_res option"
  detail_text :: "product_detail_res \<Rightarrow> string option"
  detail_of_text :: "string \<Rightarrow> product_detail_res option"

definition product_cache_ttl :: nat where
  "product_cache_ttl = 300"

definition product_detail_key :: "externs \<Rightarrow> uuid \<Rightarrow> string" where
  "product_detail_key x pid = ''product:'' @ uuid_str x pid"

definition product_slug_key :: "string \<Rightarrow> string" where
  "product_slug_key slug = ''product:slug:'' @ slug"

section \<open>Products\<close>

type_synonym shop = "master_db srv \<times> redis option"

definition evict_product_caches :: "externs \<Rightarrow> uuid \<Rightarrow> string \<Rightarrow> (shop, app_error, unit) eff" where
  "evict_product_caches x pid slug =
     bnd (on_snd (evict (product_detail_key x pid))) (\<lambda>_. on_snd (evict (product_slug_key slug)))"

definition create_product ::
  "externs \<Rightarrow> current_user \<Rightarrow> create_product_req \<Rightarrow> (shop, app_error, product_res) eff" where
  "create_product x u req =
     bnd (of_result (valid_create_product_new x req)) (\<lambda>v.
     bnd (on_fst (validate_fk_references x (vp_category_id v) (vp_brand_id v))) (\<lambda>_.
     bnd (on_fst (in_tx x ''Failed to create product: '' (repo_create_product x (cu_id u) v))) (\<lambda>pid.
     bnd (on_fst (get_product_by_id x Pool pid)) (\<lambda>p. ret (product_res_new x p)))))"

definition get_product :: "externs \<Rightarrow> uuid \<Rightarrow> (shop, app_error, product_res) eff" where
  "get_product x pid = bnd (on_fst (get_product_by_id x Pool pid)) (\<lambda>p. ret (product_res_new x p))"

definition get_product_by_slug :: "externs \<Rightarrow> shop_env \<Rightarrow> string \<Rightarrow> (shop, app_error, product_res) eff" where
  "get_product_by_slug x y slug =
     bnd (on_snd (cache_get (product_of_text y) (product_slug_key slug))) (\<lambda>cached.
       case cached of
         Some v \<Rightarrow> ret v
       | None \<Rightarrow>
           bnd (on_fst (repo_product_by_slug x Pool slug)) (\<lambda>p.
           let res = product_res_new x p in
           bnd (on_snd (cache_set (product_text y) product_cache_ttl (product_slug_key slug) res)) (\<lambda>_. ret res)))"

definition get_product_detail :: "externs \<Rightarrow> shop_env \<Rightarrow> uuid \<Rightarrow> (shop, app_error, product_detail_res) eff" where
  "get_product_detail x y pid =
     bnd (on_snd (cache_get (detail_of_text y) (product_detail_key x pid))) (\<lambda>cached.
       case cached of
         Some v \<Rightarrow> ret v
       | None \<Rightarrow>
           bnd (on_fst (repo_product_detail x (shop_externs.truncate y) Pool pid)) (\<lambda>row.
           bnd (of_result (product_detail_res_from_row x (shop_externs.truncate y) row)) (\<lambda>detail.
           bnd (on_snd (cache_set (detail_text y) product_cache_ttl (product_detail_key x pid) detail)) (\<lambda>_.
             ret detail))))"

definition product_page :: "externs \<Rightarrow> pagination_params \<Rightarrow> product_list_entity list \<Rightarrow> product_list_res pagination_res" where
  "product_page x p rows =
     (let (c, rs) = get_cursors pl_id p rows in pagination_res_new (map (product_list_res_new x) rs) c)"

definition list_products_by_seller ::
  "externs \<Rightarrow> shop_env \<Rightarrow> uuid \<Rightarrow> pagination_params \<Rightarrow> product_filter \<Rightarrow> (shop, app_error, product_list_res pagination_res) eff" where
  "list_products_by_seller x y seller p f =
     bnd (on_fst (repo_products_by_seller x (shop_externs.truncate y) Pool seller p f)) (\<lambda>rows. ret (product_page x p rows))"

definition list_active_products ::
  "externs \<Rightarrow> shop_env \<Rightarrow> pagination_params \<Rightarrow> product_filter \<Rightarrow> (shop, app_error, product_list_res pagination_res) eff" where
  "list_active_products x y p f =
     bnd (on_fst (repo_active_products x (shop_externs.truncate y) Pool p f)) (\<lambda>rows. ret (product_page x p rows))"

text \<open>The product a request is about, if its user may access it.\<close>

definition own_product :: "externs \<Rightarrow> current_user \<Rightarrow> uuid \<Rightarrow> (shop, app_error, product_entity) eff" where
  "own_product x u pid =
     bnd (on_fst (get_product_by_id x Pool pid)) (\<lambda>p.
     bnd (of_result (require_access u (pd_seller_id p))) (\<lambda>_. ret p))"

definition update_product ::
  "externs \<Rightarrow> current_user \<Rightarrow> uuid \<Rightarrow> update_product_req \<Rightarrow> (shop, app_error, unit) eff" where
  "update_product x u pid req =
     bnd (own_product x u pid) (\<lambda>p.
     bnd (of_result (valid_update_product_new x req p)) (\<lambda>v.
     bnd (on_fst (validate_fk_references x (vu_category_id v) (vu_brand_id v))) (\<lambda>_.
     bnd (on_fst (in_tx x ''Failed to update product: '' (repo_update_product x pid v))) (\<lambda>_.
       evict_product_caches x pid (pd_slug p)))))"

definition delete_product :: "externs \<Rightarrow> current_user \<Rightarrow> uuid \<Rightarrow> (shop, app_error, unit) eff" where
  "delete_product x u pid =
     bnd (own_product x u pid) (\<lambda>p.
     bnd (on_fst (in_tx x ''Failed to delete product: '' (repo_delete_product x pid))) (\<lambda>_.
       evict_product_caches x pid (pd_slug p)))"

section \<open>SKUs\<close>

definition create_sku ::
  "externs \<Rightarrow> current_user \<Rightarrow> uuid \<Rightarrow> create_sku_req \<Rightarrow> (shop, app_error, sku_res) eff" where
  "create_sku x u pid req =
     bnd (own_product x u pid) (\<lambda>_.
     bnd (of_result (valid_create_sku_new req)) (\<lambda>v.
     bnd (on_fst (in_tx x ''Failed to create SKU: '' (repo_create_sku x pid v))) (\<lambda>sid.
     bnd (on_snd (evict (product_detail_key x pid))) (\<lambda>_.
     bnd (on_fst (get_sku_by_id x Pool sid)) (\<lambda>k. ret (sku_res_new x k))))))"

definition list_skus :: "externs \<Rightarrow> uuid \<Rightarrow> (shop, app_error, sku_res list) eff" where
  "list_skus x pid = bnd (on_fst (list_skus_by_product x Pool pid)) (\<lambda>ks. ret (map (sku_res_new x) ks))"

definition own_sku :: "externs \<Rightarrow> current_user \<Rightarrow> uuid \<Rightarrow> (shop, app_error, sku) eff" where
  "own_sku x u sid =
     bnd (on_fst (get_sku_by_id x Pool sid)) (\<lambda>k.
     bnd (own_product x u (sk_product_id k)) (\<lambda>_. ret k))"

definition update_sku :: "externs \<Rightarrow> current_user \<Rightarrow> uuid \<Rightarrow> update_sku_req \<Rightarrow> (shop, app_error, unit) eff" where
  "update_sku x u sid req =
     bnd (own_sku x u sid) (\<lambda>k.
     bnd (of_result (valid_update_sku_new req)) (\<lambda>v.
     bnd (on_fst (in_tx x ''Failed to update SKU: '' (repo_update_sku x sid v))) (\<lambda>_.
       on_snd (evict (product_detail_key x (sk_product_id k))))))"

definition delete_sku :: "externs \<Rightarrow> current_user \<Rightarrow> uuid \<Rightarrow> (shop, app_error, unit) eff" where
  "delete_sku x u sid =
     bnd (own_sku x u sid) (\<lambda>k.
     bnd (on_fst (in_tx x ''Failed to delete SKU: '' (repo_delete_sku x sid))) (\<lambda>_.
       on_snd (evict (product_detail_key x (sk_product_id k)))))"

definition adjust_stock :: "externs \<Rightarrow> current_user \<Rightarrow> uuid \<Rightarrow> int \<Rightarrow> (shop, app_error, unit) eff" where
  "adjust_stock x u sid delta =
     bnd (own_sku x u sid) (\<lambda>k.
     bnd (on_fst (in_tx x ''Failed to adjust stock: '' (repo_adjust_stock x sid delta))) (\<lambda>_.
       on_snd (evict (product_detail_key x (sk_product_id k)))))"

section \<open>Images\<close>

definition list_images :: "externs \<Rightarrow> uuid \<Rightarrow> (shop, app_error, image_res list) eff" where
  "list_images x pid = bnd (on_fst (list_images_by_product x Pool pid)) (\<lambda>is. ret (map (image_res_new x) is))"

definition add_image ::
  "externs \<Rightarrow> current_user \<Rightarrow> uuid \<Rightarrow> add_image_req \<Rightarrow> (shop, app_error, image_res) eff" where
  "add_image x u pid req =
     bnd (own_product x u pid) (\<lambda>_.
     bnd (of_result (valid_add_image_new req)) (\<lambda>v.
     bnd (on_fst (in_tx x ''Failed to add image: '' (repo_add_image x pid v))) (\<lambda>iid.
     bnd (on_snd (evict (product_detail_key x pid))) (\<lambda>_.
     bnd (on_fst (get_image_by_id x Pool iid)) (\<lambda>i. ret (image_res_new x i))))))"

definition delete_image :: "externs \<Rightarrow> current_user \<Rightarrow> uuid \<Rightarrow> uuid \<Rightarrow> (shop, app_error, unit) eff" where
  "delete_image x u pid iid =
     bnd (own_product x u pid) (\<lambda>_.
     bnd (on_fst (in_tx x ''Failed to delete image: '' (repo_delete_image x iid))) (\<lambda>_.
       on_snd (evict (product_detail_key x pid))))"

section \<open>Routes\<close>

datatype product_route =
    RListActive product_filter_query
  | RProductDetail uuid
  | RProductBySlug string
  | RCreateProduct create_product_req
  | RMyProducts product_filter_query
  | RUpdateProduct uuid update_product_req
  | RDeleteProduct uuid
  | RListSkus uuid
  | RCreateSku uuid create_sku_req
  | RUpdateSku uuid update_sku_req
  | RDeleteSku uuid
  | RAdjustStock uuid int
  | RListImages uuid
  | RAddImage uuid add_image_req
  | RDeleteImage uuid uuid

datatype product_reply =
    ProductPage "product_list_res paginated_response"
  | DetailReply product_detail_res
  | ProductReply product_res
  | SkuReply sku_res
  | SkuList "sku_res list"
  | ImageReply image_res
  | ImageList "image_res list"
  | ProductDone nat string

definition product_done :: "string \<Rightarrow> ('s, app_error, unit) eff \<Rightarrow> ('s, app_error, product_reply) eff" where
  "product_done message m = bnd m (\<lambda>_. ret (ProductDone 200 message))"

text \<open>\<open>i32::abs\<close> of the least value wraps around.\<close>

fun product_handler ::
  "externs \<Rightarrow> shop_env \<Rightarrow> current_user \<Rightarrow> product_route \<Rightarrow> (shop, app_error, product_reply) eff" where
  "product_handler x y u (RListActive q) =
     bnd (list_active_products x y (fst (product_filter_parts q)) ((snd (product_filter_parts q))\<lparr>pf_status := None\<rparr>))
       (\<lambda>res. ret (ProductPage (paginated_response_new x res)))"
| "product_handler x y u (RProductDetail pid) = bnd (get_product_detail x y pid) (\<lambda>v. ret (DetailReply v))"
| "product_handler x y u (RProductBySlug slug) = bnd (get_product_by_slug x y slug) (\<lambda>v. ret (ProductReply v))"
| "product_handler x y u (RCreateProduct req) = bnd (create_product x u req) (\<lambda>v. ret (ProductReply v))"
| "product_handler x y u (RMyProducts q) =
     bnd (list_products_by_seller x y (cu_id u) (fst (product_filter_parts q)) (snd (product_filter_parts q)))
       (\<lambda>res. ret (ProductPage (paginated_response_new x res)))"
| "product_handler x y u (RUpdateProduct pid req) = product_done ''Product updated successfully'' (update_product x u pid req)"
| "product_handler x y u (RDeleteProduct pid) = product_done ''Product deleted successfully'' (delete_product x u pid)"
| "product_handler x y u (RListSkus pid) = bnd (list_skus x pid) (\<lambda>v. ret (SkuList v))"
| "product_handler x y u (RCreateSku pid req) = bnd (create_sku x u pid req) (\<lambda>v. ret (SkuReply v))"
| "product_handler x y u (RUpdateSku sid req) = product_done ''SKU updated successfully'' (update_sku x u sid req)"
| "product_handler x y u (RDeleteSku sid) = product_done ''SKU deleted successfully'' (delete_sku x u sid)"
| "product_handler x y u (RAdjustStock sid delta) =
     (if delta = 0 then throw (BadRequest ''Stock delta must not be zero'')
      else if cast_i32 \<bar>delta\<bar> > 10000 then throw (BadRequest ''Stock delta must be between -10000 and 10000'')
      else product_done ''Stock adjusted successfully'' (adjust_stock x u sid delta))"
| "product_handler x y u (RListImages pid) = bnd (list_images x pid) (\<lambda>v. ret (ImageList v))"
| "product_handler x y u (RAddImage pid req) = bnd (add_image x u pid req) (\<lambda>v. ret (ImageReply v))"
| "product_handler x y u (RDeleteImage pid iid) = product_done ''Image deleted successfully'' (delete_image x u pid iid)"

text \<open>The application merges the three groups of routes.\<close>

fun catalog_app ::
  "externs \<Rightarrow> shop_env \<Rightarrow> current_user \<Rightarrow> (category_route + brand_route) + product_route \<Rightarrow>
     (shop, app_error, taxonomy_reply + product_reply) eff" where
  "catalog_app x y u (Inl rt) = bnd (on_fst (taxonomy_handler x u rt)) (\<lambda>r. ret (Inl r))"
| "catalog_app x y u (Inr rt) = bnd (product_handler x y u rt) (\<lambda>r. ret (Inr r))"

end
