(* ===== verification/Product_Proofs.thy ===== *)
theory Product_Proofs
  imports Product_Service Taxonomy_Proofs
begin

text \<open>
  What the product routes do to the database and to the cache, as a step relation: every
  change is one statement on a product that the user may access, followed by the eviction of
  the cached responses it made stale. The constraints of the tables, the separation of the
  sellers' rows and the coherence of the cache are proved of the steps and carried over to
  the handlers.
\<close>

section \<open>Steps\<close>

datatype change = Unchanged | Whole uuid string | Detail uuid

definition owns :: "current_user \<Rightarrow> uuid \<Rightarrow> string \<Rightarrow> master_db \<Rightarrow> bool" where
  "owns u pid slug d \<longleftrightarrow>
     (\<exists>q\<in>set (products d). live_product pid q \<and> can_access u (pd_seller_id q) \<and> pd_slug q = slug)"

text \<open>The steps of a user; the set holds the pairs of a product and an image that deletions of images name.\<close>

inductive product_step :: "current_user \<Rightarrow> (uuid \<times> uuid) set \<Rightarrow> change \<Rightarrow> master_db \<Rightarrow> master_db \<Rightarrow> bool" for u F where
  ps_same: "product_step u F ch d d"
| ps_create: "insert_product_sql (cu_id u) v rid now d = Inr (a, d') \<Longrightarrow> product_step u F Unchanged d d'"
| ps_update: "owns u pid slug d \<Longrightarrow> update_product_sql pid vu now d = Inr (n, d') \<Longrightarrow> product_step u F (Whole pid slug) d d'"
| ps_delete: "owns u pid slug d \<Longrightarrow> delete_product_sql pid now d = Inr (n, d') \<Longrightarrow> product_step u F (Whole pid slug) d d'"
| ps_sku_create: "owns u pid slug d \<Longrightarrow> insert_sku_sql pid vk rid now d = Inr (a, d') \<Longrightarrow> product_step u F (Detail pid) d d'"
| ps_sku_update: "k \<in> set (skus d) \<Longrightarrow> live_sku sid k \<Longrightarrow> owns u (sk_product_id k) slug d \<Longrightarrow>
    update_sku_sql sid vs now d = Inr (n, d') \<Longrightarrow> product_step u F (Detail (sk_product_id k)) d d'"
| ps_sku_delete: "k \<in> set (skus d) \<Longrightarrow> live_sku sid k \<Longrightarrow> owns u (sk_product_id k) slug d \<Longrightarrow>
    delete_sku_sql sid now d = Inr (n, d') \<Longrightarrow> product_step u F (Detail (sk_product_id k)) d d'"
| ps_stock: "k \<in> set (skus d) \<Longrightarrow> live_sku sid k \<Longrightarrow> owns u (sk_product_id k) slug d \<Longrightarrow>
    adjust_stock_sql sid delta now d = Inr (n, d') \<Longrightarrow> product_step u F (Detail (sk_product_id k)) d d'"
| ps_image: "owns u pid slug d \<Longrightarrow> \<not> vi_is_primary vi \<Longrightarrow> insert_image_sql pid vi rid now d = Inr (a, d') \<Longrightarrow>
    product_step u F (Detail pid) d d'"
| ps_primary: "owns u pid slug d \<Longrightarrow> vi_is_primary vi \<Longrightarrow> unset_primary_sql pid now d = Inr (n, d1) \<Longrightarrow>
    insert_image_sql pid vi rid now d1 = Inr (a, d') \<Longrightarrow> product_step u F (Detail pid) d d'"
| ps_image_delete: "owns u pid slug d \<Longrightarrow> (pid, iid) \<in> F \<Longrightarrow> delete_image_sql iid now d = Inr (n, d') \<Longrightarrow> product_step u F (Detail pid) d d'"

text \<open>The responses that a fresh read gives.\<close>

definition fresh_product :: "externs \<Rightarrow> master_db \<Rightarrow> string \<Rightarrow> product_res option" where
  "fresh_product x d slug =
     (case filter (\<lambda>p. pd_slug p = slug \<and> pd_deleted_at p = None) (products d) of
        [] \<Rightarrow> None | p # _ \<Rightarrow> Some (product_res_new x (product_select d p)))"

definition fresh_detail :: "externs \<Rightarrow> shop_externs \<Rightarrow> master_db \<Rightarrow> uuid \<Rightarrow> product_detail_res option" where
  "fresh_detail x y d pid =
     (case filter (live_product pid) (products d) of
        [] \<Rightarrow> None | p # _ \<Rightarrow> result_ok (product_detail_res_from_row x y (detail_select y d p)))"

definition fresh_entry :: "externs \<Rightarrow> shop_env \<Rightarrow> master_db \<Rightarrow> string \<Rightarrow> string \<Rightarrow> bool" where
  "fresh_entry x y d key t \<longleftrightarrow>
     (\<exists>slug res. key = product_slug_key slug \<and> fresh_product x d slug = Some res \<and> product_text y res = Some t) \<or>
     (\<exists>pid res. key = product_detail_key x pid \<and> fresh_detail x (shop_externs.truncate y) d pid = Some res \<and>
        detail_text y res = Some t)"

fun stale_keys :: "externs \<Rightarrow> change \<Rightarrow> string set" where
  "stale_keys x Unchanged = {}"
| "stale_keys x (Whole pid slug) = {product_detail_key x pid, product_slug_key slug}"
| "stale_keys x (Detail pid) = {product_detail_key x pid}"

text \<open>With a Redis that answers, the stale keys are gone, or a fresh entry was added.\<close>

definition store_step :: "externs \<Rightarrow> shop_env \<Rightarrow> master_db \<Rightarrow> change \<Rightarrow> redis \<Rightarrow> redis \<Rightarrow> bool" where
  "store_step x y d ch r r' \<longleftrightarrow>
     rd_faults r' = [] \<and>
     (rd_store r' = (\<lambda>k. if k \<in> stale_keys x ch then None else rd_store r k) \<or>
      ch = Unchanged \<and> (\<exists>key t e. rd_store r' = (rd_store r)(key \<mapsto> (t, e)) \<and> fresh_entry x y d key t))"

definition cache_step :: "externs \<Rightarrow> shop_env \<Rightarrow> master_db \<Rightarrow> change \<Rightarrow> redis option \<Rightarrow> redis option \<Rightarrow> bool" where
  "cache_step x y d ch c c' \<longleftrightarrow>
     (case c of
        None \<Rightarrow> c' = None
      | Some r \<Rightarrow> (case c' of None \<Rightarrow> False | Some r' \<Rightarrow> rd_faults r = [] \<longrightarrow> store_step x y d ch r r'))"

definition stepped :: "externs \<Rightarrow> shop_env \<Rightarrow> current_user \<Rightarrow> (uuid \<times> uuid) set \<Rightarrow> shop \<Rightarrow> shop \<Rightarrow> bool" where
  "stepped x y u F s t \<longleftrightarrow>
     (\<exists>ch. product_step u F ch (committed (fst s)) (committed (fst t)) \<and>
           cache_step x y (committed (fst s)) ch (snd s) (snd t))"

text \<open>What a request can see.\<close>

definition view :: "shop \<Rightarrow> master_db \<times> redis option" where
  "view s = (committed (fst s), snd s)"

lemma view_eq_iff: "view t = view s \<longleftrightarrow> committed (fst t) = committed (fst s) \<and> snd t = snd s"
  by (simp add: view_def)

lemma stepped_refl: "view t = view s \<Longrightarrow> stepped x y u F s t"
  unfolding stepped_def
  by (rule exI[of _ Unchanged]) (auto simp: view_eq_iff cache_step_def store_step_def intro: ps_same split: option.splits)

lemma stepped_view: "stepped x y u F s t \<Longrightarrow> view t' = view t \<Longrightarrow> stepped x y u F s t'"
  by (simp add: stepped_def view_eq_iff)

section \<open>Reading\<close>

lemma keeps_view: "keeps committed m \<Longrightarrow> keeps view (on_fst m)"
  by (auto simp: keeps_def view_def on_fst_def split: prod.splits) (metis snd_conv)

lemma keeps_case [frame_rules]:
  "(\<And>a. keeps g (f a)) \<Longrightarrow> keeps g m \<Longrightarrow> keeps g (case v of Some a \<Rightarrow> f a | None \<Rightarrow> m)"
  by (cases v) simp_all

lemma keeps_product_queries [frame_rules]:
  "keeps committed (get_product_by_id x ex pid)" "keeps committed (repo_product_by_slug x ex slug)"
  "keeps committed (repo_product_detail x z ex pid)" "keeps committed (repo_products_by_seller x z ex sid pg f)"
  "keeps committed (repo_active_products x z ex pg f)" "keeps committed (get_sku_by_id x ex sid)"
  "keeps committed (list_skus_by_product x ex pid)" "keeps committed (get_image_by_id x ex iid)"
  "keeps committed (list_images_by_product x ex pid)"
  unfolding get_product_by_id_def repo_product_by_slug_def repo_product_detail_def repo_products_by_seller_def
    repo_active_products_def list_products_def get_sku_by_id_def list_skus_by_product_def get_image_by_id_def
    list_images_by_product_def
  by (intro frame_rules)+

lemma keeps_validate_fk [frame_rules]: "keeps committed (validate_fk_references x c b)"
  unfolding validate_fk_references_def require_row_def category_exists_def brand_exists_def is_brand_in_category_def exists_row_def
  by (auto intro!: frame_rules split: option.split)

lemma keeps_product_writes [frame_rules]:
  "keeps committed (repo_create_product x sid v)" "keeps committed (repo_update_product x pid vu)"
  "keeps committed (repo_delete_product x pid)" "keeps committed (repo_create_sku x pid vk)"
  "keeps committed (repo_update_sku x kid vs)" "keeps committed (repo_delete_sku x kid)"
  "keeps committed (repo_adjust_stock x kid delta)" "keeps committed (repo_add_image x pid vi)"
  "keeps committed (repo_delete_image x iid)"
  unfolding repo_create_product_def repo_update_product_def repo_delete_product_def repo_create_sku_def repo_update_sku_def
    repo_delete_sku_def repo_adjust_stock_def repo_add_image_def repo_delete_image_def one_row_def
  by (intro frame_rules)+

lemma wp_view:
  assumes "keeps view m" "\<And>a t. view t = view s \<Longrightarrow> Q a t" "\<And>t. view t = view s \<Longrightarrow> E t"
  shows "wp m Q E s"
  by (rule wp_keeps[OF assms(1)]) (use assms(2,3) in \<open>auto simp: wp_def split: prod.splits result.splits\<close>)

lemma get_product_by_id_Ok:
  assumes "get_product_by_id x Pool pid s = (Ok p, t)"
  shows "\<exists>q\<in>set (products (committed s)). live_product pid q \<and> p = product_select (committed s) q"
proof -
  obtain rs where "map (product_select (committed s)) (filter (live_product pid) (products (committed s))) = p # rs"
    using assms unfolding get_product_by_id_def map_err_Ok_iff by (auto dest: fetch_one_Pool_Ok)
  then obtain q where "q \<in> set (filter (live_product pid) (products (committed s)))" "p = product_select (committed s) q"
    by (cases "filter (live_product pid) (products (committed s))") auto
  then show ?thesis by auto
qed

lemma product_select_simps [simp]:
  "pd_id (product_select d p) = pd_id p" "pd_seller_id (product_select d p) = pd_seller_id p"
  "pd_slug (product_select d p) = pd_slug p" "pd_category_id (product_select d p) = pd_category_id p"
  "pd_brand_id (product_select d p) = pd_brand_id p"
  by (simp_all add: product_select_def product.defs)

lemma wp_own_product:
  "wp (own_product x u pid) (\<lambda>p t. view t = view s \<and> owns u pid (pd_slug p) (committed (fst s))) (\<lambda>t. view t = view s) s"
proof -
  have keep: "keeps view (own_product x u pid)"
    unfolding own_product_def by (intro frame_rules keeps_view)
  have "owns u pid (pd_slug p) (committed (fst s))" if "own_product x u pid s = (Ok p, t)" for p t
  proof -
    have "(\<exists>t'. get_product_by_id x Pool pid (fst s) = (Ok p, t')) \<and> can_access u (pd_seller_id p)"
      using that by (cases "get_product_by_id x Pool pid (fst s)")
        (auto simp: own_product_def bnd_Ok_iff of_result_Ok_iff on_fst_def ret_def)
    then show ?thesis using get_product_by_id_Ok by (fastforce simp: owns_def)
  qed
  then have "wp (own_product x u pid) (\<lambda>p t. owns u pid (pd_slug p) (committed (fst s))) (\<lambda>_. True) s"
    by (auto simp: wp_def split: prod.split result.split)
  from wp_conj[OF wp_view[OF keep, of s "\<lambda>_ t. view t = view s" "\<lambda>t. view t = view s"] this]
  show ?thesis by simp
qed

lemma get_sku_by_id_Ok: "get_sku_by_id x Pool sid s = (Ok k, t) \<Longrightarrow> k \<in> set (skus (committed s)) \<and> live_sku sid k"
  unfolding get_sku_by_id_def map_err_Ok_iff by (drule fetch_one_Pool_Ok) (auto simp: filter_eq_Cons_iff)

lemma wp_own_sku:
  "wp (own_sku x u sid)
     (\<lambda>k t. view t = view s \<and> k \<in> set (skus (committed (fst s))) \<and> live_sku sid k \<and>
        (\<exists>slug. owns u (sk_product_id k) slug (committed (fst s))))
     (\<lambda>t. view t = view s) s"
proof -
  have "wp (get_sku_by_id x Pool sid) (\<lambda>k t. committed t = committed (fst s) \<and> k \<in> set (skus (committed (fst s))) \<and> live_sku sid k)
      (\<lambda>t. committed t = committed (fst s)) (fst s)"
    using get_sku_by_id_Ok keepsD[OF keeps_product_queries(6)]
    by (auto simp: wp_def split: prod.splits result.splits)
  then show ?thesis unfolding own_sku_def wp_bnd wp_on_fst
  proof (rule wp_mono)
    fix k and t :: "master_db srv" assume k: "committed t = committed (fst s) \<and> k \<in> set (skus (committed (fst s))) \<and> live_sku sid k"
    then have v: "view (t, snd s) = view s" by (simp add: view_eq_iff)
    show "wp (own_product x u (sk_product_id k))
        (\<lambda>p. wp (ret k) (\<lambda>k t. view t = view s \<and> k \<in> set (skus (committed (fst s))) \<and> live_sku sid k \<and>
          (\<exists>slug. owns u (sk_product_id k) slug (committed (fst s)))) (\<lambda>t. view t = view s)) (\<lambda>t. view t = view s) (t, snd s)"
      by (rule wp_mono[OF wp_own_product]) (use k v in \<open>auto simp: wp_ret\<close>)
  qed (simp add: view_eq_iff)
qed

section \<open>Writing\<close>

lemma wp_repo_product:
  assumes "current t = d"
  shows "wp (repo_create_product x (cu_id u) v) (\<lambda>_ t'. product_step u F Unchanged d (current t')) (\<lambda>_. True) t"
    and "owns u pid slug d \<Longrightarrow> wp (repo_update_product x pid vu) (\<lambda>_ t'. product_step u F (Whole pid slug) d (current t')) (\<lambda>_. True) t"
    and "owns u pid slug d \<Longrightarrow> wp (repo_delete_product x pid) (\<lambda>_ t'. product_step u F (Whole pid slug) d (current t')) (\<lambda>_. True) t"
proof -
  show "wp (repo_create_product x (cu_id u) v) (\<lambda>_ t'. product_step u F Unchanged d (current t')) (\<lambda>_. True) t"
    unfolding repo_create_product_def wp_map_err
    by (rule wp_uuid_then, unfold wp_map_err, rule wp_stmt_step) (use assms in \<open>auto intro: ps_create\<close>)
  show "wp (repo_update_product x pid vu) (\<lambda>_ t'. product_step u F (Whole pid slug) d (current t')) (\<lambda>_. True) t" if "owns u pid slug d"
  proof (cases "no_product_fields vu")
    case False
    show ?thesis unfolding repo_update_product_def if_not_P[OF False]
      by (rule wp_stmt_then[where R = "product_step u F (Whole pid slug) d"]) (use assms that in \<open>auto intro: ps_update wp_one_row\<close>)
  qed (use assms in \<open>simp add: repo_update_product_def wp_ret ps_same\<close>)
  show "wp (repo_delete_product x pid) (\<lambda>_ t'. product_step u F (Whole pid slug) d (current t')) (\<lambda>_. True) t" if "owns u pid slug d"
    unfolding repo_delete_product_def
    by (rule wp_stmt_then[where R = "product_step u F (Whole pid slug) d"]) (use assms that in \<open>auto intro: ps_delete wp_one_row\<close>)
qed

lemma wp_repo_sku:
  assumes "current t = d"
  shows "owns u pid slug d \<Longrightarrow> wp (repo_create_sku x pid vk) (\<lambda>_ t'. product_step u F (Detail pid) d (current t')) (\<lambda>_. True) t"
    and "k \<in> set (skus d) \<Longrightarrow> live_sku sid k \<Longrightarrow> owns u (sk_product_id k) slug d \<Longrightarrow>
      wp (repo_update_sku x sid vs) (\<lambda>_ t'. product_step u F (Detail (sk_product_id k)) d (current t')) (\<lambda>_. True) t"
    and "k \<in> set (skus d) \<Longrightarrow> live_sku sid k \<Longrightarrow> owns u (sk_product_id k) slug d \<Longrightarrow>
      wp (repo_delete_sku x sid) (\<lambda>_ t'. product_step u F (Detail (sk_product_id k)) d (current t')) (\<lambda>_. True) t"
    and "k \<in> set (skus d) \<Longrightarrow> live_sku sid k \<Longrightarrow> owns u (sk_product_id k) slug d \<Longrightarrow>
      wp (repo_adjust_stock x sid delta) (\<lambda>_ t'. product_step u F (Detail (sk_product_id k)) d (current t')) (\<lambda>_. True) t"
proof -
  show "wp (repo_create_sku x pid vk) (\<lambda>_ t'. product_step u F (Detail pid) d (current t')) (\<lambda>_. True) t" if "owns u pid slug d"
    unfolding repo_create_sku_def wp_map_err
    by (rule wp_uuid_then, unfold wp_map_err, rule wp_stmt_step) (use assms that in \<open>auto intro: ps_sku_create\<close>)
  assume k: "k \<in> set (skus d)" "live_sku sid k" "owns u (sk_product_id k) slug d"
  note then_row = wp_stmt_then[where R = "product_step u F (Detail (sk_product_id k)) d"]
  show "wp (repo_update_sku x sid vs) (\<lambda>_ t'. product_step u F (Detail (sk_product_id k)) d (current t')) (\<lambda>_. True) t"
  proof (cases "vs_price vs = None \<and> vs_stock_quantity vs = None \<and> vs_attributes vs = None \<and> vs_status vs = None")
    case False
    show ?thesis unfolding repo_update_sku_def if_not_P[OF False]
      by (rule then_row) (use assms k in \<open>auto intro: ps_sku_update wp_one_row\<close>)
  qed (use assms in \<open>simp add: repo_update_sku_def wp_ret ps_same\<close>)
  show "wp (repo_delete_sku x sid) (\<lambda>_ t'. product_step u F (Detail (sk_product_id k)) d (current t')) (\<lambda>_. True) t"
    unfolding repo_delete_sku_def by (rule then_row) (use assms k in \<open>auto intro: ps_sku_delete wp_one_row\<close>)
  show "wp (repo_adjust_stock x sid delta) (\<lambda>_ t'. product_step u F (Detail (sk_product_id k)) d (current t')) (\<lambda>_. True) t"
    unfolding repo_adjust_stock_def by (rule then_row) (use assms k in \<open>auto simp: wp_simps intro: ps_stock\<close>)
qed

lemma wp_repo_image:
  assumes "current t = d" "owns u pid slug d"
  shows "wp (repo_add_image x pid vi) (\<lambda>_ t'. product_step u F (Detail pid) d (current t')) (\<lambda>_. True) t"
    and "(pid, iid) \<in> F \<Longrightarrow> wp (repo_delete_image x iid) (\<lambda>_ t'. product_step u F (Detail pid) d (current t')) (\<lambda>_. True) t"
proof -
  have ins: "wp (bnd next_uuid (\<lambda>rid. map_err e (stmt Tx (insert_image_sql pid vi rid)))) (\<lambda>_ t'. product_step u F (Detail pid) d (current t'))
      (\<lambda>_. True) t'"
    if "\<And>rid now a d'. insert_image_sql pid vi rid now (current t') = Inr (a, d') \<Longrightarrow> product_step u F (Detail pid) d d'" for e t'
    by (rule wp_uuid_then, unfold wp_map_err, rule wp_stmt_step) (use that in auto)
  have indep: "insert_image_sql pid vi rid now d1 = Inr (a, d') \<Longrightarrow> unset_primary_sql pid n d = Inr (m, d1) \<Longrightarrow>
      unset_primary_sql pid now d = Inr (m, d1)" for rid now d1 a d' n m by (simp add: unset_primary_sql_def)
  show "wp (repo_add_image x pid vi) (\<lambda>_ t'. product_step u F (Detail pid) d (current t')) (\<lambda>_. True) t"
  proof (cases "vi_is_primary vi")
    case True
    have "wp (stmt Tx (unset_primary_sql pid)) (\<lambda>_ t'. \<exists>now n. unset_primary_sql pid now d = Inr (n, current t')) (\<lambda>_. True) t"
      by (rule wp_stmt_step) (use assms(1) in blast)
    then have "wp (stmt Tx (unset_primary_sql pid)) (\<lambda>_. wp (bnd next_uuid (\<lambda>rid. map_err (failed x ''Failed to add image: '')
        (stmt Tx (insert_image_sql pid vi rid)))) (\<lambda>_ t'. product_step u F (Detail pid) d (current t')) (\<lambda>_. True)) (\<lambda>_. True) t"
      by (rule wp_mono) (use True assms(2) indep in \<open>blast intro: ins ps_primary\<close>, simp)
    then show ?thesis using True by (simp add: repo_add_image_def wp_bnd[of _ "\<lambda>_. bnd _ _"] wp_bnd[of _ "\<lambda>_. ret ()"] wp_map_err wp_ret[abs_def])
  next
    case False
    then show ?thesis unfolding repo_add_image_def if_not_P[OF False] bnd_ret_left
      by (intro ins) (use assms in \<open>auto intro: ps_image\<close>)
  qed
  show "wp (repo_delete_image x iid) (\<lambda>_ t'. product_step u F (Detail pid) d (current t')) (\<lambda>_. True) t" if "(pid, iid) \<in> F"
    unfolding repo_delete_image_def
    by (rule wp_stmt_then[where R = "product_step u F (Detail pid) d"]) (use assms that in \<open>auto simp: wp_simps intro: ps_image_delete\<close>)
qed

section \<open>The cache\<close>

definition forget :: "string \<Rightarrow> redis option \<Rightarrow> redis option" where
  "forget key c =
     map_option (\<lambda>r. if rd_fault r then rd_tick r else (rd_tick r)\<lparr>rd_store := (rd_store r)(key := None)\<rparr>) c"

lemma wp_evict [wp_simps]: "wp (evict key) Q E c = Q () (forget key c)"
  by (simp add: wp_def evict_def forget_def)

lemma rd_fault_none [simp]: "rd_faults r = [] \<Longrightarrow> \<not> rd_fault r"
  by (simp add: rd_fault_def)

lemma rd_tick_simps [simp]: "rd_store (rd_tick r) = rd_store r" "rd_faults (rd_tick r) = tl (rd_faults r)"
  by (simp_all add: rd_tick_def)

lemma cache_step_forget:
  "cache_step x y d (Detail pid) c (forget (product_detail_key x pid) c)"
  "cache_step x y d (Whole pid slug) c (forget (product_slug_key slug) (forget (product_detail_key x pid) c))"
  by (auto simp: cache_step_def forget_def store_step_def fun_eq_iff split: option.splits)

lemma stepped_detail:
  assumes "product_step u F (Detail pid) (committed (fst s)) (committed (fst t))" "snd t = snd s"
  shows "wp (on_snd (evict (product_detail_key x pid))) (\<lambda>_. stepped x y u F s) (stepped x y u F s) t"
  using assms cache_step_forget(1) by (auto simp: wp_on_snd wp_evict stepped_def)

lemma stepped_whole:
  assumes "product_step u F (Whole pid slug) (committed (fst s)) (committed (fst t))" "snd t = snd s"
  shows "wp (evict_product_caches x pid slug) (\<lambda>_. stepped x y u F s) (stepped x y u F s) t"
  using assms cache_step_forget(2)[of x y "committed (fst s)" pid slug]
  by (auto simp: evict_product_caches_def wp_bnd wp_on_snd wp_evict stepped_def)

lemma wp_stepped_view: "keeps view m \<Longrightarrow> stepped x y u F s t \<Longrightarrow> wp m (\<lambda>_. stepped x y u F s) (stepped x y u F s) t"
  by (rule wp_view) (auto intro: stepped_view)

lemma stepped_reads: "keeps view m \<Longrightarrow> wp m (\<lambda>_. stepped x y u F s) (stepped x y u F s) s"
  by (rule wp_view) (auto intro: stepped_refl)

section \<open>The requests\<close>

text \<open>A transaction after reads, then what follows its success.\<close>

lemma wp_transaction:
  assumes "view t = view s" "keeps committed m"
    and "\<And>t0. current t0 = committed (fst s) \<Longrightarrow> wp m (\<lambda>_ t'. product_step u F ch (committed (fst s)) (current t')) (\<lambda>_. True) t0"
    and "\<And>a t'. product_step u F ch (committed (fst s)) (committed (fst t')) \<Longrightarrow> snd t' = snd s \<Longrightarrow> wp (k a) Q (stepped x y u F s) t'"
  shows "wp (bnd (on_fst (in_tx x what m)) k) Q (stepped x y u F s) t"
proof -
  have t: "committed (fst t) = committed (fst s)" "snd t = snd s" using assms(1) by (simp_all add: view_eq_iff)
  have "wp (in_tx x what m) (\<lambda>_ t'. product_step u F ch (committed (fst t)) (committed t')) (\<lambda>t'. committed t' = committed (fst t)) (fst t)"
    by (rule wp_in_tx[OF assms(2)]) (use assms(3) t in \<open>auto intro: ps_same\<close>)
  then show ?thesis unfolding wp_bnd wp_on_fst
    by (rule wp_mono) (use assms(4) t in \<open>auto intro: stepped_refl simp: view_eq_iff\<close>)
qed

lemma wp_valid: "(\<And>v. r = Ok v \<Longrightarrow> wp (k v) Q E t) \<Longrightarrow> E t \<Longrightarrow> wp (bnd (of_result r) k) Q E t"
  by (cases r) (simp_all add: wp_bnd wp_of_result)

lemma wp_own_then:
  assumes "\<And>p t. view t = view s \<Longrightarrow> owns u pid (pd_slug p) (committed (fst s)) \<Longrightarrow> wp (k p) (\<lambda>_. stepped x y u F s) (stepped x y u F s) t"
  shows "wp (bnd (own_product x u pid) k) (\<lambda>_. stepped x y u F s) (stepped x y u F s) s"
  unfolding wp_bnd by (rule wp_mono[OF wp_own_product]) (use assms in \<open>auto intro: stepped_refl\<close>)

lemma wp_sku_then:
  assumes "\<And>k t slug. view t = view s \<Longrightarrow> k \<in> set (skus (committed (fst s))) \<Longrightarrow> live_sku sid k \<Longrightarrow>
      owns u (sk_product_id k) slug (committed (fst s)) \<Longrightarrow> wp (m k) (\<lambda>_. stepped x y u F s) (stepped x y u F s) t"
  shows "wp (bnd (own_sku x u sid) m) (\<lambda>_. stepped x y u F s) (stepped x y u F s) s"
  unfolding wp_bnd by (rule wp_mono[OF wp_own_sku]) (use assms in \<open>auto intro: stepped_refl\<close>)

lemma wp_fk_then:
  assumes "view t = view s" "\<And>t'. view t' = view s \<Longrightarrow> wp (k ()) (\<lambda>_. stepped x y u F s) (stepped x y u F s) t'"
  shows "wp (bnd (on_fst (validate_fk_references x c b)) k) (\<lambda>_. stepped x y u F s) (stepped x y u F s) t"
proof -
  have keep: "keeps view (on_fst (validate_fk_references x c b))" by (intro keeps_view frame_rules)
  show ?thesis unfolding wp_bnd by (rule wp_view[OF keep]) (use assms in \<open>auto intro: stepped_refl\<close>)
qed

lemma stepped_unchanged:
  assumes "product_step u F Unchanged (committed (fst s)) (committed (fst t))" "snd t = snd s"
  shows "stepped x y u F s t"
  using assms unfolding stepped_def by (intro exI[of _ Unchanged]) (auto simp: cache_step_def store_step_def split: option.splits)

lemma wp_create_product: "wp (create_product x u req) (\<lambda>_. stepped x y u F s) (stepped x y u F s) s"
  unfolding create_product_def
proof (rule wp_valid, rule wp_fk_then, simp)
  fix v t assume t: "view t = view s"
  show "wp (bnd (on_fst (in_tx x ''Failed to create product: '' (repo_create_product x (cu_id u) v))) (\<lambda>pid.
    bnd (on_fst (get_product_by_id x Pool pid)) (\<lambda>p. ret (product_res_new x p)))) (\<lambda>_. stepped x y u F s) (stepped x y u F s) t"
  proof (rule wp_transaction[OF t, where ch = Unchanged])
    fix pid and t' :: shop assume "product_step u F Unchanged (committed (fst s)) (committed (fst t'))" "snd t' = snd s"
    then show "wp (bnd (on_fst (get_product_by_id x Pool pid)) (\<lambda>p. ret (product_res_new x p))) (\<lambda>_. stepped x y u F s) (stepped x y u F s) t'"
      by (intro wp_stepped_view[OF _ stepped_unchanged]) (intro frame_rules keeps_view)
  qed (auto intro: frame_rules wp_repo_product)
qed (simp add: stepped_refl)

lemma wp_update_product: "wp (update_product x u pid req) (\<lambda>_. stepped x y u F s) (stepped x y u F s) s"
  unfolding update_product_def
proof (intro wp_own_then wp_valid wp_fk_then)
  fix p :: product_entity and v t t' assume o: "owns u pid (pd_slug p) (committed (fst s))" and t: "view t' = view s"
  show "wp (bnd (on_fst (in_tx x ''Failed to update product: '' (repo_update_product x pid v))) (\<lambda>_. evict_product_caches x pid (pd_slug p)))
      (\<lambda>_. stepped x y u F s) (stepped x y u F s) t'"
    by (rule wp_transaction[OF t, where ch = "Whole pid (pd_slug p)"])
       (use o in \<open>auto intro: frame_rules wp_repo_product stepped_whole\<close>)
qed (auto intro: stepped_refl)

lemma wp_delete_product: "wp (delete_product x u pid) (\<lambda>_. stepped x y u F s) (stepped x y u F s) s"
  unfolding delete_product_def
proof (intro wp_own_then)
  fix p :: product_entity and t assume o: "owns u pid (pd_slug p) (committed (fst s))" and t: "view t = view s"
  show "wp (bnd (on_fst (in_tx x ''Failed to delete product: '' (repo_delete_product x pid))) (\<lambda>_. evict_product_caches x pid (pd_slug p)))
      (\<lambda>_. stepped x y u F s) (stepped x y u F s) t"
    by (rule wp_transaction[OF t, where ch = "Whole pid (pd_slug p)"])
       (use o in \<open>auto intro: frame_rules wp_repo_product stepped_whole\<close>)
qed

text \<open>The requests that evict only the details.\<close>

lemma wp_detail_then:
  assumes "product_step u F (Detail pid) (committed (fst s)) (committed (fst t))" "snd t = snd s" "keeps view m"
  shows "wp (bnd (on_snd (evict (product_detail_key x pid))) (\<lambda>_. m)) (\<lambda>_. stepped x y u F s) (stepped x y u F s) t"
  unfolding wp_bnd
  by (rule wp_mono[OF stepped_detail[OF assms(1,2)]]) (use assms(3) in \<open>auto intro: wp_stepped_view\<close>)

lemma wp_create_sku: "wp (create_sku x u pid req) (\<lambda>_. stepped x y u F s) (stepped x y u F s) s"
  unfolding create_sku_def
proof (intro wp_own_then wp_valid)
  fix p :: product_entity and v t assume o: "owns u pid (pd_slug p) (committed (fst s))" and t: "view t = view s"
  show "wp (bnd (on_fst (in_tx x ''Failed to create SKU: '' (repo_create_sku x pid v))) (\<lambda>sid.
      bnd (on_snd (evict (product_detail_key x pid))) (\<lambda>_.
      bnd (on_fst (get_sku_by_id x Pool sid)) (\<lambda>k. ret (sku_res_new x k))))) (\<lambda>_. stepped x y u F s) (stepped x y u F s) t"
    by (rule wp_transaction[OF t, where ch = "Detail pid"])
       (use o in \<open>auto intro!: wp_detail_then intro: frame_rules keeps_view wp_repo_sku\<close>)
qed (auto intro: stepped_refl)

lemma wp_add_image: "wp (add_image x u pid req) (\<lambda>_. stepped x y u F s) (stepped x y u F s) s"
  unfolding add_image_def
proof (intro wp_own_then wp_valid)
  fix p :: product_entity and v t assume o: "owns u pid (pd_slug p) (committed (fst s))" and t: "view t = view s"
  show "wp (bnd (on_fst (in_tx x ''Failed to add image: '' (repo_add_image x pid v))) (\<lambda>iid.
      bnd (on_snd (evict (product_detail_key x pid))) (\<lambda>_.
      bnd (on_fst (get_image_by_id x Pool iid)) (\<lambda>i. ret (image_res_new x i))))) (\<lambda>_. stepped x y u F s) (stepped x y u F s) t"
    by (rule wp_transaction[OF t, where ch = "Detail pid"])
       (use o in \<open>auto intro!: wp_detail_then intro: frame_rules keeps_view wp_repo_image\<close>)
qed (auto intro: stepped_refl)

lemma wp_delete_image: "(pid, iid) \<in> F \<Longrightarrow> wp (delete_image x u pid iid) (\<lambda>_. stepped x y u F s) (stepped x y u F s) s"
  unfolding delete_image_def
proof (intro wp_own_then)
  assume f: "(pid, iid) \<in> F"
  fix p :: product_entity and t assume o: "owns u pid (pd_slug p) (committed (fst s))" and t: "view t = view s"
  show "wp (bnd (on_fst (in_tx x ''Failed to delete image: '' (repo_delete_image x iid))) (\<lambda>_. on_snd (evict (product_detail_key x pid))))
      (\<lambda>_. stepped x y u F s) (stepped x y u F s) t"
    by (rule wp_transaction[OF t, where ch = "Detail pid"])
       (use o f in \<open>auto intro!: stepped_detail intro: frame_rules wp_repo_image\<close>)
qed

lemma wp_sku_writes:
  "wp (update_sku x u sid req) (\<lambda>_. stepped x y u F s) (stepped x y u F s) s"
  "wp (delete_sku x u sid) (\<lambda>_. stepped x y u F s) (stepped x y u F s) s"
  "wp (adjust_stock x u sid delta) (\<lambda>_. stepped x y u F s) (stepped x y u F s) s"
proof -
  have tx: "wp (bnd (on_fst (in_tx x what m)) (\<lambda>_. on_snd (evict (product_detail_key x (sk_product_id k))))) (\<lambda>_. stepped x y u F s) (stepped x y u F s) t"
    if "view t = view s" "keeps committed m"
      "\<And>t0. current t0 = committed (fst s) \<Longrightarrow> wp m (\<lambda>_ t'. product_step u F (Detail (sk_product_id k)) (committed (fst s)) (current t')) (\<lambda>_. True) t0"
    for what and m :: "(master_db srv, app_error, unit) eff" and k t
    by (rule wp_transaction[OF that(1,2), where ch = "Detail (sk_product_id k)"]) (use that(3) in \<open>auto intro: stepped_detail\<close>)
  show "wp (update_sku x u sid req) (\<lambda>_. stepped x y u F s) (stepped x y u F s) s"
    unfolding update_sku_def
    by (intro wp_sku_then wp_valid tx) (auto intro: stepped_refl frame_rules wp_repo_sku)
  show "wp (delete_sku x u sid) (\<lambda>_. stepped x y u F s) (stepped x y u F s) s"
    unfolding delete_sku_def by (intro wp_sku_then tx) (auto intro: frame_rules wp_repo_sku)
  show "wp (adjust_stock x u sid delta) (\<lambda>_. stepped x y u F s) (stepped x y u F s) s"
    unfolding adjust_stock_def by (intro wp_sku_then tx) (auto intro: frame_rules wp_repo_sku)
qed

section \<open>Cached reads\<close>

lemma wp_cache_get: "(\<And>v. Q v (map_option rd_tick c)) \<Longrightarrow> wp (cache_get dec key) Q E c"
  by (cases c) (simp_all add: wp_def cache_get_def)

lemma stepped_looked:
  assumes "committed (fst t) = committed (fst s)" "snd t = map_option rd_tick (snd s)"
  shows "stepped x y u F s t"
  unfolding stepped_def
  by (rule exI[of _ Unchanged]) (use assms in \<open>auto simp: cache_step_def store_step_def intro: ps_same split: option.splits\<close>)

lemma fresh_entryI:
  "fresh_product x d slug = Some res \<Longrightarrow> product_text y res = Some js \<Longrightarrow> fresh_entry x y d (product_slug_key slug) js"
  "fresh_detail x (shop_externs.truncate y) d pid = Some v \<Longrightarrow> detail_text y v = Some js \<Longrightarrow>
     fresh_entry x y d (product_detail_key x pid) js"
  unfolding fresh_entry_def by blast+

lemma wp_cache_fill:
  assumes "committed (fst t) = committed (fst s)" "snd t = map_option rd_tick (snd s)"
    and "\<And>js. render v = Some js \<Longrightarrow> fresh_entry x y (committed (fst s)) key js"
  shows "wp (bnd (on_snd (cache_set render ttl key v)) (\<lambda>_. ret v)) (\<lambda>_. stepped x y u F s) (stepped x y u F s) t"
proof (cases "snd s")
  case None
  then show ?thesis using assms(1,2) stepped_looked[OF assms(1,2)]
    by (simp add: wp_def bnd_def on_snd_def ret_def cache_set_def stepped_def)
next
  case (Some r)
  show ?thesis
  proof (cases "render v")
    case None
    have "wp (on_snd (cache_set render ttl key v)) (\<lambda>_ t'. t' = t) (\<lambda>_. False) t"
      using Some None assms(2) by (cases t) (simp add: wp_def on_snd_def cache_set_def)
    then show ?thesis unfolding wp_bnd
      by (rule wp_mono) (use stepped_looked[OF assms(1,2)] in \<open>auto simp: wp_ret\<close>)
  next
    case js: (Some js)
    let ?r = "rd_tick r"
    let ?c = "Some (if rd_fault ?r then rd_tick ?r else (rd_tick ?r)\<lparr>rd_store := (rd_store ?r)(key \<mapsto> (js, rd_now ?r + ttl))\<rparr>)"
    have "wp (on_snd (cache_set render ttl key v)) (\<lambda>_ t'. t' = (fst t, ?c)) (\<lambda>_. False) t"
      using Some js assms(2) by (simp add: wp_def on_snd_def cache_set_def)
    moreover have "stepped x y u F s (fst t, ?c)" unfolding stepped_def
      by (rule exI[of _ Unchanged])
         (use assms Some js in \<open>auto simp: cache_step_def store_step_def intro: ps_same\<close>)
    ultimately show ?thesis unfolding wp_bnd by (auto elim!: wp_mono simp: wp_ret)
  qed
qed

lemma repo_product_by_slug_Ok:
  assumes "repo_product_by_slug x Pool slug s = (Ok p, t)"
  shows "fresh_product x (committed s) slug = Some (product_res_new x p)"
proof -
  obtain rs where "map (product_select (committed s)) (filter (\<lambda>p. pd_slug p = slug \<and> pd_deleted_at p = None) (products (committed s))) = p # rs"
    using assms unfolding repo_product_by_slug_def map_err_Ok_iff by (auto dest: fetch_one_Pool_Ok)
  then show ?thesis by (auto simp: fresh_product_def)
qed

lemma repo_product_detail_Ok:
  assumes "repo_product_detail x z Pool pid s = (Ok row, t)" "product_detail_res_from_row x z row = Ok v"
  shows "fresh_detail x z (committed s) pid = Some v"
proof -
  obtain rs where "map (detail_select z (committed s)) (filter (live_product pid) (products (committed s))) = row # rs"
    using assms(1) unfolding repo_product_detail_def map_err_Ok_iff by (auto dest: fetch_one_Pool_Ok)
  then show ?thesis using assms(2) by (auto simp: fresh_detail_def result_ok_def)
qed

lemma wp_query_keep:
  assumes "keeps committed m" "\<And>a t. m s = (Ok a, t) \<Longrightarrow> P a"
  shows "wp m (\<lambda>a t. committed t = committed s \<and> P a) (\<lambda>t. committed t = committed s) s"
  using assms(2) keepsD[OF assms(1)] by (auto simp: wp_def split: prod.splits result.splits)

lemma wp_get_product_by_slug: "wp (get_product_by_slug x y slug) (\<lambda>_. stepped x y u F s) (stepped x y u F s) s"
  unfolding get_product_by_slug_def wp_bnd[of "on_snd _"] wp_on_snd
proof (rule wp_cache_get)
  fix v
  let ?s1 = "(fst s, map_option rd_tick (snd s))"
  have look: "stepped x y u F s ?s1" by (rule stepped_looked) simp_all
  have "wp (bnd (on_fst (repo_product_by_slug x Pool slug)) (\<lambda>p. let res = product_res_new x p in
      bnd (on_snd (cache_set (product_text y) product_cache_ttl (product_slug_key slug) res)) (\<lambda>_. ret res)))
      (\<lambda>_. stepped x y u F s) (stepped x y u F s) ?s1"
    unfolding wp_bnd[of "on_fst _"] wp_on_fst fst_conv snd_conv Let_def
    by (rule wp_mono[OF wp_query_keep[where P = "\<lambda>p. fresh_product x (committed (fst s)) slug = Some (product_res_new x p)"]])
       (auto intro: frame_rules repo_product_by_slug_Ok stepped_looked fresh_entryI intro!: wp_cache_fill)
  then show "wp (case v of Some v \<Rightarrow> ret v | None \<Rightarrow> bnd (on_fst (repo_product_by_slug x Pool slug)) (\<lambda>p. let res = product_res_new x p in
      bnd (on_snd (cache_set (product_text y) product_cache_ttl (product_slug_key slug) res)) (\<lambda>_. ret res)))
      (\<lambda>_. stepped x y u F s) (stepped x y u F s) ?s1"
    using look by (cases v) (simp_all add: wp_ret)
qed

lemma wp_get_product_detail: "wp (get_product_detail x y pid) (\<lambda>_. stepped x y u F s) (stepped x y u F s) s"
  unfolding get_product_detail_def wp_bnd[of "on_snd _"] wp_on_snd
proof (rule wp_cache_get)
  fix v
  let ?s1 = "(fst s, map_option rd_tick (snd s))" and ?z = "shop_externs.truncate y"
  let ?read = "bnd (on_fst (repo_product_detail x ?z Pool pid)) (\<lambda>row.
      bnd (of_result (product_detail_res_from_row x ?z row)) (\<lambda>detail.
      bnd (on_snd (cache_set (detail_text y) product_cache_ttl (product_detail_key x pid) detail)) (\<lambda>_. ret detail)))"
  have look: "stepped x y u F s ?s1" by (rule stepped_looked) simp_all
  have "wp ?read (\<lambda>_. stepped x y u F s) (stepped x y u F s) ?s1"
    unfolding wp_bnd[of "on_fst _"] wp_on_fst fst_conv snd_conv
    by (rule wp_mono[OF wp_query_keep[where P = "\<lambda>row. \<forall>v. product_detail_res_from_row x ?z row = Ok v \<longrightarrow>
          fresh_detail x ?z (committed (fst s)) pid = Some v"]])
       (auto intro: frame_rules repo_product_detail_Ok stepped_looked fresh_entryI intro!: wp_valid wp_cache_fill)
  then show "wp (case v of Some v \<Rightarrow> ret v | None \<Rightarrow> ?read) (\<lambda>_. stepped x y u F s) (stepped x y u F s) ?s1"
    using look by (cases v) (simp_all add: wp_ret)
qed

lemma wp_reply: "wp m (\<lambda>_. P) P s \<Longrightarrow> wp (bnd m (\<lambda>v. ret (f v))) (\<lambda>_. P) P s"
  by (simp add: wp_bnd wp_ret[abs_def])

lemma keeps_view_lists:
  "keeps view (list_active_products x y pg f)" "keeps view (list_products_by_seller x y sid pg f)"
  "keeps view (list_skus x pid)" "keeps view (list_images x pid)"
  unfolding list_active_products_def list_products_by_seller_def list_skus_def list_images_def
  by (intro frame_rules keeps_view)+

fun deletions :: "product_route \<Rightarrow> (uuid \<times> uuid) set" where
  "deletions (RDeleteImage pid iid) = {(pid, iid)}"
| "deletions rt = {}"

lemma product_handler_steps:
  assumes "deletions rt \<subseteq> F" shows "stepped x y u F s (snd (product_handler x y u rt s))"
proof -
  have "wp (product_handler x y u rt) (\<lambda>_. stepped x y u F s) (stepped x y u F s) s"
  proof (cases rt)
    case (RAdjustStock sid delta)
    then show ?thesis by (auto simp: product_done_def wp_throw stepped_refl intro: wp_reply[OF wp_sku_writes(3)])
  qed (use assms in \<open>auto simp: product_done_def intro!: wp_reply wp_get_product_detail wp_get_product_by_slug wp_create_product
        wp_update_product wp_delete_product wp_create_sku wp_sku_writes wp_add_image wp_delete_image
        keeps_view_lists[THEN stepped_reads]\<close>)
  then show ?thesis by (rule wp_total_D[OF _ prod.collapse[symmetric]])
qed

end
