(* ===== verification/Catalog_Proofs.thy ===== *)
theory Catalog_Proofs
  imports Product_Proofs
begin

text \<open>
  The catalog application as a whole: the constraints of its tables hold in every reachable
  state, a seller's products and SKUs change only by requests of users with access to them,
  and the cache answers as the database would. Requests of the category, brand and product
  routes may come in any order.
\<close>

section \<open>The constraints of the tables\<close>

definition products_ok :: "uuid set \<Rightarrow> uuid set \<Rightarrow> product list \<Rightarrow> bool" where
  "products_ok cats brs ps \<longleftrightarrow>
     distinct (map pd_id ps) \<and> distinct (map pd_slug ps) \<and>
     (\<forall>p\<in>set ps. 0 \<le> pd_base_price p \<and> refers (pd_category_id p) cats \<and> refers (pd_brand_id p) brs)"

definition skus_ok :: "uuid set \<Rightarrow> sku list \<Rightarrow> bool" where
  "skus_ok pids ks \<longleftrightarrow>
     distinct (map sk_id ks) \<and> distinct (map sk_sku_code ks) \<and>
     (\<forall>k\<in>set ks. 0 \<le> sk_price k \<and> 0 \<le> sk_stock k \<and> sk_product_id k \<in> pids)"

text \<open>A product has at most one primary image.\<close>

definition images_ok :: "uuid set \<Rightarrow> product_image list \<Rightarrow> bool" where
  "images_ok pids is \<longleftrightarrow>
     distinct (map pi_id is) \<and> (\<forall>i\<in>set is. pi_product_id i \<in> pids) \<and>
     (\<forall>pid. count_where (\<lambda>i. pi_product_id i = pid \<and> pi_is_primary i) is \<le> 1)"

definition links_ok :: "uuid set \<Rightarrow> uuid set \<Rightarrow> (uuid \<times> uuid) list \<Rightarrow> bool" where
  "links_ok cats brs ls \<longleftrightarrow> distinct ls \<and> (\<forall>(b, c)\<in>set ls. b \<in> brs \<and> c \<in> cats)"

definition shop_ok :: "master_db \<Rightarrow> bool" where
  "shop_ok d \<longleftrightarrow>
     products_ok (cg_id ` set (categories d)) (bd_id ` set (brands d)) (products d) \<and>
     skus_ok (pd_id ` set (products d)) (skus d) \<and> images_ok (pd_id ` set (products d)) (product_images d) \<and>
     links_ok (cg_id ` set (categories d)) (bd_id ` set (brands d)) (brand_categories d)"

subsection \<open>Tables\<close>

lemma count_where_append [simp]: "count_where P (xs @ ys) = count_where P xs + count_where P ys"
  by (simp add: count_where_def)

lemma count_where_mono: "(\<And>r. r \<in> set rows \<Longrightarrow> P r \<Longrightarrow> Q r) \<Longrightarrow> count_where P rows \<le> count_where Q rows"
  by (induction rows) (auto simp: count_where_def)

lemma count_where_filter_le: "count_where P (filter Q rows) \<le> count_where P rows"
  by (induction rows) (auto simp: count_where_def)

subsection \<open>Statements on products\<close>

lemma insert_product_sql_E:
  assumes "insert_product_sql seller v rid now d = Inr (a, d')"
  obtains name slug price cur where
    "d' = d\<lparr>products := products d @ [product_row rid now seller name slug price cur v]\<rparr>"
    "0 \<le> price" "rid \<notin> pd_id ` set (products d)" "slug \<notin> pd_slug ` set (products d)"
    "refers (vp_category_id v) (cg_id ` set (categories d))" "refers (vp_brand_id v) (bd_id ` set (brands d))"
  using assms unfolding insert_product_sql_def
  by (cases "varchar_col 500 (vp_name v)"; cases "varchar_col 500 (vp_slug v)";
      cases "numeric_col (price_value (vp_base_price v))"; cases "varchar_col 3 (currency_str (vp_currency v))")
     (auto split: if_splits)

lemma update_product_sql_E:
  assumes "update_product_sql pid v now d = Inr (n, d')"
  obtains name slug price cur where
    "d' = d\<lparr>products := update_where (live_product pid) (set_product v name slug price cur now) (products d)\<rparr>"
    "list_ex (live_product pid) (products d) \<Longrightarrow> (case price of Some w \<Rightarrow> 0 \<le> w | None \<Rightarrow> True) \<and>
       (\<forall>p\<in>set (products d). \<not> live_product pid p \<longrightarrow> slug \<noteq> Some (pd_slug p)) \<and>
       refers (vu_category_id v) (cg_id ` set (categories d)) \<and> refers (vu_brand_id v) (bd_id ` set (brands d))"
proof -
  obtain name slug price cur where c: "opt_varchar 500 (vu_name v) = Inr name" "opt_varchar 500 (vu_slug v) = Inr slug"
    "opt_numeric (map_option price_value (vu_base_price v)) = Inr price" "opt_varchar 3 (map_option currency_str (vu_currency v)) = Inr cur"
    using assms unfolding update_product_sql_def
    by (cases "opt_varchar 500 (vu_name v)"; cases "opt_varchar 500 (vu_slug v)";
        cases "opt_numeric (map_option price_value (vu_base_price v))"; cases "opt_varchar 3 (map_option currency_str (vu_currency v))")
       auto
  show ?thesis
    by (rule that[of name slug price cur])
       (use assms in \<open>auto simp: update_product_sql_def c Let_def list_ex_iff split: if_splits option.splits\<close>)
qed

lemma set_product_simps [simp]:
  "pd_id (set_product v name slug price cur now p) = pd_id p"
  "pd_seller_id (set_product v name slug price cur now p) = pd_seller_id p"
  "pd_deleted_at (set_product v name slug price cur now p) = pd_deleted_at p"
  by (simp_all add: set_product_def)

lemma refers_or_else: "refers v ids \<Longrightarrow> refers w ids \<Longrightarrow> refers (or_else v w) ids"
  by (cases v) (simp_all add: or_else_def refers_def)

lemma products_ok_update:
  assumes ok: "products_ok cats brs ps"
    and hit: "list_ex (live_product pid) ps \<Longrightarrow> (case price of Some w \<Rightarrow> 0 \<le> w | None \<Rightarrow> True) \<and>
       (\<forall>p\<in>set ps. \<not> live_product pid p \<longrightarrow> slug \<noteq> Some (pd_slug p)) \<and>
       refers (vu_category_id v) cats \<and> refers (vu_brand_id v) brs"
  shows "products_ok cats brs (update_where (live_product pid) (set_product v name slug price cur now) ps)" (is "products_ok cats brs ?ps")
proof -
  let ?f = "set_product v name slug price cur now"
  have "distinct (map pd_slug ?ps)"
  proof (rule distinct_update_one[where i = pd_id and a = pid])
    fix r assume "r \<in> set ps" "live_product pid r"
    then have "\<forall>p\<in>set ps. \<not> live_product pid p \<longrightarrow> slug \<noteq> Some (pd_slug p)" using hit by (auto simp: list_ex_iff)
    then show "pd_slug (?f r) = pd_slug r \<or> (\<forall>q\<in>set ps. \<not> live_product pid q \<longrightarrow> pd_slug q \<noteq> pd_slug (?f r))"
      by (cases slug) (auto simp: set_product_def)
  qed (use ok in \<open>auto simp: products_ok_def live_product_def\<close>)
  moreover have "0 \<le> pd_base_price q \<and> refers (pd_category_id q) cats \<and> refers (pd_brand_id q) brs" if "q \<in> set ?ps" for q
  proof -
    obtain p where p: "p \<in> set ps" "q = (if live_product pid p then ?f p else p)" using \<open>q \<in> set ?ps\<close> by (auto simp: set_update_where)
    show ?thesis
    proof (cases "live_product pid p")
      case True
      then have "list_ex (live_product pid) ps" using p(1) by (auto simp: list_ex_iff)
      then show ?thesis using hit p ok True
        by (auto simp: products_ok_def set_product_def intro!: refers_or_else split: option.splits)
    qed (use p ok in \<open>simp add: products_ok_def\<close>)
  qed
  ultimately show ?thesis using ok by (simp add: products_ok_def)
qed

subsection \<open>Steps of the product routes\<close>

lemma set_sku_simps [simp]:
  "sk_id (set_sku v price now k) = sk_id k" "sk_sku_code (set_sku v price now k) = sk_sku_code k"
  "sk_product_id (set_sku v price now k) = sk_product_id k" "sk_deleted_at (set_sku v price now k) = sk_deleted_at k"
  by (simp_all add: set_sku_def)

lemma skus_ok_update:
  assumes "skus_ok pids ks" "\<And>k. sk_id (f k) = sk_id k" "\<And>k. sk_sku_code (f k) = sk_sku_code k" "\<And>k. sk_product_id (f k) = sk_product_id k"
    and "\<And>k. k \<in> set ks \<Longrightarrow> P k \<Longrightarrow> 0 \<le> sk_price k \<Longrightarrow> 0 \<le> sk_stock k \<Longrightarrow> 0 \<le> sk_price (f k) \<and> 0 \<le> sk_stock (f k)"
  shows "skus_ok pids (update_where P f ks)"
  using assms by (auto simp: skus_ok_def set_update_where)

lemma insert_sku_sql_E:
  assumes "insert_sku_sql pid v rid now d = Inr (a, d')"
  obtains code price where "d' = d\<lparr>skus := skus d @ [sku_row rid now pid code price v]\<rparr>"
    "0 \<le> price" "0 \<le> vk_stock_quantity v" "rid \<notin> sk_id ` set (skus d)" "code \<notin> sk_sku_code ` set (skus d)"
    "pid \<in> pd_id ` set (products d)"
  using assms unfolding insert_sku_sql_def
  by (cases "varchar_col 100 (vk_sku_code v)"; cases "numeric_col (price_value (vk_price v))") (auto split: if_splits)

lemma update_sku_sql_E:
  assumes "update_sku_sql sid v now d = Inr (n, d')"
  obtains price where "d' = d\<lparr>skus := update_where (live_sku sid) (set_sku v price now) (skus d)\<rparr>"
    "list_ex (live_sku sid) (skus d) \<Longrightarrow> (case price of Some w \<Rightarrow> 0 \<le> w | None \<Rightarrow> True) \<and>
       (case vs_stock_quantity v of Some q \<Rightarrow> 0 \<le> q | None \<Rightarrow> True)"
proof -
  obtain price where c: "opt_numeric (map_option price_value (vs_price v)) = Inr price"
    using assms by (cases "opt_numeric (map_option price_value (vs_price v))") (auto simp: update_sku_sql_def)
  show ?thesis
    by (rule that[of price]) (use assms in \<open>auto simp: update_sku_sql_def c Let_def split: if_splits option.splits\<close>)
qed

lemma adjust_stock_sql_E:
  assumes "adjust_stock_sql sid delta now d = Inr (n, d')"
  shows "d' = d\<lparr>skus := update_where (\<lambda>k. live_sku sid k \<and> sk_stock k + delta \<ge> 0)
    (\<lambda>k. k\<lparr>sk_stock := sk_stock k + delta, sk_updated_at := Some now\<rparr>) (skus d)\<rparr>"
  using assms by (auto simp: adjust_stock_sql_def Let_def split: if_splits)

lemma insert_image_sql_E:
  assumes "insert_image_sql pid v rid now d = Inr (a, d')"
  obtains alt where "d' = d\<lparr>product_images := product_images d @
      [\<lparr>pi_id = rid, pi_created_at = now, pi_product_id = pid, pi_url = vi_url v, pi_alt_text = alt,
        pi_sort_order = vi_sort_order v, pi_is_primary = vi_is_primary v\<rparr>]\<rparr>"
    "rid \<notin> pi_id ` set (product_images d)" "pid \<in> pd_id ` set (products d)"
  using assms unfolding insert_image_sql_def by (cases "opt_varchar 500 (vi_alt_text v)") (auto split: if_splits)

lemma images_ok_insert:
  assumes "images_ok pids is" "rid \<notin> pi_id ` set is" "pid \<in> pids" "primary \<Longrightarrow> count_where (\<lambda>i. pi_product_id i = pid \<and> pi_is_primary i) is = 0"
  shows "images_ok pids (is @ [\<lparr>pi_id = rid, pi_created_at = now, pi_product_id = pid, pi_url = url, pi_alt_text = alt,
    pi_sort_order = n, pi_is_primary = primary\<rparr>])"
proof -
  let ?i = "\<lparr>pi_id = rid, pi_created_at = now, pi_product_id = pid, pi_url = url, pi_alt_text = alt, pi_sort_order = n, pi_is_primary = primary\<rparr>"
  have "count_where (\<lambda>i. pi_product_id i = q \<and> pi_is_primary i) (is @ [?i]) \<le> 1" for q
  proof (cases "q = pid \<and> primary")
    case True
    then show ?thesis using assms(4) by (simp add: count_where_def)
  next
    case False
    then have "count_where (\<lambda>i. pi_product_id i = q \<and> pi_is_primary i) [?i] = 0" by (auto simp: count_where_def)
    moreover have "count_where (\<lambda>i. pi_product_id i = q \<and> pi_is_primary i) is \<le> 1" using assms(1) by (simp add: images_ok_def)
    ultimately show ?thesis by simp
  qed
  then show ?thesis using assms(1-3) by (simp add: images_ok_def)
qed

definition unset_primary :: "uuid \<Rightarrow> product_image list \<Rightarrow> product_image list" where
  "unset_primary pid is = update_where (\<lambda>i. pi_product_id i = pid \<and> pi_is_primary i) (\<lambda>i. i\<lparr>pi_is_primary := False\<rparr>) is"

lemma unset_primary_ok:
  assumes "images_ok pids is"
  shows "images_ok pids (unset_primary pid is)" "count_where (\<lambda>i. pi_product_id i = pid \<and> pi_is_primary i) (unset_primary pid is) = 0"
proof -
  have "count_where (\<lambda>i. pi_product_id i = q \<and> pi_is_primary i) (unset_primary pid is) \<le>
      count_where (\<lambda>i. pi_product_id i = q \<and> pi_is_primary i) is" for q
    unfolding unset_primary_def by (induction "is") (auto simp: count_where_def)
  then have "count_where (\<lambda>i. pi_product_id i = q \<and> pi_is_primary i) (unset_primary pid is) \<le> 1" for q
    using assms unfolding images_ok_def by (meson order_trans)
  moreover have "map pi_id (unset_primary pid is) = map pi_id is" "map pi_product_id (unset_primary pid is) = map pi_product_id is"
    unfolding unset_primary_def by (intro map_update_where; simp)+
  moreover from this(2) have "pi_product_id ` set (unset_primary pid is) = pi_product_id ` set is" by (metis set_map)
  then have "pi_product_id ` set (unset_primary pid is) \<subseteq> pids" using assms by (auto simp: images_ok_def)
  ultimately show "images_ok pids (unset_primary pid is)"
    using assms by (simp add: images_ok_def image_subset_iff)
  show "count_where (\<lambda>i. pi_product_id i = pid \<and> pi_is_primary i) (unset_primary pid is) = 0"
    unfolding unset_primary_def by (induction "is") (auto simp: count_where_def)
qed

lemma images_ok_filter: "images_ok pids is \<Longrightarrow> images_ok pids (filter P is)"
  unfolding images_ok_def by (auto simp: distinct_map_filter intro: order_trans[OF count_where_filter_le])

lemmas shop_ok_simps = shop_ok_def products_ok_def skus_ok_def images_ok_def links_ok_def

lemma product_step_shop_ok: "product_step u F ch d d' \<Longrightarrow> shop_ok d \<Longrightarrow> shop_ok d'"
proof (induction rule: product_step.induct)
  case (ps_create v rid now d a d')
  from ps_create(1) show ?case
  proof (rule insert_product_sql_E)
    fix name slug price cur
    assume "d' = d\<lparr>products := products d @ [product_row rid now (cu_id u) name slug price cur v]\<rparr>"
      "0 \<le> price" "rid \<notin> pd_id ` set (products d)" "slug \<notin> pd_slug ` set (products d)"
      "refers (vp_category_id v) (cg_id ` set (categories d))" "refers (vp_brand_id v) (bd_id ` set (brands d))"
    then show ?thesis using ps_create(2) by (auto simp: shop_ok_simps product_row_def)
  qed
next
  case (ps_update pid slug d vu now n d')
  from ps_update(2) show ?case
  proof (rule update_product_sql_E)
    fix name slug price cur
    assume d': "d' = d\<lparr>products := update_where (live_product pid) (set_product vu name slug price cur now) (products d)\<rparr>"
      and hit: "list_ex (live_product pid) (products d) \<Longrightarrow> (case price of Some w \<Rightarrow> 0 \<le> w | None \<Rightarrow> True) \<and>
       (\<forall>p\<in>set (products d). \<not> live_product pid p \<longrightarrow> slug \<noteq> Some (pd_slug p)) \<and>
       refers (vu_category_id vu) (cg_id ` set (categories d)) \<and> refers (vu_brand_id vu) (bd_id ` set (brands d))"
    show ?thesis using ps_update(3) products_ok_update[OF _ hit] by (simp add: d' shop_ok_def)
  qed
next
  case (ps_delete pid slug d now n d')
  let ?ps = "update_where (live_product pid) (\<lambda>p. p\<lparr>pd_deleted_at := Some now\<rparr>) (products d)"
  have "products_ok (cg_id ` set (categories d)) (bd_id ` set (brands d)) ?ps"
    using ps_delete(3) by (auto simp: shop_ok_def products_ok_def set_update_where)
  moreover have "d' = d\<lparr>products := ?ps\<rparr>" using ps_delete(2) by (simp add: delete_product_sql_def)
  ultimately show ?case using ps_delete(3) by (simp add: shop_ok_def)
next
  case (ps_sku_create pid slug d vk rid now a d')
  from ps_sku_create(2) show ?case
    by (rule insert_sku_sql_E) (use ps_sku_create(3) in \<open>auto simp: shop_ok_def skus_ok_def sku_row_def\<close>)
next
  case (ps_sku_update k d sid slug vs now n d')
  from ps_sku_update(4) show ?case
  proof (rule update_sku_sql_E)
    fix price assume d': "d' = d\<lparr>skus := update_where (live_sku sid) (set_sku vs price now) (skus d)\<rparr>"
      and hit: "list_ex (live_sku sid) (skus d) \<Longrightarrow> (case price of Some w \<Rightarrow> 0 \<le> w | None \<Rightarrow> True) \<and>
       (case vs_stock_quantity vs of Some q \<Rightarrow> 0 \<le> q | None \<Rightarrow> True)"
    have "list_ex (live_sku sid) (skus d)" using ps_sku_update(1,2) by (auto simp: list_ex_iff)
    then show ?thesis using ps_sku_update(5) hit
      by (auto simp: d' shop_ok_def set_sku_def intro!: skus_ok_update split: option.splits)
  qed
next
  case (ps_sku_delete k d sid slug now n d')
  then show ?case by (auto simp: delete_sku_sql_def shop_ok_def intro!: skus_ok_update)
next
  case (ps_stock k d sid slug delta now n d')
  then show ?case by (auto dest!: adjust_stock_sql_E simp: shop_ok_def intro!: skus_ok_update)
next
  case (ps_image pid slug d vi rid now a d')
  from ps_image(3) show ?case
    by (rule insert_image_sql_E) (use ps_image(2,4) in \<open>auto simp: shop_ok_def intro!: images_ok_insert\<close>)
next
  case (ps_primary pid slug d vi now n d1 rid a d')
  have d1: "d1 = d\<lparr>product_images := unset_primary pid (product_images d)\<rparr>"
    using ps_primary(3) by (simp add: unset_primary_sql_def unset_primary_def Let_def)
  from ps_primary(4) show ?case
    by (rule insert_image_sql_E)
       (use ps_primary(5) in \<open>auto simp: d1 shop_ok_def intro!: images_ok_insert unset_primary_ok\<close>)
next
  case (ps_image_delete pid slug d iid now n d')
  then show ?case by (auto simp: delete_image_sql_def shop_ok_def images_ok_filter)
qed

section \<open>The category and brand routes\<close>

text \<open>An invariant that every statement of these routes keeps is kept by the routes.\<close>

locale taxonomy_invariant =
  fixes I :: "master_db \<Rightarrow> bool"
  assumes new_category: "insert_category_sql vc p depth rid now d = Inr (a, d') \<Longrightarrow> I d \<Longrightarrow> I d'"
    and set_category: "update_category_sql cid uq now d = Inr (n, d') \<Longrightarrow> I d \<Longrightarrow> I d'"
    and del_category: "delete_category_sql cid now d = Inr (n, d') \<Longrightarrow> I d \<Longrightarrow> I d'"
    and new_brand: "insert_brand_sql vb rid now d = Inr (a, d') \<Longrightarrow> I d \<Longrightarrow> I d'"
    and set_brand: "update_brand_sql bid ub now d = Inr (n, d') \<Longrightarrow> I d \<Longrightarrow> I d'"
    and del_brand: "delete_brand_sql bid now d = Inr (n, d') \<Longrightarrow> I d \<Longrightarrow> I d'"
    and link: "associate_sql bid cid now d = Inr (w, d') \<Longrightarrow> I d \<Longrightarrow> I d'"
    and unlink: "I d \<Longrightarrow> I (d\<lparr>brand_categories := filter (\<lambda>p. p \<noteq> (bid, cid)) (brand_categories d)\<rparr>)"
begin

lemma preserves_statements:
  "preserves (\<lambda>s. I (current s)) (stmt Tx (insert_category_sql vc p depth rid))"
  "preserves (\<lambda>s. I (current s)) (stmt Tx (update_category_sql cid uq))"
  "preserves (\<lambda>s. I (current s)) (stmt Tx (delete_category_sql cid))"
  "preserves (\<lambda>s. I (current s)) (stmt Tx (insert_brand_sql vb rid))"
  "preserves (\<lambda>s. I (current s)) (stmt Tx (update_brand_sql bid ub))"
  "preserves (\<lambda>s. I (current s)) (stmt Tx (delete_brand_sql bid))"
  "preserves (\<lambda>s. I (current s)) (stmt Tx (associate_sql bid cid))"
  "preserves (\<lambda>s. I (current s)) (stmt Tx (\<lambda>now d. Inr (count_where (\<lambda>p. p = (bid, cid)) (brand_categories d),
     d\<lparr>brand_categories := filter (\<lambda>p. p \<noteq> (bid, cid)) (brand_categories d)\<rparr>)))"
  by (rule preserves_stmt_Tx;
      auto intro: new_category set_category del_category new_brand set_brand del_brand link unlink)+

lemma preserves_repository:
  "preserves (\<lambda>s. I (current s)) (repo_create_category x vc p depth)"
  "preserves (\<lambda>s. I (current s)) (repo_update_category x cid uq)"
  "preserves (\<lambda>s. I (current s)) (repo_delete_category x cid)"
  "preserves (\<lambda>s. I (current s)) (repo_create_brand x vb)"
  "preserves (\<lambda>s. I (current s)) (repo_update_brand x bid ub)"
  "preserves (\<lambda>s. I (current s)) (repo_delete_brand x bid)"
  "preserves (\<lambda>s. I (current s)) (repo_associate_category x bid cid)"
  "preserves (\<lambda>s. I (current s)) (repo_disassociate_category x bid cid)"
  unfolding repo_create_category_def repo_update_category_def repo_delete_category_def repo_create_brand_def
    repo_update_brand_def repo_delete_brand_def repo_associate_category_def repo_disassociate_category_def one_row_def
  by (intro preserves_bnd preserves_map_err preserves_if preserves_basic preserves_statements preserves_next_uuid(2)[where I = I])+

lemma preserves_reads: "keeps committed m \<Longrightarrow> preserves (\<lambda>s. I (committed s)) m"
  by (rule preserves_keeps)

lemma preserves_writes:
  "preserves (\<lambda>s. I (current s)) m \<Longrightarrow> keeps committed m \<Longrightarrow> preserves (\<lambda>s. I (committed s)) (in_tx x what m)"
  by (rule preserves_in_tx)

lemma preserves_place: "preserves (\<lambda>s. I (committed s)) (category_place x v)"
  unfolding category_place_def by (auto intro!: preserves_reads frame_rules simp: Let_def split: option.split)

lemma preserves_category_routes: "preserves (\<lambda>s. I (committed s)) (category_handler x u rt)"
  by (cases rt)
     (auto simp: page_reply_def done_reply_def create_category_def update_category_def delete_category_def
       list_root_categories_def get_category_def get_category_by_slug_def get_children_def get_subtree_def get_ancestors_def
       intro!: preserves_bnd preserves_basic preserves_if preserves_place
         preserves_writes[OF preserves_repository(1)] preserves_writes[OF preserves_repository(2)]
         preserves_writes[OF preserves_repository(3)] frame_rules preserves_reads[OF keeps_taxonomy_queries(1)]
         preserves_reads[OF keeps_taxonomy_queries(2)] preserves_reads[OF keeps_taxonomy_queries(3)]
         preserves_reads[OF keeps_taxonomy_queries(6)] preserves_reads[OF keeps_taxonomy_queries(8)]
         preserves_reads[OF keeps_taxonomy_queries(9)] preserves_reads[OF keeps_taxonomy_lists(1)]
         preserves_reads[OF keeps_taxonomy_lists(2)])

lemma preserves_brand_routes: "preserves (\<lambda>s. I (committed s)) (brand_handler x u rt)"
  by (cases rt)
     (auto simp: page_reply_def done_reply_def list_brands_def get_brand_def get_brand_by_slug_def
       list_categories_for_brand_def create_brand_def update_brand_def delete_brand_def associate_category_def
       disassociate_category_def Let_def
       intro!: preserves_bnd preserves_basic preserves_if
         preserves_writes[OF preserves_repository(4)] preserves_writes[OF preserves_repository(5)]
         preserves_writes[OF preserves_repository(6)] preserves_writes[OF preserves_repository(7)]
         preserves_writes[OF preserves_repository(8)] frame_rules preserves_reads[OF keeps_taxonomy_queries(1)]
         preserves_reads[OF keeps_taxonomy_queries(4)] preserves_reads[OF keeps_taxonomy_queries(5)]
         preserves_reads[OF keeps_taxonomy_queries(7)] preserves_reads[OF keeps_taxonomy_lists(3)]
         preserves_reads[OF keeps_taxonomy_lists(4)] split: prod.split)

lemma preserves_taxonomy: "preserves (\<lambda>s. I (committed s)) (taxonomy_handler x u rt)"
  by (cases rt) (simp_all add: preserves_category_routes preserves_brand_routes)

end

lemma insert_brand_sql_E:
  assumes "insert_brand_sql v rid now d = Inr (a, d')"
  obtains b where "d' = d\<lparr>brands := brands d @ [b]\<rparr>"
  using assms unfolding insert_brand_sql_def
  by (cases "varchar_col 255 (vb_name v)"; cases "varchar_col 255 (vb_slug v)") (auto split: if_splits)

lemma update_brand_sql_E:
  assumes "update_brand_sql bid req now d = Inr (n, d')"
  obtains req' where "d' = d\<lparr>brands := update_where (\<lambda>b. bd_id b = bid) (set_brand req' now) (brands d)\<rparr>"
  using assms by (cases "opt_varchar 255 (ub_name req)") (auto simp: update_brand_sql_def split: if_splits)

lemma update_category_sql_E:
  assumes "update_category_sql cid req now d = Inr (n, d')"
  obtains req' where "d' = d\<lparr>categories := update_where (\<lambda>c. cg_id c = cid) (set_category req' now) (categories d)\<rparr>"
  using assms by (cases "opt_varchar 255 (uq_name req)") (auto simp: update_category_sql_def)

text \<open>More categories and brands do no harm; fewer do none where nothing refers to them.\<close>

lemma refers_mono: "refers v A \<Longrightarrow> A \<subseteq> B \<Longrightarrow> refers v B"
  by (auto simp: refers_def split: option.splits)

lemma shop_ok_grow:
  assumes "shop_ok d" "products d' = products d" "skus d' = skus d" "product_images d' = product_images d"
    and "brand_categories d' = brand_categories d"
    and "cg_id ` set (categories d) \<subseteq> cg_id ` set (categories d')" "bd_id ` set (brands d) \<subseteq> bd_id ` set (brands d')"
  shows "shop_ok d'"
proof -
  have "products_ok (cg_id ` set (categories d')) (bd_id ` set (brands d')) (products d)"
    using assms(1) refers_mono[OF _ assms(6)] refers_mono[OF _ assms(7)] by (auto simp: shop_ok_def products_ok_def)
  moreover have "links_ok (cg_id ` set (categories d')) (bd_id ` set (brands d')) (brand_categories d)"
    using assms(1,6,7) unfolding shop_ok_def links_ok_def by fast
  ultimately show ?thesis using assms(1-5) by (simp add: shop_ok_def)
qed

lemma refers_remove: "refers v A \<Longrightarrow> (i \<in> A \<Longrightarrow> v \<noteq> Some i) \<Longrightarrow> refers v (A - {i})"
  by (auto simp: refers_def split: option.splits)

lemma delete_category_sql_E:
  "delete_category_sql cid now d = Inr (n, d') \<Longrightarrow>
     d' = d\<lparr>categories := filter (\<lambda>c. cg_id c \<noteq> cid) (categories d),
            brand_categories := filter (\<lambda>p. snd p \<noteq> cid) (brand_categories d)\<rparr>"
  unfolding delete_category_sql_def by (metis Inl_not_Inr sum.inject(2) prod.inject)

lemma delete_brand_sql_E:
  "delete_brand_sql bid now d = Inr (n, d') \<Longrightarrow>
     d' = d\<lparr>brands := filter (\<lambda>b. bd_id b \<noteq> bid) (brands d),
            brand_categories := filter (\<lambda>p. fst p \<noteq> bid) (brand_categories d)\<rparr>"
  unfolding delete_brand_sql_def by (metis Inl_not_Inr sum.inject(2) prod.inject)

lemma shop_ok_delete_category:
  assumes "delete_category_sql cid now d = Inr (n, d')" "shop_ok d"
  shows "shop_ok d'"
proof -
  have ids: "cg_id ` {c \<in> set (categories d). cg_id c \<noteq> cid} = cg_id ` set (categories d) - {cid}" by auto
  note d' = delete_category_sql_E[OF assms(1)]
  have "pd_category_id p \<noteq> Some cid" if "p \<in> set (products d)" "cid \<in> cg_id ` set (categories d)" for p
    using assms(1) that unfolding delete_category_sql_def by (metis Inl_not_Inr)
  then have "products_ok (cg_id ` set (categories d) - {cid}) (bd_id ` set (brands d)) (products d)"
    using assms(2) by (simp add: shop_ok_def products_ok_def refers_remove)
  moreover have "links_ok (cg_id ` set (categories d) - {cid}) (bd_id ` set (brands d)) (filter (\<lambda>p. snd p \<noteq> cid) (brand_categories d))"
    using assms(2) unfolding shop_ok_def links_ok_def by auto
  ultimately show ?thesis using assms(2) by (simp add: d' shop_ok_def ids)
qed

lemma shop_ok_delete_brand:
  assumes "delete_brand_sql bid now d = Inr (n, d')" "shop_ok d"
  shows "shop_ok d'"
proof -
  have ids: "bd_id ` {b \<in> set (brands d). bd_id b \<noteq> bid} = bd_id ` set (brands d) - {bid}" by auto
  note d' = delete_brand_sql_E[OF assms(1)]
  have "pd_brand_id p \<noteq> Some bid" if "p \<in> set (products d)" "bid \<in> bd_id ` set (brands d)" for p
    using assms(1) that by (simp add: delete_brand_sql_def split: if_splits)
  then have "products_ok (cg_id ` set (categories d)) (bd_id ` set (brands d) - {bid}) (products d)"
    using assms(2) by (simp add: shop_ok_def products_ok_def refers_remove)
  moreover have "links_ok (cg_id ` set (categories d)) (bd_id ` set (brands d) - {bid}) (filter (\<lambda>p. fst p \<noteq> bid) (brand_categories d))"
    using assms(2) unfolding shop_ok_def links_ok_def by auto
  ultimately show ?thesis using assms(2) by (simp add: d' shop_ok_def ids)
qed

interpretation shop_tables: taxonomy_invariant shop_ok
proof unfold_locales
  show "shop_ok d \<Longrightarrow> insert_category_sql vc p depth rid now d = Inr (a, d') \<Longrightarrow> shop_ok d'" for vc p depth rid now d a d'
    by (erule insert_category_sql_InrE) (auto intro!: shop_ok_grow[of d])
  show "shop_ok d \<Longrightarrow> update_category_sql cid uq now d = Inr (n, d') \<Longrightarrow> shop_ok d'" for cid uq now d n d'
    by (erule update_category_sql_E) (auto simp: set_category_def intro!: shop_ok_grow[of d])
  show "shop_ok d \<Longrightarrow> delete_category_sql cid now d = Inr (n, d') \<Longrightarrow> shop_ok d'" for cid now d n d'
    by (rule shop_ok_delete_category)
  show "shop_ok d \<Longrightarrow> insert_brand_sql vb rid now d = Inr (a, d') \<Longrightarrow> shop_ok d'" for vb rid now d a d'
    by (erule insert_brand_sql_E) (auto intro!: shop_ok_grow[of d])
  show "shop_ok d \<Longrightarrow> update_brand_sql bid ub now d = Inr (n, d') \<Longrightarrow> shop_ok d'" for bid ub now d n d'
    by (erule update_brand_sql_E) (auto simp: set_brand_def intro!: shop_ok_grow[of d])
  show "shop_ok d \<Longrightarrow> delete_brand_sql bid now d = Inr (n, d') \<Longrightarrow> shop_ok d'" for bid now d n d'
    by (rule shop_ok_delete_brand)
  show "shop_ok d \<Longrightarrow> associate_sql bid cid now d = Inr (w, d') \<Longrightarrow> shop_ok d'" for bid cid now d w d'
    by (auto simp: associate_sql_def shop_ok_def links_ok_def split: if_splits)
  show "shop_ok d \<Longrightarrow> shop_ok (d\<lparr>brand_categories := filter (\<lambda>p. p \<noteq> (bid, cid)) (brand_categories d)\<rparr>)" for d bid cid
    by (auto simp: shop_ok_def links_ok_def)
qed

section \<open>What belongs to a seller\<close>

definition seller_sku :: "uuid \<Rightarrow> product list \<Rightarrow> sku \<Rightarrow> bool" where
  "seller_sku v ps k \<longleftrightarrow> (\<exists>p\<in>set ps. pd_id p = sk_product_id k \<and> pd_seller_id p = v)"

definition seller_part :: "uuid \<Rightarrow> master_db \<Rightarrow> product list \<times> sku list" where
  "seller_part v d = (filter (\<lambda>p. pd_seller_id p = v) (products d), filter (seller_sku v (products d)) (skus d))"

lemma seller_sku_update:
  "(\<And>p. pd_id (f p) = pd_id p) \<Longrightarrow> (\<And>p. pd_seller_id (f p) = pd_seller_id p) \<Longrightarrow>
     seller_sku v (update_where P f ps) = seller_sku v ps"
proof -
  have sku: "seller_sku v qs k \<longleftrightarrow> (sk_product_id k, v) \<in> (\<lambda>p. (pd_id p, pd_seller_id p)) ` set qs" for qs k
    by (auto simp: seller_sku_def image_iff) metis
  assume "\<And>p. pd_id (f p) = pd_id p" "\<And>p. pd_seller_id (f p) = pd_seller_id p"
  then show ?thesis by (simp add: sku fun_eq_iff)
qed

lemma owns_other_seller:
  "owns u pid slug d \<Longrightarrow> shop_ok d \<Longrightarrow> \<not> can_access u v \<Longrightarrow> p \<in> set (products d) \<Longrightarrow> pd_id p = pid \<Longrightarrow> pd_seller_id p \<noteq> v"
  by (auto simp: owns_def live_product_def shop_ok_def products_ok_def distinct_map dest: inj_onD)

text \<open>A step on a product leaves alone the rows of the sellers whom its user has no access to.\<close>

lemma seller_part_products:
  assumes "owns u pid slug d" "shop_ok d" "\<not> can_access u v" "\<And>p. pd_id (f p) = pd_id p" "\<And>p. pd_seller_id (f p) = pd_seller_id p"
  shows "seller_part v (d\<lparr>products := update_where (live_product pid) f (products d)\<rparr>) = seller_part v d"
proof -
  have "filter (\<lambda>p. pd_seller_id p = v) (update_where (live_product pid) f (products d)) = filter (\<lambda>p. pd_seller_id p = v) (products d)"
    using owns_other_seller[OF assms(1-3)] assms(5) by (intro filter_update_where) (auto simp: live_product_def)
  then show ?thesis using seller_sku_update[OF assms(4,5)] by (simp add: seller_part_def)
qed

lemma seller_part_skus:
  assumes "k \<in> set (skus d)" "live_sku sid k" "owns u (sk_product_id k) slug d" "shop_ok d" "\<not> can_access u v"
    "\<And>k. sk_product_id (f k) = sk_product_id k" "\<And>k. P k \<Longrightarrow> live_sku sid k"
  shows "seller_part v (d\<lparr>skus := update_where P f (skus d)\<rparr>) = seller_part v d"
proof -
  have "\<not> seller_sku v (products d) q" if "q \<in> set (skus d)" "P q" for q
  proof -
    have "q = k" using that assms(1,2,4,7) by (auto simp: live_sku_def shop_ok_def skus_ok_def distinct_map dest: inj_onD)
    then show ?thesis using owns_other_seller[OF assms(3-5)] by (auto simp: seller_sku_def)
  qed
  moreover have "seller_sku v (products d) (f q) = seller_sku v (products d) q" for q by (simp add: seller_sku_def assms(6))
  ultimately show ?thesis by (simp add: seller_part_def filter_update_where)
qed

lemma product_step_seller_part:
  "product_step u F ch d d' \<Longrightarrow> shop_ok d \<Longrightarrow> \<not> can_access u v \<Longrightarrow> seller_part v d' = seller_part v d"
proof (induction rule: product_step.induct)
  case (ps_create va rid now d a d')
  have "cu_id u \<noteq> v" using ps_create(3) by (auto simp: can_access_def)
  from ps_create(1) show ?case
    by (rule insert_product_sql_E) (use \<open>cu_id u \<noteq> v\<close> in \<open>auto simp: seller_part_def seller_sku_def product_row_def fun_eq_iff intro!: filter_cong\<close>)
next
  case (ps_update pid slug d vu now n d')
  from ps_update(2) show ?case
    by (rule update_product_sql_E) (use ps_update in \<open>auto intro!: seller_part_products\<close>)
next
  case (ps_delete pid slug d now n d')
  then show ?case by (auto simp: delete_product_sql_def intro!: seller_part_products)
next
  case (ps_sku_create pid slug d vk rid now a d')
  from ps_sku_create(2) show ?case
    by (rule insert_sku_sql_E) (use ps_sku_create owns_other_seller in \<open>auto simp: seller_part_def seller_sku_def sku_row_def\<close>)
next
  case (ps_sku_update k d sid slug vs now n d')
  from ps_sku_update(4) show ?case
    by (rule update_sku_sql_E) (use ps_sku_update in \<open>auto intro!: seller_part_skus\<close>)
next
  case (ps_sku_delete k d sid slug now n d')
  then show ?case by (auto simp: delete_sku_sql_def intro!: seller_part_skus)
next
  case (ps_stock k d sid slug delta now n d')
  then show ?case by (auto dest!: adjust_stock_sql_E intro!: seller_part_skus)
next
  case (ps_image pid slug d vi rid now a d')
  from ps_image(3) show ?case by (rule insert_image_sql_E) (simp add: seller_part_def)
next
  case (ps_primary pid slug d vi now n d1 rid a d')
  have "d1 = d\<lparr>product_images := unset_primary pid (product_images d)\<rparr>"
    using ps_primary(3) by (simp add: unset_primary_sql_def unset_primary_def Let_def)
  with ps_primary(4) show ?case by (auto elim!: insert_image_sql_E simp: seller_part_def)
next
  case (ps_image_delete pid slug d iid now n d')
  then show ?case by (auto simp: delete_image_sql_def seller_part_def)
qed simp

interpretation seller_rows: taxonomy_invariant "\<lambda>d. seller_part v d = q" for v q
proof unfold_locales
  show "seller_part v d = q \<Longrightarrow> insert_category_sql vc p depth rid now d = Inr (a, d') \<Longrightarrow> seller_part v d' = q" for vc p depth rid now d a d'
    by (erule insert_category_sql_InrE) (auto simp: seller_part_def)
  show "seller_part v d = q \<Longrightarrow> update_category_sql cid uq now d = Inr (n, d') \<Longrightarrow> seller_part v d' = q" for cid uq now d n d'
    by (erule update_category_sql_E) (auto simp: seller_part_def)
  show "seller_part v d = q \<Longrightarrow> delete_category_sql cid now d = Inr (n, d') \<Longrightarrow> seller_part v d' = q" for cid now d n d'
    by (drule delete_category_sql_E) (auto simp: seller_part_def)
  show "seller_part v d = q \<Longrightarrow> insert_brand_sql vb rid now d = Inr (a, d') \<Longrightarrow> seller_part v d' = q" for vb rid now d a d'
    by (erule insert_brand_sql_E) (auto simp: seller_part_def)
  show "seller_part v d = q \<Longrightarrow> update_brand_sql bid ub now d = Inr (n, d') \<Longrightarrow> seller_part v d' = q" for bid ub now d n d'
    by (erule update_brand_sql_E) (auto simp: seller_part_def)
  show "seller_part v d = q \<Longrightarrow> delete_brand_sql bid now d = Inr (n, d') \<Longrightarrow> seller_part v d' = q" for bid now d n d'
    by (drule delete_brand_sql_E) (auto simp: seller_part_def)
  show "seller_part v d = q \<Longrightarrow> associate_sql bid cid now d = Inr (w, d') \<Longrightarrow> seller_part v d' = q" for bid cid now d w d'
    by (auto simp: associate_sql_def seller_part_def split: if_splits)
  show "seller_part v d = q \<Longrightarrow> seller_part v (d\<lparr>brand_categories := filter (\<lambda>p. p \<noteq> (bid, cid)) (brand_categories d)\<rparr>) = q" for d bid cid
    by (auto simp: seller_part_def)
qed

section \<open>Sequences of requests\<close>

lemma snd_bnd_ret [simp]: "snd (bnd m (\<lambda>r. ret (f r)) s) = snd (m s)"
  by (cases "m s"; cases "fst (m s)") (simp_all add: bnd_def ret_def)

lemma fst_snd_on_fst [simp]: "fst (snd (on_fst m s)) = snd (m (fst s))" "snd (snd (on_fst m s)) = snd s"
  by (simp_all add: on_fst_def split: prod.split)

lemma catalog_app_shop_ok:
  assumes "shop_ok (committed (fst s))" shows "shop_ok (committed (fst (snd (catalog_app x y u q s))))"
proof (cases q)
  case (Inl rt)
  then show ?thesis using shop_tables.preserves_taxonomy[of x u rt] assms by (simp add: preserves_def)
next
  case (Inr rt)
  then show ?thesis using product_handler_steps[of rt UNIV x y u s] product_step_shop_ok assms by (auto simp: stepped_def)
qed

lemma catalog_app_seller_part:
  assumes "shop_ok (committed (fst s))" "\<not> can_access u v"
  shows "seller_part v (committed (fst (snd (catalog_app x y u q s)))) = seller_part v (committed (fst s))"
proof (cases q)
  case (Inl rt)
  then show ?thesis using seller_rows.preserves_taxonomy[of v _ x u rt] by (simp add: preserves_def)
next
  case (Inr rt)
  then show ?thesis using product_handler_steps[of rt UNIV x y u s] product_step_seller_part[OF _ assms] by (auto simp: stepped_def)
qed

interpretation catalog_service: request_service "catalog_app x y" "\<lambda>_. True" "\<lambda>s. shop_ok (committed (fst s))"
  "\<lambda>v s. seller_part v (committed (fst s))" can_access for x y
  by unfold_locales (simp_all add: catalog_app_shop_ok catalog_app_seller_part)

end
