(* ===== verification/Cache_Proofs.thy ===== *)
theory Cache_Proofs
  imports Catalog_Proofs Inventory_Proofs
begin

text \<open>
  Coherence of the product cache: as long as Redis answers, what the cache holds for a product
  is what a fresh read of the database would give, because every step evicts the entries it
  makes stale. The exceptions are shown too: an image deleted through another product, and
  stock sold below what is reserved.
\<close>

section \<open>Fresh reads after a step\<close>

text \<open>A deletion of an image names the product that the image belongs to.\<close>

definition proper_deletions :: "(uuid \<times> uuid) set \<Rightarrow> master_db \<Rightarrow> bool" where
  "proper_deletions F d \<longleftrightarrow> (\<forall>(pid, iid)\<in>F. \<forall>i\<in>set (product_images d). pi_id i = iid \<longrightarrow> pi_product_id i = pid)"

lemma owns_row:
  "owns u pid slug d \<Longrightarrow> shop_ok d \<Longrightarrow> p \<in> set (products d) \<Longrightarrow> live_product pid p \<Longrightarrow> pd_slug p = slug"
  by (auto simp: owns_def live_product_def shop_ok_def products_ok_def distinct_map dest: inj_onD)

lemma live_sku_unique:
  "k \<in> set (skus d) \<Longrightarrow> live_sku sid k \<Longrightarrow> shop_ok d \<Longrightarrow> q \<in> set (skus d) \<Longrightarrow> live_sku sid q \<Longrightarrow> q = k"
  by (auto simp: live_sku_def shop_ok_def skus_ok_def distinct_map dest: inj_onD)

lemma product_select_cong:
  "categories d' = categories d \<Longrightarrow> brands d' = brands d \<Longrightarrow> product_select d' p = product_select d p"
  by (simp add: product_select_def joined_category_def joined_brand_def)

text \<open>A product keeps its answer by slug when the rows with that slug are the same, and its details
  when its row, SKUs and images are.\<close>

lemma fresh_product_cong:
  assumes "fresh_product x d slug = Some res" "categories d' = categories d" "brands d' = brands d"
    and "filter (\<lambda>p. pd_slug p = slug \<and> pd_deleted_at p = None) (products d') =
      filter (\<lambda>p. pd_slug p = slug \<and> pd_deleted_at p = None) (products d) @ rest"
  shows "fresh_product x d' slug = Some res"
  using assms(1) unfolding fresh_product_def assms(4)
  by (cases "filter (\<lambda>p. pd_slug p = slug \<and> pd_deleted_at p = None) (products d)")
     (simp_all add: product_select_cong[OF assms(2,3)])

lemma detail_select_cong:
  assumes "categories d' = categories d" "brands d' = brands d"
    and "filter (\<lambda>k. sk_product_id k = pd_id p \<and> sk_deleted_at k = None) (skus d') =
      filter (\<lambda>k. sk_product_id k = pd_id p \<and> sk_deleted_at k = None) (skus d)"
    and "filter (\<lambda>i. pi_product_id i = pd_id p) (product_images d') = filter (\<lambda>i. pi_product_id i = pd_id p) (product_images d)"
  shows "detail_select z d' p = detail_select z d p"
  unfolding detail_select_def product_skus_def images_of_def assms(3,4) product_select_cong[OF assms(1,2)] by simp

lemma fresh_detail_cong:
  assumes "fresh_detail x z d pid = Some res" "categories d' = categories d" "brands d' = brands d"
    and "filter (live_product pid) (products d') = filter (live_product pid) (products d) @ rest"
    and "filter (\<lambda>k. sk_product_id k = pid \<and> sk_deleted_at k = None) (skus d') =
      filter (\<lambda>k. sk_product_id k = pid \<and> sk_deleted_at k = None) (skus d)"
    and "filter (\<lambda>i. pi_product_id i = pid) (product_images d') = filter (\<lambda>i. pi_product_id i = pid) (product_images d)"
  shows "fresh_detail x z d' pid = Some res"
proof -
  obtain p ps where p: "filter (live_product pid) (products d) = p # ps"
    using assms(1) by (cases "filter (live_product pid) (products d)") (simp_all add: fresh_detail_def)
  then have "pd_id p = pid" by (auto simp: filter_eq_Cons_iff live_product_def)
  then show ?thesis using assms(1,4) p detail_select_cong[OF assms(2,3), of p z] assms(5,6) by (simp add: fresh_detail_def)
qed

text \<open>What a step may change of a product it does not name: nothing.\<close>

fun concerns :: "uuid \<Rightarrow> change \<Rightarrow> bool" where
  "concerns pid Unchanged \<longleftrightarrow> False"
| "concerns pid (Whole q slug) \<longleftrightarrow> q = pid"
| "concerns pid (Detail q) \<longleftrightarrow> q = pid"

definition untouched :: "uuid \<Rightarrow> master_db \<Rightarrow> master_db \<Rightarrow> bool" where
  "untouched pid d d' \<longleftrightarrow>
     categories d' = categories d \<and> brands d' = brands d \<and>
     (\<exists>rest. filter (live_product pid) (products d') = filter (live_product pid) (products d) @ rest) \<and>
     filter (\<lambda>k. sk_product_id k = pid \<and> sk_deleted_at k = None) (skus d') =
       filter (\<lambda>k. sk_product_id k = pid \<and> sk_deleted_at k = None) (skus d) \<and>
     filter (\<lambda>i. pi_product_id i = pid) (product_images d') = filter (\<lambda>i. pi_product_id i = pid) (product_images d)"

lemma untouched_products:
  assumes "q \<noteq> pid" "\<And>p. pd_id (f p) = pd_id p"
  shows "untouched pid d (d\<lparr>products := update_where (live_product q) f (products d)\<rparr>)"
proof -
  have "filter (live_product pid) (update_where (live_product q) f (products d)) = filter (live_product pid) (products d)"
    using assms by (intro filter_update_where) (auto simp: live_product_def)
  then show ?thesis by (simp add: untouched_def)
qed

lemma untouched_skus:
  assumes "\<And>k. k \<in> set (skus d) \<Longrightarrow> P k \<Longrightarrow> sk_product_id k \<noteq> pid" "\<And>k. sk_product_id (f k) = sk_product_id k"
  shows "untouched pid d (d\<lparr>skus := update_where P f (skus d)\<rparr>)"
proof -
  have "filter (\<lambda>k. sk_product_id k = pid \<and> sk_deleted_at k = None) (update_where P f (skus d)) =
      filter (\<lambda>k. sk_product_id k = pid \<and> sk_deleted_at k = None) (skus d)"
    using assms by (intro filter_update_where) auto
  then show ?thesis by (simp add: untouched_def)
qed

lemma product_step_untouched:
  assumes "product_step u F ch d d'" "shop_ok d" "proper_deletions F d" "\<not> concerns pid ch"
  shows "untouched pid d d'"
  using assms
proof (induction rule: product_step.induct)
  case (ps_same ch d)
  then show ?case by (simp add: untouched_def)
next
  case (ps_create v rid now d a d')
  from ps_create(1) show ?case by (rule insert_product_sql_E) (simp add: untouched_def)
next
  case (ps_update q slug d vu now n d')
  from ps_update(2) show ?case by (rule update_product_sql_E) (use ps_update in \<open>auto intro: untouched_products\<close>)
next
  case (ps_delete q slug d now n d')
  then show ?case by (auto simp: delete_product_sql_def intro: untouched_products)
next
  case (ps_sku_create q slug d vk rid now a d')
  from ps_sku_create(2) show ?case by (rule insert_sku_sql_E) (use ps_sku_create in \<open>auto simp: untouched_def sku_row_def\<close>)
next
  case (ps_sku_update k d sid slug vs now n d')
  from ps_sku_update(4) show ?case
    by (rule update_sku_sql_E) (use ps_sku_update live_sku_unique in \<open>auto intro!: untouched_skus\<close>)
next
  case (ps_sku_delete k d sid slug now n d')
  then show ?case using live_sku_unique by (auto simp: delete_sku_sql_def intro!: untouched_skus)
next
  case (ps_stock k d sid slug delta now n d')
  then show ?case using live_sku_unique by (auto dest!: adjust_stock_sql_E intro!: untouched_skus)
next
  case (ps_image q slug d vi rid now a d')
  from ps_image(3) show ?case by (rule insert_image_sql_E) (use ps_image in \<open>auto simp: untouched_def\<close>)
next
  case (ps_primary q slug d vi now n d1 rid a d')
  have d1: "d1 = d\<lparr>product_images := unset_primary q (product_images d)\<rparr>"
    using ps_primary(3) by (simp add: unset_primary_sql_def unset_primary_def Let_def)
  have "filter (\<lambda>i. pi_product_id i = pid) (unset_primary q (product_images d)) = filter (\<lambda>i. pi_product_id i = pid) (product_images d)"
    using ps_primary unfolding unset_primary_def by (intro filter_update_where) auto
  with ps_primary(4) show ?case
    by (elim insert_image_sql_E) (use ps_primary in \<open>auto simp: d1 untouched_def\<close>)
next
  case (ps_image_delete q slug d iid now n d')
  have "filter (\<lambda>i. pi_product_id i = pid) (filter (\<lambda>i. pi_id i \<noteq> iid) (product_images d)) = filter (\<lambda>i. pi_product_id i = pid) (product_images d)"
    unfolding filter_filter by (rule filter_cong) (use ps_image_delete in \<open>auto simp: proper_deletions_def\<close>)
  then show ?case using ps_image_delete by (auto simp: delete_image_sql_def untouched_def)
qed

lemma product_step_fresh_detail:
  assumes "product_step u F ch d d'" "shop_ok d" "proper_deletions F d" "\<not> concerns pid ch"
    and "fresh_detail x z d pid = Some res"
  shows "fresh_detail x z d' pid = Some res"
  using product_step_untouched[OF assms(1-4)] assms(5) by (auto simp: untouched_def intro: fresh_detail_cong)

lemma set_product_slug: "pd_slug (set_product v name slug price cur now p) = (case slug of Some t \<Rightarrow> t | None \<Rightarrow> pd_slug p)"
  by (simp add: set_product_def split: option.split)

lemma product_step_fresh_product:
  assumes "product_step u F ch d d'" "shop_ok d" "\<And>pid. ch \<noteq> Whole pid slug" "fresh_product x d slug = Some res"
  shows "fresh_product x d' slug = Some res"
  using assms
proof (induction rule: product_step.induct)
  case (ps_create v rid now d a d')
  from ps_create(1) show ?case by (rule insert_product_sql_E) (use ps_create in \<open>auto intro: fresh_product_cong\<close>)
next
  case (ps_update pid old d vu now n d')
  let ?Q = "\<lambda>p. pd_slug p = slug \<and> pd_deleted_at p = None"
  have "filter ?Q (products d) \<noteq> []" using ps_update(5) by (auto simp: fresh_product_def)
  then obtain p0 where p0: "p0 \<in> set (products d)" "?Q p0" by (auto simp: filter_empty_conv)
  have old: "old \<noteq> slug" using ps_update(4) by auto
  then have other: "\<not> live_product pid p0" using owns_row[OF ps_update(1,3)] p0 by auto
  from ps_update(2) show ?case
  proof (rule update_product_sql_E)
    fix name new price cur
    assume d': "d' = d\<lparr>products := update_where (live_product pid) (set_product vu name new price cur now) (products d)\<rparr>"
      and hit: "list_ex (live_product pid) (products d) \<Longrightarrow> (case price of Some w \<Rightarrow> 0 \<le> w | None \<Rightarrow> True) \<and>
       (\<forall>p\<in>set (products d). \<not> live_product pid p \<longrightarrow> new \<noteq> Some (pd_slug p)) \<and>
       refers (vu_category_id vu) (cg_id ` set (categories d)) \<and> refers (vu_brand_id vu) (bd_id ` set (brands d))"
    have "list_ex (live_product pid) (products d)" using ps_update(1) by (auto simp: owns_def list_ex_iff)
    then have "new \<noteq> Some slug" using hit p0 other by auto
    then have "filter ?Q (update_where (live_product pid) (set_product vu name new price cur now) (products d)) = filter ?Q (products d)"
      using owns_row[OF ps_update(1,3)] old by (intro filter_update_where) (auto simp: set_product_slug split: option.split)
    then show ?thesis unfolding d' by (intro fresh_product_cong[OF ps_update(5), where rest = "[]"]) simp_all
  qed
next
  case (ps_delete pid old d now n d')
  let ?Q = "\<lambda>p. pd_slug p = slug \<and> pd_deleted_at p = None"
  have old: "old \<noteq> slug" using ps_delete(4) by auto
  have "filter ?Q (update_where (live_product pid) (\<lambda>p. p\<lparr>pd_deleted_at := Some now\<rparr>) (products d)) = filter ?Q (products d)"
    using owns_row[OF ps_delete(1,3)] old by (intro filter_update_where) auto
  moreover have "d' = d\<lparr>products := update_where (live_product pid) (\<lambda>p. p\<lparr>pd_deleted_at := Some now\<rparr>) (products d)\<rparr>"
    using ps_delete(2) by (simp add: delete_product_sql_def)
  ultimately show ?case by (intro fresh_product_cong[OF ps_delete(5), where rest = "[]"]) simp_all
next
  case (ps_sku_create pid old d vk rid now a d')
  from ps_sku_create(2) show ?case
    by (rule insert_sku_sql_E) (use ps_sku_create in \<open>auto intro: fresh_product_cong[where rest = "[]"]\<close>)
next
  case (ps_sku_update k d sid old vs now n d')
  from ps_sku_update(4) show ?case
    by (rule update_sku_sql_E) (use ps_sku_update in \<open>auto intro: fresh_product_cong[where rest = "[]"]\<close>)
next
  case (ps_sku_delete k d sid old now n d')
  then show ?case by (auto simp: delete_sku_sql_def intro: fresh_product_cong[where rest = "[]"])
next
  case (ps_stock k d sid old delta now n d')
  then show ?case by (auto dest!: adjust_stock_sql_E intro: fresh_product_cong[where rest = "[]"])
next
  case (ps_image pid old d vi rid now a d')
  from ps_image(3) show ?case
    by (rule insert_image_sql_E) (use ps_image in \<open>auto intro: fresh_product_cong[where rest = "[]"]\<close>)
next
  case (ps_primary pid old d vi now n d1 rid a d')
  have "d1 = d\<lparr>product_images := unset_primary pid (product_images d)\<rparr>"
    using ps_primary(3) by (simp add: unset_primary_sql_def unset_primary_def Let_def)
  with ps_primary(4) show ?case
    by (elim insert_image_sql_E) (use ps_primary in \<open>auto intro: fresh_product_cong[where rest = "[]"]\<close>)
next
  case (ps_image_delete pid old d iid now n d')
  then show ?case by (auto simp: delete_image_sql_def intro: fresh_product_cong[where rest = "[]"])
qed simp

section \<open>Coherence\<close>

text \<open>What the cache relies on: reading the JSON text of a response gives the response back, the text
  of an identifier determines it, and no identifier looks like the start of a slug key.\<close>

definition cache_env :: "externs \<Rightarrow> shop_env \<Rightarrow> bool" where
  "cache_env x y \<longleftrightarrow>
     uuid_codec x \<and> (\<forall>i. \<not> prefix ''slug:'' (uuid_str x i)) \<and>
     (\<forall>v t. product_text y v = Some t \<longrightarrow> product_of_text y t = Some v) \<and>
     (\<forall>v t. detail_text y v = Some t \<longrightarrow> detail_of_text y t = Some v)"

definition coherent :: "externs \<Rightarrow> shop_env \<Rightarrow> master_db \<Rightarrow> redis \<Rightarrow> bool" where
  "coherent x y d r \<longleftrightarrow>
     (\<forall>slug t e. rd_store r (product_slug_key slug) = Some (t, e) \<longrightarrow>
        (\<exists>v. fresh_product x d slug = Some v \<and> product_text y v = Some t)) \<and>
     (\<forall>pid t e. rd_store r (product_detail_key x pid) = Some (t, e) \<longrightarrow>
        (\<exists>v. fresh_detail x (shop_externs.truncate y) d pid = Some v \<and> detail_text y v = Some t))"

lemma coherentD:
  "coherent x y d r \<Longrightarrow> rd_store r (product_slug_key slug) = Some (t, e) \<Longrightarrow>
     \<exists>v. fresh_product x d slug = Some v \<and> product_text y v = Some t"
  "coherent x y d r \<Longrightarrow> rd_store r (product_detail_key x pid) = Some (t, e) \<Longrightarrow>
     \<exists>v. fresh_detail x (shop_externs.truncate y) d pid = Some v \<and> detail_text y v = Some t"
  unfolding coherent_def by blast+

text \<open>No cache, or a Redis that answers and holds fresh entries only.\<close>

definition cache_good :: "externs \<Rightarrow> shop_env \<Rightarrow> shop \<Rightarrow> bool" where
  "cache_good x y s \<longleftrightarrow>
     shop_ok (committed (fst s)) \<and>
     (case snd s of None \<Rightarrow> True | Some r \<Rightarrow> rd_faults r = [] \<and> coherent x y (committed (fst s)) r)"

lemma keys_distinct:
  assumes "cache_env x y"
  shows "product_slug_key slug \<noteq> product_detail_key x pid" "product_detail_key x pid = product_detail_key x q \<longleftrightarrow> pid = q"
    "product_slug_key slug = product_slug_key slug' \<longleftrightarrow> slug = slug'"
proof -
  have "\<not> prefix ''slug:'' (uuid_str x pid)" using assms by (simp add: cache_env_def)
  then have "uuid_str x pid \<noteq> ''slug:'' @ slug" by (metis prefixI)
  then show "product_slug_key slug \<noteq> product_detail_key x pid" by (auto simp: product_slug_key_def product_detail_key_def)
  show "product_detail_key x pid = product_detail_key x q \<longleftrightarrow> pid = q"
    using assms by (simp add: product_detail_key_def cache_env_def uuid_str_inj)
qed (simp add: product_slug_key_def)

lemma stale_keys_iff:
  assumes "cache_env x y"
  shows "product_slug_key slug \<in> stale_keys x ch \<longleftrightarrow> (\<exists>pid. ch = Whole pid slug)"
    "product_detail_key x pid \<in> stale_keys x ch \<longleftrightarrow> concerns pid ch"
  by (cases ch; auto simp: keys_distinct[OF assms] keys_distinct(1)[OF assms, symmetric])+

lemma store_step_slug:
  assumes "cache_env x y" "store_step x y d ch r r'" "coherent x y d r" "rd_store r' (product_slug_key slug) = Some (t, e)"
  shows "(\<forall>pid. ch \<noteq> Whole pid slug) \<and> (\<exists>v. fresh_product x d slug = Some v \<and> product_text y v = Some t)"
proof -
  have old: "\<exists>v. fresh_product x d slug = Some v \<and> product_text y v = Some t" if "rd_store r (product_slug_key slug) = Some (t, e)"
    using assms(3) that by (auto simp: coherent_def)
  from assms(2) consider "rd_store r' = (\<lambda>k. if k \<in> stale_keys x ch then None else rd_store r k)"
    | key t' e' where "ch = Unchanged" "rd_store r' = (rd_store r)(key \<mapsto> (t', e'))" "fresh_entry x y d key t'"
    by (auto simp: store_step_def)
  then show ?thesis
  proof cases
    case 1
    then show ?thesis using assms(4) old stale_keys_iff(1)[OF assms(1)] by (auto split: if_splits)
  next
    case 2
    show ?thesis
    proof (cases "key = product_slug_key slug")
      case True
      then have "t' = t" using 2(2) assms(4) by simp
      moreover obtain slug' v where "product_slug_key slug = product_slug_key slug'" "fresh_product x d slug' = Some v" "product_text y v = Some t'"
        using 2(3) True keys_distinct(1)[OF assms(1)] by (auto simp: fresh_entry_def)
      ultimately show ?thesis using 2(1) keys_distinct(3)[OF assms(1)] by auto
    qed (use 2 assms(4) old in auto)
  qed
qed

lemma store_step_detail:
  assumes "cache_env x y" "store_step x y d ch r r'" "coherent x y d r" "rd_store r' (product_detail_key x pid) = Some (t, e)"
  shows "\<not> concerns pid ch \<and> (\<exists>v. fresh_detail x (shop_externs.truncate y) d pid = Some v \<and> detail_text y v = Some t)"
proof -
  have old: "\<exists>v. fresh_detail x (shop_externs.truncate y) d pid = Some v \<and> detail_text y v = Some t"
    if "rd_store r (product_detail_key x pid) = Some (t, e)"
    using assms(3) that by (auto simp: coherent_def)
  from assms(2) consider "rd_store r' = (\<lambda>k. if k \<in> stale_keys x ch then None else rd_store r k)"
    | key t' e' where "ch = Unchanged" "rd_store r' = (rd_store r)(key \<mapsto> (t', e'))" "fresh_entry x y d key t'"
    by (auto simp: store_step_def)
  then show ?thesis
  proof cases
    case 1
    then show ?thesis using assms(4) old stale_keys_iff(2)[OF assms(1)] by (auto split: if_splits)
  next
    case 2
    show ?thesis
    proof (cases "key = product_detail_key x pid")
      case True
      then have "t' = t" using 2(2) assms(4) by simp
      moreover obtain q v where "product_detail_key x pid = product_detail_key x q"
        "fresh_detail x (shop_externs.truncate y) d q = Some v" "detail_text y v = Some t'"
        using 2(3) True keys_distinct(1)[OF assms(1), symmetric] by (auto simp: fresh_entry_def)
      ultimately show ?thesis using 2(1) keys_distinct(2)[OF assms(1)] by auto
    qed (use 2 assms(4) old in auto)
  qed
qed

lemma coherent_step:
  assumes "cache_env x y" "product_step u F ch d d'" "store_step x y d ch r r'" "shop_ok d" "proper_deletions F d" "coherent x y d r"
  shows "coherent x y d' r'"
  unfolding coherent_def
proof (intro conjI allI impI)
  fix slug t e assume "rd_store r' (product_slug_key slug) = Some (t, e)"
  then show "\<exists>v. fresh_product x d' slug = Some v \<and> product_text y v = Some t"
    using product_step_fresh_product[OF assms(2,4)] store_step_slug[OF assms(1,3,6)] by blast
next
  fix pid t e assume "rd_store r' (product_detail_key x pid) = Some (t, e)"
  then show "\<exists>v. fresh_detail x (shop_externs.truncate y) d' pid = Some v \<and> detail_text y v = Some t"
    using product_step_fresh_detail[OF assms(2,4,5)] store_step_detail[OF assms(1,3,6)] by blast
qed

lemma cache_good_step:
  assumes "cache_env x y" "cache_good x y s" "proper_deletions (deletions rt) (committed (fst s))"
  shows "cache_good x y (snd (product_handler x y u rt s))"
proof -
  let ?t = "snd (product_handler x y u rt s)"
  obtain ch where st: "product_step u (deletions rt) ch (committed (fst s)) (committed (fst ?t))"
    "cache_step x y (committed (fst s)) ch (snd s) (snd ?t)"
    using product_handler_steps[of rt "deletions rt" x y u s] by (auto simp: stepped_def)
  have ok: "shop_ok (committed (fst s))" "shop_ok (committed (fst ?t))"
    using assms(2) product_step_shop_ok[OF st(1)] by (simp_all add: cache_good_def)
  have "rd_faults r' = [] \<and> coherent x y (committed (fst ?t)) r'"
    if "snd s = Some r" "snd ?t = Some r'" for r r'
  proof -
    have "store_step x y (committed (fst s)) ch r r'" "coherent x y (committed (fst s)) r"
      using assms(2) st(2) that by (simp_all add: cache_good_def cache_step_def)
    then show ?thesis using coherent_step[OF assms(1) st(1) _ ok(1) assms(3)] by (simp add: store_step_def)
  qed
  note some = this
  show ?thesis
  proof (cases "snd s")
    case None
    then show ?thesis using st(2) ok(2) by (simp add: cache_step_def cache_good_def)
  next
    case (Some r)
    then obtain r' where "snd ?t = Some r'" using st(2) by (cases "snd ?t") (simp_all add: cache_step_def)
    then show ?thesis using some[OF Some] ok(2) by (simp add: cache_good_def)
  qed
qed

text \<open>Sequences of product requests in which every deletion of an image is proper when it is served.\<close>

fun proper_run :: "externs \<Rightarrow> shop_env \<Rightarrow> (current_user \<times> product_route) list \<Rightarrow> shop \<Rightarrow> bool" where
  "proper_run x y [] s \<longleftrightarrow> True"
| "proper_run x y ((u, rt) # reqs) s \<longleftrightarrow>
     proper_deletions (deletions rt) (committed (fst s)) \<and> proper_run x y reqs (snd (product_handler x y u rt s))"

lemma cache_good_run:
  "cache_env x y \<Longrightarrow> cache_good x y s \<Longrightarrow> proper_run x y reqs s \<Longrightarrow> cache_good x y (serve_all (product_handler x y) reqs s)"
proof (induction reqs arbitrary: s)
  case (Cons q reqs)
  obtain u rt where q: "q = (u, rt)" by fastforce
  have "cache_good x y (snd (product_handler x y u rt s))" using Cons.prems cache_good_step by (simp add: q)
  then show ?case using Cons.IH[of "snd (product_handler x y u rt s)"] Cons.prems by (simp add: q serve_all_def)
qed (simp add: serve_all_def)

lemma fresh_by_slug:
  assumes "cache_env x y" "cache_good x y s" "get_product_by_slug x y slug s = (Ok v, t)"
  shows "fresh_product x (committed (fst s)) slug = Some v"
  using assms(3) unfolding get_product_by_slug_def
proof (cases rule: cached_read_Ok)
  case (hit r js e)
  then have "coherent x y (committed (fst s)) r" using assms(2) by (simp add: cache_good_def)
  then obtain w where "fresh_product x (committed (fst s)) slug = Some w" "product_text y w = Some js"
    using coherentD(1) hit(2) by blast
  then show ?thesis using hit(3) assms(1) by (simp add: cache_env_def)
next
  case (miss s1)
  then obtain p t' where "repo_product_by_slug x Pool slug (fst s) = (Ok p, t')" "v = product_res_new x p"
    by (auto simp: bnd_Ok_iff on_fst_def Let_def ret_def split: prod.splits)
  then show ?thesis using repo_product_by_slug_Ok by blast
qed

lemma fresh_by_id:
  assumes "cache_env x y" "cache_good x y s" "get_product_detail x y pid s = (Ok v, t)"
  shows "fresh_detail x (shop_externs.truncate y) (committed (fst s)) pid = Some v"
  using assms(3) unfolding get_product_detail_def
proof (cases rule: cached_read_Ok)
  case (hit r js e)
  then have "coherent x y (committed (fst s)) r" using assms(2) by (simp add: cache_good_def)
  then obtain w where "fresh_detail x (shop_externs.truncate y) (committed (fst s)) pid = Some w" "detail_text y w = Some js"
    using coherentD(2) hit(2) by blast
  then show ?thesis using hit(3) assms(1) by (simp add: cache_env_def)
next
  case (miss s1)
  then obtain row t' where "repo_product_detail x (shop_externs.truncate y) Pool pid (fst s) = (Ok row, t')"
    "product_detail_res_from_row x (shop_externs.truncate y) row = Ok v"
    by (auto simp: bnd_Ok_iff on_fst_def of_result_def ret_def split: prod.splits)
  then show ?thesis by (rule repo_product_detail_Ok)
qed

section \<open>Requests of a healthy session\<close>

lemma run_own_product:
  assumes "healthy (fst s)" "shop_ok (committed (fst s))" "owns u pid slug (committed (fst s))"
  shows "\<exists>p. own_product x u pid s = (Ok p, s)"
proof -
  obtain q where q: "q \<in> set (products (committed (fst s)))" "live_product pid q" "can_access u (pd_seller_id q)"
    using assms(3) by (auto simp: owns_def)
  have "filter (live_product pid) (products (committed (fst s))) = [q]"
  proof -
    have "filter (live_product pid) (products (committed (fst s))) = filter (\<lambda>p. pd_id p = pid) (products (committed (fst s)))"
      using q assms(2) by (intro filter_cong) (auto simp: live_product_def shop_ok_def products_ok_def distinct_map dest: inj_onD)
    then show ?thesis using filter_key_unique[of pd_id "products (committed (fst s))" q pid] q assms(2)
      by (simp add: live_product_def shop_ok_def products_ok_def)
  qed
  then have "get_product_by_id x Pool pid (fst s) = (Ok (product_select (committed (fst s)) q), fst s)"
    using assms(1) by (simp add: get_product_by_id_def fetch_one_def map_err_def bnd_def ret_def run_query_healthy)
  then show ?thesis using q(3) by (simp add: own_product_def bnd_def on_fst_def of_result_def require_access_def ret_def)
qed

lemma run_own_sku:
  assumes "healthy (fst s)" "shop_ok (committed (fst s))" "k \<in> set (skus (committed (fst s)))" "live_sku sid k"
    and "owns u (sk_product_id k) slug (committed (fst s))"
  shows "own_sku x u sid s = (Ok k, s)"
proof -
  have "filter (live_sku sid) (skus (committed (fst s))) = filter (\<lambda>q. sk_id q = sk_id k) (skus (committed (fst s)))"
  proof (intro filter_cong[OF refl] iffI)
    fix q assume q: "q \<in> set (skus (committed (fst s)))"
    show "live_sku sid q \<Longrightarrow> sk_id q = sk_id k" using live_sku_unique[OF assms(3,4,2) q] by simp
    have "inj_on sk_id (set (skus (committed (fst s))))" using assms(2) by (simp add: shop_ok_def skus_ok_def distinct_map)
    then show "sk_id q = sk_id k \<Longrightarrow> live_sku sid q" using q assms(3,4) by (auto dest: inj_onD)
  qed
  then have "filter (live_sku sid) (skus (committed (fst s))) = [k]"
    using filter_key_unique[of sk_id "skus (committed (fst s))" k "sk_id k"] assms(2,3) by (simp add: shop_ok_def skus_ok_def)
  then have "get_sku_by_id x Pool sid (fst s) = (Ok k, fst s)"
    using assms(1) by (simp add: get_sku_by_id_def fetch_one_def map_err_def bnd_def ret_def run_query_healthy)
  then show ?thesis using run_own_product[OF assms(1,2,5), of x]
    by (auto simp: own_sku_def bnd_def on_fst_def ret_def)
qed

section \<open>Properties\<close>

definition demo_product :: "uuid \<Rightarrow> uuid \<Rightarrow> string \<Rightarrow> product" where
  "demo_product pid seller slug =
     \<lparr>pd_id = pid, pd_created_at = 0, pd_updated_at = None, pd_deleted_at = None, pd_seller_id = seller,
      pd_name = slug, pd_slug = slug, pd_description = None, pd_base_price = 10, pd_currency = ''USD'',
      pd_category_id = Some 2, pd_brand_id = None, pd_status = PdActive\<rparr>"

definition demo_image :: product_image where
  "demo_image =
     \<lparr>pi_id = 8, pi_created_at = 0, pi_product_id = 10, pi_url = ''http://img'', pi_alt_text = None, pi_sort_order = 0,
      pi_is_primary = True\<rparr>"

definition demo_stock :: sku where
  "demo_stock =
     \<lparr>sk_id = 7, sk_created_at = 0, sk_updated_at = None, sk_deleted_at = None, sk_product_id = 6,
      sk_sku_code = ''HAM-1'', sk_price = 12, sk_stock = 5, sk_reserved = 3, sk_attributes = JObject [], sk_status = SkuActive\<rparr>"

definition demo_shop :: master_db where
  "demo_shop = demo_master\<lparr>products := [demo_product 6 9 ''hammer'', demo_product 10 11 ''drill''], skus := [demo_stock],
     product_images := [demo_image]\<rparr>"

definition demo_seller :: current_user where
  "demo_seller = \<lparr>cu_id = 9, cu_role = Seller\<rparr>"

definition demo_response :: product_res where
  "demo_response = product_res_new demo_externs (product_select demo_shop (demo_product 6 9 ''hammer''))"

text \<open>An environment that can render one response.\<close>

definition demo_env :: shop_env where
  "demo_env =
     \<lparr>ilike = (\<lambda>s p. True), sku_json = (\<lambda>k. JNull), sku_of_json = (\<lambda>j. None), image_json = (\<lambda>i. JNull),
      image_of_json = (\<lambda>j. None), product_text = (\<lambda>v. if v = demo_response then Some ''hammer'' else None),
      product_of_text = (\<lambda>t. if t = ''hammer'' then Some demo_response else None),
      detail_text = (\<lambda>v. None), detail_of_text = (\<lambda>t. None)\<rparr>"

lemma demo_shop_simps [simp]:
  "products demo_shop = [demo_product 6 9 ''hammer'', demo_product 10 11 ''drill'']" "skus demo_shop = [demo_stock]"
  "product_images demo_shop = [demo_image]" "categories demo_shop = categories demo_master" "brands demo_shop = []"
  "brand_categories demo_shop = []" "reservations demo_shop = []"
  by (simp_all add: demo_shop_def demo_master_def)

lemma demo_shop_ok: "shop_ok demo_shop"
proof -
  have "cg_id ` set (categories demo_master) = {1, 2}" by (auto simp: demo_master_def category_row_def)
  then show ?thesis
    by (auto simp: shop_ok_simps demo_product_def demo_image_def demo_stock_def refers_def count_where_def)
qed

lemma demo_shop_owned: "owns demo_seller 6 ''hammer'' demo_shop"
  by (simp add: owns_def demo_product_def live_product_def demo_seller_def can_access_def)

lemma demo_cache_env: "cache_env demo_externs demo_env"
proof -
  have "\<not> prefix ''slug:'' (uuid_str demo_externs i)" for i
    by (cases i) (simp_all add: demo_externs_def unary_def)
  then show ?thesis by (simp add: cache_env_def demo_env_def)
qed



text \<open>C15: The products and SKUs of a seller change only by requests of that seller and of administrators:
  any sequence of requests of other users leaves every one of them as it was.\<close>

theorem sellers_separated:
  assumes "shop_ok (committed (fst s))" "list_all (\<lambda>(u, q). \<not> can_access u v) reqs"
  shows "seller_part v (committed (fst (serve_all (catalog_app x y) reqs s))) = seller_part v (committed (fst s))"
  using catalog_service.serve_all_frame[of v reqs s x y] assms by simp

theorem sellers_separated_witness:
  "seller_part 11 (committed (fst (serve_all (catalog_app demo_externs demo_env)
     [(demo_seller, Inr (RDeleteProduct 10)), (demo_seller, Inr (RDeleteProduct 6))] (demo_srv demo_shop, None)))) =
   ([demo_product 10 11 ''drill''], [])"
  using sellers_separated[of "(demo_srv demo_shop, None)" 11
      "[(demo_seller, Inr (RDeleteProduct 10)), (demo_seller, Inr (RDeleteProduct 6))]" demo_externs demo_env]
  by (simp add: demo_shop_ok demo_seller_def can_access_def seller_part_def seller_sku_def demo_product_def demo_stock_def)

text \<open>C16: As long as Redis answers, the cached reads of products, by identifier and by slug, never return
  anything but what a fresh read of the database gives, after any sequence of product requests in
  which images are deleted through the product they belong to.\<close>

theorem cached_reads_are_fresh:
  assumes "cache_env x y" "cache_good x y s" "proper_run x y reqs s" "t = serve_all (product_handler x y) reqs s"
  shows "(get_product_detail x y pid t = (Ok v, t1) \<longrightarrow> fresh_detail x (shop_externs.truncate y) (committed (fst t)) pid = Some v) \<and>
    (get_product_by_slug x y slug t = (Ok w, t2) \<longrightarrow> fresh_product x (committed (fst t)) slug = Some w)"
  using fresh_by_id fresh_by_slug cache_good_run[OF assms(1-3)] assms(1,4) by blast

theorem cached_reads_are_fresh_witness:
  "fresh_product demo_externs (committed (fst (serve_all (product_handler demo_externs demo_env)
     [(demo_seller, RProductBySlug ''hammer'')] (demo_srv demo_shop, Some demo_redis)))) ''hammer'' = Some demo_response"
proof -
  let ?s = "(demo_srv demo_shop, Some demo_redis)" and ?reqs = "[(demo_seller, RProductBySlug ''hammer'')]"
  let ?cached = "demo_redis\<lparr>rd_ticks := 2, rd_store := [product_slug_key ''hammer'' \<mapsto> (''hammer'', 1 + product_cache_ttl)]\<rparr>"
  have found: "get_product_by_slug demo_externs demo_env ''hammer'' ?s = (Ok demo_response, (demo_srv demo_shop, Some ?cached))"
    by (simp add: get_product_by_slug_def bnd_def on_fst_def on_snd_def ret_def cache_get_def cache_set_def rd_get_def rd_fault_def
        rd_tick_def rd_now_def demo_redis_def Let_def repo_product_by_slug_def map_err_def fetch_one_def run_query_healthy
        demo_product_def demo_response_def demo_env_def)
  then have run: "serve_all (product_handler demo_externs demo_env) ?reqs ?s = (demo_srv demo_shop, Some ?cached)"
    by (simp add: serve_all_def bnd_def ret_def)
  have again: "get_product_by_slug demo_externs demo_env ''hammer'' (demo_srv demo_shop, Some ?cached) =
      (Ok demo_response, (demo_srv demo_shop, Some (rd_tick ?cached)))"
    by (simp add: get_product_by_slug_def bnd_def on_snd_def ret_def cache_get_def rd_get_def rd_fault_def rd_now_def
        demo_redis_def demo_env_def product_cache_ttl_def)
  have "cache_good demo_externs demo_env ?s"
    by (simp add: cache_good_def coherent_def demo_shop_ok demo_redis_def)
  from cached_reads_are_fresh[OF demo_cache_env this, of ?reqs, OF _ refl] again run
  show ?thesis by (auto simp: proper_deletions_def)
qed

text \<open>C38: A seller can delete an image of another seller's product: the request names a product of the
  seller and any image, and the image is deleted without being compared with the product.\<close>

theorem foreign_image_deleted:
  assumes "healthy (fst s)" "shop_ok (committed (fst s))" "owns u pid slug (committed (fst s))"
    and "i \<in> set (product_images (committed (fst s)))"
  shows "fst (delete_image x u pid (pi_id i) s) = Ok () \<and>
    i \<notin> set (product_images (committed (fst (snd (delete_image x u pid (pi_id i) s)))))"
proof -
  obtain p where p: "own_product x u pid s = (Ok p, s)" using run_own_product[OF assms(1-3)] by blast
  let ?d = "committed (fst s)"
  let ?t = "(tx_start (fst s))\<lparr>current := ?d\<lparr>product_images := filter (\<lambda>j. pi_id j \<noteq> pi_id i) (product_images ?d)\<rparr>\<rparr>"
  have "count_where (\<lambda>j. pi_id j = pi_id i) (product_images ?d) \<noteq> 0" using assms(4) by (auto simp: count_where_zero_iff)
  then have "repo_delete_image x (pi_id i) (tx_start (fst s)) = (Ok (), ?t)"
    using assms(1) by (simp add: repo_delete_image_def bnd_def map_err_def stmt_Tx_healthy delete_image_sql_def ret_def del: stmt.simps)
  from run_in_tx[where m = "repo_delete_image x (pi_id i)", OF assms(1) this] assms(1)
  obtain t' where "in_tx x ''Failed to delete image: '' (repo_delete_image x (pi_id i)) (fst s) = (Ok (), t')" "committed t' = current ?t"
    by auto
  then show ?thesis by (simp add: delete_image_def bnd_def p on_fst_def on_snd_def evict_def)
qed

theorem foreign_image_deleted_witness:
  "demo_image \<notin> set (product_images (committed (fst (snd (delete_image demo_externs demo_seller 6 8 (demo_srv demo_shop, None))))))
   \<and> pi_product_id demo_image = 10 \<and> \<not> can_access demo_seller 11"
  using foreign_image_deleted[of "(demo_srv demo_shop, None)" demo_seller 6 "''hammer''" demo_image demo_externs] demo_shop_ok demo_shop_owned
  by (simp add: demo_image_def demo_seller_def can_access_def)

text \<open>An adjustment of stock is only compared with zero: a seller can bring the stock of a SKU below
  what orders have reserved of it, and the invariant of the reservations is broken.\<close>

theorem stock_sold_below_reserved:
  assumes "healthy (fst s)" "shop_ok (committed (fst s))" "k \<in> set (skus (committed (fst s)))" "sk_deleted_at k = None"
    and "owns u (sk_product_id k) slug (committed (fst s))"
    and "0 \<le> sk_stock k + delta" "sk_stock k + delta < sk_reserved k" "int4 (sk_stock k)" "delta \<le> 0"
  shows "fst (adjust_stock x u (sk_id k) delta s) = Ok () \<and>
    \<not> stock_ok (catalog_db.truncate (committed (fst (snd (adjust_stock x u (sk_id k) delta s)))))"
proof -
  let ?d = "committed (fst s)" and ?P = "\<lambda>q. live_sku (sk_id k) q \<and> sk_stock q + delta \<ge> 0"
  let ?f = "\<lambda>q. q\<lparr>sk_stock := sk_stock q + delta, sk_updated_at := Some (db_now (tx_start (fst s)))\<rparr>"
  let ?d' = "?d\<lparr>skus := update_where ?P ?f (skus ?d)\<rparr>"
  have live: "live_sku (sk_id k) k" using assms(4) by (simp add: live_sku_def)
  note only = live_sku_unique[OF assms(3) live assms(2)]
  have count: "count_where ?P (skus ?d) = 1"
  proof -
    have "count_where ?P (skus ?d) = count_where (\<lambda>q. sk_id q = sk_id k) (skus ?d)"
      unfolding count_where_def
      by (rule arg_cong[where f = length], rule filter_cong)
         (use only live assms(2,3,6) in \<open>auto simp: shop_ok_def skus_ok_def distinct_map dest: inj_onD\<close>)
    then show ?thesis using count_where_key[of sk_id "skus ?d" k "sk_id k"] assms(2,3) by (simp add: shop_ok_def skus_ok_def)
  qed
  have "\<not> list_ex (\<lambda>q. live_sku (sk_id k) q \<and> \<not> int4 (sk_stock q + delta)) (skus ?d)"
  proof -
    have "int4 (sk_stock k + delta)" using assms(6,8,9) by (simp add: int4_def)
    then show ?thesis using only by (metis (no_types, lifting) list_ex_iff)
  qed
  then have "repo_adjust_stock x (sk_id k) delta (tx_start (fst s)) = (Ok (), (tx_start (fst s))\<lparr>current := ?d'\<rparr>)"
    using assms(1) count
    by (simp add: repo_adjust_stock_def bnd_def map_err_def stmt_Tx_healthy adjust_stock_sql_def Let_def ret_def del: stmt.simps)
  from run_in_tx[where m = "repo_adjust_stock x (sk_id k) delta", OF assms(1) this] assms(1)
  obtain t' where tx: "in_tx x ''Failed to adjust stock: '' (repo_adjust_stock x (sk_id k) delta) (fst s) = (Ok (), t')" "committed t' = ?d'"
    by auto
  have "?f k \<in> set (skus ?d')" using assms(3,6) live by (auto simp: set_update_where)
  then have "\<not> stock_ok (catalog_db.truncate ?d')"
    using assms(4,7) by (fastforce simp: stock_ok_def catalog_db.defs list_all_iff sku_ok_def)
  then show ?thesis
    by (simp add: adjust_stock_def bnd_def run_own_sku[OF assms(1,2,3) live assms(5)] on_fst_def on_snd_def evict_def tx)
qed

theorem stock_sold_below_reserved_witness:
  "fst (adjust_stock demo_externs demo_seller 7 (-4) (demo_srv demo_shop, None)) = Ok ()"
  using stock_sold_below_reserved[of "(demo_srv demo_shop, None)" demo_stock demo_seller "''hammer''" "-4" demo_externs] demo_shop_ok demo_shop_owned
  by (simp add: demo_stock_def int4_def)

end
