(* ===== verification/Routers.thy ===== *)
theory Routers
  imports Tokens Payloads Cart_Proofs Cache_Proofs
begin

text \<open>
  The routers of the order, payment, cart and catalog services: their routes behind the middleware that takes
  the user from the claims of the token (\<open>*/routes.rs\<close>, \<open>AuthMiddleware::new_claims_based\<close>), and what this
  means together with the tokens that the identity service issues.
\<close>

section \<open>Routers\<close>

datatype order_route =
    RCreateOrder "string option" create_order_req
  | RMyOrders order_filter_query
  | ROrderDetail uuid
  | RCancelOrder uuid "string option"
  | RSellerOrders order_filter_query

datatype order_reply =
    OrderAccepted nat order_res
  | OrderPage "order_list_res paginated_response"
  | OrderDetail order_detail_res
  | OrderDone nat string

fun order_handler :: "externs \<Rightarrow> current_user \<Rightarrow> order_route \<Rightarrow> (order_db srv, app_error, order_reply) eff" where
  "order_handler x u (RCreateOrder key req) = bnd (create_order_route x u key req) (\<lambda>(st, r). ret (OrderAccepted st r))"
| "order_handler x u (RMyOrders q) = bnd (list_my_orders_route x u q) (\<lambda>p. ret (OrderPage p))"
| "order_handler x u (ROrderDetail oid) = bnd (get_order_detail x u oid) (\<lambda>d. ret (OrderDetail d))"
| "order_handler x u (RCancelOrder oid reason) =
     bnd (cancel_order x u oid reason) (\<lambda>_. ret (OrderDone 200 ''Order cancelled successfully''))"
| "order_handler x u (RSellerOrders q) = bnd (list_seller_orders_route x u q) (\<lambda>p. ret (OrderPage p))"

text \<open>A public route is served to anyone, and does not look at the user.\<close>

definition anyone :: current_user where
  "anyone = \<lparr>cu_id = 0, cu_role = Buyer\<rparr>"

definition guarded_app ::
  "externs \<Rightarrow> jwt_externs \<Rightarrow> auth_config \<Rightarrow> ('q \<Rightarrow> bool) \<Rightarrow> (current_user \<Rightarrow> 'q \<Rightarrow> ('d srv \<times> 'r, app_error, 'a) eff) \<Rightarrow>
     string option \<Rightarrow> 'q \<Rightarrow> ('d srv \<times> 'r, auth_middleware_error + app_error, 'a) eff" where
  "guarded_app x j cfg public serve header q =
     (if public q then map_err Inr (serve anyone q)
      else bnd (map_err Inl (auth_handle x j cfg None header)) (\<lambda>(u, c). map_err Inr (serve u q)))"

definition order_router ::
  "externs \<Rightarrow> jwt_externs \<Rightarrow> auth_config \<Rightarrow> string option \<Rightarrow> order_route \<Rightarrow>
     (order_db srv \<times> unit, auth_middleware_error + app_error, order_reply) eff" where
  "order_router x j cfg = guarded_app x j cfg (\<lambda>_. False) (\<lambda>u q. on_fst (order_handler x u q))"

definition payment_router ::
  "externs \<Rightarrow> jwt_externs \<Rightarrow> auth_config \<Rightarrow> string option \<Rightarrow> uuid \<Rightarrow>
     (payment_db srv \<times> unit, auth_middleware_error + app_error, payment_status_res) eff" where
  "payment_router x j cfg = guarded_app x j cfg (\<lambda>_. False) (\<lambda>u oid. on_fst (get_payment_status x oid u))"

text \<open>The cart service has no database: the session is only its clock.\<close>

definition cart_router ::
  "externs \<Rightarrow> jwt_externs \<Rightarrow> auth_config \<Rightarrow> string option \<Rightarrow> cart_route \<Rightarrow>
     (unit srv \<times> hash_redis, auth_middleware_error + app_error, cart_reply) eff" where
  "cart_router x j cfg = guarded_app x j cfg (\<lambda>_. False) (\<lambda>u q. on_snd (cart_handler x u q))"

fun public_category_route :: "category_route \<Rightarrow> bool" where
  "public_category_route (RCreateCategory req) = False"
| "public_category_route (RUpdateCategory cid req) = False"
| "public_category_route (RDeleteCategory cid) = False"
| "public_category_route _ = True"

fun public_brand_route :: "brand_route \<Rightarrow> bool" where
  "public_brand_route (RListBrands q) = True"
| "public_brand_route (RGetBrand bid) = True"
| "public_brand_route (RBrandBySlug slug) = True"
| "public_brand_route (RBrandCategories bid q) = True"
| "public_brand_route _ = False"

fun public_product_route :: "product_route \<Rightarrow> bool" where
  "public_product_route (RListActive q) = True"
| "public_product_route (RProductDetail pid) = True"
| "public_product_route (RProductBySlug slug) = True"
| "public_product_route _ = False"

definition public_catalog_route :: "(category_route + brand_route) + product_route \<Rightarrow> bool" where
  "public_catalog_route q =
     (case q of Inl (Inl rt) \<Rightarrow> public_category_route rt | Inl (Inr rt) \<Rightarrow> public_brand_route rt | Inr rt \<Rightarrow> public_product_route rt)"

definition catalog_router ::
  "externs \<Rightarrow> shop_env \<Rightarrow> jwt_externs \<Rightarrow> auth_config \<Rightarrow> string option \<Rightarrow> (category_route + brand_route) + product_route \<Rightarrow>
     (shop, auth_middleware_error + app_error, taxonomy_reply + product_reply) eff" where
  "catalog_router x y j cfg = guarded_app x j cfg public_catalog_route (catalog_app x y)"

section \<open>Whom a header speaks for\<close>

definition speaks_for :: "externs \<Rightarrow> jwt_externs \<Rightarrow> auth_config \<Rightarrow> string option \<Rightarrow> current_user \<Rightarrow> bool" where
  "speaks_for x j cfg header u \<longleftrightarrow>
     (\<exists>token now c. extract_bearer_token j header = Ok token \<and>
        checked_claims j (access_claims_of_json x) (access_token_secret cfg) now token = Ok c \<and>
        u = \<lparr>cu_id = at_sub c, cu_role = at_role c\<rparr>)"

lemma auth_handle_claims:
  fixes sv :: "'d srv"
  assumes "auth_handle x j cfg None header (sv, r) = (res, t)"
  shows "(\<exists>n. t = (sv\<lparr>ticks := n\<rparr>, r)) \<and> (\<forall>u c. res = Ok (u, c) \<longrightarrow> speaks_for x j cfg header u)"
proof (cases "extract_bearer_token j header")
  case (Ok token)
  have same: "\<exists>n. sv = sv\<lparr>ticks := n\<rparr>" by (rule exI[of _ "ticks sv"]) simp
  show ?thesis
  proof (cases "clock sv (ticks sv) < 0")
    case True
    then show ?thesis using assms Ok
      by (auto simp: auth_handle_def bnd_def of_result_def on_fst_def map_err_def validate_access_token_def unix_secs_def Let_def)
  next
    case False
    let ?res = "checked_claims j (access_claims_of_json x) (access_token_secret cfg) (clock sv (ticks sv) div 1000000) token"
    show ?thesis using assms Ok False
      by (cases ?res)
         (auto simp: auth_handle_def bnd_def of_result_def on_fst_def map_err_def validate_access_token_def unix_secs_def Let_def ret_def
           speaks_for_def)
  qed
next
  case (Err e)
  then show ?thesis using assms
    by (auto simp: auth_handle_def bnd_def of_result_def intro!: exI[of _ "ticks sv"])
next
  case (Panic m)
  then show ?thesis using assms
    by (auto simp: auth_handle_def bnd_def of_result_def intro!: exI[of _ "ticks sv"])
qed

text \<open>A token speaks for the user it was issued to, with the role it was issued with.\<close>

lemma issued_token_speaks:
  assumes "jwt_laws j" "uuid_codec x" "generate_access_token x j cfg uid name rl s = (Ok t, s1)"
    and "speaks_for x j cfg' (Some (''Bearer '' @ t)) u"
  shows "u = \<lparr>cu_id = uid, cu_role = rl\<rparr>"
proof -
  obtain c where c: "at_sub c = uid" "at_role c = rl" "at_iat c = wrap_i64 (clock s (ticks s) div 1000000)"
      "at_exp c = wrap_i64 (at_iat c + wrap_i64 (int (access_token_expiry_secs cfg)))"
    and t: "jwt_encode j (access_token_secret cfg) (access_claims_json x c) = Inr t"
    using assms(3) by (elim generate_access_token_Ok)
  have signed: "jwt_signed j (access_token_secret cfg) (access_claims_json x c) t" using assms(1) t by (simp add: jwt_laws_def)
  then have ex: "extract_bearer_token j (Some (''Bearer '' @ t)) = Ok t"
    using extract_bearer_token_signed[OF assms(1)] by (simp add: jwt_signed_def)
  from assms(4) ex obtain now c' where c': "checked_claims j (access_claims_of_json x) (access_token_secret cfg') now t = Ok c'"
      "u = \<lparr>cu_id = at_sub c', cu_role = at_role c'\<rparr>"
    by (auto simp: speaks_for_def)
  from c'(1) obtain d where d: "jwt_decode j (\<lambda>c. access_claims_of_json x c \<noteq> None) (access_token_secret cfg') now t = Inr d"
      "access_claims_of_json x d = Some c'"
    by (auto simp: checked_claims_def split: sum.splits jwt_failure.splits option.splits)
  have "d = access_claims_json x c" using signed d(1) unfolding jwt_signed_def by blast
  then have "c' = c" using access_claims_roundtrip[OF assms(2) c(3,4)] d(2) by simp
  then show ?thesis using c'(2) c(1,2) by simp
qed

lemma no_header_speaks: "\<not> speaks_for x j cfg None u"
  by (simp add: speaks_for_def extract_bearer_token_def)

section \<open>Services behind the middleware\<close>

text \<open>A service that writes only where its user may keeps doing so when the user is taken from a token: the owner of
  a part is safe from every header that does not speak for a user who may change it.\<close>

locale token_service = request_service serve typed inv part may
  for serve :: "current_user \<Rightarrow> 'q \<Rightarrow> ('d srv \<times> 'r, app_error, 'a) eff" and typed :: "'q \<Rightarrow> bool" and inv :: "'d srv \<times> 'r \<Rightarrow> bool"
    and part :: "'o \<Rightarrow> 'd srv \<times> 'r \<Rightarrow> 'p" and may :: "current_user \<Rightarrow> 'o \<Rightarrow> bool" +
  fixes public :: "'q \<Rightarrow> bool"
  assumes public_any: "public q \<Longrightarrow> serve u q = serve w q"
    and outsider: "public q \<Longrightarrow> \<exists>u. \<not> may u v"
    and inv_ticks: "inv (sv\<lparr>ticks := n\<rparr>, r) = inv (sv, r)"
    and part_ticks: "part v (sv\<lparr>ticks := n\<rparr>, r) = part v (sv, r)"
begin

lemma guarded_run:
  fixes s :: "'d srv \<times> 'r"
  shows "(\<exists>n. snd (guarded_app x j cfg public serve header q s) = ((fst s)\<lparr>ticks := n\<rparr>, snd s)) \<or>
    (\<exists>n u. (public q \<or> speaks_for x j cfg header u) \<and>
       snd (guarded_app x j cfg public serve header q s) = snd (serve u q ((fst s)\<lparr>ticks := n\<rparr>, snd s)))"
proof (cases "public q")
  case True
  have "snd (guarded_app x j cfg public serve header q s) = snd (serve anyone q ((fst s)\<lparr>ticks := ticks (fst s)\<rparr>, snd s))"
    using True by (simp add: guarded_app_def)
  then show ?thesis using True by blast
next
  case False
  obtain res t where h: "auth_handle x j cfg None header (fst s, snd s) = (res, t)" by (metis surj_pair)
  then obtain n where t: "t = ((fst s)\<lparr>ticks := n\<rparr>, snd s)" and ok: "\<And>u c. res = Ok (u, c) \<Longrightarrow> speaks_for x j cfg header u"
    using auth_handle_claims[OF h] by blast
  show ?thesis
  proof (cases res)
    case (Ok uc)
    obtain u c where uc: "uc = (u, c)" by fastforce
    have "snd (guarded_app x j cfg public serve header q s) = snd (serve u q t)"
      using False h Ok uc by (simp add: guarded_app_def bnd_def map_err_def split: prod.splits)
    then show ?thesis using ok[of u c] Ok uc t by blast
  qed (use False h t in \<open>auto simp: guarded_app_def bnd_def map_err_def\<close>)
qed

lemma guarded_inv: "typed q \<Longrightarrow> inv s \<Longrightarrow> inv (snd (guarded_app x j cfg public serve header q s))"
  using guarded_run[of x j cfg header q s] serve_inv[of q] inv_ticks[of _ "fst s" "snd s"] by fastforce

lemma guarded_frame:
  assumes "typed q" "inv s" "\<forall>u. speaks_for x j cfg header u \<longrightarrow> \<not> may u v"
  shows "part v (snd (guarded_app x j cfg public serve header q s)) = part v s"
  using guarded_run[of x j cfg header q s]
proof (elim disjE exE conjE)
  fix n assume "snd (guarded_app x j cfg public serve header q s) = ((fst s)\<lparr>ticks := n\<rparr>, snd s)"
  then show ?thesis using part_ticks[of v n "fst s" "snd s"] by simp
next
  fix n u assume a: "public q" "snd (guarded_app x j cfg public serve header q s) = snd (serve u q ((fst s)\<lparr>ticks := n\<rparr>, snd s))"
  obtain w where "\<not> may w v" using outsider a(1) by blast
  then have "part v (snd (serve w q ((fst s)\<lparr>ticks := n\<rparr>, snd s))) = part v s"
    using serve_frame[OF assms(1), of "((fst s)\<lparr>ticks := n\<rparr>, snd s)" w v] inv_ticks[of n "fst s" "snd s"] part_ticks[of v n "fst s" "snd s"]
      assms(2) by simp
  then show ?thesis using a public_any[of q u w] by simp
next
  fix n u assume a: "speaks_for x j cfg header u" "snd (guarded_app x j cfg public serve header q s) = snd (serve u q ((fst s)\<lparr>ticks := n\<rparr>, snd s))"
  then show ?thesis
    using serve_frame[OF assms(1), of "((fst s)\<lparr>ticks := n\<rparr>, snd s)" u v] inv_ticks[of n "fst s" "snd s"] part_ticks[of v n "fst s" "snd s"]
      assms(2,3) by simp
qed

end

sublocale token_service \<subseteq> guarded: request_service "guarded_app x j cfg public serve" typed inv part
  "\<lambda>header v. \<exists>u. speaks_for x j cfg header u \<and> may u v" for x j cfg
  by unfold_locales (simp_all add: guarded_inv guarded_frame)

section \<open>The orders of a buyer\<close>

definition orders_of :: "uuid \<Rightarrow> order_db \<Rightarrow> order_entity list" where
  "orders_of v d = filter (\<lambda>e. or_buyer_id e = v) (orders d)"

definition order_ids_distinct :: "order_db \<Rightarrow> bool" where
  "order_ids_distinct d \<longleftrightarrow> distinct (map or_id (orders d))"

lemma keeps_reading [frame_rules]:
  "keeps committed (get_order_by_idempotency_key x Pool key)" "keeps committed (list_order_items x Pool oid)"
  "keeps committed (list_orders_by_buyer x Pool buyer p st)" "keeps committed (list_orders_by_seller x Pool seller p st)"
  by (auto simp: get_order_by_idempotency_key_def list_order_items_def list_orders_by_buyer_def list_orders_by_seller_def
      fetch_all_clauses_def keeps_def map_err_def fetch_optional_def bnd_def query_def ret_def split: sum.splits list.splits if_splits)

lemma keeps_create_body [frame_rules]: "keeps committed (create_order_body x buyer v)" "keeps committed (cancel_order_body x e oid reason)"
  unfolding create_order_body_def cancel_order_body_def create_order_tx_def insert_items_def Let_def by (intro frame_rules)+

lemma preserves_for_each [inv_rules]: "(\<And>y. preserves P (f y)) \<Longrightarrow> preserves P (for_each f ys)"
  by (induction ys) (auto intro: inv_rules)

text \<open>An event is written without touching the orders.\<close>

lemma preserves_order_outbox:
  assumes "\<And>d os. I (d\<lparr>outbox_events := os\<rparr>) = I d"
  shows "preserves (\<lambda>s. I (current s)) (write_order_outbox x oid et pl cause)"
proof (rule preserves_wp)
  fix s :: "order_db srv" assume "I (current s)"
  then show "wp (write_order_outbox x oid et pl cause) (\<lambda>_ s. I (current s)) (\<lambda>s. I (current s)) s"
    unfolding write_order_outbox_def event_metadata_new_def Let_def
    by (auto simp: wp_simps wp_ret assms intro!: wp_insert_outbox_Tx split: option.split)
qed

lemma set_status_keeps [simp]: "or_id (set_status st reason now e) = or_id e" "or_buyer_id (set_status st reason now e) = or_buyer_id e"
  by (simp_all add: set_status_def split: option.split)

lemma preserves_create_order:
  assumes out: "\<And>d os. I (d\<lparr>outbox_events := os\<rparr>) = I d" and items: "\<And>d is. I (d\<lparr>order_items := is\<rparr>) = I d"
    and ins: "\<And>req ship rid now d a d'. insert_order_sql (cu_id u) req ship rid now d = Inr (a, d') \<Longrightarrow> I d \<Longrightarrow> I d'"
  shows "preserves (\<lambda>s. I (committed s)) (create_order x u key req)"
proof -
  have item: "preserves (\<lambda>s. I (current s)) (stmt Tx (insert_item_sql oid i rid))" for oid i rid
    by (rule preserves_stmt_Tx) (auto simp: insert_item_sql_def items split: sum.splits prod.splits if_splits)
  have order: "preserves (\<lambda>s. I (current s)) (stmt Tx (insert_order_sql (cu_id u) v ship rid))" for v ship rid
    by (rule preserves_stmt_Tx) (rule ins)
  have "preserves (\<lambda>s. I (current s)) (create_order_body x (cu_id u) v)" for v
    unfolding create_order_body_def create_order_tx_def insert_items_def Let_def
    by (intro inv_rules preserves_order_outbox[where I = I, OF out] item order)
  then have tx: "preserves (\<lambda>s. I (committed s)) (with_transaction (create_order_body x (cu_id u) v))" for v
    by (rule preserves_with_transaction[OF keeps_create_body(1)])
  have read: "preserves (\<lambda>s. I (committed s)) (get_order_by_idempotency_key x Pool k)" "preserves (\<lambda>s. I (committed s)) (get_order_by_id x Pool oid)" for k oid
    by (rule preserves_keeps, rule frame_rules)+
  show ?thesis unfolding create_order_def Let_def
    by (intro inv_rules tx read) (auto intro!: inv_rules tx read split: option.split)
qed

lemma preserves_after: "m s = (Ok a, t) \<Longrightarrow> preserves P (f a) \<Longrightarrow> P t \<Longrightarrow> P (snd (bnd m f s))"
  by (simp add: bnd_def preserves_def)

lemma preserves_cancel_order:
  assumes out: "\<And>d os. I (d\<lparr>outbox_events := os\<rparr>) = I d"
    and upd: "\<And>d e st reason now. I d \<Longrightarrow> e \<in> set (orders d) \<Longrightarrow> or_id e = oid \<Longrightarrow> can_access u (or_buyer_id e) \<Longrightarrow>
      I (d\<lparr>orders := update_where (\<lambda>q. or_id q = oid) (set_status st reason now) (orders d)\<rparr>)"
  shows "preserves (\<lambda>s. I (committed s)) (cancel_order x u oid reason)"
  unfolding preserves_def
proof (intro allI impI)
  fix s :: "order_db srv" assume i: "I (committed s)"
  let ?J = "\<lambda>d. I d \<and> (\<exists>e\<in>set (orders d). or_id e = oid \<and> can_access u (or_buyer_id e))"
  obtain r t where read: "get_order_by_id x Pool oid s = (r, t)" by fastforce
  have same: "committed t = committed s" using keepsD[OF keeps_order_ops(1) read] .
  show "I (committed (snd (cancel_order x u oid reason s)))"
  proof (cases r)
    case (Ok e)
    from read Ok obtain rs where "filter (\<lambda>o1. or_id o1 = oid) (orders (committed s)) = e # rs"
      by (auto simp: get_order_by_id_def map_err_Ok_iff dest!: fetch_one_Pool_Ok)
    then have "e \<in> set (filter (\<lambda>o1. or_id o1 = oid) (orders (committed s)))" by simp
    then have e: "e \<in> set (orders (committed s))" "or_id e = oid" by simp_all
    have st: "preserves (\<lambda>s. ?J (current s)) (update_order_status x oid OCancelled (Some why))" for why
      unfolding update_order_status_def
    proof (intro inv_rules preserves_stmt_Tx)
      fix now d a d'
      assume d': "Inr (count_where (\<lambda>e. or_id e = oid) (orders d),
          d\<lparr>orders := update_where (\<lambda>e. or_id e = oid) (set_status OCancelled (Some why) now) (orders d)\<rparr>) = Inr (a, d')" and j: "?J d"
      then obtain q where q: "q \<in> set (orders d)" "or_id q = oid" "can_access u (or_buyer_id q)" by blast
      have "set_status OCancelled (Some why) now q \<in> set (orders d')" using d' q by (auto simp: set_update_where intro!: image_eqI)
      moreover have "I d'" using upd[OF _ q, of OCancelled "Some why" now] j d' by auto
      ultimately show "?J d'" using q(2,3) by (intro conjI bexI[of _ "set_status OCancelled (Some why) now q"]) simp_all
    qed
    have "preserves (\<lambda>s. ?J (current s)) (cancel_order_body x e oid why)" for why
      unfolding cancel_order_body_def by (intro inv_rules preserves_order_outbox[where I = ?J] st) (simp add: out)
    then have tx: "preserves (\<lambda>s. ?J (committed s)) (with_transaction (cancel_order_body x e oid why))" for why
      by (rule preserves_with_transaction[OF keeps_create_body(2)])
    show ?thesis
    proof (cases "can_access u (or_buyer_id e)")
      case True
      then have "?J (committed t)" using i same e by auto
      with read Ok have "?J (committed (snd (cancel_order x u oid reason s)))"
        unfolding cancel_order_def Let_def
        by (intro preserves_after[where P = "\<lambda>s. ?J (committed s)" and m = "get_order_by_id x Pool oid" and a = e and t = t] inv_rules tx) simp_all
      then show ?thesis by blast
    next
      case False
      then show ?thesis using read Ok i same by (simp add: cancel_order_def bnd_def of_result_def require_access_def)
    qed
  qed (use read i same in \<open>simp_all add: cancel_order_def bnd_def\<close>)
qed

lemma preserves_order_handler:
  assumes out: "\<And>d os. I (d\<lparr>outbox_events := os\<rparr>) = I d" and items: "\<And>d is. I (d\<lparr>order_items := is\<rparr>) = I d"
    and ins: "\<And>req ship rid now d a d'. insert_order_sql (cu_id u) req ship rid now d = Inr (a, d') \<Longrightarrow> I d \<Longrightarrow> I d'"
    and upd: "\<And>d e oid st reason now. I d \<Longrightarrow> e \<in> set (orders d) \<Longrightarrow> or_id e = oid \<Longrightarrow> can_access u (or_buyer_id e) \<Longrightarrow>
      I (d\<lparr>orders := update_where (\<lambda>q. or_id q = oid) (set_status st reason now) (orders d)\<rparr>)"
  shows "preserves (\<lambda>s. I (committed s)) (order_handler x u q)"
proof -
  have read: "preserves (\<lambda>s. I (committed s)) (list_orders_by_buyer x Pool b p st)" "preserves (\<lambda>s. I (committed s)) (list_orders_by_seller x Pool b p st)"
      "preserves (\<lambda>s. I (committed s)) (get_order_by_id x Pool oid)" "preserves (\<lambda>s. I (committed s)) (list_order_items x Pool oid)" for b p st oid
    by (rule preserves_keeps, rule frame_rules)+
  note create = preserves_create_order[where I = I, OF out items ins]
  note cancel = preserves_cancel_order[where I = I, OF out upd]
  show ?thesis
    by (cases q)
       (auto simp: create_order_route_def list_my_orders_route_def list_seller_orders_route_def list_my_orders_def list_seller_orders_def
         get_order_detail_def intro!: inv_rules read create cancel split: prod.split)
qed

lemma distinct_update_status:
  "order_ids_distinct d \<Longrightarrow> order_ids_distinct (d\<lparr>orders := update_where P (set_status st reason now) (orders d)\<rparr>)"
  by (simp add: order_ids_distinct_def)

lemma distinct_insert_order: "insert_order_sql buyer req ship rid now d = Inr (a, d') \<Longrightarrow> order_ids_distinct d \<Longrightarrow> order_ids_distinct d'"
  by (auto simp: insert_order_sql_def order_ids_distinct_def order_row_def split: sum.splits prod.splits if_splits)

lemma other_order_kept:
  assumes "order_ids_distinct d" "e \<in> set (orders d)" "or_id e = oid" "or_buyer_id e \<noteq> v"
  shows "orders_of v (d\<lparr>orders := update_where (\<lambda>q. or_id q = oid) (set_status st reason now) (orders d)\<rparr>) = orders_of v d"
proof -
  have "q = e" if "q \<in> set (orders d)" "or_id q = oid" for q
    using assms(1-3) that by (auto simp: order_ids_distinct_def distinct_map dest: inj_onD)
  then have "\<not> or_buyer_id q = v \<and> \<not> or_buyer_id (set_status st reason now q) = v" if "q \<in> set (orders d)" "or_id q = oid" for q
    using assms(4) that by auto
  then show ?thesis unfolding orders_of_def by (simp add: filter_update_where)
qed

interpretation order_requests: token_service "\<lambda>u q. on_fst (order_handler x u q) :: (order_db srv \<times> unit, app_error, order_reply) eff"
  "\<lambda>_. True" "\<lambda>s. order_ids_distinct (committed (fst s))" "\<lambda>v s. orders_of v (committed (fst s))" can_access "\<lambda>_. False" for x
proof unfold_locales
  fix q u and s :: "order_db srv \<times> unit"
  assume d: "order_ids_distinct (committed (fst s))"
  have "preserves (\<lambda>s. order_ids_distinct (committed s)) (order_handler x u q)"
    by (rule preserves_order_handler[where I = order_ids_distinct])
       (simp_all add: order_ids_distinct_def[of "_\<lparr>outbox_events := _\<rparr>"] order_ids_distinct_def[of "_\<lparr>order_items := _\<rparr>"]
         order_ids_distinct_def[symmetric] distinct_insert_order distinct_update_status)
  then show "order_ids_distinct (committed (fst (snd (on_fst (order_handler x u q) s))))"
    using d by (simp add: preserves_def on_fst_def split: prod.splits) (metis snd_conv)
next
  fix q u v and s :: "order_db srv \<times> unit"
  assume d: "order_ids_distinct (committed (fst s))" and no: "\<not> can_access u v"
  let ?I = "\<lambda>d. order_ids_distinct d \<and> orders_of v d = orders_of v (committed (fst s))"
  have "preserves (\<lambda>s. ?I (committed s)) (order_handler x u q)"
  proof (rule preserves_order_handler[where I = ?I])
    fix req ship rid now d a d'
    assume ins: "insert_order_sql (cu_id u) req ship rid now d = Inr (a, d')" and i: "?I d"
    have "orders_of v d' = orders_of v d" using ins no
      by (auto simp: insert_order_sql_def orders_of_def order_row_def can_access_def split: sum.splits prod.splits if_splits)
    then show "?I d'" using distinct_insert_order[OF ins] i by simp
  next
    fix d e oid st reason now
    assume i: "?I d" and e: "e \<in> set (orders d)" "or_id e = oid" "can_access u (or_buyer_id e)"
    have "or_buyer_id e \<noteq> v" using no e(3) by auto
    then show "?I (d\<lparr>orders := update_where (\<lambda>q. or_id q = oid) (set_status st reason now) (orders d)\<rparr>)"
      using distinct_update_status other_order_kept[OF _ e(1,2)] i by simp
  qed (simp_all add: order_ids_distinct_def orders_of_def)
  then show "orders_of v (committed (fst (snd (on_fst (order_handler x u q) s)))) = orders_of v (committed (fst s))"
    using d by (simp add: preserves_def on_fst_def split: prod.splits) (metis snd_conv)
qed simp_all

lemma public_catalog_any: "public_catalog_route q \<Longrightarrow> catalog_app x y u q = catalog_app x y w q"
proof (cases q)
  case (Inl rt)
  moreover have "public_category_route r \<Longrightarrow> category_handler x u r = category_handler x w r" for r by (cases r) simp_all
  moreover have "public_brand_route r \<Longrightarrow> brand_handler x u r = brand_handler x w r" for r by (cases r) simp_all
  ultimately show "public_catalog_route q \<Longrightarrow> catalog_app x y u q = catalog_app x y w q"
    by (cases rt) (auto simp: public_catalog_route_def)
next
  case (Inr rt)
  then show "public_catalog_route q \<Longrightarrow> catalog_app x y u q = catalog_app x y w q"
    by (cases rt) (auto simp: public_catalog_route_def)
qed

interpretation catalog_requests: token_service "catalog_app x y" "\<lambda>_. True" "\<lambda>s. shop_ok (committed (fst s))"
  "\<lambda>v s. seller_part v (committed (fst s))" can_access public_catalog_route for x y
proof unfold_locales
  show "\<exists>u. \<not> can_access u v" for v by (rule exI[of _ "\<lparr>cu_id = Suc v, cu_role = Buyer\<rparr>"]) (simp add: can_access_def)
  show "public_catalog_route q \<Longrightarrow> catalog_app x y u q = catalog_app x y w q" for q u w by (rule public_catalog_any)
qed simp_all

interpretation cart_requests: token_service "\<lambda>u q. on_snd (cart_handler x u q) :: (unit srv \<times> hash_redis, app_error, cart_reply) eff"
  route_typed "\<lambda>s. cart_codecs x \<and> carts_ok x (snd s)" "\<lambda>v s. hr_store (snd s) (cart_key x v)"
  "\<lambda>u v. cart_key x (cu_id u) = cart_key x v" "\<lambda>_. False" for x
proof unfold_locales
  fix q and u :: current_user and s :: "unit srv \<times> hash_redis"
  assume "route_typed q" "cart_codecs x \<and> carts_ok x (snd s)"
  then show "cart_codecs x \<and> carts_ok x (snd (snd (on_snd (cart_handler x u q) s)))"
    using carts.serve_inv[of q x "snd s" u] by (auto simp: on_snd_def split: prod.splits)
next
  fix q v and u :: current_user and s :: "unit srv \<times> hash_redis"
  assume "route_typed q" "cart_codecs x \<and> carts_ok x (snd s)" "cart_key x (cu_id u) \<noteq> cart_key x v"
  then show "hr_store (snd (snd (on_snd (cart_handler x u q) s))) (cart_key x v) = hr_store (snd s) (cart_key x v)"
    using carts.serve_frame[of q x "snd s" u v] by (auto simp: on_snd_def split: prod.splits)
qed simp_all

section \<open>Properties\<close>

text \<open>A token that was issued to a user: it depends only on the clock of the service that issues it.\<close>

definition issued :: "externs \<Rightarrow> jwt_externs \<Rightarrow> auth_config \<Rightarrow> string \<Rightarrow> current_user \<Rightarrow> bool" where
  "issued x j cfg t u \<longleftrightarrow>
     (\<exists>name (sv :: unit srv) sv'. generate_access_token x j cfg (cu_id u) name (cu_role u) sv = (Ok t, sv'))"

text \<open>The requests that may reach a service in the name of others than \<open>v\<close>: without a token, or with one that was
  issued to a user without access to what \<open>v\<close> owns.\<close>

definition from_others :: "externs \<Rightarrow> jwt_externs \<Rightarrow> auth_config \<Rightarrow> uuid \<Rightarrow> string option \<Rightarrow> bool" where
  "from_others x j cfg v header \<longleftrightarrow>
     header = None \<or> (\<exists>t u. header = Some (''Bearer '' @ t) \<and> issued x j cfg t u \<and> \<not> can_access u v)"

lemma from_others_speaks:
  assumes "jwt_laws j" "uuid_codec x" "from_others x j cfg v header" "speaks_for x j cfg header u"
  shows "\<not> can_access u v"
  using assms(3) unfolding from_others_def
proof (elim disjE exE conjE)
  assume "header = None"
  then show ?thesis using assms(4) no_header_speaks by blast
next
  fix t w assume a: "header = Some (''Bearer '' @ t)" "issued x j cfg t w" "\<not> can_access w v"
  then have "u = \<lparr>cu_id = cu_id w, cu_role = cu_role w\<rparr>"
    using issued_token_speaks[OF assms(1,2)] assms(4) unfolding issued_def by blast
  then show ?thesis using a(3) by (simp add: can_access_def)
qed


lemma ann_is_an_other: "from_others demo_externs demo_jwt demo_auth 9 (Some ''Bearer access'')"
  unfolding from_others_def issued_def
  by (rule disjI2, rule exI[of _ "''access''"], rule exI[of _ "\<lparr>cu_id = 1, cu_role = Seller\<rparr>"])
     (use demo_tokens(1)[of "()"] in \<open>auto simp: can_access_def\<close>)


text \<open>A cart belongs to one user, administrators included: the tokens of others leave it alone.\<close>

theorem carts_of_others_kept:
  assumes "jwt_laws j" "cart_codecs x" "carts_ok x (snd s)" "list_all (\<lambda>(header, q). route_typed q \<and> from_others x j cfg v header) reqs"
  shows "hr_store (snd (serve_all (cart_router x j cfg) reqs s)) (cart_key x v) = hr_store (snd s) (cart_key x v)"
proof -
  have codec: "uuid_codec x" using assms(2) by (simp add: cart_codecs_def)
  have "\<not> (cart_key x (cu_id u) = cart_key x v)" if "from_others x j cfg v header" "speaks_for x j cfg header u" for header u
    using from_others_speaks[OF assms(1) codec that] cart_key_inj[OF codec] by (auto simp: can_access_def)
  then have "list_all (\<lambda>(header, q). route_typed q \<and> \<not> (\<exists>u. speaks_for x j cfg header u \<and> cart_key x (cu_id u) = cart_key x v)) reqs"
    using assms(4) by (auto simp: list_all_iff)
  then show ?thesis unfolding cart_router_def using cart_requests.guarded.serve_all_frame assms(2,3) by auto
qed

end
