(* ===== verification/Patterns.thy ===== *)
theory Patterns
  imports Names
begin

text \<open>
  Regular expressions over characters, as the \<open>regex\<close> patterns of the sources are written: a
  pattern, its language as an inductive predicate, and a matcher by derivatives that decides it.
  A text is matched character by character (\<open>utf8_chars\<close>), from its start to its end.
\<close>

section \<open>Patterns and their language\<close>

datatype pattern =
    Never
  | Empty
  | Class "string \<Rightarrow> bool"
  | Seq pattern pattern
  | Alt pattern pattern
  | Star pattern

inductive in_lang :: "pattern \<Rightarrow> string list \<Rightarrow> bool" where
  lang_empty: "in_lang Empty []"
| lang_class: "C c \<Longrightarrow> in_lang (Class C) [c]"
| lang_seq: "in_lang p v \<Longrightarrow> in_lang q w \<Longrightarrow> in_lang (Seq p q) (v @ w)"
| lang_left: "in_lang p w \<Longrightarrow> in_lang (Alt p q) w"
| lang_right: "in_lang q w \<Longrightarrow> in_lang (Alt p q) w"
| lang_done: "in_lang (Star p) []"
| lang_more: "in_lang p v \<Longrightarrow> in_lang (Star p) w \<Longrightarrow> in_lang (Star p) (v @ w)"

inductive_simps in_lang_simps [simp]:
  "in_lang Never w" "in_lang Empty w" "in_lang (Class C) w" "in_lang (Seq p q) w" "in_lang (Alt p q) w"

text \<open>\<open>p+\<close>, \<open>p?\<close> and \<open>p{0,n}\<close>, literal characters, and classes of ASCII bytes.\<close>

definition plus :: "pattern \<Rightarrow> pattern" where
  "plus p = Seq p (Star p)"

definition opt :: "pattern \<Rightarrow> pattern" where
  "opt p = Alt Empty p"

fun up_to :: "nat \<Rightarrow> pattern \<Rightarrow> pattern" where
  "up_to 0 p = Empty"
| "up_to (Suc n) p = opt (Seq p (up_to n p))"

definition byte_class :: "(char \<Rightarrow> bool) \<Rightarrow> string \<Rightarrow> bool" where
  "byte_class C ch \<longleftrightarrow> (case ch of [c] \<Rightarrow> C c | _ \<Rightarrow> False)"

definition lit :: "char \<Rightarrow> pattern" where
  "lit c = Class (byte_class (\<lambda>d. d = c))"

fun seqs :: "pattern list \<Rightarrow> pattern" where
  "seqs [] = Empty"
| "seqs [p] = p"
| "seqs (p # ps) = Seq p (seqs ps)"

section \<open>The matcher\<close>

fun nullable :: "pattern \<Rightarrow> bool" where
  "nullable Never = False"
| "nullable Empty = True"
| "nullable (Class C) = False"
| "nullable (Seq p q) = (nullable p \<and> nullable q)"
| "nullable (Alt p q) = (nullable p \<or> nullable q)"
| "nullable (Star p) = True"

fun deriv :: "string \<Rightarrow> pattern \<Rightarrow> pattern" where
  "deriv c Never = Never"
| "deriv c Empty = Never"
| "deriv c (Class C) = (if C c then Empty else Never)"
| "deriv c (Seq p q) =
     (if nullable p then Alt (Seq (deriv c p) q) (deriv c q) else Seq (deriv c p) q)"
| "deriv c (Alt p q) = Alt (deriv c p) (deriv c q)"
| "deriv c (Star p) = Seq (deriv c p) (Star p)"

fun matches :: "pattern \<Rightarrow> string list \<Rightarrow> bool" where
  "matches p [] = nullable p"
| "matches p (c # cs) = matches (deriv c p) cs"

definition is_match :: "pattern \<Rightarrow> string \<Rightarrow> bool" where
  "is_match p s = matches p (utf8_chars s)"

lemma nullable_iff: "nullable p \<longleftrightarrow> in_lang p []"
proof (induction p)
  case (Star p)
  show ?case by (simp add: lang_done)
qed auto

lemma star_Cons:
  assumes "in_lang (Star p) (c # w)"
  shows "\<exists>u v. w = u @ v \<and> in_lang p (c # u) \<and> in_lang (Star p) v"
  using assms
proof (induction "Star p" "c # w" rule: in_lang.induct)
  case (lang_more v' w')
  then show ?case by (cases v') auto
qed

lemma deriv_iff: "in_lang (deriv c p) w \<longleftrightarrow> in_lang p (c # w)"
proof (induction p arbitrary: w)
  case (Seq p q)
  then show ?case by (auto simp: nullable_iff append_eq_Cons_conv Cons_eq_append_conv)
next
  case (Star p)
  have "in_lang (Seq (deriv c p) (Star p)) w \<longleftrightarrow> (\<exists>u v. w = u @ v \<and> in_lang p (c # u) \<and> in_lang (Star p) v)"
    by (auto simp: Star)
  also have "\<dots> \<longleftrightarrow> in_lang (Star p) (c # w)"
    using star_Cons lang_more[of p "c # _"] by fastforce
  finally show ?case by simp
qed auto

lemma matches_iff: "matches p w \<longleftrightarrow> in_lang p w"
  by (induction w arbitrary: p) (simp_all add: nullable_iff deriv_iff)

section \<open>Languages of common shapes\<close>

lemma in_lang_star_class: "in_lang (Star (Class C)) w \<longleftrightarrow> list_all C w"
proof
  assume "in_lang (Star (Class C)) w"
  then show "list_all C w" by (induction "Star (Class C)" w rule: in_lang.induct) auto
next
  assume "list_all C w"
  then show "in_lang (Star (Class C)) w"
  proof (induction w)
    case (Cons c w)
    then show ?case using lang_more[of "Class C" "[c]" w] by simp
  qed (simp add: lang_done)
qed

lemma in_lang_seq_class: "in_lang (Seq (Class C) q) w \<longleftrightarrow> (\<exists>c cs. w = c # cs \<and> C c \<and> in_lang q cs)"
  by (auto simp: append_eq_Cons_conv) (metis append_Cons append_Nil)

lemma in_lang_plus_class: "in_lang (plus (Class C)) w \<longleftrightarrow> w \<noteq> [] \<and> list_all C w"
  by (cases w) (simp_all add: plus_def in_lang_seq_class in_lang_star_class del: in_lang_simps)

lemma in_lang_opt: "in_lang (opt p) w \<longleftrightarrow> w = [] \<or> in_lang p w"
  by (auto simp: opt_def)

lemma byte_class_iff: "byte_class C ch \<longleftrightarrow> (\<exists>c. ch = [c] \<and> C c)"
  by (auto simp: byte_class_def split: list.splits)

lemma in_lang_lit: "in_lang (lit c) w \<longleftrightarrow> w = [[c]]"
  by (auto simp: lit_def byte_class_iff)

lemma in_lang_up_to_class: "in_lang (up_to n (Class C)) w \<longleftrightarrow> length w \<le> n \<and> list_all C w"
proof (induction n arbitrary: w)
  case (Suc n)
  then show ?case by (cases w) (auto simp: in_lang_opt in_lang_seq_class simp del: in_lang_simps)
qed auto

lemmas lang_shapes = in_lang_star_class in_lang_plus_class in_lang_opt in_lang_lit in_lang_up_to_class

text \<open>Single bytes: the characters of a text that a pattern of ASCII classes accepts are its bytes.\<close>

lemma list_all_byte_class: "list_all (byte_class C) w \<longleftrightarrow> (\<exists>s. w = map (\<lambda>c. [c]) s \<and> list_all C s)"
proof
  assume "list_all (byte_class C) w"
  then have "w = map (\<lambda>c. [c]) (map hd w) \<and> list_all C (map hd w)"
    by (induction w) (auto simp: byte_class_iff)
  then show "\<exists>s. w = map (\<lambda>c. [c]) s \<and> list_all C s" by blast
qed (auto simp: list_all_iff byte_class_iff)

lemma in_lang_plus_bytes:
  "in_lang (plus (Class (byte_class C))) w \<longleftrightarrow> (\<exists>s. w = map (\<lambda>c. [c]) s \<and> s \<noteq> [] \<and> list_all C s)"
  by (auto simp: in_lang_plus_class list_all_byte_class)

lemma concat_utf8_chars: "concat (utf8_chars s) = s"
  by (induction s rule: utf8_chars.induct) simp_all

lemma utf8_chars_bytes: "utf8_chars s = map (\<lambda>c. [c]) t \<Longrightarrow> s = t"
proof -
  assume "utf8_chars s = map (\<lambda>c. [c]) t"
  then have "concat (utf8_chars s) = t" by simp
  then show ?thesis by (simp add: concat_utf8_chars)
qed

lemma utf8_chars_ascii: "list_all (\<lambda>c. \<not> continuation c) s \<Longrightarrow> utf8_chars s = map (\<lambda>c. [c]) s"
proof (induction s)
  case (Cons c s)
  then have "takeWhile continuation s = []" "dropWhile continuation s = s" by (cases s; auto)+
  then show ?case using Cons by simp
qed simp

end
