(* ===== verification/Users.thy ===== *)
theory Users
  imports Patterns Requests Tokens
begin

text \<open>
  The data of the identity service, \<open>identity/src/users\<close>: the value objects of \<open>value_objects.rs\<close> with
  their patterns, the requests of \<open>dtos.rs\<close>, the rows of \<open>entities.rs\<close>, the domain type of \<open>domain.rs\<close>
  and the statements of \<open>repository.rs\<close> on the tables of the migrations. Hashing of passwords and the
  Unicode classes of characters are parameters.
\<close>

section \<open>Parameters\<close>

datatype hash_check = HashMatches | HashDiffers | HashFailure string

record user_externs =
  is_upper :: "string \<Rightarrow> bool" \<comment> \<open>\<open>char::is_uppercase\<close> of one encoded character\<close>
  is_lower :: "string \<Rightarrow> bool"
  is_digit :: "string \<Rightarrow> bool" \<comment> \<open>the class \<open>\d\<close> of the \<open>regex\<close> package, decimal digits of every script\<close>
  argon_hash :: "string \<Rightarrow> string \<Rightarrow> string + string" \<comment> \<open>password and salt; \<open>Inl\<close>: the text of the error\<close>
  hash_parse :: "string \<Rightarrow> string option" \<comment> \<open>the text of the error, if any\<close>
  argon_verify :: "string \<Rightarrow> string \<Rightarrow> hash_check" \<comment> \<open>password and hash\<close>
  uuid_error :: "string \<Rightarrow> string" \<comment> \<open>the text of a failed parse of a UUID\<close>
  current_text :: "current_user \<Rightarrow> string option" \<comment> \<open>JSON text of a cached user\<close>
  current_of_text :: "string \<Rightarrow> current_user option"

section \<open>Value objects\<close>

definition is_letter :: "char \<Rightarrow> bool" where
  "is_letter c \<longleftrightarrow> is_ascii_uppercase c \<or> is_ascii_lowercase c"

text \<open>\<open>^[a-zA-Z0-9._%+-]+@[a-zA-Z0-9.-]+\.[a-zA-Z]{2,}$\<close>\<close>

definition email_local_char :: "char \<Rightarrow> bool" where
  "email_local_char c \<longleftrightarrow> code_char c \<or> c \<in> set ''._%+-''"

definition email_domain_char :: "char \<Rightarrow> bool" where
  "email_domain_char c \<longleftrightarrow> code_char c \<or> c \<in> set ''.-''"

definition email_re :: pattern where
  "email_re =
     seqs [plus (Class (byte_class email_local_char)), lit CHR ''@'', plus (Class (byte_class email_domain_char)),
           lit CHR ''.'', Class (byte_class is_letter), plus (Class (byte_class is_letter))]"

text \<open>\<open>^\+[1-9]\d{0,2}(-?\d+)+$\<close>\<close>

definition phone_re :: "user_externs \<Rightarrow> pattern" where
  "phone_re y =
     seqs [lit CHR ''+'', Class (byte_class (\<lambda>c. is_ascii_digit c \<and> c \<noteq> CHR ''0'')), up_to 2 (Class (is_digit y)),
           plus (Seq (opt (lit CHR ''-'')) (plus (Class (is_digit y))))]"

text \<open>\<open>^[a-zA-Z0-9_-]+$\<close>\<close>

definition username_char :: "char \<Rightarrow> bool" where
  "username_char c \<longleftrightarrow> code_char c \<or> c \<in> set ''_-''"

definition username_re :: pattern where
  "username_re = plus (Class (byte_class username_char))"

definition email_new :: "externs \<Rightarrow> string \<Rightarrow> (string, app_error) result" where
  "email_new x input =
     (let trimmed = trim input in
      if length trimmed > 254 then Err (BadRequest ''Email must not exceed 254 characters'')
      else if \<not> is_match email_re trimmed then Err (BadRequest ''Invalid email format'')
      else Ok (lower x trimmed))"

definition special_chars :: string where
  "special_chars = ''!@#$%^&*()_+-=[]{}|;'' @ [CHR 0x27] @ '':'' @ [CHR 0x22] @ '',./<>?''"

definition password_missing :: "user_externs \<Rightarrow> string \<Rightarrow> string list" where
  "password_missing y input =
     (let chars = utf8_chars input in
      (if length input < 8 then [''at least 8 characters''] else []) @
      (if \<not> list_ex (is_upper y) chars then [''an uppercase letter''] else []) @
      (if \<not> list_ex (is_lower y) chars then [''a lowercase letter''] else []) @
      (if \<not> list_ex (byte_class is_ascii_digit) chars then [''a digit''] else []) @
      (if \<not> list_ex (byte_class (\<lambda>c. c \<in> set special_chars)) chars then [''a special character''] else []))"

definition password_new :: "user_externs \<Rightarrow> string \<Rightarrow> (string, app_error) result" where
  "password_new y input =
     (if length input > 128 then Err (BadRequest ''Password must not exceed 128 characters'')
      else let missing = password_missing y input in
        if missing \<noteq> [] then Err (BadRequest (''Password must contain: '' @ join_with '', '' missing))
        else Ok input)"

text \<open>A password is never printed.\<close>

definition password_str :: "string \<Rightarrow> string" where
  "password_str p = ''********''"

definition phone_new :: "user_externs \<Rightarrow> string \<Rightarrow> (string, app_error) result" where
  "phone_new y input =
     (let trimmed = trim input in
      if \<not> is_match (phone_re y) trimmed
      then Err (BadRequest ''Invalid phone format. Expected: +{country code}-{digits} (e.g. +82-10-1234-5678)'')
      else let digit_count = length (filter (byte_class is_ascii_digit) (utf8_chars trimmed)) in
        if \<not> (7 \<le> digit_count \<and> digit_count \<le> 15)
        then Err (BadRequest ''Phone number must contain between 7 and 15 digits'')
        else Ok trimmed)"

definition username_blocklist :: "string list" where
  "username_blocklist = [''admin'', ''root'', ''superuser'', ''moderator'']"

definition username_new :: "externs \<Rightarrow> string \<Rightarrow> (string, app_error) result" where
  "username_new x input =
     (let trimmed = trim input in
      if length trimmed < 3 then Err (BadRequest ''Username must be at least 3 characters'')
      else if length trimmed > 30 then Err (BadRequest ''Username must not exceed 30 characters'')
      else if \<not> is_match username_re trimmed
      then Err (BadRequest ''Username may only contain letters, digits, underscores, and hyphens'')
      else if lower x trimmed \<in> set username_blocklist then Err (BadRequest ''This username is not allowed'')
      else Ok trimmed)"

section \<open>Requests\<close>

record user_create_req =
  ur_username :: string
  ur_password :: string
  ur_email :: string
  ur_phone :: string
  ur_role :: role

record user_update_req =
  uu_username :: string
  uu_email :: string
  uu_phone :: string
  uu_role :: role

record valid_user_create =
  vn_username :: string
  vn_password :: string
  vn_email :: string
  vn_phone :: string
  vn_role :: role

record valid_user_update =
  vm_username :: string
  vm_email :: string
  vm_phone :: string
  vm_role :: role

definition valid_user_create_new ::
  "externs \<Rightarrow> user_externs \<Rightarrow> user_create_req \<Rightarrow> (valid_user_create, app_error) result" where
  "valid_user_create_new x y req =
     and_then (username_new x (ur_username req)) (\<lambda>name.
     and_then (password_new y (ur_password req)) (\<lambda>pw.
     and_then (email_new x (ur_email req)) (\<lambda>mail.
     and_then (phone_new y (ur_phone req)) (\<lambda>tel.
       Ok \<lparr>vn_username = name, vn_password = pw, vn_email = mail, vn_phone = tel, vn_role = ur_role req\<rparr>))))"

definition valid_user_update_new ::
  "externs \<Rightarrow> user_externs \<Rightarrow> user_update_req \<Rightarrow> (valid_user_update, app_error) result" where
  "valid_user_update_new x y req =
     and_then (username_new x (uu_username req)) (\<lambda>name.
     and_then (email_new x (uu_email req)) (\<lambda>mail.
     and_then (phone_new y (uu_phone req)) (\<lambda>tel.
       Ok \<lparr>vm_username = name, vm_email = mail, vm_phone = tel, vm_role = uu_role req\<rparr>)))"

record user_login_req =
  ul_username :: string
  ul_password :: string

record reset_password_req =
  rp_token :: string
  rp_new_password :: string

record change_password_req =
  cp_current_password :: string
  cp_new_password :: string

record jwt_tokens =
  jt_access_token :: string
  jt_refresh_token :: string

section \<open>Rows\<close>

record user =
  us_id :: uuid
  us_created_at :: timestamp
  us_updated_at :: "timestamp option"
  us_deleted_at :: "timestamp option"
  us_username :: string
  us_password :: string
  us_email :: string
  us_phone :: string
  us_role :: role
  us_email_verified :: bool

text \<open>The rows of the two tables of tokens have the same columns.\<close>

record account_token =
  tk_id :: uuid
  tk_created_at :: timestamp
  tk_user_id :: uuid
  tk_token :: string
  tk_expires_at :: timestamp
  tk_used_at :: "timestamp option"

record users_db =
  users :: "user list"
  email_tokens :: "account_token list"
  reset_tokens :: "account_token list"

datatype token_table = EmailTokens | ResetTokens

fun tokens_of :: "token_table \<Rightarrow> users_db \<Rightarrow> account_token list" where
  "tokens_of EmailTokens d = email_tokens d"
| "tokens_of ResetTokens d = reset_tokens d"

fun set_tokens :: "token_table \<Rightarrow> account_token list \<Rightarrow> users_db \<Rightarrow> users_db" where
  "set_tokens EmailTokens ts d = d\<lparr>email_tokens := ts\<rparr>"
| "set_tokens ResetTokens ts d = d\<lparr>reset_tokens := ts\<rparr>"

record user_res =
  ux_id :: string
  ux_created_at :: string
  ux_updated_at :: "string option"
  ux_deleted_at :: "string option"
  ux_username :: string
  ux_email :: string
  ux_phone :: string
  ux_role :: role
  ux_email_verified :: bool

definition user_res_new :: "externs \<Rightarrow> user \<Rightarrow> user_res" where
  "user_res_new x u =
     \<lparr>ux_id = uuid_str x (us_id u), ux_created_at = dt_str x (us_created_at u),
      ux_updated_at = map_option (dt_str x) (us_updated_at u), ux_deleted_at = map_option (dt_str x) (us_deleted_at u),
      ux_username = us_username u, ux_email = us_email u, ux_phone = us_phone u, ux_role = us_role u,
      ux_email_verified = us_email_verified u\<rparr>"

text \<open>The domain type, whose fields are validated again.\<close>

record domain_user =
  du_id :: uuid
  du_username :: string
  du_password :: string
  du_email :: string
  du_phone :: string
  du_role :: role

definition user_try_from :: "externs \<Rightarrow> user_externs \<Rightarrow> user \<Rightarrow> (domain_user, app_error) result" where
  "user_try_from x y u =
     and_then (username_new x (us_username u)) (\<lambda>name.
     and_then (email_new x (us_email u)) (\<lambda>mail.
     and_then (phone_new y (us_phone u)) (\<lambda>tel.
       Ok \<lparr>du_id = us_id u, du_username = name, du_password = us_password u, du_email = mail, du_phone = tel,
           du_role = us_role u\<rparr>)))"

section \<open>Statements on users\<close>

definition user_not_found :: "externs \<Rightarrow> db_error \<Rightarrow> app_error" where
  "user_not_found x e = NotFound (''User not found: '' @ db_text x e)"

definition live_user :: "uuid \<Rightarrow> user \<Rightarrow> bool" where
  "live_user uid u \<longleftrightarrow> us_id u = uid \<and> us_deleted_at u = None"

definition get_user_by_id :: "externs \<Rightarrow> executor \<Rightarrow> uuid \<Rightarrow> (users_db srv, app_error, user) eff" where
  "get_user_by_id x ex uid =
     map_err (user_not_found x) (fetch_one (query ex (\<lambda>d. filter (live_user uid) (users d))))"

definition get_user_by_username :: "externs \<Rightarrow> executor \<Rightarrow> string \<Rightarrow> (users_db srv, app_error, user) eff" where
  "get_user_by_username x ex name =
     map_err (user_not_found x)
       (fetch_one (query ex (\<lambda>d. filter (\<lambda>u. us_username u = name \<and> us_deleted_at u = None) (users d))))"

definition get_user_by_email :: "externs \<Rightarrow> executor \<Rightarrow> string \<Rightarrow> (users_db srv, app_error, user) eff" where
  "get_user_by_email x ex mail =
     map_err (user_not_found x)
       (fetch_one (query ex (\<lambda>d. filter (\<lambda>u. us_email u = mail \<and> us_deleted_at u = None) (users d))))"

definition user_row :: "uuid \<Rightarrow> timestamp \<Rightarrow> string \<Rightarrow> string \<Rightarrow> string \<Rightarrow> string \<Rightarrow> role \<Rightarrow> user" where
  "user_row rid now name hash mail tel rl =
     \<lparr>us_id = rid, us_created_at = now, us_updated_at = None, us_deleted_at = None, us_username = name,
      us_password = hash, us_email = mail, us_phone = tel, us_role = rl, us_email_verified = False\<rparr>"

definition insert_user_sql :: "valid_user_create \<Rightarrow> string \<Rightarrow> uuid \<Rightarrow> (users_db, uuid) sql" where
  "insert_user_sql req hash rid now d =
     (case (varchar_col 255 (vn_username req), varchar_col 255 (vn_email req), varchar_col 50 (vn_phone req)) of
        (Inr name, Inr mail, Inr tel) \<Rightarrow>
          if rid \<in> us_id ` set (users d) then Inl (UniqueViolation ''users_pkey'')
          else if name \<in> us_username ` set (users d) then Inl (UniqueViolation ''users_username_key'')
          else if mail \<in> us_email ` set (users d) then Inl (UniqueViolation ''users_email_key'')
          else Inr (rid, d\<lparr>users := users d @ [user_row rid now name hash mail tel (vn_role req)]\<rparr>)
      | (Inl e, _, _) \<Rightarrow> Inl e
      | (_, Inl e, _) \<Rightarrow> Inl e
      | (_, _, Inl e) \<Rightarrow> Inl e)"

definition create_user :: "externs \<Rightarrow> valid_user_create \<Rightarrow> string \<Rightarrow> (users_db srv, app_error, uuid) eff" where
  "create_user x req hash =
     bnd next_uuid (\<lambda>rid.
       map_err (failed x ''Failed to create user: '') (stmt Tx (insert_user_sql req hash rid)))"

text \<open>An assertion that one row was affected.\<close>

definition exactly_one :: "string \<Rightarrow> nat \<Rightarrow> ('s, 'e, unit) eff" where
  "exactly_one what rows = (if rows \<noteq> 1 then panic what else ret ())"

definition verify_email_sql :: "uuid \<Rightarrow> (users_db, nat) sql" where
  "verify_email_sql uid now d =
     Inr (count_where (\<lambda>u. us_id u = uid) (users d),
          d\<lparr>users := update_where (\<lambda>u. us_id u = uid) (\<lambda>u. u\<lparr>us_email_verified := True, us_updated_at := Some now\<rparr>) (users d)\<rparr>)"

definition verify_user_email :: "externs \<Rightarrow> uuid \<Rightarrow> (users_db srv, app_error, unit) eff" where
  "verify_user_email x uid =
     bnd (map_err (failed x ''Failed to verify user email: '') (stmt Tx (verify_email_sql uid)))
       (exactly_one ''UPDATE must affect exactly 1 row'')"

definition set_user :: "string \<Rightarrow> string \<Rightarrow> string \<Rightarrow> role \<Rightarrow> timestamp \<Rightarrow> user \<Rightarrow> user" where
  "set_user name mail tel rl now u =
     u\<lparr>us_username := name, us_email := mail, us_phone := tel, us_role := rl, us_updated_at := Some now\<rparr>"

definition update_user_sql :: "uuid \<Rightarrow> valid_user_update \<Rightarrow> (users_db, nat) sql" where
  "update_user_sql uid req now d =
     (case (varchar_col 255 (vm_username req), varchar_col 255 (vm_email req), varchar_col 50 (vm_phone req)) of
        (Inr name, Inr mail, Inr tel) \<Rightarrow>
          let hit = list_ex (live_user uid) (users d) in
          if hit \<and> list_ex (\<lambda>u. \<not> live_user uid u \<and> us_username u = name) (users d)
          then Inl (UniqueViolation ''users_username_key'')
          else if hit \<and> list_ex (\<lambda>u. \<not> live_user uid u \<and> us_email u = mail) (users d)
          then Inl (UniqueViolation ''users_email_key'')
          else Inr (count_where (live_user uid) (users d),
                    d\<lparr>users := update_where (live_user uid) (set_user name mail tel (vm_role req) now) (users d)\<rparr>)
      | (Inl e, _, _) \<Rightarrow> Inl e
      | (_, Inl e, _) \<Rightarrow> Inl e
      | (_, _, Inl e) \<Rightarrow> Inl e)"

definition update_user :: "externs \<Rightarrow> uuid \<Rightarrow> valid_user_update \<Rightarrow> (users_db srv, app_error, unit) eff" where
  "update_user x uid req =
     bnd (map_err (failed x ''Failed to update user: '') (stmt Tx (update_user_sql uid req)))
       (one_row ''User not found'' ''UPDATE must affect exactly 1 row'')"

definition delete_user_sql :: "uuid \<Rightarrow> (users_db, nat) sql" where
  "delete_user_sql uid now d =
     Inr (count_where (live_user uid) (users d),
          d\<lparr>users := update_where (live_user uid) (\<lambda>u. u\<lparr>us_deleted_at := Some now\<rparr>) (users d)\<rparr>)"

definition delete_user :: "externs \<Rightarrow> uuid \<Rightarrow> (users_db srv, app_error, unit) eff" where
  "delete_user x uid =
     bnd (map_err (failed x ''Failed to delete user: '') (stmt Tx (delete_user_sql uid)))
       (one_row ''User not found'' ''DELETE must affect exactly 1 row'')"

definition update_password_sql :: "uuid \<Rightarrow> string \<Rightarrow> (users_db, nat) sql" where
  "update_password_sql uid hash now d =
     Inr (count_where (\<lambda>u. us_id u = uid) (users d),
          d\<lparr>users := update_where (\<lambda>u. us_id u = uid) (\<lambda>u. u\<lparr>us_password := hash, us_updated_at := Some now\<rparr>) (users d)\<rparr>)"

definition update_user_password :: "externs \<Rightarrow> uuid \<Rightarrow> string \<Rightarrow> (users_db srv, app_error, unit) eff" where
  "update_user_password x uid hash =
     bnd (map_err (failed x ''Failed to update user password: '') (stmt Tx (update_password_sql uid hash)))
       (exactly_one ''UPDATE must affect exactly 1 row'')"

section \<open>Statements on tokens\<close>

fun token_key :: "token_table \<Rightarrow> string" where
  "token_key EmailTokens = ''email_verification_tokens''"
| "token_key ResetTokens = ''password_reset_tokens''"

definition insert_token_sql ::
  "token_table \<Rightarrow> uuid \<Rightarrow> string \<Rightarrow> timestamp \<Rightarrow> uuid \<Rightarrow> (users_db, nat) sql" where
  "insert_token_sql tb uid token expires rid now d =
     (case varchar_col 64 token of
        Inl e \<Rightarrow> Inl e
      | Inr tok \<Rightarrow>
          if rid \<in> tk_id ` set (tokens_of tb d) then Inl (UniqueViolation (token_key tb @ ''_pkey''))
          else if tok \<in> tk_token ` set (tokens_of tb d) then Inl (UniqueViolation (token_key tb @ ''_token_key''))
          else if uid \<notin> us_id ` set (users d) then Inl (ForeignKeyViolation (token_key tb @ ''_user_id_fkey''))
          else Inr (1, set_tokens tb (tokens_of tb d @
                 [\<lparr>tk_id = rid, tk_created_at = now, tk_user_id = uid, tk_token = tok, tk_expires_at = expires,
                   tk_used_at = None\<rparr>]) d))"

definition create_token ::
  "externs \<Rightarrow> token_table \<Rightarrow> string \<Rightarrow> uuid \<Rightarrow> string \<Rightarrow> timestamp \<Rightarrow> (users_db srv, app_error, unit) eff" where
  "create_token x tb what uid token expires =
     bnd next_uuid (\<lambda>rid.
     bnd (map_err (failed x what) (stmt Tx (insert_token_sql tb uid token expires rid)))
       (exactly_one ''INSERT must affect exactly 1 row''))"

definition create_verification_token ::
  "externs \<Rightarrow> uuid \<Rightarrow> string \<Rightarrow> timestamp \<Rightarrow> (users_db srv, app_error, unit) eff" where
  "create_verification_token x = create_token x EmailTokens ''Failed to create verification token: ''"

definition create_password_reset_token ::
  "externs \<Rightarrow> uuid \<Rightarrow> string \<Rightarrow> timestamp \<Rightarrow> (users_db srv, app_error, unit) eff" where
  "create_password_reset_token x = create_token x ResetTokens ''Failed to create password reset token: ''"

text \<open>A token is valid while it has not been used and has not expired.\<close>

definition valid_token :: "string \<Rightarrow> timestamp \<Rightarrow> account_token \<Rightarrow> bool" where
  "valid_token token now t \<longleftrightarrow> tk_token t = token \<and> tk_used_at t = None \<and> tk_expires_at t > now"

definition get_valid_token ::
  "token_table \<Rightarrow> executor \<Rightarrow> string \<Rightarrow> (users_db srv, db_error, account_token) eff" where
  "get_valid_token tb ex token =
     fetch_one (stmt ex (\<lambda>now d. Inr (filter (valid_token token now) (tokens_of tb d), d)))"

definition get_valid_verification_token ::
  "externs \<Rightarrow> executor \<Rightarrow> string \<Rightarrow> (users_db srv, app_error, account_token) eff" where
  "get_valid_verification_token x ex token =
     map_err (\<lambda>_. BadRequest ''Invalid or expired verification token'') (get_valid_token EmailTokens ex token)"

definition get_valid_password_reset_token ::
  "externs \<Rightarrow> executor \<Rightarrow> string \<Rightarrow> (users_db srv, app_error, account_token) eff" where
  "get_valid_password_reset_token x ex token =
     map_err (\<lambda>_. BadRequest ''Invalid or expired password reset token'') (get_valid_token ResetTokens ex token)"

definition use_token_sql :: "token_table \<Rightarrow> uuid \<Rightarrow> (users_db, nat) sql" where
  "use_token_sql tb tid now d =
     Inr (count_where (\<lambda>t. tk_id t = tid) (tokens_of tb d),
          set_tokens tb (update_where (\<lambda>t. tk_id t = tid) (\<lambda>t. t\<lparr>tk_used_at := Some now\<rparr>) (tokens_of tb d)) d)"

definition use_token :: "externs \<Rightarrow> token_table \<Rightarrow> string \<Rightarrow> uuid \<Rightarrow> (users_db srv, app_error, unit) eff" where
  "use_token x tb what tid =
     bnd (map_err (failed x what) (stmt Tx (use_token_sql tb tid)))
       (exactly_one ''UPDATE must affect exactly 1 row'')"

definition mark_token_used :: "externs \<Rightarrow> uuid \<Rightarrow> (users_db srv, app_error, unit) eff" where
  "mark_token_used x = use_token x EmailTokens ''Failed to mark token as used: ''"

definition mark_reset_token_used :: "externs \<Rightarrow> uuid \<Rightarrow> (users_db srv, app_error, unit) eff" where
  "mark_reset_token_used x = use_token x ResetTokens ''Failed to mark reset token as used: ''"

end
