(* ===== verification/User_Service.thy ===== *)
theory User_Service
  imports Users Cache "HOL-Library.Word"
begin

text \<open>
  The identity service: \<open>identity/src/users/service.rs\<close>, the cached current user of \<open>identity/src/lib.rs\<close>,
  the routes of \<open>routes.rs\<close> behind the middleware, and the query of \<open>grpc_service.rs\<close>. The state is the
  database session, the cache, and what the process draws and sends: random bytes, salts and e-mails
  (\<open>shared/src/email/mod.rs\<close>).
\<close>

section \<open>Random numbers and e-mail\<close>

record email_message =
  em_to :: string
  em_subject :: string
  em_body_html :: string

record mailroom =
  ml_random :: "nat \<Rightarrow> nat \<Rightarrow> 8 word"
  ml_salt :: "nat \<Rightarrow> string"
  ml_drawn :: nat
  ml_outcomes :: "(unit, app_error) result list" \<comment> \<open>of the calls to come; then they succeed\<close>
  ml_sent :: "email_message list"

text \<open>The mock provider accepts every message; another one may fail.\<close>

definition send_email :: "email_message \<Rightarrow> (mailroom, app_error, unit) eff" where
  "send_email m r =
     ((case ml_outcomes r of [] \<Rightarrow> Ok () | res # _ \<Rightarrow> res),
      r\<lparr>ml_outcomes := tl (ml_outcomes r), ml_sent := ml_sent r @ [m]\<rparr>)"

definition hex_digit :: "nat \<Rightarrow> char" where
  "hex_digit n = (if n < 10 then char_of (48 + n) else char_of (87 + n))"

definition hex_byte :: "8 word \<Rightarrow> string" where
  "hex_byte b = [hex_digit (unat b div 16), hex_digit (unat b mod 16)]"

definition generate_verification_token :: "(mailroom, 'e, string) eff" where
  "generate_verification_token r =
     (Ok (concat (map (\<lambda>i. hex_byte (ml_random r (ml_drawn r) i)) [0..<32])), r\<lparr>ml_drawn := Suc (ml_drawn r)\<rparr>)"

definition hash_password :: "user_externs \<Rightarrow> string \<Rightarrow> (mailroom, app_error, string) eff" where
  "hash_password y pw r =
     ((case argon_hash y pw (ml_salt r (ml_drawn r)) of
         Inr h \<Rightarrow> Ok h
       | Inl e \<Rightarrow> Err (InternalServerError (''Failed to hash password: '' @ e))), r\<lparr>ml_drawn := Suc (ml_drawn r)\<rparr>)"

definition verify_password :: "user_externs \<Rightarrow> string \<Rightarrow> string \<Rightarrow> (unit, app_error) result" where
  "verify_password y pw hash =
     (case hash_parse y hash of
        Some e \<Rightarrow> Err (InternalServerError (''Invalid password hash: '' @ e))
      | None \<Rightarrow>
          (case argon_verify y pw hash of
             HashMatches \<Rightarrow> Ok ()
           | HashDiffers \<Rightarrow> Err (Unauthorized ''Invalid credentials'')
           | HashFailure e \<Rightarrow> Err (InternalServerError (''Failed to verify password: '' @ e))))"

section \<open>The current user\<close>

type_synonym accounts = "users_db srv \<times> redis option \<times> mailroom"

definition on_cache :: "(redis option, 'e, 'a) eff \<Rightarrow> (accounts, 'e, 'a) eff" where
  "on_cache m = on_snd (on_fst m)"

definition on_mail :: "(mailroom, 'e, 'a) eff \<Rightarrow> (accounts, 'e, 'a) eff" where
  "on_mail m = on_snd (on_snd m)"

definition user_cache_ttl :: nat where
  "user_cache_ttl = 300"

definition user_cache_key :: "externs \<Rightarrow> uuid \<Rightarrow> string" where
  "user_cache_key x uid = ''user:'' @ uuid_str x uid"

definition current_user_by_id :: "externs \<Rightarrow> user_externs \<Rightarrow> uuid \<Rightarrow> (accounts, app_error, current_user) eff" where
  "current_user_by_id x y uid =
     bnd (on_cache (cache_get (current_of_text y) (user_cache_key x uid))) (\<lambda>cached.
       case cached of
         Some u \<Rightarrow> ret u
       | None \<Rightarrow>
           bnd (on_fst (get_user_by_id x Pool uid)) (\<lambda>row.
           let u = \<lparr>cu_id = us_id row, cu_role = us_role row\<rparr> in
           bnd (on_cache (cache_set (current_text y) user_cache_ttl (user_cache_key x uid) u)) (\<lambda>_. ret u)))"

section \<open>Accounts\<close>

text \<open>\<open>Utc::now()\<close>, and the expiry of a token a day later.\<close>

definition utc_now :: "('d srv, 'e, timestamp) eff" where
  "utc_now = bnd next_stamp (\<lambda>(_, now). ret now)"

definition one_day :: nat where
  "one_day = 86400000000"

definition token_expiry :: "externs \<Rightarrow> (accounts, app_error, timestamp) eff" where
  "token_expiry x =
     bnd (on_fst utc_now) (\<lambda>now. of_result (or_panic ''DateTime + TimeDelta overflowed'' (dt_add x now one_day)))"

text \<open>A failure to send is only logged.\<close>

definition post_email :: "email_message \<Rightarrow> (accounts, app_error, unit) eff" where
  "post_email m = bnd (attempt (on_mail (send_email m))) (\<lambda>_. ret ())"

definition verification_email :: "string \<Rightarrow> string \<Rightarrow> email_message" where
  "verification_email mail token =
     \<lparr>em_to = mail, em_subject = ''Verify your email address'',
      em_body_html = ''<h1>Email Verification</h1><p>Your verification token is: <strong>'' @ token @ ''</strong></p>''\<rparr>"

definition reset_email :: "string \<Rightarrow> string \<Rightarrow> email_message" where
  "reset_email mail token =
     \<lparr>em_to = mail, em_subject = ''Reset your password'',
      em_body_html = ''<h1>Password Reset</h1><p>Your password reset token is: <strong>'' @ token @ ''</strong></p>''\<rparr>"

definition create_user_account ::
  "externs \<Rightarrow> user_externs \<Rightarrow> user_create_req \<Rightarrow> (accounts, app_error, unit) eff" where
  "create_user_account x y req =
     bnd (of_result (valid_user_create_new x y req)) (\<lambda>v.
     bnd (on_mail (hash_password y (vn_password v))) (\<lambda>hash.
     bnd (on_mail generate_verification_token) (\<lambda>token.
     bnd (token_expiry x) (\<lambda>expires.
     bnd (on_fst (in_tx x ''Failed to create user: ''
            (bnd (create_user x v hash) (\<lambda>uid. create_verification_token x uid token expires)))) (\<lambda>_.
       post_email (verification_email (vn_email v) token))))))"

definition verify_email :: "externs \<Rightarrow> string \<Rightarrow> (accounts, app_error, unit) eff" where
  "verify_email x token =
     bnd (on_fst (get_valid_verification_token x Pool token)) (\<lambda>t.
       on_fst (in_tx x ''Failed to verify email: ''
         (bnd (verify_user_email x (tk_user_id t)) (\<lambda>_. mark_token_used x (tk_id t)))))"

definition get_user :: "externs \<Rightarrow> uuid \<Rightarrow> (accounts, app_error, user_res) eff" where
  "get_user x uid = bnd (on_fst (get_user_by_id x Pool uid)) (\<lambda>u. ret (user_res_new x u))"

definition update_user_account ::
  "externs \<Rightarrow> user_externs \<Rightarrow> uuid \<Rightarrow> user_update_req \<Rightarrow> (accounts, app_error, unit) eff" where
  "update_user_account x y uid req =
     bnd (of_result (valid_user_update_new x y req)) (\<lambda>v.
     bnd (on_fst (in_tx x ''Failed to update user: '' (update_user x uid v))) (\<lambda>_.
       on_cache (evict (user_cache_key x uid))))"

definition delete_user_account :: "externs \<Rightarrow> uuid \<Rightarrow> (accounts, app_error, unit) eff" where
  "delete_user_account x uid =
     bnd (on_fst (in_tx x ''Failed to delete user: '' (delete_user x uid))) (\<lambda>_.
       on_cache (evict (user_cache_key x uid)))"

section \<open>Sessions\<close>

definition auth_failure :: "auth_error \<Rightarrow> app_error" where
  "auth_failure e = Unauthorized (auth_error_str e)"

datatype user_login_res = LoginSuccess jwt_tokens | LoginFailure app_error

definition login_user ::
  "externs \<Rightarrow> user_externs \<Rightarrow> jwt_externs \<Rightarrow> auth_config \<Rightarrow> user_login_req \<Rightarrow> (accounts, app_error, user_login_res) eff" where
  "login_user x y j cfg req =
     bnd (of_result (username_new x (ul_username req))) (\<lambda>name.
     bnd (on_fst (get_user_by_username x Pool name)) (\<lambda>u.
       if \<not> us_email_verified u then throw (Forbidden ''Please verify your email before logging in'')
       else
         bnd (of_result (verify_password y (ul_password req) (us_password u))) (\<lambda>_.
         bnd (on_fst (map_err auth_failure (generate_access_token x j cfg (us_id u) (us_username u) (us_role u)))) (\<lambda>access.
         bnd (on_fst (map_err auth_failure (jwt_refresh_token x j cfg (us_id u)))) (\<lambda>refresh.
           ret (LoginSuccess \<lparr>jt_access_token = access, jt_refresh_token = refresh\<rparr>))))))"

definition generate_refresh_token ::
  "externs \<Rightarrow> jwt_externs \<Rightarrow> auth_config \<Rightarrow> string \<Rightarrow> (accounts, app_error, string) eff" where
  "generate_refresh_token x j cfg token =
     bnd (on_fst (map_err auth_failure (validate_refresh_token x j cfg token))) (\<lambda>c.
     bnd (on_fst (get_user_by_id x Pool (rt_sub c))) (\<lambda>u.
       on_fst (map_err auth_failure (generate_access_token x j cfg (us_id u) (us_username u) (us_role u)))))"

section \<open>Passwords\<close>

definition forgot_password :: "externs \<Rightarrow> string \<Rightarrow> (accounts, app_error, unit) eff" where
  "forgot_password x mail =
     bnd (of_result (email_new x mail)) (\<lambda>m.
     bnd (attempt (on_fst (get_user_by_email x Pool m))) (\<lambda>found.
       case found of
         Ok u \<Rightarrow>
           bnd (on_mail generate_verification_token) (\<lambda>token.
           bnd (token_expiry x) (\<lambda>expires.
           bnd (on_fst (in_tx x ''Failed to create password reset token: ''
                  (create_password_reset_token x (us_id u) token expires))) (\<lambda>_.
             post_email (reset_email mail token))))
       | _ \<Rightarrow> ret ()))"

definition reset_password ::
  "externs \<Rightarrow> user_externs \<Rightarrow> reset_password_req \<Rightarrow> (accounts, app_error, unit) eff" where
  "reset_password x y req =
     bnd (on_fst (get_valid_password_reset_token x Pool (rp_token req))) (\<lambda>t.
     bnd (of_result (password_new y (rp_new_password req))) (\<lambda>pw.
     bnd (on_mail (hash_password y pw)) (\<lambda>hash.
       on_fst (in_tx x ''Failed to reset password: ''
         (bnd (update_user_password x (tk_user_id t) hash) (\<lambda>_. mark_reset_token_used x (tk_id t)))))))"

definition change_password ::
  "externs \<Rightarrow> user_externs \<Rightarrow> uuid \<Rightarrow> change_password_req \<Rightarrow> (accounts, app_error, unit) eff" where
  "change_password x y uid req =
     bnd (on_fst (get_user_by_id x Pool uid)) (\<lambda>u.
     bnd (of_result (verify_password y (cp_current_password req) (us_password u))) (\<lambda>_.
       if cp_current_password req = cp_new_password req
       then throw (BadRequest ''New password must be different from the current password'')
       else
         bnd (of_result (password_new y (cp_new_password req))) (\<lambda>pw.
         bnd (on_mail (hash_password y pw)) (\<lambda>hash.
         bnd (on_fst (in_tx x ''Failed to change password: '' (update_user_password x uid hash))) (\<lambda>_.
           on_cache (evict (user_cache_key x uid)))))))"

section \<open>Routes\<close>

datatype user_route =
    RRegister user_create_req
  | RLogin user_login_req
  | RRefresh string
  | RVerifyEmail string
  | RForgotPassword string
  | RResetPassword reset_password_req
  | RGetUser uuid
  | RUpdateUser uuid user_update_req
  | RDeleteUser uuid
  | RChangePassword change_password_req

fun protected_route :: "user_route \<Rightarrow> bool" where
  "protected_route (RGetUser uid) = True"
| "protected_route (RUpdateUser uid req) = True"
| "protected_route (RDeleteUser uid) = True"
| "protected_route (RChangePassword req) = True"
| "protected_route _ = False"

datatype user_reply =
    UserDone nat string
  | UserReply user_res
  | TokensReply jwt_tokens
  | AccessReply string

definition user_done :: "nat \<Rightarrow> string \<Rightarrow> ('s, app_error, unit) eff \<Rightarrow> ('s, app_error, user_reply) eff" where
  "user_done status message m = bnd m (\<lambda>_. ret (UserDone status message))"

fun login_reply :: "user_login_res \<Rightarrow> (user_reply, app_error) result" where
  "login_reply (LoginSuccess tokens) = Ok (TokensReply tokens)"
| "login_reply (LoginFailure e) = Err (Unauthorized ''Incorrect credentials'')"

fun public_handler ::
  "externs \<Rightarrow> user_externs \<Rightarrow> jwt_externs \<Rightarrow> auth_config \<Rightarrow> user_route \<Rightarrow> (accounts, app_error, user_reply) eff" where
  "public_handler x y j cfg (RRegister req) =
     user_done 201 ''User registered successfully'' (create_user_account x y req)"
| "public_handler x y j cfg (RLogin req) = bnd (login_user x y j cfg req) (\<lambda>res. of_result (login_reply res))"
| "public_handler x y j cfg (RRefresh token) = bnd (generate_refresh_token x j cfg token) (\<lambda>t. ret (AccessReply t))"
| "public_handler x y j cfg (RVerifyEmail token) = user_done 200 ''Email verified successfully'' (verify_email x token)"
| "public_handler x y j cfg (RForgotPassword mail) =
     user_done 200 ''If the email exists, a password reset link has been sent'' (forgot_password x mail)"
| "public_handler x y j cfg (RResetPassword req) =
     user_done 200 ''Password has been reset successfully'' (reset_password x y req)"
| "public_handler x y j cfg _ = throw (NotFound '''')"

fun protected_handler ::
  "externs \<Rightarrow> user_externs \<Rightarrow> current_user \<Rightarrow> user_route \<Rightarrow> (accounts, app_error, user_reply) eff" where
  "protected_handler x y u (RGetUser uid) =
     bnd (of_result (require_access u uid)) (\<lambda>_. bnd (get_user x uid) (\<lambda>v. ret (UserReply v)))"
| "protected_handler x y u (RUpdateUser uid req) =
     bnd (of_result (require_access u uid)) (\<lambda>_.
       user_done 200 ''User updated successfully'' (update_user_account x y uid req))"
| "protected_handler x y u (RDeleteUser uid) =
     bnd (of_result (require_access u uid)) (\<lambda>_.
       user_done 200 ''User deleted successfully'' (delete_user_account x uid))"
| "protected_handler x y u (RChangePassword req) =
     user_done 200 ''Password changed successfully'' (change_password x y (cu_id u) req)"
| "protected_handler x y u _ = throw (NotFound '''')"

text \<open>A request is its authorization header and its route; the protected routes are behind the middleware,
  whose refusals are \<open>Inl\<close>.\<close>

definition identity_app ::
  "externs \<Rightarrow> user_externs \<Rightarrow> jwt_externs \<Rightarrow> auth_config \<Rightarrow> string option \<Rightarrow> user_route \<Rightarrow>
     (accounts, auth_middleware_error + app_error, user_reply) eff" where
  "identity_app x y j cfg header rt =
     (if protected_route rt then
        bnd (map_err Inl (auth_handle x j cfg (Some (current_user_by_id x y)) header)) (\<lambda>(u, c).
          map_err Inr (protected_handler x y u rt))
      else map_err Inr (public_handler x y j cfg rt))"

section \<open>The query of other services\<close>

datatype grpc_status = InvalidArgument string | GrpcNotFound string | GrpcInternal string

record get_user_response =
  gu_id :: string
  gu_username :: string
  gu_email :: string
  gu_role :: string
  gu_email_verified :: bool

fun grpc_error :: "app_error \<Rightarrow> grpc_status" where
  "grpc_error (NotFound m) = GrpcNotFound m"
| "grpc_error e = GrpcInternal (app_error_str e)"

definition grpc_get_user ::
  "externs \<Rightarrow> user_externs \<Rightarrow> string \<Rightarrow> (users_db srv, grpc_status, get_user_response) eff" where
  "grpc_get_user x y text_id =
     bnd (of_result (ok_or (InvalidArgument (''Invalid UUID: '' @ uuid_error y text_id)) (uuid_parse x text_id))) (\<lambda>uid.
     bnd (map_err grpc_error (get_user_by_id x Pool uid)) (\<lambda>u.
       ret \<lparr>gu_id = uuid_str x (us_id u), gu_username = us_username u, gu_email = us_email u,
            gu_role = role_str (us_role u), gu_email_verified = us_email_verified u\<rparr>))"

end
