(* ===== verification/User_Proofs.thy ===== *)
theory User_Proofs
  imports User_Service
begin

text \<open>
  What the identity service guarantees. A locale states what an invariant of the tables and the cache
  must survive, statement by statement, and lifts it to every route behind the middleware; it is
  interpreted for the consistency of the tables, for the freshness of the cached users, for spent tokens
  and for the rows of one user.
\<close>

section \<open>Value objects\<close>

lemma code_char_ascii: "code_char c \<Longrightarrow> (of_char c :: nat) < 128"
  by (auto simp: code_char_def is_ascii_uppercase_def is_ascii_lowercase_def is_ascii_digit_def)

text \<open>Lower-casing of ASCII.\<close>

definition to_ascii_lowercase :: "char \<Rightarrow> char" where
  "to_ascii_lowercase c = (if is_ascii_uppercase c then char_of (of_char c + 32 :: nat) else c)"

definition lower_ascii :: "externs \<Rightarrow> bool" where
  "lower_ascii x \<longleftrightarrow> (\<forall>s. list_all (\<lambda>c. (of_char c :: nat) < 128) s \<longrightarrow> lower x s = map to_ascii_lowercase s)"

lemma to_ascii_lowercase_cases:
  "is_ascii_uppercase c \<Longrightarrow> is_ascii_lowercase (to_ascii_lowercase c)"
  "\<not> is_ascii_uppercase c \<Longrightarrow> to_ascii_lowercase c = c"
  by (simp add: to_ascii_lowercase_def is_ascii_uppercase_def is_ascii_lowercase_def) (simp add: to_ascii_lowercase_def)

lemma to_ascii_lowercase_idem [simp]: "to_ascii_lowercase (to_ascii_lowercase c) = to_ascii_lowercase c"
  using to_ascii_lowercase_cases by (cases "is_ascii_uppercase c")
     (auto simp: to_ascii_lowercase_def is_ascii_uppercase_def is_ascii_lowercase_def)

text \<open>The language of the pattern of e-mail addresses, over bytes.\<close>

definition email_address :: "string \<Rightarrow> bool" where
  "email_address s \<longleftrightarrow>
     (\<exists>l d t. s = l @ CHR ''@'' # d @ CHR ''.'' # t \<and> l \<noteq> [] \<and> list_all email_local_char l \<and>
        d \<noteq> [] \<and> list_all email_domain_char d \<and> length t \<ge> 2 \<and> list_all is_letter t)"

definition email_char :: "char \<Rightarrow> bool" where
  "email_char c \<longleftrightarrow> code_char c \<or> c \<in> set ''._%+-@''"

lemma email_char_ascii: "email_char c \<Longrightarrow> (of_char c :: nat) < 128"
  using code_char_ascii by (auto simp: email_char_def)

lemma email_address_chars: "email_address s \<Longrightarrow> list_all email_char s"
  by (auto simp: email_address_def list_all_iff email_char_def email_local_char_def email_domain_char_def is_letter_def
      code_char_def)

lemma ascii_not_continuation: "(of_char c :: nat) < 128 \<Longrightarrow> \<not> continuation c"
  by (simp add: continuation_def)

lemma in_lang_email: "in_lang email_re w \<longleftrightarrow> (\<exists>s. w = map (\<lambda>c. [c]) s \<and> email_address s)"
proof
  assume "in_lang email_re w"
  then obtain l d a t where w: "w = map (\<lambda>c. [c]) l @ [''@''] @ map (\<lambda>c. [c]) d @ [''.''] @ [[a]] @ map (\<lambda>c. [c]) t"
      "l \<noteq> []" "list_all email_local_char l" "d \<noteq> []" "list_all email_domain_char d" "is_letter a" "t \<noteq> []" "list_all is_letter t"
    unfolding email_re_def seqs.simps in_lang_simps in_lang_plus_bytes in_lang_lit byte_class_iff by blast
  let ?s = "l @ CHR ''@'' # d @ CHR ''.'' # a # t"
  have "w = map (\<lambda>c. [c]) ?s" using w(1) by simp
  moreover have "email_address ?s"
    unfolding email_address_def
    by (rule exI[of _ l], rule exI[of _ d], rule exI[of _ "a # t"]) (use w(2-8) in \<open>cases t; simp\<close>)
  ultimately show "\<exists>s. w = map (\<lambda>c. [c]) s \<and> email_address s" by blast
next
  assume "\<exists>s. w = map (\<lambda>c. [c]) s \<and> email_address s"
  then obtain l d t where w: "w = map (\<lambda>c. [c]) (l @ CHR ''@'' # d @ CHR ''.'' # t)" "l \<noteq> []" "list_all email_local_char l"
      "d \<noteq> []" "list_all email_domain_char d" "length t \<ge> 2" "list_all is_letter t"
    by (auto simp: email_address_def)
  obtain a b u where t: "t = a # b # u" using w(6) by (cases t; cases "tl t") auto
  have "in_lang (plus (Class (byte_class is_letter))) (map (\<lambda>c. [c]) (b # u))"
    unfolding in_lang_plus_bytes using w(7) t by (intro exI[of _ "b # u"]) simp
  then have "in_lang email_re (map (\<lambda>c. [c]) l @ [''@''] @ map (\<lambda>c. [c]) d @ [''.''] @ [[a]] @ map (\<lambda>c. [c]) (b # u))"
    unfolding email_re_def seqs.simps
    by (intro lang_seq lang_class) (use w t in \<open>auto simp: in_lang_lit byte_class_iff in_lang_plus_bytes\<close>)
  then show "in_lang email_re w" using w(1) t by simp
qed

lemma is_match_email: "is_match email_re s \<longleftrightarrow> email_address s"
proof
  assume "is_match email_re s"
  then show "email_address s" using utf8_chars_bytes by (auto simp: is_match_def matches_iff in_lang_email)
next
  assume e: "email_address s"
  then have "list_all (\<lambda>c. \<not> continuation c) s"
    using email_address_chars email_char_ascii ascii_not_continuation by (fastforce simp: list_all_iff)
  then show "is_match email_re s" using e by (auto simp: is_match_def matches_iff in_lang_email utf8_chars_ascii)
qed

lemma lower_email_chars:
  "email_local_char c \<Longrightarrow> email_local_char (to_ascii_lowercase c)"
  "email_domain_char c \<Longrightarrow> email_domain_char (to_ascii_lowercase c)"
  "is_letter c \<Longrightarrow> is_letter (to_ascii_lowercase c)"
  by (cases "is_ascii_uppercase c"; simp add: to_ascii_lowercase_cases email_local_char_def email_domain_char_def
      is_letter_def code_char_def)+

lemma email_address_lower: "email_address s \<Longrightarrow> email_address (map to_ascii_lowercase s)"
proof -
  assume "email_address s"
  then obtain l d t where s: "s = l @ CHR ''@'' # d @ CHR ''.'' # t" "l \<noteq> []" "list_all email_local_char l" "d \<noteq> []"
      "list_all email_domain_char d" "length t \<ge> 2" "list_all is_letter t"
    by (auto simp: email_address_def)
  have fixed: "to_ascii_lowercase CHR ''@'' = CHR ''@''" "to_ascii_lowercase CHR ''.'' = CHR ''.''"
    by (simp_all add: to_ascii_lowercase_def is_ascii_uppercase_def)
  show ?thesis unfolding email_address_def
    by (rule exI[of _ "map to_ascii_lowercase l"], rule exI[of _ "map to_ascii_lowercase d"],
        rule exI[of _ "map to_ascii_lowercase t"])
       (use s fixed in \<open>auto simp: list_all_iff intro: lower_email_chars\<close>)
qed

lemma lower_email: "lower_ascii x \<Longrightarrow> email_address s \<Longrightarrow> lower x s = map to_ascii_lowercase s"
  using email_address_chars email_char_ascii by (auto simp: lower_ascii_def list_all_iff)

lemma trim_email: "email_address s \<Longrightarrow> trim s = s"
proof (rule trim_visible)
  assume "email_address s"
  then show "list_all (\<lambda>c. visible_char c \<and> c \<noteq> CHR '' '') s"
    using email_address_chars
    by (fastforce simp: list_all_iff email_char_def visible_char_def code_char_def is_ascii_uppercase_def
        is_ascii_lowercase_def is_ascii_digit_def)
qed

text \<open>A validated value is a fixed point of its validation.\<close>

lemma email_new_Ok:
  assumes "lower_ascii x" "email_new x input = Ok e"
  shows "email_new x e = Ok e" "length e \<le> 254" "email_address e"
proof -
  have t: "email_address (trim input)" "length (trim input) \<le> 254" "e = map to_ascii_lowercase (trim input)"
    using assms lower_email by (auto simp: email_new_def Let_def is_match_email split: if_splits)
  then show e: "email_address e" "length e \<le> 254" using email_address_lower by auto
  have "lower x e = e" using lower_email[OF assms(1) e(1)] t(3) by simp
  then show "email_new x e = Ok e" using e trim_email[OF e(1)] by (simp add: email_new_def is_match_email Let_def)
qed

lemma username_new_Ok: "username_new x input = Ok u \<Longrightarrow> username_new x u = Ok u \<and> length u \<le> 30"
  by (auto simp: username_new_def Let_def split: if_splits)

lemma phone_new_Ok: "phone_new y input = Ok p \<Longrightarrow> phone_new y p = Ok p \<and> p = trim p"
  by (auto simp: phone_new_def Let_def split: if_splits)

text \<open>A column keeps a text that does not end with white space, or refuses it.\<close>

lemma take_chars_prefix: "prefix (take_chars n s) s"
proof (induction n s rule: take_chars.induct)
  case (2 n c cs)
  then show ?case by (cases n) auto
qed simp

lemma varchar_col_trimmed:
  assumes "varchar_col n (trim s) = Inr v"
  shows "v = trim s"
proof (rule ccontr)
  assume "v \<noteq> trim s"
  then have v: "v = take_chars n (trim s)" and spaces: "list_all (\<lambda>c. c = CHR '' '') (drop (length v) (trim s))"
    using assms by (auto simp: varchar_col_def Let_def split: if_splits)
  obtain t where t: "trim s = v @ t" "t \<noteq> []"
    using take_chars_prefix[of n "trim s"] v \<open>v \<noteq> trim s\<close> unfolding prefix_def by (metis append_Nil2)
  then have "last t = CHR '' ''" using spaces by (simp add: list_all_iff)
  then have "suffix ('' '') (trim s)" using t by (metis append_butlast_last_id suffix_def append.assoc)
  then show False using trim_no_white_space(2)[of "'' ''" s] by (simp add: white_space_def)
qed

section \<open>Consistent tables\<close>

definition user_ok :: "externs \<Rightarrow> user_externs \<Rightarrow> user \<Rightarrow> bool" where
  "user_ok x y u \<longleftrightarrow>
     username_new x (us_username u) = Ok (us_username u) \<and> email_new x (us_email u) = Ok (us_email u) \<and>
     phone_new y (us_phone u) = Ok (us_phone u)"

definition tokens_ok :: "uuid set \<Rightarrow> account_token list \<Rightarrow> bool" where
  "tokens_ok ids ts \<longleftrightarrow>
     distinct (map tk_id ts) \<and> distinct (map tk_token ts) \<and> tk_user_id ` set ts \<subseteq> ids"

definition accounts_ok :: "externs \<Rightarrow> user_externs \<Rightarrow> users_db \<Rightarrow> bool" where
  "accounts_ok x y d \<longleftrightarrow>
     distinct (map us_id (users d)) \<and> distinct (map us_username (users d)) \<and> distinct (map us_email (users d)) \<and>
     list_all (user_ok x y) (users d) \<and>
     tokens_ok (us_id ` set (users d)) (email_tokens d) \<and> tokens_ok (us_id ` set (users d)) (reset_tokens d)"

lemma tokens_of_set [simp]:
  "users (set_tokens tb ts d) = users d" "tokens_of tb (set_tokens tb' ts d) = (if tb = tb' then ts else tokens_of tb d)"
  by (cases tb; cases tb'; simp)+

lemma accounts_okI:
  assumes "distinct (map us_id (users d))" "distinct (map us_username (users d))" "distinct (map us_email (users d))"
    "list_all (user_ok x y) (users d)" "\<And>tb. tokens_ok (us_id ` set (users d)) (tokens_of tb d)"
  shows "accounts_ok x y d"
  using assms(1-4) assms(5)[of EmailTokens] assms(5)[of ResetTokens] by (simp add: accounts_ok_def)

lemma accounts_ok_tokens: "accounts_ok x y d \<Longrightarrow> tokens_ok (us_id ` set (users d)) (tokens_of tb d)"
  by (cases tb) (simp_all add: accounts_ok_def)

text \<open>What the statements do where they succeed.\<close>

lemma insert_user_sql_E:
  assumes "insert_user_sql req hash rid now d = Inr (a, d')"
  obtains name mail tel where "a = rid" "varchar_col 255 (vn_username req) = Inr name" "varchar_col 255 (vn_email req) = Inr mail"
    "varchar_col 50 (vn_phone req) = Inr tel" "rid \<notin> us_id ` set (users d)" "name \<notin> us_username ` set (users d)"
    "mail \<notin> us_email ` set (users d)" "d' = d\<lparr>users := users d @ [user_row rid now name hash mail tel (vn_role req)]\<rparr>"
  using assms unfolding insert_user_sql_def
  by (cases "varchar_col 255 (vn_username req)"; cases "varchar_col 255 (vn_email req)"; cases "varchar_col 50 (vn_phone req)")
     (auto split: if_splits)

lemma update_user_sql_E:
  assumes "update_user_sql uid req now d = Inr (n, d')"
  obtains name mail tel where "varchar_col 255 (vm_username req) = Inr name" "varchar_col 255 (vm_email req) = Inr mail"
    "varchar_col 50 (vm_phone req) = Inr tel" "n = count_where (live_user uid) (users d)"
    "list_ex (live_user uid) (users d) \<Longrightarrow> list_all (\<lambda>u. us_username u = name \<longrightarrow> live_user uid u) (users d)"
    "list_ex (live_user uid) (users d) \<Longrightarrow> list_all (\<lambda>u. us_email u = mail \<longrightarrow> live_user uid u) (users d)"
    "d' = d\<lparr>users := update_where (live_user uid) (set_user name mail tel (vm_role req) now) (users d)\<rparr>"
  using assms unfolding update_user_sql_def
  by (cases "varchar_col 255 (vm_username req)"; cases "varchar_col 255 (vm_email req)"; cases "varchar_col 50 (vm_phone req)")
     (fastforce simp: Let_def list_all_iff list_ex_iff split: if_splits)+

lemma insert_token_sql_E:
  assumes "insert_token_sql tb uid token expires rid now d = Inr (n, d')"
  obtains tok where "varchar_col 64 token = Inr tok" "rid \<notin> tk_id ` set (tokens_of tb d)" "tok \<notin> tk_token ` set (tokens_of tb d)"
    "uid \<in> us_id ` set (users d)" "n = 1" "d' = set_tokens tb (tokens_of tb d @ [\<lparr>tk_id = rid, tk_created_at = now, tk_user_id = uid,
      tk_token = tok, tk_expires_at = expires, tk_used_at = None\<rparr>]) d"
  using assms unfolding insert_token_sql_def by (cases "varchar_col 64 token") (auto split: if_splits)

text \<open>Each statement keeps the tables consistent.\<close>

lemma accounts_ok_insert_user:
  assumes "insert_user_sql req hash rid now d = Inr (a, d')" "valid_user_create_new x y r = Ok req" "lower_ascii x" "accounts_ok x y d"
  shows "accounts_ok x y d'"
proof -
  from assms(2) obtain n m p where v: "username_new x n = Ok (vn_username req)" "email_new x m = Ok (vn_email req)"
      "phone_new y p = Ok (vn_phone req)"
    by (auto simp: valid_user_create_new_def and_then_Ok_iff)
  note e = email_new_Ok[OF assms(3) v(2)] and u = username_new_Ok[OF v(1)] and t = phone_new_Ok[OF v(3)]
  have tel: "varchar_col 50 (vn_phone req) = Inr s \<Longrightarrow> s = vn_phone req" for s
    using t varchar_col_trimmed[of 50 "vn_phone req"] by simp
  from assms(1) show ?thesis
  proof (cases rule: insert_user_sql_E)
    case (1 name mail tl)
    then have cols: "name = vn_username req" "mail = vn_email req" "tl = vn_phone req"
      using u e(2) tel by (simp_all add: varchar_col_short)
    have "user_ok x y (user_row rid now name hash mail tl (vn_role req))"
      using cols u e(1) t by (simp add: user_ok_def user_row_def)
    moreover have "tokens_ok (us_id ` set (users d')) (tokens_of tb d')" for tb
      using accounts_ok_tokens[OF assms(4), of tb] 1 by (cases tb) (auto simp: tokens_ok_def)
    ultimately show ?thesis using assms(4) 1
      by (intro accounts_okI) (auto simp: accounts_ok_def user_row_def)
  qed
qed

lemma accounts_ok_users:
  assumes "accounts_ok x y d" "us_id ` set us = us_id ` set (users d)" "distinct (map us_id us)" "distinct (map us_username us)"
    "distinct (map us_email us)" "list_all (user_ok x y) us"
  shows "accounts_ok x y (d\<lparr>users := us\<rparr>)"
  using assms by (simp add: accounts_ok_def)

lemma accounts_ok_update_user:
  assumes "update_user_sql uid req now d = Inr (n, d')" "valid_user_update_new x y r = Ok req" "lower_ascii x" "accounts_ok x y d"
  shows "accounts_ok x y d'"
proof -
  from assms(2) obtain i m p where v: "username_new x i = Ok (vm_username req)" "email_new x m = Ok (vm_email req)"
      "phone_new y p = Ok (vm_phone req)"
    by (auto simp: valid_user_update_new_def and_then_Ok_iff)
  note e = email_new_Ok[OF assms(3) v(2)] and u = username_new_Ok[OF v(1)] and t = phone_new_Ok[OF v(3)]
  have tel: "varchar_col 50 (vm_phone req) = Inr s \<Longrightarrow> s = vm_phone req" for s
    using t varchar_col_trimmed[of 50 "vm_phone req"] by simp
  from assms(1) show ?thesis
  proof (cases rule: update_user_sql_E)
    case (1 name mail tl)
    then have cols: "name = vm_username req" "mail = vm_email req" "tl = vm_phone req"
      using u e(2) tel by (simp_all add: varchar_col_short)
    let ?f = "set_user name mail tl (vm_role req) now"
    have f: "us_id (?f q) = us_id q" "us_username (?f q) = name" "us_email (?f q) = mail" "user_ok x y (?f q)" for q
      using cols u e(1) t by (simp_all add: user_ok_def set_user_def)
    have other: "us_username q \<noteq> name \<and> us_email q \<noteq> mail"
      if "r \<in> set (users d)" "live_user uid r" "q \<in> set (users d)" "\<not> live_user uid q" for r q
    proof -
      have "list_ex (live_user uid) (users d)" using that(1,2) by (auto simp: list_ex_iff)
      from 1(5,6)[OF this] that(3,4) show ?thesis by (auto simp: list_all_iff)
    qed
    have keys: "distinct (map k (update_where (live_user uid) ?f (users d)))"
      if k: "distinct (map k (users d))" "\<And>q. k (?f q) = v" "\<And>q r. r \<in> set (users d) \<Longrightarrow> live_user uid r \<Longrightarrow> q \<in> set (users d) \<Longrightarrow>
        \<not> live_user uid q \<Longrightarrow> k q \<noteq> v" for k :: "user \<Rightarrow> string" and v
    proof (rule distinct_update_one[where i = us_id and a = uid])
      show "distinct (map us_id (users d))" using assms(4) by (simp add: accounts_ok_def)
      show "k (?f r) = k r \<or> (\<forall>q\<in>set (users d). \<not> live_user uid q \<longrightarrow> k q \<noteq> k (?f r))"
        if "r \<in> set (users d)" "live_user uid r" for r
        using k(2,3) that by metis
    qed (simp_all add: k(1) live_user_def)
    have names: "distinct (map us_username (update_where (live_user uid) ?f (users d)))"
      "distinct (map us_email (update_where (live_user uid) ?f (users d)))"
      by (rule keys; use assms(4) f(2,3) other in \<open>auto simp: accounts_ok_def\<close>)+
    have "list_all (user_ok x y) (update_where (live_user uid) ?f (users d))"
      unfolding list_all_update_where using assms(4) f(4) by (simp add: accounts_ok_def list_all_iff)
    then show ?thesis unfolding 1(7)
      by (intro accounts_ok_users[OF assms(4)]) (use assms(4) f(1) names in \<open>simp_all add: accounts_ok_def\<close>)
  qed
qed

lemma accounts_ok_touch_user:
  assumes "accounts_ok x y d" "\<And>u. us_id (f u) = us_id u \<and> us_username (f u) = us_username u \<and> us_email (f u) = us_email u \<and> us_phone (f u) = us_phone u"
  shows "accounts_ok x y (d\<lparr>users := update_where P f (users d)\<rparr>)"
proof (rule accounts_ok_users[OF assms(1)])
  show "list_all (user_ok x y) (update_where P f (users d))"
    unfolding list_all_update_where using assms by (simp add: accounts_ok_def list_all_iff user_ok_def)
qed (use assms in \<open>simp_all add: accounts_ok_def\<close>)

lemma accounts_ok_set_tokens:
  "accounts_ok x y d \<Longrightarrow> tokens_ok (us_id ` set (users d)) ts \<Longrightarrow> accounts_ok x y (set_tokens tb ts d)"
  using accounts_ok_tokens by (intro accounts_okI) (auto simp: accounts_ok_def)

lemma accounts_ok_insert_token:
  assumes "insert_token_sql tb uid token expires rid now d = Inr (n, d')" "accounts_ok x y d"
  shows "accounts_ok x y d'"
  using assms(1)
proof (cases rule: insert_token_sql_E)
  case (1 tok)
  then show ?thesis using accounts_ok_tokens[OF assms(2), of tb] assms(2)
    by (auto intro!: accounts_ok_set_tokens simp: tokens_ok_def)
qed

lemma accounts_ok_use_token:
  assumes "use_token_sql tb tid now d = Inr (n, d')" "accounts_ok x y d"
  shows "accounts_ok x y d'"
  using assms accounts_ok_tokens[OF assms(2), of tb]
  by (auto simp: use_token_sql_def tokens_ok_def intro!: accounts_ok_set_tokens)

section \<open>What the operations leave alone\<close>

lemma keeps_selecting [frame_rules]: "keeps committed (stmt ex (\<lambda>now d. Inr (q now d, d)))"
  by (cases ex) (simp_all add: keeps_def)

lemma keeps_exactly_one [frame_rules]: "keeps g (exactly_one what n)" "keeps g (one_row missing what n)"
  by (auto simp: exactly_one_def one_row_def intro: frame_rules)

lemma keeps_user_reads [frame_rules]:
  "keeps committed (get_user_by_id x ex uid)" "keeps committed (get_user_by_username x ex name)"
  "keeps committed (get_user_by_email x ex mail)" "keeps committed (get_valid_verification_token x ex token)"
  "keeps committed (get_valid_password_reset_token x ex token)" "keeps committed utc_now"
  unfolding get_user_by_id_def get_user_by_username_def get_user_by_email_def get_valid_verification_token_def
    get_valid_password_reset_token_def get_valid_token_def utc_now_def
  by (intro frame_rules | simp add: keeps_ret split: prod.split)+

lemma keeps_user_writes [frame_rules]:
  "keeps committed (create_user x v hash)" "keeps committed (update_user x uid w)" "keeps committed (delete_user x uid)"
  "keeps committed (update_user_password x uid hash)" "keeps committed (verify_user_email x uid)"
  "keeps committed (create_verification_token x uid token expires)"
  "keeps committed (create_password_reset_token x uid token expires)"
  "keeps committed (mark_token_used x tid)" "keeps committed (mark_reset_token_used x tid)"
  unfolding create_user_def update_user_def delete_user_def update_user_password_def verify_user_email_def
    create_verification_token_def create_password_reset_token_def create_token_def mark_token_used_def
    mark_reset_token_used_def use_token_def
  by (intro frame_rules)+

lemma keeps_clocks [frame_rules]: "keeps committed current_timestamp" "keeps committed unix_secs"
  by (simp_all add: keeps_def current_timestamp_def unix_secs_def Let_def)

lemma keeps_tokens [frame_rules]:
  "keeps committed (generate_access_token x j cfg uid name rl)" "keeps committed (jwt_refresh_token x j cfg uid)"
  "keeps committed (validate_access_token x j cfg token)" "keeps committed (validate_refresh_token x j cfg token)"
  unfolding generate_access_token_def jwt_refresh_token_def validate_access_token_def validate_refresh_token_def
  by (intro frame_rules)+

lemma get_user_by_id_Ok:
  assumes "get_user_by_id x Pool uid s = (Ok u, t)"
  shows "u \<in> set (users (committed s))" "live_user uid u"
proof -
  have "fetch_one (query Pool (\<lambda>d. filter (live_user uid) (users d))) s = (Ok u, t)"
    using assms by (simp add: get_user_by_id_def map_err_Ok_iff)
  from fetch_one_Pool_Ok[OF this] obtain rs where "filter (live_user uid) (users (committed s)) = u # rs" by blast
  then have "u \<in> set (filter (live_user uid) (users (committed s)))" by simp
  then show "u \<in> set (users (committed s))" "live_user uid u" by simp_all
qed

section \<open>Invariants of the tables and the cache\<close>

definition evicted :: "string \<Rightarrow> redis option \<Rightarrow> redis option" where
  "evicted key = map_option (\<lambda>r. if rd_fault r then rd_tick r else (rd_tick r)\<lparr>rd_store := (rd_store r)(key := None)\<rparr>)"

definition filled :: "('a \<Rightarrow> string option) \<Rightarrow> nat \<Rightarrow> string \<Rightarrow> 'a \<Rightarrow> redis option \<Rightarrow> redis option" where
  "filled render ttl key v c = snd (cache_set render ttl key v c :: (unit, unit) result \<times> redis option)"

lemma run_cache:
  "evict key c = (Ok (), evicted key c)"
  "snd (cache_get dec key c) = map_option rd_tick c"
  "cache_set render ttl key v c = (Ok (), filled render ttl key v c)"
  by (simp_all add: evict_def evicted_def cache_get_def filled_def cache_set_def split: option.splits)

definition account_inv :: "(users_db \<Rightarrow> redis option \<Rightarrow> bool) \<Rightarrow> accounts \<Rightarrow> bool" where
  "account_inv J s \<longleftrightarrow> J (committed (fst s)) (fst (snd s))"

text \<open>The routes of a current user write rows of the users in \<open>W\<close>, and evict what they have written.\<close>

locale account_writes =
  fixes x :: externs and y :: user_externs and W :: "uuid set" and J :: "users_db \<Rightarrow> redis option \<Rightarrow> bool"
  assumes updated: "uid \<in> W \<Longrightarrow> valid_user_update_new x y req = Ok v \<Longrightarrow> update_user_sql uid v now d = Inr (n, d') \<Longrightarrow> J d c \<Longrightarrow>
      J d' (evicted (user_cache_key x uid) c)"
    and deleted: "uid \<in> W \<Longrightarrow> delete_user_sql uid now d = Inr (n, d') \<Longrightarrow> J d c \<Longrightarrow> J d' (evicted (user_cache_key x uid) c)"
    and changed: "uid \<in> W \<Longrightarrow> update_password_sql uid hash now d = Inr (n, d') \<Longrightarrow> J d c \<Longrightarrow> J d' (evicted (user_cache_key x uid) c)"
    and forgot: "J d c \<Longrightarrow> J d (evicted key c)"
    and looked: "J d c \<Longrightarrow> J d (map_option rd_tick c)"
    and read: "u \<in> set (users d) \<Longrightarrow> live_user uid u \<Longrightarrow> J d c \<Longrightarrow>
      J d (filled (current_text y) user_cache_ttl (user_cache_key x uid) \<lparr>cu_id = us_id u, cu_role = us_role u\<rparr> c)"
begin

lemma preserves_reading: "keeps committed m \<Longrightarrow> preserves (account_inv J) (on_fst m)"
  by (simp add: preserves_def keeps_def account_inv_def on_fst_def split: prod.splits) (metis snd_conv)

lemma preserves_mail: "preserves (account_inv J) (on_mail m)"
  by (simp add: preserves_def account_inv_def on_mail_def on_snd_def split: prod.splits)

lemma preserves_get: "preserves (account_inv J) (on_cache (cache_get dec key))"
  using looked by (auto simp: preserves_def account_inv_def on_cache_def on_snd_def on_fst_def split: prod.splits) (metis run_cache(2) snd_conv)

text \<open>A transaction that does what a statement does to a row, and the eviction after it.\<close>

lemma preserves_write:
  assumes "keeps committed m" "\<And>t. wp m (\<lambda>_ t'. \<forall>c. J (current t) c \<longrightarrow> J (current t') (evicted key c)) (\<lambda>_. True) t"
  shows "preserves (account_inv J) (bnd (on_fst (in_tx x what m)) (\<lambda>_. on_cache (evict key)))"
proof (rule preserves_wp)
  fix s assume q: "account_inv J s"
  have "wp (in_tx x what m) (\<lambda>_ t. \<forall>c. J (committed (fst s)) c \<longrightarrow> J (committed t) (evicted key c)) (\<lambda>t. committed t = committed (fst s)) (fst s)"
  proof (rule wp_in_tx[where R = "\<lambda>d d'. \<forall>c. J d c \<longrightarrow> J d' (evicted key c)", OF assms(1)])
    fix t :: "users_db srv" assume "current t = committed (fst s)"
    then show "wp m (\<lambda>_ t'. \<forall>c. J (committed (fst s)) c \<longrightarrow> J (current t') (evicted key c)) (\<lambda>_. True) t"
      using assms(2)[of t] by simp
  qed (use forgot in blast)
  then show "wp (bnd (on_fst (in_tx x what m)) (\<lambda>_. on_cache (evict key))) (\<lambda>_. account_inv J) (account_inv J) s"
    unfolding wp_bnd wp_on_fst
    by (rule wp_mono) (use q in \<open>auto simp: account_inv_def on_cache_def wp_def on_snd_def on_fst_def run_cache\<close>)
qed

lemma preserves_accounts:
  "uid \<in> W \<Longrightarrow> preserves (account_inv J) (update_user_account x y uid req)"
  "uid \<in> W \<Longrightarrow> preserves (account_inv J) (delete_user_account x uid)"
  "uid \<in> W \<Longrightarrow> preserves (account_inv J) (change_password x y uid preq)"
proof -
  assume uid: "uid \<in> W"
  let ?key = "user_cache_key x uid"
  show "preserves (account_inv J) (update_user_account x y uid req)"
    unfolding update_user_account_def
  proof (rule preserves_of_result, rule preserves_write)
    fix v t assume v: "valid_user_update_new x y req = Ok v"
    show "wp (update_user x uid v) (\<lambda>_ t'. \<forall>c. J (current t) c \<longrightarrow> J (current t') (evicted ?key c)) (\<lambda>_. True) t"
      unfolding update_user_def
      by (rule wp_stmt_then[where R = "\<lambda>d'. \<forall>c. J (current t) c \<longrightarrow> J d' (evicted ?key c)"])
         (use updated[OF uid v] in \<open>auto intro: wp_one_row\<close>)
  qed (rule frame_rules)
  show "preserves (account_inv J) (delete_user_account x uid)"
    unfolding delete_user_account_def
  proof (rule preserves_write)
    fix t :: "users_db srv"
    show "wp (delete_user x uid) (\<lambda>_ t'. \<forall>c. J (current t) c \<longrightarrow> J (current t') (evicted ?key c)) (\<lambda>_. True) t"
      unfolding delete_user_def
      by (rule wp_stmt_then[where R = "\<lambda>d'. \<forall>c. J (current t) c \<longrightarrow> J d' (evicted ?key c)"])
         (use deleted[OF uid] in \<open>auto intro: wp_one_row\<close>)
  qed (rule frame_rules)
  have set_password: "wp (update_user_password x uid hash) (\<lambda>_ t'. \<forall>c. J (current t) c \<longrightarrow> J (current t') (evicted ?key c)) (\<lambda>_. True) t" for hash t
    unfolding update_user_password_def
    by (rule wp_stmt_then[where R = "\<lambda>d'. \<forall>c. J (current t) c \<longrightarrow> J d' (evicted ?key c)"])
       (use changed[OF uid] in \<open>auto simp: exactly_one_def wp_simps\<close>)
  show "preserves (account_inv J) (change_password x y uid preq)"
    unfolding change_password_def
    by (intro preserves_bnd preserves_if preserves_basic preserves_reading preserves_mail preserves_write set_password frame_rules)
qed

lemma preserves_current_user: "preserves (account_inv J) (current_user_by_id x y uid)"
proof -
  have "preserves (account_inv J) (bnd (on_fst (get_user_by_id x Pool uid)) (\<lambda>row.
      let u = \<lparr>cu_id = us_id row, cu_role = us_role row\<rparr> in
      bnd (on_cache (cache_set (current_text y) user_cache_ttl (user_cache_key x uid) u)) (\<lambda>_. ret u)))" (is "preserves _ ?m")
  proof (rule preserves_wp)
    fix s assume q: "account_inv J s"
    obtain r t where g: "get_user_by_id x Pool uid (fst s) = (r, t)" by fastforce
    have t: "committed t = committed (fst s)" using keepsD[OF keeps_user_reads(1) g] .
    show "wp ?m (\<lambda>_. account_inv J) (account_inv J) s"
    proof (cases r)
      case (Ok row)
      then have "row \<in> set (users (committed (fst s)))" "live_user uid row" using get_user_by_id_Ok g by blast+
      from read[OF this] q t show ?thesis
        by (simp add: wp_def bnd_def on_fst_def g Ok Let_def on_cache_def on_snd_def run_cache account_inv_def ret_def)
    qed (use q t in \<open>simp_all add: wp_def bnd_def on_fst_def g account_inv_def\<close>)
  qed
  then show ?thesis unfolding current_user_by_id_def
    by (intro preserves_bnd preserves_get) (simp add: preserves_basic split: option.split)
qed

lemma preserves_done: "preserves P m \<Longrightarrow> preserves P (user_done status message m)"
  unfolding user_done_def by (intro inv_rules)

lemma preserves_protected:
  assumes "{v. can_access u v} \<subseteq> W"
  shows "preserves (account_inv J) (protected_handler x y u rt)"
proof -
  have self: "cu_id u \<in> W" using assms by (auto simp: can_access_def)
  have guarded: "preserves (account_inv J) (bnd (of_result (require_access u uid)) (\<lambda>_. m))" if "uid \<in> W \<Longrightarrow> preserves (account_inv J) m" for uid m
    by (rule preserves_of_result) (use that assms in \<open>auto simp: require_access_def split: if_splits\<close>)
  have reads: "preserves (account_inv J) (bnd (get_user x uid) (\<lambda>v. ret (UserReply v)))" for uid
    unfolding get_user_def by (intro preserves_bnd preserves_basic preserves_reading frame_rules)
  show ?thesis
    by (cases rt) (simp_all add: guarded reads preserves_done preserves_accounts self preserves_basic)
qed

end

text \<open>The public routes also add users and tokens, spend tokens, verify addresses and reset passwords, and
  never touch the cache.\<close>

locale account_invariant = account_writes x y UNIV J
  for x :: externs and y :: user_externs and J :: "users_db \<Rightarrow> redis option \<Rightarrow> bool" +
  assumes registered: "valid_user_create_new x y req = Ok v \<Longrightarrow> insert_user_sql v hash rid now d = Inr (a, d') \<Longrightarrow> J d c \<Longrightarrow> J d' c"
    and issued: "insert_token_sql tb uid token expires rid now d = Inr (n, d') \<Longrightarrow> J d c \<Longrightarrow> J d' c"
    and spent: "use_token_sql tb tid now d = Inr (n, d') \<Longrightarrow> J d c \<Longrightarrow> J d' c"
    and verified: "verify_email_sql uid now d = Inr (n, d') \<Longrightarrow> J d c \<Longrightarrow> J d' c"
    and reset: "update_password_sql uid hash now d = Inr (n, d') \<Longrightarrow> J d c \<Longrightarrow> J d' c"
begin

lemma preserves_one: "preserves P (exactly_one what n)"
  unfolding exactly_one_def by (intro preserves_if preserves_basic)

lemma preserves_statements:
  "valid_user_create_new x y req = Ok v \<Longrightarrow> preserves (\<lambda>s. J (current s) c) (create_user x v hash)"
  "preserves (\<lambda>s. J (current s) c) (create_verification_token x uid token expires)"
  "preserves (\<lambda>s. J (current s) c) (create_password_reset_token x uid token expires)"
  "preserves (\<lambda>s. J (current s) c) (verify_user_email x uid)"
  "preserves (\<lambda>s. J (current s) c) (update_user_password x uid hash)"
  "preserves (\<lambda>s. J (current s) c) (mark_token_used x tid)"
  "preserves (\<lambda>s. J (current s) c) (mark_reset_token_used x tid)"
proof -
  note row = preserves_stmt_Tx[where I = "\<lambda>d. J d c"] and uuid = preserves_next_uuid(2)[where I = "\<lambda>d. J d c"]
  show "preserves (\<lambda>s. J (current s) c) (create_user x v hash)" if "valid_user_create_new x y req = Ok v"
    unfolding create_user_def by (intro preserves_bnd uuid preserves_map_err row) (rule registered[OF that])
  show "preserves (\<lambda>s. J (current s) c) (create_verification_token x uid token expires)"
    "preserves (\<lambda>s. J (current s) c) (create_password_reset_token x uid token expires)"
    unfolding create_verification_token_def create_password_reset_token_def create_token_def
    by (intro preserves_bnd uuid preserves_map_err row preserves_one; rule issued; assumption)+
  show "preserves (\<lambda>s. J (current s) c) (verify_user_email x uid)" "preserves (\<lambda>s. J (current s) c) (update_user_password x uid hash)"
    unfolding verify_user_email_def update_user_password_def
    by (intro preserves_bnd preserves_map_err row preserves_one; blast intro: verified reset)+
  show "preserves (\<lambda>s. J (current s) c) (mark_token_used x tid)" "preserves (\<lambda>s. J (current s) c) (mark_reset_token_used x tid)"
    unfolding mark_token_used_def mark_reset_token_used_def use_token_def
    by (intro preserves_bnd preserves_map_err row preserves_one; rule spent; assumption)+
qed

lemma preserves_tx:
  assumes "keeps committed m" "\<And>c. preserves (\<lambda>s. J (current s) c) m"
  shows "preserves (account_inv J) (on_fst (in_tx x what m))"
proof -
  have "preserves (\<lambda>s. J (committed s) c) (in_tx x what m)" for c
    by (rule preserves_in_tx[where I = "\<lambda>d. J d c"]) (use assms in blast)+
  then show ?thesis
    by (auto simp: preserves_def account_inv_def on_fst_def split: prod.splits) (metis snd_conv)
qed

lemma preserves_helpers:
  "preserves (account_inv J) (token_expiry x)" "preserves (account_inv J) (post_email m)"
  unfolding token_expiry_def post_email_def
  by (intro preserves_bnd preserves_reading preserves_basic preserves_attempt preserves_mail frame_rules)+

lemma preserves_public: "preserves (account_inv J) (public_handler x y j cfg rt)"
proof (cases rt)
  case (RRegister req)
  have "preserves (account_inv J) (create_user_account x y req)"
    unfolding create_user_account_def
    by (rule preserves_of_result, intro preserves_bnd preserves_mail preserves_helpers preserves_tx)
       (auto intro: preserves_statements preserves_bnd frame_rules)
  then show ?thesis using RRegister by (simp add: preserves_done)
next
  case (RForgotPassword mail)
  have "preserves (account_inv J) (forgot_password x mail)"
    unfolding forgot_password_def
    by (intro preserves_bnd preserves_basic preserves_attempt preserves_reading frame_rules)
       (auto intro!: preserves_bnd preserves_basic preserves_mail preserves_helpers preserves_tx preserves_statements frame_rules
         split: result.split)
  then show ?thesis using RForgotPassword by (simp add: preserves_done)
next
  case (RVerifyEmail token)
  have "preserves (account_inv J) (verify_email x token)"
    unfolding verify_email_def
    by (intro preserves_bnd preserves_reading preserves_tx preserves_statements frame_rules)
  then show ?thesis using RVerifyEmail by (simp add: preserves_done)
next
  case (RResetPassword req)
  have "preserves (account_inv J) (reset_password x y req)"
    unfolding reset_password_def
    by (intro preserves_bnd preserves_basic preserves_mail preserves_reading preserves_tx preserves_statements frame_rules)
  then show ?thesis using RResetPassword by (simp add: preserves_done)
next
  case (RLogin req)
  have "preserves (account_inv J) (login_user x y j cfg req)"
    unfolding login_user_def by (intro preserves_bnd preserves_if preserves_basic preserves_reading frame_rules)
  then show ?thesis using RLogin by (simp add: preserves_bnd preserves_basic)
next
  case (RRefresh token)
  have "preserves (account_inv J) (generate_refresh_token x j cfg token)"
    unfolding generate_refresh_token_def by (intro preserves_bnd preserves_basic preserves_reading frame_rules)
  then show ?thesis using RRefresh by (simp add: preserves_bnd preserves_basic)
qed (simp_all add: preserves_basic)

lemma preserves_app: "preserves (account_inv J) (identity_app x y j cfg header rt)"
proof -
  have "preserves (account_inv J) (auth_handle x j cfg (Some (current_user_by_id x y)) header)"
    unfolding auth_handle_def option.case
    by (intro preserves_bnd preserves_map_err preserves_basic preserves_reading preserves_current_user frame_rules)
  then show ?thesis unfolding identity_app_def
    by (intro preserves_if preserves_bnd preserves_map_err preserves_public)
       (auto intro: preserves_map_err preserves_protected split: prod.split)
qed

end

sublocale account_invariant < runs: invariant_service "identity_app x y j cfg" "\<lambda>_. True" "account_inv J" for j cfg
proof unfold_locales
  fix u q s assume "account_inv J s"
  then show "account_inv J (snd (identity_app x y j cfg u q s))" using preserves_app unfolding preserves_def by blast
qed

section \<open>The instances\<close>

text \<open>The tables stay consistent.\<close>

lemma delete_user_sql_E: "delete_user_sql uid now d = Inr (n, d') \<Longrightarrow>
    d' = d\<lparr>users := update_where (live_user uid) (\<lambda>u. u\<lparr>us_deleted_at := Some now\<rparr>) (users d)\<rparr>"
  by (simp add: delete_user_sql_def)

lemma update_password_sql_E: "update_password_sql uid hash now d = Inr (n, d') \<Longrightarrow>
    d' = d\<lparr>users := update_where (\<lambda>u. us_id u = uid) (\<lambda>u. u\<lparr>us_password := hash, us_updated_at := Some now\<rparr>) (users d)\<rparr>"
  by (simp add: update_password_sql_def)

lemma verify_email_sql_E: "verify_email_sql uid now d = Inr (n, d') \<Longrightarrow>
    d' = d\<lparr>users := update_where (\<lambda>u. us_id u = uid) (\<lambda>u. u\<lparr>us_email_verified := True, us_updated_at := Some now\<rparr>) (users d)\<rparr>"
  by (simp add: verify_email_sql_def)

lemmas row_sql_E = delete_user_sql_E update_password_sql_E verify_email_sql_E

text \<open>An instance is given for every environment whose lower-casing is that of ASCII; elsewhere it
  says nothing.\<close>

interpretation consistent: account_invariant x y "\<lambda>d c. lower_ascii x \<longrightarrow> accounts_ok x y d" for x y
  by unfold_locales
     (auto intro: accounts_ok_update_user accounts_ok_insert_user accounts_ok_insert_token accounts_ok_use_token
       accounts_ok_touch_user dest!: row_sql_E)

text \<open>The cached users are the current ones, as long as Redis answers.\<close>

definition current_row :: "user \<Rightarrow> current_user" where
  "current_row u = \<lparr>cu_id = us_id u, cu_role = us_role u\<rparr>"

definition fresh_current :: "users_db \<Rightarrow> uuid \<Rightarrow> current_user option" where
  "fresh_current d uid = (case filter (live_user uid) (users d) of [] \<Rightarrow> None | u # _ \<Rightarrow> Some (current_row u))"

definition users_cached :: "externs \<Rightarrow> user_externs \<Rightarrow> users_db \<Rightarrow> redis \<Rightarrow> bool" where
  "users_cached x y d r \<longleftrightarrow>
     (\<forall>uid t e. rd_store r (user_cache_key x uid) = Some (t, e) \<longrightarrow>
        (\<exists>u. fresh_current d uid = Some u \<and> current_text y u = Some t))"

definition current_good :: "externs \<Rightarrow> user_externs \<Rightarrow> users_db \<Rightarrow> redis option \<Rightarrow> bool" where
  "current_good x y d c \<longleftrightarrow>
     distinct (map us_id (users d)) \<and> (case c of None \<Rightarrow> True | Some r \<Rightarrow> rd_faults r = [] \<and> users_cached x y d r)"

lemma user_cache_key_inj: "uuid_codec x \<Longrightarrow> user_cache_key x u = user_cache_key x v \<longleftrightarrow> u = v"
  by (simp add: user_cache_key_def uuid_str_inj)

lemma fresh_current_same:
  assumes "\<And>u. us_id (f u) = us_id u \<and> us_role (f u) = us_role u \<and> us_deleted_at (f u) = us_deleted_at u"
  shows "fresh_current (d\<lparr>users := update_where P f (users d)\<rparr>) uid = fresh_current d uid"
proof -
  have "filter (live_user uid) (update_where P f rows) = update_where P f (filter (live_user uid) rows)" for rows
    by (induction rows) (auto simp: live_user_def assms)
  then show ?thesis by (simp add: fresh_current_def current_row_def assms split: list.split)
qed

lemma fresh_current_other:
  assumes "uid \<noteq> v" "\<And>u. us_id (f u) = us_id u"
  shows "fresh_current (d\<lparr>users := update_where (live_user uid) f (users d)\<rparr>) v = fresh_current d v"
proof -
  have "filter (live_user v) (update_where (live_user uid) f rows) = filter (live_user v) rows" for rows
    using assms by (induction rows) (auto simp: live_user_def)
  then show ?thesis by (simp add: fresh_current_def)
qed

lemma current_good_evict:
  assumes "current_good x y d c" "uuid_codec x" "distinct (map us_id (users d'))" "\<And>v. v \<noteq> uid \<Longrightarrow> fresh_current d' v = fresh_current d v"
  shows "current_good x y d' (evicted (user_cache_key x uid) c)"
  using assms by (auto simp: current_good_def evicted_def users_cached_def rd_fault_def rd_tick_def user_cache_key_inj split: option.splits)

lemma current_good_keep:
  assumes "current_good x y d c" "distinct (map us_id (users d'))" "\<And>v u. fresh_current d v = Some u \<Longrightarrow> fresh_current d' v = Some u"
  shows "current_good x y d' c"
  using assms by (fastforce simp: current_good_def users_cached_def split: option.splits)

lemma filter_live_user:
  assumes "distinct (map us_id (users d))" "u \<in> set (users d)" "live_user uid u"
  shows "filter (live_user uid) (users d) = [u]"
proof -
  have "filter (\<lambda>r. us_id r = uid) (users d) = [u]"
    by (rule filter_key_unique) (use assms in \<open>auto simp: live_user_def\<close>)
  moreover have "filter (live_user uid) rows = filter (\<lambda>r. us_deleted_at r = None) (filter (\<lambda>r. us_id r = uid) rows)" for rows
    by (induction rows) (simp_all add: live_user_def)
  ultimately have "filter (live_user uid) (users d) = filter (\<lambda>r. us_deleted_at r = None) [u]" by metis
  then show ?thesis using assms(3) by (simp add: live_user_def)
qed

lemma fresh_current_live:
  assumes "distinct (map us_id (users d))" "u \<in> set (users d)" "live_user uid u"
  shows "fresh_current d uid = Some (current_row u)"
  using filter_live_user[OF assms] by (simp add: fresh_current_def)

lemma current_good_updated:
  assumes "update_user_sql uid v now d = Inr (n, d')" "uuid_codec x" "current_good x y d c"
  shows "current_good x y d' (evicted (user_cache_key x uid) c)"
  using assms(1)
proof (cases rule: update_user_sql_E)
  case (1 name mail tl)
  show ?thesis
    by (rule current_good_evict[OF assms(3,2)])
       (use 1(7) assms(3) in \<open>auto simp: current_good_def set_user_def intro!: fresh_current_other\<close>)
qed

lemma current_good_deleted:
  assumes "delete_user_sql uid now d = Inr (n, d')" "uuid_codec x" "current_good x y d c"
  shows "current_good x y d' (evicted (user_cache_key x uid) c)"
  by (rule current_good_evict[OF assms(3,2)])
     (use delete_user_sql_E[OF assms(1)] assms(3) in \<open>auto simp: current_good_def intro!: fresh_current_other\<close>)

lemma current_good_row:
  assumes "current_good x y d c" "\<And>u. us_id (f u) = us_id u \<and> us_role (f u) = us_role u \<and> us_deleted_at (f u) = us_deleted_at u"
  shows "current_good x y (d\<lparr>users := update_where P f (users d)\<rparr>) c"
  by (rule current_good_keep[OF assms(1)]) (use assms fresh_current_same[OF assms(2)] in \<open>auto simp: current_good_def\<close>)

lemma current_good_users:
  assumes "current_good x y d c" "users d' = users d"
  shows "current_good x y d' c"
  by (rule current_good_keep[OF assms(1)]) (use assms in \<open>auto simp: current_good_def fresh_current_def\<close>)

lemma current_good_registered:
  assumes "insert_user_sql v hash rid now d = Inr (a, d')" "current_good x y d c"
  shows "current_good x y d' c"
  using assms(1)
proof (cases rule: insert_user_sql_E)
  case (1 name mail tl)
  show ?thesis
    by (rule current_good_keep[OF assms(2)])
       (use 1 assms(2) in \<open>auto simp: current_good_def fresh_current_def user_row_def split: list.splits\<close>)
qed

lemma current_good_forget:
  "current_good x y d c \<Longrightarrow> current_good x y d (evicted key c)"
  "current_good x y d c \<Longrightarrow> current_good x y d (map_option rd_tick c)"
  by (auto simp: current_good_def evicted_def users_cached_def rd_fault_def rd_tick_def split: option.splits)

lemma current_good_filled:
  assumes "current_good x y d c" "uuid_codec x" "fresh_current d uid = Some u"
  shows "current_good x y d (filled (current_text y) ttl (user_cache_key x uid) u c)"
  using assms
  by (auto simp: current_good_def filled_def cache_set_def users_cached_def rd_fault_def rd_tick_def user_cache_key_inj split: option.splits)

lemma current_good_tokens:
  "insert_token_sql tb uid token expires rid now d = Inr (n, d') \<Longrightarrow> current_good x y d c \<Longrightarrow> current_good x y d' c"
  "use_token_sql tb tid now d = Inr (n, d') \<Longrightarrow> current_good x y d c \<Longrightarrow> current_good x y d' c"
  by (erule insert_token_sql_E) (auto simp: use_token_sql_def intro: current_good_users)

lemma current_good_touched:
  "verify_email_sql uid now d = Inr (n, d') \<Longrightarrow> current_good x y d c \<Longrightarrow> current_good x y d' c"
  "update_password_sql uid hash now d = Inr (n, d') \<Longrightarrow> current_good x y d c \<Longrightarrow> current_good x y d' c"
  by (auto dest!: row_sql_E intro!: current_good_row)

interpretation fresh: account_invariant x y "\<lambda>d c. uuid_codec x \<longrightarrow> current_good x y d c" for x y
proof unfold_locales
  show "uuid_codec x \<longrightarrow> current_good x y d (filled (current_text y) user_cache_ttl (user_cache_key x uid) \<lparr>cu_id = us_id u, cu_role = us_role u\<rparr> c)"
    if "u \<in> set (users d)" "live_user uid u" "uuid_codec x \<longrightarrow> current_good x y d c" for u d uid c
  proof
    assume x: "uuid_codec x"
    then have "fresh_current d uid = Some \<lparr>cu_id = us_id u, cu_role = us_role u\<rparr>"
      using that fresh_current_live[of d u uid] by (simp add: current_row_def current_good_def)
    then show "current_good x y d (filled (current_text y) user_cache_ttl (user_cache_key x uid) \<lparr>cu_id = us_id u, cu_role = us_role u\<rparr> c)"
      using current_good_filled that(3) x by blast
  qed
qed (intro impI, drule (1) mp,
     ((rule current_good_updated; assumption) | (rule current_good_deleted; assumption) | (rule current_good_registered; assumption)
      | (rule current_good_tokens; assumption) | (rule current_good_touched; assumption)
      | (rule current_good_forget(1), rule current_good_touched(2); assumption) | (rule current_good_forget; assumption)))+

text \<open>A spent token stays spent.\<close>

definition spent :: "token_table \<Rightarrow> string \<Rightarrow> users_db \<Rightarrow> bool" where
  "spent tb tok d \<longleftrightarrow>
     distinct (map tk_token (tokens_of tb d)) \<and> (\<exists>t\<in>set (tokens_of tb d). tk_token t = tok \<and> tk_used_at t \<noteq> None)"

lemma tokens_of_users [simp]: "tokens_of tb (d\<lparr>users := us\<rparr>) = tokens_of tb d"
  by (cases tb) simp_all

lemma spent_cong: "tokens_of tb d' = tokens_of tb d \<Longrightarrow> spent tb tok d \<Longrightarrow> spent tb tok d'"
  by (simp add: spent_def)

lemma spent_rows:
  "insert_user_sql v hash rid now d = Inr (a, d') \<Longrightarrow> spent tb tok d \<Longrightarrow> spent tb tok d'"
  "update_user_sql uid w now d = Inr (n, d') \<Longrightarrow> spent tb tok d \<Longrightarrow> spent tb tok d'"
  "delete_user_sql uid now d = Inr (n, d') \<Longrightarrow> spent tb tok d \<Longrightarrow> spent tb tok d'"
  "update_password_sql uid hash now d = Inr (n, d') \<Longrightarrow> spent tb tok d \<Longrightarrow> spent tb tok d'"
  "verify_email_sql uid now d = Inr (n, d') \<Longrightarrow> spent tb tok d \<Longrightarrow> spent tb tok d'"
  by ((erule insert_user_sql_E update_user_sql_E | drule row_sql_E); simp add: spent_cong)+

lemma spent_issued:
  assumes "insert_token_sql tb' uid token expires rid now d = Inr (n, d')" "spent tb tok d"
  shows "spent tb tok d'"
  using assms(1) by (cases rule: insert_token_sql_E) (use assms(2) in \<open>auto simp: spent_def\<close>)

lemma spent_spent:
  assumes "use_token_sql tb' tid now d = Inr (n, d')" "spent tb tok d"
  shows "spent tb tok d'"
proof -
  obtain t where t: "t \<in> set (tokens_of tb d)" "tk_token t = tok" "tk_used_at t \<noteq> None" using assms(2) by (auto simp: spent_def)
  let ?f = "\<lambda>t. t\<lparr>tk_used_at := Some now\<rparr>" and ?P = "\<lambda>t. tk_id t = tid"
  have d': "d' = set_tokens tb' (update_where ?P ?f (tokens_of tb' d)) d" using assms(1) by (simp add: use_token_sql_def)
  have "(if ?P t then ?f t else t) \<in> set (update_where ?P ?f (tokens_of tb d))" using t(1) unfolding set_update_where by (rule imageI)
  then have "\<exists>u\<in>set (update_where ?P ?f (tokens_of tb d)). tk_token u = tok \<and> tk_used_at u \<noteq> None"
    using t(2,3) by (intro bexI) (auto split: if_splits)
  then show ?thesis using assms(2) t unfolding d' by (auto simp: spent_def)
qed

interpretation used: account_invariant x y "\<lambda>d c. spent tb tok d" for x y tb tok
  by unfold_locales
     (assumption | (rule spent_rows; assumption) | (rule spent_issued; assumption) | (rule spent_spent; assumption))+

text \<open>The routes of a current user leave the rows of others alone.\<close>

definition rows_of :: "uuid \<Rightarrow> accounts \<Rightarrow> user list" where
  "rows_of v s = filter (\<lambda>u. us_id u = v) (users (committed (fst s)))"

interpretation others: account_writes x y "{uid. uid \<noteq> v}" "\<lambda>d c. filter (\<lambda>u. us_id u = v) (users d) = rows" for x y v rows
proof unfold_locales
  show "filter (\<lambda>u. us_id u = v) (users d') = rows"
    if "uid \<in> {uid. uid \<noteq> v}" "update_user_sql uid w now d = Inr (n, d')" "filter (\<lambda>u. us_id u = v) (users d) = rows" for uid w now d n d'
    using that(2) by (cases rule: update_user_sql_E) (use that(1,3) in \<open>auto simp: set_user_def live_user_def intro!: filter_update_where\<close>)
qed (auto simp: live_user_def dest!: row_sql_E intro!: filter_update_where)

interpretation own_account: request_service "protected_handler x y" "\<lambda>_. True" "\<lambda>_. True" rows_of can_access for x y
proof unfold_locales
  show "rows_of v (snd (protected_handler x y u q s)) = rows_of v s" if "\<not> can_access u v" for v u q s
  proof -
    have "{w. can_access u w} \<subseteq> {uid. uid \<noteq> v}" using that by auto
    then have p: "preserves (account_inv (\<lambda>d c. filter (\<lambda>u. us_id u = v) (users d) = rows_of v s)) (protected_handler x y u q)"
      by (rule others.preserves_protected)
    show ?thesis using p[unfolded preserves_def, THEN spec, of s] by (simp add: account_inv_def rows_of_def)
  qed
qed simp

end
