(* ===== verification/Identity_Proofs.thy ===== *)
theory Identity_Proofs
  imports User_Proofs
begin

text \<open>
  The properties of the identity service: what every sequence of requests keeps, and what a sequence of
  requests does in a session where nothing fails.
\<close>

section \<open>Sessions where nothing fails\<close>

lemma filter_new: "list_all (\<lambda>r. \<not> P r) rows \<Longrightarrow> P r \<Longrightarrow> filter P (rows @ [r]) = [r]"
  by (simp add: list_all_iff)

lemma update_new: "list_all (\<lambda>r. \<not> P r) rows \<Longrightarrow> P r \<Longrightarrow> update_where P f (rows @ [r]) = rows @ [f r]"
  by (simp add: update_where_id list_all_iff)

lemma count_new: "list_all (\<lambda>r. \<not> P r) rows \<Longrightarrow> P r \<Longrightarrow> count_where P (rows @ [r]) = 1"
  by (simp add: count_where_def list_all_iff)

lemma length_hex: "length (concat (map (\<lambda>i. hex_byte (f i)) is)) = 2 * length is"
  by (induction "is") (simp_all add: hex_byte_def)

text \<open>Registration: the new row and its token.\<close>

definition registered_db ::
  "valid_user_create \<Rightarrow> string \<Rightarrow> uuid \<Rightarrow> uuid \<Rightarrow> string \<Rightarrow> timestamp \<Rightarrow> timestamp \<Rightarrow> users_db \<Rightarrow> users_db" where
  "registered_db v hash rid tid tok expires now d =
     d\<lparr>users := users d @ [user_row rid now (vn_username v) hash (vn_email v) (vn_phone v) (vn_role v)],
       email_tokens := email_tokens d @ [\<lparr>tk_id = tid, tk_created_at = now, tk_user_id = rid, tk_token = tok,
         tk_expires_at = expires, tk_used_at = None\<rparr>]\<rparr>"

text \<open>A registration for which there is room: the texts fit their columns, and the name, the address,
  the identifiers and the token are new.\<close>

definition room_for :: "valid_user_create \<Rightarrow> uuid \<Rightarrow> uuid \<Rightarrow> string \<Rightarrow> users_db \<Rightarrow> bool" where
  "room_for v rid tid tok d \<longleftrightarrow>
     length (vn_username v) \<le> 255 \<and> length (vn_email v) \<le> 255 \<and> length (vn_phone v) \<le> 50 \<and> length tok \<le> 64 \<and>
     rid \<notin> us_id ` set (users d) \<and> vn_username v \<notin> us_username ` set (users d) \<and> vn_email v \<notin> us_email ` set (users d) \<and>
     tid \<notin> tk_id ` set (email_tokens d) \<and> tok \<notin> tk_token ` set (email_tokens d)"

lemma run_register_body:
  assumes "healthy t" "room_for v (uuids t (ticks t)) (uuids t (Suc (ticks t))) tok (current t)"
  shows "bnd (create_user x v hash) (\<lambda>uid. create_verification_token x uid tok expires) t =
    (Ok (), t\<lparr>ticks := Suc (Suc (ticks t)),
       current := registered_db v hash (uuids t (ticks t)) (uuids t (Suc (ticks t))) tok expires (db_now t) (current t)\<rparr>)"
proof -
  let ?rid = "uuids t (ticks t)" and ?tid = "uuids t (Suc (ticks t))" and ?d = "current t" and ?now = "db_now t"
  let ?d1 = "?d\<lparr>users := users ?d @ [user_row ?rid ?now (vn_username v) hash (vn_email v) (vn_phone v) (vn_role v)]\<rparr>"
  have "insert_user_sql v hash ?rid ?now ?d = Inr (?rid, ?d1)"
    using assms(2) by (simp add: insert_user_sql_def room_for_def varchar_col_short)
  then have "create_user x v hash t = (Ok ?rid, t\<lparr>ticks := Suc (ticks t), current := ?d1\<rparr>)"
    using assms(1) by (simp add: create_user_def bnd_def next_uuid_def map_err_def stmt_Tx_healthy del: stmt.simps)
  moreover have "insert_token_sql EmailTokens ?rid tok expires ?tid ?now ?d1 =
      Inr (1, registered_db v hash ?rid ?tid tok expires ?now ?d)"
    using assms(2) by (simp add: insert_token_sql_def room_for_def varchar_col_short registered_db_def user_row_def)
  ultimately show ?thesis using assms(1)
    by (simp add: create_verification_token_def create_token_def bnd_def next_uuid_def map_err_def stmt_Tx_healthy exactly_one_def ret_def
        del: stmt.simps)
qed

lemma run_create_user_account:
  fixes sv :: "users_db srv" and c :: "redis option"
  assumes "healthy sv" "valid_user_create_new x y req = Ok v" "argon_hash y (vn_password v) (ml_salt r (ml_drawn r)) = Inr hash"
    "dt_add x (clock sv (ticks sv)) one_day = Some expires" "ml_outcomes r = []"
    "tok = concat (map (\<lambda>i. hex_byte (ml_random r (Suc (ml_drawn r)) i)) [0..<32])"
    "room_for v (uuids sv (ticks sv + 2)) (uuids sv (ticks sv + 3)) tok (committed sv)"
  obtains sv' r' where "create_user_account x y req (sv, c, r) = (Ok (), sv', c, r')" "healthy sv'" "clock sv' = clock sv" "ticks sv' = ticks sv + 4"
    "committed sv' = registered_db v hash (uuids sv (ticks sv + 2)) (uuids sv (ticks sv + 3)) tok expires (clock sv (Suc (ticks sv))) (committed sv)"
    "ml_sent r' = ml_sent r @ [verification_email (vn_email v) tok]"
proof -
  let ?sv = "sv\<lparr>ticks := Suc (ticks sv)\<rparr>"
  let ?m = "bnd (create_user x v hash) (\<lambda>uid. create_verification_token x uid tok expires)"
  have nums: "uuids sv (ticks sv + 2) = uuids sv (Suc (Suc (ticks sv)))" "uuids sv (ticks sv + 3) = uuids sv (Suc (Suc (Suc (ticks sv))))"
    by (simp_all add: numeral_eq_Suc)
  have start: "healthy (tx_start ?sv)" using assms(1) by simp
  note body = run_register_body[where v = v and x = x and hash = hash and expires = expires and tok = tok, OF start]
  have "room_for v (uuids (tx_start ?sv) (ticks (tx_start ?sv))) (uuids (tx_start ?sv) (Suc (ticks (tx_start ?sv)))) tok (current (tx_start ?sv))"
    using assms(7) nums by simp
  from body[OF this] obtain t where t: "?m (tx_start ?sv) = (Ok (), t)" "healthy t" "clock t = clock sv" "ticks t = ticks sv + 4"
      "current t = registered_db v hash (uuids sv (ticks sv + 2)) (uuids sv (ticks sv + 3)) tok expires (clock sv (Suc (ticks sv))) (committed sv)"
    using start nums by auto
  have sv1: "healthy ?sv" using assms(1) by simp
  note tx = run_in_tx_Ok[where m = ?m, OF sv1 t(1,2), of x "''Failed to create user: ''"]
  let ?t = "t\<lparr>committed := current t, current := current ?sv, aborted := aborted ?sv, db_now := db_now ?sv\<rparr>"
  have "healthy ?t" using t(2) assms(1) by (simp add: healthy_def)
  moreover have "\<exists>r'. create_user_account x y req (sv, c, r) = (Ok (), ?t, c, r') \<and> ml_sent r' = ml_sent r @ [verification_email (vn_email v) tok]"
    using assms(2-6) tx
    by (simp add: create_user_account_def bnd_def of_result_def on_mail_def on_snd_def on_fst_def hash_password_def
        generate_verification_token_def token_expiry_def utc_now_def next_stamp_def ret_def or_panic_def post_email_def
        attempt_def send_email_def)
  ultimately show ?thesis using t(3-5) that[of ?t] by auto
qed

text \<open>Verification of the address with the token that was sent.\<close>

lemma run_verify_email:
  fixes sv :: "users_db srv"
  assumes "healthy sv" "committed sv = registered_db v hash rid tid tok expires now d" "room_for v rid tid tok d"
    "clock sv (ticks sv) < expires"
  obtains sv' where "verify_email x tok (sv, rest) = (Ok (), sv', rest)" "healthy sv'" "clock sv' = clock sv"
    "\<exists>u. users (committed sv') = users d @ [u] \<and> us_id u = rid \<and> us_username u = vn_username v \<and> us_password u = hash \<and>
       us_deleted_at u = None \<and> us_email_verified u \<and> us_role u = vn_role v"
proof -
  let ?d = "committed sv" and ?row = "user_row rid now (vn_username v) hash (vn_email v) (vn_phone v) (vn_role v)"
  let ?tk = "\<lparr>tk_id = tid, tk_created_at = now, tk_user_id = rid, tk_token = tok, tk_expires_at = expires, tk_used_at = None\<rparr>"
  have d: "users ?d = users d @ [?row]" "email_tokens ?d = email_tokens d @ [?tk]" by (simp_all add: assms(2) registered_db_def)
  have news: "list_all (\<lambda>u. us_id u \<noteq> rid) (users d)" "list_all (\<lambda>t. tk_id t \<noteq> tid) (email_tokens d)"
    "list_all (\<lambda>t. \<not> valid_token tok (clock sv (ticks sv)) t) (email_tokens d)"
    using assms(3) by (auto simp: room_for_def list_all_iff valid_token_def)
  have "filter (valid_token tok (clock sv (ticks sv))) (email_tokens ?d) = [?tk]"
    unfolding d(2) by (rule filter_new[OF news(3)]) (use assms(4) in \<open>simp add: valid_token_def\<close>)
  then have found: "get_valid_verification_token x Pool tok sv = (Ok ?tk, sv)"
    using assms(1) by (simp add: get_valid_verification_token_def get_valid_token_def map_err_def fetch_one_def bnd_def stmt_Pool_healthy ret_def del: stmt.simps)
  let ?f = "\<lambda>u. u\<lparr>us_email_verified := True, us_updated_at := Some (db_now (tx_start sv))\<rparr>"
  let ?g = "\<lambda>t. t\<lparr>tk_used_at := Some (db_now (tx_start sv))\<rparr>"
  let ?m = "bnd (verify_user_email x rid) (\<lambda>_. mark_token_used x tid)"
  let ?d1 = "?d\<lparr>users := users d @ [?f ?row]\<rparr>"
  let ?d2 = "?d1\<lparr>email_tokens := email_tokens d @ [?g ?tk]\<rparr>"
  have "verify_email_sql rid (db_now (tx_start sv)) ?d = Inr (1, ?d1)"
    unfolding verify_email_sql_def d(1) using update_new[OF news(1), of ?row ?f] count_new[OF news(1), of ?row] by (simp add: user_row_def)
  moreover have "use_token_sql EmailTokens tid (db_now (tx_start sv)) ?d1 = Inr (1, ?d2)"
    using update_new[OF news(2), of ?tk ?g] count_new[OF news(2), of ?tk] by (simp add: use_token_sql_def d(2))
  ultimately have "?m (tx_start sv) = (Ok (), (tx_start sv)\<lparr>current := ?d2\<rparr>)"
    using assms(1)
    by (simp add: verify_user_email_def mark_token_used_def use_token_def bnd_def map_err_def stmt_Tx_healthy exactly_one_def ret_def del: stmt.simps)
  note tx = run_in_tx_Ok[where m = ?m, OF assms(1) this, of x "''Failed to verify email: ''"]
  let ?t = "(tx_start sv)\<lparr>current := ?d2\<rparr>"
  let ?t' = "?t\<lparr>committed := current ?t, current := current sv, aborted := aborted sv, db_now := db_now sv\<rparr>"
  have "verify_email x tok (sv, rest) = (Ok (), ?t', rest)"
    using tx assms(1) by (simp add: verify_email_def bnd_def on_fst_def found)
  moreover have "healthy ?t'" using assms(1) by (simp add: healthy_def)
  ultimately show ?thesis by (rule that) (simp_all add: user_row_def)
qed

text \<open>Signing in.\<close>

lemma found_by_username:
  assumes "healthy sv" "users (committed sv) = us @ [u]" "us_username u = name" "us_deleted_at u = None" "name \<notin> us_username ` set us"
  shows "get_user_by_username x Pool name sv = (Ok u, sv)"
proof -
  have "filter (\<lambda>u. us_username u = name \<and> us_deleted_at u = None) (us @ [u]) = [u]"
  proof (rule filter_new)
    show "list_all (\<lambda>u. \<not> (us_username u = name \<and> us_deleted_at u = None)) us"
      using assms(5) unfolding list_all_iff by blast
  qed (use assms(3,4) in simp)
  then show ?thesis using assms(1,2)
    by (simp add: get_user_by_username_def map_err_def fetch_one_def bnd_def run_query_healthy ret_def)
qed

definition jwt_signs :: "jwt_externs \<Rightarrow> bool" where
  "jwt_signs j \<longleftrightarrow> (\<forall>secret c. \<exists>t. jwt_encode j secret c = Inr t)"

lemma run_login:
  assumes "get_user_by_username x Pool name sv = (Ok u, sv)" "username_new x (ul_username req) = Ok name" "us_email_verified u"
    "verify_password y (ul_password req) (us_password u) = Ok ()" "jwt_signs j" "\<And>n. 0 \<le> clock sv n"
  shows "\<exists>tokens. fst (login_user x y j cfg req (sv, rest)) = Ok (LoginSuccess tokens)"
proof -
  have sign: "\<exists>t. sign j secret claims = Ok t" for secret claims
    using assms(5) unfolding jwt_signs_def sign_def by (metis sum.case(2))
  have "\<exists>t. generate_access_token x j cfg (us_id u) (us_username u) (us_role u) sv = (Ok t, sv\<lparr>ticks := Suc (ticks sv)\<rparr>)"
    using assms(6)[of "ticks sv"] sign by (simp add: generate_access_token_def bnd_def current_timestamp_def Let_def of_result_def)
  then obtain a where a: "generate_access_token x j cfg (us_id u) (us_username u) (us_role u) sv = (Ok a, sv\<lparr>ticks := Suc (ticks sv)\<rparr>)" ..
  have "\<exists>t. fst (jwt_refresh_token x j cfg (us_id u) (sv\<lparr>ticks := Suc (ticks sv)\<rparr>)) = Ok t"
    using assms(6)[of "Suc (ticks sv)"] sign by (simp add: jwt_refresh_token_def bnd_def current_timestamp_def next_uuid_def Let_def of_result_def)
  then obtain b sv' where b: "jwt_refresh_token x j cfg (us_id u) (sv\<lparr>ticks := Suc (ticks sv)\<rparr>) = (Ok b, sv')" by (metis prod.collapse)
  have "login_user x y j cfg req (sv, rest) = (Ok (LoginSuccess \<lparr>jt_access_token = a, jt_refresh_token = b\<rparr>), sv', rest)"
    using assms(1-4) a b by (simp add: login_user_def bnd_def of_result_def on_fst_def map_err_def ret_def)
  then show ?thesis by simp
qed

text \<open>A request that passes the middleware, and the current user.\<close>

lemma auth_handle_Ok:
  assumes "auth_handle x j cfg (Some g) header t = (Ok (u, c), t')"
  obtains token sv where "validate_access_token x j cfg token (fst t) = (Ok c, sv)" "g (at_sub c) (sv, snd t) = (Ok u, t')"
proof -
  from assms obtain token where *: "bnd (on_fst (map_err token_refusal (validate_access_token x j cfg token))) (\<lambda>c.
      bnd (map_err (\<lambda>_. UserNotFound) (g (at_sub c))) (\<lambda>u. ret (u, c))) t = (Ok (u, c), t')"
    by (cases "extract_bearer_token j header") (auto simp: auth_handle_def bnd_def[of "of_result _"] of_result_def)
  obtain r sv where v: "validate_access_token x j cfg token (fst t) = (r, sv)" by fastforce
  from * have "r = Ok c" by (cases r) (auto simp: bnd_def on_fst_def map_err_def v ret_def split: prod.splits result.splits)
  moreover from * this have "g (at_sub c) (sv, snd t) = (Ok u, t')"
    by (cases "g (at_sub c) (sv, snd t)"; cases "fst (g (at_sub c) (sv, snd t))")
       (auto simp: bnd_def on_fst_def map_err_def v ret_def)
  ultimately show ?thesis using that v by blast
qed

lemma current_user_fresh:
  assumes "current_good x y (committed (fst s)) (fst (snd s))" "\<forall>u text. current_text y u = Some text \<longrightarrow> current_of_text y text = Some u"
    and "current_user_by_id x y uid s = (Ok u, t)"
  shows "fresh_current (committed (fst s)) uid = Some u"
proof -
  obtain sv c r where s: "s = (sv, c, r)" by (cases s) auto
  have distinct: "distinct (map us_id (users (committed sv)))" using assms(1) by (simp add: current_good_def s)
  obtain hit where get: "(cache_get (current_of_text y) (user_cache_key x uid) c :: (current_user option, app_error) result \<times> _) =
      (Ok hit, map_option rd_tick c)"
    by (cases c) (simp_all add: cache_get_def)
  show ?thesis
  proof (cases hit)
    case None
    then obtain row sv' where row: "get_user_by_id x Pool uid sv = (Ok row, sv')" "u = current_row row"
      using assms(3) get by (auto simp: s current_user_by_id_def bnd_Ok_iff on_cache_def on_snd_def on_fst_def Let_def ret_def current_row_def
          split: prod.splits)
    then show ?thesis using fresh_current_live[OF distinct get_user_by_id_Ok[OF row(1)]] by (simp add: s)
  next
    case (Some v)
    then have "v = u" using assms(3) get by (simp add: s current_user_by_id_def bnd_def on_cache_def on_snd_def on_fst_def ret_def)
    moreover obtain q t e where q: "c = Some q" "rd_store q (user_cache_key x uid) = Some (t, e)" "current_of_text y t = Some v"
      using get Some by (cases c) (auto simp: cache_get_def bind_eq_Some_conv dest: rd_get_Some split: if_splits)
    ultimately show ?thesis using assms(1,2) by (fastforce simp: s current_good_def users_cached_def)
  qed
qed

text \<open>Spending a token.\<close>

lemma keeps_tokens_of:
  "(\<And>now d a d'. f now d = Inr (a, d') \<Longrightarrow> tokens_of tb d' = tokens_of tb d) \<Longrightarrow> keeps (\<lambda>s. tokens_of tb (current s)) (stmt Tx f)"
  by (auto simp: keeps_def split: sum.splits)

lemma keeps_token_tables:
  "keeps (\<lambda>s. tokens_of tb (current s)) (verify_user_email x uid)"
  "keeps (\<lambda>s. tokens_of tb (current s)) (update_user_password x uid hash)"
  unfolding verify_user_email_def update_user_password_def
  by (intro frame_rules keeps_tokens_of; simp add: verify_email_sql_def update_password_sql_def; elim conjE; simp)+

lemma use_token_Ok:
  assumes "use_token x tb what tid s = (Ok (), t)"
  shows "\<not> aborted t \<and> (\<exists>now. tokens_of tb (current t) =
    update_where (\<lambda>t. tk_id t = tid) (\<lambda>t. t\<lparr>tk_used_at := Some now\<rparr>) (tokens_of tb (current s)))"
  using assms
  by (auto simp: use_token_def bnd_Ok_iff map_err_Ok_iff use_token_sql_def exactly_one_def ret_def panic_def split: if_splits)

lemma tx_spends:
  assumes "keeps committed m" "keeps (\<lambda>s. tokens_of tb (current s)) m"
    and "in_tx x what (bnd m (\<lambda>_. use_token x tb msg tid)) s = (Ok (), t)"
  shows "\<exists>now. tokens_of tb (committed t) =
    update_where (\<lambda>t. tk_id t = tid) (\<lambda>t. t\<lparr>tk_used_at := Some now\<rparr>) (tokens_of tb (committed s))"
proof -
  let ?m = "bnd m (\<lambda>_. use_token x tb msg tid)"
  have "with_transaction (map_err tx_other ?m) s = (Ok (), t)" using assms(3) by (simp add: in_tx_def map_err_Ok_iff)
  then obtain t0 where run: "?m (tx_start s) = (Ok (), t0)" "committed t = (if aborted t0 then committed t0 else current t0)"
    by (rule with_transaction_Ok) (simp add: map_err_Ok_iff)
  from run(1) obtain a t1 where m: "m (tx_start s) = (Ok a, t1)" "use_token x tb msg tid t1 = (Ok (), t0)" by (auto simp: bnd_Ok_iff)
  have "tokens_of tb (current t1) = tokens_of tb (committed s)" using keepsD[OF assms(2) m(1)] by simp
  then show ?thesis using use_token_Ok[OF m(2)] run(2) by auto
qed

lemma get_valid_token_Ok:
  assumes "get_valid_token tb Pool tok s = (Ok t, s')"
  shows "t \<in> set (tokens_of tb (committed s)) \<and> tk_token t = tok \<and> committed s' = committed s"
proof -
  have "\<exists>rs. filter (valid_token tok (clock s (ticks s))) (tokens_of tb (committed s)) = t # rs \<and> committed s' = committed s"
    using assms
    by (cases "filter (valid_token tok (clock s (ticks s))) (tokens_of tb (committed s))")
       (auto simp: get_valid_token_def fetch_one_def bnd_def ret_def throw_def split: if_splits)
  then obtain rs where rs: "filter (valid_token tok (clock s (ticks s))) (tokens_of tb (committed s)) = t # rs" "committed s' = committed s" by blast
  have "t \<in> set (filter (valid_token tok (clock s (ticks s))) (tokens_of tb (committed s)))" by (simp add: rs(1))
  then show ?thesis using rs(2) by (simp add: valid_token_def)
qed

lemma spent_by_update:
  assumes "t \<in> set (tokens_of tb d)" "distinct (map tk_token (tokens_of tb d))"
    "tokens_of tb d' = update_where (\<lambda>u. tk_id u = tk_id t) (\<lambda>t. t\<lparr>tk_used_at := Some now\<rparr>) (tokens_of tb d)"
  shows "spent tb (tk_token t) d'"
proof -
  have "t\<lparr>tk_used_at := Some now\<rparr> \<in> set (tokens_of tb d')" using assms(1) unfolding assms(3) set_update_where by (auto intro!: image_eqI)
  then show ?thesis using assms(2) unfolding spent_def assms(3) by (intro conjI bexI) simp_all
qed

lemma spent_not_valid: "spent tb tok (committed s) \<Longrightarrow> \<not> is_ok (fst (get_valid_token tb Pool tok s))"
proof -
  assume s: "spent tb tok (committed s)"
  then obtain t where t: "t \<in> set (tokens_of tb (committed s))" "tk_token t = tok" "tk_used_at t \<noteq> None" by (auto simp: spent_def)
  have "\<not> valid_token tok now u" if "u \<in> set (tokens_of tb (committed s))" for u now
    using s t that by (auto simp: spent_def valid_token_def distinct_map dest: inj_onD)
  then have "filter (valid_token tok now) (tokens_of tb (committed s)) = []" for now by (simp add: filter_empty_conv)
  then show ?thesis by (simp add: get_valid_token_def fetch_one_def bnd_def throw_def)
qed

lemma verify_email_spends:
  assumes "verify_email x tok s = (Ok (), t)" "distinct (map tk_token (email_tokens (committed (fst s))))"
  shows "spent EmailTokens tok (committed (fst t))"
proof -
  from assms(1) obtain tk sv sv' where g: "get_valid_token EmailTokens Pool tok (fst s) = (Ok tk, sv)"
    and tx: "in_tx x ''Failed to verify email: '' (bnd (verify_user_email x (tk_user_id tk)) (\<lambda>_. mark_token_used x (tk_id tk))) sv = (Ok (), sv')"
    and t: "fst t = sv'"
    by (auto simp: verify_email_def bnd_Ok_iff on_fst_Ok_iff get_valid_verification_token_def map_err_Ok_iff)
  from get_valid_token_Ok[OF g] have tk: "tk \<in> set (tokens_of EmailTokens (committed (fst s)))" "tk_token tk = tok" "committed sv = committed (fst s)" by simp_all
  from tx_spends[OF keeps_user_writes(5) keeps_token_tables(1), where tb = EmailTokens] tx
  obtain now where "tokens_of EmailTokens (committed sv') =
      update_where (\<lambda>t. tk_id t = tk_id tk) (\<lambda>t. t\<lparr>tk_used_at := Some now\<rparr>) (tokens_of EmailTokens (committed sv))"
    unfolding mark_token_used_def by blast
  then show ?thesis using spent_by_update[OF tk(1)] tk(2,3) assms(2) t by simp
qed

lemma reset_password_spends:
  assumes "reset_password x y req s = (Ok (), t)" "distinct (map tk_token (reset_tokens (committed (fst s))))"
  shows "spent ResetTokens (rp_token req) (committed (fst t))"
proof -
  from assms(1) obtain tk sv sv' hash where g: "get_valid_token ResetTokens Pool (rp_token req) (fst s) = (Ok tk, sv)"
    and tx: "in_tx x ''Failed to reset password: '' (bnd (update_user_password x (tk_user_id tk) hash) (\<lambda>_. mark_reset_token_used x (tk_id tk))) sv = (Ok (), sv')"
    and t: "fst t = sv'"
    by (auto simp: reset_password_def bnd_Ok_iff on_fst_Ok_iff on_mail_def on_snd_Ok_iff of_result_Ok_iff get_valid_password_reset_token_def map_err_Ok_iff)
  from get_valid_token_Ok[OF g] have tk: "tk \<in> set (tokens_of ResetTokens (committed (fst s)))" "tk_token tk = rp_token req" "committed sv = committed (fst s)" by simp_all
  from tx_spends[OF keeps_user_writes(4) keeps_token_tables(2), where tb = ResetTokens] tx
  obtain now where "tokens_of ResetTokens (committed sv') =
      update_where (\<lambda>t. tk_id t = tk_id tk) (\<lambda>t. t\<lparr>tk_used_at := Some now\<rparr>) (tokens_of ResetTokens (committed sv))"
    unfolding mark_reset_token_used_def by blast
  then show ?thesis using spent_by_update[OF tk(1)] tk(2,3) assms(2) t by simp
qed

lemma spent_refused:
  "spent EmailTokens tok (committed (fst s)) \<Longrightarrow> \<not> is_ok (fst (verify_email x tok s))"
  "spent ResetTokens (rp_token req) (committed (fst s)) \<Longrightarrow> \<not> is_ok (fst (reset_password x y req s))"
  using spent_not_valid[of EmailTokens tok "fst s"] spent_not_valid[of ResetTokens "rp_token req" "fst s"]
  by (auto simp: verify_email_def reset_password_def bnd_def on_fst_def get_valid_verification_token_def
      get_valid_password_reset_token_def map_err_def split: prod.splits result.splits)

text \<open>An update of a user's own row.\<close>

lemma run_update_user:
  assumes "healthy sv" "accounts_ok x y (committed sv)" "u \<in> set (users (committed sv))" "us_deleted_at u = None"
    and "vm_username v = us_username u" "vm_email v = us_email u" "length (vm_username v) \<le> 255" "length (vm_email v) \<le> 255"
    and "length (vm_phone v) \<le> 50"
  obtains sv' where "in_tx x what (update_user x (us_id u) v) sv = (Ok (), sv')" "healthy sv'"
    "set_user (vm_username v) (vm_email v) (vm_phone v) (vm_role v) (clock sv (ticks sv)) u \<in> set (users (committed sv'))"
    "distinct (map us_id (users (committed sv')))"
proof -
  let ?d = "committed sv" and ?P = "live_user (us_id u)"
  let ?f = "set_user (vm_username v) (vm_email v) (vm_phone v) (vm_role v) (clock sv (ticks sv))"
  let ?t = "(tx_start sv)\<lparr>current := ?d\<lparr>users := update_where ?P ?f (users ?d)\<rparr>\<rparr>"
  have live: "?P u" using assms(4) by (simp add: live_user_def)
  have one: "filter ?P (users ?d) = [u]" using filter_live_user[OF _ assms(3) live] assms(2) by (simp add: accounts_ok_def)
  have only: "q = u" if "q \<in> set (users ?d)" "us_username q = us_username u \<or> us_email q = us_email u" for q
    using assms(2,3) that by (auto simp: accounts_ok_def distinct_map dest: inj_onD)
  have clash: "\<not> list_ex (\<lambda>q. \<not> ?P q \<and> us_username q = vm_username v) (users ?d)" "\<not> list_ex (\<lambda>q. \<not> ?P q \<and> us_email q = vm_email v) (users ?d)"
    using only live assms(5,6) by (auto simp: list_ex_iff)
  have "update_user_sql (us_id u) v (clock sv (ticks sv)) ?d = Inr (1, ?d\<lparr>users := update_where ?P ?f (users ?d)\<rparr>)"
    using clash one assms(7-9) by (simp add: update_user_sql_def varchar_col_short Let_def count_where_def)
  then have "update_user x (us_id u) v (tx_start sv) = (Ok (), ?t)"
    using assms(1) by (simp add: update_user_def bnd_def map_err_def stmt_Tx_healthy one_row_def ret_def del: stmt.simps)
  note tx = run_in_tx_Ok[where m = "update_user x (us_id u) v", OF assms(1) this, of x what]
  have "?f u \<in> set (update_where ?P ?f (users ?d))" unfolding set_update_where using assms(3) live by (auto intro!: image_eqI)
  moreover have "distinct (map us_id (update_where ?P ?f (users ?d)))" using assms(2) by (simp add: accounts_ok_def set_user_def)
  moreover have "healthy (?t\<lparr>committed := current ?t, current := current sv, aborted := aborted sv, db_now := db_now sv\<rparr>)"
    using assms(1) by (simp add: healthy_def)
  ultimately show ?thesis using tx assms(1) by (intro that[OF tx]) (simp_all add: healthy_def)
qed

lemma run_current_user:
  assumes "healthy sv" "distinct (map us_id (users (committed sv)))" "u \<in> set (users (committed sv))" "us_deleted_at u = None"
    and "case c of None \<Rightarrow> True | Some r \<Rightarrow> rd_faults r = []"
  shows "fst (current_user_by_id x y (us_id u) (sv, evicted (user_cache_key x (us_id u)) c, m)) = Ok (current_row u)"
proof -
  have "filter (live_user (us_id u)) (users (committed sv)) = [u]"
    by (rule filter_live_user[OF assms(2,3)]) (use assms(4) in \<open>simp add: live_user_def\<close>)
  then have "get_user_by_id x Pool (us_id u) sv = (Ok u, sv)"
    using assms(1) by (simp add: get_user_by_id_def map_err_def fetch_one_def bnd_def run_query_healthy ret_def)
  then show ?thesis using assms(5)
    by (cases c) (simp_all add: current_user_by_id_def bnd_def on_cache_def on_snd_def on_fst_def cache_get_def evicted_def
        rd_fault_def rd_tick_def rd_get_def run_cache(3) Let_def ret_def current_row_def)
qed

section \<open>A concrete session\<close>

definition demo_id_externs :: externs where
  "demo_id_externs = demo_externs\<lparr>lower := map to_ascii_lowercase\<rparr>"

definition demo_users :: user_externs where
  "demo_users =
     \<lparr>is_upper = byte_class is_ascii_uppercase, is_lower = byte_class is_ascii_lowercase, is_digit = byte_class is_ascii_digit,
      argon_hash = (\<lambda>pw salt. Inr (salt @ pw)), hash_parse = (\<lambda>h. None),
      argon_verify = (\<lambda>pw h. if suffix pw h then HashMatches else HashDiffers), uuid_error = (\<lambda>t. ''invalid length''),
      current_text = (\<lambda>u. if u = \<lparr>cu_id = 1, cu_role = Seller\<rparr> then Some ''ann'' else None),
      current_of_text = (\<lambda>t. if t = ''ann'' then Some \<lparr>cu_id = 1, cu_role = Seller\<rparr> else None)\<rparr>"

definition demo_ann :: user where
  "demo_ann =
     \<lparr>us_id = 1, us_created_at = 0, us_updated_at = None, us_deleted_at = None, us_username = ''ann'', us_password = ''Passw0rd!'',
      us_email = ''a@b.co'', us_phone = ''+8210123'', us_role = Seller, us_email_verified = True\<rparr>"

definition demo_token :: "uuid \<Rightarrow> string \<Rightarrow> account_token" where
  "demo_token i t = \<lparr>tk_id = i, tk_created_at = 0, tk_user_id = 1, tk_token = t, tk_expires_at = 1000, tk_used_at = None\<rparr>"

definition demo_accounts :: users_db where
  "demo_accounts = \<lparr>users = [demo_ann], email_tokens = [demo_token 7 ''t7''], reset_tokens = [demo_token 8 ''t8'']\<rparr>"

definition demo_mail :: mailroom where
  "demo_mail = \<lparr>ml_random = (\<lambda>n i. 0), ml_salt = (\<lambda>n. ''s''), ml_drawn = 0, ml_outcomes = [], ml_sent = []\<rparr>"

lemma demo_id_simps [simp]:
  "uuid_codec demo_id_externs" "lower_ascii demo_id_externs" "lower demo_id_externs = map to_ascii_lowercase"
  "dt_add demo_id_externs = (\<lambda>t d. Some (t + int d))"
  by (simp_all add: demo_id_externs_def lower_ascii_def demo_externs_def uuid_codec_def)

lemma trim_demo_accounts:
  "trim ''ann'' = ''ann''" "trim ''+8210123'' = ''+8210123''" "trim ''a@b.co'' = ''a@b.co''"
  by (rule trim_visible, simp add: visible_char_def)+

lemmas demo_chars = byte_class_def code_char_def is_ascii_digit_def is_ascii_uppercase_def is_ascii_lowercase_def
  username_char_def email_local_char_def email_domain_char_def is_letter_def

lemma demo_username: "username_new demo_id_externs ''ann'' = Ok ''ann''"
proof -
  have "is_match username_re ''ann''"
    by (simp add: is_match_def username_re_def plus_def continuation_def demo_chars)
  then show ?thesis by (simp add: username_new_def trim_demo_accounts username_blocklist_def to_ascii_lowercase_def is_ascii_uppercase_def)
qed

lemma demo_email: "email_new demo_id_externs ''a@b.co'' = Ok ''a@b.co''"
proof -
  have "email_address ''a@b.co''"
    unfolding email_address_def
    by (intro exI[of _ "''a''"] exI[of _ "''b''"] exI[of _ "''co''"]) (simp add: demo_chars)
  then show ?thesis by (simp add: email_new_def trim_demo_accounts is_match_email to_ascii_lowercase_def is_ascii_uppercase_def)
qed

lemma demo_phone: "phone_new demo_users ''+8210123'' = Ok ''+8210123''"
proof -
  have "is_match (phone_re demo_users) ''+8210123''"
    by (simp add: is_match_def phone_re_def demo_users_def plus_def opt_def lit_def continuation_def demo_chars numeral_eq_Suc)
  then show ?thesis by (simp add: phone_new_def trim_demo_accounts continuation_def demo_chars)
qed

lemma demo_password: "password_new demo_users ''Passw0rd!'' = Ok ''Passw0rd!''"
  by (simp add: password_new_def password_missing_def demo_users_def continuation_def demo_chars special_chars_def)

lemma demo_accounts_ok: "accounts_ok demo_id_externs demo_users demo_accounts"
  by (simp add: accounts_ok_def demo_accounts_def demo_ann_def demo_token_def tokens_ok_def user_ok_def demo_username demo_email demo_phone)

section \<open>Properties\<close>

text \<open>C17: The tables of accounts stay consistent under every sequence of requests, whatever their
  authorization and whatever fails: identifiers, user names, addresses and tokens are unique, every
  token belongs to a user, and every stored user passes validation unchanged, so that it can always be read
  as a domain user.\<close>

theorem accounts_stay_consistent:
  assumes "lower_ascii x" "accounts_ok x y (committed (fst s))" "t = serve_all (identity_app x y j cfg) reqs s"
  shows "accounts_ok x y (committed (fst t)) \<and> list_all (\<lambda>u. is_ok (user_try_from x y u)) (users (committed (fst t)))"
proof -
  have "accounts_ok x y (committed (fst t))"
    using consistent.runs.serve_all_inv[of reqs x y s j cfg] assms by (simp add: account_inv_def list_all_iff)
  then show ?thesis
    by (auto simp: accounts_ok_def list_all_iff user_ok_def user_try_from_def)
qed

theorem accounts_stay_consistent_witness:
  "accounts_ok demo_id_externs demo_users (committed (fst (serve_all (identity_app demo_id_externs demo_users demo_jwt demo_auth)
     [(None, RVerifyEmail ''t7''), (Some ''Bearer access'', RDeleteUser 1)] (demo_srv demo_accounts, None, demo_mail))))"
  using accounts_stay_consistent[where s = "(demo_srv demo_accounts, None, demo_mail)" and x = demo_id_externs and y = demo_users, OF _ _ refl]
  by (simp add: demo_accounts_ok)

text \<open>C18: The middleware of the identity service sees a user as the database has it: as long as Redis
  answers, after any sequence of requests, a request that passes acts with the role that the live
  row of its user has at that moment, and a deleted user passes no more.\<close>

theorem middleware_user_is_current:
  assumes "uuid_codec x" "\<forall>u text. current_text y u = Some text \<longrightarrow> current_of_text y text = Some u"
    and "current_good x y (committed (fst s)) (fst (snd s))" "t = serve_all (identity_app x y j cfg) reqs s"
    and "auth_handle x j cfg (Some (current_user_by_id x y)) header t = (Ok (u, c), t')"
  shows "fresh_current (committed (fst t)) (at_sub c) = Some u"
proof -
  have good: "current_good x y (committed (fst t)) (fst (snd t))"
    using fresh.runs.serve_all_inv[of reqs x y s j cfg] assms(1,3,4) by (simp add: account_inv_def list_all_iff)
  from assms(5) obtain token sv where "validate_access_token x j cfg token (fst t) = (Ok c, sv)"
      and sv: "current_user_by_id x y (at_sub c) (sv, snd t) = (Ok u, t')"
    by (rule auth_handle_Ok)
  then have "committed sv = committed (fst t)" using keepsD[OF keeps_tokens(3)] by blast
  then show ?thesis using current_user_fresh[where s = "(sv, snd t)" and uid = "at_sub c" and u = u and t = t' and x = x and y = y] sv good assms(2) by simp
qed

theorem middleware_user_is_current_witness:
  "fresh_current (committed (fst (serve_all (identity_app demo_externs demo_users demo_jwt demo_auth)
     [(None, RGetUser 1)] (demo_srv demo_accounts, None, demo_mail)))) 1 = Some \<lparr>cu_id = 1, cu_role = Seller\<rparr>"
proof -
  let ?s = "(demo_srv demo_accounts, None, demo_mail)"
  let ?t = "serve_all (identity_app demo_externs demo_users demo_jwt demo_auth) [(None, RGetUser 1)] ?s"
  have t: "?t = ?s"
    by (simp add: serve_all_def identity_app_def auth_handle_def extract_bearer_token_def bnd_def of_result_def map_err_def)
  have row: "current_user_by_id demo_externs demo_users 1 ((demo_srv demo_accounts)\<lparr>ticks := 1\<rparr>, None, demo_mail) =
      (Ok \<lparr>cu_id = 1, cu_role = Seller\<rparr>, ((demo_srv demo_accounts)\<lparr>ticks := 1\<rparr>, None, demo_mail))"
    by (simp add: current_user_by_id_def bnd_def on_cache_def on_snd_def on_fst_def cache_get_def cache_set_def get_user_by_id_def
        map_err_def fetch_one_def run_query_healthy ret_def demo_accounts_def demo_ann_def live_user_def Let_def)
  have claims: "validate_access_token demo_externs demo_jwt demo_auth ''access'' (demo_srv demo_accounts) =
      (Ok demo_access, (demo_srv demo_accounts)\<lparr>ticks := 1\<rparr>)"
    by (simp add: validate_access_token_def checked_claims_def unix_secs_def bnd_def of_result_def demo_jwt_def table_jwt_def
        access_claims_of_json_def access_claims_json_def demo_access_def str_field_def int_field_def of_name_def roles_def Let_def)
  have "extract_bearer_token demo_jwt (Some (''Bearer '' @ ''access'')) = Ok ''access''"
    by (rule extract_bearer_token_signed[OF demo_jwt_laws]) (simp add: token_char_def code_char_def is_ascii_lowercase_def)
  then have "auth_handle demo_externs demo_jwt demo_auth (Some (current_user_by_id demo_externs demo_users)) (Some ''Bearer access'') ?t =
      (Ok (\<lparr>cu_id = 1, cu_role = Seller\<rparr>, demo_access), ((demo_srv demo_accounts)\<lparr>ticks := 1\<rparr>, None, demo_mail))"
    unfolding t by (simp add: auth_handle_def bnd_def of_result_def on_fst_def map_err_def claims row[simplified] ret_def demo_access_def)
  from middleware_user_is_current[OF _ _ _ refl this] show ?thesis
    by (simp add: current_good_def demo_accounts_def demo_users_def demo_access_def)
qed

text \<open>C20: A token works once: after an address has been verified or a password reset with a token, no
  sequence of requests makes the same token valid again.\<close>

theorem spent_tokens_refused:
  assumes "accounts_ok x y (committed (fst s))"
  shows "(verify_email x tok s = (Ok (), t) \<longrightarrow> \<not> is_ok (fst (verify_email x tok (serve_all (identity_app x y j cfg) reqs t)))) \<and>
    (reset_password x y req s = (Ok (), t) \<longrightarrow>
       \<not> is_ok (fst (reset_password x y (req\<lparr>rp_new_password := pw\<rparr>) (serve_all (identity_app x y j cfg) reqs t))))"
proof -
  have d: "distinct (map tk_token (email_tokens (committed (fst s))))" "distinct (map tk_token (reset_tokens (committed (fst s))))"
    using assms by (simp_all add: accounts_ok_def tokens_ok_def)
  have stays: "spent tb tk (committed (fst t)) \<Longrightarrow> spent tb tk (committed (fst (serve_all (identity_app x y j cfg) reqs t)))" for tb tk
    using used.runs.serve_all_inv[of reqs tb tk t x y j cfg] by (simp add: account_inv_def list_all_iff)
  show ?thesis
  proof (intro conjI impI)
    assume "verify_email x tok s = (Ok (), t)"
    from stays[OF verify_email_spends[OF this d(1)]]
    show "\<not> is_ok (fst (verify_email x tok (serve_all (identity_app x y j cfg) reqs t)))" by (rule spent_refused(1))
  next
    assume "reset_password x y req s = (Ok (), t)"
    from stays[OF reset_password_spends[OF this d(2)]]
    show "\<not> is_ok (fst (reset_password x y (req\<lparr>rp_new_password := pw\<rparr>) (serve_all (identity_app x y j cfg) reqs t)))"
      by (intro spent_refused(2)) simp
  qed
qed

theorem spent_tokens_refused_witness:
  "fst (verify_email demo_id_externs ''t7'' (demo_srv demo_accounts, None, demo_mail)) = Ok () \<and>
   \<not> is_ok (fst (verify_email demo_id_externs ''t7'' (serve_all (identity_app demo_id_externs demo_users demo_jwt demo_auth)
     [(None, RForgotPassword ''a@b.co'')] (snd (verify_email demo_id_externs ''t7'' (demo_srv demo_accounts, None, demo_mail))))))"
proof -
  let ?run = "verify_email demo_id_externs ''t7'' (demo_srv demo_accounts, None, demo_mail)"
  have run: "fst ?run = Ok ()"
    by (simp add: verify_email_def get_valid_verification_token_def get_valid_token_def fetch_one_def bnd_def on_fst_def map_err_def
        demo_accounts_def demo_token_def demo_ann_def valid_token_def ret_def in_tx_def with_transaction_def begin_tx_def commit_tx_def
        resume_tx_def verify_user_email_def
        verify_email_sql_def mark_token_used_def use_token_def use_token_sql_def exactly_one_def count_where_def Let_def)
  then have "?run = (Ok (), snd ?run)" by (metis prod.collapse)
  with run spent_tokens_refused[of demo_id_externs demo_users "(demo_srv demo_accounts, None, demo_mail)" "''t7''" "snd ?run"]
  show ?thesis by (simp add: demo_accounts_ok)
qed

text \<open>C21: The rows of a user change by the requests of other authenticated users only if they are
  administrators.\<close>

theorem accounts_separated:
  assumes "list_all (\<lambda>(u, rt). \<not> can_access u v) reqs"
  shows "rows_of v (serve_all (protected_handler x y) reqs s) = rows_of v s"
  by (rule own_account.serve_all_frame) (use assms in simp_all)

theorem accounts_separated_witness:
  "rows_of 1 (serve_all (protected_handler demo_id_externs demo_users) [(\<lparr>cu_id = 2, cu_role = Seller\<rparr>, RDeleteUser 1)]
     (demo_srv demo_accounts, None, demo_mail)) = [demo_ann]"
  using accounts_separated[of 1 "[(\<lparr>cu_id = 2, cu_role = Seller\<rparr>, RDeleteUser 1)]" demo_id_externs demo_users
      "(demo_srv demo_accounts, None, demo_mail)"]
  by (simp add: can_access_def rows_of_def demo_accounts_def demo_ann_def)

text \<open>C25: The role of a user is a field of the request that updates the user: any user can become an
  administrator, and acts as one from the next request on.\<close>

theorem users_promote_themselves:
  assumes "lower_ascii x" "healthy (fst s)" "accounts_ok x y (committed (fst s))"
    and "u \<in> set (users (committed (fst s)))" "us_deleted_at u = None" "length (us_phone u) \<le> 50"
    and "case fst (snd s) of None \<Rightarrow> True | Some r \<Rightarrow> rd_faults r = []"
    and "req = \<lparr>uu_username = us_username u, uu_email = us_email u, uu_phone = us_phone u, uu_role = Admin\<rparr>"
  shows "fst (protected_handler x y (current_row u) (RUpdateUser (us_id u) req) s) = Ok (UserDone 200 ''User updated successfully'') \<and>
    fst (current_user_by_id x y (us_id u) (snd (protected_handler x y (current_row u) (RUpdateUser (us_id u) req) s))) =
      Ok \<lparr>cu_id = us_id u, cu_role = Admin\<rparr>"
proof -
  obtain sv c m where s: "s = (sv, c, m)" by (cases s) auto
  let ?v = "\<lparr>vm_username = us_username u, vm_email = us_email u, vm_phone = us_phone u, vm_role = Admin\<rparr>"
  let ?u = "set_user (us_username u) (us_email u) (us_phone u) Admin (clock sv (ticks sv)) u"
  have ok: "user_ok x y u" using assms(3,4) by (auto simp: accounts_ok_def list_all_iff)
  then have v: "valid_user_update_new x y req = Ok ?v" using assms(8) by (simp add: user_ok_def valid_user_update_new_def)
  have len: "length (us_username u) \<le> 255" "length (us_email u) \<le> 255"
    using ok username_new_Ok[of x "us_username u" "us_username u"] email_new_Ok(2)[OF assms(1), of "us_email u" "us_email u"]
    by (auto simp: user_ok_def)
  obtain sv' where tx: "in_tx x ''Failed to update user: '' (update_user x (us_id u) ?v) sv = (Ok (), sv')" "healthy sv'"
      "?u \<in> set (users (committed sv'))" "distinct (map us_id (users (committed sv')))"
    using run_update_user[of sv x y u ?v "''Failed to update user: ''"] assms(2-6) len by (auto simp: s)
  have upd: "protected_handler x y (current_row u) (RUpdateUser (us_id u) req) s =
      (Ok (UserDone 200 ''User updated successfully''), sv', evicted (user_cache_key x (us_id u)) c, m)"
    by (simp add: s bnd_def of_result_def require_access_def can_access_def current_row_def user_done_def update_user_account_def v
        on_fst_def tx(1) on_cache_def on_snd_def run_cache(1) ret_def)
  have "us_id ?u = us_id u" "us_deleted_at ?u = None" "current_row ?u = \<lparr>cu_id = us_id u, cu_role = Admin\<rparr>"
    using assms(5) by (simp_all add: set_user_def current_row_def)
  then have "fst (current_user_by_id x y (us_id u) (sv', evicted (user_cache_key x (us_id u)) c, m)) = Ok \<lparr>cu_id = us_id u, cu_role = Admin\<rparr>"
    using run_current_user[OF tx(2,4,3), of c x y m] assms(7) by (simp add: s)
  then show ?thesis unfolding upd by simp
qed

theorem users_promote_themselves_witness:
  "fst (current_user_by_id demo_id_externs demo_users 1
     (snd (protected_handler demo_id_externs demo_users \<lparr>cu_id = 1, cu_role = Seller\<rparr>
        (RUpdateUser 1 \<lparr>uu_username = ''ann'', uu_email = ''a@b.co'', uu_phone = ''+8210123'', uu_role = Admin\<rparr>)
        (demo_srv demo_accounts, None, demo_mail)))) = Ok \<lparr>cu_id = 1, cu_role = Admin\<rparr>"
  using users_promote_themselves[of demo_id_externs "(demo_srv demo_accounts, None, demo_mail)" demo_users demo_ann, OF _ _ _ _ _ _ _ refl]
  by (simp add: demo_accounts_ok) (simp add: demo_accounts_def demo_ann_def current_row_def)

text \<open>C19: A new account comes alive: in a session where nothing fails, a valid registration with a free
  name and address stores the account and sends a token; the account cannot sign in before the
  address is verified; the token verifies it; and then the password of the registration signs in.\<close>

theorem registered_user_can_log_in:
  assumes "healthy sv" "valid_user_create_new x y req = Ok v" "argon_hash y (ur_password req) (ml_salt r (ml_drawn r)) = Inr hash"
    and "verify_password y (ur_password req) hash = Ok ()" "ml_outcomes r = []" "jwt_signs j"
    and "dt_add x (clock sv (ticks sv)) one_day = Some expires" "clock sv (ticks sv + 4) < expires" "\<And>n. 0 \<le> clock sv n"
    and "tok = concat (map (\<lambda>i. hex_byte (ml_random r (Suc (ml_drawn r)) i)) [0..<32])"
    and "room_for v (uuids sv (ticks sv + 2)) (uuids sv (ticks sv + 3)) tok (committed sv)"
    and "login = \<lparr>ul_username = ur_username req, ul_password = ur_password req\<rparr>"
  shows "\<exists>s1 s2. create_user_account x y req (sv, c, r) = (Ok (), s1) \<and>
    last (ml_sent (snd (snd s1))) = verification_email (vn_email v) tok \<and>
    fst (login_user x y j cfg login s1) = Err (Forbidden ''Please verify your email before logging in'') \<and>
    verify_email x tok s1 = (Ok (), s2) \<and> (\<exists>tokens. fst (login_user x y j cfg login s2) = Ok (LoginSuccess tokens))"
proof -
  let ?rid = "uuids sv (ticks sv + 2)" and ?tid = "uuids sv (ticks sv + 3)" and ?now = "clock sv (Suc (ticks sv))"
  let ?row = "user_row ?rid ?now (vn_username v) hash (vn_email v) (vn_phone v) (vn_role v)"
  have v: "username_new x (ur_username req) = Ok (vn_username v)" "vn_password v = ur_password req"
    using assms(2) by (auto simp: valid_user_create_new_def and_then_Ok_iff password_new_def Let_def split: if_splits)
  have free: "vn_username v \<notin> us_username ` set (users (committed sv))" using assms(11) by (simp add: room_for_def)
  obtain sv1 r1 where reg: "create_user_account x y req (sv, c, r) = (Ok (), sv1, c, r1)" "healthy sv1" "clock sv1 = clock sv" "ticks sv1 = ticks sv + 4"
      "committed sv1 = registered_db v hash ?rid ?tid tok expires ?now (committed sv)"
      "ml_sent r1 = ml_sent r @ [verification_email (vn_email v) tok]"
    using run_create_user_account[of sv x y req v r hash expires tok c] assms v(2) by auto
  have "get_user_by_username x Pool (vn_username v) sv1 = (Ok ?row, sv1)"
    by (rule found_by_username[OF reg(2) _ _ _ free]) (simp_all add: reg(5) registered_db_def user_row_def)
  then have refused: "fst (login_user x y j cfg login (sv1, c, r1)) = Err (Forbidden ''Please verify your email before logging in'')"
    using v(1) assms(12) by (simp add: login_user_def bnd_def of_result_def on_fst_def throw_def user_row_def)
  obtain sv2 u where ver: "verify_email x tok (sv1, c, r1) = (Ok (), sv2, c, r1)" "healthy sv2" "clock sv2 = clock sv1"
      "users (committed sv2) = users (committed sv) @ [u]" "us_username u = vn_username v" "us_password u = hash" "us_deleted_at u = None"
      "us_email_verified u"
    using run_verify_email[OF reg(2,5) assms(11), of x "(c, r1)"] assms(8) reg(3,4) by metis
  have "get_user_by_username x Pool (vn_username v) sv2 = (Ok u, sv2)"
    by (rule found_by_username[OF ver(2,4,5,7) free])
  from run_login[OF this, of login y j cfg "(c, r1)"] have "\<exists>tokens. fst (login_user x y j cfg login (sv2, c, r1)) = Ok (LoginSuccess tokens)"
    using v(1) assms(4,6,9,12) ver(3,6,8) reg(3) by simp
  then show ?thesis using reg(1,6) refused ver(1) by auto
qed

theorem registered_user_can_log_in_witness:
  "\<exists>s1 s2. create_user_account demo_id_externs demo_users
       \<lparr>ur_username = ''ann'', ur_password = ''Passw0rd!'', ur_email = ''a@b.co'', ur_phone = ''+8210123'', ur_role = Buyer\<rparr>
       (demo_srv \<lparr>users = [], email_tokens = [], reset_tokens = []\<rparr>, None, demo_mail) = (Ok (), s1) \<and>
     verify_email demo_id_externs (concat (map (\<lambda>i. hex_byte 0) [0..<32])) s1 = (Ok (), s2) \<and>
     (\<exists>tokens. fst (login_user demo_id_externs demo_users (demo_jwt\<lparr>jwt_encode := \<lambda>k c. Inr ''t''\<rparr>) demo_auth
        \<lparr>ul_username = ''ann'', ul_password = ''Passw0rd!''\<rparr> s2) = Ok (LoginSuccess tokens))"
proof -
  let ?req = "\<lparr>ur_username = ''ann'', ur_password = ''Passw0rd!'', ur_email = ''a@b.co'', ur_phone = ''+8210123'', ur_role = Buyer\<rparr>"
  let ?v = "\<lparr>vn_username = ''ann'', vn_password = ''Passw0rd!'', vn_email = ''a@b.co'', vn_phone = ''+8210123'', vn_role = Buyer\<rparr>"
  let ?tok = "concat (map (\<lambda>i. hex_byte 0) [0..<32])"
  have v: "valid_user_create_new demo_id_externs demo_users ?req = Ok ?v"
    by (simp add: valid_user_create_new_def demo_username demo_email demo_phone demo_password)
  have "room_for ?v 102 103 ?tok \<lparr>users = [], email_tokens = [], reset_tokens = []\<rparr>"
    using length_hex[of "\<lambda>i. 0" "[0..<32]"] by (simp add: room_for_def del: upt_rec_numeral)
  moreover have "verify_password demo_users ''Passw0rd!'' ''sPassw0rd!'' = Ok ()"
    by (simp add: verify_password_def demo_users_def suffix_def)
  ultimately show ?thesis
    using registered_user_can_log_in[of "demo_srv \<lparr>users = [], email_tokens = [], reset_tokens = []\<rparr>" demo_id_externs demo_users ?req ?v
        demo_mail "''sPassw0rd!''" "demo_jwt\<lparr>jwt_encode := \<lambda>k c. Inr ''t''\<rparr>" 86400000000 ?tok _ None demo_auth, OF _ v _ _ _ _ _ _ _ _ _ refl]
    by (auto simp: demo_users_def demo_mail_def jwt_signs_def one_day_def)
qed

end
