(* ===== verification/Sessions.thy ===== *)
theory Sessions
  imports Routers Identity_Proofs
begin

text \<open>
  Sessions across the services: what a log-in at the identity service means for the requests that reach
  the other services with its token (\<open>identity/src/users/service.rs\<close>, \<open>shared/src/auth\<close>, \<open>order/src/orders/routes.rs\<close>).
\<close>

section \<open>Logging in\<close>

lemma login_user_Ok:
  assumes "login_user x y j cfg req s = (Ok (LoginSuccess tokens), s')"
  obtains name u sv where "username_new x (ul_username req) = Ok name" "u \<in> set (users (committed (fst s)))" "us_username u = name"
    "us_deleted_at u = None" "us_email_verified u" "verify_password y (ul_password req) (us_password u) = Ok ()"
    "generate_access_token x j cfg (us_id u) (us_username u) (us_role u) (pop_fault (fst s)) = (Ok (jt_access_token tokens), sv)"
proof -
  from assms obtain name u t where name: "username_new x (ul_username req) = Ok name"
    and u: "get_user_by_username x Pool name (fst s) = (Ok u, t)" and v: "us_email_verified u"
    and pw: "verify_password y (ul_password req) (us_password u) = Ok ()"
    and tok: "fst (generate_access_token x j cfg (us_id u) (us_username u) (us_role u) t) = Ok (jt_access_token tokens)"
    by (auto simp: login_user_def ok_iffs on_fst_Ok_iff ret_def throw_def split: if_splits)
  from u obtain us where found: "filter (\<lambda>u. us_username u = name \<and> us_deleted_at u = None) (users (committed (fst s))) = u # us"
      "t = pop_fault (fst s)"
    by (auto simp: get_user_by_username_def map_err_Ok_iff dest!: fetch_one_Pool_Ok)
  then have "u \<in> set (filter (\<lambda>u. us_username u = name \<and> us_deleted_at u = None) (users (committed (fst s))))" by simp
  with that[OF name, of u] v pw tok found(2) show thesis by (cases "generate_access_token x j cfg (us_id u) (us_username u) (us_role u) t") auto
qed

lemma pop_fault_time [simp]: "clock (pop_fault s) = clock s" "ticks (pop_fault s) = ticks s"
  by (simp_all add: pop_fault_def)

text \<open>The router serves a request in the name that the middleware finds.\<close>

lemma order_router_session:
  assumes "auth_handle x j cfg None header s = (if live then Ok (u, c) else Err e, t)"
  shows "order_router x j cfg header q s =
    (if live then map_err Inr (on_fst (order_handler x u q)) t else (Err (Inl e), t))"
  using assms by (simp add: order_router_def guarded_app_def bnd_def map_err_def)

section \<open>Properties\<close>

text \<open>C22: A session carries over to the other services: when a user logs in, the password is the one of a
  verified account that is not deleted, and until the token expires the order service serves every request with it exactly as
  its handler does for that account and its role; afterwards it refuses the token as expired and changes nothing.\<close>

theorem session_carries_over:
  assumes "jwt_laws j" "uuid_codec x" "login_user x y j cfg req s = (Ok (LoginSuccess tokens), s')"
    and "expiry = clock (fst s) (ticks (fst s)) div 1000000 + int (access_token_expiry_secs cfg)" "expiry < 2 ^ 63"
    and "0 \<le> clock sv (ticks sv)"
  shows "\<exists>u \<in> set (users (committed (fst s))). us_deleted_at u = None \<and> us_email_verified u \<and>
    username_new x (ul_username req) = Ok (us_username u) \<and> verify_password y (ul_password req) (us_password u) = Ok () \<and>
    order_router x j cfg (Some (''Bearer '' @ jt_access_token tokens)) q (sv, ()) =
      (if clock sv (ticks sv) div 1000000 \<le> expiry
       then map_err Inr (on_fst (order_handler x \<lparr>cu_id = us_id u, cu_role = us_role u\<rparr> q)) (sv\<lparr>ticks := Suc (ticks sv)\<rparr>, ())
       else (Err (Inl MwTokenExpired), sv\<lparr>ticks := Suc (ticks sv)\<rparr>, ()))"
proof -
  obtain name u t where u: "username_new x (ul_username req) = Ok name" "u \<in> set (users (committed (fst s)))" "us_username u = name"
      "us_deleted_at u = None" "us_email_verified u" "verify_password y (ul_password req) (us_password u) = Ok ()"
    and tok: "generate_access_token x j cfg (us_id u) (us_username u) (us_role u) (pop_fault (fst s)) = (Ok (jt_access_token tokens), t)"
    using login_user_Ok[OF assms(3)] .
  from access_token_roundtrip[OF assms(1,2) tok _ assms(5,6), of "()"] assms(4)
  obtain c where "auth_handle x j cfg None (Some (''Bearer '' @ jt_access_token tokens)) (sv, ()) =
    (if clock sv (ticks sv) div 1000000 \<le> expiry then Ok (\<lparr>cu_id = us_id u, cu_role = us_role u\<rparr>, c) else Err MwTokenExpired,
     sv\<lparr>ticks := Suc (ticks sv)\<rparr>, ())" by auto
  from order_router_session[OF this] u show ?thesis by (intro bexI[of _ u]) auto
qed

definition demo_session :: jwt_externs where
  "demo_session = table_jwt [(access_claims_json demo_id_externs demo_access, ''access''),
     (refresh_claims_json demo_id_externs (demo_refresh\<lparr>rt_jti := uuid_str demo_id_externs 102\<rparr>), ''refresh'')]"

lemma demo_session_laws: "jwt_laws demo_session"
  unfolding demo_session_def by (rule table_jwt_laws) (simp_all add: token_char_def code_char_def is_ascii_lowercase_def)

lemma demo_login:
  "login_user demo_id_externs demo_users demo_session demo_auth \<lparr>ul_username = ''ann'', ul_password = ''Passw0rd!''\<rparr>
     (demo_srv demo_accounts, None, demo_mail) =
   (Ok (LoginSuccess \<lparr>jt_access_token = ''access'', jt_refresh_token = ''refresh''\<rparr>),
    (demo_srv demo_accounts)\<lparr>ticks := 3\<rparr>, None, demo_mail)"
proof -
  have "get_user_by_username demo_id_externs Pool ''ann'' (demo_srv demo_accounts) = (Ok demo_ann, demo_srv demo_accounts)"
    by (rule found_by_username[where us = "[]"]) (simp_all add: demo_accounts_def demo_ann_def)
  moreover have "generate_access_token demo_id_externs demo_session demo_auth 1 ''ann'' Seller (demo_srv demo_accounts) =
      (Ok ''access'', (demo_srv demo_accounts)\<lparr>ticks := 1\<rparr>)"
    by (simp add: generate_access_token_def bnd_def current_timestamp_def of_result_def sign_def Let_def wrap_i64_id demo_auth_def
        demo_session_def table_jwt_def demo_access_def)
  moreover have "jwt_refresh_token demo_id_externs demo_session demo_auth 1 ((demo_srv demo_accounts)\<lparr>ticks := 1\<rparr>) =
      (Ok ''refresh'', (demo_srv demo_accounts)\<lparr>ticks := 3\<rparr>)"
    by (simp add: jwt_refresh_token_def bnd_def current_timestamp_def next_uuid_def of_result_def sign_def Let_def wrap_i64_id demo_auth_def
        demo_session_def table_jwt_def demo_access_def demo_refresh_def access_claims_json_def refresh_claims_json_def)
  ultimately show ?thesis
    by (simp add: login_user_def bnd_def of_result_def on_fst_def map_err_def ret_def demo_username demo_ann_def verify_password_def demo_users_def)
qed

theorem session_carries_over_witness:
  "order_router demo_id_externs demo_session demo_auth (Some ''Bearer access'') (RCancelOrder 4 None) (demo_srv (demo_orders []), ()) =
   map_err Inr (on_fst (order_handler demo_id_externs \<lparr>cu_id = 1, cu_role = Seller\<rparr> (RCancelOrder 4 None)))
     ((demo_srv (demo_orders []))\<lparr>ticks := 1\<rparr>, ())"
  using session_carries_over[OF demo_session_laws demo_id_simps(1) demo_login refl, of "demo_srv (demo_orders [])" "RCancelOrder 4 None"]
  by (simp add: demo_accounts_def demo_ann_def demo_auth_def del: order_handler.simps)

end
