(* ===== verification/Spec2Isabelle.thy ===== *)
theory Spec2Isabelle
  imports Inventory_Proofs Payment_Proofs Relay Jobs_Proofs Taxonomy_Proofs Catalog_Domain Kafka_Admin Sessions
begin

text \<open>
  Koupang is an e-commerce platform of Rust services. The identity service owns the accounts and issues
  tokens; the catalog sells products of a category tree; carts live in Redis; orders, stock and payments
  cooperate in a choreographed saga: the order service stores an order together with an event in its outbox
  table, a relay publishes the events to Kafka, and the consumers of the catalog, payment and order services
  react to them, each in one transaction with its own events. This development models the code of the
  services and of the shared library under them, and proves what makes it correct.

  \<^bold>\<open>How the code is modelled.\<close> A fallible function is a \<open>result\<close> (\<open>Ok\<close>, \<open>Err\<close>, and \<open>Panic\<close> for
  failed assertions and arithmetic panics); an asynchronous function with effects is an \<open>eff\<close>, a
  function from a state to a result and the next state, composed with \<open>bnd\<close> where the code has
  \<open>?\<close>, \<open>map_err\<close> where it converts errors and \<open>attempt\<close> where it matches on a result. The state is
  what the code can reach: a database session \<open>'d srv\<close> (committed data, the view of the open
  transaction, whether it is aborted, the clock, the generated identifiers and the statements that
  fail), Redis, the gateway, the producer, the mail that was sent. Tables are lists of rows in insertion order; an SQL
  statement is a function of the time and the tables that reproduces the constraints, triggers,
  defaults and column types of the migrations. A statement that fails with a lost connection has
  not been executed; a commit whose acknowledgement is lost after it took effect is not modelled.
  Identifiers are natural numbers, decimals are rationals, times are microseconds, texts are
  UTF-8 bytes. Machine integers wrap or are cast where the code's do, as in a release build: \<open>assert!\<close> and
  \<open>expect\<close> are panics of the model, \<open>debug_assert!\<close> is absent.

  \<^bold>\<open>Parameters.\<close> Code outside the repository is a field of a record or an argument. \<open>externs\<close>: the
  text forms of UUIDs, decimals and times (\<open>uuid\<close>, \<open>rust_decimal\<close>, \<open>chrono\<close>), the arithmetic of
  \<open>Decimal\<close>, JSON text (\<open>serde_json\<close>), Unicode case conversion and the messages of database
  errors. \<open>jwt_externs\<close>: signing and checking tokens (\<open>jsonwebtoken\<close>). \<open>user_externs\<close>: Argon2, Unicode
  character classes, the text of a cached user. \<open>shop_env\<close>: the text of a cached product and \<open>ILIKE\<close>. \<open>platform\<close>: what
  databases, Redis, Kafka and sockets answer when a service starts. Further the cron schedules (\<open>cron\<close>) and the payment gateway. What a theorem uses
  of them is a named hypothesis (\<open>uuid_codec\<close>, \<open>dec_codec\<close>, \<open>dt_codec\<close>, \<open>dec_exact\<close>, \<open>flat_codec\<close>, \<open>jwt_laws\<close>,
  \<open>lower_ascii\<close>, \<open>upper_ascii\<close>), each satisfied by concrete instances such as \<open>demo_externs\<close>, \<open>demo_jwt\<close>, \<open>demo_users\<close> and
  \<open>cart_externs\<close>, on which the witnesses evaluate.

  \<^bold>\<open>Theories, in the order of the code.\<close>
  \<^item> \<open>Prelude\<close>: results, effects and a weakest precondition \<open>wp\<close> with its rules, white space and
    trimming, decimal numerals, tables. \<open>Environment\<close>: JSON, casts, \<open>AppError\<close>, column types,
    \<open>externs\<close>. \<open>Database\<close>: statements, transactions and \<open>with_transaction\<close>
    (\<open>shared/src/db/transaction_support.rs\<close>).
  \<^item> \<open>Rules\<close> (\<open>shared/src/rules.rs\<close>), \<open>Money\<close> (\<open>shared/src/new_types\<close>), \<open>Auth\<close> (\<open>shared/src/auth/role.rs\<close>, \<open>guards.rs\<close>),
    \<open>Pagination\<close> (\<open>shared/src/db/pagination_support.rs\<close>), \<open>Events\<close> (\<open>shared/src/events/types.rs\<close>), \<open>Cache\<close>
    (\<open>shared/src/cache/mod.rs\<close>), \<open>Names\<close> (slugs, labels, URLs: \<open>catalog/src/common\<close>), \<open>Patterns\<close> (regular expressions of
    the identity service). \<open>Requests\<close>: the locale \<open>request_service\<close>, in which a service that keeps an invariant and writes
    only where its user may does so for every sequence of requests; it is interpreted for the catalog, the carts, the
    accounts and, behind the middleware, the routers.
  \<^item> \<open>Outbox\<close> (\<open>shared/src/outbox/{types,repository,processed}.rs\<close>): the statements on the two event
    tables. \<open>Relay\<close> (\<open>relay.rs\<close>, \<open>dedup.rs\<close>, the publishers): batches and loops, and a step relation
    \<open>relay_step\<close> in which any number of relays, recoveries, cleanups and services interleave; the
    locale \<open>event_publisher\<close> states what the relay needs of a publisher and is interpreted for
    Kafka and for the mock.
  \<^item> \<open>Consumer\<close> (\<open>shared/src/events/consumer.rs\<close>): one attempt, the retry loop, dead letters,
    offsets; the locale \<open>event_handler\<close> lifts a relation that a handler keeps inside its
    transaction to every run of the message loop, and is interpreted for the handlers of the order,
    catalog and payment services.
  \<^item> \<open>Jobs\<close>, \<open>Jobs_Proofs\<close> (\<open>shared/src/jobs\<close>): the table of persistent jobs, the registry, the runner and recurring
    schedules, with any number of runners interleaving.
  \<^item> \<open>Breaker\<close> (\<open>shared/src/circuit_breaker.rs\<close>), \<open>Lock\<close> (\<open>shared/src/distributed_lock.rs\<close>),
    \<open>Gateway\<close> (\<open>payment/src/gateway\<close>).
  \<^item> \<open>Order\<close>, \<open>Order_Service\<close>, \<open>Order_Proofs\<close> (\<open>order/src\<close>): value objects, status machine, rules;
    tables, repository, service, routes, handlers; and what they guarantee. \<open>Payloads\<close> (\<open>order/src/events/types.rs\<close>): the typed
    payloads, which the messages of the services fit.
  \<^item> \<open>Inventory\<close>, \<open>Inventory_Proofs\<close> (\<open>catalog/src/inventory\<close>, \<open>catalog/src/consumers\<close>).
  \<^item> \<open>Ledger\<close>, \<open>Payment\<close>, \<open>Payment_Proofs\<close> (\<open>payment/src\<close>).
  \<^item> \<open>Cart\<close>, \<open>Cart_Proofs\<close> (\<open>cart/src/cart\<close>): carts as Redis hashes with expiry, and their refinement to a map.
  \<^item> \<open>Taxonomy\<close>, \<open>Taxonomy_Proofs\<close> (\<open>catalog/src/categories\<close>, \<open>catalog/src/brands\<close>); \<open>Products\<close>, \<open>Product_Service\<close>, \<open>Product_Proofs\<close>
    (\<open>catalog/src/products\<close>); \<open>Catalog_Proofs\<close>, \<open>Cache_Proofs\<close>: the catalog as a whole and its cache;
    \<open>Catalog_Domain\<close> (\<open>catalog/src/*/domain.rs\<close>): stored rows as domain objects.
  \<^item> \<open>Tokens\<close> (\<open>shared/src/auth/{jwt,middleware}.rs\<close>), \<open>Users\<close>, \<open>User_Service\<close>, \<open>User_Proofs\<close>, \<open>Identity_Proofs\<close>
    (\<open>identity/src\<close>).
  \<^item> \<open>Settings\<close> (\<open>shared/src/config\<close>), \<open>Server\<close> (\<open>shared/src/server.rs\<close>, \<open>shared/src/db/mod.rs\<close>, \<open>*/src/main.rs\<close>): the environment,
    the builder, the start of the five services; the locale \<open>service\<close> is interpreted for each builder that declares a database.
    \<open>Kafka_Admin\<close> (\<open>shared/src/events/{admin,health}.rs\<close>): topics that are created when they are missing, the start of a consumer.
  \<^item> \<open>Routers\<close> (\<open>*/routes.rs\<close>): the services behind the middleware; the locale \<open>token_service\<close> extends \<open>request_service\<close>
    and a \<open>sublocale\<close> makes a guarded service one again. \<open>Sessions\<close>: from the log-in to the other services.
  \<^item> This theory: the messages between the services.

  \<^bold>\<open>What is shown.\<close>
  \<^item> \<^emph>\<open>Delivery.\<close> Transactions are all or nothing. The outbox delivers at least once under every
    interleaving and failure, and the loop of the code refines the step relation. A consumer commits
    an offset only for an event that was processed or dead-lettered, and redelivery changes nothing. Jobs are unique,
    never lost, and run within the concurrency of their runner.
  \<^item> \<^emph>\<open>The saga.\<close> Orders are stored with their events, are idempotent in their key, and follow the status machine
    whatever messages arrive. Stock is never oversold and a reservation is all or nothing. Every
    ledger transaction balances, the ledger is append-only, no order is charged twice and the chain
    of capture retries ends. The breaker keeps its invariant, decides exactly although it divides in
    \<open>f64\<close>, and shields the gateway; the lock excludes. The services read what the others wrote.
  \<^item> \<^emph>\<open>Catalog and carts.\<close> The tables stay consistent under every sequence of requests, the categories are a tree whose paths
    are the chains of ancestors, sellers cannot touch each other's products, cached reads are fresh, pages cover all rows.
    Carts stay valid and refine a map from SKUs to items.
  \<^item> \<^emph>\<open>Accounts and sessions.\<close> The accounts stay consistent and apart, the middleware sees the current user, who registers can
    log in, spent tokens are refused, the two kinds of tokens are not interchangeable, a token of a log-in speaks for its user at the other services until it
    expires, and the tokens of others harm nobody.
  \<^item> \<^emph>\<open>Start-up.\<close> Settings are well formed whatever the environment holds, and the services open what they use; a consumer that created its dead-letter topics finds them.
  \<^item> \<^emph>\<open>Unintended behaviour.\<close> Several theorems pin down what the code does not intend: listings of orders with a cursor fail, two
    lines of one SKU can never be reserved, the event of a tampered amount is lost, captures are booked in US dollars,
    back-off reorders the events of an aggregate, a timed-out job is retried forever, users promote themselves, an image of a
    foreign product can be deleted, concurrent additions exceed the limit of a cart, the cart service blames its own
    declaration when Redis is away.

  \<^bold>\<open>Bounds.\<close> \<open>process_pending\<close> runs at most 100 batches as in the code; \<open>cleanup_drain\<close> terminates
  because every batch shrinks the table; the retry loops count down the configured attempts;
  \<open>doublings\<close> searches at most 1000 steps for the exponent of a quotient of two counters, far more
  than their 64 bits need.

  \<^bold>\<open>Not modelled.\<close> Tracing, the constant health replies, the counting query of the outbox metrics and the gRPC client are input and output only. The loops that wait
  on timers, notifications and the shutdown signal (the select loops of the relay, the consumers and the job runner, and its drain)
  are represented by step relations in which a step may happen at any time. \<open>with_nested_transaction\<close> is not used by any service. The
  stub services only print a line.
\<close>

section \<open>The messages of the saga\<close>

text \<open>Each service builds its event as a JSON object and the next one reads it back field by
  field. The lemmas follow one order through the hops.\<close>

definition order_lines :: "valid_order_req \<Rightarrow> (uuid \<times> int) list" where
  "order_lines v = map (\<lambda>i. (vi_sku_id i, vi_quantity i)) (vr_items v)"

lemma collect_results_map:
  "(\<And>i. i \<in> set is \<Longrightarrow> f (g i) = Ok (h i)) \<Longrightarrow> collect_results f (map g is) = Ok (map h is)"
  by (induction "is") simp_all

lemma parse_items_created:
  assumes "uuid_codec x" "valid_order_req_new x key req = Ok v"
  shows "parse_items x (order_created_payload x oid buyer v) = Ok (order_lines v)"
proof -
  have "as_i64 (JInt (vi_quantity i)) = Some (vi_quantity i) \<and> cast_i32 (vi_quantity i) = vi_quantity i"
    if "i \<in> set (vr_items v)" for i
    using valid_order_req_quantities[OF assms(2) that]
    by (simp add: max_order_quantity_def cast_i32_id)
  then show ?thesis using assms(1)
    by (simp add: parse_items_def order_created_payload_def ok_or_def order_lines_def parse_item_def collect_results_map)
qed

lemma payload_uuid_order_id:
  assumes "uuid_codec x" "jget (payload env) field = JString (uuid_str x u)"
  shows "payload_uuid x env field = Ok u"
  using assms by (simp add: payload_uuid_def ok_or_def)

lemma catalog_reads_created:
  assumes "uuid_codec x" "valid_order_req_new x key req = Ok v" "payload env = order_created_payload x oid buyer v"
  shows "handle_order_created x env =
    map_err (\<lambda>e. Permanent (''Inventory reservation failed: '' @ app_error_str e))
      (reserve_for_order_on_tx x oid buyer (dec_str x (vr_total_amount v)) (currency_str (vr_currency v)) (order_lines v))"
proof -
  have "payload_uuid x env ''order_id'' = Ok oid" "payload_uuid x env ''buyer_id'' = Ok buyer"
    by (rule payload_uuid_order_id[OF assms(1)], simp add: assms(3) order_created_payload_def)+
  moreover have "parse_items x (payload env) = Ok (order_lines v)"
    using parse_items_created[OF assms(1,2)] assms(3) by simp
  ultimately show ?thesis
    by (simp add: fun_eq_iff handle_order_created_def bnd_def of_result_def str_or_def assms(3) order_created_payload_def)
qed

lemma payment_reads_reserved:
  assumes "uuid_codec x" "dec_codec x" "representable amount"
    and "payload env = reserved_payload x oid buyer (dec_str x amount) cur lines"
  shows "pay_handle_inventory_reserved x gw env = authorize_payment_on_tx x gw oid amount cur"
proof -
  have "payload_uuid x env ''order_id'' = Ok oid"
    by (rule payload_uuid_order_id[OF assms(1)], simp add: assms(4) reserved_payload_def)
  then show ?thesis using assms(2,3)
    by (simp add: fun_eq_iff pay_handle_inventory_reserved_def bnd_def of_result_def ok_or_def assms(4) reserved_payload_def)
qed

lemma payment_reads_confirmed:
  assumes "uuid_codec x" "payload env = confirmed_payload x oid buyer"
  shows "pay_handle_order_confirmed x gw env = capture_payment_on_tx x gw oid"
proof -
  have "payload_uuid x env ''order_id'' = Ok oid"
    by (rule payload_uuid_order_id[OF assms(1)], simp add: assms(2) confirmed_payload_def)
  then show ?thesis by (simp add: fun_eq_iff pay_handle_order_confirmed_def bnd_def of_result_def)
qed

lemma catalog_reads_cancelled:
  assumes "uuid_codec x" "payload env = order_cancelled_payload x oid buyer reason"
  shows "handle_order_cancelled x env = bnd (attempt (release_for_order_on_tx x oid)) (\<lambda>_. ret ())"
proof -
  have "payload_uuid x env ''order_id'' = Ok oid"
    by (rule payload_uuid_order_id[OF assms(1)], simp add: assms(2) order_cancelled_payload_def)
  then show ?thesis by (simp add: fun_eq_iff handle_order_cancelled_def bnd_def of_result_def)
qed

text \<open>C13: The services understand each other along the whole order flow: the catalog reserves for
  exactly the order, buyer, amount, currency and lines that the order service validated, the
  payment service authorizes exactly that amount and currency, captures and releases address the
  same order. Nothing is lost or rounded between the JSON that one service writes and the values
  that the next one acts on.\<close>

theorem saga_messages_understood:
  assumes "uuid_codec x" "dec_codec x" "valid_order_req_new x key req = Ok v" "representable (vr_total_amount v)"
    and "payload created = order_created_payload x oid buyer v"
    and "payload reserved = reserved_payload x oid buyer (str_or (jget (payload created) ''total_amount'') ''0'')
           (str_or (jget (payload created) ''currency'') ''USD'') (order_lines v)"
    and "payload confirmed = confirmed_payload x oid buyer"
    and "payload cancelled = order_cancelled_payload x oid buyer reason"
  shows "handle_order_created x created =
      map_err (\<lambda>e. Permanent (''Inventory reservation failed: '' @ app_error_str e))
        (reserve_for_order_on_tx x oid buyer (dec_str x (vr_total_amount v)) (currency_str (vr_currency v)) (order_lines v)) \<and>
    pay_handle_inventory_reserved x gw reserved =
      authorize_payment_on_tx x gw oid (vr_total_amount v) (currency_str (vr_currency v)) \<and>
    pay_handle_order_confirmed x gw confirmed = capture_payment_on_tx x gw oid \<and>
    handle_order_cancelled x cancelled = bnd (attempt (release_for_order_on_tx x oid)) (\<lambda>_. ret ())"
proof -
  have "payload reserved =
      reserved_payload x oid buyer (dec_str x (vr_total_amount v)) (currency_str (vr_currency v)) (order_lines v)"
    using assms(5,6) by (simp add: order_created_payload_def str_or_def)
  from payment_reads_reserved[OF assms(1,2,4) this] catalog_reads_created[OF assms(1,3,5)]
    payment_reads_confirmed[OF assms(1,7)] catalog_reads_cancelled[OF assms(1,8)]
  show ?thesis by blast
qed

theorem saga_messages_understood_witness:
  "pay_handle_inventory_reserved demo_externs (mock_gateway_ops demo_externs mock_always_succeeds)
     (demo_envelope InventoryReserved (reserved_payload demo_externs 7 9 (dec_str demo_externs 10) ''USD'' [(2, 2)])) =
   authorize_payment_on_tx demo_externs (mock_gateway_ops demo_externs mock_always_succeeds) 7 10 ''USD''"
  using saga_messages_understood[OF demo_codecs(1,2) demo_request_valid,
      where created = "demo_envelope OrderCreated (order_created_payload demo_externs 7 9 demo_valid)"
        and reserved = "demo_envelope InventoryReserved
           (reserved_payload demo_externs 7 9 (dec_str demo_externs 10) ''USD'' [(2, 2)])"
        and confirmed = "demo_envelope OrderConfirmed (confirmed_payload demo_externs 7 9)"
        and cancelled = "demo_envelope OrderCancelled (order_cancelled_payload demo_externs 7 9 ''r'')"
        and oid = 7 and buyer = 9 and reason = "''r''" and gw = "mock_gateway_ops demo_externs mock_always_succeeds"]
  by (simp add: demo_envelope_def order_created_payload_def str_or_def demo_valid_def order_lines_def)

end
